(* ===== verification/Prelude.thy ===== *)
theory Prelude
  imports Complex_Main "HOL-Library.Word"
begin

text \<open>
  Shared vocabulary of the development: machine integer types, the values of the
  \<open>common::Error\<close> and \<open>common::ErrnoError\<close> results, IEEE doubles as far as the sources
  compare them, decimal printing (\<open>%llu\<close>) and reading, character classes used by the
  regular expressions of the sources, and generic lemmas on lists and maps.
  The string converters of the \<open>common\<close> library (\<open>common::ConvertFromString\<close>) are not part of
  the repository: they are a record of functions that every definition using them takes as an
  argument.
\<close>

section \<open>Lemma collections\<close>

named_theorems api_simps \<open>accessors and small helpers unfolded by every component proof\<close>
named_theorems text_simps \<open>facts on printed numbers and character classes\<close>

section \<open>Machine integers and results\<close>

type_synonym u8 = "8 word"
type_synonym u16 = "16 word"
type_synonym u32 = "32 word"
type_synonym u64 = "64 word"

lemma unat_of_nat_small: "n < 2 ^ LENGTH('n) \<Longrightarrow> unat (of_nat n :: ('n::len) word) = n"
  by (simp add: unsigned_of_nat take_bit_nat_eq_self)

text \<open>\<open>common::Error\<close>: either the anonymous invalid-argument error or a text.\<close>

datatype error = Error_inval | Error_text string

text \<open>\<open>common::ErrnoError\<close>: a description and an errno code.\<close>

datatype errno = EINVAL | EAGAIN | ENOMEM | Errno_code int

datatype errno_error = Errno_inval | Errno_error string errno

fun GetDescription :: "error \<Rightarrow> string" where
  "GetDescription Error_inval = ''Invalid argument''"
| "GetDescription (Error_text s) = s"

text \<open>
  A computation that may end the process (a failed \<open>CHECK\<close>) returns \<open>Abort\<close>.
\<close>

datatype 'a outcome = Ret 'a | Abort

lemma if_abort_Ret: "(if c then Abort else Ret x) = Ret y \<Longrightarrow> y = x"
  by (simp split: if_splits)

section \<open>Doubles, as far as the sources compare them\<close>

datatype f64 = F64_nan | F64_neg_inf | F64_pos_inf | F64 rat

fun f64_le :: "f64 \<Rightarrow> f64 \<Rightarrow> bool" where
  "f64_le (F64 a) (F64 b) = (a \<le> b)"
| "f64_le F64_neg_inf (F64 b) = True"
| "f64_le F64_neg_inf F64_neg_inf = True"
| "f64_le F64_neg_inf F64_pos_inf = True"
| "f64_le (F64 a) F64_pos_inf = True"
| "f64_le F64_pos_inf F64_pos_inf = True"
| "f64_le _ _ = False"

section \<open>String converters of the common library\<close>

text \<open>
  \<open>common::ConvertFromString\<close> for the target types the sources ask for; \<open>None\<close> is the
  return value \<open>false\<close>. Signed C integers are represented by their value.
\<close>

record conv =
  cv_u8 :: "string \<Rightarrow> u8 option"
  cv_u16 :: "string \<Rightarrow> u16 option"
  cv_u32 :: "string \<Rightarrow> u32 option"
  cv_u64 :: "string \<Rightarrow> u64 option"
  cv_i32 :: "string \<Rightarrow> int option"
  cv_i64 :: "string \<Rightarrow> int option"
  cv_bool :: "string \<Rightarrow> bool option"
  cv_f64 :: "string \<Rightarrow> f64 option"
  cv_size :: "string \<Rightarrow> (int \<times> int) option"
  cv_point :: "string \<Rightarrow> (int \<times> int) option"
  cv_rational :: "string \<Rightarrow> (int \<times> int) option"

section \<open>Decimal numbers\<close>

definition is_digit :: "char \<Rightarrow> bool" where
  "is_digit c \<longleftrightarrow> 48 \<le> (of_char c :: nat) \<and> (of_char c :: nat) \<le> 57"

definition digit_char :: "nat \<Rightarrow> char" where
  "digit_char d = char_of (48 + d)"

definition digit_val :: "char \<Rightarrow> nat" where
  "digit_val c = of_char c - 48"

lemma is_digit_digit_char [simp, text_simps]: "d < 10 \<Longrightarrow> is_digit (digit_char d)"
  by (simp add: is_digit_def digit_char_def)

lemma digit_val_digit_char [simp, text_simps]: "d < 10 \<Longrightarrow> digit_val (digit_char d) = d"
  by (simp add: digit_val_def digit_char_def)

fun dec :: "nat \<Rightarrow> string" where
  "dec n = (if n < 10 then [digit_char n] else dec (n div 10) @ [digit_char (n mod 10)])"

declare dec.simps [simp del]

definition read_dec :: "string \<Rightarrow> nat option" where
  "read_dec s = (if s \<noteq> [] \<and> list_all is_digit s
     then Some (foldl (\<lambda>v c. 10 * v + digit_val c) 0 s) else None)"

lemma dec_nonempty [simp, text_simps]: "dec n \<noteq> []"
  by (subst dec.simps) simp

lemma dec_digits [simp, text_simps]: "list_all is_digit (dec n)"
proof (induction n rule: dec.induct)
  case (1 n)
  then show ?case by (cases "n < 10") (simp_all add: dec.simps [of n])
qed

lemma dec_digit_set: "c \<in> set (dec n) \<Longrightarrow> is_digit c"
  using dec_digits [of n] by (simp add: list_all_iff)

lemma foldl_dec: "foldl (\<lambda>v c. 10 * v + digit_val c) 0 (dec n) = n"
proof (induction n rule: dec.induct)
  case (1 n)
  then show ?case by (cases "n < 10") (simp_all add: dec.simps [of n])
qed

lemma read_dec_dec [simp, text_simps]: "read_dec (dec n) = Some n"
  by (simp add: read_dec_def foldl_dec)

text \<open>\<open>%llu\<close> of an unsigned 64-bit value.\<close>

definition fmt_u64 :: "u64 \<Rightarrow> string" where
  "fmt_u64 w = dec (unat w)"

text \<open>
  What the sources rely on when they read a printed number back: the converter accepts the
  decimal digits of a 64-bit value and yields that value.
\<close>

definition reads_u64 :: "('a conv_scheme) \<Rightarrow> bool" where
  "reads_u64 cv \<longleftrightarrow> (\<forall>w. cv_u64 cv (fmt_u64 w) = Some w)"

text \<open>A concrete set of converters, for evaluating the definitions on concrete inputs.\<close>

definition std_u :: "string \<Rightarrow> ('n::len) word option" where
  "std_u s = (case read_dec s of None \<Rightarrow> None
     | Some n \<Rightarrow> if n < 2 ^ LENGTH('n) then Some (of_nat n) else None)"

definition std_i :: "nat \<Rightarrow> string \<Rightarrow> int option" where
  "std_i b s = (case s of [] \<Rightarrow> None
     | c # r \<Rightarrow> if c = CHR ''-''
         then (case read_dec r of Some n \<Rightarrow> if n \<le> 2 ^ b then Some (- int n) else None
               | None \<Rightarrow> None)
         else (case read_dec s of Some n \<Rightarrow> if n < 2 ^ b then Some (int n) else None
               | None \<Rightarrow> None))"

definition std_conv :: conv where
  "std_conv = \<lparr>cv_u8 = std_u, cv_u16 = std_u, cv_u32 = std_u, cv_u64 = std_u,
     cv_i32 = std_i 31, cv_i64 = std_i 63,
     cv_bool = (\<lambda>s. if s = ''true'' then Some True else if s = ''false'' then Some False else None),
     cv_f64 = (\<lambda>s. map_option (\<lambda>n. F64 (rat_of_nat n)) (read_dec s)),
     cv_size = (\<lambda>s. None), cv_point = (\<lambda>s. None), cv_rational = (\<lambda>s. None)\<rparr>"

lemma reads_u64_std [simp]: "reads_u64 std_conv"
proof -
  have "unat (w :: u64) < 18446744073709551616" for w
    using unsigned_less [of w, where ?'a = nat] by simp
  then show ?thesis
    by (simp add: reads_u64_def std_conv_def std_u_def fmt_u64_def)
qed

section \<open>Character classes\<close>

text \<open>\<open>std::isspace\<close> in the C locale.\<close>

definition isspace :: "char \<Rightarrow> bool" where
  "isspace c \<longleftrightarrow> (of_char c :: nat) = 32 \<or> (9 \<le> (of_char c :: nat) \<and> (of_char c :: nat) \<le> 13)"

definition is_upper :: "char \<Rightarrow> bool" where
  "is_upper c \<longleftrightarrow> 65 \<le> (of_char c :: nat) \<and> (of_char c :: nat) \<le> 90"

definition is_lower :: "char \<Rightarrow> bool" where
  "is_lower c \<longleftrightarrow> 97 \<le> (of_char c :: nat) \<and> (of_char c :: nat) \<le> 122"

text \<open>The class \<open>[A-Za-z0-9_]\<close>.\<close>

definition is_word_char :: "char \<Rightarrow> bool" where
  "is_word_char c \<longleftrightarrow> is_upper c \<or> is_lower c \<or> is_digit c \<or> c = CHR ''_''"

lemma isspace_blank [simp, text_simps]: "isspace (CHR '' '')"
  by (simp add: isspace_def)

lemma digit_not_space [simp, text_simps]: "is_digit c \<Longrightarrow> \<not> isspace c"
  by (auto simp: is_digit_def isspace_def)

lemma word_char_not_space [simp, text_simps]: "is_word_char c \<Longrightarrow> \<not> isspace c"
  by (auto simp: is_word_char_def is_upper_def is_lower_def is_digit_def isspace_def)

lemma digit_is_word_char [simp, text_simps]: "is_digit c \<Longrightarrow> is_word_char c"
  by (simp add: is_word_char_def)

text \<open>The suffix after a literal prefix, if the text starts with it.\<close>

fun after_prefix :: "string \<Rightarrow> string \<Rightarrow> string option" where
  "after_prefix [] s = Some s"
| "after_prefix (p # ps) [] = None"
| "after_prefix (p # ps) (c # s) = (if p = c then after_prefix ps s else None)"

lemma after_prefix_append [simp]: "after_prefix p (p @ s) = Some s"
  by (induction p) auto

lemma after_prefix_SomeD: "after_prefix p s = Some r \<Longrightarrow> s = p @ r"
  by (induction p s rule: after_prefix.induct) (auto split: if_splits)

text \<open>\<open>std::string::find\<close> of a character: the text before and after its first occurrence.\<close>

fun split_first :: "char \<Rightarrow> string \<Rightarrow> (string \<times> string) option" where
  "split_first d [] = None"
| "split_first d (c # s) = (if c = d then Some ([], s)
     else map_option (\<lambda>(a, b). (c # a, b)) (split_first d s))"

lemma split_first_append [simp]: "d \<notin> set a \<Longrightarrow> split_first d (a @ d # b) = Some (a, b)"
  by (induction a) auto

lemma split_first_None [simp]: "d \<notin> set s \<Longrightarrow> split_first d s = None"
  by (induction s) auto

lemma split_first_SomeD: "split_first d s = Some (a, b) \<Longrightarrow> s = a @ d # b \<and> d \<notin> set a"
  by (induction s arbitrary: a) (auto split: if_splits)

end
