(* ===== verification/Chunks.thy ===== *)
theory Chunks
  imports Prelude
begin

text \<open>
  Components \<open>utils/chunk_info\<close>, \<open>utils/arg_reader\<close> and \<open>utils/arg_converter\<close>: the description
  of a media chunk with its text form and its orderings, and the option maps the service and
  the streams are configured with.
\<close>

section \<open>Option maps\<close>

type_synonym ArgsMap = "string \<rightharpoonup> string"

definition GetKeyValue :: "string \<Rightarrow> char \<Rightarrow> string \<times> string" where
  "GetKeyValue line separator =
     (case split_first separator line of
        Some (key, value) \<Rightarrow> (key, value)
      | None \<Rightarrow> (line, []))"

definition ArgsGetValue :: "(string \<Rightarrow> 'a option) \<Rightarrow> ArgsMap \<Rightarrow> string \<Rightarrow> 'a option" where
  "ArgsGetValue conv args key =
     (case args key of None \<Rightarrow> None | Some v \<Rightarrow> conv v)"

text \<open>\<open>ConvertFromString\<close> to a string (\<open>utils/arg_converter.cpp\<close>) is the identity.\<close>

definition ConvertFromString_string :: "string \<Rightarrow> string option" where
  "ConvertFromString_string from = Some from"

lemma ArgsGetValue_Some [api_simps]:
  "ArgsGetValue conv args key = Some x \<longleftrightarrow> (\<exists>v. args key = Some v \<and> conv v = Some x)"
  by (auto simp: ArgsGetValue_def split: option.splits)

section \<open>Chunk descriptions\<close>

record ChunkInfo =
  ci_path :: string
  ci_duration :: u64
  ci_index :: u64

definition ChunkInfo0 :: ChunkInfo where
  "ChunkInfo0 = \<lparr>ci_path = [], ci_duration = 0, ci_index = 0\<rparr>"

definition chunk_less :: "ChunkInfo \<Rightarrow> ChunkInfo \<Rightarrow> bool" where
  "chunk_less left right =
     (if ci_duration left \<noteq> ci_duration right then ci_duration left < ci_duration right
      else ci_index left < ci_index right)"

definition chunk_greater :: "ChunkInfo \<Rightarrow> ChunkInfo \<Rightarrow> bool" where
  "chunk_greater left right =
     (if ci_duration left \<noteq> ci_duration right then ci_duration left > ci_duration right
      else ci_index left > ci_index right)"

definition ConvertToString_ChunkInfo :: "ChunkInfo \<Rightarrow> string" where
  "ConvertToString_ChunkInfo value =
     ci_path value @ '':'' @ fmt_u64 (ci_index value) @ '':'' @ fmt_u64 (ci_duration value)"

text \<open>
  The character loop of \<open>ConvertFromString\<close>: \<open>pos\<close> counts the colons seen, \<open>line\<close> is the
  current field, and the second colon ends the loop.
\<close>

fun chunk_loop :: "'a conv_scheme \<Rightarrow> nat \<Rightarrow> string \<Rightarrow> ChunkInfo \<Rightarrow> string \<Rightarrow> ChunkInfo" where
  "chunk_loop cv pos line res [] = res"
| "chunk_loop cv pos line res (c # rest) =
     (if c = CHR '':'' then
        (if pos = 0 then chunk_loop cv (Suc pos) [] (res\<lparr>ci_path := line\<rparr>) rest
         else
           (let res1 = (case cv_u64 cv line of Some ind \<Rightarrow> res\<lparr>ci_index := ind\<rparr> | None \<Rightarrow> res);
                res2 = (case cv_u64 cv rest of Some lts \<Rightarrow> res1\<lparr>ci_duration := lts\<rparr> | None \<Rightarrow> res1)
            in res2))
      else chunk_loop cv pos (line @ [c]) res rest)"

definition ConvertFromString_ChunkInfo :: "'a conv_scheme \<Rightarrow> string \<Rightarrow> ChunkInfo option" where
  "ConvertFromString_ChunkInfo cv from =
     (if from = [] then None else Some (chunk_loop cv 0 [] ChunkInfo0 from))"

lemma chunk_loop_field:
  "CHR '':'' \<notin> set f \<Longrightarrow>
   chunk_loop cv pos line res (f @ rest) = chunk_loop cv pos (line @ f) res rest"
  by (induction f arbitrary: line) auto

lemma fmt_u64_no_char [text_simps]: "\<not> is_digit c \<Longrightarrow> c \<notin> set (fmt_u64 w)"
  using dec_digit_set [of c "unat w"] by (auto simp: fmt_u64_def)

lemma fmt_u64_no_colon [simp, text_simps]: "CHR '':'' \<notin> set (fmt_u64 w)"
  by (rule fmt_u64_no_char) (simp add: is_digit_def)

text \<open>
  A chunk whose path holds no colon survives the text form used by the service: reading
  back what \<open>ConvertToString\<close> printed gives the same path, index and duration, for every 64-bit
  index and duration.
\<close>

theorem chunk_text_roundtrip:
  assumes "reads_u64 cv" and "CHR '':'' \<notin> set (ci_path c)"
  shows "ConvertFromString_ChunkInfo cv (ConvertToString_ChunkInfo c) = Some c"
proof -
  have "chunk_loop cv 0 [] ChunkInfo0 (ConvertToString_ChunkInfo c) = c"
    using assms
    by (simp add: ConvertToString_ChunkInfo_def chunk_loop_field ChunkInfo0_def reads_u64_def)
  then show ?thesis
    by (simp add: ConvertFromString_ChunkInfo_def ConvertToString_ChunkInfo_def)
qed

theorem chunk_text_roundtrip_witness:
  "ConvertFromString_ChunkInfo std_conv
     (ConvertToString_ChunkInfo \<lparr>ci_path = ''7.ts'', ci_duration = 10, ci_index = 7\<rparr>)
   = Some \<lparr>ci_path = ''7.ts'', ci_duration = 10, ci_index = 7\<rparr>"
  by (rule chunk_text_roundtrip) simp_all

text \<open>
  The two comparison operators of chunks describe one strict weak order: \<open>>\<close> is the
  converse of \<open><\<close>, \<open><\<close> is irreflexive and transitive, and two chunks are incomparable exactly
  when they agree on duration and index, so sorting by either operator is well defined.
\<close>

theorem chunk_order_strict_weak:
  "chunk_greater a b = chunk_less b a \<and> \<not> chunk_less a a
   \<and> (chunk_less a b \<and> chunk_less b c \<longrightarrow> chunk_less a c)
   \<and> ((\<not> chunk_less a b \<and> \<not> chunk_less b a)
       = (ci_duration a = ci_duration b \<and> ci_index a = ci_index b))"
  by (auto simp: chunk_less_def chunk_greater_def split: if_splits)

theorem chunk_order_strict_weak_witness:
  "chunk_less \<lparr>ci_path = [], ci_duration = 1, ci_index = 9\<rparr> \<lparr>ci_path = [], ci_duration = 3, ci_index = 0\<rparr>"
  using chunk_order_strict_weak
    [of "\<lparr>ci_path = [], ci_duration = 1, ci_index = 9\<rparr>" "\<lparr>ci_path = [], ci_duration = 2, ci_index = 5\<rparr>"
        "\<lparr>ci_path = [], ci_duration = 3, ci_index = 0\<rparr>"]
  by (simp add: chunk_less_def)

end
