(* ===== verification/M3u8.thy ===== *)
theory M3u8
  imports Chunks
begin

text \<open>
  Components \<open>utils/m3u8_reader\<close> and \<open>utils/m3u8_writer\<close>: reading and writing HLS playlists.
  A file is its content and a position; \<open>fgets\<close>, \<open>ftell\<close> and \<open>fseek\<close> act on the position as the C
  library specifies. What C++ leaves undefined is the outcome \<open>Abort\<close>: reading \<open>back()\<close> of an empty
  string, \<open>isspace\<close> of a negative \<open>char\<close> (a byte from 0x80 on, \<open>char\<close> being signed), and the conversion
  of a floating-point number to an integer type that cannot hold it. The regular expressions are translated to the functions that compute what they match
  and capture. Floating-point formatting and scaling are parameters (record \<open>fp\<close>).
\<close>

section \<open>C files\<close>

record cfile =
  fcontent :: string
  fpos :: nat

definition nl :: char where "nl = CHR 0x0A"
definition nul :: char where "nul = CHR 0x00"
definition cr :: char where "cr = CHR 0x0D"

definition MAX_LINE :: nat where "MAX_LINE = 255"

text \<open>\<open>fgets\<close> reads up to \<open>MAX_LINE - 1\<close> characters and stops after a newline.\<close>

fun fgets_take :: "nat \<Rightarrow> string \<Rightarrow> string" where
  "fgets_take 0 s = []"
| "fgets_take (Suc n) [] = []"
| "fgets_take (Suc n) (c # s) = (if c = nl then [c] else c # fgets_take n s)"

definition fgets :: "cfile \<Rightarrow> (string \<times> cfile) option" where
  "fgets f = (let s = drop (fpos f) (fcontent f) in
     if s = [] then None
     else let t = fgets_take (MAX_LINE - 1) s in Some (t, f\<lparr>fpos := fpos f + length t\<rparr>))"

definition remaining :: "cfile \<Rightarrow> nat" where
  "remaining f = length (fcontent f) - fpos f"

text \<open>\<open>fseek\<close> with \<open>SEEK_SET\<close>: a negative offset is refused and leaves the position.\<close>

definition fseek_set :: "cfile \<Rightarrow> int \<Rightarrow> cfile" where
  "fseek_set f off = (if off < 0 then f else f\<lparr>fpos := nat off\<rparr>)"

lemma fgets_take_bounds: "length (fgets_take n s) \<le> length s"
  by (induction n s rule: fgets_take.induct) auto

lemma fgets_take_pos: "0 < n \<Longrightarrow> s \<noteq> [] \<Longrightarrow> fgets_take n s \<noteq> []"
  by (cases "(n, s)" rule: fgets_take.cases) auto

lemma fgets_SomeD:
  assumes "fgets f = Some (t, f')"
  shows "remaining f' < remaining f" "fcontent f' = fcontent f"
    "fpos f' = fpos f + length t" "t \<noteq> []" "fpos f' \<le> length (fcontent f)"
proof -
  let ?s = "drop (fpos f) (fcontent f)"
  have s: "?s \<noteq> []" and t: "t = fgets_take (MAX_LINE - 1) ?s"
    and f': "f' = f\<lparr>fpos := fpos f + length t\<rparr>"
    using assms by (auto simp: fgets_def Let_def split: if_splits)
  show "t \<noteq> []" using fgets_take_pos [of "MAX_LINE - 1" ?s] s t by (simp add: MAX_LINE_def)
  moreover have "length t \<le> length ?s" unfolding t by (rule fgets_take_bounds)
  ultimately show "remaining f' < remaining f" "fpos f' \<le> length (fcontent f)"
    using f' s by (auto simp: remaining_def simp flip: length_greater_0_conv)
  show "fcontent f' = fcontent f" "fpos f' = fpos f + length t" using f' by simp_all
qed

section \<open>Lines\<close>

text \<open>The values of \<open>char\<close> the functions of \<open><cctype>\<close> are defined for.\<close>

definition ctype_ok :: "char \<Rightarrow> bool" where
  "ctype_ok c \<longleftrightarrow> (of_char c :: nat) < 128"

text \<open>
  The buffer holds a line when its first character that is not white space is not the
  terminator; the line is the buffer as a C string. The search looks at the characters up to that one.
\<close>

definition buffer_has_text :: "string \<Rightarrow> bool outcome" where
  "buffer_has_text t = (case dropWhile isspace t of [] \<Rightarrow> Ret False
     | c # _ \<Rightarrow> if ctype_ok c then Ret (c \<noteq> nul) else Abort)"

function GetNonEmptyLine :: "cfile \<Rightarrow> (string \<times> cfile) option outcome" where
  "GetNonEmptyLine f = (case fgets f of
       None \<Rightarrow> Ret None
     | Some (t, f') \<Rightarrow>
        (case buffer_has_text t of
           Abort \<Rightarrow> Abort
         | Ret True \<Rightarrow> Ret (Some (takeWhile (\<lambda>c. c \<noteq> nul) t, f'))
         | Ret False \<Rightarrow> GetNonEmptyLine f'))"
  by pat_completeness auto
termination
  by (relation "measure remaining") (auto dest: fgets_SomeD)

declare GetNonEmptyLine.simps [simp del]

text \<open>\<open>while (std::isspace(str->back())) str->pop_back();\<close>\<close>

function strip_loop :: "string \<Rightarrow> string outcome" where
  "strip_loop s = (if s = [] \<or> \<not> ctype_ok (last s) then Abort
     else if isspace (last s) then strip_loop (butlast s) else Ret s)"
  by pat_completeness auto
termination
  by (relation "measure length") auto

declare strip_loop.simps [simp del]

definition RemoveTrailingSpaces :: "string \<Rightarrow> string outcome" where
  "RemoveTrailingSpaces s = (if s = [] then Ret s else strip_loop s)"

lemma takeWhile_keeps_first:
  assumes "dropWhile P t = c # r" "\<And>x. P x \<Longrightarrow> Q x" "Q c"
  shows "c \<in> set (takeWhile Q t)"
  using assms(1) by (induction t) (auto simp: assms(2,3) split: if_splits)

lemma buffer_has_textD: "buffer_has_text t = Ret True \<Longrightarrow> \<exists>c \<in> set (takeWhile (\<lambda>c. c \<noteq> nul) t). \<not> isspace c"
proof -
  assume t: "buffer_has_text t = Ret True"
  obtain c r where c: "dropWhile isspace t = c # r" "c \<noteq> nul"
    using t by (auto simp: buffer_has_text_def split: list.splits if_splits)
  have "c \<in> set (takeWhile (\<lambda>c. c \<noteq> nul) t)"
    by (rule takeWhile_keeps_first [OF c(1)]) (auto simp: isspace_def nul_def c(2) [unfolded nul_def])
  moreover have "\<not> isspace c" using hd_dropWhile [of isspace t] c(1) by simp
  ultimately show ?thesis by blast
qed

lemma fgets_infix: "fgets f = Some (t, f') \<Longrightarrow> \<exists>x y. fcontent f = x @ t @ y"
proof -
  assume "fgets f = Some (t, f')"
  then have t: "t = fgets_take (MAX_LINE - 1) (drop (fpos f) (fcontent f))" by (simp add: fgets_def Let_def split: if_splits)
  have "\<exists>y. s = fgets_take n s @ y" for n s
    by (induction n s rule: fgets_take.induct) auto
  then obtain y where "drop (fpos f) (fcontent f) = t @ y" unfolding t by blast
  then have "fcontent f = take (fpos f) (fcontent f) @ t @ y" by (metis append_take_drop_id)
  then show ?thesis by blast
qed

text \<open>A line that is read advances the file, is a part of its content and is not blank.\<close>

lemma GetNonEmptyLine_SomeD:
  assumes "GetNonEmptyLine f = Ret (Some (l, f'))"
  shows "remaining f' < remaining f \<and> fcontent f' = fcontent f \<and> (\<exists>c \<in> set l. \<not> isspace c)
     \<and> fpos f' \<le> length (fcontent f) \<and> (\<exists>x y. fcontent f = x @ l @ y)"
  using assms
proof (induction f rule: GetNonEmptyLine.induct)
  case (1 f)
  obtain t f1 where t: "fgets f = Some (t, f1)"
    using 1(2) by (auto simp: GetNonEmptyLine.simps [of f] split: option.splits)
  note fg = fgets_SomeD [OF t]
  obtain b where b: "buffer_has_text t = Ret b"
    using 1(2) t by (auto simp: GetNonEmptyLine.simps [of f] split: outcome.splits)
  show ?case
  proof (cases b)
    case True
    then have l: "l = takeWhile (\<lambda>c. c \<noteq> nul) t" and f': "f' = f1"
      using 1(2) t b by (simp_all add: GetNonEmptyLine.simps [of f])
    obtain x y where "fcontent f = x @ t @ y" using fgets_infix [OF t] by blast
    then have "fcontent f = x @ l @ dropWhile (\<lambda>c. c \<noteq> nul) t @ y"
      unfolding l by (metis append.assoc takeWhile_dropWhile_id)
    then show ?thesis using fg f' b True buffer_has_textD [of t] l by auto
  next
    case False
    then have "GetNonEmptyLine f1 = Ret (Some (l, f'))"
      using 1(2) t b by (simp add: GetNonEmptyLine.simps [of f])
    from 1(1) [OF t refl b _ this] fg False show ?thesis by auto
  qed
qed

lemma GetNonEmptyLine_ok: "list_all ctype_ok (fcontent f) \<Longrightarrow> GetNonEmptyLine f \<noteq> Abort"
proof (induction f rule: GetNonEmptyLine.induct)
  case (1 f)
  show ?case
  proof (cases "fgets f")
    case (Some p)
    obtain t f1 where p: "p = (t, f1)" by (cases p)
    note t = Some [unfolded p]
    have "list_all ctype_ok t" using fgets_infix [OF t] 1(2) by auto
    then have "buffer_has_text t \<noteq> Abort"
      by (auto simp: buffer_has_text_def list_all_iff split: list.split dest: arg_cong [where f = set] set_dropWhileD)
        (metis list.set_intros(1) set_dropWhileD)
    then obtain b where b: "buffer_has_text t = Ret b" by (cases "buffer_has_text t") auto
    show ?thesis using 1(1) [OF t refl b] 1(2) fgets_SomeD(2) [OF t] t b
      by (cases b) (simp_all add: GetNonEmptyLine.simps [of f])
  qed (simp add: GetNonEmptyLine.simps [of f])
qed

lemma strip_loop_ok: "\<exists>c \<in> set s. \<not> isspace c \<Longrightarrow> list_all ctype_ok s \<Longrightarrow> \<exists>r. strip_loop s = Ret r"
proof (induction s rule: rev_induct)
  case (snoc c s)
  then show ?case by (cases "isspace c") (auto simp: strip_loop.simps [of "s @ [c]"])
qed simp

lemma strip_line_ok: "\<exists>c \<in> set s. \<not> isspace c \<Longrightarrow> list_all ctype_ok s \<Longrightarrow> \<exists>r. RemoveTrailingSpaces s = Ret r"
  using strip_loop_ok [of s] by (simp add: RemoveTrailingSpaces_def)

lemma strip_prefix: "RemoveTrailingSpaces s = Ret r \<Longrightarrow> \<exists>w. s = r @ w"
proof -
  have "strip_loop s = Ret r \<Longrightarrow> \<exists>w. s = r @ w"
  proof (induction s rule: rev_induct)
    case (snoc c s)
    then show ?case by (cases "isspace c") (auto simp: strip_loop.simps [of "s @ [c]"] split: if_splits)
  qed (simp add: strip_loop.simps)
  then show "RemoveTrailingSpaces s = Ret r \<Longrightarrow> \<exists>w. s = r @ w"
    by (auto simp: RemoveTrailingSpaces_def split: if_splits)
qed

lemma space_ctype_ok: "isspace c \<Longrightarrow> ctype_ok c"
  by (auto simp: isspace_def ctype_ok_def)

lemma strip_spaces:
  assumes "\<not> isspace (last l)" "l \<noteq> []" "ctype_ok (last l)" "list_all isspace w"
  shows "RemoveTrailingSpaces (l @ w) = Ret l"
proof -
  have "strip_loop (l @ w) = Ret l"
    using assms(4)
  proof (induction w rule: rev_induct)
    case Nil
    then show ?case using assms(1-3) by (simp add: strip_loop.simps [of l])
  next
    case (snoc x w)
    then show ?case using assms(2) space_ctype_ok [of x]
      by (simp add: strip_loop.simps [of "l @ w @ [x]"] butlast_append)
  qed
  then show ?thesis using assms(2) by (simp add: RemoveTrailingSpaces_def)
qed

section \<open>The reader\<close>

text \<open>
  Floating-point arithmetic and formatting, kept abstract: the duration in seconds, the format \<open>%.2f\<close>, and
  the product with \<open>SECOND\<close>.
\<close>

record fp =
  fp_secs :: "u64 \<Rightarrow> f64"
  fp_fmt2 :: "f64 \<Rightarrow> string"
  fp_scale :: "f64 \<Rightarrow> f64"

text \<open>\<open>static_cast<uint64_t>\<close> of a \<open>double\<close>: undefined when the truncated value does not fit.\<close>

fun cast_u64 :: "f64 \<Rightarrow> u64 outcome" where
  "cast_u64 (F64 q) = (if - 1 < q \<and> q < 2 ^ 64 then Ret (of_nat (nat \<lfloor>q\<rfloor>)) else Abort)"
| "cast_u64 _ = Abort"

record M3u8Reader =
  mr_version :: int
  mr_allow_cache :: bool
  mr_media_sequence :: int
  mr_target_duration :: int
  mr_chunks :: "ChunkInfo list"

definition M3u8Reader_Clear :: "M3u8Reader \<Rightarrow> M3u8Reader" where
  "M3u8Reader_Clear r = r\<lparr>mr_version := -1, mr_allow_cache := False, mr_media_sequence := -1,
     mr_target_duration := -1, mr_chunks := []\<rparr>"

text \<open>\<open>^PREFIX([0-9]+)$\<close> and \<open>^PREFIX([A-Z]+)$\<close>.\<close>

definition re_tag :: "(char \<Rightarrow> bool) \<Rightarrow> string \<Rightarrow> string \<Rightarrow> string option" where
  "re_tag cls pre line = (case after_prefix pre line of
       None \<Rightarrow> None
     | Some r \<Rightarrow> if r \<noteq> [] \<and> list_all cls r then Some r else None)"

definition is_digit_or_dot :: "char \<Rightarrow> bool" where
  "is_digit_or_dot c \<longleftrightarrow> is_digit c \<or> c = CHR ''.''"

text \<open>\<open>^#EXTINF:([0-9.]+),$\<close>.\<close>

definition re_chunk_header :: "string \<Rightarrow> string option" where
  "re_chunk_header line = (case after_prefix ''#EXTINF:'' line of
       None \<Rightarrow> None
     | Some r \<Rightarrow> if r \<noteq> [] \<and> last r = CHR '','' \<and> butlast r \<noteq> []
                     \<and> list_all is_digit_or_dot (butlast r) then Some (butlast r) else None)"

text \<open>
  \<open>^[A-Za-z0-9_]*?([0-9]+)\.ts$\<close>: the lazy prefix makes the capture the longest run of digits
  before the extension.
\<close>

definition re_chunk :: "string \<Rightarrow> string option" where
  "re_chunk line =
     (let body = take (length line - 3) line; digits = rev (takeWhile is_digit (rev body))
      in if drop (length line - 3) line = ''.ts'' \<and> list_all is_word_char body \<and> digits \<noteq> []
         then Some digits else None)"

function ParseChunks ::
  "'a conv_scheme \<Rightarrow> 'b fp_scheme \<Rightarrow> M3u8Reader \<Rightarrow> cfile \<Rightarrow> (bool \<times> M3u8Reader) outcome" where
  "ParseChunks cv fp r f = (case GetNonEmptyLine f of
       Abort \<Rightarrow> Abort
     | Ret None \<Rightarrow> Ret (mr_chunks r \<noteq> [], r)
     | Ret (Some (hl, f1)) \<Rightarrow>
       (case RemoveTrailingSpaces hl of Abort \<Rightarrow> Abort | Ret header_line \<Rightarrow>
        if header_line = ''#EXT-X-ENDLIST'' then Ret (True, r)
        else (case GetNonEmptyLine f1 of
            Abort \<Rightarrow> Abort
          | Ret None \<Rightarrow> Ret (False, r)
          | Ret (Some (cl, f2)) \<Rightarrow>
            (case RemoveTrailingSpaces cl of Abort \<Rightarrow> Abort | Ret chunk_line \<Rightarrow>
             (case re_chunk_header header_line of None \<Rightarrow> Ret (False, r) | Some dur \<Rightarrow>
              (case cv_f64 cv dur of None \<Rightarrow> Ret (False, r) | Some duration \<Rightarrow>
               (case re_chunk chunk_line of None \<Rightarrow> Ret (False, r) | Some ind \<Rightarrow>
                (case cv_u64 cv ind of None \<Rightarrow> Ret (False, r) | Some index \<Rightarrow>
                 (case cast_u64 (fp_scale fp duration) of Abort \<Rightarrow> Abort | Ret ns \<Rightarrow>
                   ParseChunks cv fp
                     (r\<lparr>mr_chunks := mr_chunks r @
                        [\<lparr>ci_path = chunk_line, ci_duration = ns, ci_index = index\<rparr>]\<rparr>) f2)))))))))"
  by pat_completeness auto
termination
  by (relation "measure (\<lambda>(cv, fp, r, f). remaining f)")
     (auto dest!: GetNonEmptyLine_SomeD)

declare ParseChunks.simps [simp del]

text \<open>
  The chain of tests on one header line: \<open>None\<close> when no test matches, \<open>Some None\<close> when a test
  matches and the function returns \<open>false\<close>, otherwise the reader updated by the tag.
\<close>

definition header_tag ::
  "'a conv_scheme \<Rightarrow> M3u8Reader \<Rightarrow> string \<Rightarrow> M3u8Reader option option" where
  "header_tag cv r line =
     (if line = ''#EXTM3U'' then Some (Some r)
      else case re_tag is_digit ''#EXT-X-VERSION:'' line of
        Some v \<Rightarrow> Some (map_option (\<lambda>version. r\<lparr>mr_version := version\<rparr>) (cv_i32 cv v))
      | None \<Rightarrow> (case re_tag is_upper ''#EXT-X-ALLOW-CACHE:'' line of
        Some allow_cache \<Rightarrow>
          if allow_cache = ''YES'' then Some (Some (r\<lparr>mr_allow_cache := True\<rparr>))
          else if allow_cache = ''NO'' then Some (Some (r\<lparr>mr_allow_cache := False\<rparr>))
          else Some None
      | None \<Rightarrow> (case re_tag is_digit ''#EXT-X-MEDIA-SEQUENCE:'' line of
        Some v \<Rightarrow> Some (map_option (\<lambda>n. r\<lparr>mr_media_sequence := n\<rparr>) (cv_i32 cv v))
      | None \<Rightarrow> (case re_tag is_digit ''#EXT-X-TARGETDURATION:'' line of
        Some v \<Rightarrow> Some (map_option (\<lambda>n. r\<lparr>mr_target_duration := n\<rparr>) (cv_i32 cv v))
      | None \<Rightarrow> None))))"

text \<open>The loop of \<open>ParseFile\<close>.\<close>

function parse_lines ::
  "'a conv_scheme \<Rightarrow> 'b fp_scheme \<Rightarrow> M3u8Reader \<Rightarrow> cfile \<Rightarrow> (bool \<times> M3u8Reader) outcome" where
  "parse_lines cv fp r f = (case GetNonEmptyLine f of
       Abort \<Rightarrow> Abort
     | Ret None \<Rightarrow> Ret (False, r)
     | Ret (Some (l, f1)) \<Rightarrow>
       (case RemoveTrailingSpaces l of Abort \<Rightarrow> Abort | Ret line \<Rightarrow>
        (case header_tag cv r line of
           Some None \<Rightarrow> Ret (False, r)
         | Some (Some r') \<Rightarrow> parse_lines cv fp r' f1
         | None \<Rightarrow> ParseChunks cv fp r
               (fseek_set f1 (int (fpos f1) - int (length line) - 1)))))"
  by pat_completeness auto
termination
  by (relation "measure (\<lambda>(cv, fp, r, f). remaining f)")
     (auto dest!: GetNonEmptyLine_SomeD)

declare parse_lines.simps [simp del]

definition ParseFile ::
  "'a conv_scheme \<Rightarrow> 'b fp_scheme \<Rightarrow> M3u8Reader \<Rightarrow> cfile option \<Rightarrow> (bool \<times> M3u8Reader) outcome" where
  "ParseFile cv fp r file = (let r0 = M3u8Reader_Clear r in
     case file of None \<Rightarrow> Ret (False, r0) | Some f \<Rightarrow> parse_lines cv fp r0 f)"

text \<open>\<open>Parse\<close> opens the named file; \<open>fs\<close> is the content of the files that can be opened.\<close>

definition M3u8Reader_Parse ::
  "'a conv_scheme \<Rightarrow> 'b fp_scheme \<Rightarrow> (string \<rightharpoonup> string) \<Rightarrow> M3u8Reader \<Rightarrow> string
     \<Rightarrow> (bool \<times> M3u8Reader) outcome" where
  "M3u8Reader_Parse cv fp fs r path =
     ParseFile cv fp r (map_option (\<lambda>c. \<lparr>fcontent = c, fpos = 0\<rparr>) (fs path))"

text \<open>
  A clock for the witnesses, exact where \<open>double\<close> would round: seconds with the two decimals of \<open>%.2f\<close>, rounded
  to the nearest, and a converter that reads decimals.
\<close>

definition centi_clock :: fp where
  "centi_clock = \<lparr>fp_secs = (\<lambda>w. F64 (rat_of_nat (unat w) / 1000000000)),
     fp_fmt2 = (\<lambda>x. case x of
         F64 q \<Rightarrow> (let n = nat \<lfloor>q * 100 + 1 / 2\<rfloor> in dec (n div 100) @ ''.'' @ [digit_char (n div 10 mod 10), digit_char (n mod 10)])
       | _ \<Rightarrow> []),
     fp_scale = (\<lambda>x. case x of F64 q \<Rightarrow> F64 (q * 1000000000) | y \<Rightarrow> y)\<rparr>"

definition read_decimal :: "string \<Rightarrow> f64 option" where
  "read_decimal s = (let w = takeWhile is_digit s; d = drop 1 (dropWhile is_digit s) in
     case (read_dec w, read_dec (w @ d)) of
       (Some n, Some m) \<Rightarrow> Some (F64 (if d = [] then rat_of_nat n else rat_of_nat m / 10 ^ length d))
     | _ \<Rightarrow> None)"

definition decimal_conv :: conv where
  "decimal_conv = std_conv\<lparr>cv_f64 := read_decimal\<rparr>"

section \<open>Parsing returns\<close>

text \<open>The texts a file holds in the place of a duration: the digits and dots after each \<open>#EXTINF:\<close>.\<close>

fun written_durations :: "string \<Rightarrow> string list" where
  "written_durations [] = []"
| "written_durations (c # s) =
     (case after_prefix ''#EXTINF:'' (c # s) of None \<Rightarrow> [] | Some r \<Rightarrow> [takeWhile is_digit_or_dot r]) @ written_durations s"

definition duration_fits :: "'a conv_scheme \<Rightarrow> 'b fp_scheme \<Rightarrow> string \<Rightarrow> bool" where
  "duration_fits cv fp t \<longleftrightarrow> (case cv_f64 cv t of None \<Rightarrow> True | Some d \<Rightarrow> cast_u64 (fp_scale fp d) \<noteq> Abort)"

text \<open>A content on which nothing the reader does is undefined.\<close>

definition readable_content :: "'a conv_scheme \<Rightarrow> 'b fp_scheme \<Rightarrow> string \<Rightarrow> bool" where
  "readable_content cv fp s \<longleftrightarrow> list_all ctype_ok s \<and> list_all (duration_fits cv fp) (written_durations s)"

definition chunk_named :: "'a conv_scheme \<Rightarrow> ChunkInfo \<Rightarrow> bool" where
  "chunk_named cv c \<longleftrightarrow> (case re_chunk (ci_path c) of None \<Rightarrow> False | Some ind \<Rightarrow> cv_u64 cv ind = Some (ci_index c))"

lemma written_durations_append: "set (written_durations s) \<subseteq> set (written_durations (x @ s))"
  by (induction x) auto

lemma extinf_written:
  assumes "list_all is_digit_or_dot t"
  shows "t \<in> set (written_durations (x @ (''#EXTINF:'' @ t @ '','') @ y))"
proof -
  have "after_prefix ''#EXTINF:'' (''#EXTINF:'' @ t @ '','' @ y) = Some (t @ '','' @ y)" by (rule after_prefix_append)
  moreover have "takeWhile is_digit_or_dot (t @ '','' @ y) = t"
    using assms by (simp add: takeWhile_append2 list_all_iff is_digit_or_dot_def is_digit_def)
  ultimately have "t \<in> set (written_durations (''#EXTINF:'' @ t @ '','' @ y))" by simp
  then show ?thesis using written_durations_append by fastforce
qed

lemma re_chunk_headerD:
  assumes "re_chunk_header h = Some t"
  shows "h = ''#EXTINF:'' @ t @ '',''" "list_all is_digit_or_dot t"
proof -
  obtain r where r: "after_prefix ''#EXTINF:'' h = Some r" "r \<noteq> []" "last r = CHR '',''" "t = butlast r"
    "list_all is_digit_or_dot t"
    using assms by (auto simp: re_chunk_header_def split: option.splits if_splits)
  then have "r = t @ '',''" using append_butlast_last_id [OF r(2)] by simp
  with after_prefix_SomeD [OF r(1)] show "h = ''#EXTINF:'' @ t @ '',''" by simp
  show "list_all is_digit_or_dot t" by (rule r(5))
qed

text \<open>One line of a readable content.\<close>

lemma read_line_cases:
  assumes "readable_content cv fp (fcontent f)"
  obtains "GetNonEmptyLine f = Ret None"
  | l f1 line where "GetNonEmptyLine f = Ret (Some (l, f1))" "RemoveTrailingSpaces l = Ret line"
      "fcontent f1 = fcontent f" "\<forall>t. re_chunk_header line = Some t \<longrightarrow> duration_fits cv fp t"
proof (cases "GetNonEmptyLine f = Ret None")
  case False
  have ok: "list_all ctype_ok (fcontent f)" using assms by (simp add: readable_content_def)
  obtain l f1 where l: "GetNonEmptyLine f = Ret (Some (l, f1))"
    using False GetNonEmptyLine_ok [OF ok] by (cases "GetNonEmptyLine f") auto
  then obtain x y where xy: "fcontent f = x @ l @ y" "fcontent f1 = fcontent f" "\<exists>c \<in> set l. \<not> isspace c"
    using GetNonEmptyLine_SomeD by blast
  obtain line where line: "RemoveTrailingSpaces l = Ret line"
    using strip_line_ok [OF xy(3)] ok xy(1) by auto
  then obtain w where w: "l = line @ w" using strip_prefix by blast
  have "duration_fits cv fp t" if "re_chunk_header line = Some t" for t
    using extinf_written [OF re_chunk_headerD(2) [OF that], of x "w @ y"] re_chunk_headerD(1) [OF that] assms xy(1) w
    by (simp add: readable_content_def list_all_iff)
  then show ?thesis using that(2) [OF l line xy(2)] by blast
qed (use that in blast)

lemma ParseChunks_returns:
  "readable_content cv fp (fcontent f) \<Longrightarrow> list_all (chunk_named cv) (mr_chunks r) \<Longrightarrow>
   \<exists>b r'. ParseChunks cv fp r f = Ret (b, r') \<and> list_all (chunk_named cv) (mr_chunks r')"
proof (induction "remaining f" arbitrary: f r rule: less_induct)
  case less
  note named = less.prems(2)
  from less.prems(1) show ?case
  proof (cases rule: read_line_cases)
    case 1
    then show ?thesis using named by (simp add: ParseChunks.simps [of cv fp r f] ex_bool_eq)
  next
    case (2 hl f1 header_line)
    note h = 2
    have "readable_content cv fp (fcontent f1)" using h(3) less.prems(1) by simp
    then show ?thesis
    proof (cases rule: read_line_cases)
      case 1
      then show ?thesis using named h by (simp add: ParseChunks.simps [of cv fp r f] ex_bool_eq)
    next
      case (2 cl f2 chunk_line)
      have "remaining f2 < remaining f" "fcontent f2 = fcontent f"
        using GetNonEmptyLine_SomeD [OF h(1)] GetNonEmptyLine_SomeD [OF 2(1)] by simp_all
      note rec = less.hyps [OF this(1), unfolded this(2), OF less.prems(1)]
      have "cast_u64 (fp_scale fp d) \<noteq> Abort" if "re_chunk_header header_line = Some t" "cv_f64 cv t = Some d" for t d
        using h(4) that by (auto simp: duration_fits_def)
      with h(1,2) 2(1,2) named rec show ?thesis
        by (auto simp: ParseChunks.simps [of cv fp r f] chunk_named_def split: option.split outcome.split)
    qed
  qed
qed

lemma header_tag_chunks: "header_tag cv r line = Some (Some r') \<Longrightarrow> mr_chunks r' = mr_chunks r"
  by (auto simp: header_tag_def split: option.splits if_splits)

lemma parse_lines_returns:
  "readable_content cv fp (fcontent f) \<Longrightarrow> list_all (chunk_named cv) (mr_chunks r) \<Longrightarrow>
   \<exists>b r'. parse_lines cv fp r f = Ret (b, r') \<and> list_all (chunk_named cv) (mr_chunks r')"
proof (induction "remaining f" arbitrary: f r rule: less_induct)
  case less
  from less.prems(1) show ?case
  proof (cases rule: read_line_cases)
    case 1
    then show ?thesis using less.prems(2) by (simp add: parse_lines.simps [of cv fp r f] ex_bool_eq)
  next
    case (2 l f1 line)
    have "remaining f1 < remaining f" using GetNonEmptyLine_SomeD [OF 2(1)] by simp
    note rec = less.hyps [OF this, unfolded 2(3), OF less.prems(1)]
    let ?g = "fseek_set f1 (int (fpos f1) - int (length line) - 1)"
    have "readable_content cv fp (fcontent ?g)" using less.prems(1) 2(3) by (simp add: fseek_set_def)
    note chunks = ParseChunks_returns [OF this less.prems(2)]
    show ?thesis
    proof (cases "header_tag cv r line")
      case None
      then show ?thesis using chunks 2(1,2) by (simp add: parse_lines.simps [of cv fp r f])
    next
      case (Some o')
      show ?thesis
      proof (cases o')
        case None
        then show ?thesis using Some less.prems(2) 2(1,2) by (simp add: parse_lines.simps [of cv fp r f] ex_bool_eq)
      next
        case (Some r')
        then have "header_tag cv r line = Some (Some r')" using \<open>header_tag cv r line = Some o'\<close> by simp
        moreover from this have "mr_chunks r' = mr_chunks r" by (rule header_tag_chunks)
        ultimately show ?thesis using rec [of r'] less.prems(2) 2(1,2) by (simp add: parse_lines.simps [of cv fp r f])
      qed
    qed
  qed
qed

text \<open>
  (C34) Parsing a playlist returns: for every converter and every reader state, when the file is missing or
  holds no byte from 0x80 on and no duration that exceeds the 64-bit nanoseconds, the line loops stop and
  nothing undefined is done. In particular stripping the end of a line never looks at the last character of
  an empty string, because a line handed to it holds a character that is not white space. Every chunk of the
  result has a name of the accepted form and the index its name ends in.
\<close>

theorem m3u8_parse_always_returns:
  assumes "\<forall>content. fs path = Some content \<longrightarrow> readable_content cv fp content"
  shows "\<exists>b r'. M3u8Reader_Parse cv fp fs r path = Ret (b, r') \<and> list_all (chunk_named cv) (mr_chunks r')"
proof (cases "fs path")
  case None
  then show ?thesis by (simp add: M3u8Reader_Parse_def ParseFile_def M3u8Reader_Clear_def ex_bool_eq)
next
  case (Some content)
  then show ?thesis
    using parse_lines_returns [of cv fp "\<lparr>fcontent = content, fpos = 0\<rparr>" "M3u8Reader_Clear r"] assms
    by (simp add: M3u8Reader_Parse_def ParseFile_def M3u8Reader_Clear_def)
qed

theorem m3u8_parse_always_returns_witness:
  "\<exists>b r'. M3u8Reader_Parse decimal_conv centi_clock [''v.m3u8'' \<mapsto> ''#EXTM3U'' @ [nl] @ ''#EXTINF:5.25,'' @ [nl] @ ''1.ts'' @ [nl]]
     \<lparr>mr_version = 0, mr_allow_cache = False, mr_media_sequence = 0, mr_target_duration = 0, mr_chunks = []\<rparr> ''v.m3u8''
     = Ret (b, r') \<and> list_all (chunk_named decimal_conv) (mr_chunks r')"
proof -
  have "readable_content decimal_conv centi_clock (''#EXTM3U'' @ [nl] @ ''#EXTINF:5.25,'' @ [nl] @ ''1.ts'' @ [nl])"
    by (simp add: readable_content_def duration_fits_def decimal_conv_def read_decimal_def centi_clock_def read_dec_def
        is_digit_or_dot_def is_digit_def digit_val_def ctype_ok_def nl_def std_conv_def)
  then show ?thesis by (intro m3u8_parse_always_returns) simp
qed

section \<open>Reading one line\<close>

text \<open>\<open>at_text f s\<close>: the text from the position of the file to its end is \<open>s\<close>.\<close>

definition at_text :: "cfile \<Rightarrow> string \<Rightarrow> bool" where
  "at_text f s \<longleftrightarrow> drop (fpos f) (fcontent f) = s \<and> fpos f \<le> length (fcontent f)"

definition advance :: "cfile \<Rightarrow> nat \<Rightarrow> cfile" where
  "advance f n = f\<lparr>fpos := fpos f + n\<rparr>"

lemma at_text_advance: "at_text f (a @ b) \<Longrightarrow> at_text (advance f (length a)) b"
proof -
  assume f: "at_text f (a @ b)"
  then have "drop (length a) (drop (fpos f) (fcontent f)) = b" by (simp add: at_text_def)
  moreover have "length (fcontent f) - fpos f = length a + length b"
    using f by (metis at_text_def length_append length_drop)
  moreover have "fpos f \<le> length (fcontent f)" using f by (simp add: at_text_def)
  ultimately show ?thesis by (simp add: at_text_def advance_def drop_drop add.commute)
qed

lemma fgets_take_line:
  "nl \<notin> set l \<Longrightarrow> length l < n \<Longrightarrow> fgets_take n (l @ nl # s) = l @ [nl]"
proof (induction l arbitrary: n)
  case Nil
  then show ?case by (cases n) auto
next
  case (Cons c l)
  then show ?case by (cases n) auto
qed

lemma fgets_take_end:
  "nl \<notin> set l \<Longrightarrow> length l \<le> n \<Longrightarrow> fgets_take n l = l"
proof (induction l arbitrary: n)
  case Nil
  then show ?case by (cases n) auto
next
  case (Cons c l)
  then show ?case by (cases n) auto
qed

text \<open>A line of text as the sources write it: printable, and short enough for one \<open>fgets\<close>.\<close>

definition plain_line :: "string \<Rightarrow> bool" where
  "plain_line l \<longleftrightarrow> l \<noteq> [] \<and> \<not> isspace (hd l) \<and> \<not> isspace (last l) \<and> ctype_ok (hd l) \<and> ctype_ok (last l) \<and> nul \<notin> set l \<and> nl \<notin> set l
     \<and> length l < 252"

lemma takeWhile_not_nul: "nul \<notin> set l \<Longrightarrow> takeWhile (\<lambda>c. c \<noteq> nul) l = l"
  by (induction l) auto

lemma plain_buffer: "plain_line l \<Longrightarrow> buffer_has_text (l @ w) = Ret True"
  by (cases l) (auto simp: plain_line_def buffer_has_text_def)

lemma GetNonEmptyLine_plain:
  assumes "at_text f (l @ w @ nl # s)" "plain_line l" "nl \<notin> set w" "nul \<notin> set w" "length w < 2"
  shows "GetNonEmptyLine f = Ret (Some (l @ w @ [nl], advance f (length (l @ w @ [nl]))))"
proof -
  have "fgets_take (MAX_LINE - 1) (drop (fpos f) (fcontent f)) = (l @ w) @ [nl]"
    using assms fgets_take_line [of "l @ w" "MAX_LINE - 1" s]
    by (simp add: at_text_def plain_line_def MAX_LINE_def)
  moreover have "drop (fpos f) (fcontent f) \<noteq> []" using assms(1) by (auto simp: at_text_def)
  ultimately have "fgets f = Some (l @ w @ [nl], advance f (length (l @ w @ [nl])))"
    by (simp add: fgets_def Let_def advance_def)
  moreover have "takeWhile (\<lambda>c. c \<noteq> nul) (l @ w @ [nl]) = l @ w @ [nl]"
    using assms(2,4) by (intro takeWhile_not_nul) (auto simp: plain_line_def nl_def nul_def)
  ultimately show ?thesis
    using plain_buffer [OF assms(2), of "w @ [nl]"] by (simp add: GetNonEmptyLine.simps [of f])
qed

lemma isspace_nl [simp]: "isspace nl" by (simp add: isspace_def nl_def)
lemma isspace_cr [simp]: "isspace cr" by (simp add: isspace_def cr_def)
lemma cr_simps [simp]: "cr \<noteq> nl" "nl \<noteq> cr" "cr \<noteq> nul" "nul \<noteq> cr" "nl \<noteq> nul" "nul \<noteq> nl"
  by (simp_all add: cr_def nl_def nul_def)

lemma strip_plain:
  "plain_line l \<Longrightarrow> list_all isspace w \<Longrightarrow> RemoveTrailingSpaces (l @ w) = Ret l"
  by (rule strip_spaces) (auto simp: plain_line_def)

lemma read_plain_line:
  assumes "at_text f (l @ nl # s)" "plain_line l"
  shows "GetNonEmptyLine f = Ret (Some (l @ [nl], advance f (Suc (length l))))"
    "RemoveTrailingSpaces (l @ [nl]) = Ret l" "at_text (advance f (Suc (length l))) s"
proof -
  show "GetNonEmptyLine f = Ret (Some (l @ [nl], advance f (Suc (length l))))"
    using GetNonEmptyLine_plain [of f l "[]" s] assms by simp
  show "RemoveTrailingSpaces (l @ [nl]) = Ret l" using assms(2) by (simp add: strip_plain)
  show "at_text (advance f (Suc (length l))) s" using at_text_advance [of f "l @ [nl]" s] assms(1) by simp
qed

section \<open>The writer\<close>

text \<open>The texts of \<open>WriteHeader\<close>, \<open>WriteLine\<close> and \<open>WriteFooter\<close>; \<open>write\<close> is the file the writer holds.\<close>

definition header_lines :: "u64 \<Rightarrow> u64 \<Rightarrow> string list" where
  "header_lines first_index target_duration =
     [''#EXTM3U'', ''#EXT-X-MEDIA-SEQUENCE:'' @ fmt_u64 first_index, ''#EXT-X-ALLOW-CACHE:YES'',
      ''#EXT-X-VERSION:3'', ''#EXT-X-TARGETDURATION:'' @ fmt_u64 target_duration]"

definition header_text :: "u64 \<Rightarrow> u64 \<Rightarrow> string" where
  "header_text first_index target_duration =
     concat (map (\<lambda>l. l @ [nl]) (header_lines first_index target_duration))"

definition chunk_text :: "'b fp_scheme \<Rightarrow> ChunkInfo \<Rightarrow> string" where
  "chunk_text fp chunk =
     ''#EXTINF:'' @ fp_fmt2 fp (fp_secs fp (ci_duration chunk)) @ '','' @ [nl] @ ci_path chunk @ [nl]"

definition footer_text :: string where
  "footer_text = ''#EXT-X-ENDLIST''"

type_synonym 'f write_buffer = "'f \<Rightarrow> string \<Rightarrow> errno_error option \<times> 'f"

definition WriteHeader :: "'f write_buffer \<Rightarrow> 'f \<Rightarrow> u64 \<Rightarrow> u64 \<Rightarrow> errno_error option \<times> 'f" where
  "WriteHeader write f first_index target_duration =
     write f (header_text first_index target_duration)"

definition WriteLine :: "'f write_buffer \<Rightarrow> 'b fp_scheme \<Rightarrow> 'f \<Rightarrow> ChunkInfo \<Rightarrow> errno_error option \<times> 'f" where
  "WriteLine write fp f chunk = write f (chunk_text fp chunk)"

definition WriteFooter :: "'f write_buffer \<Rightarrow> 'f \<Rightarrow> errno_error option \<times> 'f" where
  "WriteFooter write f = write f footer_text"

text \<open>The text a complete run of the writer leaves in the file.\<close>

definition playlist_text :: "'b fp_scheme \<Rightarrow> u64 \<Rightarrow> u64 \<Rightarrow> ChunkInfo list \<Rightarrow> string" where
  "playlist_text fp first_index target_duration chunks =
     header_text first_index target_duration @ concat (map (chunk_text fp) chunks) @ footer_text"

section \<open>What the writer prints can be read\<close>

definition reads_i32 :: "'a conv_scheme \<Rightarrow> bool" where
  "reads_i32 cv \<longleftrightarrow> (\<forall>n < 2 ^ 31. cv_i32 cv (dec n) = Some (int n))"

text \<open>
  A chunk the playlist can hold: its file name is a prefix of word characters that does not end
  in a digit, the index and the extension, and its printed duration is a number the reader can convert. It
  is read as \<open>reread c\<close>, with the duration that was printed.
\<close>

definition printed_duration :: "'a conv_scheme \<Rightarrow> 'b fp_scheme \<Rightarrow> ChunkInfo \<Rightarrow> u64 outcome" where
  "printed_duration cv fp c = (case cv_f64 cv (fp_fmt2 fp (fp_secs fp (ci_duration c))) of
       None \<Rightarrow> Abort | Some d \<Rightarrow> cast_u64 (fp_scale fp d))"

definition chunk_readable :: "'a conv_scheme \<Rightarrow> 'b fp_scheme \<Rightarrow> ChunkInfo \<Rightarrow> bool" where
  "chunk_readable cv fp c \<longleftrightarrow>
     (let t = fp_fmt2 fp (fp_secs fp (ci_duration c)); pre = take (length (ci_path c) - length (fmt_u64 (ci_index c)) - 3) (ci_path c)
      in ci_path c = pre @ fmt_u64 (ci_index c) @ ''.ts'' \<and> list_all is_word_char pre
         \<and> (pre \<noteq> [] \<longrightarrow> \<not> is_digit (last pre)) \<and> length (ci_path c) < 252
         \<and> t \<noteq> [] \<and> list_all is_digit_or_dot t \<and> length t < 240
         \<and> printed_duration cv fp c \<noteq> Abort)"

definition reread :: "'a conv_scheme \<Rightarrow> 'b fp_scheme \<Rightarrow> ChunkInfo \<Rightarrow> ChunkInfo" where
  "reread cv fp c = (case printed_duration cv fp c of Abort \<Rightarrow> c | Ret ns \<Rightarrow> c\<lparr>ci_duration := ns\<rparr>)"

text \<open>A chunk whose duration survives the two printed decimals.\<close>

definition chunk_printable :: "'a conv_scheme \<Rightarrow> 'b fp_scheme \<Rightarrow> ChunkInfo \<Rightarrow> bool" where
  "chunk_printable cv fp c \<longleftrightarrow> chunk_readable cv fp c \<and> printed_duration cv fp c = Ret (ci_duration c)"

lemma chunk_printable_reread: "chunk_printable cv fp c \<Longrightarrow> chunk_readable cv fp c \<and> reread cv fp c = c"
  by (simp add: chunk_printable_def reread_def)

lemma fmt_u64_digits [simp, text_simps]: "list_all is_digit (fmt_u64 w)" "fmt_u64 w \<noteq> []"
  by (simp_all add: fmt_u64_def)

lemma dec_length: "n < 10 ^ k \<Longrightarrow> 0 < k \<Longrightarrow> length (dec n) \<le> k"
proof (induction n arbitrary: k rule: dec.induct)
  case (1 n)
  show ?case
  proof (cases "n < 10")
    case True
    then show ?thesis using 1(3) by (simp add: dec.simps [of n])
  next
    case False
    moreover obtain j where k: "k = Suc j" using 1(3) by (cases k) auto
    ultimately have "0 < j" using 1(2) by (cases j) auto
    note k = k this
    have "n div 10 < 10 ^ j" using k 1(2) by (simp add: less_mult_imp_div_less)
    from 1(1) [OF False this k(2)] show ?thesis using False k by (simp add: dec.simps [of n])
  qed
qed

lemma fmt_u64_length: "length (fmt_u64 w) \<le> 20"
proof -
  have "unat w < 10 ^ 20" using unsigned_less [of w, where ?'a = nat] by simp
  then show ?thesis by (simp add: fmt_u64_def dec_length)
qed

lemma digits_plain:
  assumes "list_all is_digit_or_dot t" "c \<in> set t"
  shows "\<not> isspace c" "c \<noteq> nul" "c \<noteq> nl" "ctype_ok c"
  using assms by (auto simp: list_all_iff is_digit_or_dot_def is_digit_def isspace_def nul_def nl_def ctype_ok_def)

lemma word_chars_plain:
  assumes "list_all is_word_char t" "c \<in> set t"
  shows "\<not> isspace c" "c \<noteq> nul" "c \<noteq> nl" "ctype_ok c"
  using assms
  by (auto simp: list_all_iff is_word_char_def is_upper_def is_lower_def is_digit_def isspace_def
        nul_def nl_def ctype_ok_def)

lemma not_space_plain:
  "l \<noteq> [] \<Longrightarrow> length l < 252 \<Longrightarrow> \<forall>c \<in> set l. \<not> isspace c \<and> c \<noteq> nul \<and> c \<noteq> nl \<and> ctype_ok c \<Longrightarrow> plain_line l"
  by (auto simp: plain_line_def)

lemma fmt_u64_plain: "\<forall>c \<in> set (fmt_u64 w). \<not> isspace c \<and> c \<noteq> nul \<and> c \<noteq> nl \<and> ctype_ok c"
proof -
  have "list_all is_word_char (fmt_u64 w)"
    using fmt_u64_digits(1) [of w] by (auto simp: list_all_iff)
  then show ?thesis using word_chars_plain by blast
qed

lemma extinf_plain:
  assumes "list_all is_digit_or_dot t" "length t < 240"
  shows "plain_line (''#EXTINF:'' @ t @ '','')"
  using assms digits_plain [OF assms(1)]
  by (intro not_space_plain) (auto simp: isspace_def nul_def nl_def ctype_ok_def)

lemma re_chunk_header_extinf:
  "list_all is_digit_or_dot t \<Longrightarrow> t \<noteq> [] \<Longrightarrow> re_chunk_header (''#EXTINF:'' @ t @ '','') = Some t"
proof -
  assume t: "list_all is_digit_or_dot t" "t \<noteq> []"
  have "after_prefix ''#EXTINF:'' (''#EXTINF:'' @ t @ '','') = Some (t @ '','')"
    by (rule after_prefix_append)
  then show ?thesis using t unfolding re_chunk_header_def by simp
qed

lemma header_tag_extinf: "header_tag cv r (''#EXTINF:'' @ t) = None"
  by (simp add: header_tag_def re_tag_def)

lemma re_chunk_path:
  assumes "list_all is_word_char pre" "pre \<noteq> [] \<longrightarrow> \<not> is_digit (last pre)"
  shows "re_chunk (pre @ fmt_u64 w @ ''.ts'') = Some (fmt_u64 w)"
proof -
  have "takeWhile is_digit (rev (fmt_u64 w) @ rev pre) = rev (fmt_u64 w) @ takeWhile is_digit (rev pre)"
    using fmt_u64_digits(1) [of w] by (intro takeWhile_append2) (simp add: list_all_iff)
  moreover have "takeWhile is_digit (rev pre) = []"
    using assms(2) by (cases pre rule: rev_cases) auto
  ultimately have "takeWhile is_digit (rev (fmt_u64 w) @ rev pre) = rev (fmt_u64 w)" by simp
  moreover have "list_all is_word_char (fmt_u64 w)"
    using fmt_u64_digits(1) [of w] by (auto simp: list_all_iff)
  ultimately show ?thesis using assms(1) by (simp add: re_chunk_def Let_def)
qed

lemma path_plain:
  assumes "list_all is_word_char pre" "length (pre @ fmt_u64 w @ ''.ts'') < 252"
  shows "plain_line (pre @ fmt_u64 w @ ''.ts'')"
proof (rule not_space_plain)
  show "\<forall>c \<in> set (pre @ fmt_u64 w @ ''.ts''). \<not> isspace c \<and> c \<noteq> nul \<and> c \<noteq> nl \<and> ctype_ok c"
    using word_chars_plain [OF assms(1)] fmt_u64_plain [of w]
    by (auto simp: isspace_def nul_def nl_def ctype_ok_def)
qed (use assms in auto)

lemma read_chunk_pair:
  assumes "at_text f (chunk_text fp c @ s)" "chunk_readable cv fp c"
  defines "t \<equiv> fp_fmt2 fp (fp_secs fp (ci_duration c))"
  obtains f1 f2 d ns where "GetNonEmptyLine f = Ret (Some ((''#EXTINF:'' @ t @ '','') @ [nl], f1))"
    "GetNonEmptyLine f1 = Ret (Some (ci_path c @ [nl], f2))" "at_text f2 s"
    "RemoveTrailingSpaces ((''#EXTINF:'' @ t @ '','') @ [nl]) = Ret (''#EXTINF:'' @ t @ '','')"
    "RemoveTrailingSpaces (ci_path c @ [nl]) = Ret (ci_path c)"
    "re_chunk_header (''#EXTINF:'' @ t @ '','') = Some t" "cv_f64 cv t = Some d"
    "cast_u64 (fp_scale fp d) = Ret ns" "reread cv fp c = c\<lparr>ci_duration := ns\<rparr>" "re_chunk (ci_path c) = Some (fmt_u64 (ci_index c))"
    "fcontent f1 = fcontent f" "fpos f1 = fpos f + length (''#EXTINF:'' @ t @ '','') + 1"
proof -
  define pre where
    "pre = take (length (ci_path c) - length (fmt_u64 (ci_index c)) - 3) (ci_path c)"
  have p: "ci_path c = pre @ fmt_u64 (ci_index c) @ ''.ts''" "list_all is_word_char pre"
    "pre \<noteq> [] \<longrightarrow> \<not> is_digit (last pre)" "length (ci_path c) < 252"
    "t \<noteq> []" "list_all is_digit_or_dot t" "length t < 240"
    and d: "printed_duration cv fp c \<noteq> Abort"
    using assms(2) unfolding chunk_readable_def Let_def t_def pre_def by simp_all
  let ?h = "''#EXTINF:'' @ t @ '',''"
  have at0: "at_text f (?h @ nl # (ci_path c @ nl # s))"
    using assms(1) by (simp add: chunk_text_def t_def)
  note h = read_plain_line [OF at0 extinf_plain [OF p(6,7)]]
  have pl: "plain_line (ci_path c)" using path_plain [OF p(2)] p(1,4) by simp
  note q = read_plain_line [OF h(3) pl]
  obtain ns where ns: "printed_duration cv fp c = Ret ns" using d by (cases "printed_duration cv fp c") auto
  then obtain d' where "cv_f64 cv t = Some d'" "cast_u64 (fp_scale fp d') = Ret ns"
    by (auto simp: printed_duration_def t_def split: option.splits)
  moreover have "reread cv fp c = c\<lparr>ci_duration := ns\<rparr>" using ns by (simp add: reread_def)
  moreover have "re_chunk (ci_path c) = Some (fmt_u64 (ci_index c))"
    using re_chunk_path [OF p(2,3)] p(1) by simp
  ultimately show ?thesis
    using that [OF h(1) q(1) q(3) h(2) q(2) re_chunk_header_extinf [OF p(6,5)]]
    by (simp add: advance_def)
qed

lemma read_last_line:
  assumes "at_text f l" "plain_line l"
  shows "GetNonEmptyLine f = Ret (Some (l, advance f (length l)))" "RemoveTrailingSpaces l = Ret l"
proof -
  have "fgets f = Some (l, advance f (length l))"
    using assms fgets_take_end [of l "MAX_LINE - 1"]
    by (auto simp: at_text_def plain_line_def MAX_LINE_def fgets_def Let_def advance_def)
  moreover have "takeWhile (\<lambda>c. c \<noteq> nul) l = l"
    using assms(2) by (intro takeWhile_not_nul) (auto simp: plain_line_def)
  ultimately show "GetNonEmptyLine f = Ret (Some (l, advance f (length l)))"
    using plain_buffer [OF assms(2), of "[]"] by (simp add: GetNonEmptyLine.simps [of f])
  show "RemoveTrailingSpaces l = Ret l" using strip_plain [OF assms(2), of "[]"] by simp
qed

lemma footer_plain [simp]: "plain_line footer_text"
  by (simp add: plain_line_def footer_text_def isspace_def nul_def nl_def ctype_ok_def)

lemma ParseChunks_footer:
  assumes "at_text f footer_text"
  shows "ParseChunks cv fp r f = Ret (True, r)"
  using read_last_line [OF assms footer_plain]
  by (simp add: ParseChunks.simps [of cv fp r f] footer_text_def)

lemma ChunkInfo_eta [simp]: "\<lparr>ci_path = ci_path c, ci_duration = ci_duration c, ci_index = ci_index c\<rparr> = c"
  by simp

lemma ChunkInfo_new_duration: "c\<lparr>ci_duration := n\<rparr> = \<lparr>ci_path = ci_path c, ci_duration = n, ci_index = ci_index c\<rparr>"
  by (cases c) simp

lemma ParseChunks_same_line:
  "GetNonEmptyLine f = GetNonEmptyLine g \<Longrightarrow> ParseChunks cv fp r f = ParseChunks cv fp r g"
  by (subst ParseChunks.simps [of cv fp r f], subst ParseChunks.simps [of cv fp r g]) simp

lemma ParseChunks_text:
  assumes "reads_u64 cv"
  shows "at_text f (concat (map (chunk_text fp) cs) @ footer_text) \<Longrightarrow>
     \<forall>c \<in> set cs. chunk_readable cv fp c \<Longrightarrow>
     ParseChunks cv fp r f = Ret (True, r\<lparr>mr_chunks := mr_chunks r @ map (reread cv fp) cs\<rparr>)"
proof (induction cs arbitrary: f r)
  case Nil
  then show ?case by (simp add: ParseChunks_footer)
next
  case (Cons c cs)
  have c: "chunk_readable cv fp c" using Cons.prems(2) by simp
  have at0: "at_text f (chunk_text fp c @ concat (map (chunk_text fp) cs) @ footer_text)"
    using Cons.prems(1) by simp
  obtain f1 f2 d ns where rd:
    "GetNonEmptyLine f = Ret (Some ((''#EXTINF:'' @ fp_fmt2 fp (fp_secs fp (ci_duration c)) @ '','') @ [nl], f1))"
    "GetNonEmptyLine f1 = Ret (Some (ci_path c @ [nl], f2))"
    "at_text f2 (concat (map (chunk_text fp) cs) @ footer_text)"
    "RemoveTrailingSpaces ((''#EXTINF:'' @ fp_fmt2 fp (fp_secs fp (ci_duration c)) @ '','') @ [nl])
       = Ret (''#EXTINF:'' @ fp_fmt2 fp (fp_secs fp (ci_duration c)) @ '','')"
    "RemoveTrailingSpaces (ci_path c @ [nl]) = Ret (ci_path c)"
    "re_chunk_header (''#EXTINF:'' @ fp_fmt2 fp (fp_secs fp (ci_duration c)) @ '','')
       = Some (fp_fmt2 fp (fp_secs fp (ci_duration c)))"
    "cv_f64 cv (fp_fmt2 fp (fp_secs fp (ci_duration c))) = Some d"
    "cast_u64 (fp_scale fp d) = Ret ns" "reread cv fp c = c\<lparr>ci_duration := ns\<rparr>" "re_chunk (ci_path c) = Some (fmt_u64 (ci_index c))"
    by (rule read_chunk_pair [OF at0 c])
  let ?r = "r\<lparr>mr_chunks := mr_chunks r @ [reread cv fp c]\<rparr>"
  have "ParseChunks cv fp r f = ParseChunks cv fp ?r f2"
    using rd assms
    by (simp add: ParseChunks.simps [of cv fp r f] reads_u64_def ChunkInfo_new_duration)
  also have "\<dots> = Ret (True, ?r\<lparr>mr_chunks := mr_chunks ?r @ map (reread cv fp) cs\<rparr>)"
    using Cons.IH [OF rd(3)] Cons.prems(2) by simp
  finally show ?case by simp
qed

lemma parse_lines_tag:
  assumes "at_text f (l @ nl # s)" "plain_line l" "header_tag cv r l = Some (Some r')"
  shows "parse_lines cv fp r f = parse_lines cv fp r' (advance f (Suc (length l)))"
    "at_text (advance f (Suc (length l))) s"
  using read_plain_line [OF assms(1,2)] assms(3) by (simp_all add: parse_lines.simps [of cv fp r f])

fun tags :: "'a conv_scheme \<Rightarrow> M3u8Reader \<Rightarrow> string list \<Rightarrow> M3u8Reader option" where
  "tags cv r [] = Some r"
| "tags cv r (l # ls) = (case header_tag cv r l of Some (Some r') \<Rightarrow> tags cv r' ls | _ \<Rightarrow> None)"

lemma lines_end: "ls \<noteq> [] \<Longrightarrow> \<exists>x. concat (map (\<lambda>l. l @ [nl]) ls) = x @ [nl]"
  by (induction ls rule: rev_induct) auto

lemma parse_lines_tags:
  "at_text f (concat (map (\<lambda>l. l @ [nl]) ls) @ s) \<Longrightarrow> \<forall>l \<in> set ls. plain_line l \<Longrightarrow>
   tags cv r ls = Some r' \<Longrightarrow>
   parse_lines cv fp r f = parse_lines cv fp r' (advance f (length (concat (map (\<lambda>l. l @ [nl]) ls))))"
proof (induction ls arbitrary: f r)
  case Nil
  then show ?case by (simp add: advance_def)
next
  case (Cons l ls)
  obtain r1 where r1: "header_tag cv r l = Some (Some r1)" "tags cv r1 ls = Some r'"
    using Cons.prems(3) by (auto split: option.splits)
  have "at_text f (l @ nl # (concat (map (\<lambda>l. l @ [nl]) ls) @ s))" "plain_line l"
    using Cons.prems by simp_all
  note step = parse_lines_tag [OF this r1(1)]
  have "parse_lines cv fp r1 (advance f (Suc (length l)))
      = parse_lines cv fp r' (advance (advance f (Suc (length l))) (length (concat (map (\<lambda>l. l @ [nl]) ls))))"
    using Cons.IH [OF step(2) _ r1(2)] Cons.prems(2) by simp
  with step(1) [of fp] show ?case by (simp add: advance_def add.assoc)
qed

lemma re_tag_prefix: "list_all cls t \<Longrightarrow> t \<noteq> [] \<Longrightarrow> re_tag cls p (p @ t) = Some t"
  by (simp add: re_tag_def)

lemma tag_lines_read:
  assumes "reads_i32 cv" "unat i < 2 ^ 31"
  shows "header_tag cv r (''#EXT-X-MEDIA-SEQUENCE:'' @ fmt_u64 i)
           = Some (Some (r\<lparr>mr_media_sequence := int (unat i)\<rparr>))"
    "header_tag cv r (''#EXT-X-TARGETDURATION:'' @ fmt_u64 i)
           = Some (Some (r\<lparr>mr_target_duration := int (unat i)\<rparr>))"
    "header_tag cv r ''#EXT-X-VERSION:3'' = Some (Some (r\<lparr>mr_version := 3\<rparr>))"
    "header_tag cv r ''#EXT-X-ALLOW-CACHE:YES'' = Some (Some (r\<lparr>mr_allow_cache := True\<rparr>))"
    "header_tag cv r ''#EXTM3U'' = Some (Some r)"
proof -
  have i: "cv_i32 cv (fmt_u64 i) = Some (int (unat i))"
    using assms by (simp add: reads_i32_def fmt_u64_def)
  show "header_tag cv r (''#EXT-X-MEDIA-SEQUENCE:'' @ fmt_u64 i)
           = Some (Some (r\<lparr>mr_media_sequence := int (unat i)\<rparr>))"
    "header_tag cv r (''#EXT-X-TARGETDURATION:'' @ fmt_u64 i)
           = Some (Some (r\<lparr>mr_target_duration := int (unat i)\<rparr>))"
    by (simp_all add: header_tag_def re_tag_def i)
  have "dec 3 = ''3''" by code_simp
  then have "cv_i32 cv ''3'' = Some 3"
    using assms(1) [unfolded reads_i32_def, rule_format, of 3] by simp
  then show "header_tag cv r ''#EXT-X-VERSION:3'' = Some (Some (r\<lparr>mr_version := 3\<rparr>))"
    by (simp add: header_tag_def re_tag_def is_digit_def)
  show "header_tag cv r ''#EXT-X-ALLOW-CACHE:YES'' = Some (Some (r\<lparr>mr_allow_cache := True\<rparr>))"
    "header_tag cv r ''#EXTM3U'' = Some (Some r)"
    by (simp_all add: header_tag_def re_tag_def is_upper_def)
qed

lemma tag_plain:
  assumes "list_all (\<lambda>c. \<not> isspace c \<and> c \<noteq> nul \<and> c \<noteq> nl \<and> ctype_ok c) p" "p \<noteq> []" "length p < 200"
  shows "plain_line p" "plain_line (p @ fmt_u64 w)"
proof -
  have p: "\<forall>c \<in> set p. \<not> isspace c \<and> c \<noteq> nul \<and> c \<noteq> nl \<and> ctype_ok c" using assms(1) by (simp add: list_all_iff)
  then have "\<forall>c \<in> set (p @ fmt_u64 w). \<not> isspace c \<and> c \<noteq> nul \<and> c \<noteq> nl \<and> ctype_ok c"
    using fmt_u64_plain [of w] by (simp add: ball_Un)
  with p assms fmt_u64_length [of w] show "plain_line p" "plain_line (p @ fmt_u64 w)"
    by (simp_all add: not_space_plain)
qed

lemma header_lines_plain: "\<forall>l \<in> set (header_lines i d). plain_line l"
  unfolding header_lines_def list.set ball_simps
  by (intro conjI tag_plain TrueI) (simp_all add: isspace_def nul_def nl_def ctype_ok_def)

lemma GetNonEmptyLine_blank:
  assumes "at_text f (nl # s)"
  shows "GetNonEmptyLine f = GetNonEmptyLine (advance f 1)"
proof -
  have "fgets f = Some ([nl], advance f 1)"
    using assms fgets_take_line [of "[]" "MAX_LINE - 1" s]
    by (simp add: at_text_def fgets_def MAX_LINE_def advance_def Let_def)
  moreover have "buffer_has_text [nl] = Ret False" by (simp add: buffer_has_text_def)
  ultimately show ?thesis by (simp add: GetNonEmptyLine.simps [of f])
qed

lemma parse_lines_first_chunk:
  assumes "at_text f (chunk_text fp c @ s)" "chunk_readable cv fp c"
  shows "parse_lines cv fp r f = ParseChunks cv fp r f"
proof -
  define h where "h = ''#EXTINF:'' @ fp_fmt2 fp (fp_secs fp (ci_duration c)) @ '',''"
  obtain f1 where rd: "GetNonEmptyLine f = Ret (Some (h @ [nl], f1))" "RemoveTrailingSpaces (h @ [nl]) = Ret h"
    "fcontent f1 = fcontent f" "fpos f1 = fpos f + length h + 1"
    unfolding h_def by (rule read_chunk_pair [OF assms])
  have "fseek_set f1 (int (fpos f1) - int (length h) - 1) = f"
    using rd by (simp add: fseek_set_def)
  moreover have "header_tag cv r h = None" unfolding h_def by (rule header_tag_extinf)
  ultimately show ?thesis using rd by (simp add: parse_lines.simps [of cv fp r f])
qed

lemma parse_lines_only_footer:
  assumes "at_text f0 (x @ nl # footer_text)" "f = advance f0 (Suc (length x))"
  shows "parse_lines cv fp r f = Ret (True, r)"
proof -
  let ?g = "advance f0 (length x)"
  have g: "at_text ?g (nl # footer_text)" by (rule at_text_advance [OF assms(1)])
  have f: "f = advance ?g 1" using assms(2) by (simp add: advance_def)
  have af: "at_text f footer_text" using at_text_advance [of ?g "[nl]"] g f by simp
  note rd = read_last_line [OF af footer_plain]
  have "header_tag cv r footer_text = None"
    by (simp add: footer_text_def header_tag_def re_tag_def)
  moreover have "fseek_set (advance f (length footer_text))
     (int (fpos (advance f (length footer_text))) - int (length footer_text) - 1) = ?g"
    by (simp add: fseek_set_def advance_def f)
  ultimately have "parse_lines cv fp r f = ParseChunks cv fp r ?g"
    using rd by (simp add: parse_lines.simps [of cv fp r f])
  also have "\<dots> = ParseChunks cv fp r f"
    using GetNonEmptyLine_blank [OF g] f by (intro ParseChunks_same_line) simp
  also have "\<dots> = Ret (True, r)" by (rule ParseChunks_footer [OF af])
  finally show ?thesis .
qed

lemma playlist_text_read:
  assumes "reads_u64 cv" "reads_i32 cv" "unat i < 2 ^ 31" "unat d < 2 ^ 31"
    and "\<forall>c \<in> set cs. chunk_readable cv fp c"
  shows "ParseFile cv fp r (Some \<lparr>fcontent = playlist_text fp i d cs, fpos = 0\<rparr>)
     = Ret (True, \<lparr>mr_version = 3, mr_allow_cache = True, mr_media_sequence = int (unat i),
                  mr_target_duration = int (unat d), mr_chunks = map (reread cv fp) cs\<rparr>)"
proof -
  let ?f = "\<lparr>fcontent = playlist_text fp i d cs, fpos = 0\<rparr>" and ?h = "header_text i d"
  let ?r = "\<lparr>mr_version = 3, mr_allow_cache = True, mr_media_sequence = int (unat i),
                  mr_target_duration = int (unat d), mr_chunks = []\<rparr>"
  let ?g = "advance ?f (length ?h)" and ?body = "concat (map (chunk_text fp) cs) @ footer_text"
  have at0: "at_text ?f (?h @ ?body)" by (simp add: at_text_def playlist_text_def)
  have "tags cv (M3u8Reader_Clear r) (header_lines i d) = Some ?r"
    using tag_lines_read [OF assms(2,3)] tag_lines_read [OF assms(2,4)]
    by (simp add: header_lines_def M3u8Reader_Clear_def)
  from parse_lines_tags [OF at0 [unfolded header_text_def] header_lines_plain this]
  have "parse_lines cv fp (M3u8Reader_Clear r) ?f = parse_lines cv fp ?r ?g"
    by (simp add: header_text_def)
  also have "\<dots> = Ret (True, ?r\<lparr>mr_chunks := map (reread cv fp) cs\<rparr>)"
  proof (cases cs)
    case Nil
    obtain x where h: "?h = x @ [nl]"
      using lines_end [of "header_lines i d"] by (auto simp: header_text_def header_lines_def)
    have "at_text ?f (x @ nl # footer_text)" using at0 Nil by (simp add: h)
    from parse_lines_only_footer [OF this, of ?g] Nil show ?thesis by (simp add: h)
  next
    case (Cons c cs')
    note at1 = at_text_advance [OF at0]
    have "at_text ?g (chunk_text fp c @ concat (map (chunk_text fp) cs') @ footer_text)"
      using at1 Cons by simp
    from parse_lines_first_chunk [OF this, of cv ?r] Cons assms(5)
      ParseChunks_text [OF assms(1) at1 assms(5), of ?r]
    show ?thesis by simp
  qed
  finally show ?thesis by (simp add: ParseFile_def Let_def)
qed

text \<open>
  (C31) Reading the playlist a complete run of the writer leaves in a file gives back what was
  written: the first index as the media sequence, the target duration, version 3, caching
  allowed, and the same chunks in the same order. The counters must fit the 32-bit fields of the
  reader, and every chunk must have a name the reader accepts and a duration that the two printed decimals represent.
\<close>

theorem m3u8_write_parse_roundtrip:
  assumes "reads_u64 cv" "reads_i32 cv" "unat i < 2 ^ 31" "unat d < 2 ^ 31"
    and "\<forall>c \<in> set cs. chunk_printable cv fp c"
  shows "ParseFile cv fp r (Some \<lparr>fcontent = playlist_text fp i d cs, fpos = 0\<rparr>)
     = Ret (True, \<lparr>mr_version = 3, mr_allow_cache = True, mr_media_sequence = int (unat i),
                  mr_target_duration = int (unat d), mr_chunks = cs\<rparr>)"
proof -
  have "\<forall>c \<in> set cs. chunk_readable cv fp c" using assms(5) chunk_printable_reread by blast
  moreover have "map (reread cv fp) cs = cs" using assms(5) chunk_printable_reread by (intro map_idI) blast
  ultimately show ?thesis using playlist_text_read [OF assms(1-4), of cs fp r] by simp
qed

lemma reads_i32_std [simp]: "reads_i32 std_conv"
proof -
  have "std_i 31 (dec n) = Some (int n)" if "n < 2 ^ 31" for n
  proof -
    obtain c r where c: "dec n = c # r" using dec_nonempty [of n] by (cases "dec n") auto
    then have "is_digit c" using dec_digits [of n] by simp
    then have "c \<noteq> CHR ''-''" by (auto simp: is_digit_def)
    then show ?thesis using c that read_dec_dec [of n] by (simp add: std_i_def)
  qed
  then show ?thesis by (simp add: reads_i32_def std_conv_def)
qed

lemma reads_decimal [simp]: "reads_u64 decimal_conv" "reads_i32 decimal_conv"
  using reads_u64_std reads_i32_std by (simp_all add: decimal_conv_def reads_u64_def reads_i32_def)

lemma floor_half [simp]: "\<lfloor>(numeral k :: rat) / 2\<rfloor> = numeral k div 2"
  using floor_divide_of_int_eq [of "numeral k" 2, where ?'a = rat] by simp

lemmas decimal_read_defs = read_decimal_def read_dec_def is_digit_def digit_val_def Let_def
lemmas chunk_name_defs = is_digit_or_dot_def is_digit_def is_word_char_def is_upper_def is_lower_def fmt_u64_def

theorem m3u8_write_parse_roundtrip_witness:
  "ParseFile decimal_conv centi_clock
     \<lparr>mr_version = 0, mr_allow_cache = False, mr_media_sequence = 0, mr_target_duration = 0, mr_chunks = []\<rparr>
     (Some \<lparr>fcontent = playlist_text centi_clock 3 12
        [\<lparr>ci_path = ''s_3.ts'', ci_duration = 12000000000, ci_index = 3\<rparr>,
         \<lparr>ci_path = ''4.ts'', ci_duration = 7250000000, ci_index = 4\<rparr>], fpos = 0\<rparr>)
   = Ret (True, \<lparr>mr_version = 3, mr_allow_cache = True, mr_media_sequence = 3, mr_target_duration = 12,
        mr_chunks = [\<lparr>ci_path = ''s_3.ts'', ci_duration = 12000000000, ci_index = 3\<rparr>,
         \<lparr>ci_path = ''4.ts'', ci_duration = 7250000000, ci_index = 4\<rparr>]\<rparr>)"
proof -
  have p: "chunk_printable decimal_conv centi_clock \<lparr>ci_path = ''s_3.ts'', ci_duration = 12000000000, ci_index = 3\<rparr>"
    "chunk_printable decimal_conv centi_clock \<lparr>ci_path = ''4.ts'', ci_duration = 7250000000, ci_index = 4\<rparr>"
  proof -
    have n: "dec 12 = ''12''" "dec 7 = ''7''" "dec 3 = ''3''" "dec 4 = ''4''"
      "digit_char 0 = CHR ''0''" "digit_char 2 = CHR ''2''" "digit_char 5 = CHR ''5''" by code_simp+
    have "fp_fmt2 centi_clock (fp_secs centi_clock 12000000000) = ''12.00''"
      "fp_fmt2 centi_clock (fp_secs centi_clock 7250000000) = ''7.25''"
      by (simp_all add: centi_clock_def n)
    moreover have "cv_f64 decimal_conv ''12.00'' = Some (F64 12)" "cv_f64 decimal_conv ''7.25'' = Some (F64 (29 / 4))"
      by (simp_all add: decimal_conv_def decimal_read_defs)
    moreover have "cast_u64 (fp_scale centi_clock (F64 12)) = Ret 12000000000"
      "cast_u64 (fp_scale centi_clock (F64 (29 / 4))) = Ret 7250000000"
      by (simp_all add: centi_clock_def)
    ultimately show "chunk_printable decimal_conv centi_clock \<lparr>ci_path = ''s_3.ts'', ci_duration = 12000000000, ci_index = 3\<rparr>"
      "chunk_printable decimal_conv centi_clock \<lparr>ci_path = ''4.ts'', ci_duration = 7250000000, ci_index = 4\<rparr>"
      by (simp_all add: chunk_printable_def chunk_readable_def printed_duration_def chunk_name_defs n)
  qed
  have "unat (3 :: u64) = 3" "unat (12 :: u64) = 12" by simp_all
  with m3u8_write_parse_roundtrip [of decimal_conv 3 12
      "[\<lparr>ci_path = ''s_3.ts'', ci_duration = 12000000000, ci_index = 3\<rparr>,
        \<lparr>ci_path = ''4.ts'', ci_duration = 7250000000, ci_index = 4\<rparr>]" centi_clock] p
  show ?thesis by simp
qed

lemma crlf_restart:
  assumes h: "plain_line (c # h)" "plain_line h" and p: "plain_line p"
    and tag: "header_tag cv r (c # h) = None" "re_chunk_header h = None" and "h \<noteq> footer_text"
  shows "parse_lines cv fp r \<lparr>fcontent = (c # h) @ [cr, nl] @ p @ [cr, nl] @ s, fpos = 0\<rparr> = Ret (False, r)"
proof -
  define f where "f = \<lparr>fcontent = (c # h) @ [cr, nl] @ p @ [cr, nl] @ s, fpos = 0\<rparr>"
  let ?f1 = "advance f (length ((c # h) @ [cr] @ [nl]))" and ?g = "advance f (length [c])"
  have at0: "at_text f ((c # h) @ [cr] @ nl # (p @ [cr, nl] @ s))" by (simp add: at_text_def f_def)
  have l: "GetNonEmptyLine f = Ret (Some ((c # h) @ [cr] @ [nl], ?f1))"
    by (rule GetNonEmptyLine_plain [OF at0 h(1)]) simp_all
  have at1: "at_text ?g (h @ [cr] @ nl # (p @ [cr] @ nl # s))"
    using at_text_advance [of f "[c]"] at0 by simp
  then have at2: "at_text (advance ?g (length (h @ [cr] @ [nl]))) (p @ [cr] @ nl # s)"
    using at_text_advance [of ?g "h @ [cr] @ [nl]"] by simp
  note l1 = GetNonEmptyLine_plain [OF at1 h(2)] and l2 = GetNonEmptyLine_plain [OF at2 p]
  have "fseek_set ?f1 (int (fpos ?f1) - int (length (c # h)) - 1) = ?g"
    by (simp add: fseek_set_def advance_def f_def)
  then have "parse_lines cv fp r f = ParseChunks cv fp r ?g"
    using l strip_plain [OF h(1), of "[cr, nl]"] tag(1)
    by (simp add: parse_lines.simps [of cv fp r f])
  then show ?thesis unfolding f_def [symmetric]
    using l1 l2 strip_plain [OF h(2), of "[cr, nl]"] strip_plain [OF p, of "[cr, nl]"] tag(2) assms(6)
    by (simp add: ParseChunks.simps [of cv fp r "advance f (Suc 0)"] footer_text_def)
qed

text \<open>
  The two conditions of the reader are needed: a first line that begins with a byte from 0x80 on is
  handed to \<open>isspace\<close> as a negative value, and a duration above the range is converted all the same.
\<close>

lemma high_byte_undefined:
  assumes "\<not> ctype_ok c" "c \<noteq> nl" "fs path = Some (c # s)"
  shows "M3u8Reader_Parse cv fp fs r path = Abort"
proof -
  have "\<not> isspace c" using assms(1) space_ctype_ok by blast
  then have "buffer_has_text (fgets_take (MAX_LINE - 1) (c # s)) = Abort"
    using assms(1,2) by (simp add: buffer_has_text_def MAX_LINE_def numeral_eq_Suc)
  then have "GetNonEmptyLine \<lparr>fcontent = c # s, fpos = 0\<rparr> = Abort"
    by (simp add: GetNonEmptyLine.simps [of "\<lparr>fcontent = c # s, fpos = 0\<rparr>"] fgets_def Let_def)
  then show ?thesis using assms(3)
    by (simp add: M3u8Reader_Parse_def ParseFile_def parse_lines.simps [of _ _ _ "\<lparr>fcontent = c # s, fpos = 0\<rparr>"])
qed

lemma long_duration_undefined:
  assumes "reads_u64 cv" "list_all is_digit_or_dot t" "t \<noteq> []" "length t < 240" "cv_f64 cv t = Some d" "cast_u64 (fp_scale fp d) = Abort"
    "fs path = Some ((''#EXTINF:'' @ t @ '','') @ nl # ((fmt_u64 i @ ''.ts'') @ nl # s))"
  shows "M3u8Reader_Parse cv fp fs r path = Abort"
proof -
  define h where "h = ''#EXTINF:'' @ t @ '',''"
  define f where "f = \<lparr>fcontent = h @ nl # ((fmt_u64 i @ ''.ts'') @ nl # s), fpos = 0\<rparr>"
  have at0: "at_text f (h @ nl # ((fmt_u64 i @ ''.ts'') @ nl # s))" by (simp add: at_text_def f_def)
  note l1 = read_plain_line [OF at0 extinf_plain [OF assms(2,4), folded h_def]]
  have "length (fmt_u64 i @ ''.ts'') < 252" using fmt_u64_length [of i] by simp
  then have "plain_line (fmt_u64 i @ ''.ts'')" using path_plain [of "[]" i] by simp
  note l2 = read_plain_line [OF l1(3) this]
  have "re_chunk (fmt_u64 i @ ''.ts'') = Some (fmt_u64 i)" using re_chunk_path [of "[]" i] by simp
  moreover have "re_chunk_header h = Some t" unfolding h_def using assms(2,3) by (rule re_chunk_header_extinf)
  moreover have "h \<noteq> ''#EXT-X-ENDLIST''" by (simp add: h_def)
  ultimately have "ParseChunks cv fp r' f = Abort" for r'
    using l1 l2 assms(1,5,6) by (simp add: ParseChunks.simps [of cv fp r' f] reads_u64_def)
  moreover have "fseek_set (advance f (Suc (length h))) (int (fpos (advance f (Suc (length h)))) - int (length h) - 1) = f"
    by (simp add: fseek_set_def advance_def f_def)
  moreover have "header_tag cv r' h = None" for r' unfolding h_def by (rule header_tag_extinf)
  ultimately have "parse_lines cv fp r' f = Abort" for r' using l1 by (simp add: parse_lines.simps [of cv fp r' f])
  then show ?thesis using assms(7) by (simp add: M3u8Reader_Parse_def ParseFile_def f_def h_def)
qed

text \<open>
  A playlist with carriage returns is refused. The end of a line that starts the chunk
  section is stripped before the file is moved back by the stripped length and one newline, so
  after a line that ended in a carriage return and a newline the next read starts at the second
  character of that line, and a chunk header read from there does not match.
\<close>

theorem m3u8_crlf_playlist_refused:
  assumes "list_all is_digit_or_dot t" "length t < 240" "plain_line p"
    and "r0 = M3u8Reader_Clear r"
  shows "ParseFile cv fp r (Some \<lparr>fcontent = (''#EXTINF:'' @ t @ '','' ) @ [cr, nl] @ p @ [cr, nl] @ s, fpos = 0\<rparr>)
     = Ret (False, r0)"
proof -
  let ?h' = "''EXTINF:'' @ t @ '',''"
  have h: "plain_line (CHR ''#'' # ?h')" using extinf_plain [OF assms(1,2)] by simp
  have h': "plain_line ?h'" using h by (simp add: plain_line_def isspace_def ctype_ok_def)
  have "header_tag cv r0 (CHR ''#'' # ?h') = None" using header_tag_extinf [of cv r0 "t @ '',''"] by simp
  moreover have "re_chunk_header ?h' = None" by (simp add: re_chunk_header_def)
  ultimately show ?thesis
    using crlf_restart [OF h h' assms(3)] assms(4) by (simp add: ParseFile_def Let_def footer_text_def)
qed

theorem m3u8_crlf_playlist_refused_witness:
  "ParseFile decimal_conv centi_clock
     \<lparr>mr_version = 0, mr_allow_cache = False, mr_media_sequence = 0, mr_target_duration = 0, mr_chunks = []\<rparr>
     (Some \<lparr>fcontent = (''#EXTINF:'' @ ''5.00'' @ '','') @ [cr, nl] @ ''1.ts'' @ [cr, nl] @ ''#EXT-X-ENDLIST'', fpos = 0\<rparr>)
   = Ret (False, M3u8Reader_Clear
     \<lparr>mr_version = 0, mr_allow_cache = False, mr_media_sequence = 0, mr_target_duration = 0, mr_chunks = []\<rparr>)"
  by (rule m3u8_crlf_playlist_refused)
     (simp_all add: is_digit_or_dot_def is_digit_def plain_line_def isspace_def nul_def nl_def ctype_ok_def)

end
