(* ===== verification/SysUtils.thy ===== *)
theory SysUtils
  imports Prelude
begin

text \<open>
  Component \<open>utils/utils\<close>: cleaning chunk directories, creating directories, and the readings of
  processor, memory, disk and network the service reports. A directory is the list of the names
  \<open>readdir\<close> yields; the texts of the files under \<open>/proc\<close> are arguments, \<open>None\<close> when \<open>fopen\<close> fails.
  An integer \<open>sscanf\<close> leaves unset and the code reads anyway is the outcome \<open>Abort\<close>.
\<close>

section \<open>Directories\<close>

text \<open>The file-system calls: existence, creation, access, modification time, removal.\<close>

record fs_api =
  fs_dir_exists :: "string \<Rightarrow> bool"
  fs_create_dir :: "string \<Rightarrow> errno_error option"
  fs_access :: "string \<Rightarrow> errno_error option"
  fs_mtime :: "string \<Rightarrow> int option"
  fs_removable :: "string \<Rightarrow> bool"

definition CreateAndCheckDir :: "'a fs_api_scheme \<Rightarrow> string \<Rightarrow> errno_error option" where
  "CreateAndCheckDir fs directory_path =
     (case (if fs_dir_exists fs directory_path then None else fs_create_dir fs directory_path) of
        Some errn \<Rightarrow> Some errn
      | None \<Rightarrow> fs_access fs directory_path)"

text \<open>\<open>strstr(name, ext)\<close> finds the text anywhere in the name.\<close>

fun strstr :: "string \<Rightarrow> string \<Rightarrow> bool" where
  "strstr [] p = (p = [])"
| "strstr (c # s) p = (after_prefix p (c # s) \<noteq> None \<or> strstr s p)"

text \<open>
  The loop over the entries; \<open>old\<close> decides on the modification time. The result is the list of
  the names that stay.
\<close>

fun clean_loop :: "'a fs_api_scheme \<Rightarrow> (int \<Rightarrow> bool) \<Rightarrow> string \<Rightarrow> string \<Rightarrow> string list \<Rightarrow> string list" where
  "clean_loop fs old path ext [] = []"
| "clean_loop fs old path ext (d_name # dents) =
     (let rest = clean_loop fs old path ext dents in
      if d_name = ''.'' \<or> d_name = ''..'' then d_name # rest
      else if strstr d_name ext then
        (case fs_mtime fs (path @ d_name) of
           None \<Rightarrow> d_name # rest
         | Some mtime \<Rightarrow>
             if old mtime then
               (if fs_removable fs (path @ d_name) then rest else d_name # rest)
             else d_name # rest)
      else d_name # rest)"

text \<open>\<open>dir = None\<close>: the directory path is not valid or the directory cannot be opened.\<close>

definition RemoveFilesByExtension ::
  "'a fs_api_scheme \<Rightarrow> (string \<times> string list) option \<Rightarrow> string \<Rightarrow> (string \<times> string list) option" where
  "RemoveFilesByExtension fs dir ext =
     map_option (\<lambda>(path, dents). (path, clean_loop fs (\<lambda>_. True) path ext dents)) dir"

definition RemoveOldFilesByTime ::
  "'a fs_api_scheme \<Rightarrow> (string \<times> string list) option \<Rightarrow> int \<Rightarrow> string \<Rightarrow> (string \<times> string list) option" where
  "RemoveOldFilesByTime fs dir max_life_secs ext =
     map_option (\<lambda>(path, dents). (path, clean_loop fs (\<lambda>mtime. mtime < max_life_secs) path ext dents)) dir"

definition cleanable :: "'a fs_api_scheme \<Rightarrow> (int \<Rightarrow> bool) \<Rightarrow> string \<Rightarrow> string \<Rightarrow> string \<Rightarrow> bool" where
  "cleanable fs old path ext n \<longleftrightarrow> n \<noteq> ''.'' \<and> n \<noteq> ''..'' \<and> strstr n ext
     \<and> (case fs_mtime fs (path @ n) of None \<Rightarrow> False | Some t \<Rightarrow> old t) \<and> fs_removable fs (path @ n)"

lemma clean_loop_filter:
  "clean_loop fs old path ext ns = filter (\<lambda>n. \<not> cleanable fs old path ext n) ns"
  by (induction ns) (auto simp: cleanable_def Let_def split: option.splits)

text \<open>
  Cleaning a chunk directory by age removes exactly the removable entries whose name holds
  the extension and whose modification time lies before the limit, and keeps every other entry,
  the two directory links included, in its place.
\<close>

theorem old_files_removed_exactly:
  "RemoveOldFilesByTime fs (Some (path, ns)) limit ext =
     Some (path, filter (\<lambda>n. n = ''.'' \<or> n = ''..'' \<or> \<not> strstr n ext \<or> \<not> fs_removable fs (path @ n)
        \<or> (\<forall>t. fs_mtime fs (path @ n) = Some t \<longrightarrow> limit \<le> t)) ns)"
  unfolding RemoveOldFilesByTime_def option.map split clean_loop_filter
  by (auto simp: cleanable_def not_less split: option.splits intro!: filter_cong)

theorem old_files_removed_exactly_witness:
  "RemoveOldFilesByTime \<lparr>fs_dir_exists = (\<lambda>_. True), fs_create_dir = (\<lambda>_. None), fs_access = (\<lambda>_. None),
       fs_mtime = (\<lambda>p. if p = ''d/1.ts'' then Some 5 else Some 50), fs_removable = (\<lambda>_. True)\<rparr>
     (Some (''d/'', [''.'', ''..'', ''1.ts'', ''2.ts'', ''m.m3u8''])) 10 ''.ts''
   = Some (''d/'', [''.'', ''..'', ''2.ts'', ''m.m3u8''])"
  unfolding old_files_removed_exactly by simp

section \<open>Processor load\<close>

record CpuShot =
  user :: u64
  nice :: u64
  system :: u64
  idle :: u64
  iowait :: u64
  irq :: u64
  softirq :: u64
  steal :: u64
  guest :: u64
  guest_nice :: u64

definition CpuShot0 :: CpuShot where
  "CpuShot0 = \<lparr>user = 0, nice = 0, system = 0, idle = 0, iowait = 0, irq = 0, softirq = 0, steal = 0,
     guest = 0, guest_nice = 0\<rparr>"

text \<open>Floating-point division of two unsigned differences: by zero it is a NaN or an infinity.\<close>

definition fdiv :: "rat \<Rightarrow> rat \<Rightarrow> f64" where
  "fdiv a b = (if b \<noteq> 0 then F64 (a / b)
     else if a = 0 then F64_nan else if 0 < a then F64_pos_inf else F64_neg_inf)"

definition cpu_idle :: "CpuShot \<Rightarrow> u64" where
  "cpu_idle s = idle s + iowait s"

definition cpu_non_idle :: "CpuShot \<Rightarrow> u64" where
  "cpu_non_idle s = user s + nice s + system s + irq s + softirq s + steal s"

definition GetCpuMachineLoad :: "CpuShot \<Rightarrow> CpuShot \<Rightarrow> f64" where
  "GetCpuMachineLoad prev next =
     (let PrevIdle = cpu_idle prev; Idle = cpu_idle next;
          PrevNonIdle = cpu_non_idle prev; NonIdle = cpu_non_idle next;
          PrevTotal = PrevIdle + PrevNonIdle; Total = Idle + NonIdle;
          totald = rat_of_nat (unat (Total - PrevTotal));
          idled = rat_of_nat (unat (Idle - PrevIdle))
      in fdiv (totald - idled) totald)"

text \<open>
  The reported processor load lies between 0 and 1 whenever the counters of the second shot
  advanced by less than the 64-bit range in total, whatever wrap-around the single counters went
  through; it is not a number exactly when no counter advanced.
\<close>

theorem cpu_load_in_unit_interval:
  assumes "cpu_idle next = cpu_idle prev + of_nat di" "cpu_non_idle next = cpu_non_idle prev + of_nat dn"
    and "di + dn < 2 ^ 64"
  shows "GetCpuMachineLoad prev next = (if di + dn = 0 then F64_nan else F64 (of_nat dn / of_nat (di + dn)))
     \<and> (0 < di + dn \<longrightarrow> (0 :: rat) \<le> of_nat dn / of_nat (di + dn) \<and> (of_nat dn / of_nat (di + dn) :: rat) \<le> 1)"
proof -
  have i: "unat (of_nat di :: u64) = di" and t: "unat (of_nat (di + dn) :: u64) = di + dn"
    using assms(3) by (simp_all add: unat_of_nat_small del: of_nat_add)
  have d: "cpu_idle next + cpu_non_idle next - (cpu_idle prev + cpu_non_idle prev) = of_nat (di + dn)"
    "cpu_idle next - cpu_idle prev = of_nat di"
    using assms(1,2) by simp_all
  have "GetCpuMachineLoad prev next
      = fdiv (rat_of_nat (di + dn) - rat_of_nat di) (rat_of_nat (di + dn))"
    unfolding GetCpuMachineLoad_def Let_def by (simp only: d i t)
  then show ?thesis by (simp add: fdiv_def)
qed

theorem cpu_load_in_unit_interval_witness:
  "GetCpuMachineLoad (CpuShot0\<lparr>user := 5, idle := -2\<rparr>) (CpuShot0\<lparr>user := 8, idle := -1\<rparr>) = F64 (3 / 4)"
  using cpu_load_in_unit_interval [of "CpuShot0\<lparr>user := 8, idle := -1\<rparr>" "CpuShot0\<lparr>user := 5, idle := -2\<rparr>" 1 3]
  by (simp add: CpuShot0_def cpu_idle_def cpu_non_idle_def)

section \<open>Reading \<open>/proc\<close>\<close>

text \<open>
  \<open>%16llu\<close> of \<open>sscanf\<close>: leading white space, an optional sign, then digits, at most \<open>w\<close>
  characters in all; the number is taken modulo the 64-bit range.
\<close>

definition scan_number :: "nat \<Rightarrow> string \<Rightarrow> (u64 \<times> string) option" where
  "scan_number w s = (let t = dropWhile isspace s;
       neg = (case t of c # _ \<Rightarrow> c = CHR ''-'' | [] \<Rightarrow> False);
       sgn = (case t of c # _ \<Rightarrow> c = CHR ''-'' \<or> c = CHR ''+'' | [] \<Rightarrow> False);
       u = (if sgn then tl t else t);
       ds = takeWhile is_digit (take (w - (if sgn then 1 else 0)) u)
     in case read_dec ds of
          None \<Rightarrow> None
        | Some n \<Rightarrow> Some (if neg then - of_nat n else of_nat n, drop (length ds) u))"

text \<open>The conversions of one format in order, up to the first that fails.\<close>

fun scan_numbers :: "nat \<Rightarrow> nat \<Rightarrow> string \<Rightarrow> u64 list" where
  "scan_numbers w 0 s = []"
| "scan_numbers w (Suc k) s =
     (case scan_number w s of None \<Rightarrow> [] | Some (n, r) \<Rightarrow> n # scan_numbers w k r)"

text \<open>The value of the \<open>k\<close>-th field, or the value the variable was initialised with.\<close>

definition field :: "u64 list \<Rightarrow> nat \<Rightarrow> u64" where
  "field xs k = (if k < length xs then xs ! k else 0)"

text \<open>
  The first line of \<open>/proc/stat\<close>, \<open>None\<close> when the file cannot be opened. The four leading fields
  are read without initialisation.
\<close>

definition GetMachineCpuShot :: "string option \<Rightarrow> CpuShot outcome" where
  "GetMachineCpuShot first_line = (case first_line of
       None \<Rightarrow> Ret CpuShot0
     | Some buffer \<Rightarrow>
        (case after_prefix ''cpu'' buffer of
           None \<Rightarrow> Abort
         | Some r \<Rightarrow>
            let xs = scan_numbers 16 10 (dropWhile isspace r) in
            if length xs < 4 then Abort
            else Ret (CpuShot0\<lparr>user := field xs 0 - field xs 8, nice := field xs 1 - field xs 9,
               system := field xs 2, idle := field xs 3, irq := field xs 5, softirq := field xs 6,
               steal := field xs 7, guest := field xs 8, guest_nice := field xs 9\<rparr>)))"

record MemoryShot =
  total_bytes_ram :: u64
  free_bytes_ram :: u64
  avail_bytes_ram :: u64

definition MemoryShot_GetAvailable :: "MemoryShot \<Rightarrow> f64" where
  "MemoryShot_GetAvailable s =
     fdiv (rat_of_nat (unat (avail_bytes_ram s))) (rat_of_nat (unat (total_bytes_ram s)))"

definition scan_meminfo :: "string \<Rightarrow> string \<Rightarrow> u64 option" where
  "scan_meminfo key line = (case after_prefix key line of
       None \<Rightarrow> None | Some r \<Rightarrow> map_option fst (scan_number (length r) r))"

definition meminfo_line :: "u64 \<times> u64 \<times> u64 \<Rightarrow> string \<Rightarrow> u64 \<times> u64 \<times> u64" where
  "meminfo_line ram line = (case ram of (total_ram, free_ram, avail_ram) \<Rightarrow>
     (case scan_meminfo ''MemTotal:'' line of Some n \<Rightarrow> (n, free_ram, avail_ram)
      | None \<Rightarrow> (case scan_meminfo ''MemFree:'' line of Some n \<Rightarrow> (total_ram, n, avail_ram)
      | None \<Rightarrow> (case scan_meminfo ''MemAvailable:'' line of Some n \<Rightarrow> (total_ram, free_ram, n)
      | None \<Rightarrow> ram))))"

definition GetMachineMemoryShot :: "string list option \<Rightarrow> MemoryShot" where
  "GetMachineMemoryShot meminfo = (case meminfo of
       None \<Rightarrow> \<lparr>total_bytes_ram = 0, free_bytes_ram = 0, avail_bytes_ram = 0\<rparr>
     | Some ls \<Rightarrow> (case foldl meminfo_line (0, 0, 0) ls of (total_ram, free_ram, avail_ram) \<Rightarrow>
         \<lparr>total_bytes_ram = total_ram * 1024, free_bytes_ram = free_ram * 1024,
          avail_bytes_ram = avail_ram * 1024\<rparr>))"

record HddShot =
  hdd_bytes_total :: u64
  hdd_bytes_free :: u64

text \<open>The answer of \<open>statvfs\<close>: block count, free blocks and block size.\<close>

definition GetMachineHddShot :: "(u64 \<times> u64 \<times> u64) option \<Rightarrow> HddShot" where
  "GetMachineHddShot fi_data = (case fi_data of
       None \<Rightarrow> \<lparr>hdd_bytes_total = 0, hdd_bytes_free = 0\<rparr>
     | Some (f_blocks, f_bfree, f_bsize) \<Rightarrow>
         \<lparr>hdd_bytes_total = f_blocks * f_bsize, hdd_bytes_free = f_bfree * f_bsize\<rparr>)"

record NetShot =
  bytes_recv :: u64
  bytes_send :: u64

definition NetShot0 :: NetShot where
  "NetShot0 = \<lparr>bytes_recv = 0, bytes_send = 0\<rparr>"

text \<open>
  One line of \<open>/proc/net/dev\<close> after the two title lines: the interface word, then sixteen
  counters of which the first and the ninth are summed, except for the loopback interface. A
  counter whose conversion fails is read unset.
\<close>

definition net_fields :: "string \<Rightarrow> string \<times> u64 list" where
  "net_fields line = (let t = dropWhile isspace line;
       interf = takeWhile (\<lambda>c. \<not> isspace c) t
     in (interf, if interf = [] then [] else scan_numbers 16 16 (drop (length interf) t)))"

fun net_loop :: "NetShot \<Rightarrow> string list \<Rightarrow> NetShot outcome" where
  "net_loop shot [] = Ret shot"
| "net_loop shot (line # ls) = (case net_fields line of (interf, xs) \<Rightarrow>
     if take 2 interf = ''lo'' then net_loop shot ls
     else if length xs < 9 then Abort
     else net_loop (shot\<lparr>bytes_recv := bytes_recv shot + field xs 0,
                        bytes_send := bytes_send shot + field xs 8\<rparr>) ls)"

definition GetMachineNetShot :: "string list option \<Rightarrow> NetShot outcome" where
  "GetMachineNetShot netinfo = (case netinfo of
       None \<Rightarrow> Ret NetShot0 | Some ls \<Rightarrow> net_loop NetShot0 (drop 2 ls))"

record SysinfoShot =
  loads :: "u64 list"
  uptime :: int

definition GetMachineSysinfoShot :: "(u64 list \<times> int) option \<Rightarrow> SysinfoShot" where
  "GetMachineSysinfoShot info = (case info of
       None \<Rightarrow> \<lparr>loads = [0, 0, 0], uptime = 0\<rparr>
     | Some (l, u) \<Rightarrow> \<lparr>loads = take 3 l, uptime = u\<rparr>)"

section \<open>What a processor shot loses\<close>

text \<open>
  The line the kernel prints and the shot it becomes.
\<close>

definition cpu_line :: "u64 list \<Rightarrow> string" where
  "cpu_line xs = ''cpu '' @ concat (map (\<lambda>x. '' '' @ fmt_u64 x) xs)"

lemma read_dec_fmt [simp]: "read_dec (fmt_u64 w) = Some (unat w)"
  by (simp add: fmt_u64_def)

lemma takeWhile_digits:
  assumes "rest = [] \<or> \<not> is_digit (hd rest)" "length (fmt_u64 x) \<le> w"
  shows "takeWhile is_digit (take w (fmt_u64 x @ rest)) = fmt_u64 x"
proof -
  have "takeWhile is_digit (fmt_u64 x @ r) = fmt_u64 x @ takeWhile is_digit r" for r
    using dec_digits [of "unat x"] by (intro takeWhile_append2) (simp add: fmt_u64_def list_all_iff)
  moreover have "takeWhile is_digit (take (w - length (fmt_u64 x)) rest) = []"
    using assms(1) by (cases rest; cases "w - length (fmt_u64 x)") auto
  ultimately show ?thesis using assms(2) by simp
qed

lemma scan_number_fmt:
  assumes "rest = [] \<or> \<not> is_digit (hd rest)" "length (fmt_u64 x) \<le> w"
  shows "scan_number w ('' '' @ fmt_u64 x @ rest) = Some (x, rest)"
proof -
  obtain c ds where c: "fmt_u64 x = c # ds" using dec_nonempty [of "unat x"]
    by (cases "fmt_u64 x") (auto simp: fmt_u64_def)
  have "is_digit c" using dec_digit_set [of c "unat x"] c by (simp add: fmt_u64_def)
  then have "\<not> isspace c" "c \<noteq> CHR ''-''" "c \<noteq> CHR ''+''" by (auto simp: is_digit_def)
  then have "dropWhile isspace ('' '' @ fmt_u64 x @ rest) = fmt_u64 x @ rest"
    by (simp add: c)
  moreover have "(case fmt_u64 x @ rest of [] \<Rightarrow> False | d # _ \<Rightarrow> d = CHR ''-'' \<or> d = CHR ''+'') = False"
    "(case fmt_u64 x @ rest of [] \<Rightarrow> False | d # _ \<Rightarrow> d = CHR ''-'') = False"
    using c \<open>c \<noteq> CHR ''-''\<close> \<open>c \<noteq> CHR ''+''\<close> by simp_all
  ultimately show ?thesis
    using takeWhile_digits [OF assms] by (simp add: scan_number_def Let_def)
qed

lemma scan_numbers_line:
  "\<forall>x \<in> set xs. length (fmt_u64 x) \<le> w \<Longrightarrow> length xs \<le> k \<Longrightarrow>
   scan_numbers w k (concat (map (\<lambda>x. '' '' @ fmt_u64 x) xs)) = xs"
proof (induction xs arbitrary: k)
  case Nil
  then show ?case by (cases k) (simp_all add: scan_number_def read_dec_def)
next
  case (Cons x xs)
  obtain j where k: "k = Suc j" using Cons.prems(2) by (cases k) auto
  let ?rest = "concat (map (\<lambda>x. '' '' @ fmt_u64 x) xs)"
  have "?rest = [] \<or> \<not> is_digit (hd ?rest)" by (cases xs) (auto simp: is_digit_def)
  from scan_number_fmt [OF this, of x w] Cons k show ?case by simp
qed

lemma dropWhile_twice: "dropWhile P (dropWhile P s) = dropWhile P s"
  by (induction s) auto

lemma scan_numbers_skip: "scan_numbers w k (dropWhile isspace ('' '' @ s)) = scan_numbers w k s"
proof (cases k)
  case (Suc j)
  have "scan_number w (dropWhile isspace s) = scan_number w s"
    by (simp add: scan_number_def dropWhile_twice)
  then show ?thesis by (simp add: Suc)
qed simp

text \<open>
  From the line the kernel prints with its ten counters, each of at most sixteen digits, a
  processor shot takes the counters in order, with guest time taken out of user time and guest
  nice time out of nice time. The waiting time for input and output is read and then dropped: the
  shot always has it zero, so the load counts no such waiting as idle time.
\<close>

theorem cpu_shot_of_kernel_line:
  assumes "xs = [u, n, sy, idl, io, iq, si, st, g, gn]" "\<forall>x \<in> set xs. length (fmt_u64 x) \<le> 16"
  shows "GetMachineCpuShot (Some (cpu_line xs)) =
     Ret \<lparr>user = u - g, nice = n - gn, system = sy, idle = idl, iowait = 0, irq = iq, softirq = si,
          steal = st, guest = g, guest_nice = gn\<rparr>"
proof -
  let ?r = "concat (map (\<lambda>x. '' '' @ fmt_u64 x) xs)"
  have a: "after_prefix ''cpu'' (cpu_line xs) = Some ('' '' @ ?r)"
    unfolding cpu_line_def by simp
  have "scan_numbers 16 10 (dropWhile isspace ('' '' @ ?r)) = scan_numbers 16 10 ?r"
    by (rule scan_numbers_skip)
  also have "\<dots> = xs" using assms by (intro scan_numbers_line) auto
  finally show ?thesis
    unfolding GetMachineCpuShot_def option.case a Let_def
    by (simp add: assms(1) field_def CpuShot0_def)
qed

theorem cpu_shot_of_kernel_line_witness:
  "GetMachineCpuShot (Some (cpu_line [9, 2, 3, 4, 500, 6, 7, 8, 1, 0])) =
     Ret \<lparr>user = 8, nice = 2, system = 3, idle = 4, iowait = 0, irq = 6, softirq = 7, steal = 8,
          guest = 1, guest_nice = 0\<rparr>"
proof -
  have "\<forall>x \<in> set [9, 2, 3, 4, 500, 6, 7, 8, 1, 0 :: u64]. length (fmt_u64 x) \<le> 16"
    by (simp add: fmt_u64_def dec.simps)
  from cpu_shot_of_kernel_line [OF refl this] show ?thesis by simp
qed

end
