(* ===== verification/Timeshift.thy ===== *)
theory Timeshift
  imports M3u8 SysUtils "HOL-Library.Multiset" "HOL-Library.Signed_Division"
begin

text \<open>
  Components \<open>stream/timeshift\<close>, \<open>streams/timeshift/timeshift_recorder_stream\<close> and
  \<open>streams/timeshift/catchup_stream\<close>: finding the chunk to play or to continue from in a chunk
  directory, and naming the chunks a recorder writes. Times are integers of seconds (\<open>time_t\<close>),
  chunk indices are 64-bit. A file scan yields pairs of base name and path. A call of
  \<open>CRITICAL_LOG\<close> ends the process when the log policy \<open>crit\<close> says so.
\<close>

section \<open>Chunk directories\<close>

type_synonym chunk_index_t = u64

definition invalid_chunk_index :: chunk_index_t where
  "invalid_chunk_index = - 1"

definition GST_CLOCK_TIME_NONE :: u64 where
  "GST_CLOCK_TIME_NONE = - 1"

record TimeShiftInfo =
  timshift_dir :: string
  timeshift_chunk_life_time :: int
  timeshift_delay :: int

definition DEFAULT_CHUNK_LIFE_TIME :: int where
  "DEFAULT_CHUNK_LIFE_TIME = 12 * 3600"

definition TimeShiftInfo0 :: TimeShiftInfo where
  "TimeShiftInfo0 = \<lparr>timshift_dir = [], timeshift_chunk_life_time = DEFAULT_CHUNK_LIFE_TIME,
     timeshift_delay = 0\<rparr>"

record file_path =
  base_name :: string
  full_path :: string

text \<open>What a directory scan sees, and the time of the last modification (\<open>None\<close>: an error).\<close>

record chunk_fs =
  cf_dir_exists :: "string \<Rightarrow> bool"
  cf_scan :: "string \<Rightarrow> string \<Rightarrow> file_path list"
  cf_mtime :: "string \<Rightarrow> int option"

definition filter_files :: "'a conv_scheme \<Rightarrow> file_path \<Rightarrow> bool" where
  "filter_files cv path = (cv_u64 cv (base_name path) \<noteq> None)"

definition compare_files :: "'a conv_scheme \<Rightarrow> file_path \<Rightarrow> file_path \<Rightarrow> bool outcome" where
  "compare_files cv first second =
     (case cv_u64 cv (base_name first) of None \<Rightarrow> Abort | Some first_index \<Rightarrow>
      (case cv_u64 cv (base_name second) of None \<Rightarrow> Abort | Some second_index \<Rightarrow>
       Ret (first_index < second_index)))"

text \<open>\<open>std::sort\<close> with a comparison that may end the process.\<close>

fun sort_insert :: "('x \<Rightarrow> 'x \<Rightarrow> bool outcome) \<Rightarrow> 'x \<Rightarrow> 'x list \<Rightarrow> 'x list outcome" where
  "sort_insert cmp x [] = Ret [x]"
| "sort_insert cmp x (y # ys) = (case cmp y x of
       Abort \<Rightarrow> Abort
     | Ret True \<Rightarrow> (case sort_insert cmp x ys of Abort \<Rightarrow> Abort | Ret zs \<Rightarrow> Ret (y # zs))
     | Ret False \<Rightarrow> Ret (x # y # ys))"

fun std_sort :: "('x \<Rightarrow> 'x \<Rightarrow> bool outcome) \<Rightarrow> 'x list \<Rightarrow> 'x list outcome" where
  "std_sort cmp [] = Ret []"
| "std_sort cmp (x # xs) = (case std_sort cmp xs of Abort \<Rightarrow> Abort | Ret ys \<Rightarrow> sort_insert cmp x ys)"

fun play_loop ::
  "'a conv_scheme \<Rightarrow> 'b chunk_fs_scheme \<Rightarrow> int \<Rightarrow> int \<Rightarrow> chunk_index_t \<Rightarrow> file_path list
     \<Rightarrow> chunk_index_t option outcome" where
  "play_loop cv fs desired_time chunk_duration prev_index [] = Ret None"
| "play_loop cv fs desired_time chunk_duration prev_index (file1 # files) =
     (case cv_u64 cv (base_name file1) of None \<Rightarrow> Abort | Some lindex \<Rightarrow>
      (case cf_mtime fs (full_path file1) of None \<Rightarrow> Abort | Some file_created_time \<Rightarrow>
       let diff = (desired_time - file_created_time) + chunk_duration in
       if - chunk_duration < diff \<and> diff < chunk_duration then
         (if diff > 0 \<and> prev_index \<noteq> invalid_chunk_index then Ret (Some prev_index)
          else Ret (Some lindex))
       else play_loop cv fs desired_time chunk_duration lindex files))"

definition chunk_files :: "'a conv_scheme \<Rightarrow> 'b chunk_fs_scheme \<Rightarrow> TimeShiftInfo \<Rightarrow> file_path list" where
  "chunk_files cv fs info = filter (filter_files cv) (cf_scan fs (timshift_dir info) ''.ts'')"

text \<open>\<open>now_ms\<close> is the value of \<open>current_utc_mstime()\<close>.\<close>

definition FindChunkToPlay ::
  "'a conv_scheme \<Rightarrow> 'b chunk_fs_scheme \<Rightarrow> bool \<Rightarrow> TimeShiftInfo \<Rightarrow> int \<Rightarrow> int
     \<Rightarrow> chunk_index_t option outcome" where
  "FindChunkToPlay cv fs crit info now_ms chunk_duration =
     (let desired_time = now_ms sdiv 1000 - timeshift_delay info * 60 in
      if \<not> cf_dir_exists fs (timshift_dir info) \<and> crit then Abort
      else let files = chunk_files cv fs info in
        if files = [] then Ret None
        else (case std_sort (compare_files cv) files of
            Abort \<Rightarrow> Abort
          | Ret sorted_files \<Rightarrow>
              play_loop cv fs desired_time chunk_duration invalid_chunk_index sorted_files))"

definition FindLastChunk ::
  "'a conv_scheme \<Rightarrow> 'b chunk_fs_scheme \<Rightarrow> bool \<Rightarrow> TimeShiftInfo \<Rightarrow> (chunk_index_t \<times> int) option outcome" where
  "FindLastChunk cv fs crit info =
     (if \<not> cf_dir_exists fs (timshift_dir info) \<and> crit then Abort
      else let files = chunk_files cv fs info in
        if files = [] then Ret None
        else (case std_sort (compare_files cv) files of
            Abort \<Rightarrow> Abort
          | Ret sorted_files \<Rightarrow>
             (let last_file = last sorted_files in
              case cf_mtime fs (full_path last_file) of
                None \<Rightarrow> Ret None
              | Some file_created_time \<Rightarrow>
                 (case cv_u64 cv (base_name last_file) of
                    None \<Rightarrow> Ret None
                  | Some lindex \<Rightarrow> Ret (Some (lindex, file_created_time))))))"

section \<open>Sorting the chunk files\<close>

lemma sort_insert_total:
  assumes "\<And>a b. a \<in> S \<Longrightarrow> b \<in> S \<Longrightarrow> cmp a b = Ret (k a < (k b :: 'k :: linorder))"
    and "x \<in> S" "set ys \<subseteq> S" "sorted (map k ys)"
  shows "\<exists>zs. sort_insert cmp x ys = Ret zs \<and> mset zs = mset (x # ys) \<and> sorted (map k zs)"
  using assms(3,4)
proof (induction ys)
  case (Cons y ys)
  then obtain zs where zs: "sort_insert cmp x ys = Ret zs" "mset zs = mset (x # ys)" "sorted (map k zs)"
    by auto
  have c: "cmp y x = Ret (k y < k x)" using assms(1,2) Cons.prems(1) by simp
  have "set zs = insert x (set ys)" using zs(2) by (metis set_mset_mset list.simps(15))
  then show ?case using zs c Cons.prems(2) by (cases "k y < k x") auto
qed simp

lemma std_sort_total:
  assumes "\<And>a b. a \<in> set xs \<Longrightarrow> b \<in> set xs \<Longrightarrow> cmp a b = Ret (k a < (k b :: 'k :: linorder))"
  shows "\<exists>zs. std_sort cmp xs = Ret zs \<and> mset zs = mset xs \<and> sorted (map k zs)"
  using assms
proof (induction xs)
  case (Cons x xs)
  then obtain zs where zs: "std_sort cmp xs = Ret zs" "mset zs = mset xs" "sorted (map k zs)" by auto
  have "set zs = set xs" using zs(2) by (metis set_mset_mset)
  with sort_insert_total [of "set (x # xs)" cmp k x zs] Cons.prems zs show ?case by auto
qed simp

definition index_of :: "'a conv_scheme \<Rightarrow> file_path \<Rightarrow> chunk_index_t" where
  "index_of cv f = the (cv_u64 cv (base_name f))"

lemma chunk_files_index:
  "f \<in> set (chunk_files cv fs info) \<Longrightarrow> cv_u64 cv (base_name f) = Some (index_of cv f)"
  by (auto simp: chunk_files_def filter_files_def index_of_def)

lemma chunk_files_sorted:
  "\<exists>zs. std_sort (compare_files cv) (chunk_files cv fs info) = Ret zs
     \<and> set zs = set (chunk_files cv fs info) \<and> sorted (map (index_of cv) zs)"
proof -
  have "\<exists>zs. std_sort (compare_files cv) (chunk_files cv fs info) = Ret zs
     \<and> mset zs = mset (chunk_files cv fs info) \<and> sorted (map (index_of cv) zs)"
    by (rule std_sort_total) (simp add: compare_files_def chunk_files_index)
  then show ?thesis by (metis set_mset_mset)
qed

lemma sorted_last_max: "sorted (map k xs) \<Longrightarrow> x \<in> set xs \<Longrightarrow> k x \<le> k (last xs)"
  by (induction xs) auto

text \<open>
  The last chunk of a recording: when the directory is there, finding it never ends the
  process, and a directory with chunk files whose times can be read gives the largest chunk index
  of all of them, with the time of a file of that index; a directory without chunk files gives
  nothing.
\<close>

theorem find_last_chunk_is_maximum:
  assumes "cf_dir_exists fs (timshift_dir info)"
    and "\<forall>f \<in> set (chunk_files cv fs info). cf_mtime fs (full_path f) \<noteq> None"
  shows "(chunk_files cv fs info = [] \<and> FindLastChunk cv fs crit info = Ret None) \<or>
     (\<exists>f \<in> set (chunk_files cv fs info). \<exists>t.
        FindLastChunk cv fs crit info = Ret (Some (index_of cv f, t)) \<and> cf_mtime fs (full_path f) = Some t
        \<and> (\<forall>g \<in> set (chunk_files cv fs info). index_of cv g \<le> index_of cv f))"
proof (cases "chunk_files cv fs info = []")
  case False
  obtain zs where zs: "std_sort (compare_files cv) (chunk_files cv fs info) = Ret zs"
    "set zs = set (chunk_files cv fs info)" "sorted (map (index_of cv) zs)"
    using chunk_files_sorted by blast
  have l: "last zs \<in> set (chunk_files cv fs info)"
    using False zs(2) by (metis last_in_set set_empty2)
  obtain t where t: "cf_mtime fs (full_path (last zs)) = Some t" using assms(2) l by auto
  have "FindLastChunk cv fs crit info = Ret (Some (index_of cv (last zs), t))"
    using assms(1) False zs(1) t chunk_files_index [OF l] by (simp add: FindLastChunk_def Let_def)
  moreover have "\<forall>g \<in> set (chunk_files cv fs info). index_of cv g \<le> index_of cv (last zs)"
    using sorted_last_max [OF zs(3)] zs(2) by blast
  ultimately show ?thesis using l t by blast
qed (use assms(1) in \<open>simp add: FindLastChunk_def\<close>)

text \<open>A concrete directory of three chunks, for the witnesses.\<close>

definition demo_fs :: chunk_fs where
  "demo_fs = \<lparr>cf_dir_exists = (\<lambda>_. True),
     cf_scan = (\<lambda>d e. [\<lparr>base_name = ''10'', full_path = ''d/10.ts''\<rparr>, \<lparr>base_name = ''x'', full_path = ''d/x.ts''\<rparr>,
                       \<lparr>base_name = ''8'', full_path = ''d/8.ts''\<rparr>, \<lparr>base_name = ''9'', full_path = ''d/9.ts''\<rparr>]),
     cf_mtime = (\<lambda>p. if p = ''d/8.ts'' then Some 100 else if p = ''d/9.ts'' then Some 110 else Some 120)\<rparr>"

lemma std_u_lit [simp]:
  "(std_u ''8'' :: u64 option) = Some 8" "(std_u ''9'' :: u64 option) = Some 9"
  "(std_u ''10'' :: u64 option) = Some 10" "(std_u ''x'' :: u64 option) = None"
  by (simp_all add: std_u_def read_dec_def is_digit_def digit_val_def)

lemma demo_files:
  "chunk_files std_conv demo_fs info =
     [\<lparr>base_name = ''10'', full_path = ''d/10.ts''\<rparr>, \<lparr>base_name = ''8'', full_path = ''d/8.ts''\<rparr>,
      \<lparr>base_name = ''9'', full_path = ''d/9.ts''\<rparr>]"
  by (simp add: chunk_files_def filter_files_def demo_fs_def std_conv_def)

lemma demo_last: "FindLastChunk std_conv demo_fs crit info = Ret (Some (10, 120))"
  unfolding FindLastChunk_def demo_files
  by (simp add: compare_files_def std_conv_def Let_def) (simp add: demo_fs_def std_conv_def)

theorem find_last_chunk_is_maximum_witness:
  "FindLastChunk std_conv demo_fs True TimeShiftInfo0 = Ret (Some (10, 120))"
proof -
  have "cf_dir_exists demo_fs (timshift_dir TimeShiftInfo0)"
    "\<forall>f \<in> set (chunk_files std_conv demo_fs TimeShiftInfo0). cf_mtime demo_fs (full_path f) \<noteq> None"
    by (simp_all add: demo_fs_def)
  from find_last_chunk_is_maximum [OF this, of True] show ?thesis
    unfolding demo_files by (auto simp: index_of_def std_conv_def demo_fs_def)
qed

section \<open>The chunk to play\<close>

definition in_window :: "'b chunk_fs_scheme \<Rightarrow> int \<Rightarrow> int \<Rightarrow> file_path \<Rightarrow> bool" where
  "in_window fs desired_time chunk_duration f =
     (case cf_mtime fs (full_path f) of None \<Rightarrow> False
      | Some t \<Rightarrow> - chunk_duration < desired_time - t + chunk_duration \<and> desired_time - t + chunk_duration < chunk_duration)"

lemma play_loop_result:
  assumes "\<forall>f \<in> set zs. cf_mtime fs (full_path f) \<noteq> None \<and> cv_u64 cv (base_name f) = Some (index_of cv f)"
    and "sorted (map (index_of cv) zs)" "\<forall>f \<in> set zs. prev = invalid_chunk_index \<or> prev \<le> index_of cv f"
  shows "(play_loop cv fs w d prev zs = Ret None \<and> (\<forall>f \<in> set zs. \<not> in_window fs w d f)) \<or>
     (\<exists>i. play_loop cv fs w d prev zs = Ret (Some i) \<and> (i = prev \<and> prev \<noteq> invalid_chunk_index \<or> i \<in> index_of cv ` set zs)
        \<and> (\<exists>g \<in> set zs. in_window fs w d g \<and> i \<le> index_of cv g))"
  using assms
proof (induction zs arbitrary: prev)
  case (Cons f zs)
  obtain t where t: "cf_mtime fs (full_path f) = Some t" using Cons.prems(1) by auto
  have x: "cv_u64 cv (base_name f) = Some (index_of cv f)" using Cons.prems(1) by simp
  show ?case
  proof (cases "in_window fs w d f")
    case True
    then show ?thesis using t x Cons.prems(3) by (auto simp: in_window_def Let_def)
  next
    case False
    have "play_loop cv fs w d prev (f # zs) = play_loop cv fs w d (index_of cv f) zs"
      using False t x by (auto simp: in_window_def Let_def)
    moreover have "\<forall>g \<in> set zs. index_of cv f = invalid_chunk_index \<or> index_of cv f \<le> index_of cv g"
      using Cons.prems(2) by simp
    ultimately show ?thesis
      using Cons.IH [of "index_of cv f"] Cons.prems(1,2) False by fastforce
  qed
qed simp

text \<open>
  (C33) Choosing where a delayed playback starts: with the directory present and the times
  readable the search never ends the process; it answers with the index of a chunk file of the
  directory, at or before a chunk whose time lies within one chunk duration of the wanted time,
  and it answers with nothing exactly when no chunk lies in that window.
\<close>

theorem find_chunk_to_play_correct:
  assumes "cf_dir_exists fs (timshift_dir info)"
    and "\<forall>f \<in> set (chunk_files cv fs info). cf_mtime fs (full_path f) \<noteq> None"
    and "w = now_ms sdiv 1000 - timeshift_delay info * 60"
  shows "(FindChunkToPlay cv fs crit info now_ms d = Ret None
        \<and> (\<forall>f \<in> set (chunk_files cv fs info). \<not> in_window fs w d f)) \<or>
     (\<exists>f \<in> set (chunk_files cv fs info). \<exists>g \<in> set (chunk_files cv fs info).
        FindChunkToPlay cv fs crit info now_ms d = Ret (Some (index_of cv f))
        \<and> in_window fs w d g \<and> index_of cv f \<le> index_of cv g)"
proof (cases "chunk_files cv fs info = []")
  case False
  obtain zs where zs: "std_sort (compare_files cv) (chunk_files cv fs info) = Ret zs"
    "set zs = set (chunk_files cv fs info)" "sorted (map (index_of cv) zs)"
    using chunk_files_sorted by blast
  have eq: "FindChunkToPlay cv fs crit info now_ms d = play_loop cv fs w d invalid_chunk_index zs"
    using assms(1,3) False zs(1) by (simp add: FindChunkToPlay_def Let_def)
  have "\<forall>f \<in> set zs. cf_mtime fs (full_path f) \<noteq> None \<and> cv_u64 cv (base_name f) = Some (index_of cv f)"
    using assms(2) zs(2) chunk_files_index [of _ cv fs info] by blast
  from play_loop_result [OF this zs(3), of invalid_chunk_index w d]
  show ?thesis unfolding eq zs(2) by fastforce
qed (use assms(1) in \<open>simp add: FindChunkToPlay_def\<close>)

theorem find_chunk_to_play_correct_witness:
  "\<exists>i \<in> {8, 9, 10}. FindChunkToPlay std_conv demo_fs True (TimeShiftInfo0\<lparr>timeshift_delay := 1\<rparr>) 165000 10
     = Ret (Some i)"
proof -
  let ?i = "TimeShiftInfo0\<lparr>timeshift_delay := 1\<rparr>"
  have w: "(105 :: int) = 165000 sdiv 1000 - timeshift_delay ?i * 60" by (simp add: signed_divide_int_def)
  have "cf_dir_exists demo_fs (timshift_dir ?i)"
    "\<forall>f \<in> set (chunk_files std_conv demo_fs ?i). cf_mtime demo_fs (full_path f) \<noteq> None"
    by (simp_all add: demo_fs_def)
  from find_chunk_to_play_correct [OF this w, of True 10] show ?thesis
    unfolding demo_files by (auto simp: index_of_def std_conv_def demo_fs_def in_window_def)
qed

section \<open>Recorders\<close>

text \<open>
  The state of \<open>TimeShiftRecorderStream\<close> and of its derived \<open>CatchupStream\<close>: the information on
  the directory, the configured chunk duration, the current chunk and, for the catch-up, the list
  of chunks.
\<close>

record recorder =
  rec_info :: TimeShiftInfo
  rec_chunk_duration :: int
  rec_chunk :: ChunkInfo
  rec_chunks :: "ChunkInfo list"

definition recorder_GetNextChunkStrategy ::
  "int \<Rightarrow> int \<Rightarrow> chunk_index_t \<Rightarrow> int \<Rightarrow> chunk_index_t outcome" where
  "recorder_GetNextChunkStrategy chunk_duration now_ms last_index last_index_created_time =
     (let cur_time = now_ms sdiv 1000; diff = cur_time - last_index_created_time in
      if diff > 0 then
        (if chunk_duration = 0 then Abort else Ret (last_index + of_int (diff sdiv chunk_duration)))
      else Ret last_index)"

definition catchup_GetNextChunkStrategy :: "chunk_index_t \<Rightarrow> int \<Rightarrow> chunk_index_t outcome" where
  "catchup_GetNextChunkStrategy last_index last_index_created_time = Ret (last_index + 1)"

text \<open>
  \<open>OnSplitmuxsinkCreated\<close>, up to the linking of the pads. The braced assignment
  \<open>chunk_ = {path, index, GST_CLOCK_TIME_NONE}\<close> calls the constructor of \<open>ChunkInfo\<close>, whose second
  parameter is the duration and whose third is the index.
\<close>

definition make_ChunkInfo :: "string \<Rightarrow> u64 \<Rightarrow> u64 \<Rightarrow> ChunkInfo" where
  "make_ChunkInfo path duration index = \<lparr>ci_path = path, ci_duration = duration, ci_index = index\<rparr>"

definition OnSplitmuxsinkCreated ::
  "(chunk_index_t \<Rightarrow> int \<Rightarrow> chunk_index_t outcome) \<Rightarrow> 'a conv_scheme \<Rightarrow> 'b chunk_fs_scheme \<Rightarrow> bool
     \<Rightarrow> recorder \<Rightarrow> recorder outcome" where
  "OnSplitmuxsinkCreated strategy cv fs crit r =
     (case FindLastChunk cv fs crit (rec_info r) of
        Abort \<Rightarrow> Abort
      | Ret found \<Rightarrow>
         (case (case found of None \<Rightarrow> Ret invalid_chunk_index
                | Some (index, file_created_time) \<Rightarrow> strategy index file_created_time) of
            Abort \<Rightarrow> Abort
          | Ret index \<Rightarrow>
             Ret (r\<lparr>rec_chunk := make_ChunkInfo (timshift_dir (rec_info r)) index GST_CLOCK_TIME_NONE\<rparr>)))"

text \<open>The names of the chunk files; \<open>is_file_exist\<close> is the state of the directory.\<close>

definition chunk_path :: "string \<Rightarrow> chunk_index_t \<Rightarrow> string" where
  "chunk_path dir index = dir @ fmt_u64 index @ ''.ts''"

definition CalcNextIndex :: "(string \<Rightarrow> bool) \<Rightarrow> recorder \<Rightarrow> chunk_index_t" where
  "CalcNextIndex is_file_exist r =
     (let index = (if ci_index (rec_chunk r) = invalid_chunk_index then 0 else ci_index (rec_chunk r)) in
      if is_file_exist (chunk_path (ci_path (rec_chunk r)) index) then index + 1 else index)"

text \<open>
  \<open>OnPathSet\<close>: the sample is the time of its buffer, \<open>None\<close> without a sample or a buffer. The
  recorder ignores it; the catch-up closes the previous chunk with it and appends the new one.
\<close>

definition recorder_OnPathSet :: "u64 option \<Rightarrow> (string \<Rightarrow> bool) \<Rightarrow> recorder \<Rightarrow> string \<times> recorder" where
  "recorder_OnPathSet sample is_file_exist r =
     (let ind = CalcNextIndex is_file_exist r in
      (chunk_path (ci_path (rec_chunk r)) ind, r\<lparr>rec_chunk := (rec_chunk r)\<lparr>ci_index := ind\<rparr>\<rparr>))"

definition set_last_duration :: "u64 \<Rightarrow> ChunkInfo list \<Rightarrow> ChunkInfo list" where
  "set_last_duration d cs =
     (if cs = [] then [] else butlast cs @ [(last cs)\<lparr>ci_duration := d\<rparr>])"

definition catchup_OnPathSet :: "u64 option \<Rightarrow> (string \<Rightarrow> bool) \<Rightarrow> recorder \<Rightarrow> string \<times> recorder" where
  "catchup_OnPathSet sample is_file_exist r =
     (let ind = CalcNextIndex is_file_exist r;
          chunk = make_ChunkInfo (fmt_u64 ind @ ''.ts'') GST_CLOCK_TIME_NONE ind;
          r1 = (case sample of None \<Rightarrow> r
                | Some curr_time \<Rightarrow>
                   (if curr_time \<noteq> GST_CLOCK_TIME_NONE \<and> ci_duration (rec_chunk r) \<noteq> GST_CLOCK_TIME_NONE
                    then r\<lparr>rec_chunks := set_last_duration (curr_time - ci_duration (rec_chunk r)) (rec_chunks r)\<rparr>
                    else r)\<lparr>rec_chunk := (rec_chunk r)\<lparr>ci_duration := curr_time\<rparr>\<rparr>);
          r2 = r1\<lparr>rec_chunks := rec_chunks r1 @ [chunk]\<rparr>
      in recorder_OnPathSet sample is_file_exist r2)"

text \<open>
  \<open>HandleMainTimerTick\<close> of the recorder, before it calls the base class: every
  \<open>no_data_panic_sec\<close> seconds chunks older than the life time are removed.
\<close>

definition no_data_panic_sec :: int where
  "no_data_panic_sec = 60"

definition recorder_HandleMainTimerTick ::
  "'a fs_api_scheme \<Rightarrow> int \<Rightarrow> int \<Rightarrow> TimeShiftInfo \<Rightarrow> (string \<times> string list) option \<Rightarrow> (string \<times> string list) option" where
  "recorder_HandleMainTimerTick fs now_ms el tinfo dir =
     (if el mod no_data_panic_sec = 0
      then RemoveOldFilesByTime fs dir (now_ms sdiv 1000 - timeshift_chunk_life_time tinfo) ''.ts''
      else dir)"

section \<open>Names of recorded chunks\<close>

text \<open>
  A recording session: the operation names a chunk for each sample, and the multiplexer creates
  the file before it asks for the next name.
\<close>

fun record_run ::
  "('s \<Rightarrow> (string \<Rightarrow> bool) \<Rightarrow> recorder \<Rightarrow> string \<times> recorder) \<Rightarrow> 's list \<Rightarrow> (string \<Rightarrow> bool) \<Rightarrow> recorder
     \<Rightarrow> string list \<times> recorder" where
  "record_run op [] exist r = ([], r)"
| "record_run op (s # ss) exist r =
     (let (p, r1) = op s exist r; (ps, r2) = record_run op ss (exist(p := True)) r1 in (p # ps, r2))"

text \<open>
  What both recorders promise of \<open>OnPathSet\<close>: the name is that of the next index, which becomes
  the current one, and the directory stays.
\<close>

locale chunk_namer =
  fixes on_path_set :: "'s \<Rightarrow> (string \<Rightarrow> bool) \<Rightarrow> recorder \<Rightarrow> string \<times> recorder"
  assumes name: "fst (on_path_set s exist r) = chunk_path (ci_path (rec_chunk r)) (CalcNextIndex exist r)"
    and index: "ci_index (rec_chunk (snd (on_path_set s exist r))) = CalcNextIndex exist r"
    and dir: "ci_path (rec_chunk (snd (on_path_set s exist r))) = ci_path (rec_chunk r)"
begin

lemma next_after_written:
  assumes "exist (chunk_path (ci_path (rec_chunk r)) (ci_index (rec_chunk r)))"
    and "ci_index (rec_chunk r) \<noteq> invalid_chunk_index"
  shows "CalcNextIndex exist r = ci_index (rec_chunk r) + 1"
  using assms by (simp add: CalcNextIndex_def)

lemma run_names:
  "unat (CalcNextIndex exist r) + length ss < 2 ^ 64 \<Longrightarrow>
   fst (record_run on_path_set ss exist r)
     = map (\<lambda>k. chunk_path (ci_path (rec_chunk r)) (CalcNextIndex exist r + of_nat k)) [0..<length ss]"
proof (induction ss arbitrary: exist r)
  case (Cons s ss)
  let ?i = "CalcNextIndex exist r" and ?d = "ci_path (rec_chunk r)"
  obtain r1 where op: "on_path_set s exist r = (chunk_path ?d ?i, r1)"
    using name [of s exist r] by (cases "on_path_set s exist r") simp
  then have r1: "ci_index (rec_chunk r1) = ?i" "ci_path (rec_chunk r1) = ?d"
    using index [of s exist r] dir [of s exist r] by simp_all
  define ex1 where "ex1 = exist(chunk_path ?d ?i := True)"
  have "?i \<noteq> invalid_chunk_index"
    using Cons.prems by (auto simp: invalid_chunk_index_def unsigned_minus_1_eq_mask mask_eq_exp_minus_1)
  then have nxt: "CalcNextIndex ex1 r1 = ?i + 1"
    using next_after_written [of ex1 r1] r1 by (simp add: ex1_def)
  have u: "unat (?i + 1) = unat ?i + 1"
    using Cons.prems by (simp add: unat_plus_if')
  have "fst (record_run on_path_set ss ex1 r1)
     = map (\<lambda>k. chunk_path ?d (?i + 1 + of_nat k)) [0..<length ss]"
    using Cons.IH [of ex1 r1] Cons.prems by (simp add: nxt u r1)
  then show ?case
    by (simp add: op ex1_def [symmetric] split_beta upt_conv_Cons [of 0] map_Suc_upt [symmetric] add.assoc del: upt_Suc)
qed simp

end

interpretation rec_namer: chunk_namer recorder_OnPathSet
  by unfold_locales (simp_all add: recorder_OnPathSet_def Let_def)

lemma CalcNextIndex_cong:
  "ci_path (rec_chunk r) = ci_path (rec_chunk r') \<Longrightarrow> ci_index (rec_chunk r) = ci_index (rec_chunk r') \<Longrightarrow>
   CalcNextIndex exist r = CalcNextIndex exist r'"
  by (simp add: CalcNextIndex_def)

interpretation catchup_namer: chunk_namer catchup_OnPathSet
  by unfold_locales
     (auto simp: catchup_OnPathSet_def recorder_OnPathSet_def Let_def split: option.splits
        intro!: arg_cong [where f = "chunk_path _"] CalcNextIndex_cong)

lemma fmt_u64_inject [simp]: "fmt_u64 a = fmt_u64 b \<longleftrightarrow> a = b"
  by (metis fmt_u64_def option.inject read_dec_dec word_unat_eq_iff)

lemma chunk_path_inject [simp]: "chunk_path d a = chunk_path d b \<longleftrightarrow> a = b"
  by (simp add: chunk_path_def)

lemma of_nat_u64_inject:
  assumes "i < 2 ^ 64" "j < 2 ^ 64" "(of_nat i :: u64) = of_nat j"
  shows "i = j"
proof -
  have "unat (of_nat i :: u64) = i" "unat (of_nat j :: u64) = j"
    using assms(1,2) by (simp_all add: unat_of_nat_small)
  with assms(3) show ?thesis by metis
qed

text \<open>
  (C30) The chunks of one recording session are numbered without gaps and never share a file
  name: from the index the session starts with, each further name carries the next index, for the
  recorder and for the catch-up alike and whatever the samples are, as long as the 64-bit counter
  does not reach its last value.
\<close>

theorem recorded_chunks_consecutive:
  assumes "unat (CalcNextIndex exist r) + length ss < 2 ^ 64"
  shows "fst (record_run recorder_OnPathSet ss exist r)
      = map (\<lambda>k. chunk_path (ci_path (rec_chunk r)) (CalcNextIndex exist r + of_nat k)) [0..<length ss]
    \<and> fst (record_run catchup_OnPathSet ss exist r) = fst (record_run recorder_OnPathSet ss exist r)
    \<and> distinct (fst (record_run recorder_OnPathSet ss exist r))"
proof -
  have "distinct (map (\<lambda>k. chunk_path (ci_path (rec_chunk r)) (CalcNextIndex exist r + of_nat k)) [0..<length ss])"
    using assms by (auto simp: distinct_map inj_on_def intro: of_nat_u64_inject)
  then show ?thesis
    using rec_namer.run_names [OF assms] catchup_namer.run_names [OF assms] by simp
qed

definition demo_recorder :: recorder where
  "demo_recorder = \<lparr>rec_info = TimeShiftInfo0\<lparr>timshift_dir := ''d/''\<rparr>, rec_chunk_duration = 10,
     rec_chunk = \<lparr>ci_path = ''d/'', ci_duration = 0, ci_index = invalid_chunk_index\<rparr>, rec_chunks = []\<rparr>"

theorem recorded_chunks_consecutive_witness:
  "fst (record_run catchup_OnPathSet [None, Some 7, Some 9] (\<lambda>_. False) demo_recorder)
     = [chunk_path ''d/'' 0, chunk_path ''d/'' 1, chunk_path ''d/'' 2]"
  using recorded_chunks_consecutive [of "\<lambda>_. False" demo_recorder "[None, Some 7, Some 9]"]
  by (simp add: CalcNextIndex_def demo_recorder_def upt_rec)

text \<open>
  A restarted recorder does not continue its recording. The index found in the directory
  is stored as the duration of the current chunk and the invalid time as its index, so the first
  chunk of the new session is number 0, or number 1 when a chunk 0 exists, whatever strategy is
  used and whatever chunks the directory holds: an existing chunk 1 is named again.
\<close>

theorem restarted_recorder_starts_over:
  assumes "OnSplitmuxsinkCreated strategy cv fs crit r = Ret r'"
  shows "fst (recorder_OnPathSet sample exist r')
     = (if exist (chunk_path (timshift_dir (rec_info r)) 0) then chunk_path (timshift_dir (rec_info r)) 1
        else chunk_path (timshift_dir (rec_info r)) 0)"
proof -
  have "ci_path (rec_chunk r') = timshift_dir (rec_info r)" "ci_index (rec_chunk r') = invalid_chunk_index"
    using assms by (auto simp: OnSplitmuxsinkCreated_def make_ChunkInfo_def invalid_chunk_index_def
        GST_CLOCK_TIME_NONE_def split: outcome.splits)
  then show ?thesis by (simp add: recorder_OnPathSet_def CalcNextIndex_def Let_def)
qed

theorem restarted_recorder_starts_over_witness:
  "\<exists>r'. OnSplitmuxsinkCreated catchup_GetNextChunkStrategy std_conv demo_fs True demo_recorder = Ret r' \<and>
     fst (recorder_OnPathSet None (\<lambda>_. True) r') = chunk_path ''d/'' 1"
proof -
  obtain r' where r': "OnSplitmuxsinkCreated catchup_GetNextChunkStrategy std_conv demo_fs True demo_recorder = Ret r'"
    by (simp add: OnSplitmuxsinkCreated_def demo_last catchup_GetNextChunkStrategy_def)
  with restarted_recorder_starts_over [OF r', of None "\<lambda>_. True"] show ?thesis
    by (simp add: demo_recorder_def)
qed

section \<open>The playlist of a catch-up\<close>

text \<open>
  The loop of \<open>WriteM3u8List\<close>: a chunk with no valid duration gets the configured one, in the
  list as well, and the first failing write ends the loop.
\<close>

definition fill_duration :: "int \<Rightarrow> ChunkInfo \<Rightarrow> ChunkInfo" where
  "fill_duration duration c =
     (if ci_duration c = GST_CLOCK_TIME_NONE then c\<lparr>ci_duration := of_int (duration * 1000000000)\<rparr> else c)"

fun write_lines ::
  "'f write_buffer \<Rightarrow> 'b fp_scheme \<Rightarrow> int \<Rightarrow> 'f \<Rightarrow> ChunkInfo list \<Rightarrow> errno_error option \<times> 'f \<times> ChunkInfo list" where
  "write_lines write fp duration f [] = (None, f, [])"
| "write_lines write fp duration f (c # cs) =
     (let c1 = fill_duration duration c in
      case WriteLine write fp f c1 of
        (Some err, f1) \<Rightarrow> (Some err, f1, c1 # cs)
      | (None, f1) \<Rightarrow> (case write_lines write fp duration f1 cs of (err, f2, cs1) \<Rightarrow> (err, f2, c1 # cs1)))"

text \<open>\<open>opened\<close> is the file of the playlist, \<open>None\<close> when its path or the opening fails.\<close>

definition WriteM3u8List ::
  "'f write_buffer \<Rightarrow> 'b fp_scheme \<Rightarrow> 'f option \<Rightarrow> recorder \<Rightarrow> 'f option \<times> recorder" where
  "WriteM3u8List write fp opened r = (case opened of
       None \<Rightarrow> (None, r)
     | Some f \<Rightarrow>
        (let duration = rec_chunk_duration r;
             first_index = (case rec_chunks r of [] \<Rightarrow> 0 | c # _ \<Rightarrow> ci_index c)
         in case WriteHeader write f first_index (of_int duration) of
              (Some err, f1) \<Rightarrow> (Some f1, r)
            | (None, f1) \<Rightarrow>
               (case write_lines write fp duration f1 (rec_chunks r) of
                  (Some err, f2, cs) \<Rightarrow> (Some f2, r\<lparr>rec_chunks := cs\<rparr>)
                | (None, f2, cs) \<Rightarrow> (Some (snd (WriteFooter write f2)), r\<lparr>rec_chunks := cs\<rparr>))))"

text \<open>The constructor of \<open>CatchupStream\<close> takes the chunks of the playlist it finds.\<close>

definition catchup_load ::
  "'a conv_scheme \<Rightarrow> 'b fp_scheme \<Rightarrow> (string \<rightharpoonup> string) \<Rightarrow> string option \<Rightarrow> ChunkInfo list outcome" where
  "catchup_load cv fp fs m3u8_path = (case m3u8_path of
       None \<Rightarrow> Ret []
     | Some path \<Rightarrow>
        (case M3u8Reader_Parse cv fp fs \<lparr>mr_version = -1, mr_allow_cache = False, mr_media_sequence = -1,
             mr_target_duration = -1, mr_chunks = []\<rparr> path of
           Abort \<Rightarrow> Abort | Ret (_, reader) \<Rightarrow> Ret (mr_chunks reader)))"

text \<open>A file that accepts every write.\<close>

definition append_file :: "string write_buffer" where
  "append_file f s = (None, f @ s)"

lemma write_lines_append:
  "write_lines append_file fp d f cs
     = (None, f @ concat (map (chunk_text fp) (map (fill_duration d) cs)), map (fill_duration d) cs)"
  by (induction cs arbitrary: f) (simp_all add: append_file_def WriteLine_def Let_def)

lemma fill_duration_index [simp]: "ci_index (fill_duration d c) = ci_index c"
  by (simp add: fill_duration_def)

lemma fill_duration_path [simp]: "ci_path (fill_duration d c) = ci_path c"
  by (simp add: fill_duration_def)

lemma reread_keeps [simp]: "ci_path (reread cv fp c) = ci_path c" "ci_index (reread cv fp c) = ci_index c"
  by (simp_all add: reread_def split: outcome.split)

text \<open>
  (C32) A catch-up that ends writes a playlist from which its successor recovers the recording. With a file
  that accepts the writes and chunks whose names and printed durations the reader accepts, loading the written
  playlist gives the chunks of the list in order, with their names and indices, unfinished ones with the
  configured duration. Each duration is the one its two printed decimals stand for: the recorded nanoseconds
  when these decimals represent them, and the rounded value otherwise.
\<close>

theorem catchup_playlist_reloads:
  assumes "reads_u64 cv" "reads_i32 cv" "0 < rec_chunk_duration r" "rec_chunk_duration r < 2 ^ 31"
    and "\<forall>c \<in> set (rec_chunks r). chunk_readable cv fp (fill_duration (rec_chunk_duration r) c)"
    and "\<forall>c \<in> set (rec_chunks r). unat (ci_index c) < 2 ^ 31"
    and "WriteM3u8List append_file fp (Some []) r = (Some out, r')"
    and "loaded = map (reread cv fp) (rec_chunks r')"
  shows "catchup_load cv fp (\<lambda>p. if p = path then Some out else None) (Some path) = Ret loaded
     \<and> rec_chunks r' = map (fill_duration (rec_chunk_duration r)) (rec_chunks r)
     \<and> map ci_path loaded = map ci_path (rec_chunks r) \<and> map ci_index loaded = map ci_index (rec_chunks r)
     \<and> (\<forall>k<length loaded. printed_duration cv fp (rec_chunks r' ! k) = Ret (ci_duration (loaded ! k)))"
proof -
  let ?cs = "map (fill_duration (rec_chunk_duration r)) (rec_chunks r)"
  let ?i = "case rec_chunks r of [] \<Rightarrow> 0 | c # _ \<Rightarrow> ci_index c" and ?d = "of_int (rec_chunk_duration r) :: u64"
  have res: "out = playlist_text fp ?i ?d ?cs" "rec_chunks r' = ?cs"
    using assms(7)
    by (auto simp: WriteM3u8List_def Let_def WriteHeader_def WriteFooter_def write_lines_append
        append_file_def [of "[]"] playlist_text_def split: prod.splits)
       (auto simp: append_file_def)
  have i: "unat ?i < 2 ^ 31" using assms(6) by (cases "rec_chunks r") auto
  have d: "unat ?d < 2 ^ 31"
  proof -
    have "?d = of_nat (nat (rec_chunk_duration r))" using assms(3) by simp
    then have "unat ?d = nat (rec_chunk_duration r)"
      using assms(4) unat_of_nat_small [of "nat (rec_chunk_duration r)", where ?'n = 64] by simp
    then show ?thesis using assms(4) by simp
  qed
  have ok: "\<forall>c \<in> set ?cs. chunk_readable cv fp c" using assms(5) by simp
  have "printed_duration cv fp c = Ret (ci_duration (reread cv fp c))" if "c \<in> set ?cs" for c
    using ok that by (auto simp: chunk_readable_def Let_def reread_def split: outcome.split)
  then have "\<forall>k<length loaded. printed_duration cv fp (rec_chunks r' ! k) = Ret (ci_duration (loaded ! k))"
    using assms(8) res(2) by simp
  with playlist_text_read [OF assms(1,2) i d ok] res assms(8) show ?thesis
    by (simp add: catchup_load_def M3u8Reader_Parse_def comp_def)
qed

text \<open>A chunk of 9.987654321 seconds is reloaded as 9.99 seconds, the unfinished one with the configured 10 seconds.\<close>

theorem catchup_playlist_reloads_witness:
  "\<exists>out r'. WriteM3u8List append_file centi_clock (Some [])
      (demo_recorder\<lparr>rec_chunks := [\<lparr>ci_path = ''3.ts'', ci_duration = 9987654321, ci_index = 3\<rparr>,
         \<lparr>ci_path = ''4.ts'', ci_duration = -1, ci_index = 4\<rparr>]\<rparr>) = (Some out, r')
    \<and> catchup_load decimal_conv centi_clock (\<lambda>p. if p = ''m'' then Some out else None) (Some ''m'')
      = Ret [\<lparr>ci_path = ''3.ts'', ci_duration = 9990000000, ci_index = 3\<rparr>, \<lparr>ci_path = ''4.ts'', ci_duration = 10000000000, ci_index = 4\<rparr>]"
proof -
  let ?c = "\<lparr>ci_path = ''3.ts'', ci_duration = 9987654321, ci_index = 3\<rparr>"
  let ?e = "\<lparr>ci_path = ''4.ts'', ci_duration = 10000000000, ci_index = 4\<rparr>"
  let ?r = "demo_recorder\<lparr>rec_chunks := [?c, \<lparr>ci_path = ''4.ts'', ci_duration = -1, ci_index = 4\<rparr>]\<rparr>"
  obtain out r' where w: "WriteM3u8List append_file centi_clock (Some []) ?r = (Some out, r')"
    by (simp add: WriteM3u8List_def WriteHeader_def Let_def append_file_def [of "[]"] write_lines_append
        del: write_lines.simps)
  have n: "dec 9 = ''9''" "dec 10 = ''10''" "dec 3 = ''3''" "dec 4 = ''4''" "digit_char 0 = CHR ''0''" "digit_char 9 = CHR ''9''"
    by code_simp+
  have f: "\<lfloor>9992654321 / 10000000 :: rat\<rfloor> = 999" by (simp add: floor_eq_iff)
  have t: "fp_fmt2 centi_clock (fp_secs centi_clock 9987654321) = ''9.99''"
    "fp_fmt2 centi_clock (fp_secs centi_clock 10000000000) = ''10.00''"
    by (simp_all add: centi_clock_def Let_def n f)
  have "cv_f64 decimal_conv ''9.99'' = Some (F64 (999 / 100))" "cv_f64 decimal_conv ''10.00'' = Some (F64 10)"
    by (simp_all add: decimal_conv_def decimal_read_defs)
  moreover have "cast_u64 (fp_scale centi_clock (F64 (999 / 100))) = Ret 9990000000"
    "cast_u64 (fp_scale centi_clock (F64 10)) = Ret 10000000000"
    by (simp_all add: centi_clock_def)
  ultimately have d: "printed_duration decimal_conv centi_clock ?c = Ret 9990000000"
    "printed_duration decimal_conv centi_clock ?e = Ret 10000000000"
    by (simp_all add: printed_duration_def t)
  then have "chunk_readable decimal_conv centi_clock ?c" "chunk_readable decimal_conv centi_clock ?e"
    by (simp_all add: chunk_readable_def t chunk_name_defs n)
  then have p: "\<forall>c \<in> set (rec_chunks ?r). chunk_readable decimal_conv centi_clock (fill_duration (rec_chunk_duration ?r) c)"
    by (simp add: fill_duration_def GST_CLOCK_TIME_NONE_def demo_recorder_def)
  have "0 < rec_chunk_duration ?r" "rec_chunk_duration ?r < 2 ^ 31" "\<forall>c \<in> set (rec_chunks ?r). unat (ci_index c) < 2 ^ 31"
    by (simp_all add: demo_recorder_def)
  from catchup_playlist_reloads [OF reads_decimal this(1,2) p this(3) w refl, of "''m''"] w d show ?thesis
    by (simp add: fill_duration_def GST_CLOCK_TIME_NONE_def demo_recorder_def reread_def)
qed

end
