(* ===== verification/JsonApi.thy ===== *)
theory JsonApi
  imports Prelude "HOL-Library.Countable"
begin

text \<open>
  The interface of the JSON library the sources call: objects with fields, arrays, strings,
  numbers. The library itself is a parameter, the record \<open>json\<close>; \<open>json_laws\<close> states the documented
  behaviour the round trips rely on: a field reads back as it was added, other fields stay, values
  read back from the representation of their own kind, and an integer read through the 32-bit
  accessor is cut to that range. The locale \<open>serializer\<close> is the contract between a class with
  \<open>SerializeFields\<close>/\<open>DoDeSerialize\<close> and the classes that embed it.
\<close>

section \<open>The library\<close>

record 'j json =
  js_new_object :: 'j
  js_add :: "'j \<Rightarrow> string \<Rightarrow> 'j \<Rightarrow> 'j"
  js_get :: "'j \<Rightarrow> string \<Rightarrow> 'j option"
  js_of_int64 :: "int \<Rightarrow> 'j"
  js_int64 :: "'j \<Rightarrow> int"
  js_of_int :: "int \<Rightarrow> 'j"
  js_int :: "'j \<Rightarrow> int"
  js_of_string :: "string \<Rightarrow> 'j"
  js_string :: "'j \<Rightarrow> string"
  js_of_array :: "'j list \<Rightarrow> 'j"
  js_array :: "'j \<Rightarrow> 'j list"
  js_of_double :: "f64 \<Rightarrow> 'j"
  js_double :: "'j \<Rightarrow> f64"
  js_of_bool :: "bool \<Rightarrow> 'j"
  js_bool :: "'j \<Rightarrow> bool"
  js_print :: "'j \<Rightarrow> string"
  js_parse :: "string \<Rightarrow> 'j option"

definition int64_range :: "int \<Rightarrow> bool" where
  "int64_range i \<longleftrightarrow> - (2 ^ 63) \<le> i \<and> i < 2 ^ 63"

definition int32_range :: "int \<Rightarrow> bool" where
  "int32_range i \<longleftrightarrow> - (2 ^ 31) \<le> i \<and> i < 2 ^ 31"

definition clamp32 :: "int \<Rightarrow> int" where
  "clamp32 i = (if i < - (2 ^ 31) then - (2 ^ 31) else if 2 ^ 31 \<le> i then 2 ^ 31 - 1 else i)"

definition json_laws :: "'j json \<Rightarrow> bool" where
  "json_laws J \<longleftrightarrow>
     (\<forall>k. js_get J (js_new_object J) k = None) \<and>
     (\<forall>j k v k'. js_get J (js_add J j k v) k' = (if k' = k then Some v else js_get J j k')) \<and>
     (\<forall>i. int64_range i \<longrightarrow> js_int64 J (js_of_int64 J i) = i \<and> js_int J (js_of_int64 J i) = clamp32 i) \<and>
     (\<forall>i. int32_range i \<longrightarrow> js_int J (js_of_int J i) = i \<and> js_int64 J (js_of_int J i) = i) \<and>
     (\<forall>s. js_string J (js_of_string J s) = s) \<and>
     (\<forall>js. js_array J (js_of_array J js) = js) \<and>
     (\<forall>x. js_double J (js_of_double J x) = x) \<and>
     (\<forall>b. js_bool J (js_of_bool J b) = b) \<and>
     (\<forall>j. js_parse J (js_print J j) = Some j)"

lemma json_lawsD [api_simps]:
  assumes "json_laws J"
  shows "js_get J (js_new_object J) k = None"
    "js_get J (js_add J j k v) k' = (if k' = k then Some v else js_get J j k')"
    "int64_range i \<Longrightarrow> js_int64 J (js_of_int64 J i) = i"
    "int64_range i \<Longrightarrow> js_int J (js_of_int64 J i) = clamp32 i"
    "int32_range i \<Longrightarrow> js_int J (js_of_int J i) = i"
    "int32_range i \<Longrightarrow> js_int64 J (js_of_int J i) = i"
    "js_string J (js_of_string J s) = s" "js_array J (js_of_array J js) = js"
    "js_double J (js_of_double J x) = x" "js_bool J (js_of_bool J b) = b"
    "js_parse J (js_print J j) = Some j"
  using assms by (auto simp: json_laws_def)

lemma clamp32_id [simp]: "int32_range i \<Longrightarrow> clamp32 i = i"
  by (simp add: clamp32_def int32_range_def)

text \<open>An unsigned 64-bit value travels as the signed value with the same bits.\<close>

lemma sint_int64_range [simp]: "int64_range (sint (w :: u64))"
  using sint_greater_eq [of w] sint_less [of w] by (simp add: int64_range_def)

lemma of_int_sint_u64 [simp]: "of_int (sint (w :: u64)) = w"
  by simp

section \<open>A concrete library\<close>

text \<open>A JSON value as a tree, used to evaluate the definitions.\<close>

datatype jval = JInt int | JStr string | JArr "jval list" | JDouble f64 | JBool bool
  | JObj "(string \<times> jval) list"

instance f64 :: countable
  by countable_datatype

instance jval :: countable
  by countable_datatype

text \<open>
  Fields are added to objects; a value that is not an object counts as the empty one. The text of
  a value is any injective code, here the length of the text.
\<close>

fun jv_fields :: "jval \<Rightarrow> (string \<times> jval) list" where
  "jv_fields (JObj fs) = fs"
| "jv_fields _ = []"

definition tree_json :: "jval json" where
  "tree_json = \<lparr>js_new_object = JObj [], js_add = (\<lambda>j k v. JObj ((k, v) # jv_fields j)),
     js_get = (\<lambda>j k. map_of (jv_fields j) k),
     js_of_int64 = JInt, js_int64 = (\<lambda>j. case j of JInt i \<Rightarrow> i | _ \<Rightarrow> 0),
     js_of_int = JInt, js_int = (\<lambda>j. case j of JInt i \<Rightarrow> clamp32 i | _ \<Rightarrow> 0),
     js_of_string = JStr, js_string = (\<lambda>j. case j of JStr s \<Rightarrow> s | _ \<Rightarrow> []),
     js_of_array = JArr, js_array = (\<lambda>j. case j of JArr js \<Rightarrow> js | _ \<Rightarrow> []),
     js_of_double = JDouble, js_double = (\<lambda>j. case j of JDouble x \<Rightarrow> x | _ \<Rightarrow> F64_nan),
     js_of_bool = JBool, js_bool = (\<lambda>j. case j of JBool b \<Rightarrow> b | _ \<Rightarrow> False),
     js_print = (\<lambda>j. replicate (to_nat j) (CHR ''x'')), js_parse = (\<lambda>s. Some (from_nat (length s)))\<rparr>"

lemma tree_json_laws [simp]: "json_laws tree_json"
  by (simp add: json_laws_def tree_json_def)

section \<open>The contract of a serialised class\<close>

text \<open>
  \<open>ser\<close> is \<open>Serialize\<close> (a new object filled by \<open>SerializeFields\<close>), \<open>deser\<close> is \<open>DeSerialize\<close>
  (\<open>DoDeSerialize\<close> into a fresh instance), \<open>valid\<close> the values the class can write, and \<open>norm\<close>
  what a value becomes on its way.
\<close>

locale serializer =
  fixes valid :: "'x \<Rightarrow> bool"
    and ser :: "'x \<Rightarrow> error + 'j"
    and deser :: "'j \<Rightarrow> error + 'x"
    and norm :: "'x \<Rightarrow> 'x"
  assumes written: "valid x \<Longrightarrow> \<exists>j. ser x = Inr j \<and> deser j = Inr (norm x)"
begin

lemma roundtrip: "valid x \<Longrightarrow> ser x = Inr j \<Longrightarrow> deser j = Inr (norm x)"
  using written [of x] by auto

end

text \<open>
  The loops over arrays in the embedding classes: values that cannot be written are skipped, and
  so are array entries that cannot be read.
\<close>

fun ser_list :: "('x \<Rightarrow> error + 'j) \<Rightarrow> 'x list \<Rightarrow> 'j list" where
  "ser_list ser [] = []"
| "ser_list ser (x # xs) = (case ser x of Inl _ \<Rightarrow> ser_list ser xs | Inr j \<Rightarrow> j # ser_list ser xs)"

fun deser_list :: "('j \<Rightarrow> error + 'x) \<Rightarrow> 'j list \<Rightarrow> 'x list" where
  "deser_list deser [] = []"
| "deser_list deser (j # js) =
     (case deser j of Inl _ \<Rightarrow> deser_list deser js | Inr x \<Rightarrow> x # deser_list deser js)"

context serializer
begin

lemma list_roundtrip:
  "list_all valid xs \<Longrightarrow> deser_list deser (ser_list ser xs) = map norm xs"
proof (induction xs)
  case (Cons x xs)
  then obtain j where "ser x = Inr j" "deser j = Inr (norm x)" using written [of x] by auto
  with Cons show ?case by simp
qed simp

lemma list_roundtrip_rev:
  "list_all valid xs \<Longrightarrow> deser_list deser (rev (ser_list ser xs)) = rev (map norm xs)"
proof (induction xs)
  case (Cons x xs)
  have app: "deser_list deser (as @ bs) = deser_list deser as @ deser_list deser bs" for as bs
    by (induction as) (auto split: sum.splits)
  from Cons obtain j where "ser x = Inr j" "deser j = Inr (norm x)" using written [of x] by auto
  with Cons show ?case by (simp add: app)
qed simp

end

end
