(* ===== verification/Stats.thy ===== *)
theory Stats
  imports JsonApi
begin

text \<open>
  Components \<open>base/channel_stats\<close>, \<open>base/stream_struct\<close>, \<open>base/types\<close> and \<open>stream_commands_info\<close>:
  the counters of a channel, the shared description of a running stream, and the statistic message
  a stream sends to the service. Byte counters are 64-bit words; time stamps are integers. The
  desired rate of a channel is a value of the media library, the type parameter \<open>'d\<close>, with its two
  text conversions as parameters.
\<close>

section \<open>Types of streams\<close>

text \<open>\<open>enum StreamType : uint8_t\<close>; every byte is a value of it.\<close>

datatype StreamType = PROXY | RELAY | ENCODE | TIMESHIFT_PLAYER | TIMESHIFT_RECORDER | CATCHUP
  | TEST_LIFE | VOD_RELAY | VOD_ENCODE | SCREEN | OTHER_TYPE u8

fun type_code :: "StreamType \<Rightarrow> u8" where
  "type_code PROXY = 0" | "type_code RELAY = 1" | "type_code ENCODE = 2"
| "type_code TIMESHIFT_PLAYER = 3" | "type_code TIMESHIFT_RECORDER = 4" | "type_code CATCHUP = 5"
| "type_code TEST_LIFE = 6" | "type_code VOD_RELAY = 7" | "type_code VOD_ENCODE = 8"
| "type_code SCREEN = 9" | "type_code (OTHER_TYPE w) = w"

definition type_of :: "u8 \<Rightarrow> StreamType" where
  "type_of w = (if w = 0 then PROXY else if w = 1 then RELAY else if w = 2 then ENCODE
     else if w = 3 then TIMESHIFT_PLAYER else if w = 4 then TIMESHIFT_RECORDER
     else if w = 5 then CATCHUP else if w = 6 then TEST_LIFE else if w = 7 then VOD_RELAY
     else if w = 8 then VOD_ENCODE else if w = 9 then SCREEN else OTHER_TYPE w)"

lemma type_code_type_of [simp]: "type_code (type_of w) = w"
  by (simp add: type_of_def)

definition proper_type :: "StreamType \<Rightarrow> bool" where
  "proper_type t \<longleftrightarrow> type_of (type_code t) = t"

lemma proper_types [simp]:
  "proper_type PROXY" "proper_type RELAY" "proper_type ENCODE" "proper_type TIMESHIFT_PLAYER"
  "proper_type TIMESHIFT_RECORDER" "proper_type CATCHUP" "proper_type TEST_LIFE"
  "proper_type VOD_RELAY" "proper_type VOD_ENCODE" "proper_type SCREEN"
  by (simp_all add: proper_type_def type_of_def)

text \<open>\<open>enum StreamStatus\<close>, ordered by its values.\<close>

datatype StreamStatus = NEW | INIT | STARTED | READY | PLAYING | FROZEN | WAITING | OTHER_STATUS int

fun status_code :: "StreamStatus \<Rightarrow> int" where
  "status_code NEW = 0" | "status_code INIT = 1" | "status_code STARTED = 2" | "status_code READY = 3"
| "status_code PLAYING = 4" | "status_code FROZEN = 5" | "status_code WAITING = 6"
| "status_code (OTHER_STATUS i) = i"

definition status_of :: "int \<Rightarrow> StreamStatus" where
  "status_of i = (if i = 0 then NEW else if i = 1 then INIT else if i = 2 then STARTED
     else if i = 3 then READY else if i = 4 then PLAYING else if i = 5 then FROZEN
     else if i = 6 then WAITING else OTHER_STATUS i)"

lemma status_of_code [simp]: "(\<forall>i. s \<noteq> OTHER_STATUS i) \<Longrightarrow> status_of (status_code s) = s"
  by (cases s) (simp_all add: status_of_def)

definition kStreamStatuses :: "string list" where
  "kStreamStatuses = [''New'', ''Inited'', ''Started'', ''Ready'', ''Streaming'', ''Frozen'', ''Waiting'']"

text \<open>An index outside the array is undefined behaviour.\<close>

definition ConvertToString_StreamStatus :: "StreamStatus \<Rightarrow> string outcome" where
  "ConvertToString_StreamStatus st =
     (if 0 \<le> status_code st \<and> status_code st < int (length kStreamStatuses)
      then Ret (kStreamStatuses ! nat (status_code st)) else Abort)"

section \<open>Channel statistics\<close>

type_synonym channel_id_t = u64
type_synonym timestamp_t = int

record 'd ChannelStats =
  cs_id :: channel_id_t
  last_update_time :: timestamp_t
  total_bytes :: u64
  prev_total_bytes :: u64
  bytes_per_second :: u64
  desire_bytes_per_second :: 'd

definition make_ChannelStats :: "'d \<Rightarrow> channel_id_t \<Rightarrow> 'd ChannelStats" where
  "make_ChannelStats d0 cid = \<lparr>cs_id = cid, last_update_time = 0, total_bytes = 0, prev_total_bytes = 0,
     bytes_per_second = 0, desire_bytes_per_second = d0\<rparr>"

definition GetDiffTotalBytes :: "'d ChannelStats \<Rightarrow> u64" where
  "GetDiffTotalBytes c = total_bytes c - prev_total_bytes c"

definition UpdateBps :: "u64 \<Rightarrow> 'd ChannelStats \<Rightarrow> 'd ChannelStats" where
  "UpdateBps sec c = (if sec = 0 then c else c\<lparr>bytes_per_second := GetDiffTotalBytes c div sec\<rparr>)"

definition UpdateCheckPoint :: "'d ChannelStats \<Rightarrow> 'd ChannelStats" where
  "UpdateCheckPoint c = c\<lparr>prev_total_bytes := total_bytes c\<rparr>"

definition SetTotalBytes :: "timestamp_t \<Rightarrow> u64 \<Rightarrow> 'd ChannelStats \<Rightarrow> 'd ChannelStats" where
  "SetTotalBytes now bytes c = c\<lparr>total_bytes := bytes, last_update_time := now\<rparr>"

lemma SetTotalBytes_simps [simp]:
  "total_bytes (SetTotalBytes now b c) = b" "prev_total_bytes (SetTotalBytes now b c) = prev_total_bytes c"
  by (simp_all add: SetTotalBytes_def)

text \<open>
  A channel counts the bytes received since its last check point correctly across the
  wrap-around of the 64-bit counter: after \<open>n\<close> more bytes, \<open>n\<close> below the range of the counter, the
  difference is \<open>n\<close>, and the rate over a period of \<open>sec\<close> seconds is \<open>n\<close> divided by \<open>sec\<close>, rounded
  down.
\<close>

theorem bytes_since_check_point:
  assumes "n < 2 ^ 64" "0 < sec" "sec < 2 ^ 64"
  shows "unat (GetDiffTotalBytes (SetTotalBytes now (total_bytes c + of_nat n) (UpdateCheckPoint c))) = n
    \<and> unat (bytes_per_second (UpdateBps (of_nat sec)
          (SetTotalBytes now (total_bytes c + of_nat n) (UpdateCheckPoint c)))) = n div sec"
proof -
  let ?c = "SetTotalBytes now (total_bytes c + of_nat n) (UpdateCheckPoint c)"
  have d: "GetDiffTotalBytes ?c = of_nat n" by (simp add: GetDiffTotalBytes_def UpdateCheckPoint_def)
  have n: "unat (of_nat n :: u64) = n" and s: "unat (of_nat sec :: u64) = sec"
    using assms by (simp_all add: unat_of_nat_small)
  have "(of_nat sec :: u64) \<noteq> 0" using s assms(2) by (metis unsigned_0 less_irrefl)
  then show ?thesis using d n s by (simp add: UpdateBps_def unat_div)
qed

theorem bytes_since_check_point_witness:
  "unat (GetDiffTotalBytes (SetTotalBytes 7 4 (UpdateCheckPoint
     ((make_ChannelStats () 1)\<lparr>total_bytes := - 6\<rparr>)))) = 10"
  using bytes_since_check_point [of 10 1 7 "(make_ChannelStats () 1)\<lparr>total_bytes := - 6\<rparr>"] by simp

section \<open>The description of a running stream\<close>

record StreamInfo =
  si_id :: string
  si_type :: StreamType
  si_input :: "channel_id_t list"
  si_output :: "channel_id_t list"

record 'd StreamStruct =
  ss_id :: string
  ss_type :: StreamType
  start_time :: timestamp_t
  loop_start_time :: timestamp_t
  restarts :: u64
  status :: StreamStatus
  ss_input :: "'d ChannelStats list"
  ss_output :: "'d ChannelStats list"

definition make_channels :: "'d \<Rightarrow> channel_id_t list \<Rightarrow> 'd ChannelStats list" where
  "make_channels d0 ids = map (make_ChannelStats d0) ids"

definition make_StreamStruct :: "'d \<Rightarrow> StreamInfo \<Rightarrow> timestamp_t \<Rightarrow> timestamp_t \<Rightarrow> u64 \<Rightarrow> 'd StreamStruct" where
  "make_StreamStruct d0 sha start lst rest =
     \<lparr>ss_id = si_id sha, ss_type = si_type sha, start_time = start, loop_start_time = lst, restarts = rest,
      status = NEW, ss_input = make_channels d0 (si_input sha), ss_output = make_channels d0 (si_output sha)\<rparr>"

definition StreamStruct_IsValid :: "'d StreamStruct \<Rightarrow> bool" where
  "StreamStruct_IsValid s \<longleftrightarrow> ss_id s \<noteq> []"

definition WithoutRestartTime :: "timestamp_t \<Rightarrow> 'd StreamStruct \<Rightarrow> timestamp_t" where
  "WithoutRestartTime current_time s = current_time - loop_start_time s"

definition ResetDataWait :: "'d StreamStruct \<Rightarrow> 'd StreamStruct" where
  "ResetDataWait s = s\<lparr>ss_input := map UpdateCheckPoint (ss_input s), ss_output := map UpdateCheckPoint (ss_output s)\<rparr>"

text \<open>
  What \<open>mmap\<close> answers: a mapping, \<open>MAP_FAILED\<close> on failure, and the null pointer the caller tests for. A failure
  is taken for a mapping and the structure is built at \<open>MAP_FAILED\<close>, which is undefined.
\<close>

datatype mmap_result = Mapped | Map_failed | Map_null

definition AllocSharedStreamStruct ::
  "'d \<Rightarrow> mmap_result \<Rightarrow> timestamp_t \<Rightarrow> StreamInfo \<Rightarrow> (errno_error + 'd StreamStruct) outcome" where
  "AllocSharedStreamStruct d0 mmap now sha = (case mmap of
       Map_null \<Rightarrow> Ret (Inl (Errno_error ''Failed to allocate memory.'' ENOMEM))
     | Mapped \<Rightarrow> Ret (Inr (make_StreamStruct d0 sha now 0 0))
     | Map_failed \<Rightarrow> Abort)"

lemma ResetDataWait_diff:
  "c \<in> set (ss_input (ResetDataWait s)) \<union> set (ss_output (ResetDataWait s)) \<Longrightarrow> GetDiffTotalBytes c = 0"
  by (auto simp: ResetDataWait_def UpdateCheckPoint_def GetDiffTotalBytes_def)

section \<open>The statistic message\<close>

definition jadd_int64 :: "'j json \<Rightarrow> string \<Rightarrow> int \<Rightarrow> 'j \<Rightarrow> 'j" where
  "jadd_int64 J k i out = js_add J out k (js_of_int64 J i)"

text \<open>\<open>ChannelStatsInfo::Serialize\<close>: both byte counters are written from the previous total.\<close>

definition ChannelStatsInfo_Serialize ::
  "'j json \<Rightarrow> ('d \<Rightarrow> string) \<Rightarrow> 'd ChannelStats \<Rightarrow> error + 'j" where
  "ChannelStatsInfo_Serialize J dbps_str stats =
     (let out = js_new_object J;
          out = jadd_int64 J ''id'' (sint (cs_id stats)) out;
          out = jadd_int64 J ''last_update_time'' (last_update_time stats) out;
          out = jadd_int64 J ''prev_total_bytes'' (sint (prev_total_bytes stats)) out;
          out = jadd_int64 J ''total_bytes'' (sint (prev_total_bytes stats)) out;
          out = jadd_int64 J ''bps'' (sint (bytes_per_second stats)) out;
          out = js_add J out ''dbps'' (js_of_string J (dbps_str (desire_bytes_per_second stats)))
      in Inr out)"

definition ChannelStatsInfo_DeSerialize ::
  "'j json \<Rightarrow> 'd \<Rightarrow> (string \<Rightarrow> 'd option) \<Rightarrow> timestamp_t \<Rightarrow> 'j \<Rightarrow> error + 'd ChannelStats" where
  "ChannelStatsInfo_DeSerialize J d0 dbps_of now serialized =
     (case js_get J serialized ''id'' of
        None \<Rightarrow> Inl Error_inval
      | Some jid \<Rightarrow>
         (let stats = make_ChannelStats d0 (of_int (js_int64 J jid));
              stats = (case js_get J serialized ''last_update_time'' of None \<Rightarrow> stats
                 | Some j \<Rightarrow> stats\<lparr>last_update_time := js_int64 J j\<rparr>);
              stats = (case js_get J serialized ''prev_total_bytes'' of None \<Rightarrow> stats
                 | Some j \<Rightarrow> stats\<lparr>prev_total_bytes := of_int (js_int64 J j)\<rparr>);
              stats = (case js_get J serialized ''total_bytes'' of None \<Rightarrow> stats
                 | Some j \<Rightarrow> SetTotalBytes now (of_int (js_int64 J j)) stats);
              stats = (case js_get J serialized ''bps'' of None \<Rightarrow> stats
                 | Some j \<Rightarrow> stats\<lparr>bytes_per_second := of_int (js_int64 J j)\<rparr>);
              stats = (case js_get J serialized ''dbps'' of None \<Rightarrow> stats
                 | Some j \<Rightarrow> (case dbps_of (js_string J j) of None \<Rightarrow> stats
                      | Some dbps \<Rightarrow> stats\<lparr>desire_bytes_per_second := dbps\<rparr>))
          in Inr stats))"

text \<open>What one transport does to the statistics of a channel.\<close>

definition channel_transport :: "timestamp_t \<Rightarrow> 'd ChannelStats \<Rightarrow> 'd ChannelStats" where
  "channel_transport now c = c\<lparr>total_bytes := prev_total_bytes c, last_update_time := now\<rparr>"

definition channel_sendable ::
  "'j json \<Rightarrow> ('d \<Rightarrow> string) \<Rightarrow> (string \<Rightarrow> 'd option) \<Rightarrow> 'd ChannelStats \<Rightarrow> bool" where
  "channel_sendable J dbps_str dbps_of c \<longleftrightarrow> json_laws J \<and> int64_range (last_update_time c)
     \<and> dbps_of (dbps_str (desire_bytes_per_second c)) = Some (desire_bytes_per_second c)"

lemma channel_roundtrip:
  assumes "channel_sendable J dbps_str dbps_of c"
  shows "\<exists>j. ChannelStatsInfo_Serialize J dbps_str c = Inr j
     \<and> ChannelStatsInfo_DeSerialize J d0 dbps_of now j = Inr (channel_transport now c)"
proof -
  have J: "json_laws J" using assms by (simp add: channel_sendable_def)
  show ?thesis
    using assms
    by (simp add: ChannelStatsInfo_Serialize_def ChannelStatsInfo_DeSerialize_def Let_def jadd_int64_def
        json_lawsD [OF J] channel_sendable_def channel_transport_def make_ChannelStats_def SetTotalBytes_def)
qed

interpretation channel_ser: serializer "channel_sendable J dbps_str dbps_of"
  "ChannelStatsInfo_Serialize J dbps_str" "ChannelStatsInfo_DeSerialize J d0 dbps_of now"
  "channel_transport now" for J dbps_str dbps_of d0 now
  by unfold_locales (rule channel_roundtrip)

record 'd StatisticInfo =
  stream_struct :: "'d StreamStruct"
  cpu_load :: f64
  rss_bytes :: u64
  timestamp :: timestamp_t

definition StatisticInfo_Serialize ::
  "'j json \<Rightarrow> ('d \<Rightarrow> string) \<Rightarrow> 'd StatisticInfo \<Rightarrow> error + 'j" where
  "StatisticInfo_Serialize J dbps_str stat =
     (let s = stream_struct stat in
      if \<not> StreamStruct_IsValid s then Inl Error_inval
      else
        (let out = js_new_object J;
             out = js_add J out ''id'' (js_of_string J (ss_id s));
             out = js_add J out ''type'' (js_of_int J (uint (type_code (ss_type s))));
             out = js_add J out ''input_streams''
                 (js_of_array J (ser_list (ChannelStatsInfo_Serialize J dbps_str) (ss_input s)));
             out = js_add J out ''output_streams''
                 (js_of_array J (ser_list (ChannelStatsInfo_Serialize J dbps_str) (ss_output s)));
             out = jadd_int64 J ''loop_start_time'' (loop_start_time s) out;
             out = jadd_int64 J ''rss'' (sint (rss_bytes stat)) out;
             out = js_add J out ''cpu'' (js_of_double J (cpu_load stat));
             out = jadd_int64 J ''status'' (status_code (status s)) out;
             out = jadd_int64 J ''restarts'' (sint (restarts s)) out;
             out = jadd_int64 J ''start_time'' (start_time s) out;
             out = jadd_int64 J ''timestamp'' (timestamp stat) out
         in Inr out))"

text \<open>The arrays are read from their last entry to the first.\<close>

definition read_channels ::
  "'j json \<Rightarrow> 'd \<Rightarrow> (string \<Rightarrow> 'd option) \<Rightarrow> timestamp_t \<Rightarrow> 'j option \<Rightarrow> 'd ChannelStats list" where
  "read_channels J d0 dbps_of now jinput = (case jinput of None \<Rightarrow> []
     | Some j \<Rightarrow> deser_list (ChannelStatsInfo_DeSerialize J d0 dbps_of now) (rev (js_array J j)))"

definition read_int64 :: "'j json \<Rightarrow> 'j \<Rightarrow> string \<Rightarrow> int" where
  "read_int64 J serialized k = (case js_get J serialized k of None \<Rightarrow> 0 | Some j \<Rightarrow> js_int64 J j)"

definition StatisticInfo_DeSerialize ::
  "'j json \<Rightarrow> 'd \<Rightarrow> (string \<Rightarrow> 'd option) \<Rightarrow> timestamp_t \<Rightarrow> 'j \<Rightarrow> error + 'd StatisticInfo" where
  "StatisticInfo_DeSerialize J d0 dbps_of now serialized =
     (case js_get J serialized ''id'' of None \<Rightarrow> Inl Error_inval | Some jid \<Rightarrow>
      (case js_get J serialized ''type'' of None \<Rightarrow> Inl Error_inval | Some jtype \<Rightarrow>
        (let strct = \<lparr>ss_id = js_string J jid, ss_type = type_of (of_int (js_int J jtype)),
               start_time = read_int64 J serialized ''start_time'',
               loop_start_time = read_int64 J serialized ''loop_start_time'',
               restarts = of_int (read_int64 J serialized ''restarts''),
               status = (case js_get J serialized ''status'' of None \<Rightarrow> NEW | Some j \<Rightarrow> status_of (js_int J j)),
               ss_input = read_channels J d0 dbps_of now (js_get J serialized ''input_streams''),
               ss_output = read_channels J d0 dbps_of now (js_get J serialized ''output_streams'')\<rparr>
         in Inr \<lparr>stream_struct = strct,
               cpu_load = (case js_get J serialized ''cpu'' of None \<Rightarrow> F64 0 | Some j \<Rightarrow> js_double J j),
               rss_bytes = (case js_get J serialized ''rss'' of None \<Rightarrow> 0 | Some j \<Rightarrow> of_int (js_int J j)),
               timestamp = read_int64 J serialized ''timestamp''\<rparr>)))"

definition statistic_sendable ::
  "'j json \<Rightarrow> ('d \<Rightarrow> string) \<Rightarrow> (string \<Rightarrow> 'd option) \<Rightarrow> 'd StatisticInfo \<Rightarrow> bool" where
  "statistic_sendable J dbps_str dbps_of stat \<longleftrightarrow>
     (let s = stream_struct stat in
      json_laws J \<and> ss_id s \<noteq> [] \<and> proper_type (ss_type s) \<and> status s \<in> {NEW, INIT, STARTED, READY, PLAYING, FROZEN, WAITING}
      \<and> int64_range (start_time s) \<and> int64_range (loop_start_time s) \<and> int64_range (timestamp stat)
      \<and> list_all (channel_sendable J dbps_str dbps_of) (ss_input s)
      \<and> list_all (channel_sendable J dbps_str dbps_of) (ss_output s))"

definition statistic_transport :: "timestamp_t \<Rightarrow> 'd StatisticInfo \<Rightarrow> 'd StatisticInfo" where
  "statistic_transport now stat =
     stat\<lparr>rss_bytes := of_int (clamp32 (sint (rss_bytes stat))),
         stream_struct := (stream_struct stat)
           \<lparr>ss_input := rev (map (channel_transport now) (ss_input (stream_struct stat))),
            ss_output := rev (map (channel_transport now) (ss_output (stream_struct stat)))\<rparr>\<rparr>"

lemma uint_u8_range [simp]: "int32_range (uint (w :: u8))"
proof -
  have "uint w < 256" using uint_bounded [of w] by simp
  moreover have "- (2 ^ 31) \<le> uint w" by (rule order_trans [of _ 0]) simp_all
  ultimately show ?thesis by (simp add: int32_range_def)
qed

lemma read_int64_add:
  "json_laws J \<Longrightarrow> read_int64 J (js_add J out k v) k' = (if k' = k then js_int64 J v else read_int64 J out k')"
  by (simp add: read_int64_def json_lawsD)

lemma status_code_range: "s \<in> {NEW, INIT, STARTED, READY, PLAYING, FROZEN, WAITING} \<Longrightarrow>
  int64_range (status_code s) \<and> clamp32 (status_code s) = status_code s \<and> status_of (status_code s) = s"
  by (auto simp: int64_range_def clamp32_def status_of_def)

lemma statistic_roundtrip:
  assumes "statistic_sendable J dbps_str dbps_of stat"
  shows "\<exists>j. StatisticInfo_Serialize J dbps_str stat = Inr j
     \<and> StatisticInfo_DeSerialize J d0 dbps_of now j = Inr (statistic_transport now stat)"
proof -
  have J: "json_laws J" and v: "ss_id (stream_struct stat) \<noteq> []"
    and t: "type_of (type_code (ss_type (stream_struct stat))) = ss_type (stream_struct stat)"
    and st: "status (stream_struct stat) \<in> {NEW, INIT, STARTED, READY, PLAYING, FROZEN, WAITING}"
    and r: "int64_range (start_time (stream_struct stat))" "int64_range (loop_start_time (stream_struct stat))"
      "int64_range (timestamp stat)"
    and i: "list_all (channel_sendable J dbps_str dbps_of) (ss_input (stream_struct stat))"
      "list_all (channel_sendable J dbps_str dbps_of) (ss_output (stream_struct stat))"
    using assms by (auto simp: statistic_sendable_def Let_def proper_type_def)
  note st' = status_code_range [OF st]
  have rd: "read_channels J d0 dbps_of now (Some (js_of_array J (ser_list (ChannelStatsInfo_Serialize J dbps_str) cs)))
      = rev (map (channel_transport now) cs)" if "list_all (channel_sendable J dbps_str dbps_of) cs" for cs
    using channel_ser.list_roundtrip_rev [OF that] by (simp add: read_channels_def json_lawsD [OF J])
  show ?thesis
    using v t st' r rd [OF i(1)] rd [OF i(2)]
    by (simp add: StatisticInfo_Serialize_def StatisticInfo_DeSerialize_def StreamStruct_IsValid_def Let_def
        jadd_int64_def json_lawsD [OF J] read_int64_add [OF J] statistic_transport_def)
qed

text \<open>
  (C35) A statistic message reaches the service with the identifier, the type, the status, the
  start times, the restart count and the time stamp it was sent with. On the way the lists of
  channels are reversed, every channel's total is replaced by its previous total and stamped with
  the time of reading, and the memory size is cut to 32 bits.
\<close>

theorem statistic_message_transport:
  assumes "statistic_sendable J dbps_str dbps_of stat"
  shows "\<exists>j. StatisticInfo_Serialize J dbps_str stat = Inr j
     \<and> StatisticInfo_DeSerialize J d0 dbps_of now j =
        Inr (stat\<lparr>rss_bytes := of_int (clamp32 (sint (rss_bytes stat))),
           stream_struct := (stream_struct stat)
             \<lparr>ss_input := rev (map (\<lambda>c. c\<lparr>total_bytes := prev_total_bytes c, last_update_time := now\<rparr>)
                              (ss_input (stream_struct stat))),
              ss_output := rev (map (\<lambda>c. c\<lparr>total_bytes := prev_total_bytes c, last_update_time := now\<rparr>)
                              (ss_output (stream_struct stat)))\<rparr>\<rparr>)"
  using statistic_roundtrip [OF assms, of d0 now]
  by (simp add: statistic_transport_def channel_transport_def [abs_def])

theorem statistic_message_transport_witness:
  "\<exists>j stat'. StatisticInfo_Serialize tree_json (\<lambda>_ :: unit. [])
      \<lparr>stream_struct = (make_StreamStruct () \<lparr>si_id = ''s'', si_type = RELAY, si_input = [1, 2], si_output = [3]\<rparr> 5 6 1)
         \<lparr>status := PLAYING\<rparr>, cpu_load = F64 0, rss_bytes = 2 ^ 40, timestamp = 9\<rparr> = Inr j
     \<and> StatisticInfo_DeSerialize tree_json () (\<lambda>_. Some ()) 10 j = Inr stat'
     \<and> map cs_id (ss_input (stream_struct stat')) = [2, 1] \<and> rss_bytes stat' = 2 ^ 31 - 1"
proof -
  let ?stat = "\<lparr>stream_struct = (make_StreamStruct () \<lparr>si_id = ''s'', si_type = RELAY, si_input = [1, 2], si_output = [3]\<rparr> 5 6 1)
         \<lparr>status := PLAYING\<rparr>, cpu_load = F64 0, rss_bytes = 2 ^ 40, timestamp = 9\<rparr> :: unit StatisticInfo"
  have "statistic_sendable tree_json (\<lambda>_. []) (\<lambda>_. Some ()) ?stat"
    by (simp add: statistic_sendable_def make_StreamStruct_def make_channels_def make_ChannelStats_def
        channel_sendable_def int64_range_def Let_def)
  from statistic_message_transport [OF this, of "()" 10] show ?thesis
    by (auto simp: make_StreamStruct_def make_channels_def make_ChannelStats_def clamp32_def)
qed

end
