(* ===== verification/Probes.thy ===== *)
theory Probes
  imports Stats "HOL-Library.AList"
begin

text \<open>
  Component \<open>stream/probes\<close> and the part of \<open>stream/ibase_stream\<close> that counts with the probes: a
  probe watches the buffers and events that pass a pad, keeps the consistency flags of the pad and
  adds the sizes of the buffers to the statistics of its channel. What passes a pad is a value of
  \<open>probe_data\<close>; the answer of the client that may replace or drop it is an argument.
\<close>

section \<open>Pads and events\<close>

type_synonym element_id_t = u64

record Consistency =
  segment :: bool
  eos :: bool
  expect_flush :: bool
  flushing :: bool
  saw_stream_start :: bool
  saw_serialized_event :: bool

definition Consistency0 :: Consistency where
  "Consistency0 = \<lparr>segment = False, eos = True, expect_flush = False, flushing = False,
     saw_stream_start = False, saw_serialized_event = False\<rparr>"

datatype gst_event = EVENT_FLUSH_START | EVENT_FLUSH_STOP | EVENT_STREAM_START | EVENT_CAPS
  | EVENT_SEGMENT | EVENT_EOS | EVENT_SEEK bool | EVENT_OTHER

datatype probe_data = Buffer u64 | Buffer_list "u64 list" | Event gst_event bool | Unknown_data

record Probe =
  pr_name :: string
  pr_id :: element_id_t
  id_buffer :: u64
  pr_pad :: "nat option"
  consistency :: Consistency

definition PROBE_IN :: string where "PROBE_IN = ''in''"
definition PROBE_OUT :: string where "PROBE_OUT = ''out''"

definition make_Probe :: "string \<Rightarrow> element_id_t \<Rightarrow> Probe" where
  "make_Probe name i = \<lparr>pr_name = name, pr_id = i, id_buffer = 0, pr_pad = None, consistency = Consistency0\<rparr>"

section \<open>Linking\<close>

datatype pad_direction = PAD_SRC | PAD_SINK | PAD_UNKNOWN

definition Probe_ClearInner :: "Probe \<Rightarrow> Probe" where
  "Probe_ClearInner p = p\<lparr>pr_pad := None, id_buffer := 0\<rparr>"

text \<open>Removing the probe from its pad runs the destroy callback, which clears the fields.\<close>

definition Probe_Clear :: "Probe \<Rightarrow> Probe" where
  "Probe_Clear p = (case pr_pad p of None \<Rightarrow> p | Some _ \<Rightarrow> Probe_ClearInner p)"

text \<open>\<open>added\<close> is the identifier \<open>gst_pad_add_probe\<close> answers with, 0 when it fails.\<close>

definition Probe_Link :: "bool \<Rightarrow> u64 \<Rightarrow> (nat \<times> pad_direction) option \<Rightarrow> Probe \<Rightarrow> Probe outcome" where
  "Probe_Link crit added pad p = (case pad of
       None \<Rightarrow> Ret p
     | Some (pd, dir) \<Rightarrow>
        (let p1 = Probe_Clear p; id_probe = (if dir = PAD_UNKNOWN then 0 else added) in
         if id_probe = 0 then (if crit then Abort else Ret p1)
         else Ret (p1\<lparr>pr_pad := Some pd, id_buffer := id_probe\<rparr>)))"

section \<open>The callbacks\<close>

definition UpdateStats :: "timestamp_t \<Rightarrow> Probe \<Rightarrow> u64 \<Rightarrow> 'd StreamStruct \<Rightarrow> 'd StreamStruct" where
  "UpdateStats now probe sz st =
     (let i = unat (pr_id probe);
          add = (\<lambda>cs. cs[i := SetTotalBytes now (total_bytes (cs ! i) + sz) (cs ! i)])
      in if pr_name probe = PROBE_IN then
           (if i < length (ss_input st) then st\<lparr>ss_input := add (ss_input st)\<rparr> else st)
         else if pr_name probe = PROBE_OUT then
           (if i < length (ss_output st) then st\<lparr>ss_output := add (ss_output st)\<rparr> else st)
         else st)"

definition source_event :: "gst_event \<Rightarrow> bool \<Rightarrow> Consistency \<Rightarrow> Consistency" where
  "source_event ev serialized c =
     (let c1 = (case ev of
          EVENT_FLUSH_START \<Rightarrow> c\<lparr>flushing := True\<rparr>
        | EVENT_FLUSH_STOP \<Rightarrow> c\<lparr>flushing := False, expect_flush := False\<rparr>
        | EVENT_STREAM_START \<Rightarrow> c\<lparr>saw_stream_start := True\<rparr>
        | EVENT_SEGMENT \<Rightarrow> c\<lparr>segment := True, eos := False\<rparr>
        | EVENT_EOS \<Rightarrow> c\<lparr>eos := True, segment := False\<rparr>
        | _ \<Rightarrow> c)
      in if serialized then c1\<lparr>saw_serialized_event := True\<rparr> else c1)"

definition sink_event :: "gst_event \<Rightarrow> Consistency \<Rightarrow> Consistency" where
  "sink_event ev c = (case ev of
       EVENT_SEEK flush \<Rightarrow> c\<lparr>expect_flush := flush\<rparr>
     | EVENT_SEGMENT \<Rightarrow> c\<lparr>segment := True, eos := False\<rparr>
     | EVENT_EOS \<Rightarrow> c\<lparr>eos := True, segment := False\<rparr>
     | _ \<Rightarrow> c)"

datatype probe_return = PROBE_DROP | PROBE_OK

text \<open>\<open>checked\<close> is what \<open>CheckProbeData\<close> returns for the data, \<open>None\<close> for the null pointer.\<close>

definition source_callback_probe_buffer ::
  "timestamp_t \<Rightarrow> probe_data option \<Rightarrow> Probe \<Rightarrow> 'd StreamStruct \<Rightarrow> probe_return \<times> Probe \<times> 'd StreamStruct" where
  "source_callback_probe_buffer now checked probe st = (case checked of
       None \<Rightarrow> (PROBE_DROP, probe, st)
     | Some (Buffer sz) \<Rightarrow> (PROBE_OK, probe, UpdateStats now probe sz st)
     | Some (Event ev ser) \<Rightarrow>
         (PROBE_OK, probe\<lparr>consistency := source_event ev ser (consistency probe)\<rparr>, st)
     | Some _ \<Rightarrow> (PROBE_OK, probe, st))"

definition sink_callback_probe_buffer ::
  "timestamp_t \<Rightarrow> probe_data option \<Rightarrow> Probe \<Rightarrow> 'd StreamStruct \<Rightarrow> probe_return \<times> Probe \<times> 'd StreamStruct" where
  "sink_callback_probe_buffer now checked probe st = (case checked of
       None \<Rightarrow> (PROBE_DROP, probe, st)
     | Some (Buffer sz) \<Rightarrow> (PROBE_OK, probe, UpdateStats now probe sz st)
     | Some (Buffer_list szs) \<Rightarrow> (PROBE_OK, probe, foldl (\<lambda>s sz. UpdateStats now probe sz s) st szs)
     | Some (Event ev ser) \<Rightarrow> (PROBE_OK, probe\<lparr>consistency := sink_event ev (consistency probe)\<rparr>, st)
     | Some Unknown_data \<Rightarrow> (PROBE_OK, probe, st))"

section \<open>Counting the ended inputs and outputs\<close>

text \<open>The map from element to its combined end-of-stream flag, in the order of insertion.\<close>

definition add_status :: "(element_id_t \<times> bool) list \<Rightarrow> Probe \<Rightarrow> (element_id_t \<times> bool) list" where
  "add_status statuses probe = (case map_of statuses (pr_id probe) of
       Some e \<Rightarrow> AList.update (pr_id probe) (e \<and> eos (consistency probe)) statuses
     | None \<Rightarrow> AList.update (pr_id probe) (eos (consistency probe)) statuses)"

definition CountEOS :: "Probe list \<Rightarrow> nat" where
  "CountEOS probes = length (filter snd (foldl add_status [] probes))"

lemma add_status_map:
  "map_of (add_status m p) = (map_of m)(pr_id p \<mapsto>
     (case map_of m (pr_id p) of Some e \<Rightarrow> e \<and> eos (consistency p) | None \<Rightarrow> eos (consistency p)))"
  by (simp add: add_status_def update_conv' split: option.splits)

lemma statuses_distinct: "distinct (map fst m) \<Longrightarrow> distinct (map fst (foldl add_status m ps))"
  by (induction ps arbitrary: m) (auto simp: add_status_def distinct_update split: option.splits)

lemma statuses_map:
  "map_of (foldl add_status [] ps) i =
     (if i \<in> pr_id ` set ps then Some (\<forall>p \<in> set ps. pr_id p = i \<longrightarrow> eos (consistency p)) else None)"
proof (induction ps rule: rev_induct)
  case (snoc p ps)
  then show ?case by (auto simp: add_status_map image_iff split: option.splits if_splits)
qed simp

lemma length_filter_snd:
  "distinct (map fst m) \<Longrightarrow> length (filter snd m) = card {i. map_of m i = Some True}"
proof -
  assume d: "distinct (map fst m)"
  have "{i. map_of m i = Some True} = fst ` set (filter snd m)"
    using d by (force simp: map_of_eq_Some_iff)
  moreover have "distinct (map fst (filter snd m))" using d by (rule distinct_map_filter)
  ultimately show ?thesis by (metis distinct_card length_map set_map)
qed

text \<open>
  Counting the ended inputs (or outputs) of a stream gives the number of elements all of
  whose probes have seen the end of the stream: an element watched by several probes counts once,
  and only when every one of them is at its end.
\<close>

theorem count_eos_counts_ended_elements:
  "CountEOS ps = card {i \<in> pr_id ` set ps. \<forall>p \<in> set ps. pr_id p = i \<longrightarrow> eos (consistency p)}"
proof -
  have "{i. map_of (foldl add_status [] ps) i = Some True}
      = {i \<in> pr_id ` set ps. \<forall>p \<in> set ps. pr_id p = i \<longrightarrow> eos (consistency p)}"
    unfolding statuses_map by auto
  then show ?thesis
    using length_filter_snd [OF statuses_distinct [of "[]" ps]] by (simp add: CountEOS_def)
qed

theorem count_eos_counts_ended_elements_witness:
  "CountEOS [make_Probe ''in'' 0, make_Probe ''in'' 1, (make_Probe ''in'' 1)\<lparr>consistency := Consistency0\<lparr>eos := False\<rparr>\<rparr>] = 1"
proof -
  have "{i :: u64. (i = 0 \<or> i = 1) \<and> i \<noteq> 1} = {0}" by auto
  then show ?thesis
    unfolding count_eos_counts_ended_elements
    by (simp add: make_Probe_def Consistency0_def conj_disj_distribR Collect_disj_eq)
qed

section \<open>The consistency flags\<close>

text \<open>
  The flags a pad goes through: an inductive account of the events of a source and a sink pad.
\<close>

inductive pad_reaches :: "Consistency \<Rightarrow> bool" where
  pad_start: "pad_reaches Consistency0"
| pad_source: "pad_reaches c \<Longrightarrow> pad_reaches (source_event ev ser c)"
| pad_sink: "pad_reaches c \<Longrightarrow> pad_reaches (sink_event ev c)"

lemma pad_flags: "pad_reaches c \<Longrightarrow> segment c = (\<not> eos c)"
  by (induction rule: pad_reaches.induct)
     (auto simp: Consistency0_def source_event_def sink_event_def Let_def split: gst_event.splits)

text \<open>
  In every state a watched pad can reach, the pad is inside a segment exactly when it is not
  at the end of its stream; a pad that has seen nothing counts as ended.
\<close>

theorem segment_iff_not_eos:
  assumes "pad_reaches c"
  shows "segment c = (\<not> eos c) \<and> eos Consistency0"
  using pad_flags [OF assms] by (simp add: Consistency0_def)

theorem segment_iff_not_eos_witness:
  "segment (source_event EVENT_SEGMENT True Consistency0) = (\<not> eos (source_event EVENT_SEGMENT True Consistency0))"
  using segment_iff_not_eos [OF pad_source [OF pad_start, of EVENT_SEGMENT True]] by simp

end
