(* ===== verification/Uris.thy ===== *)
theory Uris
  imports Chunks JsonApi
begin

text \<open>
  Components \<open>base/input_uri\<close>, \<open>base/output_uri\<close>, \<open>base/inputs_outputs\<close>, \<open>base/logo\<close> and
  \<open>stream_commands_info/changed_sources_info\<close>: the sources and destinations of a stream, as objects
  and in their JSON form. URLs and directory paths are classes of the \<open>common\<close> library, the record
  \<open>url_api\<close>: a URL is a value of type \<open>'u\<close>, a directory path is the text its \<open>GetPath\<close> returns.
\<close>

section \<open>The URL and path library\<close>

datatype scheme = Scheme_unknown | Scheme_http | Scheme_https | Scheme_file | Scheme_udp | Scheme_rtmp
  | Scheme_tcp | Scheme_dev

record 'u url_api =
  url0 :: 'u
  url_of :: "string \<Rightarrow> 'u"
  url_text :: "'u \<Rightarrow> string"
  url_valid :: "'u \<Rightarrow> bool"
  url_scheme :: "'u \<Rightarrow> scheme"
  url_host :: "'u \<Rightarrow> string"
  url_path :: "'u \<Rightarrow> string"
  dir_path :: "string \<Rightarrow> string"

section \<open>Inputs\<close>

datatype UserAgent = GSTREAMER | VLC | FFMPEG | OTHER_AGENT int

fun agent_code :: "UserAgent \<Rightarrow> int" where
  "agent_code GSTREAMER = 0" | "agent_code VLC = 1" | "agent_code FFMPEG = 2" | "agent_code (OTHER_AGENT i) = i"

definition agent_of :: "int \<Rightarrow> UserAgent" where
  "agent_of i = (if i = 0 then GSTREAMER else if i = 1 then VLC else if i = 2 then FFMPEG else OTHER_AGENT i)"

definition proper_agent :: "UserAgent \<Rightarrow> bool" where
  "proper_agent a \<longleftrightarrow> a \<in> {GSTREAMER, VLC, FFMPEG}"

lemma agent_of_code [simp]: "proper_agent a \<Longrightarrow> agent_of (agent_code a) = a"
  by (cases a) (auto simp: agent_of_def proper_agent_def)

lemma agent_code_range [simp]: "proper_agent a \<Longrightarrow> int32_range (agent_code a)"
  by (cases a) (auto simp: int32_range_def proper_agent_def)

record 'u InputUri =
  iu_id :: u64
  iu_input :: 'u
  iu_user_agent :: UserAgent

definition InputUri0 :: "'u url_api \<Rightarrow> 'u InputUri" where
  "InputUri0 U = \<lparr>iu_id = 0, iu_input = url0 U, iu_user_agent = GSTREAMER\<rparr>"

definition InputUri_Equals :: "'u InputUri \<Rightarrow> 'u InputUri \<Rightarrow> bool" where
  "InputUri_Equals left other \<longleftrightarrow> iu_id left = iu_id other \<and> iu_input left = iu_input other"

definition InputUri_Serialize :: "'j json \<Rightarrow> 'u url_api \<Rightarrow> 'u InputUri \<Rightarrow> error + 'j" where
  "InputUri_Serialize J U x =
     (let out = js_add J (js_new_object J) ''id'' (js_of_int64 J (sint (iu_id x)));
          out = js_add J out ''uri'' (js_of_string J (url_text U (iu_input x)));
          out = js_add J out ''user_agent'' (js_of_int J (agent_code (iu_user_agent x)))
      in Inr out)"

definition InputUri_DeSerialize :: "'j json \<Rightarrow> 'u url_api \<Rightarrow> 'j \<Rightarrow> error + 'u InputUri" where
  "InputUri_DeSerialize J U serialized =
     (let res = InputUri0 U;
          res = (case js_get J serialized ''id'' of None \<Rightarrow> res
                 | Some jid \<Rightarrow> res\<lparr>iu_id := of_int (js_int64 J jid)\<rparr>);
          res = (case js_get J serialized ''uri'' of None \<Rightarrow> res
                 | Some juri \<Rightarrow> res\<lparr>iu_input := url_of U (js_string J juri)\<rparr>);
          res = (case js_get J serialized ''user_agent'' of None \<Rightarrow> res
                 | Some jagent \<Rightarrow> res\<lparr>iu_user_agent := agent_of (js_int J jagent)\<rparr>)
      in Inr res)"

definition TEST_URL :: string where
  "TEST_URL = ''test''"

definition IsTestInputUrl :: "'u url_api \<Rightarrow> 'u InputUri \<Rightarrow> bool" where
  "IsTestInputUrl U x \<longleftrightarrow> iu_input x = url_of U TEST_URL"

section \<open>Outputs\<close>

record 'u OutputUri =
  ou_id :: u64
  ou_output :: 'u
  ou_http_root :: string

definition OutputUri0 :: "'u url_api \<Rightarrow> 'u OutputUri" where
  "OutputUri0 U = \<lparr>ou_id = 0, ou_output = url0 U, ou_http_root = []\<rparr>"

definition OutputUri_Equals :: "'u OutputUri \<Rightarrow> 'u OutputUri \<Rightarrow> bool" where
  "OutputUri_Equals left other \<longleftrightarrow> ou_id left = ou_id other \<and> ou_output left = ou_output other
     \<and> ou_http_root left = ou_http_root other"

definition OutputUri_Serialize :: "'j json \<Rightarrow> 'u url_api \<Rightarrow> 'u OutputUri \<Rightarrow> error + 'j" where
  "OutputUri_Serialize J U x =
     (let out = js_add J (js_new_object J) ''id'' (js_of_int64 J (sint (ou_id x)));
          out = js_add J out ''uri'' (js_of_string J (url_text U (ou_output x)));
          out = js_add J out ''http_root'' (js_of_string J (ou_http_root x))
      in Inr out)"

definition OutputUri_DeSerialize :: "'j json \<Rightarrow> 'u url_api \<Rightarrow> 'j \<Rightarrow> error + 'u OutputUri" where
  "OutputUri_DeSerialize J U serialized =
     (let res = OutputUri0 U;
          res = (case js_get J serialized ''id'' of None \<Rightarrow> res
                 | Some jid \<Rightarrow> res\<lparr>ou_id := of_int (js_int64 J jid)\<rparr>);
          res = (case js_get J serialized ''uri'' of None \<Rightarrow> res
                 | Some juri \<Rightarrow> res\<lparr>ou_output := url_of U (js_string J juri)\<rparr>);
          res = (case js_get J serialized ''http_root'' of None \<Rightarrow> res
                 | Some jroot \<Rightarrow> res\<lparr>ou_http_root := dir_path U (js_string J jroot)\<rparr>)
      in Inr res)"

definition IsTestOutputUrl :: "'u url_api \<Rightarrow> 'u OutputUri \<Rightarrow> bool" where
  "IsTestOutputUrl U x \<longleftrightarrow> ou_output x = url_of U TEST_URL"

section \<open>Lists of inputs and outputs in a configuration\<close>

definition INPUT_FIELD :: string where "INPUT_FIELD = ''input''"
definition OUTPUT_FIELD :: string where "OUTPUT_FIELD = ''output''"

definition ConvertFromString_urls :: "'j json \<Rightarrow> ('j \<Rightarrow> error + 'x) \<Rightarrow> string \<Rightarrow> 'x list option" where
  "ConvertFromString_urls J deser urls = (case js_parse J urls of
       None \<Rightarrow> None
     | Some obj \<Rightarrow> (case js_get J obj ''urls'' of
          None \<Rightarrow> None
        | Some jurls \<Rightarrow> Some (deser_list deser (js_array J jurls))))"

definition ConvertFromString_output :: "'j json \<Rightarrow> 'u url_api \<Rightarrow> string \<Rightarrow> 'u OutputUri list option" where
  "ConvertFromString_output J U output_urls = ConvertFromString_urls J (OutputUri_DeSerialize J U) output_urls"

definition ConvertFromString_input :: "'j json \<Rightarrow> 'u url_api \<Rightarrow> string \<Rightarrow> 'u InputUri list option" where
  "ConvertFromString_input J U input_urls = ConvertFromString_urls J (InputUri_DeSerialize J U) input_urls"

definition read_input :: "'j json \<Rightarrow> 'u url_api \<Rightarrow> ArgsMap \<Rightarrow> 'u InputUri list option" where
  "read_input J U config = ArgsGetValue (ConvertFromString_input J U) config INPUT_FIELD"

definition read_output :: "'j json \<Rightarrow> 'u url_api \<Rightarrow> ArgsMap \<Rightarrow> 'u OutputUri list option" where
  "read_output J U config = ArgsGetValue (ConvertFromString_output J U) config OUTPUT_FIELD"

section \<open>Logo\<close>

record 'u Logo =
  lg_path :: 'u
  lg_position :: "int \<times> int"
  lg_alpha :: f64

definition Logo0 :: "'u url_api \<Rightarrow> 'u Logo" where
  "Logo0 U = \<lparr>lg_path = url0 U, lg_position = (0, 0), lg_alpha = F64 0\<rparr>"

definition Logo_IsValid :: "'u url_api \<Rightarrow> 'u Logo \<Rightarrow> bool" where
  "Logo_IsValid U l \<longleftrightarrow> url_valid U (lg_path l)"

definition Logo_Equals :: "'u Logo \<Rightarrow> 'u Logo \<Rightarrow> bool" where
  "Logo_Equals left other \<longleftrightarrow> lg_path left = lg_path other"

definition ConvertFromString_Logo :: "'a conv_scheme \<Rightarrow> 'j json \<Rightarrow> 'u url_api \<Rightarrow> string \<Rightarrow> 'u Logo option" where
  "ConvertFromString_Logo cv J U from = (case js_parse J from of
       None \<Rightarrow> None
     | Some obj \<Rightarrow>
        (let res = Logo0 U;
             res = (case js_get J obj ''path'' of None \<Rightarrow> res
                    | Some jpath \<Rightarrow> res\<lparr>lg_path := url_of U (js_string J jpath)\<rparr>);
             res = (case js_get J obj ''position'' of None \<Rightarrow> res
                    | Some jposition \<Rightarrow> (case cv_point cv (js_string J jposition) of None \<Rightarrow> res
                        | Some pt \<Rightarrow> res\<lparr>lg_position := pt\<rparr>));
             res = (case js_get J obj ''alpha'' of None \<Rightarrow> res
                    | Some jalpha \<Rightarrow> res\<lparr>lg_alpha := js_double J jalpha\<rparr>)
         in Some res))"

section \<open>The message about a changed source\<close>

record 'u ChangedSouresInfo =
  cs_id :: string
  cs_url :: "'u InputUri"

definition ChangedSouresInfo_Serialize :: "'j json \<Rightarrow> 'u url_api \<Rightarrow> 'u ChangedSouresInfo \<Rightarrow> error + 'j" where
  "ChangedSouresInfo_Serialize J U x = (case InputUri_Serialize J U (cs_url x) of
       Inl err \<Rightarrow> Inl err
     | Inr url_obj \<Rightarrow>
        (let out = js_add J (js_new_object J) ''id'' (js_of_string J (cs_id x));
             out = js_add J out ''url'' url_obj
         in Inr out))"

definition ChangedSouresInfo_DeSerialize :: "'j json \<Rightarrow> 'u url_api \<Rightarrow> 'j \<Rightarrow> error + 'u ChangedSouresInfo" where
  "ChangedSouresInfo_DeSerialize J U serialized = (case js_get J serialized ''id'' of
       None \<Rightarrow> Inl Error_inval
     | Some jid \<Rightarrow>
        (let other = \<lparr>cs_id = js_string J jid, cs_url = InputUri0 U\<rparr>
         in case js_get J serialized ''url'' of
              None \<Rightarrow> Inr other
            | Some jurl \<Rightarrow> (case InputUri_DeSerialize J U jurl of
                 Inl err \<Rightarrow> Inl err
               | Inr url \<Rightarrow> Inr (other\<lparr>cs_url := url\<rparr>))))"

section \<open>Round trips\<close>

text \<open>
  What the round trips need of the library: the text of the address names it again, and a
  directory path is not changed when it is read again.
\<close>

definition input_kept :: "'u url_api \<Rightarrow> 'u InputUri \<Rightarrow> bool" where
  "input_kept U x \<longleftrightarrow> url_of U (url_text U (iu_input x)) = iu_input x \<and> proper_agent (iu_user_agent x)"

definition output_kept :: "'u url_api \<Rightarrow> 'u OutputUri \<Rightarrow> bool" where
  "output_kept U x \<longleftrightarrow> url_of U (url_text U (ou_output x)) = ou_output x
     \<and> dir_path U (ou_http_root x) = ou_http_root x"

interpretation input_ser: serializer "\<lambda>x. json_laws J \<and> input_kept U x"
  "InputUri_Serialize J U" "InputUri_DeSerialize J U" "\<lambda>x. x" for J U
  by unfold_locales
    (auto simp: InputUri_Serialize_def InputUri_DeSerialize_def InputUri0_def input_kept_def json_lawsD Let_def)

interpretation output_ser: serializer "\<lambda>x. json_laws J \<and> output_kept U x"
  "OutputUri_Serialize J U" "OutputUri_DeSerialize J U" "\<lambda>x. x" for J U
  by unfold_locales
    (auto simp: OutputUri_Serialize_def OutputUri_DeSerialize_def OutputUri0_def output_kept_def json_lawsD Let_def)

lemma input_serializes: "\<exists>j. InputUri_Serialize J U x = Inr j"
  by (simp add: InputUri_Serialize_def Let_def)

interpretation changed_ser: serializer "\<lambda>x. json_laws J \<and> input_kept U (cs_url x)"
  "ChangedSouresInfo_Serialize J U" "ChangedSouresInfo_DeSerialize J U" "\<lambda>x. x" for J U
proof unfold_locales
  fix x :: "'a ChangedSouresInfo"
  assume a: "json_laws J \<and> input_kept U (cs_url x)"
  then obtain j where "InputUri_Serialize J U (cs_url x) = Inr j" "InputUri_DeSerialize J U j = Inr (cs_url x)"
    using input_ser.written [of J U "cs_url x"] by auto
  with a show "\<exists>j. ChangedSouresInfo_Serialize J U x = Inr j \<and> ChangedSouresInfo_DeSerialize J U j = Inr x"
    by (simp add: ChangedSouresInfo_Serialize_def ChangedSouresInfo_DeSerialize_def json_lawsD Let_def)
qed

text \<open>
  A list of inputs or outputs written under the key \<open>urls\<close>, as a configuration carries it.
\<close>

definition urls_text :: "'j json \<Rightarrow> ('x \<Rightarrow> error + 'j) \<Rightarrow> 'x list \<Rightarrow> string" where
  "urls_text J ser xs = js_print J (js_add J (js_new_object J) ''urls'' (js_of_array J (ser_list ser xs)))"

lemma urls_roundtrip:
  assumes "serializer valid ser deser (\<lambda>x. x)" "json_laws J" "list_all valid xs"
  shows "ConvertFromString_urls J deser (urls_text J ser xs) = Some xs"
  using serializer.list_roundtrip [OF assms(1) assms(3)] assms(2)
  by (simp add: ConvertFromString_urls_def urls_text_def json_lawsD)

text \<open>
  The inputs and outputs a configuration lists are read as they were written, in their order,
  and a stream's notice that it changed its source names the same stream and the same input.
\<close>

theorem source_lists_roundtrip:
  assumes "json_laws J"
    and "list_all (input_kept U) inputs" "list_all (output_kept U) outputs" "input_kept U (cs_url notice)"
    and "config INPUT_FIELD = Some (urls_text J (InputUri_Serialize J U) inputs)"
    and "config OUTPUT_FIELD = Some (urls_text J (OutputUri_Serialize J U) outputs)"
  shows "read_input J U config = Some inputs \<and> read_output J U config = Some outputs
     \<and> (\<exists>j. ChangedSouresInfo_Serialize J U notice = Inr j \<and> ChangedSouresInfo_DeSerialize J U j = Inr notice)"
    (is "?in \<and> ?out \<and> ?ch")
proof (intro conjI)
  show ?in
    using urls_roundtrip [OF input_ser.serializer_axioms [of J U] assms(1)] assms
    by (simp add: read_input_def ArgsGetValue_def ConvertFromString_input_def)
  show ?out
    using urls_roundtrip [OF output_ser.serializer_axioms [of J U] assms(1)] assms
    by (simp add: read_output_def ArgsGetValue_def ConvertFromString_output_def)
  show ?ch
    using changed_ser.written [of J U notice] assms by simp
qed

text \<open>A library of URLs that are their own text.\<close>

definition text_urls :: "string url_api" where
  "text_urls = \<lparr>url0 = [], url_of = (\<lambda>s. s), url_text = (\<lambda>s. s), url_valid = (\<lambda>s. s \<noteq> []),
     url_scheme = (\<lambda>s. if take 7 s = ''http://'' then Scheme_http else Scheme_unknown),
     url_host = (\<lambda>s. s), url_path = (\<lambda>s. []), dir_path = (\<lambda>s. s)\<rparr>"

theorem source_lists_roundtrip_witness:
  "read_input tree_json text_urls
     [INPUT_FIELD \<mapsto> urls_text tree_json (InputUri_Serialize tree_json text_urls)
        [\<lparr>iu_id = 7, iu_input = ''udp://a'', iu_user_agent = VLC\<rparr>],
      OUTPUT_FIELD \<mapsto> urls_text tree_json (OutputUri_Serialize tree_json text_urls)
        [\<lparr>ou_id = 1, ou_output = ''http://b'', ou_http_root = ''/h/''\<rparr>]]
   = Some [\<lparr>iu_id = 7, iu_input = ''udp://a'', iu_user_agent = VLC\<rparr>]"
  by (rule source_lists_roundtrip [where notice = "\<lparr>cs_id = ''s'', cs_url =
          \<lparr>iu_id = 7, iu_input = ''udp://a'', iu_user_agent = VLC\<rparr>\<rparr>"
        and outputs = "[\<lparr>ou_id = 1, ou_output = ''http://b'', ou_http_root = ''/h/''\<rparr>]", THEN conjunct1])
     (simp_all add: input_kept_def output_kept_def proper_agent_def text_urls_def INPUT_FIELD_def OUTPUT_FIELD_def)

end
