(* ===== verification/StreamTypes.thy ===== *)
theory StreamTypes
  imports Probes Uris M3u8
begin

text \<open>
  Component \<open>stream/stypes\<close>: the names of pipeline elements, the recovery of indices from names, the
  recognition of special addresses and of media types, and the names of the segments of live playlists.
  The regular expressions are matched by hand; \<open>std::regex\<close> in its default grammar matches any character
  but a line end with an unescaped dot.
\<close>

section \<open>Names of elements\<close>

text \<open>
  The format \<open>%lu\<close> of an index. Indices of elements are positions in vectors, so they are natural
  numbers below the bound of \<open>size_t\<close> and no wrap-around can occur.
\<close>

definition name_1u :: "string \<Rightarrow> nat \<Rightarrow> string" where
  "name_1u stem i = stem @ ''_'' @ dec i"

definition VIDEO_TEE_NAME_1U :: "nat \<Rightarrow> string" where "VIDEO_TEE_NAME_1U = name_1u ''video_tee''"
definition AUDIO_TEE_NAME_1U :: "nat \<Rightarrow> string" where "AUDIO_TEE_NAME_1U = name_1u ''audio_tee''"
definition UDB_VIDEO_NAME_1U :: "nat \<Rightarrow> string" where "UDB_VIDEO_NAME_1U = name_1u ''udb_conn_video''"
definition UDB_AUDIO_NAME_1U :: "nat \<Rightarrow> string" where "UDB_AUDIO_NAME_1U = name_1u ''udb_conn_audio''"
definition POST_PROC_NAME_1U :: "nat \<Rightarrow> string" where "POST_PROC_NAME_1U = name_1u ''post_proc''"
definition VIDEO_LOGO_NAME_1U :: "nat \<Rightarrow> string" where "VIDEO_LOGO_NAME_1U = name_1u ''videologo''"
definition DEINTERLACE_NAME_1U :: "nat \<Rightarrow> string" where "DEINTERLACE_NAME_1U = name_1u ''deinterlace''"
definition ASPECT_RATIO_NAME_1U :: "nat \<Rightarrow> string" where "ASPECT_RATIO_NAME_1U = name_1u ''aspect_ratio''"
definition VIDEO_CONVERT_NAME_1U :: "nat \<Rightarrow> string" where "VIDEO_CONVERT_NAME_1U = name_1u ''video_convert''"
definition ENCODER_VIDEO_CONVERT_NAME_1U :: "nat \<Rightarrow> string" where "ENCODER_VIDEO_CONVERT_NAME_1U = name_1u ''encoder_video_convert''"
definition AUTO_VIDEO_CONVERT_NAME_1U :: "nat \<Rightarrow> string" where "AUTO_VIDEO_CONVERT_NAME_1U = name_1u ''auto_video_convert''"
definition AUDIO_CONVERT_NAME_1U :: "nat \<Rightarrow> string" where "AUDIO_CONVERT_NAME_1U = name_1u ''audio_convert''"
definition VOLUME_NAME_1U :: "nat \<Rightarrow> string" where "VOLUME_NAME_1U = name_1u ''volume''"
definition VIDEOMIXER_NAME_1U :: "nat \<Rightarrow> string" where "VIDEOMIXER_NAME_1U = name_1u ''videomixer''"
definition INTERLIVE_NAME_1U :: "nat \<Rightarrow> string" where "INTERLIVE_NAME_1U = name_1u ''interlive''"
definition CAIRO_NAME_1U :: "nat \<Rightarrow> string" where "CAIRO_NAME_1U = name_1u ''cairo''"
definition QUEUE2_NAME_1U :: "nat \<Rightarrow> string" where "QUEUE2_NAME_1U = name_1u ''queue2''"
definition AUDIO_CONVERT_CAPS_FILTER_NAME_1U :: "nat \<Rightarrow> string" where "AUDIO_CONVERT_CAPS_FILTER_NAME_1U = name_1u ''audio_convert_capsfilter''"
definition SRC_NAME_1U :: "nat \<Rightarrow> string" where "SRC_NAME_1U = name_1u ''src''"
definition VIDEO_CODEC_NAME_1U :: "nat \<Rightarrow> string" where "VIDEO_CODEC_NAME_1U = name_1u ''video_codec''"
definition AUDIO_CODEC_NAME_1U :: "nat \<Rightarrow> string" where "AUDIO_CODEC_NAME_1U = name_1u ''audio_codec''"
definition VIDEO_CAPS_DEVICE_NAME_1U :: "nat \<Rightarrow> string" where "VIDEO_CAPS_DEVICE_NAME_1U = name_1u ''video_caps_device''"
definition VIDEO_SCALE_CAPS_FILTER_NAME_1U :: "nat \<Rightarrow> string" where "VIDEO_SCALE_CAPS_FILTER_NAME_1U = name_1u ''videoscale_capsfilter''"
definition VIDEO_X264ENC_CAPS_FILTER_STREAM_FORMAT_NAME_1U :: "nat \<Rightarrow> string" where "VIDEO_X264ENC_CAPS_FILTER_STREAM_FORMAT_NAME_1U = name_1u ''x264enc_capsfilter_stream_format''"
definition VIDEO_X264ENC_CAPS_FILTER_PROFILE_NAME_1U :: "nat \<Rightarrow> string" where "VIDEO_X264ENC_CAPS_FILTER_PROFILE_NAME_1U = name_1u ''x264enc_capsfilter_profile''"
definition VIDEO_SCALE_NAME_1U :: "nat \<Rightarrow> string" where "VIDEO_SCALE_NAME_1U = name_1u ''videoscale''"
definition VIDEO_BOX_NAME_1U :: "nat \<Rightarrow> string" where "VIDEO_BOX_NAME_1U = name_1u ''videobox''"
definition VIDEO_RATE_CAPS_FILTER_NAME_1U :: "nat \<Rightarrow> string" where "VIDEO_RATE_CAPS_FILTER_NAME_1U = name_1u ''videorate_capsfilter''"
definition VIDEO_RATE_NAME_1U :: "nat \<Rightarrow> string" where "VIDEO_RATE_NAME_1U = name_1u ''videorate''"
definition AUDIO_RESAMPLE_NAME_1U :: "nat \<Rightarrow> string" where "AUDIO_RESAMPLE_NAME_1U = name_1u ''audioresample''"
definition MPEG_AUDIO_PARSE_NAME_1U :: "nat \<Rightarrow> string" where "MPEG_AUDIO_PARSE_NAME_1U = name_1u ''mpegaudioparse''"
definition DECODEBIN_NAME_1U :: "nat \<Rightarrow> string" where "DECODEBIN_NAME_1U = name_1u ''decodebin''"
definition VIDEOBOX_NAME_1U :: "nat \<Rightarrow> string" where "VIDEOBOX_NAME_1U = name_1u ''videobox''"
definition VIDEO_DECODEBIN_NAME_1U :: "nat \<Rightarrow> string" where "VIDEO_DECODEBIN_NAME_1U = name_1u ''video_decodebin''"
definition AUDIO_DECODEBIN_NAME_1U :: "nat \<Rightarrow> string" where "AUDIO_DECODEBIN_NAME_1U = name_1u ''audio_decodebin''"
definition SINK_NAME_1U :: "nat \<Rightarrow> string" where "SINK_NAME_1U = name_1u ''sink''"
definition AUDIO_SINK_NAME_1U :: "nat \<Rightarrow> string" where "AUDIO_SINK_NAME_1U = name_1u ''audio_sink''"
definition VIDEO_SINK_NAME_1U :: "nat \<Rightarrow> string" where "VIDEO_SINK_NAME_1U = name_1u ''video_sink''"
definition AUDIO_PARSER_NAME_1U :: "nat \<Rightarrow> string" where "AUDIO_PARSER_NAME_1U = name_1u ''audio_parser''"
definition VIDEO_PARSER_NAME_1U :: "nat \<Rightarrow> string" where "VIDEO_PARSER_NAME_1U = name_1u ''video_parser''"
definition MUXER_NAME_1U :: "nat \<Rightarrow> string" where "MUXER_NAME_1U = name_1u ''muxer''"
definition AUDIO_PAY_NAME_1U :: "nat \<Rightarrow> string" where "AUDIO_PAY_NAME_1U = name_1u ''audio_pay''"
definition VIDEO_PAY_NAME_1U :: "nat \<Rightarrow> string" where "VIDEO_PAY_NAME_1U = name_1u ''video_pay''"
definition VIDEO_TEE_QUEUE_NAME_1U :: "nat \<Rightarrow> string" where "VIDEO_TEE_QUEUE_NAME_1U = name_1u ''video_tee_queue''"
definition AUDIO_TEE_QUEUE_NAME_1U :: "nat \<Rightarrow> string" where "AUDIO_TEE_QUEUE_NAME_1U = name_1u ''audio_tee_queue''"
definition AUDIO_LEVEL_NAME_1U :: "nat \<Rightarrow> string" where "AUDIO_LEVEL_NAME_1U = name_1u ''level''"

lemmas element_names =
  VIDEO_TEE_NAME_1U_def AUDIO_TEE_NAME_1U_def UDB_VIDEO_NAME_1U_def UDB_AUDIO_NAME_1U_def
  POST_PROC_NAME_1U_def VIDEO_LOGO_NAME_1U_def DEINTERLACE_NAME_1U_def ASPECT_RATIO_NAME_1U_def
  VIDEO_CONVERT_NAME_1U_def ENCODER_VIDEO_CONVERT_NAME_1U_def AUTO_VIDEO_CONVERT_NAME_1U_def
  AUDIO_CONVERT_NAME_1U_def VOLUME_NAME_1U_def VIDEOMIXER_NAME_1U_def INTERLIVE_NAME_1U_def
  CAIRO_NAME_1U_def QUEUE2_NAME_1U_def AUDIO_CONVERT_CAPS_FILTER_NAME_1U_def SRC_NAME_1U_def
  VIDEO_CODEC_NAME_1U_def AUDIO_CODEC_NAME_1U_def VIDEO_CAPS_DEVICE_NAME_1U_def
  VIDEO_SCALE_CAPS_FILTER_NAME_1U_def VIDEO_X264ENC_CAPS_FILTER_STREAM_FORMAT_NAME_1U_def
  VIDEO_X264ENC_CAPS_FILTER_PROFILE_NAME_1U_def VIDEO_SCALE_NAME_1U_def VIDEO_BOX_NAME_1U_def
  VIDEO_RATE_CAPS_FILTER_NAME_1U_def VIDEO_RATE_NAME_1U_def AUDIO_RESAMPLE_NAME_1U_def
  MPEG_AUDIO_PARSE_NAME_1U_def DECODEBIN_NAME_1U_def VIDEOBOX_NAME_1U_def VIDEO_DECODEBIN_NAME_1U_def
  AUDIO_DECODEBIN_NAME_1U_def SINK_NAME_1U_def AUDIO_SINK_NAME_1U_def VIDEO_SINK_NAME_1U_def
  AUDIO_PARSER_NAME_1U_def VIDEO_PARSER_NAME_1U_def MUXER_NAME_1U_def AUDIO_PAY_NAME_1U_def
  VIDEO_PAY_NAME_1U_def VIDEO_TEE_QUEUE_NAME_1U_def AUDIO_TEE_QUEUE_NAME_1U_def AUDIO_LEVEL_NAME_1U_def

text \<open>The parts of a text between the underscores.\<close>

fun fields_of :: "string \<Rightarrow> string list" where
  "fields_of [] = [[]]"
| "fields_of (c # s) = (if c = CHR ''_'' then [] # fields_of s
     else (case fields_of s of [] \<Rightarrow> [[c]] | f # fs \<Rightarrow> (c # f) # fs))"

text \<open>
  \<open>^([^_]+_)+([0-9]+)$\<close>: at least two parts, none empty, the last one of digits only; the second group
  is the last part.
\<close>

definition digit_end :: "string \<Rightarrow> string option" where
  "digit_end name =
     (let fs = fields_of name in
      if length fs \<ge> 2 \<and> list_all (\<lambda>f. f \<noteq> []) fs \<and> list_all is_digit (last fs) then Some (last fs) else None)"

text \<open>The output parameter keeps its old value when the digits cannot be converted.\<close>

definition GetElementId :: "'a conv_scheme \<Rightarrow> string \<Rightarrow> element_id_t \<Rightarrow> bool \<times> element_id_t" where
  "GetElementId cv name elem_id = (case digit_end name of
     None \<Rightarrow> (False, elem_id)
   | Some digits \<Rightarrow> (True, (case cv_u64 cv digits of Some lid \<Rightarrow> lid | None \<Rightarrow> elem_id)))"

definition GetPadId :: "'a conv_scheme \<Rightarrow> string \<Rightarrow> int \<Rightarrow> bool \<times> int" where
  "GetPadId cv name pad_id = (case digit_end name of
     None \<Rightarrow> (False, pad_id)
   | Some digits \<Rightarrow> (True, (case cv_i32 cv digits of Some lid \<Rightarrow> lid | None \<Rightarrow> pad_id)))"

section \<open>Special addresses\<close>

definition IsScreenUrl :: "'u url_api \<Rightarrow> 'u \<Rightarrow> bool" where "IsScreenUrl U url \<longleftrightarrow> url = url_of U ''screen''"

definition IsDecklinkUrl :: "'u url_api \<Rightarrow> 'u \<Rightarrow> bool" where "IsDecklinkUrl U url \<longleftrightarrow> url = url_of U ''decklink''"

datatype SinkDeviceType = SCREEN_OUTPUT | DECKLINK_OUTPUT

definition IsDeviceOutUrl :: "'u url_api \<Rightarrow> 'u \<Rightarrow> SinkDeviceType option" where
  "IsDeviceOutUrl U url =
     (if IsScreenUrl U url then Some SCREEN_OUTPUT else if IsDecklinkUrl U url then Some DECKLINK_OUTPUT else None)"

definition IsRecordingUrl :: "'u url_api \<Rightarrow> 'u \<Rightarrow> bool" where "IsRecordingUrl U url \<longleftrightarrow> url = url_of U ''rec''"

definition IsFakeUrl :: "'u url_api \<Rightarrow> 'u \<Rightarrow> bool" where "IsFakeUrl U url \<longleftrightarrow> url = url_of U ''fake''"

section \<open>Media types\<close>

datatype SupportedOtherType = APPLICATION_HLS_TYPE | APPLICATION_ICY_TYPE | APPLICATION_TELETEXT_TYPE
  | APPLICATION_GZIP_TYPE | SUBPICTURE_DVB_TYPE | IMAGE_PNG_TYPE | IMAGE_JPEG_TYPE

datatype SupportedDemuxer = VIDEO_MPEGTS_DEMUXER | VIDEO_FLV_DEMUXER

datatype SupportedVideoCodec = VIDEO_H264_CODEC | VIDEO_MPEG_CODEC | VIDEO_H265_CODEC

datatype SupportedAudioCodec = AUDIO_MPEG_CODEC | AUDIO_AAC_CODEC | AUDIO_AC3_CODEC

datatype SupportedRawStream = VIDEO_RAW_STREAM | AUDIO_RAW_STREAM

definition IsOtherFromType :: "string \<Rightarrow> SupportedOtherType option" where
  "IsOtherFromType type =
     (if type = ''application/x-hls'' then Some APPLICATION_HLS_TYPE
      else if type = ''application/x-icy'' then Some APPLICATION_ICY_TYPE
      else if type = ''application/x-teletext'' then Some APPLICATION_TELETEXT_TYPE
      else if type = ''application/x-gzip'' then Some APPLICATION_GZIP_TYPE
      else if type = ''image/png'' then Some IMAGE_PNG_TYPE
      else if type = ''image/jpeg'' then Some IMAGE_JPEG_TYPE
      else if type = ''subpicture/x-dvb'' then Some SUBPICTURE_DVB_TYPE
      else None)"

definition IsDemuxerFromType :: "string \<Rightarrow> SupportedDemuxer option" where
  "IsDemuxerFromType type =
     (if type = ''video/mpegts'' then Some VIDEO_MPEGTS_DEMUXER
      else if type = ''video/x-flv'' then Some VIDEO_FLV_DEMUXER else None)"

definition IsVideoCodecFromType :: "string \<Rightarrow> SupportedVideoCodec option" where
  "IsVideoCodecFromType type =
     (if type = ''video/mpeg'' then Some VIDEO_MPEG_CODEC
      else if type = ''video/x-h264'' then Some VIDEO_H264_CODEC
      else if type = ''video/x-h265'' then Some VIDEO_H265_CODEC else None)"

definition IsAudioCodecFromType :: "string \<Rightarrow> SupportedAudioCodec option" where
  "IsAudioCodecFromType type =
     (if type = ''audio/mpeg'' then Some AUDIO_MPEG_CODEC
      else if type = ''audio/x-ac3'' then Some AUDIO_AC3_CODEC else None)"

definition IsRawStreamFromType :: "string \<Rightarrow> SupportedRawStream option" where
  "IsRawStreamFromType type =
     (if type = ''video/x-raw'' then Some VIDEO_RAW_STREAM
      else if type = ''audio/x-raw'' then Some AUDIO_RAW_STREAM else None)"

section \<open>Segments of live playlists\<close>

definition TS_TEMPLATE :: string where "TS_TEMPLATE = ''%05d.ts''"

definition GenHttpTsTemplate :: "timestamp_t \<Rightarrow> string" where
  "GenHttpTsTemplate msec = fmt_u64 (of_int msec) @ ''_'' @ TS_TEMPLATE"

definition GenVodHttpTsTemplate :: string where "GenVodHttpTsTemplate = TS_TEMPLATE"

text \<open>\<open>^[0-9]+_([0-9]+).ts$\<close>, where the dot is not escaped.\<close>

definition chunk_index_re :: "string \<Rightarrow> string option" where
  "chunk_index_re file_name = (case split_first (CHR ''_'') file_name of
     None \<Rightarrow> None
   | Some (stamp, rest) \<Rightarrow>
      (let n = length rest - 3; digits = take n rest in
       if stamp \<noteq> [] \<and> list_all is_digit stamp \<and> digits \<noteq> [] \<and> list_all is_digit digits
          \<and> drop (Suc n) rest = ''ts'' \<and> rest ! n \<notin> {nl, cr}
       then Some digits else None))"

definition GetIndexFromHttpTsTemplate :: "'a conv_scheme \<Rightarrow> string \<Rightarrow> u64 option" where
  "GetIndexFromHttpTsTemplate cv file_name = (case chunk_index_re file_name of None \<Rightarrow> None | Some digits \<Rightarrow> cv_u64 cv digits)"

section \<open>Round trips\<close>

text \<open>
  What the sources rely on when they read a decimal number with leading zeros.
\<close>

definition reads_padded_u64 :: "'a conv_scheme \<Rightarrow> bool" where
  "reads_padded_u64 cv \<longleftrightarrow> (\<forall>s n. read_dec s = Some n \<and> n < 2 ^ 64 \<longrightarrow> cv_u64 cv s = Some (of_nat n))"

lemma reads_padded_std [simp]: "reads_padded_u64 std_conv"
  by (simp add: reads_padded_u64_def std_conv_def std_u_def)

text \<open>\<open>%05d\<close> of an index, as the writer of the segments expands the template.\<close>

definition pad5 :: "nat \<Rightarrow> string" where
  "pad5 n = replicate (5 - length (dec n)) (CHR ''0'') @ dec n"

definition segment_name :: "timestamp_t \<Rightarrow> nat \<Rightarrow> string" where
  "segment_name msec n = fmt_u64 (of_int msec) @ ''_'' @ pad5 n @ ''.ts''"

lemma dec_no_underscore: "CHR ''_'' \<notin> set (dec n)"
  using dec_digit_set [of "CHR ''_''" n] by (auto simp: is_digit_def)

lemma fields_of_plain [simp]: "CHR ''_'' \<notin> set s \<Longrightarrow> fields_of s = [s]"
  by (induction s) auto

lemma fields_of_not_Nil [simp]: "fields_of s \<noteq> []"
  by (cases s) (auto split: list.splits)

lemma fields_of_append:
  "fields_of (s @ CHR ''_'' # t) = fields_of s @ fields_of t"
  proof (induction s)
  case (Cons c s)
  then show ?case using fields_of_not_Nil [of s] by (auto split: list.splits)
qed simp

lemma digit_end_name:
  assumes "list_all (\<lambda>f. f \<noteq> []) (fields_of stem)"
  shows "digit_end (name_1u stem i) = Some (dec i)"
  using assms by (simp add: digit_end_def name_1u_def fields_of_append dec_no_underscore Suc_le_eq)

lemma name_1u_inject [simp]: "name_1u s i = name_1u t j \<longleftrightarrow> s = t \<and> i = j"
proof
  assume eq: "name_1u s i = name_1u t j"
  have split: "takeWhile (\<lambda>c. c \<noteq> CHR ''_'') (rev (name_1u s i)) = rev (dec i)" for s i
    using dec_no_underscore [of i] by (simp add: name_1u_def takeWhile_append)
  have "rev (dec i) = rev (dec j)" using arg_cong [OF eq, of rev] split by metis
  then have d: "dec i = dec j" by simp
  then have "i = j" using read_dec_dec by (metis option.inject)
  with eq d show "s = t \<and> i = j" by (simp add: name_1u_def)
qed simp

lemma pad5_digits: "list_all is_digit (pad5 n)" "pad5 n \<noteq> []"
  by (auto simp: pad5_def list_all_iff dest: dec_digit_set) (simp add: is_digit_def)

lemma read_dec_pad5: "read_dec (pad5 n) = Some n"
proof -
  have "foldl (\<lambda>v c. 10 * v + digit_val c) 0 (replicate k (CHR ''0'') @ s)
      = foldl (\<lambda>v c. 10 * v + digit_val c) 0 s" for k s
    by (induction k) (simp_all add: digit_val_def)
  then show ?thesis using pad5_digits [of n] by (simp add: read_dec_def pad5_def foldl_dec)
qed

lemma GetElementId_name:
  assumes "reads_padded_u64 cv" "list_all (\<lambda>f. f \<noteq> []) (fields_of stem)" "i < 2 ^ 64"
  shows "GetElementId cv (name_1u stem i) old = (True, of_nat i)"
  using assms(1,3) by (simp add: GetElementId_def digit_end_name [OF assms(2)] reads_padded_u64_def)

lemma chunk_index_re_segment: "chunk_index_re (segment_name msec n) = Some (pad5 n)"
proof -
  have "CHR ''_'' \<notin> set (fmt_u64 (of_int msec))" by (simp add: fmt_u64_def dec_no_underscore)
  then have "split_first (CHR ''_'') (segment_name msec n) = Some (fmt_u64 (of_int msec), pad5 n @ ''.ts'')"
    by (simp add: segment_name_def)
  then show ?thesis using pad5_digits [of n] by (simp add: chunk_index_re_def nth_append nl_def cr_def)
qed

text \<open>The stems of the names of elements.\<close>

definition element_stems :: "string list" where
  "element_stems = [''video_tee'', ''audio_tee'', ''udb_conn_video'', ''udb_conn_audio'', ''src'', ''sink'',
     ''audio_sink'', ''video_sink'', ''decodebin'', ''video_codec'', ''audio_codec'', ''muxer'', ''audio_pay'', ''video_pay'',
     ''level'', ''videomixer'']"

text \<open>
  Indices survive their text form: from the name of an element its index is recovered, whatever
  the stem, and from the name of a segment of a live playlist, made at any time, the number of the
  segment is recovered.
\<close>

theorem names_give_indices:
  assumes "reads_padded_u64 cv" "i < 2 ^ 64"
  shows "(\<forall>stem\<in>set element_stems. GetElementId cv (name_1u stem i) old = (True, of_nat i))
    \<and> GetIndexFromHttpTsTemplate cv (segment_name msec i) = Some (of_nat i)"
proof
  have "list_all (\<lambda>f. f \<noteq> []) (fields_of stem)" if "stem \<in> set element_stems" for stem
    using that by (auto simp: element_stems_def)
  then show "\<forall>stem\<in>set element_stems. GetElementId cv (name_1u stem i) old = (True, of_nat i)"
    using GetElementId_name [OF assms(1) _ assms(2)] by blast
  show "GetIndexFromHttpTsTemplate cv (segment_name msec i) = Some (of_nat i)"
    using assms by (simp add: GetIndexFromHttpTsTemplate_def chunk_index_re_segment reads_padded_u64_def read_dec_pad5)
qed

theorem names_give_indices_witness:
  "GetElementId std_conv (SINK_NAME_1U 3) 0 = (True, 3) \<and> GetIndexFromHttpTsTemplate std_conv (segment_name 1500 3) = Some 3"
  using names_give_indices [of std_conv 3 0 1500] by (simp add: element_stems_def SINK_NAME_1U_def)

text \<open>The dot of the pattern matches any character: a name without a suffix is taken for a segment.\<close>

lemma unescaped_dot: "GetIndexFromHttpTsTemplate std_conv ''1_23ts'' = Some 2"
  by (simp add: GetIndexFromHttpTsTemplate_def chunk_index_re_def std_conv_def std_u_def read_dec_def is_digit_def
      digit_val_def nl_def cr_def)

end
