(* ===== verification/BaseStream.thy ===== *)
theory BaseStream
  imports Probes SysUtils StreamTypes "HOL-Library.Signed_Division"
begin

unbundle bit_operations_syntax

text \<open>
  Component \<open>stream/ibase_stream\<close>: the life of one pipeline. The state of an \<open>IBaseStream\<close> is a
  record that holds the shared description, the probes, the ticks of the main timer, the flags and
  whether the main loop runs; the notifications of the client are collected in order. The pipeline
  is a parameter: what it answers and which messages it posts are arguments. Posting a message on
  the bus runs the synchronous handler at once, as the multimedia library documents. The hooks a
  derived class overrides are the record \<open>hooks\<close>, with the contract of the locale \<open>stream_hooks\<close>.
\<close>

section \<open>State\<close>

datatype ExitStatus = EXIT_SELF | EXIT_INNER

datatype client_call = OnStatusChanged StreamStatus | OnTimeoutUpdated | OnPipelineEOS
  | OnASyncMessageReceived | OnSyncMessageReceived | OnPipelineCreated

record 'd base_stream =
  bs_stats :: "'d StreamStruct"
  probe_in :: "Probe list"
  probe_out :: "Probe list"
  http_inputs :: "bool list"
  status_tick :: int
  no_data_panic_tick :: int
  last_exit_status :: ExitStatus
  is_live :: bool
  flags :: u32
  desire_flags :: u32
  loop_running :: bool
  calls :: "client_call list"

definition INITED_NOTHING :: u32 where "INITED_NOTHING = 0"
definition INITED_VIDEO :: u32 where "INITED_VIDEO = 1"
definition INITED_AUDIO :: u32 where "INITED_AUDIO = 2"

definition panic_sec :: int where "panic_sec = 60"
definition cleanup_life_period_sec :: int where "cleanup_life_period_sec = 15 * 2 * 10"
definition report_delay_sec :: int where "report_delay_sec = 10"
definition MIN_OUT_DATA :: u64 where "MIN_OUT_DATA = 4 * 1024 * 60"
definition MIN_IN_DATA :: u64 where "MIN_IN_DATA = 4 * 1024 * 60"
definition DEFAULT_FRAMERATE :: int where "DEFAULT_FRAMERATE = 25"

definition call :: "client_call \<Rightarrow> 'd base_stream \<Rightarrow> 'd base_stream" where
  "call c s = s\<lparr>calls := calls s @ [c]\<rparr>"

definition SetStatus :: "StreamStatus \<Rightarrow> 'd base_stream \<Rightarrow> 'd base_stream" where
  "SetStatus st s = call (OnStatusChanged st) (s\<lparr>bs_stats := (bs_stats s)\<lparr>status := st\<rparr>\<rparr>)"

text \<open>The constructor; its checks are on the configuration, the description and their types.\<close>

definition make_base_stream :: "StreamType \<Rightarrow> 'd StreamStruct \<Rightarrow> 'd base_stream outcome" where
  "make_base_stream config_type stats =
     (if StreamStruct_IsValid stats \<and> ss_type stats = config_type
      then Ret (SetStatus NEW \<lparr>bs_stats = stats, probe_in = [], probe_out = [], http_inputs = [], status_tick = 0,
         no_data_panic_tick = 0, last_exit_status = EXIT_INNER, is_live = False, flags = INITED_NOTHING,
         desire_flags = INITED_NOTHING, loop_running = False, calls = []\<rparr>)
      else Abort)"

definition LinkInputPad :: "(Probe \<Rightarrow> Probe) \<Rightarrow> element_id_t \<Rightarrow> 'd base_stream \<Rightarrow> 'd base_stream" where
  "LinkInputPad link i s = s\<lparr>probe_in := probe_in s @ [link (make_Probe PROBE_IN i)]\<rparr>"

definition LinkOutputPad :: "(Probe \<Rightarrow> Probe) \<Rightarrow> element_id_t \<Rightarrow> 'd base_stream \<Rightarrow> 'd base_stream" where
  "LinkOutputPad link i s = s\<lparr>probe_out := probe_out s @ [link (make_Probe PROBE_OUT i)]\<rparr>"

definition ClearOutProbes :: "'d base_stream \<Rightarrow> 'd base_stream" where
  "ClearOutProbes s = s\<lparr>probe_out := []\<rparr>"

definition ClearInProbes :: "'d base_stream \<Rightarrow> 'd base_stream" where
  "ClearInProbes s = s\<lparr>probe_in := []\<rparr>"

definition CountInputEOS :: "'d base_stream \<Rightarrow> nat" where
  "CountInputEOS s = CountEOS (probe_in s)"

definition CountOutEOS :: "'d base_stream \<Rightarrow> nat" where
  "CountOutEOS s = CountEOS (probe_out s)"

definition IsVod :: "'d base_stream \<Rightarrow> bool" where
  "IsVod s \<longleftrightarrow> ss_type (bs_stats s) = VOD_ENCODE \<or> ss_type (bs_stats s) = VOD_RELAY"

definition IsActive :: "'d base_stream \<Rightarrow> bool" where
  "IsActive s \<longleftrightarrow> status (bs_stats s) \<noteq> INIT"

definition GetElipsedTime :: "timestamp_t \<Rightarrow> 'd base_stream \<Rightarrow> int" where
  "GetElipsedTime now s = (now - start_time (bs_stats s)) sdiv 1000"

definition stream_ResetDataWait :: "timestamp_t \<Rightarrow> 'd base_stream \<Rightarrow> 'd base_stream" where
  "stream_ResetDataWait now s =
     s\<lparr>no_data_panic_tick := GetElipsedTime now s + panic_sec, bs_stats := ResetDataWait (bs_stats s)\<rparr>"

section \<open>Flags\<close>

definition IsAudioInited :: "'d base_stream \<Rightarrow> bool" where
  "IsAudioInited s \<longleftrightarrow> flags s AND INITED_AUDIO \<noteq> 0"

definition IsVideoInited :: "'d base_stream \<Rightarrow> bool" where
  "IsVideoInited s \<longleftrightarrow> flags s AND INITED_VIDEO \<noteq> 0"

definition SetAudioInited :: "bool \<Rightarrow> 'd base_stream \<Rightarrow> 'd base_stream" where
  "SetAudioInited val s =
     (if val then s\<lparr>flags := flags s OR INITED_AUDIO\<rparr> else s\<lparr>flags := flags s AND INITED_AUDIO\<rparr>)"

definition SetVideoInited :: "bool \<Rightarrow> 'd base_stream \<Rightarrow> 'd base_stream" where
  "SetVideoInited val s =
     (if val then s\<lparr>flags := flags s OR INITED_VIDEO\<rparr> else s\<lparr>flags := flags s AND NOT INITED_VIDEO\<rparr>)"

text \<open>
  Desired rates of the media library: the sum, whether a rate is set, and the range test.
\<close>

record 'd rates =
  rate_zero :: 'd
  rate_plus :: "'d \<Rightarrow> 'd \<Rightarrow> 'd"
  rate_valid :: "'d \<Rightarrow> bool"
  rate_audio :: "int \<Rightarrow> int \<Rightarrow> 'd"
  rate_mpeg :: "int \<Rightarrow> int \<Rightarrow> 'd"
  rate_h264 :: "int \<Rightarrow> int \<Rightarrow> int \<Rightarrow> int \<Rightarrow> 'd"

definition add_desire :: "'d rates \<Rightarrow> element_id_t \<Rightarrow> 'd \<Rightarrow> 'd base_stream \<Rightarrow> 'd base_stream outcome" where
  "add_desire R i kbps s =
     (let cs = ss_input (bs_stats s); k = unat i in
      if k < length cs
      then Ret (s\<lparr>bs_stats := (bs_stats s)\<lparr>ss_input :=
             cs[k := (cs ! k)\<lparr>desire_bytes_per_second := rate_plus R (desire_bytes_per_second (cs ! k)) kbps\<rparr>]\<rparr>\<rparr>)
      else Abort)"

text \<open>\<open>caps\<close>: the integer fields of the first structure, \<open>None\<close> without a structure.\<close>

definition RegisterAudioCaps ::
  "'d rates \<Rightarrow> (string \<rightharpoonup> int) option \<Rightarrow> element_id_t \<Rightarrow> 'd base_stream \<Rightarrow> 'd base_stream outcome" where
  "RegisterAudioCaps R caps i s =
     (if desire_flags s AND INITED_AUDIO \<noteq> 0 then Ret s
      else case caps of None \<Rightarrow> Ret s
      | Some st \<Rightarrow> (case (st ''rate'', st ''channels'') of
          (Some rate, Some channels) \<Rightarrow>
             (case add_desire R i (rate_audio R rate channels) s of
                Abort \<Rightarrow> Abort | Ret s1 \<Rightarrow> Ret (s1\<lparr>desire_flags := desire_flags s1 OR INITED_AUDIO\<rparr>))
        | _ \<Rightarrow> Ret s))"

definition RegisterVideoCaps ::
  "'d rates \<Rightarrow> SupportedVideoCodec \<Rightarrow> ((string \<rightharpoonup> int) \<times> (int \<times> int) option) option \<Rightarrow> element_id_t
     \<Rightarrow> 'd base_stream \<Rightarrow> 'd base_stream outcome" where
  "RegisterVideoCaps R svideo caps i s =
     (if desire_flags s AND INITED_VIDEO \<noteq> 0 then Ret s
      else case caps of None \<Rightarrow> Ret s
      | Some (st, fraction) \<Rightarrow>
         (case svideo of
            VIDEO_MPEG_CODEC \<Rightarrow> (case (st ''width'', st ''height'') of
               (Some width, Some height) \<Rightarrow>
                 (case add_desire R i (rate_mpeg R width height) s of
                    Abort \<Rightarrow> Abort | Ret s1 \<Rightarrow> Ret (s1\<lparr>desire_flags := desire_flags s1 OR INITED_VIDEO\<rparr>))
             | _ \<Rightarrow> Ret s)
          | VIDEO_H264_CODEC \<Rightarrow> (case (st ''width'', st ''height'', st ''profile'') of
               (Some width, Some height, Some profile) \<Rightarrow>
                 (case (case fraction of None \<Rightarrow> Ret DEFAULT_FRAMERATE
                        | Some (num, den) \<Rightarrow> if den = 0 then Abort else Ret (num sdiv den)) of
                    Abort \<Rightarrow> Abort
                  | Ret framerate \<Rightarrow>
                     (case add_desire R i (rate_h264 R width height framerate profile) s of
                        Abort \<Rightarrow> Abort | Ret s1 \<Rightarrow> Ret (s1\<lparr>desire_flags := desire_flags s1 OR INITED_VIDEO\<rparr>)))
             | _ \<Rightarrow> Ret s)
          | VIDEO_H265_CODEC \<Rightarrow> Ret s))"

section \<open>Messages\<close>

datatype gst_state = STATE_NULL | STATE_READY | STATE_PAUSED | STATE_PLAYING

datatype state_change = CHANGE_FAILURE | CHANGE_SUCCESS | CHANGE_ASYNC | CHANGE_NO_PREROLL

text \<open>
  The synchronous handler on an application message of the pipeline (the exit command) or any
  other message.
\<close>

definition HandleSyncBusMessageReceived :: "ExitStatus option \<Rightarrow> 'd base_stream \<Rightarrow> 'd base_stream" where
  "HandleSyncBusMessageReceived exit_command s =
     call OnSyncMessageReceived
       (case exit_command of None \<Rightarrow> s
        | Some st \<Rightarrow> if loop_running s then s\<lparr>loop_running := False, last_exit_status := st\<rparr> else s)"

definition Quit :: "ExitStatus \<Rightarrow> 'd base_stream \<Rightarrow> 'd base_stream" where
  "Quit st s = HandleSyncBusMessageReceived (Some st) s"

definition Play :: "state_change \<Rightarrow> 'd base_stream \<Rightarrow> 'd base_stream" where
  "Play ret s = (if ret = CHANGE_NO_PREROLL then s\<lparr>is_live := True\<rparr> else s)"

datatype async_message = MSG_BUFFERING | MSG_CLOCK_LOST | MSG_DURATION_CHANGED u64
  | MSG_STATE_CHANGED bool gst_state | MSG_EOS | MSG_OTHER

text \<open>The client of a stream is its controller, which ends the loop when the pipeline ends.\<close>

definition controller_OnPipelineEOS :: "'d base_stream \<Rightarrow> 'd base_stream" where
  "controller_OnPipelineEOS s = Quit (if IsVod s then EXIT_SELF else EXIT_INNER) s"

fun duration_loop :: "timestamp_t \<Rightarrow> u64 \<Rightarrow> bool list \<Rightarrow> nat \<Rightarrow> 'd base_stream \<Rightarrow> 'd base_stream outcome" where
  "duration_loop now dur [] i s = Ret s"
| "duration_loop now dur (http # hs) i s =
     (if http then
        (if i < length (probe_in s)
         then duration_loop now dur hs (Suc i)
                (s\<lparr>bs_stats := UpdateStats now (probe_in s ! i) dur (bs_stats s)\<rparr>)
         else Abort)
      else duration_loop now dur hs (Suc i) s)"

definition async_effect :: "timestamp_t \<Rightarrow> async_message \<Rightarrow> 'd base_stream \<Rightarrow> 'd base_stream outcome" where
  "async_effect now message s = (case message of
       MSG_DURATION_CHANGED dur \<Rightarrow> duration_loop now dur (http_inputs s) 0 s
     | MSG_STATE_CHANGED from_pipeline new_state \<Rightarrow>
         Ret (if from_pipeline then
                (case new_state of STATE_NULL \<Rightarrow> SetStatus INIT s | STATE_READY \<Rightarrow> SetStatus READY s
                 | STATE_PLAYING \<Rightarrow> SetStatus PLAYING s | STATE_PAUSED \<Rightarrow> s)
              else s)
     | MSG_EOS \<Rightarrow> Ret (controller_OnPipelineEOS (call OnPipelineEOS s))
     | _ \<Rightarrow> Ret s)"

definition HandleAsyncBusMessageReceived ::
  "timestamp_t \<Rightarrow> async_message \<Rightarrow> 'd base_stream \<Rightarrow> 'd base_stream outcome" where
  "HandleAsyncBusMessageReceived now message s =
     (case async_effect now message s of Abort \<Rightarrow> Abort | Ret s1 \<Rightarrow> Ret (call OnASyncMessageReceived s1))"

text \<open>\<open>Restart\<close> while the pipeline runs.\<close>

definition stream_Restart :: "timestamp_t \<Rightarrow> state_change \<Rightarrow> 'd base_stream \<Rightarrow> 'd base_stream" where
  "stream_Restart now ret s =
     (let s1 = s\<lparr>bs_stats := (bs_stats s)\<lparr>loop_start_time := now\<rparr>\<rparr>;
          s2 = stream_ResetDataWait now s1;
          s3 = Play ret (SetStatus INIT s2)
      in s3\<lparr>bs_stats := (bs_stats s3)\<lparr>restarts := restarts (bs_stats s3) + 1\<rparr>\<rparr>)"

text \<open>
  The chunk directories of the HTTP outputs before a run, and after the run of a video on demand.
  A directory is the path with its entries, as in \<open>SysUtils\<close>.
\<close>

definition PreExecCleanup ::
  "'a fs_api_scheme \<Rightarrow> timestamp_t \<Rightarrow> bool \<Rightarrow> (bool \<times> (string \<times> string list) option) list
     \<Rightarrow> (bool \<times> (string \<times> string list) option) list" where
  "PreExecCleanup fs cur_timestamp vod outputs =
     (let max_life_time = (if vod then cur_timestamp else cur_timestamp - cleanup_life_period_sec * 1000) in
      map (\<lambda>(http, dir). (http, if http then RemoveOldFilesByTime fs dir (max_life_time sdiv 1000) ''.ts'' else dir)) outputs)"

definition vod_PostExecCleanup ::
  "'a fs_api_scheme \<Rightarrow> bool \<Rightarrow> (bool \<times> (string \<times> string list) option) list
     \<Rightarrow> (bool \<times> (string \<times> string list) option) list" where
  "vod_PostExecCleanup fs cleanup_ts outputs =
     (if cleanup_ts then map (\<lambda>(http, dir). (http, if http then RemoveFilesByExtension fs dir ''.ts'' else dir)) outputs
      else outputs)"

section \<open>The main timer\<close>

record 'd hooks =
  on_input_failed :: "timestamp_t \<Rightarrow> 'd base_stream \<Rightarrow> 'd base_stream"
  on_input_ok :: "timestamp_t \<Rightarrow> 'd base_stream \<Rightarrow> 'd base_stream"
  on_output_failed :: "timestamp_t \<Rightarrow> 'd base_stream \<Rightarrow> 'd base_stream"
  on_output_ok :: "timestamp_t \<Rightarrow> 'd base_stream \<Rightarrow> 'd base_stream"

definition base_hooks :: "'d hooks" where
  "base_hooks = \<lparr>on_input_failed = (\<lambda>now. Quit EXIT_INNER), on_input_ok = (\<lambda>now s. s),
     on_output_failed = (\<lambda>now. Quit EXIT_INNER), on_output_ok = stream_ResetDataWait\<rparr>"

text \<open>\<open>TimeShiftPlayerStream\<close> tolerates missing input, \<open>TimeShiftRecorderStream\<close> missing output.\<close>

definition player_hooks :: "'d hooks" where
  "player_hooks = base_hooks\<lparr>on_input_failed := on_input_ok base_hooks\<rparr>"

definition recorder_hooks :: "'d hooks" where
  "recorder_hooks = base_hooks\<lparr>on_output_failed := on_output_ok base_hooks\<rparr>"

definition tick_diff :: "int \<Rightarrow> 'd base_stream \<Rightarrow> u64" where
  "tick_diff up_time s = of_int (panic_sec - no_data_panic_tick s + up_time) + 1"

definition in_total :: "'d base_stream \<Rightarrow> u64" where
  "in_total s = sum_list (map GetDiffTotalBytes (ss_input (bs_stats s)))"

definition out_total :: "'d base_stream \<Rightarrow> u64" where
  "out_total s = sum_list (map GetDiffTotalBytes (ss_output (bs_stats s)))"

definition update_rates :: "u64 \<Rightarrow> 'd base_stream \<Rightarrow> 'd base_stream" where
  "update_rates diff s = s\<lparr>bs_stats := (bs_stats s)
     \<lparr>ss_input := map (UpdateBps diff) (ss_input (bs_stats s)),
      ss_output := map (UpdateBps diff) (ss_output (bs_stats s))\<rparr>\<rparr>"

text \<open>
  The check of the data since the last check point; a division by zero is the outcome \<open>Abort\<close>.
  The clock is read once per tick here.
\<close>

definition check_data ::
  "'d hooks \<Rightarrow> 'd rates \<Rightarrow> timestamp_t \<Rightarrow> u64 \<Rightarrow> 'd base_stream \<Rightarrow> 'd base_stream outcome" where
  "check_data h R now diff s1 =
     (let checkpoint_diff_in_total = in_total s1;
          checkpoint_desire_in_total =
            foldl (rate_plus R) (rate_zero R) (map desire_bytes_per_second (ss_input (bs_stats s1)));
          checkpoint_diff_out_total = out_total s1;
          s2 = (if checkpoint_diff_in_total < MIN_IN_DATA then on_input_failed h now s1 else on_input_ok h now s1)
      in if rate_valid R checkpoint_desire_in_total \<and> desire_flags s2 \<noteq> INITED_NOTHING \<and> diff = 0 then Abort
         else Ret (if checkpoint_diff_out_total < MIN_OUT_DATA then on_output_failed h now s2 else on_output_ok h now s2))"

definition report_status :: "int \<Rightarrow> 'd base_stream \<Rightarrow> 'd base_stream" where
  "report_status up_time s =
     (if IsActive s \<and> status_tick s \<le> up_time
      then call OnTimeoutUpdated (s\<lparr>status_tick := up_time + report_delay_sec\<rparr>) else s)"

definition HandleMainTimerTick ::
  "'d hooks \<Rightarrow> 'd rates \<Rightarrow> timestamp_t \<Rightarrow> 'd base_stream \<Rightarrow> 'd base_stream outcome" where
  "HandleMainTimerTick h R now s =
     (let up_time = GetElipsedTime now s;
          diff = tick_diff up_time s;
          s1 = update_rates diff s
      in case (if up_time > no_data_panic_tick s1 then check_data h R now diff s1 else Ret s1) of
           Abort \<Rightarrow> Abort
         | Ret s3 \<Rightarrow> Ret (report_status up_time s3))"

section \<open>The main loop\<close>

datatype loop_event = Timer timestamp_t | Async timestamp_t async_message | Command ExitStatus
  | Data_in nat timestamp_t "probe_data option" | Data_out nat timestamp_t "probe_data option"

definition loop_step :: "'d hooks \<Rightarrow> 'd rates \<Rightarrow> loop_event \<Rightarrow> 'd base_stream \<Rightarrow> 'd base_stream outcome" where
  "loop_step h R ev s = (case ev of
       Timer now \<Rightarrow> HandleMainTimerTick h R now s
     | Async now m \<Rightarrow> HandleAsyncBusMessageReceived now m s
     | Command st \<Rightarrow> Ret (Quit st s)
     | Data_in i now d \<Rightarrow>
        (if i < length (probe_in s) then
           (case source_callback_probe_buffer now d (probe_in s ! i) (bs_stats s) of
              (_, p, st) \<Rightarrow> Ret (s\<lparr>probe_in := (probe_in s)[i := p], bs_stats := st\<rparr>))
         else Ret s)
     | Data_out i now d \<Rightarrow>
        (if i < length (probe_out s) then
           (case sink_callback_probe_buffer now d (probe_out s ! i) (bs_stats s) of
              (_, p, st) \<Rightarrow> Ret (s\<lparr>probe_out := (probe_out s)[i := p], bs_stats := st\<rparr>))
         else Ret s))"

text \<open>\<open>g_main_loop_run\<close>: events are handled until one ends the loop; \<open>None\<close> while it still runs.\<close>

fun run_loop :: "'d hooks \<Rightarrow> 'd rates \<Rightarrow> loop_event list \<Rightarrow> 'd base_stream \<Rightarrow> 'd base_stream outcome option" where
  "run_loop h R [] s = (if loop_running s then None else Some (Ret s))"
| "run_loop h R (e # es) s =
     (if loop_running s then
        (case loop_step h R e s of Abort \<Rightarrow> Some Abort | Ret s1 \<Rightarrow> run_loop h R es s1)
      else Some (Ret s))"

definition Exec ::
  "'d hooks \<Rightarrow> 'd rates \<Rightarrow> bool \<Rightarrow> timestamp_t \<Rightarrow> state_change \<Rightarrow> loop_event list \<Rightarrow> 'd base_stream
     \<Rightarrow> (ExitStatus \<times> 'd base_stream) outcome option" where
  "Exec h R pipeline_ok now ret evs s =
     (if \<not> pipeline_ok then Some (Ret (EXIT_INNER, s))
      else
        (let s1 = SetStatus INIT (call OnPipelineCreated s);
             s2 = stream_ResetDataWait now (s1\<lparr>bs_stats := (bs_stats s1)\<lparr>loop_start_time := now\<rparr>\<rparr>);
             s3 = Play ret s2
         in case run_loop h R evs (s3\<lparr>loop_running := True\<rparr>) of
              None \<Rightarrow> None
            | Some Abort \<Rightarrow> Some Abort
            | Some (Ret s4) \<Rightarrow>
                (let s5 = SetStatus INIT s4;
                     s6 = s5\<lparr>bs_stats := (bs_stats s5)\<lparr>restarts := restarts (bs_stats s5) + 1\<rparr>\<rparr>
                 in Some (Ret (last_exit_status s6, s6)))))"

section \<open>How a loop can end\<close>

text \<open>\<open>ends_inner s s'\<close>: the step kept the type and the loop, or ended the loop with an inner error.\<close>

definition ends_inner :: "'d base_stream \<Rightarrow> 'd base_stream \<Rightarrow> bool" where
  "ends_inner s s' \<longleftrightarrow> ss_type (bs_stats s') = ss_type (bs_stats s) \<and>
     ((loop_running s' = loop_running s \<and> last_exit_status s' = last_exit_status s) \<or>
      (\<not> loop_running s' \<and> last_exit_status s' = EXIT_INNER))"

lemma ends_inner_refl [simp, intro]: "ends_inner s s"
  by (simp add: ends_inner_def)

lemma ends_inner_trans: "ends_inner s s1 \<Longrightarrow> ends_inner s1 s2 \<Longrightarrow> ends_inner s s2"
  by (auto simp: ends_inner_def)

lemma ends_inner_steps [simp]:
  "ends_inner s (Quit EXIT_INNER s)" "ends_inner s (stream_ResetDataWait now s)" "ends_inner s (call c s)"
  "ends_inner s (update_rates d s)" "ends_inner s (s\<lparr>status_tick := t\<rparr>)" "ends_inner s (SetStatus st s)"
  by (simp_all add: ends_inner_def Quit_def HandleSyncBusMessageReceived_def stream_ResetDataWait_def
      ResetDataWait_def call_def update_rates_def SetStatus_def)

lemma ends_inner_report: "ends_inner s (report_status up s)"
  by (simp add: report_status_def call_def ends_inner_def)

lemma UpdateStats_type [simp]: "ss_type (UpdateStats now p sz st) = ss_type st"
  by (simp add: UpdateStats_def Let_def)

lemma foldl_UpdateStats_type [simp]:
  "ss_type (foldl (\<lambda>s sz. UpdateStats now p sz s) st szs) = ss_type st"
  by (induction szs arbitrary: st) auto

lemma duration_loop_ends: "duration_loop now dur hs i s = Ret s' \<Longrightarrow> ends_inner s s'"
proof (induction hs arbitrary: i s)
  case (Cons http hs)
  show ?case
  proof (cases http)
    case True
    then have "ends_inner (s\<lparr>bs_stats := UpdateStats now (probe_in s ! i) dur (bs_stats s)\<rparr>) s'"
      using Cons by (auto split: if_splits)
    then show ?thesis by (simp add: ends_inner_def)
  qed (use Cons in auto)
qed simp

text \<open>
  The contract of the hooks: each does nothing, starts a new check point, or ends the loop with an
  inner error.
\<close>

locale stream_hooks =
  fixes h :: "'d hooks"
  assumes input_failed: "ends_inner s (on_input_failed h now s)"
    and input_ok: "ends_inner s (on_input_ok h now s)"
    and output_failed: "ends_inner s (on_output_failed h now s)"
    and output_ok: "ends_inner s (on_output_ok h now s)"
begin

lemma check_ends:
  assumes "check_data h R now diff s = Ret s'"
  shows "ends_inner s s'"
proof -
  define s2 where
    "s2 = (if in_total s < MIN_IN_DATA then on_input_failed h now s else on_input_ok h now s)"
  have s2: "ends_inner s s2" using input_failed [of s now] input_ok [of s now] by (simp add: s2_def)
  have "s' = (if out_total s < MIN_OUT_DATA then on_output_failed h now s2 else on_output_ok h now s2)"
    using assms unfolding check_data_def Let_def s2_def [symmetric]
    by (rule if_abort_Ret)
  with s2 output_failed [of s2 now] output_ok [of s2 now] show ?thesis
    by (auto intro: ends_inner_trans)
qed

lemma tick_ends:
  assumes "HandleMainTimerTick h R now s = Ret s'"
  shows "ends_inner s s'"
proof -
  let ?d = "tick_diff (GetElipsedTime now s) s"
  have u: "ends_inner s (update_rates ?d s)" by simp
  obtain s3 where s3: "s3 = update_rates ?d s \<or> check_data h R now ?d (update_rates ?d s) = Ret s3"
    "s' = report_status (GetElipsedTime now s) s3"
    using assms unfolding HandleMainTimerTick_def Let_def by (auto split: outcome.splits if_splits)
  have "ends_inner s s3" using s3(1) u check_ends ends_inner_trans by blast
  then show ?thesis using s3(2) ends_inner_report ends_inner_trans by blast
qed

end

interpretation base: stream_hooks base_hooks
  by unfold_locales (simp_all add: base_hooks_def)

interpretation player: stream_hooks player_hooks
  by unfold_locales (simp_all add: player_hooks_def base_hooks_def)

interpretation recorder: stream_hooks recorder_hooks
  by unfold_locales (simp_all add: recorder_hooks_def base_hooks_def)

lemma async_ends:
  assumes "HandleAsyncBusMessageReceived now m s = Ret s'"
  shows "ends_inner s s' \<or> (m = MSG_EOS \<and> IsVod s \<and> ss_type (bs_stats s') = ss_type (bs_stats s))"
proof (cases "m = MSG_EOS")
  case True
  then show ?thesis
    using assms by (auto simp: HandleAsyncBusMessageReceived_def async_effect_def controller_OnPipelineEOS_def Quit_def
        HandleSyncBusMessageReceived_def call_def ends_inner_def IsVod_def split: if_splits)
next
  case False
  obtain s1 where s1: "async_effect now m s = Ret s1" "s' = call OnASyncMessageReceived s1"
    using assms by (auto simp: HandleAsyncBusMessageReceived_def split: outcome.splits)
  have "ends_inner s s1"
    using s1(1) False duration_loop_ends [of now _ "http_inputs s" 0 s]
    by (cases m) (auto simp: async_effect_def split: gst_state.splits if_splits)
  then show ?thesis using s1(2) ends_inner_steps(3) ends_inner_trans by blast
qed

context stream_hooks
begin

lemma step_ends:
  assumes "loop_step h R ev s = Ret s'" "loop_running s"
  shows "ss_type (bs_stats s') = ss_type (bs_stats s) \<and>
     (ends_inner s s' \<or> ev = Command EXIT_SELF \<or> (IsVod s \<and> (\<exists>t. ev = Async t MSG_EOS)))"
proof (cases ev)
  case (Timer now)
  then have "ends_inner s s'" using assms tick_ends by (simp add: loop_step_def)
  then show ?thesis by (simp add: ends_inner_def)
next
  case (Async now m)
  then show ?thesis using assms async_ends [of now m s s'] by (auto simp: loop_step_def ends_inner_def)
next
  case (Command st)
  then show ?thesis using assms
    by (cases st) (auto simp: loop_step_def Quit_def HandleSyncBusMessageReceived_def call_def ends_inner_def)
next
  case (Data_in i now d)
  then show ?thesis using assms
    by (auto simp: loop_step_def source_callback_probe_buffer_def ends_inner_def
        split: if_splits option.splits probe_data.splits)
next
  case (Data_out i now d)
  then show ?thesis using assms
    by (auto simp: loop_step_def sink_callback_probe_buffer_def ends_inner_def
        split: if_splits option.splits probe_data.splits)
qed

lemma run_exit_self:
  "run_loop h R evs s = Some (Ret s') \<Longrightarrow> loop_running s \<or> last_exit_status s = EXIT_INNER \<Longrightarrow>
   last_exit_status s' = EXIT_SELF \<Longrightarrow>
   Command EXIT_SELF \<in> set evs \<or> (IsVod s \<and> (\<exists>t. Async t MSG_EOS \<in> set evs))"
proof (induction evs arbitrary: s)
  case (Cons e es)
  show ?case
  proof (cases "loop_running s")
    case True
    then obtain s1 where s1: "loop_step h R e s = Ret s1" "run_loop h R es s1 = Some (Ret s')"
      using Cons.prems(1) by (auto split: outcome.splits)
    note step = step_ends [OF s1(1) True]
    show ?thesis
    proof (cases "ends_inner s s1")
      case inner: True
      then have "loop_running s1 \<or> last_exit_status s1 = EXIT_INNER" using True by (auto simp: ends_inner_def)
      moreover have "IsVod s1 = IsVod s" using step by (simp add: IsVod_def)
      ultimately show ?thesis using Cons.IH [OF s1(2) _ Cons.prems(3)] by auto
    qed (use step in auto)
  qed (use Cons.prems in auto)
qed (use ExitStatus.distinct in \<open>auto split: if_splits\<close>)

lemma exec_exit_self:
  assumes "Exec h R ok now ret evs s = Some (Ret (EXIT_SELF, s'))"
  shows "Command EXIT_SELF \<in> set evs \<or> (IsVod s \<and> (\<exists>t. Async t MSG_EOS \<in> set evs))"
proof -
  define s3 where "s3 = Play ret (stream_ResetDataWait now
     ((SetStatus INIT (call OnPipelineCreated s))\<lparr>bs_stats := (bs_stats (SetStatus INIT (call OnPipelineCreated s)))\<lparr>loop_start_time := now\<rparr>\<rparr>))"
  have vod: "IsVod (s3\<lparr>loop_running := True\<rparr>) = IsVod s"
    by (simp add: s3_def IsVod_def Play_def stream_ResetDataWait_def ResetDataWait_def SetStatus_def call_def)
  obtain s4 where "run_loop h R evs (s3\<lparr>loop_running := True\<rparr>) = Some (Ret s4)" "last_exit_status s4 = EXIT_SELF"
    using assms unfolding Exec_def Let_def s3_def [symmetric]
    by (auto split: option.splits outcome.splits if_splits simp: SetStatus_def call_def)
  from run_exit_self [OF this(1) _ this(2)] vod show ?thesis by simp
qed

end

section \<open>Properties of the main loop\<close>

lemma GetDiff_UpdateBps [simp]: "GetDiffTotalBytes (UpdateBps d c) = GetDiffTotalBytes c"
  by (simp add: UpdateBps_def GetDiffTotalBytes_def)

lemma update_rates_simps [simp]:
  "in_total (update_rates d s) = in_total s" "out_total (update_rates d s) = out_total s"
  "no_data_panic_tick (update_rates d s) = no_data_panic_tick s" "loop_running (update_rates d s) = loop_running s"
  "GetElipsedTime now (update_rates d s) = GetElipsedTime now s"
  by (simp_all add: update_rates_def in_total_def out_total_def GetElipsedTime_def comp_def)

lemma report_status_simps [simp]:
  "loop_running (report_status u s) = loop_running s" "last_exit_status (report_status u s) = last_exit_status s"
  "no_data_panic_tick (report_status u s) = no_data_panic_tick s" "bs_stats (report_status u s) = bs_stats s"
  by (simp_all add: report_status_def call_def)

lemma tick_diff_nonzero:
  assumes "no_data_panic_tick s < up_time" "up_time - no_data_panic_tick s < 2 ^ 62"
  shows "tick_diff up_time s \<noteq> 0"
proof -
  define d where "d = nat (61 + (up_time - no_data_panic_tick s))"
  have "tick_diff up_time s = of_nat d" using assms(1) by (simp add: tick_diff_def panic_sec_def d_def)
  moreover have "d < 2 ^ 64" "0 < d" using assms by (simp_all add: d_def)
  ultimately show ?thesis using unat_of_nat_small [of d, where ?'n = 64] by auto
qed

lemma check_data_returns: "diff \<noteq> 0 \<Longrightarrow> check_data h R now diff s =
   (let s2 = (if in_total s < MIN_IN_DATA then on_input_failed h now s else on_input_ok h now s) in
    Ret (if out_total s < MIN_OUT_DATA then on_output_failed h now s2 else on_output_ok h now s2))"
  by (simp add: check_data_def Let_def)

lemma tick_past_panic:
  assumes "no_data_panic_tick s < GetElipsedTime now s" "GetElipsedTime now s - no_data_panic_tick s < 2 ^ 62"
  shows "HandleMainTimerTick h R now s =
    (let s1 = update_rates (tick_diff (GetElipsedTime now s) s) s;
         s2 = (if in_total s < MIN_IN_DATA then on_input_failed h now s1 else on_input_ok h now s1);
         s3 = (if out_total s < MIN_OUT_DATA then on_output_failed h now s2 else on_output_ok h now s2)
     in Ret (report_status (GetElipsedTime now s) s3))"
  using assms(1) check_data_returns [OF tick_diff_nonzero [OF assms], of h R now
      "update_rates (tick_diff (GetElipsedTime now s) s) s"]
  by (simp add: HandleMainTimerTick_def Let_def)

text \<open>
  The main timer never divides by zero: for any hooks, any desired rates and any stream
  whose next check lies less than \<open>2 ^ 62\<close> seconds in the past, a tick returns.
\<close>

theorem timer_tick_returns:
  assumes "GetElipsedTime now s - no_data_panic_tick s < 2 ^ 62"
  shows "\<exists>s'. HandleMainTimerTick h R now s = Ret s'"
proof (cases "no_data_panic_tick s < GetElipsedTime now s")
  case True
  show ?thesis using tick_past_panic [OF True assms, of h R] by (simp add: Let_def)
qed (simp add: HandleMainTimerTick_def Let_def)

text \<open>A stream and rates of the media library to evaluate on.\<close>

definition demo_rates :: "unit rates" where
  "demo_rates = \<lparr>rate_zero = (), rate_plus = (\<lambda>_ _. ()), rate_valid = (\<lambda>_. True), rate_audio = (\<lambda>_ _. ()),
     rate_mpeg = (\<lambda>_ _. ()), rate_h264 = (\<lambda>_ _ _ _. ())\<rparr>"

definition demo_stream :: "unit base_stream" where
  "demo_stream = \<lparr>bs_stats = (make_StreamStruct () \<lparr>si_id = ''s'', si_type = RELAY, si_input = [0], si_output = [0]\<rparr> 0 0 0)
       \<lparr>status := PLAYING\<rparr>, probe_in = [make_Probe ''in'' 0], probe_out = [make_Probe ''out'' 0], http_inputs = [True],
     status_tick = 0, no_data_panic_tick = 60, last_exit_status = EXIT_INNER, is_live = False, flags = 3, desire_flags = 3,
     loop_running = True, calls = []\<rparr>"

theorem timer_tick_returns_witness: "\<exists>s'. HandleMainTimerTick base_hooks demo_rates 61000 demo_stream = Ret s'"
  by (rule timer_tick_returns)
     (simp add: demo_stream_def GetElipsedTime_def make_StreamStruct_def signed_divide_int_def)

lemma ResetDataWait_totals:
  "in_total (stream_ResetDataWait now s) = 0" "out_total (stream_ResetDataWait now s) = 0"
proof -
  have z: "sum_list (map GetDiffTotalBytes (map UpdateCheckPoint cs)) = 0" for cs :: "'d ChannelStats list"
    by (induction cs) (simp_all add: GetDiffTotalBytes_def UpdateCheckPoint_def)
  show "in_total (stream_ResetDataWait now s) = 0" "out_total (stream_ResetDataWait now s) = 0"
    using z [of "ss_input (bs_stats s)"] z [of "ss_output (bs_stats s)"]
    by (simp_all add: in_total_def out_total_def stream_ResetDataWait_def ResetDataWait_def del: map_map)
qed

text \<open>
  (C24) The watchdog. When the check of a running stream is due, a stream that received or sent
  less than the minimum since its last check point leaves its main loop with an inner error; a
  stream that moved enough data in both directions keeps running, its counters start from zero
  again and its next check is due 60 seconds later.
\<close>

theorem watchdog_ends_starving_streams:
  assumes "loop_running s" "up = GetElipsedTime now s" "no_data_panic_tick s < up" "up - no_data_panic_tick s < 2 ^ 62"
    and "HandleMainTimerTick base_hooks R now s = Ret s'"
  shows "if in_total s < MIN_IN_DATA \<or> out_total s < MIN_OUT_DATA
     then \<not> loop_running s' \<and> last_exit_status s' = EXIT_INNER
     else loop_running s' \<and> no_data_panic_tick s' = up + 60 \<and> in_total s' = 0 \<and> out_total s' = 0"
proof -
  let ?s1 = "update_rates (tick_diff up s) s"
  have eq: "s' = report_status up
      (if out_total s < MIN_OUT_DATA then Quit EXIT_INNER (if in_total s < MIN_IN_DATA then Quit EXIT_INNER ?s1 else ?s1)
       else stream_ResetDataWait now (if in_total s < MIN_IN_DATA then Quit EXIT_INNER ?s1 else ?s1))"
    using assms(2-5) tick_past_panic [of s now base_hooks R] by (simp add: Let_def base_hooks_def)
  have q: "\<not> loop_running (Quit EXIT_INNER x)"
    "loop_running x \<Longrightarrow> last_exit_status (Quit EXIT_INNER x) = EXIT_INNER"
    "\<not> loop_running x \<Longrightarrow> last_exit_status (Quit EXIT_INNER x) = last_exit_status x"
    "loop_running (stream_ResetDataWait now x) = loop_running x"
    "last_exit_status (stream_ResetDataWait now x) = last_exit_status x"
    "no_data_panic_tick (stream_ResetDataWait now x) = GetElipsedTime now x + 60" for x :: "'a base_stream"
    by (simp_all add: Quit_def HandleSyncBusMessageReceived_def call_def stream_ResetDataWait_def panic_sec_def)
  have r: "in_total (report_status u x) = in_total x" "out_total (report_status u x) = out_total x"
    for u and x :: "'a base_stream"
    by (simp_all add: in_total_def out_total_def)
  show ?thesis
    unfolding eq using assms(1,2) by (auto simp: q r ResetDataWait_totals)
qed

theorem watchdog_ends_starving_streams_witness:
  "\<exists>s'. HandleMainTimerTick base_hooks demo_rates 61000 demo_stream = Ret s' \<and> \<not> loop_running s'"
proof -
  have up: "GetElipsedTime 61000 demo_stream = 61" "no_data_panic_tick demo_stream = 60" "loop_running demo_stream"
    by (simp_all add: demo_stream_def GetElipsedTime_def make_StreamStruct_def signed_divide_int_def)
  have z: "in_total demo_stream = 0"
    by (simp add: demo_stream_def in_total_def make_StreamStruct_def make_channels_def make_ChannelStats_def GetDiffTotalBytes_def)
  obtain s' where s': "HandleMainTimerTick base_hooks demo_rates 61000 demo_stream = Ret s'"
    using tick_past_panic [of demo_stream 61000 base_hooks demo_rates] up by (auto simp: Let_def)
  with watchdog_ends_starving_streams [of demo_stream 61 61000 demo_rates s'] up z
  show ?thesis by (simp add: MIN_IN_DATA_def)
qed

text \<open>
  (C25) A run of a stream that reports success was asked to end: the exit status \<open>EXIT_SELF\<close>
  appears only when somebody commanded it, or when the pipeline of a video on demand reached its
  end. Every other way out of the main loop, the watchdog of each stream class included, reports
  an inner error.
\<close>

theorem success_exit_was_requested:
  assumes "h = base_hooks \<or> h = player_hooks \<or> h = recorder_hooks"
    and "Exec h R ok now ret evs s = Some (Ret (EXIT_SELF, s'))"
  shows "Command EXIT_SELF \<in> set evs \<or> (IsVod s \<and> (\<exists>t. Async t MSG_EOS \<in> set evs))"
  using assms(1)
proof (elim disjE)
  assume "h = base_hooks" with assms(2) show ?thesis by (intro base.exec_exit_self) simp
next
  assume "h = player_hooks" with assms(2) show ?thesis by (intro player.exec_exit_self) simp
next
  assume "h = recorder_hooks" with assms(2) show ?thesis by (intro recorder.exec_exit_self) simp
qed

theorem success_exit_was_requested_witness:
  "\<exists>s'. Exec base_hooks demo_rates True 0 CHANGE_SUCCESS [Async 5 MSG_EOS]
      (demo_stream\<lparr>bs_stats := (bs_stats demo_stream)\<lparr>ss_type := VOD_RELAY\<rparr>\<rparr>) = Some (Ret (EXIT_SELF, s'))
    \<and> (Command EXIT_SELF \<in> set [Async 5 MSG_EOS] \<or>
       IsVod (demo_stream\<lparr>bs_stats := (bs_stats demo_stream)\<lparr>ss_type := VOD_RELAY\<rparr>\<rparr>))"
proof -
  let ?s = "demo_stream\<lparr>bs_stats := (bs_stats demo_stream)\<lparr>ss_type := VOD_RELAY\<rparr>\<rparr>"
  obtain s' where s': "Exec base_hooks demo_rates True 0 CHANGE_SUCCESS [Async 5 MSG_EOS] ?s = Some (Ret (EXIT_SELF, s'))"
    by (simp add: Exec_def Let_def loop_step_def HandleAsyncBusMessageReceived_def async_effect_def
        controller_OnPipelineEOS_def Quit_def HandleSyncBusMessageReceived_def call_def SetStatus_def
        IsVod_def Play_def stream_ResetDataWait_def ResetDataWait_def)
  with success_exit_was_requested [of base_hooks, OF _ s'] show ?thesis by auto
qed

text \<open>
  The marks for initialised audio and video are independent when they are set, and taking
  back the video mark keeps the audio mark. Taking back the audio mark does the opposite of its
  purpose: it keeps the audio mark as it was and erases the video mark.
\<close>

theorem inited_flags:
  "IsAudioInited (SetAudioInited True s) \<and> IsVideoInited (SetAudioInited True s) = IsVideoInited s
   \<and> IsVideoInited (SetVideoInited True s) \<and> IsAudioInited (SetVideoInited True s) = IsAudioInited s
   \<and> \<not> IsVideoInited (SetVideoInited False s) \<and> IsAudioInited (SetVideoInited False s) = IsAudioInited s
   \<and> IsAudioInited (SetAudioInited False s) = IsAudioInited s \<and> \<not> IsVideoInited (SetAudioInited False s)"
proof -
  have b: "(w AND 2 \<noteq> 0) = bit w 1" "(w AND 1 \<noteq> 0) = bit w 0" for w :: u32
    using and_exp_eq_0_iff_not_bit [of w 1] and_exp_eq_0_iff_not_bit [of w 0] by simp_all
  show ?thesis
    by (simp add: IsAudioInited_def IsVideoInited_def SetAudioInited_def SetVideoInited_def INITED_AUDIO_def
        INITED_VIDEO_def b bit_simps)
qed

end
