(* ===== verification/Protocol.thy ===== *)
theory Protocol
  imports Prelude
begin

text \<open>
  Components \<open>protocol\<close>, \<open>base/stream_commands\<close> and \<open>server/daemon/commands\<close>: the requests and
  responses the service, its clients and the stream processes exchange. A request without an
  identifier is a notification. A success response carries a result text, \<open>None\<close> for the default
  success message of the protocol library; the text of a failure is that of a server error.
\<close>

type_synonym seq_id = "string option"

record request =
  rq_id :: seq_id
  rq_method :: string
  rq_params :: "string option"

datatype response = Resp_message seq_id "string option" | Resp_error seq_id string

fun resp_id :: "response \<Rightarrow> seq_id" where
  "resp_id (Resp_message i _) = i"
| "resp_id (Resp_error i _) = i"

definition make_request :: "seq_id \<Rightarrow> string \<Rightarrow> string option \<Rightarrow> request" where
  "make_request i m p = \<lparr>rq_id = i, rq_method = m, rq_params = p\<rparr>"

definition MakeNotification :: "string \<Rightarrow> string \<Rightarrow> request" where
  "MakeNotification m params = make_request None m (Some params)"

lemma make_request_simps [simp]:
  "rq_id (make_request i m p) = i" "rq_method (make_request i m p) = m" "rq_params (make_request i m p) = p"
  by (simp_all add: make_request_def)

section \<open>Commands between the service and a stream\<close>

definition STOP_STREAM :: string where "STOP_STREAM = ''stop''"
definition RESTART_STREAM :: string where "RESTART_STREAM = ''restart''"
definition CHANGED_SOURCES_STREAM :: string where "CHANGED_SOURCES_STREAM = ''changed_source_stream''"
definition STATISTIC_STREAM :: string where "STATISTIC_STREAM = ''statistic_stream''"

definition RestartStreamRequest :: "seq_id \<Rightarrow> request" where
  "RestartStreamRequest i = make_request i RESTART_STREAM None"

definition RestartStreamResponceSuccess :: "seq_id \<Rightarrow> response" where
  "RestartStreamResponceSuccess i = Resp_message i None"

definition StopStreamRequest :: "seq_id \<Rightarrow> request" where
  "StopStreamRequest i = make_request i STOP_STREAM None"

definition StopStreamResponceSuccess :: "seq_id \<Rightarrow> response" where
  "StopStreamResponceSuccess i = Resp_message i None"

definition ChangedSourcesStreamBroadcast :: "string \<Rightarrow> request" where
  "ChangedSourcesStreamBroadcast params = MakeNotification CHANGED_SOURCES_STREAM params"

definition StatisticStreamBroadcast :: "string \<Rightarrow> request" where
  "StatisticStreamBroadcast params = MakeNotification STATISTIC_STREAM params"

section \<open>Commands between the service and its clients\<close>

definition DAEMON_START_STREAM :: string where "DAEMON_START_STREAM = ''start_stream''"
definition DAEMON_STOP_STREAM :: string where "DAEMON_STOP_STREAM = ''stop_stream''"
definition DAEMON_RESTART_STREAM :: string where "DAEMON_RESTART_STREAM = ''restart_stream''"
definition DAEMON_GET_LOG_STREAM :: string where "DAEMON_GET_LOG_STREAM = ''get_log_stream''"
definition DAEMON_GET_PIPELINE_STREAM :: string where "DAEMON_GET_PIPELINE_STREAM = ''get_pipeline_stream''"
definition DAEMON_ACTIVATE :: string where "DAEMON_ACTIVATE = ''activate_request''"
definition DAEMON_STOP_SERVICE :: string where "DAEMON_STOP_SERVICE = ''stop_service''"
definition DAEMON_PREPARE_SERVICE :: string where "DAEMON_PREPARE_SERVICE = ''prepare_service''"
definition DAEMON_SYNC_SERVICE :: string where "DAEMON_SYNC_SERVICE = ''sync_service''"
definition DAEMON_PING_SERVICE :: string where "DAEMON_PING_SERVICE = ''ping_service''"
definition DAEMON_GET_LOG_SERVICE :: string where "DAEMON_GET_LOG_SERVICE = ''get_log_service''"
definition DAEMON_SERVER_PING :: string where "DAEMON_SERVER_PING = ''ping_client''"
definition STREAM_QUIT_STATUS_STREAM :: string where "STREAM_QUIT_STATUS_STREAM = ''quit_status_stream''"
definition STREAM_STATISTIC_SERVICE :: string where "STREAM_STATISTIC_SERVICE = ''statistic_service''"

definition StopServiceResponceSuccess :: "seq_id \<Rightarrow> response" where
  "StopServiceResponceSuccess i = Resp_message i None"

definition StopServiceResponceFail :: "seq_id \<Rightarrow> string \<Rightarrow> response" where
  "StopServiceResponceFail i error_text = Resp_error i error_text"

definition GetLogServiceResponceSuccess :: "seq_id \<Rightarrow> response" where
  "GetLogServiceResponceSuccess i = Resp_message i None"

definition GetLogServiceResponceFail :: "seq_id \<Rightarrow> string \<Rightarrow> response" where
  "GetLogServiceResponceFail i error_text = Resp_error i error_text"

definition StopServiceRequest :: "seq_id \<Rightarrow> string \<Rightarrow> request" where
  "StopServiceRequest i params = make_request i DAEMON_STOP_SERVICE (Some params)"

definition ActivateResponce :: "seq_id \<Rightarrow> string \<Rightarrow> response" where
  "ActivateResponce i res = Resp_message i (Some res)"

definition ActivateResponceFail :: "seq_id \<Rightarrow> string \<Rightarrow> response" where
  "ActivateResponceFail i error_text = Resp_error i error_text"

definition StateServiceResponce :: "seq_id \<Rightarrow> string \<Rightarrow> response" where
  "StateServiceResponce i res = Resp_message i (Some res)"

definition SyncServiceResponceSuccess :: "seq_id \<Rightarrow> response" where
  "SyncServiceResponceSuccess i = Resp_message i None"

definition StartStreamResponceSuccess :: "seq_id \<Rightarrow> response" where
  "StartStreamResponceSuccess i = Resp_message i None"

definition StartStreamResponceFail :: "seq_id \<Rightarrow> string \<Rightarrow> response" where
  "StartStreamResponceFail i error_text = Resp_error i error_text"

definition daemon_StopStreamResponceSuccess :: "seq_id \<Rightarrow> response" where
  "daemon_StopStreamResponceSuccess i = Resp_message i None"

definition StopStreamResponceFail :: "seq_id \<Rightarrow> string \<Rightarrow> response" where
  "StopStreamResponceFail i error_text = Resp_error i error_text"

definition daemon_RestartStreamResponceSuccess :: "seq_id \<Rightarrow> response" where
  "daemon_RestartStreamResponceSuccess i = Resp_message i None"

definition RestartStreamResponceFail :: "seq_id \<Rightarrow> string \<Rightarrow> response" where
  "RestartStreamResponceFail i error_text = Resp_error i error_text"

definition GetLogStreamResponceSuccess :: "seq_id \<Rightarrow> response" where
  "GetLogStreamResponceSuccess i = Resp_message i None"

definition GetLogStreamResponceFail :: "seq_id \<Rightarrow> string \<Rightarrow> response" where
  "GetLogStreamResponceFail i error_text = Resp_error i error_text"

definition PingDaemonRequest :: "seq_id \<Rightarrow> string \<Rightarrow> request" where
  "PingDaemonRequest i params = make_request i DAEMON_SERVER_PING (Some params)"

definition PingServiceResponce :: "seq_id \<Rightarrow> string \<Rightarrow> response" where
  "PingServiceResponce i res = Resp_message i (Some res)"

definition PingServiceResponceFail :: "seq_id \<Rightarrow> string \<Rightarrow> response" where
  "PingServiceResponceFail i error_text = Resp_error i error_text"

definition daemon_ChangedSourcesStreamBroadcast :: "string \<Rightarrow> request" where
  "daemon_ChangedSourcesStreamBroadcast params = MakeNotification CHANGED_SOURCES_STREAM params"

definition StatisitcStreamBroadcast :: "string \<Rightarrow> request" where
  "StatisitcStreamBroadcast params = MakeNotification STATISTIC_STREAM params"

definition StatisitcServiceBroadcast :: "string \<Rightarrow> request" where
  "StatisitcServiceBroadcast params = MakeNotification STREAM_STATISTIC_SERVICE params"

definition QuitStatusStreamBroadcast :: "string \<Rightarrow> request" where
  "QuitStatusStreamBroadcast params = MakeNotification STREAM_QUIT_STATUS_STREAM params"

lemmas stream_method_defs = STOP_STREAM_def RESTART_STREAM_def CHANGED_SOURCES_STREAM_def STATISTIC_STREAM_def

lemmas response_defs = StopServiceResponceSuccess_def StopServiceResponceFail_def
  GetLogServiceResponceSuccess_def GetLogServiceResponceFail_def ActivateResponce_def ActivateResponceFail_def
  StateServiceResponce_def SyncServiceResponceSuccess_def StartStreamResponceSuccess_def StartStreamResponceFail_def
  daemon_StopStreamResponceSuccess_def StopStreamResponceFail_def daemon_RestartStreamResponceSuccess_def
  RestartStreamResponceFail_def GetLogStreamResponceSuccess_def GetLogStreamResponceFail_def
  PingServiceResponce_def PingServiceResponceFail_def

end
