(* ===== verification/Options.thy ===== *)
theory Options
  imports Uris Stats
begin

text \<open>
  Component \<open>server/options\<close> with the tables of \<open>base/gst_constants\<close>: which options a stream
  configuration may carry and which of them the service passes on. The string converters, the JSON
  and URL libraries, the test of a file path and the bounds of the log levels are the record
  \<open>opt_env\<close>.
\<close>

section \<open>Validators\<close>

datatype Validity = VALID | INVALID | FATAL

record ('j, 'u) opt_env =
  oe_conv :: conv
  oe_json :: "'j json"
  oe_url :: "'u url_api"
  oe_valid_path :: "string \<Rightarrow> bool"
  oe_level_emerg :: int
  oe_level_debug :: int

definition dont_validate :: "('j, 'u) opt_env \<Rightarrow> string \<Rightarrow> Validity" where
  "dont_validate E value = VALID"

text \<open>
  \<open>validate_range<T>\<close>: the converter and the order of the type \<open>T\<close> are arguments.
\<close>

definition validate_range ::
  "(string \<Rightarrow> 'n option) \<Rightarrow> ('n \<Rightarrow> 'n \<Rightarrow> bool) \<Rightarrow> 'n \<Rightarrow> 'n \<Rightarrow> bool \<Rightarrow> string \<Rightarrow> Validity" where
  "validate_range conv le lo hi is_fatal value =
     (if (case conv value of Some i \<Rightarrow> le lo i \<and> le i hi | None \<Rightarrow> False) then VALID
      else if is_fatal then FATAL else INVALID)"

definition validate_is_positive :: "('j, 'u) opt_env \<Rightarrow> string \<Rightarrow> bool \<Rightarrow> Validity" where
  "validate_is_positive E value is_fatal =
     (if (case cv_i64 (oe_conv E) value of Some i \<Rightarrow> 0 \<le> i | None \<Rightarrow> False) then VALID
      else if is_fatal then FATAL else INVALID)"

definition validate_id :: "('j, 'u) opt_env \<Rightarrow> string \<Rightarrow> Validity" where
  "validate_id E value = (if value = [] then INVALID else VALID)"

definition validate_input :: "('j, 'u) opt_env \<Rightarrow> string \<Rightarrow> Validity" where
  "validate_input E value = VALID"

definition validate_output :: "('j, 'u) opt_env \<Rightarrow> string \<Rightarrow> Validity" where
  "validate_output E value =
     (case ConvertFromString_output (oe_json E) (oe_url E) value of None \<Rightarrow> INVALID | Some _ \<Rightarrow> VALID)"

definition validate_restart_attempts :: "('j, 'u) opt_env \<Rightarrow> string \<Rightarrow> Validity" where
  "validate_restart_attempts E value = validate_range (cv_u64 (oe_conv E)) (\<le>) 1 (- 1) False value"

definition validate_feedback_dir :: "('j, 'u) opt_env \<Rightarrow> string \<Rightarrow> Validity" where
  "validate_feedback_dir E value = (if oe_valid_path E value then VALID else INVALID)"

definition validate_timeshift_dir :: "('j, 'u) opt_env \<Rightarrow> string \<Rightarrow> Validity" where
  "validate_timeshift_dir E value = (if oe_valid_path E value then VALID else FATAL)"

definition validate_timeshift_chunk_life_time :: "('j, 'u) opt_env \<Rightarrow> string \<Rightarrow> Validity" where
  "validate_timeshift_chunk_life_time E value = validate_range (cv_i32 (oe_conv E)) (\<le>) 0 (12 * 24 * 3600) False value"

definition validate_timeshift_delay :: "('j, 'u) opt_env \<Rightarrow> string \<Rightarrow> Validity" where
  "validate_timeshift_delay E value = validate_range (cv_i32 (oe_conv E)) (\<le>) 0 (12 * 24 * 3600) False value"

text \<open>The names of the multimedia elements (\<open>base/gst_constants\<close>).\<close>

definition kSupportedVideoParsers :: "string list" where
  "kSupportedVideoParsers = [''tsparse'', ''h264parse'', ''h265parse'']"

definition kSupportedAudioParsers :: "string list" where
  "kSupportedAudioParsers = [''mpegaudioparse'', ''aacparse'', ''ac3parse'']"

definition kSupportedVideoEncoders :: "string list" where
  "kSupportedVideoEncoders = [''eavcenc'', ''openh264enc'', ''x264enc'', ''nvh264enc'', ''vaapih264enc'',
     ''vaapimpeg2enc'', ''mfxh264enc'', ''x265enc'', ''msdkh264enc'']"

definition kSupportedAudioEncoders :: "string list" where
  "kSupportedAudioEncoders = [''lamemp3enc'', ''faac'', ''voaacenc'']"

definition validate_video_parser :: "('j, 'u) opt_env \<Rightarrow> string \<Rightarrow> Validity" where
  "validate_video_parser E value = (if value \<in> set kSupportedVideoParsers then VALID else INVALID)"

definition validate_audio_parser :: "('j, 'u) opt_env \<Rightarrow> string \<Rightarrow> Validity" where
  "validate_audio_parser E value = (if value \<in> set kSupportedAudioParsers then VALID else INVALID)"

definition validate_video_codec :: "('j, 'u) opt_env \<Rightarrow> string \<Rightarrow> Validity" where
  "validate_video_codec E value = (if value \<in> set kSupportedVideoEncoders then VALID else INVALID)"

definition validate_audio_codec :: "('j, 'u) opt_env \<Rightarrow> string \<Rightarrow> Validity" where
  "validate_audio_codec E value = (if value \<in> set kSupportedAudioEncoders then VALID else INVALID)"

definition validate_type :: "('j, 'u) opt_env \<Rightarrow> string \<Rightarrow> Validity" where
  "validate_type E value = validate_range (cv_u8 (oe_conv E)) (\<le>) (type_code PROXY) (type_code SCREEN) False value"

definition validate_log_level :: "('j, 'u) opt_env \<Rightarrow> string \<Rightarrow> Validity" where
  "validate_log_level E value =
     validate_range (cv_i32 (oe_conv E)) (\<le>) (oe_level_emerg E) (oe_level_debug E) False value"

definition validate_volume :: "('j, 'u) opt_env \<Rightarrow> string \<Rightarrow> Validity" where
  "validate_volume E value = validate_range (cv_f64 (oe_conv E)) f64_le (F64 0) (F64 10) False value"

definition validate_delay_time :: "('j, 'u) opt_env \<Rightarrow> string \<Rightarrow> Validity" where
  "validate_delay_time E value = validate_is_positive E value False"

definition validate_timeshift_chunk_duration :: "('j, 'u) opt_env \<Rightarrow> string \<Rightarrow> Validity" where
  "validate_timeshift_chunk_duration E value = validate_is_positive E value False"

definition validate_auto_exit_time :: "('j, 'u) opt_env \<Rightarrow> string \<Rightarrow> Validity" where
  "validate_auto_exit_time E value = validate_is_positive E value False"

definition validate_size :: "('j, 'u) opt_env \<Rightarrow> string \<Rightarrow> Validity" where
  "validate_size E value = (case cv_size (oe_conv E) value of Some _ \<Rightarrow> VALID | None \<Rightarrow> INVALID)"

definition validate_cleanupts :: "('j, 'u) opt_env \<Rightarrow> string \<Rightarrow> Validity" where
  "validate_cleanupts E value = (case cv_bool (oe_conv E) value of Some _ \<Rightarrow> VALID | None \<Rightarrow> INVALID)"

definition validate_logo :: "('j, 'u) opt_env \<Rightarrow> string \<Rightarrow> Validity" where
  "validate_logo E value = (case ConvertFromString_Logo (oe_conv E) (oe_json E) (oe_url E) value of Some _ \<Rightarrow> VALID | None \<Rightarrow> INVALID)"

definition validate_framerate :: "('j, 'u) opt_env \<Rightarrow> string \<Rightarrow> Validity" where
  "validate_framerate E value = validate_is_positive E value False"

definition validate_aspect_ratio :: "('j, 'u) opt_env \<Rightarrow> string \<Rightarrow> Validity" where
  "validate_aspect_ratio E value = (case cv_rational (oe_conv E) value of Some _ \<Rightarrow> VALID | None \<Rightarrow> INVALID)"

definition validate_decklink_video_mode :: "('j, 'u) opt_env \<Rightarrow> string \<Rightarrow> Validity" where
  "validate_decklink_video_mode E value = validate_range (cv_i32 (oe_conv E)) (\<le>) 0 30 False value"

definition validate_video_bitrate :: "('j, 'u) opt_env \<Rightarrow> string \<Rightarrow> Validity" where
  "validate_video_bitrate E value = validate_is_positive E value False"

definition validate_audio_bitrate :: "('j, 'u) opt_env \<Rightarrow> string \<Rightarrow> Validity" where
  "validate_audio_bitrate E value = validate_is_positive E value False"

definition validate_audio_channels :: "('j, 'u) opt_env \<Rightarrow> string \<Rightarrow> Validity" where
  "validate_audio_channels E value = validate_is_positive E value False"

definition validate_audio_select :: "('j, 'u) opt_env \<Rightarrow> string \<Rightarrow> Validity" where
  "validate_audio_select E value = (case cv_i32 (oe_conv E) value of Some _ \<Rightarrow> VALID | None \<Rightarrow> INVALID)"

definition validate_mfxh264_preset :: "('j, 'u) opt_env \<Rightarrow> string \<Rightarrow> Validity" where
  "validate_mfxh264_preset E value = validate_range (cv_i32 (oe_conv E)) (\<le>) 0 7 False value"

definition validate_mfxh264_gopsize :: "('j, 'u) opt_env \<Rightarrow> string \<Rightarrow> Validity" where
  "validate_mfxh264_gopsize E value = validate_range (cv_i32 (oe_conv E)) (\<le>) 0 65535 False value"

definition validate_nvh264_preset :: "('j, 'u) opt_env \<Rightarrow> string \<Rightarrow> Validity" where
  "validate_nvh264_preset E value = validate_range (cv_u16 (oe_conv E)) (\<le>) 0 (- 1) False value"

definition validate_x264_speed_preset :: "('j, 'u) opt_env \<Rightarrow> string \<Rightarrow> Validity" where
  "validate_x264_speed_preset E value = validate_range (cv_i32 (oe_conv E)) (\<le>) 0 10 False value"

definition validate_x264_threads :: "('j, 'u) opt_env \<Rightarrow> string \<Rightarrow> Validity" where
  "validate_x264_threads E value = validate_range (cv_i32 (oe_conv E)) (\<le>) 0 (2 ^ 31 - 1) False value"

definition validate_x264_tune :: "('j, 'u) opt_env \<Rightarrow> string \<Rightarrow> Validity" where
  "validate_x264_tune E value = (case cv_i32 (oe_conv E) value of None \<Rightarrow> INVALID
     | Some i \<Rightarrow> if i \<in> set [0, 1, 2, 4] then VALID else INVALID)"

definition validate_x264_key_int_max :: "('j, 'u) opt_env \<Rightarrow> string \<Rightarrow> Validity" where
  "validate_x264_key_int_max E value = validate_range (cv_i32 (oe_conv E)) (\<le>) 0 (2 ^ 31 - 1) False value"

definition validate_x264_vbv_buf_capacity :: "('j, 'u) opt_env \<Rightarrow> string \<Rightarrow> Validity" where
  "validate_x264_vbv_buf_capacity E value = validate_range (cv_i32 (oe_conv E)) (\<le>) 0 10000 False value"

definition validate_x264_rc_lookahead :: "('j, 'u) opt_env \<Rightarrow> string \<Rightarrow> Validity" where
  "validate_x264_rc_lookahead E value = validate_range (cv_i32 (oe_conv E)) (\<le>) 0 250 False value"

definition validate_x264_qp_max :: "('j, 'u) opt_env \<Rightarrow> string \<Rightarrow> Validity" where
  "validate_x264_qp_max E value = validate_range (cv_i32 (oe_conv E)) (\<le>) 0 51 False value"

definition validate_x264_pass :: "('j, 'u) opt_env \<Rightarrow> string \<Rightarrow> Validity" where
  "validate_x264_pass E value = (case cv_i32 (oe_conv E) value of None \<Rightarrow> INVALID
     | Some i \<Rightarrow> if i \<in> set [0, 4, 5, 17, 18, 19] then VALID else INVALID)"

definition validate_x264_me :: "('j, 'u) opt_env \<Rightarrow> string \<Rightarrow> Validity" where
  "validate_x264_me E value = validate_range (cv_i32 (oe_conv E)) (\<le>) 0 4 False value"

definition validate_vaapih264_keyframe_period :: "('j, 'u) opt_env \<Rightarrow> string \<Rightarrow> Validity" where
  "validate_vaapih264_keyframe_period E value = validate_range (cv_i32 (oe_conv E)) (\<le>) 0 300 False value"

definition validate_vaapih264_tune :: "('j, 'u) opt_env \<Rightarrow> string \<Rightarrow> Validity" where
  "validate_vaapih264_tune E value = (case cv_i32 (oe_conv E) value of None \<Rightarrow> INVALID
     | Some i \<Rightarrow> if i \<in> set [0, 1, 3] then VALID else INVALID)"

definition validate_vaapih264_max_bframes :: "('j, 'u) opt_env \<Rightarrow> string \<Rightarrow> Validity" where
  "validate_vaapih264_max_bframes E value = validate_range (cv_i32 (oe_conv E)) (\<le>) 0 10 False value"

definition validate_vaapih264_num_slices :: "('j, 'u) opt_env \<Rightarrow> string \<Rightarrow> Validity" where
  "validate_vaapih264_num_slices E value = validate_range (cv_i32 (oe_conv E)) (\<le>) 1 200 False value"

definition validate_vaapih264_init_qp :: "('j, 'u) opt_env \<Rightarrow> string \<Rightarrow> Validity" where
  "validate_vaapih264_init_qp E value = validate_range (cv_i32 (oe_conv E)) (\<le>) 1 51 False value"

definition validate_vaapih264_min_qp :: "('j, 'u) opt_env \<Rightarrow> string \<Rightarrow> Validity" where
  "validate_vaapih264_min_qp E value = validate_range (cv_i32 (oe_conv E)) (\<le>) 1 51 False value"

definition validate_vaapih264_rate_control :: "('j, 'u) opt_env \<Rightarrow> string \<Rightarrow> Validity" where
  "validate_vaapih264_rate_control E value = (case cv_i32 (oe_conv E) value of None \<Rightarrow> INVALID
     | Some i \<Rightarrow> if i \<in> set [1, 2, 4, 5] then VALID else INVALID)"

definition validate_vaapih264_cpb_length :: "('j, 'u) opt_env \<Rightarrow> string \<Rightarrow> Validity" where
  "validate_vaapih264_cpb_length E value = validate_range (cv_i32 (oe_conv E)) (\<le>) 0 10000 False value"

definition dummy_validator_integer :: "('j, 'u) opt_env \<Rightarrow> string \<Rightarrow> Validity" where
  "dummy_validator_integer E value = validate_range (cv_i32 (oe_conv E)) (\<le>) (- (2 ^ 31)) (2 ^ 31 - 1) False value"

definition dummy_validator_string :: "('j, 'u) opt_env \<Rightarrow> string \<Rightarrow> Validity" where
  "dummy_validator_string E value = (if value = [] then INVALID else VALID)"

section \<open>The table of options\<close>

type_synonym option_t = "string \<times> (string \<Rightarrow> Validity)"

definition ALLOWED_OPTIONS :: "('j, 'u) opt_env \<Rightarrow> option_t list" where
  "ALLOWED_OPTIONS E = [
   (''id'', validate_id E),
   (''type'', validate_type E),
   (''feedback_directory'', validate_feedback_dir E),
   (''log_level'', validate_log_level E),
   (''input'', validate_input E),
   (''output'', validate_output E),
   (''restart_attempts'', validate_restart_attempts E),
   (''auto_exit_time'', validate_auto_exit_time E),
   (''timeshift_dir'', validate_timeshift_dir E),
   (''timeshift_chunk_life_time'', validate_timeshift_chunk_life_time E),
   (''timeshift_delay'', validate_timeshift_delay E),
   (''mainprofile'', dont_validate E),
   (''mainprofile_external'', dont_validate E),
   (''volume'', validate_volume E),
   (''delay_time'', validate_delay_time E),
   (''timeshift_chunk_duration'', validate_timeshift_chunk_duration E),
   (''video_parser'', validate_video_parser E),
   (''audio_parser'', validate_audio_parser E),
   (''audio_codec'', validate_audio_codec E),
   (''video_codec'', validate_video_codec E),
   (''have_video'', dont_validate E),
   (''have_audio'', dont_validate E),
   (''deinterlace'', dont_validate E),
   (''relay_audio'', dont_validate E),
   (''relay_video'', dont_validate E),
   (''loop'', dont_validate E),
   (''avformat'', dont_validate E),
   (''size'', validate_size E),
   (''cleanup_ts'', validate_cleanupts E),
   (''logo'', validate_logo E),
   (''framerate'', validate_framerate E),
   (''aspect_ratio'', validate_aspect_ratio E),
   (''video_bitrate'', validate_video_bitrate E),
   (''audio_bitrate'', validate_audio_bitrate E),
   (''audio_channels'', validate_audio_channels E),
   (''audio_select'', validate_audio_select E),
   (''decklink_video_mode'', validate_decklink_video_mode E),
   (''nvh264enc.preset'', validate_nvh264_preset E),
   (''mfxh264enc.preset'', validate_mfxh264_preset E),
   (''mfxh264enc.gop-size'', validate_mfxh264_gopsize E),
   (''x264enc.speed-preset'', validate_x264_speed_preset E),
   (''x264enc.threads'', validate_x264_threads E),
   (''x264enc.tune'', validate_x264_tune E),
   (''x264enc.key-int-max'', validate_x264_key_int_max E),
   (''x264enc.vbv-buf-capacity'', validate_x264_vbv_buf_capacity E),
   (''x264enc.rc-lookahead'', validate_x264_rc_lookahead E),
   (''x264enc.qp-max'', validate_x264_qp_max E),
   (''x264enc.pass'', validate_x264_pass E),
   (''x264enc.me'', validate_x264_me E),
   (''x264enc.profile'', dummy_validator_string E),
   (''x264enc.stream-format'', dummy_validator_string E),
   (''x264enc.option-string'', dont_validate E),
   (''x264enc.interlaced'', dont_validate E),
   (''x264enc.dct8x8'', dont_validate E),
   (''x264enc.b-adapt'', dont_validate E),
   (''x264enc.byte-stream'', dont_validate E),
   (''x264enc.cabac'', dont_validate E),
   (''x264enc.sliced-threads'', dont_validate E),
   (''x264enc.quantizer'', dont_validate E),
   (''vaapih264enc.keyframe-period'', validate_vaapih264_keyframe_period E),
   (''vaapih264enc.tune'', validate_vaapih264_tune E),
   (''vaapih264enc.max-bframes'', validate_vaapih264_max_bframes E),
   (''vaapih264enc.num-slices'', validate_vaapih264_num_slices E),
   (''vaapih264enc.init-qp'', validate_vaapih264_init_qp E),
   (''vaapih264enc.min-qp'', validate_vaapih264_min_qp E),
   (''vaapih264enc.rate-control'', validate_vaapih264_rate_control E),
   (''vaapih264enc.cabac'', dont_validate E),
   (''vaapih264enc.dct8x8'', dont_validate E),
   (''vaapih264enc.cpb-length'', validate_vaapih264_cpb_length E),
   (''openh264enc.multi-thread'', dont_validate E),
   (''openh264enc.complexity'', dummy_validator_integer E),
   (''openh264enc.rate-control'', dummy_validator_integer E),
   (''openh264enc.gop-size'', dummy_validator_integer E),
   (''eavcenc.preset'', dummy_validator_integer E),
   (''eavcenc.profile'', dummy_validator_integer E),
   (''eavcenc.performance'', dummy_validator_integer E),
   (''eavcenc.bitrate-mode'', dummy_validator_integer E),
   (''eavcenc.bitrate-pass'', dummy_validator_integer E),
   (''eavcenc.bitrate-max'', dummy_validator_integer E),
   (''eavcenc.vbv-size'', dummy_validator_integer E),
   (''eavcenc.picture-mode'', dummy_validator_integer E),
   (''eavcenc.entropy-mode'', dummy_validator_integer E),
   (''eavcenc.gop-max-bcount'', dummy_validator_integer E),
   (''eavcenc.gop-max-length'', dummy_validator_integer E),
   (''eavcenc.gop-min-length'', dummy_validator_integer E),
   (''eavcenc.level'', dummy_validator_integer E),
   (''eavcenc.deblock-mode'', dummy_validator_integer E),
   (''eavcenc.deblock-alpha'', dummy_validator_integer E),
   (''eavcenc.deblock-beta'', dummy_validator_integer E),
   (''eavcenc.initial-param'', dummy_validator_integer E),
   (''eavcenc.field-order'', dummy_validator_integer E),
   (''eavcenc.gop-adaptive'', dont_validate E)]"

text \<open>
  The constructor of \<open>ConstantOptions\<close> checks that the names are unique and fails otherwise.
\<close>

fun ConstantOptions :: "option_t list \<Rightarrow> option_t list \<Rightarrow> option_t list outcome" where
  "ConstantOptions acc [] = Ret acc"
| "ConstantOptions acc (opt # l) =
     (if list_ex (\<lambda>opt2. fst opt2 = fst opt) acc then Abort else ConstantOptions (acc @ [opt]) l)"

fun find_option :: "string \<Rightarrow> option_t list \<Rightarrow> option_t option" where
  "find_option key [] = None"
| "find_option key (cur # l) = (if fst cur = key then Some cur else find_option key l)"

definition FindOption :: "('j, 'u) opt_env \<Rightarrow> string \<Rightarrow> option_t option outcome" where
  "FindOption E key = (case ConstantOptions [] (ALLOWED_OPTIONS E) of
       Abort \<Rightarrow> Abort | Ret l \<Rightarrow> Ret (find_option key l))"

text \<open>\<open>FindCmdOption\<close> searches an empty table.\<close>

definition FindCmdOption :: "string \<Rightarrow> option_t option outcome" where
  "FindCmdOption key = (case ConstantOptions [] [] of Abort \<Rightarrow> Abort | Ret l \<Rightarrow> Ret (find_option key l))"

section \<open>Validation of a configuration\<close>

text \<open>
  What the JSON parser makes of the text of a configuration: nothing, a value that is not an
  object, or the members of an object in their order, each with its text or \<open>None\<close> for null.
  Iterating over no value or over a value that is not an object dereferences a null pointer.
  \<open>crit\<close> says whether a critical log message ends the process.
\<close>

datatype config_text = Config_invalid | Config_no_object | Config_object "(string \<times> string option) list"

definition value_text :: "string option \<Rightarrow> string" where
  "value_text v = (case v of None \<Rightarrow> ''null'' | Some s \<Rightarrow> s)"

fun validate_members ::
  "('j, 'u) opt_env \<Rightarrow> bool \<Rightarrow> ArgsMap \<Rightarrow> (string \<times> string option) list \<Rightarrow> ArgsMap outcome" where
  "validate_members E crit options [] = Ret options"
| "validate_members E crit options ((key, v) # members) = (case FindOption E key of
       Abort \<Rightarrow> Abort
     | Ret None \<Rightarrow> validate_members E crit options members
     | Ret (Some option) \<Rightarrow> (case snd option (value_text v) of
          VALID \<Rightarrow> validate_members E crit (options(key \<mapsto> value_text v)) members
        | INVALID \<Rightarrow> validate_members E crit options members
        | FATAL \<Rightarrow> if crit then Abort else validate_members E crit options members))"

definition ValidateConfig ::
  "('j, 'u) opt_env \<Rightarrow> bool \<Rightarrow> (string \<Rightarrow> config_text) \<Rightarrow> string \<Rightarrow> ArgsMap outcome" where
  "ValidateConfig E crit parse full_config =
     (if full_config = [] \<and> crit then Abort
      else case parse full_config of
        Config_invalid \<Rightarrow> Abort
      | Config_no_object \<Rightarrow> Abort
      | Config_object members \<Rightarrow> validate_members E crit Map.empty members)"

section \<open>What validation keeps\<close>

lemma options_unique: "distinct (map fst (ALLOWED_OPTIONS E))"
  unfolding ALLOWED_OPTIONS_def list.map fst_conv by code_simp

lemma ConstantOptions_distinct:
  "distinct (map fst (acc @ l)) \<Longrightarrow> ConstantOptions acc l = Ret (acc @ l)"
proof (induction l arbitrary: acc)
  case (Cons opt l)
  have "fst opt \<notin> fst ` set acc" using Cons.prems by (simp del: split_paired_Ex split_paired_All)
  then have "\<not> list_ex (\<lambda>opt2. fst opt2 = fst opt) acc" unfolding list_ex_iff by (metis image_eqI)
  moreover have "ConstantOptions (acc @ [opt]) l = Ret ((acc @ [opt]) @ l)"
    by (rule Cons.IH) (use Cons.prems in simp)
  ultimately show ?case by simp
qed simp

lemma find_option_map_of: "find_option key l = map_option (Pair key) (map_of l key)"
  by (induction l) auto

lemma FindOption_eq: "FindOption E key = Ret (map_option (Pair key) (map_of (ALLOWED_OPTIONS E) key))"
  using ConstantOptions_distinct [of "[]" "ALLOWED_OPTIONS E"] options_unique [of E]
  by (simp add: FindOption_def find_option_map_of)

text \<open>The verdict on one member; an unknown name is not accepted.\<close>

definition verdict :: "('j, 'u) opt_env \<Rightarrow> string \<times> string option \<Rightarrow> Validity" where
  "verdict E m = (case map_of (ALLOWED_OPTIONS E) (fst m) of
     None \<Rightarrow> INVALID | Some validate \<Rightarrow> validate (value_text (snd m)))"

text \<open>The reference: the last accepted member of each name.\<close>

definition accepted_value :: "('j, 'u) opt_env \<Rightarrow> (string \<times> string option) list \<Rightarrow> ArgsMap" where
  "accepted_value E members key =
     map_of (rev (map (\<lambda>m. (fst m, value_text (snd m))) (filter (\<lambda>m. verdict E m = VALID) members))) key"

lemma validate_members_eq:
  "validate_members E crit options members =
     (if crit \<and> list_ex (\<lambda>m. verdict E m = FATAL) members then Abort
      else Ret (options ++ accepted_value E members))"
proof (induction members arbitrary: options crit)
  case Nil
  show ?case by (simp add: accepted_value_def map_add_def)
next
  case (Cons m members)
  obtain key v where m: "m = (key, v)" by (cases m)
  have acc: "accepted_value E (m # members) =
      (if verdict E m = VALID then [key \<mapsto> value_text v] ++ accepted_value E members else accepted_value E members)"
    by (auto simp: accepted_value_def m fun_eq_iff map_add_def split: option.splits)
  show ?case
  proof (cases "map_of (ALLOWED_OPTIONS E) key")
    case None
    then have "verdict E m = INVALID" by (simp add: verdict_def m)
    with None show ?thesis by (simp add: m FindOption_eq acc [unfolded m] Cons.IH)
  next
    case (Some validate)
    then have "verdict E m = validate (value_text v)" by (simp add: verdict_def m)
    with Some show ?thesis
      by (cases "validate (value_text v)")
        (simp_all add: m FindOption_eq acc [unfolded m] Cons.IH map_add_assoc [symmetric])
  qed
qed


lemma accepted_valueD:
  assumes "accepted_value E members key = Some v" "map_of (ALLOWED_OPTIONS E) key = Some validate"
  shows "validate v = VALID"
proof -
  from assms(1) obtain m where "m \<in> set members" "verdict E m = VALID" "fst m = key" "value_text (snd m) = v"
    by (auto simp: accepted_value_def dest!: map_of_SomeD)
  with assms(2) show ?thesis by (auto simp: verdict_def)
qed

lemma ValidateConfig_accepts:
  assumes "ValidateConfig E crit parse full_config = Ret options" "options key = Some v"
    "map_of (ALLOWED_OPTIONS E) key = Some validate"
  shows "validate v = VALID"
proof -
  from assms(1) obtain members where "options = accepted_value E members"
    by (auto simp: ValidateConfig_def validate_members_eq split: config_text.splits if_splits)
  with assms(2,3) show ?thesis by (auto intro: accepted_valueD)
qed

lemma option_lookups:
  "map_of (ALLOWED_OPTIONS E) ''id'' = Some (validate_id E)"
  "map_of (ALLOWED_OPTIONS E) ''type'' = Some (validate_type E)"
  "map_of (ALLOWED_OPTIONS E) ''restart_attempts'' = Some (validate_restart_attempts E)"
  "map_of (ALLOWED_OPTIONS E) ''volume'' = Some (validate_volume E)"
  "map_of (ALLOWED_OPTIONS E) ''timeshift_delay'' = Some (validate_timeshift_delay E)"
  "map_of (ALLOWED_OPTIONS E) ''timeshift_chunk_duration'' = Some (validate_timeshift_chunk_duration E)"
  by (simp_all add: ALLOWED_OPTIONS_def)

lemma validate_range_VALID:
  "validate_range conv le lo hi is_fatal value = VALID \<longleftrightarrow> (\<exists>i. conv value = Some i \<and> le lo i \<and> le i hi)"
  by (auto simp: validate_range_def split: option.splits)

lemma validate_is_positive_VALID:
  "validate_is_positive E value is_fatal = VALID \<longleftrightarrow> (\<exists>i. cv_i64 (oe_conv E) value = Some i \<and> 0 \<le> i)"
  by (auto simp: validate_is_positive_def split: option.splits)

text \<open>
  (C36) The values a validated configuration carries are in the ranges the streams rely on: the
  identifier is not empty, the type is one of the stream types, at least one restart attempt is
  allowed, the volume lies between 0 and 10 and the timeshift delay within twelve days. The chunk
  duration is only known not to be negative.
\<close>

theorem validated_options_in_range:
  assumes "ValidateConfig E crit parse full_config = Ret options"
  shows "options ''id'' \<noteq> Some []
    \<and> (\<forall>v. options ''type'' = Some v \<longrightarrow> (\<exists>t. cv_u8 (oe_conv E) v = Some t \<and> t \<le> type_code SCREEN))
    \<and> (\<forall>v. options ''restart_attempts'' = Some v \<longrightarrow> (\<exists>n. cv_u64 (oe_conv E) v = Some n \<and> 0 < n))
    \<and> (\<forall>v. options ''volume'' = Some v \<longrightarrow>
          (\<exists>q. cv_f64 (oe_conv E) v = Some (F64 q) \<and> 0 \<le> q \<and> q \<le> 10))
    \<and> (\<forall>v. options ''timeshift_delay'' = Some v \<longrightarrow>
          (\<exists>i. cv_i32 (oe_conv E) v = Some i \<and> 0 \<le> i \<and> i \<le> 12 * 24 * 3600))
    \<and> (\<forall>v. options ''timeshift_chunk_duration'' = Some v \<longrightarrow>
          (\<exists>i. cv_i64 (oe_conv E) v = Some i \<and> 0 \<le> i))"
proof -
  note acc = ValidateConfig_accepts [OF assms]
  have "options ''id'' \<noteq> Some []"
    using acc [OF _ option_lookups(1)] by (force simp: validate_id_def)
  moreover have "\<exists>t. cv_u8 (oe_conv E) v = Some t \<and> t \<le> type_code SCREEN" if "options ''type'' = Some v" for v
    using acc [OF that option_lookups(2)] by (auto simp: validate_type_def validate_range_VALID)
  moreover have "\<exists>n. cv_u64 (oe_conv E) v = Some n \<and> 0 < n" if "options ''restart_attempts'' = Some v" for v
    using acc [OF that option_lookups(3)]
    by (auto simp: validate_restart_attempts_def validate_range_VALID word_le_nat_alt word_less_nat_alt)
  moreover have "\<exists>q. cv_f64 (oe_conv E) v = Some (F64 q) \<and> 0 \<le> q \<and> q \<le> 10" if v: "options ''volume'' = Some v" for v
  proof -
    from acc [OF v option_lookups(4)] obtain i
      where i: "cv_f64 (oe_conv E) v = Some i" "f64_le (F64 0) i" "f64_le i (F64 10)"
      by (auto simp: validate_volume_def validate_range_VALID)
    then show ?thesis by (cases i) auto
  qed
  moreover have "\<exists>i. cv_i32 (oe_conv E) v = Some i \<and> 0 \<le> i \<and> i \<le> 12 * 24 * 3600"
    if "options ''timeshift_delay'' = Some v" for v
    using acc [OF that option_lookups(5)] by (auto simp: validate_timeshift_delay_def validate_range_VALID)
  moreover have "\<exists>i. cv_i64 (oe_conv E) v = Some i \<and> 0 \<le> i" if "options ''timeshift_chunk_duration'' = Some v" for v
    using acc [OF that option_lookups(6)]
    by (auto simp: validate_timeshift_chunk_duration_def validate_is_positive_VALID)
  ultimately show ?thesis by blast
qed

definition demo_opt_env :: "(jval, string) opt_env" where
  "demo_opt_env = \<lparr>oe_conv = std_conv, oe_json = tree_json, oe_url = text_urls,
     oe_valid_path = (\<lambda>s. s \<noteq> []), oe_level_emerg = 0, oe_level_debug = 7\<rparr>"

lemma demo_validated:
  "ValidateConfig demo_opt_env True (\<lambda>s. Config_object [(''id'', Some ''s1''), (''restart_attempts'', Some ''3''),
      (''restart_attempts'', Some ''0''), (''colour'', None)]) ''cfg''
   = Ret [''id'' \<mapsto> ''s1'', ''restart_attempts'' \<mapsto> ''3'']"
  by (simp add: ValidateConfig_def FindOption_eq ALLOWED_OPTIONS_def validate_id_def validate_restart_attempts_def
      validate_range_def demo_opt_env_def std_conv_def std_u_def read_dec_def is_digit_def digit_val_def value_text_def)

theorem validated_options_in_range_witness:
  "\<exists>options. ValidateConfig demo_opt_env True (\<lambda>s. Config_object [(''id'', Some ''s1''),
      (''restart_attempts'', Some ''3''), (''restart_attempts'', Some ''0''), (''colour'', None)]) ''cfg'' = Ret options
    \<and> (\<exists>v n. options ''restart_attempts'' = Some v \<and> cv_u64 std_conv v = Some n \<and> 0 < n)"
proof -
  have "cv_u64 (oe_conv demo_opt_env) = cv_u64 std_conv" by (simp add: demo_opt_env_def)
  with validated_options_in_range [OF demo_validated] demo_validated show ?thesis
    by (intro exI [of _ "[''id'' \<mapsto> ''s1'', ''restart_attempts'' \<mapsto> ''3'']"]) auto
qed

end
