(* ===== verification/ServiceInfo.thy ===== *)
theory ServiceInfo
  imports Uris SysUtils
begin

text \<open>
  Component \<open>server/daemon/commands_info\<close>: the parameters and results of the requests the service
  and its clients exchange, with their JSON form. Every class is a record with the pair
  \<open>SerializeFields\<close>/\<open>DoDeSerialize\<close>; the base class part is written last and read first, as in the
  sources. Host and port pairs are classes of the \<open>common\<close> library and are represented by their
  text, with the reader as a parameter. Members whose JSON value is null are not modelled.
\<close>

section \<open>Readers shared by the classes\<close>

definition get_text :: "'j json \<Rightarrow> 'j \<Rightarrow> string \<Rightarrow> string \<Rightarrow> string" where
  "get_text J j key old = (case js_get J j key of None \<Rightarrow> old | Some v \<Rightarrow> js_string J v)"

definition get_int64 :: "'j json \<Rightarrow> 'j \<Rightarrow> string \<Rightarrow> int \<Rightarrow> int" where
  "get_int64 J j key old = (case js_get J j key of None \<Rightarrow> old | Some v \<Rightarrow> js_int64 J v)"

definition get_int :: "'j json \<Rightarrow> 'j \<Rightarrow> string \<Rightarrow> int \<Rightarrow> int" where
  "get_int J j key old = (case js_get J j key of None \<Rightarrow> old | Some v \<Rightarrow> js_int J v)"

definition add_text :: "'j json \<Rightarrow> string \<Rightarrow> string \<Rightarrow> 'j \<Rightarrow> 'j" where
  "add_text J key v out = js_add J out key (js_of_string J v)"

definition add_int64 :: "'j json \<Rightarrow> string \<Rightarrow> int \<Rightarrow> 'j \<Rightarrow> 'j" where
  "add_int64 J key v out = js_add J out key (js_of_int64 J v)"

definition add_int :: "'j json \<Rightarrow> string \<Rightarrow> int \<Rightarrow> 'j \<Rightarrow> 'j" where
  "add_int J key v out = js_add J out key (js_of_int J v)"

lemma field_laws [api_simps]:
  assumes "json_laws J"
  shows "get_text J (add_text J k v j) k' old = (if k' = k then v else get_text J j k' old)"
    "get_text J (add_int64 J k2 i j) k' old = (if k' = k2 then js_string J (js_of_int64 J i) else get_text J j k' old)"
    "get_text J (add_int J k2 i j) k' old = (if k' = k2 then js_string J (js_of_int J i) else get_text J j k' old)"
    "get_text J (js_new_object J) k' old = old"
    "int64_range i \<Longrightarrow> get_int64 J (add_int64 J k2 i j) k2 iold = i"
    "k' \<noteq> k2 \<Longrightarrow> get_int64 J (add_int64 J k2 i j) k' iold = get_int64 J j k' iold"
    "k' \<noteq> k \<Longrightarrow> get_int64 J (add_text J k v j) k' iold = get_int64 J j k' iold"
    "k' \<noteq> k2 \<Longrightarrow> get_int64 J (add_int J k2 i j) k' iold = get_int64 J j k' iold"
    "int32_range i \<Longrightarrow> get_int J (add_int J k2 i j) k2 iold = i"
    "k' \<noteq> k2 \<Longrightarrow> get_int J (add_int J k2 i j) k' iold = get_int J j k' iold"
    "k' \<noteq> k2 \<Longrightarrow> get_int J (add_int64 J k2 i j) k' iold = get_int J j k' iold"
    "k' \<noteq> k \<Longrightarrow> get_int J (add_text J k v j) k' iold = get_int J j k' iold"
    "js_get J (add_text J k v j) k' = (if k' = k then Some (js_of_string J v) else js_get J j k')"
    "js_get J (add_int64 J k2 i j) k' = (if k' = k2 then Some (js_of_int64 J i) else js_get J j k')"
    "js_get J (add_int J k2 i j) k' = (if k' = k2 then Some (js_of_int J i) else js_get J j k')"
  using assms
  by (simp_all add: get_text_def get_int64_def get_int_def add_text_def add_int64_def add_int_def json_lawsD)

lemma field_laws_add [api_simps]:
  assumes "json_laws J"
  shows "k' \<noteq> k \<Longrightarrow> get_text J (js_add J j k v) k' old = get_text J j k' old"
    "k' \<noteq> k \<Longrightarrow> get_int64 J (js_add J j k v) k' iold = get_int64 J j k' iold"
    "k' \<noteq> k \<Longrightarrow> get_int J (js_add J j k v) k' iold = get_int J j k' iold"
  using assms by (simp_all add: get_text_def get_int64_def get_int_def json_lawsD)

section \<open>Licence, stopping and logs of the service\<close>

record LicenseInfo =
  lic_license :: string

definition LicenseInfo_fields :: "'j json \<Rightarrow> string \<Rightarrow> 'j \<Rightarrow> 'j" where
  "LicenseInfo_fields J license out = add_text J ''license_key'' license out"

definition LicenseInfo_DeSerialize :: "'j json \<Rightarrow> 'j \<Rightarrow> error + LicenseInfo" where
  "LicenseInfo_DeSerialize J serialized = Inr \<lparr>lic_license = get_text J serialized ''license_key'' []\<rparr>"

record StopServiceInfo =
  st_license :: string
  st_delay :: int

definition StopServiceInfo_Serialize :: "'j json \<Rightarrow> StopServiceInfo \<Rightarrow> error + 'j" where
  "StopServiceInfo_Serialize J x =
     Inr (LicenseInfo_fields J (st_license x) (add_int64 J ''delay'' (st_delay x) (js_new_object J)))"

definition StopServiceInfo_DeSerialize :: "'j json \<Rightarrow> 'j \<Rightarrow> error + StopServiceInfo" where
  "StopServiceInfo_DeSerialize J serialized = (case LicenseInfo_DeSerialize J serialized of
       Inl err \<Rightarrow> Inl err
     | Inr base \<Rightarrow> Inr \<lparr>st_license = lic_license base, st_delay = get_int64 J serialized ''delay'' 0\<rparr>)"

definition GetLogServiceInfo_Serialize :: "'j json \<Rightarrow> 'u url_api \<Rightarrow> 'u \<Rightarrow> error + 'j" where
  "GetLogServiceInfo_Serialize J U path = Inr (add_text J ''path'' (url_text U path) (js_new_object J))"

definition GetLogServiceInfo_DeSerialize :: "'j json \<Rightarrow> 'u url_api \<Rightarrow> 'j \<Rightarrow> error + 'u" where
  "GetLogServiceInfo_DeSerialize J U serialized =
     Inr (case js_get J serialized ''path'' of None \<Rightarrow> url0 U | Some jpath \<Rightarrow> url_of U (js_string J jpath))"

section \<open>Directories of the service\<close>

record PrepareInfo =
  feedback_directory :: string
  timeshifts_directory :: string
  hls_directory :: string
  playlists_directory :: string
  dvb_directory :: string
  capture_card_directory :: string
  vods_in_directory :: string
  vods_directory :: string

definition PrepareInfo_Serialize :: "'j json \<Rightarrow> PrepareInfo \<Rightarrow> error + 'j" where
  "PrepareInfo_Serialize J x =
     (let out = add_text J ''feedback_directory'' (feedback_directory x) (js_new_object J);
          out = add_text J ''timeshifts_directory'' (timeshifts_directory x) out;
          out = add_text J ''hls_directory'' (hls_directory x) out;
          out = add_text J ''playlists_directory'' (playlists_directory x) out;
          out = add_text J ''dvb_directory'' (dvb_directory x) out;
          out = add_text J ''capture_card_directory'' (capture_card_directory x) out;
          out = add_text J ''vods_in_directory'' (vods_in_directory x) out;
          out = add_text J ''vods_directory'' (vods_directory x) out
      in Inr out)"

definition PrepareInfo_DeSerialize :: "'j json \<Rightarrow> 'j \<Rightarrow> error + PrepareInfo" where
  "PrepareInfo_DeSerialize J serialized =
     (let g = (\<lambda>key. get_text J serialized key [])
      in Inr \<lparr>feedback_directory = g ''feedback_directory'', timeshifts_directory = g ''timeshifts_directory'',
            hls_directory = g ''hls_directory'', playlists_directory = g ''playlists_directory'',
            dvb_directory = g ''dvb_directory'', capture_card_directory = g ''capture_card_directory'',
            vods_in_directory = g ''vods_in_directory'', vods_directory = g ''vods_directory''\<rparr>)"

text \<open>
  The state of one directory: its key, its path (\<open>None\<close> for the empty path object), the files found
  in it, and the outcome of creating and accessing it.
\<close>

record DirectoryState =
  ds_key :: string
  ds_dir :: string
  ds_content :: "string list option"
  ds_valid :: bool
  ds_error :: string

text \<open>The description of a system error, as the \<open>common\<close> library words it.\<close>

type_synonym describe = "errno_error \<Rightarrow> string"

definition make_DirectoryState ::
  "'u url_api \<Rightarrow> 'f fs_api_scheme \<Rightarrow> describe \<Rightarrow> string \<Rightarrow> string \<Rightarrow> DirectoryState" where
  "make_DirectoryState U fs describe dir_str k =
     (let s = \<lparr>ds_key = k, ds_dir = [], ds_content = None, ds_valid = False, ds_error = []\<rparr>
      in if dir_str = [] then s\<lparr>ds_error := ''Invalid input.''\<rparr>
         else let s = s\<lparr>ds_dir := dir_path U dir_str\<rparr>
              in case CreateAndCheckDir fs (ds_dir s) of
                   Some errn \<Rightarrow> s\<lparr>ds_error := describe errn\<rparr>
                 | None \<Rightarrow> s\<lparr>ds_valid := True\<rparr>)"

definition LoadContent :: "(string \<Rightarrow> string list) \<Rightarrow> DirectoryState \<Rightarrow> DirectoryState" where
  "LoadContent scan_folder s = (if ds_valid s then s\<lparr>ds_content := Some (scan_folder (ds_dir s))\<rparr> else s)"

text \<open>The eight directories, in the order of the members of \<open>Directories\<close>.\<close>

definition Directories ::
  "'u url_api \<Rightarrow> 'f fs_api_scheme \<Rightarrow> describe \<Rightarrow> (string \<Rightarrow> string list) \<Rightarrow> PrepareInfo \<Rightarrow> DirectoryState list" where
  "Directories U fs describe scan_folder sinf =
     (let mk = make_DirectoryState U fs describe
      in [mk (feedback_directory sinf) ''feedback_directory'',
          mk (timeshifts_directory sinf) ''timeshifts_directory'',
          mk (hls_directory sinf) ''hls_directory'',
          mk (playlists_directory sinf) ''playlists_directory'',
          mk (dvb_directory sinf) ''dvb_directory'',
          mk (capture_card_directory sinf) ''capture_card_directory'',
          LoadContent scan_folder (mk (vods_in_directory sinf) ''vods_in_directory''),
          mk (vods_directory sinf) ''vods_directory''])"

definition MakeDirectoryStateResponce :: "'j json \<Rightarrow> DirectoryState \<Rightarrow> 'j" where
  "MakeDirectoryStateResponce J d =
     (let obj = add_text J ''path'' (ds_dir d) (js_new_object J);
          obj = (if ds_valid d
                 then js_add J (add_text J ''result'' ''OK'' obj) ''content''
                        (js_of_array J (map (js_of_string J) (case ds_content d of None \<Rightarrow> [] | Some c \<Rightarrow> c)))
                 else add_text J ''error'' (ds_error d) obj)
      in js_add J (js_new_object J) (ds_key d) obj)"

definition MakeDirectoryResponce :: "'j json \<Rightarrow> DirectoryState list \<Rightarrow> string" where
  "MakeDirectoryResponce J dirs = js_print J (js_of_array J (map (MakeDirectoryStateResponce J) dirs))"

section \<open>Statistics of the node\<close>

record OnlineUsers =
  on_daemon :: u64
  on_http :: u64
  on_vods :: u64
  on_subscriber :: u64

definition OnlineUsers_Serialize :: "'j json \<Rightarrow> OnlineUsers \<Rightarrow> error + 'j" where
  "OnlineUsers_Serialize J x =
     (let out = add_int64 J ''daemon'' (sint (on_daemon x)) (js_new_object J);
          out = add_int64 J ''http'' (sint (on_http x)) out;
          out = add_int64 J ''vods'' (sint (on_vods x)) out;
          out = add_int64 J ''subscriber'' (sint (on_subscriber x)) out
      in Inr out)"

definition OnlineUsers_DeSerialize :: "'j json \<Rightarrow> 'j \<Rightarrow> error + OnlineUsers" where
  "OnlineUsers_DeSerialize J serialized =
     (let g = (\<lambda>key. of_int (get_int64 J serialized key 0))
      in Inr \<lparr>on_daemon = g ''daemon'', on_http = g ''http'', on_vods = g ''vods'', on_subscriber = g ''subscriber''\<rparr>)"

record ServerInfo =
  sv_cpu_load :: int
  sv_gpu_load :: int
  sv_uptime :: string
  sv_mem_shot :: MemoryShot
  sv_hdd_shot :: HddShot
  sv_net_bytes_recv :: u64
  sv_net_bytes_send :: u64
  sv_current_ts :: int
  sv_sys_shot :: SysinfoShot
  sv_online_users :: OnlineUsers

definition ServerInfo_fields :: "'j json \<Rightarrow> ServerInfo \<Rightarrow> 'j \<Rightarrow> error + 'j" where
  "ServerInfo_fields J x out = (case OnlineUsers_Serialize J (sv_online_users x) of
       Inl err \<Rightarrow> Inl err
     | Inr obj \<Rightarrow>
        (let out = add_int J ''cpu'' (sv_cpu_load x) out;
             out = add_int J ''gpu'' (sv_gpu_load x) out;
             out = add_text J ''load_average'' (sv_uptime x) out;
             out = add_int64 J ''memory_total'' (sint (total_bytes_ram (sv_mem_shot x))) out;
             out = add_int64 J ''memory_free'' (sint (free_bytes_ram (sv_mem_shot x))) out;
             out = add_int64 J ''memory_available'' (sint (avail_bytes_ram (sv_mem_shot x))) out;
             out = add_int64 J ''hdd_total'' (sint (hdd_bytes_total (sv_hdd_shot x))) out;
             out = add_int64 J ''hdd_free'' (sint (hdd_bytes_free (sv_hdd_shot x))) out;
             out = add_int64 J ''bandwidth_in'' (sint (sv_net_bytes_recv x)) out;
             out = add_int64 J ''bandwidth_out'' (sint (sv_net_bytes_send x)) out;
             out = add_int64 J ''uptime'' (uptime (sv_sys_shot x)) out;
             out = add_int64 J ''timestamp'' (sv_current_ts x) out;
             out = js_add J out ''online_users'' obj
         in Inr out))"

definition ServerInfo_Serialize :: "'j json \<Rightarrow> ServerInfo \<Rightarrow> error + 'j" where
  "ServerInfo_Serialize J x = ServerInfo_fields J x (js_new_object J)"

definition ServerInfo_DeSerialize :: "'j json \<Rightarrow> 'j \<Rightarrow> error + ServerInfo" where
  "ServerInfo_DeSerialize J serialized =
     (case (case js_get J serialized ''online_users'' of
              None \<Rightarrow> Inr \<lparr>on_daemon = 0, on_http = 0, on_vods = 0, on_subscriber = 0\<rparr>
            | Some jonline \<Rightarrow> OnlineUsers_DeSerialize J jonline) of
        Inl err \<Rightarrow> Inl err
      | Inr online \<Rightarrow>
         (let g = (\<lambda>key. of_int (get_int64 J serialized key 0))
          in Inr \<lparr>sv_cpu_load = get_int J serialized ''cpu'' 0, sv_gpu_load = get_int J serialized ''gpu'' 0,
               sv_uptime = get_text J serialized ''load_average'' [],
               sv_mem_shot = \<lparr>total_bytes_ram = g ''memory_total'', free_bytes_ram = g ''memory_free'',
                              avail_bytes_ram = g ''memory_available''\<rparr>,
               sv_hdd_shot = \<lparr>hdd_bytes_total = g ''hdd_total'', hdd_bytes_free = g ''hdd_free''\<rparr>,
               sv_net_bytes_recv = g ''bandwidth_in'', sv_net_bytes_send = g ''bandwidth_out'',
               sv_current_ts = get_int64 J serialized ''timestamp'' 0,
               sv_sys_shot = \<lparr>loads = [0, 0, 0], uptime = get_int64 J serialized ''uptime'' 0\<rparr>,
               sv_online_users = online\<rparr>))"

record FullServiceInfo =
  fu_base :: ServerInfo
  fu_http_host :: string
  fu_vods_host :: string
  fu_subscribers_host :: string
  fu_bandwidth_host :: string
  fu_proj_ver :: string

definition FullServiceInfo_Serialize :: "'j json \<Rightarrow> FullServiceInfo \<Rightarrow> error + 'j" where
  "FullServiceInfo_Serialize J x =
     (let out = add_text J ''http_host'' (fu_http_host x) (js_new_object J);
          out = add_text J ''vods_host'' (fu_vods_host x) out;
          out = add_text J ''subscribers_host'' (fu_subscribers_host x) out;
          out = add_text J ''bandwidth_host'' (fu_bandwidth_host x) out;
          out = add_text J ''version'' (fu_proj_ver x) out
      in ServerInfo_fields J (fu_base x) out)"

text \<open>
  \<open>host\<close> reads a host and port pair and gives its text; \<open>host0\<close> is the text of the default pair and
  \<open>version\<close> the version of the reading program.
\<close>

definition get_host :: "'j json \<Rightarrow> (string \<Rightarrow> string option) \<Rightarrow> string \<Rightarrow> 'j \<Rightarrow> string \<Rightarrow> string" where
  "get_host J host host0 j key = (case js_get J j key of None \<Rightarrow> host0
     | Some v \<Rightarrow> (case host (js_string J v) of None \<Rightarrow> host0 | Some h \<Rightarrow> h))"

definition FullServiceInfo_DeSerialize ::
  "'j json \<Rightarrow> (string \<Rightarrow> string option) \<Rightarrow> string \<Rightarrow> string \<Rightarrow> 'j \<Rightarrow> error + FullServiceInfo" where
  "FullServiceInfo_DeSerialize J host host0 version serialized = (case ServerInfo_DeSerialize J serialized of
       Inl err \<Rightarrow> Inl err
     | Inr base \<Rightarrow> Inr \<lparr>fu_base = base, fu_http_host = get_host J host host0 serialized ''http_host'',
          fu_vods_host = get_host J host host0 serialized ''vods_host'',
          fu_subscribers_host = get_host J host host0 serialized ''subscribers_host'',
          fu_bandwidth_host = get_host J host host0 serialized ''bandwidth_host'',
          fu_proj_ver = get_text J serialized ''version'' version\<rparr>)"

section \<open>Synchronisation\<close>

record SyncInfo =
  sy_streams :: "string list"
  sy_users :: "string list"

definition SyncInfo_Serialize :: "'j json \<Rightarrow> SyncInfo \<Rightarrow> error + 'j" where
  "SyncInfo_Serialize J x =
     (let out = js_add J (js_new_object J) ''streams'' (js_of_array J (map (js_of_string J) (sy_streams x)));
          out = js_add J out ''subscribers'' (js_of_array J (map (js_of_string J) (sy_users x)))
      in Inr out)"

definition SyncInfo_DeSerialize :: "'j json \<Rightarrow> 'j \<Rightarrow> error + SyncInfo" where
  "SyncInfo_DeSerialize J serialized =
     (let texts = (\<lambda>key. case js_get J serialized key of None \<Rightarrow> []
                         | Some jarr \<Rightarrow> map (js_string J) (js_array J jarr))
      in Inr \<lparr>sy_streams = texts ''streams'', sy_users = texts ''subscribers''\<rparr>)"

section \<open>Streams\<close>

text \<open>\<open>StopInfo\<close> and \<open>RestartInfo\<close> of a stream are a \<open>StreamInfo\<close>.\<close>

definition StreamIdInfo_fields :: "'j json \<Rightarrow> string \<Rightarrow> 'j \<Rightarrow> 'j" where
  "StreamIdInfo_fields J stream_id out = add_text J ''id'' stream_id out"

definition StreamIdInfo_DeSerialize :: "'j json \<Rightarrow> 'j \<Rightarrow> error + string" where
  "StreamIdInfo_DeSerialize J serialized =
     (case js_get J serialized ''id'' of None \<Rightarrow> Inl Error_inval | Some jid \<Rightarrow> Inr (js_string J jid))"

definition StartInfo_Serialize :: "'j json \<Rightarrow> string \<Rightarrow> error + 'j" where
  "StartInfo_Serialize J config = Inr (add_text J ''config'' config (js_new_object J))"

definition StartInfo_DeSerialize :: "'j json \<Rightarrow> 'j \<Rightarrow> error + string" where
  "StartInfo_DeSerialize J serialized =
     (case js_get J serialized ''config'' of None \<Rightarrow> Inl Error_inval | Some jconfig \<Rightarrow> Inr (js_string J jconfig))"

record QuitStatusInfo =
  qs_stream_id :: string
  qs_exit_status :: int
  qs_signal :: int

definition QuitStatusInfo_Serialize :: "'j json \<Rightarrow> QuitStatusInfo \<Rightarrow> error + 'j" where
  "QuitStatusInfo_Serialize J x =
     Inr (StreamIdInfo_fields J (qs_stream_id x) (add_int J ''exit_status'' (qs_exit_status x)
            (add_int J ''signal'' (qs_signal x) (js_new_object J))))"

definition QuitStatusInfo_DeSerialize :: "'j json \<Rightarrow> 'j \<Rightarrow> error + QuitStatusInfo" where
  "QuitStatusInfo_DeSerialize J serialized = (case StreamIdInfo_DeSerialize J serialized of
       Inl err \<Rightarrow> Inl err
     | Inr sid \<Rightarrow> (case js_get J serialized ''signal'' of None \<Rightarrow> Inl Error_inval | Some jsignal \<Rightarrow>
        (case js_get J serialized ''exit_status'' of None \<Rightarrow> Inl Error_inval | Some jexit \<Rightarrow>
          Inr \<lparr>qs_stream_id = sid, qs_exit_status = js_int J jexit, qs_signal = js_int J jsignal\<rparr>)))"

record 'u GetLogStreamInfo =
  gl_stream_id :: string
  gl_feedback_dir :: string
  gl_path :: 'u

definition GetLogStreamInfo_Serialize :: "'j json \<Rightarrow> 'u url_api \<Rightarrow> 'u GetLogStreamInfo \<Rightarrow> error + 'j" where
  "GetLogStreamInfo_Serialize J U x =
     Inr (StreamIdInfo_fields J (gl_stream_id x) (add_text J ''feedback_directory'' (gl_feedback_dir x)
            (add_text J ''path'' (url_text U (gl_path x)) (js_new_object J))))"

definition GetLogStreamInfo_DeSerialize :: "'j json \<Rightarrow> 'u url_api \<Rightarrow> 'j \<Rightarrow> error + 'u GetLogStreamInfo" where
  "GetLogStreamInfo_DeSerialize J U serialized = (case StreamIdInfo_DeSerialize J serialized of
       Inl err \<Rightarrow> Inl err
     | Inr sid \<Rightarrow> (case js_get J serialized ''feedback_directory'' of None \<Rightarrow> Inl Error_inval | Some jdir \<Rightarrow>
         Inr \<lparr>gl_stream_id = sid, gl_feedback_dir = js_string J jdir,
              gl_path = (case js_get J serialized ''path'' of None \<Rightarrow> url0 U
                         | Some jpath \<Rightarrow> url_of U (js_string J jpath))\<rparr>))"

section \<open>Round trips\<close>

lemmas info_laws = field_laws field_laws_add json_lawsD

interpretation stop_service_ser: serializer "\<lambda>x. json_laws J \<and> int64_range (st_delay x)"
  "StopServiceInfo_Serialize J" "StopServiceInfo_DeSerialize J" "\<lambda>x. x" for J
  by unfold_locales (simp add: StopServiceInfo_Serialize_def StopServiceInfo_DeSerialize_def
      LicenseInfo_fields_def LicenseInfo_DeSerialize_def info_laws)

interpretation prepare_ser: serializer "\<lambda>x. json_laws J" "PrepareInfo_Serialize J" "PrepareInfo_DeSerialize J" "\<lambda>x. x" for J
  by unfold_locales (simp add: PrepareInfo_Serialize_def PrepareInfo_DeSerialize_def info_laws Let_def)

interpretation online_ser: serializer "\<lambda>x. json_laws J" "OnlineUsers_Serialize J" "OnlineUsers_DeSerialize J" "\<lambda>x. x" for J
  by unfold_locales (simp add: OnlineUsers_Serialize_def OnlineUsers_DeSerialize_def info_laws Let_def)

interpretation sync_ser: serializer "\<lambda>x. json_laws J" "SyncInfo_Serialize J" "SyncInfo_DeSerialize J" "\<lambda>x. x" for J
  by unfold_locales (simp add: SyncInfo_Serialize_def SyncInfo_DeSerialize_def json_lawsD Let_def comp_def)

interpretation start_ser: serializer "\<lambda>x. json_laws J" "StartInfo_Serialize J" "StartInfo_DeSerialize J" "\<lambda>x. x" for J
  by unfold_locales (simp add: StartInfo_Serialize_def StartInfo_DeSerialize_def info_laws)

interpretation quit_ser: serializer
  "\<lambda>x. json_laws J \<and> int32_range (qs_exit_status x) \<and> int32_range (qs_signal x)"
  "QuitStatusInfo_Serialize J" "QuitStatusInfo_DeSerialize J" "\<lambda>x. x" for J
  by unfold_locales (simp add: QuitStatusInfo_Serialize_def QuitStatusInfo_DeSerialize_def StreamIdInfo_fields_def
      StreamIdInfo_DeSerialize_def info_laws)

interpretation get_log_ser: serializer "\<lambda>x. json_laws J \<and> url_of U (url_text U (gl_path x)) = gl_path x"
  "GetLogStreamInfo_Serialize J U" "GetLogStreamInfo_DeSerialize J U" "\<lambda>x. x" for J U
  by unfold_locales (simp add: GetLogStreamInfo_Serialize_def GetLogStreamInfo_DeSerialize_def StreamIdInfo_fields_def
      StreamIdInfo_DeSerialize_def info_laws)

text \<open>The statistics lose the three load values of the system shot; the text of the loads remains.\<close>

definition server_transport :: "ServerInfo \<Rightarrow> ServerInfo" where
  "server_transport x = x\<lparr>sv_sys_shot := (sv_sys_shot x)\<lparr>loads := [0, 0, 0]\<rparr>\<rparr>"

definition server_sendable :: "ServerInfo \<Rightarrow> bool" where
  "server_sendable x \<longleftrightarrow> int32_range (sv_cpu_load x) \<and> int32_range (sv_gpu_load x)
     \<and> int64_range (uptime (sv_sys_shot x)) \<and> int64_range (sv_current_ts x)"

lemma server_fields_read:
  assumes "json_laws J" "server_sendable x"
  shows "\<exists>j. ServerInfo_fields J x out = Inr j \<and> ServerInfo_DeSerialize J j = Inr (server_transport x)
     \<and> (\<forall>k \<in> {''http_host'', ''vods_host'', ''subscribers_host'', ''bandwidth_host'', ''version''}.
          js_get J j k = js_get J out k)"
proof -
  obtain obj where obj: "OnlineUsers_Serialize J (sv_online_users x) = Inr obj"
      "OnlineUsers_DeSerialize J obj = Inr (sv_online_users x)"
    using online_ser.written [OF assms(1)] by blast
  with assms show ?thesis
    by (simp add: ServerInfo_fields_def ServerInfo_DeSerialize_def server_transport_def server_sendable_def
        info_laws Let_def)
qed

interpretation server_ser: serializer "\<lambda>x. json_laws J \<and> server_sendable x"
  "ServerInfo_Serialize J" "ServerInfo_DeSerialize J" server_transport for J
proof unfold_locales
  fix x assume "json_laws J \<and> server_sendable x"
  then obtain j where "ServerInfo_fields J x (js_new_object J) = Inr j"
      "ServerInfo_DeSerialize J j = Inr (server_transport x)"
    using server_fields_read [of J x "js_new_object J"] by blast
  then show "\<exists>j. ServerInfo_Serialize J x = Inr j \<and> ServerInfo_DeSerialize J j = Inr (server_transport x)"
    by (simp add: ServerInfo_Serialize_def)
qed

text \<open>
  What the service tells a client that activated itself reaches the client: the statistics of
  the node, the four host addresses and the version; only the numeric system loads are lost, whose
  text is sent instead. The addresses must be readable by the reader of the client.
\<close>

theorem full_service_info_roundtrip:
  assumes "json_laws J" "server_sendable (fu_base x)"
    and "host (fu_http_host x) = Some (fu_http_host x)" "host (fu_vods_host x) = Some (fu_vods_host x)"
    and "host (fu_subscribers_host x) = Some (fu_subscribers_host x)"
    and "host (fu_bandwidth_host x) = Some (fu_bandwidth_host x)"
  shows "\<exists>j. FullServiceInfo_Serialize J x = Inr j
     \<and> FullServiceInfo_DeSerialize J host host0 version j = Inr (x\<lparr>fu_base := server_transport (fu_base x)\<rparr>)"
proof -
  define out where "out = add_text J ''version'' (fu_proj_ver x) (add_text J ''bandwidth_host'' (fu_bandwidth_host x)
    (add_text J ''subscribers_host'' (fu_subscribers_host x) (add_text J ''vods_host'' (fu_vods_host x)
      (add_text J ''http_host'' (fu_http_host x) (js_new_object J)))))"
  obtain j where j: "ServerInfo_fields J (fu_base x) out = Inr j"
      "ServerInfo_DeSerialize J j = Inr (server_transport (fu_base x))"
      "\<forall>k \<in> {''http_host'', ''vods_host'', ''subscribers_host'', ''bandwidth_host'', ''version''}.
          js_get J j k = js_get J out k"
    using server_fields_read [OF assms(1,2)] by blast
  have "FullServiceInfo_Serialize J x = Inr j"
    using j(1) by (simp add: FullServiceInfo_Serialize_def out_def Let_def)
  moreover have "FullServiceInfo_DeSerialize J host host0 version j = Inr (x\<lparr>fu_base := server_transport (fu_base x)\<rparr>)"
    using j(2,3) assms by (simp add: FullServiceInfo_DeSerialize_def get_host_def get_text_def out_def info_laws)
  ultimately show ?thesis by blast
qed

definition demo_full :: FullServiceInfo where
  "demo_full = \<lparr>fu_base = \<lparr>sv_cpu_load = 12, sv_gpu_load = 0, sv_uptime = ''1 2 3'',
     sv_mem_shot = \<lparr>total_bytes_ram = 8, free_bytes_ram = 2, avail_bytes_ram = 4\<rparr>,
     sv_hdd_shot = \<lparr>hdd_bytes_total = 9, hdd_bytes_free = 1\<rparr>, sv_net_bytes_recv = 5, sv_net_bytes_send = 6,
     sv_current_ts = 1000, sv_sys_shot = \<lparr>loads = [1, 2, 3], uptime = 77\<rparr>,
     sv_online_users = \<lparr>on_daemon = 1, on_http = 2, on_vods = 3, on_subscriber = 4\<rparr>\<rparr>,
     fu_http_host = ''a:80'', fu_vods_host = ''a:81'', fu_subscribers_host = ''a:82'', fu_bandwidth_host = ''a:83'',
     fu_proj_ver = ''1.0''\<rparr>"

theorem full_service_info_roundtrip_witness:
  "\<exists>j. FullServiceInfo_Serialize tree_json demo_full = Inr j
     \<and> FullServiceInfo_DeSerialize tree_json Some [] ''9.9'' j
        = Inr (demo_full\<lparr>fu_base := server_transport (fu_base demo_full)\<rparr>)"
  by (rule full_service_info_roundtrip)
     (simp_all add: demo_full_def server_sendable_def int32_range_def int64_range_def)

text \<open>
  The answer to a request to prepare the directories reports each of the eight directories under
  its key, in the order of the request, with the result OK exactly when a path was given and the
  directory exists or could be created and can be accessed; only the incoming videos are listed.
\<close>

theorem prepare_response_reports_directories:
  assumes "json_laws J" "i < 8"
    and "key = [''feedback_directory'', ''timeshifts_directory'', ''hls_directory'', ''playlists_directory'',
       ''dvb_directory'', ''capture_card_directory'', ''vods_in_directory'', ''vods_directory''] ! i"
    and "path = [feedback_directory sinf, timeshifts_directory sinf, hls_directory sinf, playlists_directory sinf,
       dvb_directory sinf, capture_card_directory sinf, vods_in_directory sinf, vods_directory sinf] ! i"
  shows "\<exists>j st. js_parse J (MakeDirectoryResponce J (Directories U fs describe scan_folder sinf)) = Some j
     \<and> length (js_array J j) = 8 \<and> js_get J (js_array J j ! i) key = Some st
     \<and> (js_get J st ''result'' = Some (js_of_string J ''OK'')
          \<longleftrightarrow> path \<noteq> [] \<and> CreateAndCheckDir fs (dir_path U path) = None)
     \<and> (js_get J st ''error'' = None \<longleftrightarrow> js_get J st ''result'' \<noteq> None)"
proof -
  define dirs where "dirs = Directories U fs describe scan_folder sinf"
  have len: "length dirs = 8" by (simp add: dirs_def Directories_def Let_def)
  have valid_make: "ds_valid (make_DirectoryState U fs describe p k) \<longleftrightarrow> p \<noteq> [] \<and> CreateAndCheckDir fs (dir_path U p) = None"
    and key_make: "ds_key (make_DirectoryState U fs describe p k) = k" for p k
    by (auto simp: make_DirectoryState_def Let_def split: option.splits)
  have load: "ds_valid (LoadContent scan_folder d) = ds_valid d" "ds_key (LoadContent scan_folder d) = ds_key d" for d
    by (simp_all add: LoadContent_def)
  have "i \<in> {0, 1, 2, 3, 4, 5, 6, 7}" using assms(2) by auto
  then have st: "ds_key (dirs ! i) = key \<and>
      (ds_valid (dirs ! i) \<longleftrightarrow> path \<noteq> [] \<and> CreateAndCheckDir fs (dir_path U path) = None)"
    unfolding assms(3,4) dirs_def Directories_def Let_def
    by (elim insertE emptyE) (simp_all add: valid_make key_make load)
  have parse: "js_parse J (MakeDirectoryResponce J dirs) = Some (js_of_array J (map (MakeDirectoryStateResponce J) dirs))"
    using assms(1) by (simp add: MakeDirectoryResponce_def json_lawsD)
  define d where "d = dirs ! i"
  have "\<exists>st. js_get J (MakeDirectoryStateResponce J d) (ds_key d) = Some st
     \<and> (js_get J st ''result'' = Some (js_of_string J ''OK'') \<longleftrightarrow> ds_valid d)
     \<and> (js_get J st ''error'' = None \<longleftrightarrow> js_get J st ''result'' \<noteq> None)"
    using assms(1) by (cases "ds_valid d") (simp_all add: MakeDirectoryStateResponce_def info_laws Let_def)
  then show ?thesis
    using st parse len assms(1,2) unfolding dirs_def [symmetric] d_def by (auto simp: json_lawsD)
qed

definition demo_fs :: fs_api where
  "demo_fs = \<lparr>fs_dir_exists = (\<lambda>s. s = ''/hls''), fs_create_dir = (\<lambda>s. Some Errno_inval),
     fs_access = (\<lambda>s. None), fs_mtime = (\<lambda>s. None), fs_removable = (\<lambda>s. False)\<rparr>"

definition demo_prepare :: PrepareInfo where
  "demo_prepare = \<lparr>feedback_directory = [], timeshifts_directory = [], hls_directory = ''/hls'', playlists_directory = [],
     dvb_directory = ''/dvb'', capture_card_directory = [], vods_in_directory = [], vods_directory = []\<rparr>"

theorem prepare_response_reports_directories_witness:
  "\<exists>j st. js_parse tree_json (MakeDirectoryResponce tree_json
       (Directories text_urls demo_fs (\<lambda>e. ''failed'') (\<lambda>d. []) demo_prepare)) = Some j
     \<and> js_get tree_json (js_array tree_json j ! 2) ''hls_directory'' = Some st
     \<and> js_get tree_json st ''result'' = Some (js_of_string tree_json ''OK'')"
proof -
  have "''/hls'' \<noteq> [] \<and> CreateAndCheckDir demo_fs (dir_path text_urls ''/hls'') = None"
    by (simp add: CreateAndCheckDir_def demo_fs_def text_urls_def)
  then show ?thesis
    using prepare_response_reports_directories [of tree_json 2 "''hls_directory''" "''/hls''" demo_prepare
        text_urls demo_fs "\<lambda>e. ''failed''" "\<lambda>d. []"]
    by (auto simp: demo_prepare_def)
qed

end
