(* ===== verification/StreamLaunch.thy ===== *)
theory StreamLaunch
  imports Options ServiceInfo M3u8 "HOL-Library.Signed_Division"
begin

text \<open>
  The free functions of \<open>server/process_slave_wrapper.cpp\<close> and its statistics: the address of a log
  server, what the configuration of a stream says about it before it is started, whether a video on
  demand is complete, and the periodic statistics of the node.
\<close>

section \<open>Sending a log file\<close>

record HostAndPort =
  hp_host :: string
  hp_port :: u16

text \<open>The text before and after the last occurrence of a character.\<close>

definition split_last :: "char \<Rightarrow> string \<Rightarrow> (string \<times> string) option" where
  "split_last d s = map_option (\<lambda>(a, b). (rev b, rev a)) (split_first d (rev s))"

lemma split_last_append: "d \<notin> set b \<Longrightarrow> split_last d (a @ d # b) = Some (a, b)"
  by (simp add: split_last_def)

lemma split_last_None: "d \<notin> set s \<Longrightarrow> split_last d s = None"
  by (simp add: split_last_def)

definition GetHttpHostAndPort :: "'a conv_scheme \<Rightarrow> HostAndPort \<Rightarrow> string \<Rightarrow> HostAndPort option" where
  "GetHttpHostAndPort cv hp0 host =
     (if host = [] then None
      else case split_last (CHR '':'') host of
        Some (h, port_str) \<Rightarrow>
          (case cv_u16 cv port_str of
             Some lport \<Rightarrow> Some (hp0\<lparr>hp_host := h, hp_port := lport\<rparr>)
           | None \<Rightarrow> Some (hp0\<lparr>hp_host := h\<rparr>))
      | None \<Rightarrow> Some (hp0\<lparr>hp_host := host, hp_port := 80\<rparr>))"

definition GetPostServerFromUrl :: "'a conv_scheme \<Rightarrow> 'u url_api \<Rightarrow> HostAndPort \<Rightarrow> 'u \<Rightarrow> HostAndPort option" where
  "GetPostServerFromUrl cv U hp0 url = (if \<not> url_valid U url then None else GetHttpHostAndPort cv hp0 (url_host U url))"

text \<open>
  The HTTP client of the \<open>common\<close> library: connecting, posting a file below a path, reading the
  answer, of which only an empty body matters.
\<close>

record http_post =
  po_connect :: "HostAndPort \<Rightarrow> error option"
  po_post :: "string \<Rightarrow> string \<Rightarrow> error option"
  po_response :: "error + bool"

definition PostHttpFile ::
  "'a conv_scheme \<Rightarrow> 'u url_api \<Rightarrow> HostAndPort \<Rightarrow> http_post \<Rightarrow> string \<Rightarrow> 'u \<Rightarrow> error option" where
  "PostHttpFile cv U hp0 cl file_path url = (case GetPostServerFromUrl cv U hp0 url of
       None \<Rightarrow> Some Error_inval
     | Some http_server_address \<Rightarrow> (case po_connect cl http_server_address of
          Some errn \<Rightarrow> Some errn
        | None \<Rightarrow> (case po_post cl (url_path U url) file_path of
             Some err \<Rightarrow> Some err
           | None \<Rightarrow> (case po_response cl of
                Inl err \<Rightarrow> Some err
              | Inr empty_body \<Rightarrow> if empty_body then Some (Error_text ''Empty body'') else None))))"

text \<open>\<open>make_file\<close> joins a directory and a file name, if both are usable.\<close>

definition MakeStreamLogPath :: "'u url_api \<Rightarrow> (string \<Rightarrow> string \<Rightarrow> string option) \<Rightarrow> string \<Rightarrow> string \<Rightarrow> string option" where
  "MakeStreamLogPath U make_file log_name feedback_dir = make_file (dir_path U feedback_dir) log_name"

definition DUMP_FILE_NAME :: string where "DUMP_FILE_NAME = ''dump.html''"

definition MakeStreamPipelinePath :: "'u url_api \<Rightarrow> (string \<Rightarrow> string \<Rightarrow> string option) \<Rightarrow> string \<Rightarrow> string option" where
  "MakeStreamPipelinePath U make_file feedback_dir = make_file (dir_path U feedback_dir) DUMP_FILE_NAME"

section \<open>What a configuration says about its stream\<close>

definition ID_FIELD :: string where "ID_FIELD = ''id''"
definition TYPE_FIELD :: string where "TYPE_FIELD = ''type''"
definition FEEDBACK_DIR_FIELD :: string where "FEEDBACK_DIR_FIELD = ''feedback_directory''"
definition LOG_LEVEL_FIELD :: string where "LOG_LEVEL_FIELD = ''log_level''"
definition TIMESHIFT_DIR_FIELD :: string where "TIMESHIFT_DIR_FIELD = ''timeshift_dir''"
definition CLEANUP_TS_FIELD :: string where "CLEANUP_TS_FIELD = ''cleanup_ts''"

lemmas field_name_defs = ID_FIELD_def TYPE_FIELD_def FEEDBACK_DIR_FIELD_def LOG_LEVEL_FIELD_def
  TIMESHIFT_DIR_FIELD_def CLEANUP_TS_FIELD_def INPUT_FIELD_def OUTPUT_FIELD_def

definition define_variable :: "string \<Rightarrow> errno_error" where
  "define_variable fld = Errno_error (''Define '' @ fld @ '' variable and make it valid.'') EAGAIN"

text \<open>The loop over the outputs: the root of every HTTP output must be usable.\<close>

fun output_ids ::
  "'u url_api \<Rightarrow> 'f fs_api_scheme \<Rightarrow> 'u OutputUri list \<Rightarrow> errno_error + u64 list" where
  "output_ids U fs [] = Inr []"
| "output_ids U fs (out_uri # rest) =
     (case (if url_scheme U (ou_output out_uri) = Scheme_http then CreateAndCheckDir fs (ou_http_root out_uri) else None) of
        Some errn \<Rightarrow> Inl errn
      | None \<Rightarrow> (case output_ids U fs rest of Inl errn \<Rightarrow> Inl errn | Inr ids \<Rightarrow> Inr (ou_id out_uri # ids)))"

text \<open>The part guarded by \<open>check_folders\<close>: the folder of a recording, or the outputs.\<close>

definition check_outputs ::
  "('j, 'u) opt_env \<Rightarrow> 'f fs_api_scheme \<Rightarrow> ArgsMap \<Rightarrow> StreamType \<Rightarrow> errno_error + u64 list" where
  "check_outputs E fs config_args t =
     (if t = TIMESHIFT_RECORDER \<or> t = CATCHUP then
        (case ArgsGetValue ConvertFromString_string config_args TIMESHIFT_DIR_FIELD of
           None \<Rightarrow> Inl (define_variable TIMESHIFT_DIR_FIELD)
         | Some timeshift_dir \<Rightarrow> (case CreateAndCheckDir fs timeshift_dir of Some errn \<Rightarrow> Inl errn | None \<Rightarrow> Inr []))
      else case read_output (oe_json E) (oe_url E) config_args of
        None \<Rightarrow> Inl (define_variable OUTPUT_FIELD)
      | Some outs \<Rightarrow> output_ids (oe_url E) fs outs)"

definition MakeStreamInfo ::
  "('j, 'u) opt_env \<Rightarrow> 'f fs_api_scheme \<Rightarrow> ArgsMap \<Rightarrow> bool \<Rightarrow> errno_error + (StreamInfo \<times> string \<times> int)" where
  "MakeStreamInfo E fs config_args check_folders =
     (case ArgsGetValue ConvertFromString_string config_args ID_FIELD of
        None \<Rightarrow> Inl (define_variable ID_FIELD)
      | Some sid \<Rightarrow>
     (case ArgsGetValue (cv_u8 (oe_conv E)) config_args TYPE_FIELD of
        None \<Rightarrow> Inl (define_variable TYPE_FIELD)
      | Some ty \<Rightarrow>
         if type_of ty = PROXY then Inl (Errno_error ''Proxy streams not handled for now'' EINVAL) else
     (case ArgsGetValue ConvertFromString_string config_args FEEDBACK_DIR_FIELD of
        None \<Rightarrow> Inl (define_variable FEEDBACK_DIR_FIELD)
      | Some feedback_dir \<Rightarrow>
         (let logs_level = (case ArgsGetValue (cv_i32 (oe_conv E)) config_args LOG_LEVEL_FIELD of
              None \<Rightarrow> oe_level_debug E | Some l \<Rightarrow> l)
          in case CreateAndCheckDir fs feedback_dir of
        Some errn \<Rightarrow> Inl errn
      | None \<Rightarrow>
     (case read_input (oe_json E) (oe_url E) config_args of
        None \<Rightarrow> Inl (define_variable INPUT_FIELD)
      | Some ins \<Rightarrow>
     (case (if check_folders then check_outputs E fs config_args (type_of ty) else Inr []) of
        Inl errn \<Rightarrow> Inl errn
      | Inr outs \<Rightarrow> Inr (\<lparr>si_id = sid, si_type = type_of ty, si_input = map iu_id ins, si_output = outs\<rparr>,
                          feedback_dir, logs_level)))))))"

text \<open>What can be relied on after success.\<close>

lemma output_ids_Inr:
  "output_ids U fs outs = Inr ids \<longleftrightarrow> ids = map ou_id outs
     \<and> (\<forall>x\<in>set outs. url_scheme U (ou_output x) = Scheme_http \<longrightarrow> CreateAndCheckDir fs (ou_http_root x) = None)"
  by (induction outs arbitrary: ids) (auto split: option.splits sum.splits)

lemma MakeStreamInfo_InrD:
  assumes "MakeStreamInfo E fs args check = Inr (sha, feedback, level)"
  shows "args ID_FIELD = Some (si_id sha)" "si_type sha \<noteq> PROXY" "args FEEDBACK_DIR_FIELD = Some feedback"
    "\<exists>ins. read_input (oe_json E) (oe_url E) args = Some ins \<and> si_input sha = map iu_id ins"
    "CreateAndCheckDir fs feedback = None"
    "check \<Longrightarrow> check_outputs E fs args (si_type sha) = Inr (si_output sha)"
    "\<exists>v t. args TYPE_FIELD = Some v \<and> cv_u8 (oe_conv E) v = Some t \<and> type_of t = si_type sha"
  using assms
  by (auto simp: MakeStreamInfo_def ArgsGetValue_Some ConvertFromString_string_def Let_def
      split: option.splits if_splits sum.splits)

text \<open>
  A stream is described for start only when its configuration is complete: the description
  carries the identifier and the type of the configuration, which is not a proxy, and the inputs in
  their order; the feedback folder is usable, and so is the recording folder of a recorder or the
  HTTP root of every HTTP output of any other stream, whose outputs are listed in their order.
\<close>

theorem stream_info_of_complete_config:
  assumes "MakeStreamInfo E fs args True = Inr (sha, feedback, level)"
  shows "args ID_FIELD = Some (si_id sha) \<and> si_type sha \<noteq> PROXY
    \<and> (\<exists>ins. read_input (oe_json E) (oe_url E) args = Some ins \<and> si_input sha = map iu_id ins)
    \<and> CreateAndCheckDir fs feedback = None
    \<and> (if si_type sha = TIMESHIFT_RECORDER \<or> si_type sha = CATCHUP
       then (\<exists>d. args TIMESHIFT_DIR_FIELD = Some d \<and> CreateAndCheckDir fs d = None) \<and> si_output sha = []
       else (\<exists>outs. read_output (oe_json E) (oe_url E) args = Some outs \<and> si_output sha = map ou_id outs
              \<and> (\<forall>x\<in>set outs. url_scheme (oe_url E) (ou_output x) = Scheme_http
                   \<longrightarrow> CreateAndCheckDir fs (ou_http_root x) = None)))"
proof -
  note d = MakeStreamInfo_InrD [OF assms]
  show ?thesis
  proof (cases "si_type sha = TIMESHIFT_RECORDER \<or> si_type sha = CATCHUP")
    case True
    with d(6) have "(\<exists>d. args TIMESHIFT_DIR_FIELD = Some d \<and> CreateAndCheckDir fs d = None) \<and> si_output sha = []"
      by (auto simp: check_outputs_def ArgsGetValue_Some ConvertFromString_string_def split: option.splits)
    with True d(1-5) show ?thesis by simp
  next
    case False
    with d(6) obtain outs where "read_output (oe_json E) (oe_url E) args = Some outs"
        "output_ids (oe_url E) fs outs = Inr (si_output sha)"
      by (auto simp: check_outputs_def split: option.splits)
    with False d(1-5) show ?thesis by (auto simp: output_ids_Inr)
  qed
qed

definition demo_args :: ArgsMap where
  "demo_args = [ID_FIELD \<mapsto> ''s1'', TYPE_FIELD \<mapsto> ''4'', FEEDBACK_DIR_FIELD \<mapsto> ''/hls'', TIMESHIFT_DIR_FIELD \<mapsto> ''/hls'',
     INPUT_FIELD \<mapsto> urls_text tree_json (InputUri_Serialize tree_json text_urls)
        [\<lparr>iu_id = 7, iu_input = ''udp://a'', iu_user_agent = VLC\<rparr>]]"

definition demo_parse :: "string \<Rightarrow> config_text" where
  "demo_parse s = Config_object [(''id'', Some ''s1''), (''type'', Some ''4''), (''feedback_directory'', Some ''/hls''),
     (''timeshift_dir'', Some ''/hls''), (''input'', demo_args INPUT_FIELD)]"

lemma demo_args_validated: "ValidateConfig demo_opt_env True demo_parse ''cfg'' = Ret demo_args"
  by (simp add: ValidateConfig_def FindOption_eq ALLOWED_OPTIONS_def validate_id_def validate_type_def validate_input_def
      validate_feedback_dir_def validate_timeshift_dir_def validate_range_def demo_parse_def demo_opt_env_def std_conv_def
      std_u_def read_dec_def is_digit_def digit_val_def value_text_def demo_args_def field_name_defs fun_eq_iff)

lemma demo_read_input:
  "read_input tree_json text_urls demo_args = Some [\<lparr>iu_id = 7, iu_input = ''udp://a'', iu_user_agent = VLC\<rparr>]"
proof -
  have "input_kept text_urls \<lparr>iu_id = 7, iu_input = ''udp://a'', iu_user_agent = VLC\<rparr>"
    by (simp add: input_kept_def text_urls_def proper_agent_def)
  then show ?thesis
    using urls_roundtrip [OF input_ser.serializer_axioms [of tree_json text_urls],
        of tree_json "[\<lparr>iu_id = 7, iu_input = ''udp://a'', iu_user_agent = VLC\<rparr>]"]
    by (simp add: read_input_def ArgsGetValue_def ConvertFromString_input_def demo_args_def field_name_defs)
qed

lemma demo_stream_info:
  "MakeStreamInfo demo_opt_env demo_fs demo_args True
     = Inr (\<lparr>si_id = ''s1'', si_type = TIMESHIFT_RECORDER, si_input = [7], si_output = []\<rparr>, ''/hls'', 7)"
  using demo_read_input
  by (simp add: MakeStreamInfo_def check_outputs_def ArgsGetValue_def ConvertFromString_string_def demo_opt_env_def
      demo_args_def field_name_defs std_conv_def std_u_def read_dec_def is_digit_def digit_val_def type_of_def
      CreateAndCheckDir_def demo_fs_def)

theorem stream_info_of_complete_config_witness:
  "\<exists>d. demo_args TIMESHIFT_DIR_FIELD = Some d \<and> CreateAndCheckDir demo_fs d = None"
  using stream_info_of_complete_config [OF demo_stream_info] by simp

section \<open>Complete videos\<close>

text \<open>
  \<open>files\<close> are the contents of the files by path, \<open>dir_of\<close> the directory of a file path, \<open>make_file\<close>
  joins a directory and a name.
\<close>

definition M3u8Reader_new :: M3u8Reader where
  "M3u8Reader_new = \<lparr>mr_version = -1, mr_allow_cache = False, mr_media_sequence = -1, mr_target_duration = -1, mr_chunks = []\<rparr>"

fun chunks_exist :: "(string \<Rightarrow> string option) \<Rightarrow> (string \<Rightarrow> bool) \<Rightarrow> ChunkInfo list \<Rightarrow> bool" where
  "chunks_exist join exists [] = True"
| "chunks_exist join exists (chunk # chunks) = (case join (ci_path chunk) of
       None \<Rightarrow> False
     | Some p \<Rightarrow> if exists p then chunks_exist join exists chunks else False)"

definition CheckIsFullVod ::
  "'a conv_scheme \<Rightarrow> 'b fp_scheme \<Rightarrow> (string \<rightharpoonup> string) \<Rightarrow> (string \<Rightarrow> string) \<Rightarrow> (string \<Rightarrow> string \<Rightarrow> string option)
     \<Rightarrow> string \<Rightarrow> bool outcome" where
  "CheckIsFullVod cv fp files dir_of make_file path = (case M3u8Reader_Parse cv fp files M3u8Reader_new path of
       Abort \<Rightarrow> Abort
     | Ret (ok, reader) \<Rightarrow> if \<not> ok then Ret False
         else Ret (chunks_exist (make_file (dir_of path)) (\<lambda>p. files p \<noteq> None) (mr_chunks reader)))"

lemma chunks_exist_iff:
  "chunks_exist join exists cs \<longleftrightarrow> (\<forall>c\<in>set cs. \<exists>p. join (ci_path c) = Some p \<and> exists p)"
  by (induction cs) (auto split: option.splits)

section \<open>Statistics of the node\<close>

record NodeStats =
  ns_prev :: CpuShot
  ns_prev_nshot :: NetShot
  ns_timestamp :: int

text \<open>What the machine answers at one moment.\<close>

record machine =
  mc_stat :: "string option"
  mc_net :: "string list option"
  mc_mem :: "string list option"
  mc_hdd :: "(u64 \<times> u64 \<times> u64) option"
  mc_sys :: "(u64 list \<times> int) option"
  mc_now :: int
  mc_gpu :: int

text \<open>
  The configuration and the library functions the statistics need: the hosts, the version, and the
  conversions \<open>cpu_load * 100\<close> to an integer.
\<close>

record stats_env =
  se_percent :: "f64 \<Rightarrow> int"
  se_http_host :: string
  se_vods_host :: string
  se_subscribers_host :: string
  se_bandwidth_host :: string
  se_version :: string

definition ts_diff :: "NodeStats \<Rightarrow> int \<Rightarrow> int" where
  "ts_diff ns current_time = (let d = (current_time - ns_timestamp ns) sdiv 1000 in if d = 0 then 1 else d)"

definition load_text :: "SysinfoShot \<Rightarrow> string" where
  "load_text s = (let l = (\<lambda>i. fmt_u64 (if i < length (loads s) then loads s ! i else 0))
     in l 0 @ '' '' @ l 1 @ '' '' @ l 2)"

definition make_server_info ::
  "stats_env \<Rightarrow> machine \<Rightarrow> OnlineUsers \<Rightarrow> NodeStats \<Rightarrow> CpuShot \<Rightarrow> NetShot \<Rightarrow> ServerInfo" where
  "make_server_info S m online ns cpu net =
     (let sshot = GetMachineSysinfoShot (mc_sys m);
          d = (of_int (ts_diff ns (mc_now m)) :: u64)
      in \<lparr>sv_cpu_load = se_percent S (GetCpuMachineLoad (ns_prev ns) cpu), sv_gpu_load = mc_gpu m,
          sv_uptime = load_text sshot, sv_mem_shot = GetMachineMemoryShot (mc_mem m),
          sv_hdd_shot = GetMachineHddShot (mc_hdd m),
          sv_net_bytes_recv = (bytes_recv net - bytes_recv (ns_prev_nshot ns)) div d,
          sv_net_bytes_send = (bytes_send net - bytes_send (ns_prev_nshot ns)) div d,
          sv_current_ts = mc_now m, sv_sys_shot = sshot, sv_online_users = online\<rparr>)"

definition MakeServiceStats ::
  "'j json \<Rightarrow> stats_env \<Rightarrow> machine \<Rightarrow> OnlineUsers \<Rightarrow> bool \<Rightarrow> NodeStats \<Rightarrow> (string \<times> NodeStats) outcome" where
  "MakeServiceStats J S m online full_stat ns =
     (case GetMachineCpuShot (mc_stat m) of Abort \<Rightarrow> Abort | Ret cpu \<Rightarrow>
      (case GetMachineNetShot (mc_net m) of Abort \<Rightarrow> Abort | Ret net \<Rightarrow>
       if of_int (ts_diff ns (mc_now m)) = (0 :: u64) then Abort
       else
        (let stat = make_server_info S m online ns cpu net;
             ser = (if full_stat
                    then FullServiceInfo_Serialize J \<lparr>fu_base = stat, fu_http_host = se_http_host S,
                           fu_vods_host = se_vods_host S, fu_subscribers_host = se_subscribers_host S,
                           fu_bandwidth_host = se_bandwidth_host S, fu_proj_ver = se_version S\<rparr>
                    else ServerInfo_Serialize J stat);
             node_stats = (case ser of Inl err \<Rightarrow> [] | Inr j \<Rightarrow> js_print J j)
         in Ret (node_stats, \<lparr>ns_prev = cpu, ns_prev_nshot = net, ns_timestamp = mc_now m\<rparr>))))"

lemma ts_diff_nonzero:
  assumes "int64_range (now - ns_timestamp ns)"
  shows "of_int (ts_diff ns now) \<noteq> (0 :: u64)"
proof -
  define d where "d = (now - ns_timestamp ns) sdiv 1000"
  have "\<bar>d\<bar> \<le> \<bar>now - ns_timestamp ns\<bar>"
  proof -
    have "\<bar>d\<bar> = \<bar>now - ns_timestamp ns\<bar> div 1000"
      unfolding d_def by (simp add: signed_divide_int_def abs_mult sgn_if)
    then show ?thesis by linarith
  qed
  with assms have "\<bar>d\<bar> \<le> 2 ^ 63" by (auto simp: int64_range_def)
  then have "\<bar>ts_diff ns now\<bar> \<le> 2 ^ 63" "ts_diff ns now \<noteq> 0"
    by (auto simp: ts_diff_def Let_def d_def [symmetric])
  then have "\<not> 2 ^ 64 dvd ts_diff ns now"
    using zdvd_imp_le [of "2 ^ 64" "\<bar>ts_diff ns now\<bar>"] by auto
  then have "take_bit LENGTH(64) (ts_diff ns now) \<noteq> take_bit LENGTH(64) 0"
    by (simp add: take_bit_eq_mod dvd_eq_mod_eq_0)
  then show ?thesis
    using word_of_int_eq_iff [where ?'a = 64, of "ts_diff ns now" 0] by simp
qed

lemma ts_diff_forward:
  assumes "0 \<le> now - ns_timestamp ns" "now - ns_timestamp ns < 2 ^ 63"
  shows "unat (of_int (ts_diff ns now) :: u64) = max 1 (nat ((now - ns_timestamp ns) div 1000))"
proof -
  define t where "t = ts_diff ns now"
  have "(now - ns_timestamp ns) sdiv 1000 = (now - ns_timestamp ns) div 1000"
    using assms(1) by (cases "now = ns_timestamp ns") (simp_all add: signed_divide_int_def sgn_if)
  then have t: "t = max 1 ((now - ns_timestamp ns) div 1000)"
    using assms(1) by (auto simp: t_def ts_diff_def Let_def max_def)
  then have "0 \<le> t" "t < 2 ^ 64" using assms by (auto simp: max_def)
  then have "unat (of_int t :: u64) = nat t"
    by (simp add: unsigned_of_int take_bit_int_eq_self)
  then show ?thesis using t assms(1) by (simp add: t_def max_def split: if_splits)
qed

text \<open>
  The statistics the service broadcasts can always be made when the machine can be read and the
  clock did not leave the 64-bit range: no division by zero happens. When the clock went forward, the
  receiver reads rates that are the bytes since the previous statistics, modulo the counter width,
  divided by the full seconds since then, at least one; and the next statistics start from here.
\<close>

theorem service_stats_rates:
  assumes "json_laws J" "GetMachineCpuShot (mc_stat m) = Ret cpu" "GetMachineNetShot (mc_net m) = Ret net"
    and "0 \<le> mc_now m - ns_timestamp ns" "mc_now m - ns_timestamp ns < 2 ^ 63"
    and "server_sendable (make_server_info S m online ns cpu net)"
  shows "\<exists>text j info. MakeServiceStats J S m online False ns
        = Ret (text, \<lparr>ns_prev = cpu, ns_prev_nshot = net, ns_timestamp = mc_now m\<rparr>)
    \<and> js_parse J text = Some j \<and> ServerInfo_DeSerialize J j = Inr info
    \<and> unat (sv_net_bytes_recv info) = unat (bytes_recv net - bytes_recv (ns_prev_nshot ns))
         div max 1 (nat ((mc_now m - ns_timestamp ns) div 1000))
    \<and> unat (sv_net_bytes_send info) = unat (bytes_send net - bytes_send (ns_prev_nshot ns))
         div max 1 (nat ((mc_now m - ns_timestamp ns) div 1000))
    \<and> sv_online_users info = online"
proof -
  define stat where "stat = make_server_info S m online ns cpu net"
  have "int64_range (mc_now m - ns_timestamp ns)" using assms(4,5) by (simp add: int64_range_def)
  then have nz: "of_int (ts_diff ns (mc_now m)) \<noteq> (0 :: u64)" by (rule ts_diff_nonzero)
  obtain j where j: "ServerInfo_Serialize J stat = Inr j" "ServerInfo_DeSerialize J j = Inr (server_transport stat)"
    using server_ser.written [of J stat] assms(1,6) stat_def by blast
  have "MakeServiceStats J S m online False ns
      = Ret (js_print J j, \<lparr>ns_prev = cpu, ns_prev_nshot = net, ns_timestamp = mc_now m\<rparr>)"
    using assms(2,3) nz j(1) by (simp add: MakeServiceStats_def stat_def [symmetric] Let_def)
  moreover have "js_parse J (js_print J j) = Some j" using assms(1) by (simp add: json_lawsD)
  moreover have "unat (sv_net_bytes_recv (server_transport stat)) = unat (bytes_recv net - bytes_recv (ns_prev_nshot ns))
         div max 1 (nat ((mc_now m - ns_timestamp ns) div 1000))"
    "unat (sv_net_bytes_send (server_transport stat)) = unat (bytes_send net - bytes_send (ns_prev_nshot ns))
         div max 1 (nat ((mc_now m - ns_timestamp ns) div 1000))"
    "sv_online_users (server_transport stat) = online"
    using ts_diff_forward [OF assms(4,5)]
    by (simp_all add: server_transport_def stat_def make_server_info_def Let_def unat_div)
  ultimately show ?thesis using j(2) by blast
qed

definition demo_machine :: machine where
  "demo_machine = \<lparr>mc_stat = None, mc_net = None, mc_mem = None, mc_hdd = None, mc_sys = None, mc_now = 12500, mc_gpu = 0\<rparr>"

definition demo_stats_env :: stats_env where
  "demo_stats_env = \<lparr>se_percent = (\<lambda>x. 0), se_http_host = [], se_vods_host = [], se_subscribers_host = [],
     se_bandwidth_host = [], se_version = []\<rparr>"

definition demo_node :: NodeStats where
  "demo_node = \<lparr>ns_prev = CpuShot0, ns_prev_nshot = \<lparr>bytes_recv = - 100, bytes_send = 0\<rparr>, ns_timestamp = 2500\<rparr>"

theorem service_stats_rates_witness:
  "\<exists>text ns1 j info. MakeServiceStats tree_json demo_stats_env demo_machine
        \<lparr>on_daemon = 1, on_http = 0, on_vods = 0, on_subscriber = 0\<rparr> False demo_node = Ret (text, ns1)
    \<and> js_parse tree_json text = Some j \<and> ServerInfo_DeSerialize tree_json j = Inr info
    \<and> unat (sv_net_bytes_recv info) = 10"
proof -
  have shots: "GetMachineCpuShot (mc_stat demo_machine) = Ret CpuShot0" "GetMachineNetShot (mc_net demo_machine) = Ret NetShot0"
    by (simp_all add: demo_machine_def GetMachineCpuShot_def GetMachineNetShot_def)
  have send: "server_sendable (make_server_info demo_stats_env demo_machine
      \<lparr>on_daemon = 1, on_http = 0, on_vods = 0, on_subscriber = 0\<rparr> demo_node CpuShot0 NetShot0)"
    by (simp add: server_sendable_def make_server_info_def demo_stats_env_def demo_machine_def Let_def
        GetMachineSysinfoShot_def int32_range_def int64_range_def)
  have rate: "unat (bytes_recv NetShot0 - bytes_recv (ns_prev_nshot demo_node)) = 100"
    by (simp add: NetShot0_def demo_node_def)
  have "0 \<le> mc_now demo_machine - ns_timestamp demo_node" "mc_now demo_machine - ns_timestamp demo_node < 2 ^ 63"
    by (simp_all add: demo_machine_def demo_node_def)
  from service_stats_rates [OF tree_json_laws shots this send] rate show ?thesis
    by (fastforce simp: demo_machine_def demo_node_def)
qed

end
