(* ===== verification/Configs.thy ===== *)
theory Configs
  imports StreamLaunch
begin

text \<open>
  Components \<open>stream/config\<close>, \<open>stream/streams/configs\<close>, \<open>stream/configs_factory\<close>,
  \<open>stream/streams_factory\<close> and \<open>stream/gst_types\<close>: the configuration classes, as records that extend
  each other the way the classes inherit, their construction from validated options, and the choice of
  the stream class for a configuration. A \<open>static_cast\<close> to a class the object does not have, a failed
  \<open>CHECK\<close> and \<open>NOTREACHED\<close> are \<open>Abort\<close>.
\<close>

section \<open>Configuration classes\<close>

record 'u Config =
  cf_type :: StreamType
  cf_max_restart_attempts :: u64
  cf_ttl_sec :: "int option"
  cf_input :: "'u InputUri list"
  cf_output :: "'u OutputUri list"

definition make_Config :: "StreamType \<Rightarrow> u64 \<Rightarrow> 'u InputUri list \<Rightarrow> 'u OutputUri list \<Rightarrow> 'u Config" where
  "make_Config type attempts input output =
     \<lparr>cf_type = type, cf_max_restart_attempts = attempts, cf_ttl_sec = None, cf_input = input, cf_output = output\<rparr>"

definition Config_Equals :: "('u, 'a) Config_scheme \<Rightarrow> ('u, 'b) Config_scheme \<Rightarrow> bool" where
  "Config_Equals c api \<longleftrightarrow> cf_type c = cf_type api
     \<and> list_all2 InputUri_Equals (cf_input c) (cf_input api) \<and> list_all2 OutputUri_Equals (cf_output c) (cf_output api)"

record 'u AudioVideoConfig = "'u Config" +
  av_have_video :: bool
  av_have_audio :: bool
  av_audio_select :: "int option"
  av_avformat :: bool
  av_loop :: bool

definition make_AudioVideoConfig :: "'u Config \<Rightarrow> 'u AudioVideoConfig" where
  "make_AudioVideoConfig c = Config.extend c (AudioVideoConfig.fields True True None False False)"

definition AudioVideoConfig_IsVod :: "'u url_api \<Rightarrow> ('u, 'm) AudioVideoConfig_scheme \<Rightarrow> bool" where
  "AudioVideoConfig_IsVod U c =
     (if av_loop c then False
      else case cf_input c of [uri] \<Rightarrow> url_scheme U (iu_input uri) = Scheme_file | _ \<Rightarrow> False)"

record 'u RelayConfig = "'u AudioVideoConfig" +
  rl_video_parser :: string
  rl_audio_parser :: string

definition make_RelayConfig :: "'u AudioVideoConfig \<Rightarrow> 'u RelayConfig" where
  "make_RelayConfig c = AudioVideoConfig.extend c (RelayConfig.fields ''h264parse'' ''aacparse'')"

record 'u VodRelayConfig = "'u RelayConfig" +
  vr_cleanup_ts :: bool

definition make_VodRelayConfig :: "'u RelayConfig \<Rightarrow> 'u VodRelayConfig" where
  "make_VodRelayConfig c = RelayConfig.extend c (VodRelayConfig.fields False)"

record 'u TimeshiftConfig = "'u RelayConfig" +
  tc_chunk_duration :: int

definition make_TimeshiftConfig :: "'u RelayConfig \<Rightarrow> 'u TimeshiftConfig" where
  "make_TimeshiftConfig c = RelayConfig.extend c (TimeshiftConfig.fields 120)"

record 'u EncodingConfig = "'u AudioVideoConfig" +
  en_deinterlace :: "bool option"
  en_frame_rate :: "int option"
  en_volume :: "f64 option"
  en_video_encoder :: string
  en_audio_encoder :: string
  en_audio_channels_count :: "int option"
  en_video_encoder_args :: "string \<rightharpoonup> u32"
  en_video_encoder_str_args :: "string \<rightharpoonup> string"
  en_size :: "int \<times> int"
  en_video_bit_rate :: "int option"
  en_audio_bit_rate :: "int option"
  en_logo :: "'u Logo"
  en_decklink_video_mode :: u8
  en_aspect_ratio :: "(int \<times> int) option"
  en_relay_video :: bool
  en_relay_audio :: bool

definition make_EncodingConfig :: "'u Logo \<Rightarrow> int \<times> int \<Rightarrow> 'u AudioVideoConfig \<Rightarrow> 'u EncodingConfig" where
  "make_EncodingConfig logo size0 c = AudioVideoConfig.extend c
     (EncodingConfig.fields None None None ''x264enc'' ''faac'' None Map.empty Map.empty size0 None None logo 1 None
        False False)"

record 'u VodEncodeConfig = "'u EncodingConfig" +
  ve_cleanup_ts :: bool

definition make_VodEncodeConfig :: "'u EncodingConfig \<Rightarrow> 'u VodEncodeConfig" where
  "make_VodEncodeConfig c = EncodingConfig.extend c (VodEncodeConfig.fields False)"

datatype EncoderType = GPU_MFX | GPU_VAAPI | CPU

definition GetEncoderType :: "string \<Rightarrow> EncoderType option" where
  "GetEncoderType encoder =
     (if encoder = [] then None
      else if encoder = ''mfxh264enc'' then Some GPU_MFX
      else if encoder = ''vaapih264enc'' \<or> encoder = ''vaapimpeg2enc'' then Some GPU_VAAPI
      else Some CPU)"

definition IsGpu :: "('u, 'm) EncodingConfig_scheme \<Rightarrow> bool" where
  "IsGpu c = (case GetEncoderType (en_video_encoder c) of Some enc \<Rightarrow> enc = GPU_MFX \<or> enc = GPU_VAAPI | None \<Rightarrow> False)"

definition IsMfxGpu :: "('u, 'm) EncodingConfig_scheme \<Rightarrow> bool" where
  "IsMfxGpu c = (case GetEncoderType (en_video_encoder c) of Some enc \<Rightarrow> enc = GPU_MFX | None \<Rightarrow> False)"

section \<open>Construction from options\<close>

text \<open>A setter is called when its option is there and can be read.\<close>

definition set_value :: "(string \<Rightarrow> 'v option) \<Rightarrow> ArgsMap \<Rightarrow> string \<Rightarrow> ('v \<Rightarrow> 'c \<Rightarrow> 'c) \<Rightarrow> 'c \<Rightarrow> 'c" where
  "set_value conv args key upd c = (case ArgsGetValue conv args key of None \<Rightarrow> c | Some v \<Rightarrow> upd v c)"

text \<open>\<open>std::map::insert\<close> keeps an entry that is already there.\<close>

definition CheckAndSetValue :: "(string \<Rightarrow> 'v option) \<Rightarrow> ArgsMap \<Rightarrow> string \<Rightarrow> (string \<rightharpoonup> 'v) \<Rightarrow> (string \<rightharpoonup> 'v)" where
  "CheckAndSetValue conv args name m = (case ArgsGetValue conv args name of
     None \<Rightarrow> m | Some result \<Rightarrow> (case m name of None \<Rightarrow> m(name \<mapsto> result) | Some _ \<Rightarrow> m))"

definition set_flag :: "conv \<Rightarrow> ArgsMap \<Rightarrow> string \<Rightarrow> (string \<rightharpoonup> u32) \<Rightarrow> (string \<rightharpoonup> u32)" where
  "set_flag cv args name m = (case ArgsGetValue (cv_bool cv) args name of Some True \<Rightarrow> m(name \<mapsto> 1) | _ \<Rightarrow> m)"

definition encoder_args_first :: "string list" where
  "encoder_args_first = [''nvh264enc.preset'', ''mfxh264enc.preset'', ''mfxh264enc.gop-size'', ''x264enc.speed-preset'',
     ''x264enc.threads'', ''x264enc.tune'', ''x264enc.key-int-max'', ''x264enc.vbv-buf-capacity'', ''x264enc.rc-lookahead'',
     ''x264enc.qp-max'', ''x264enc.pass'', ''x264enc.me'', ''x264enc.sliced-threads'', ''x264enc.b-adapt'',
     ''x264enc.byte-stream'', ''x264enc.quantizer'']"

definition encoder_str_args :: "string list" where
  "encoder_str_args = [''x264enc.profile'', ''x264enc.stream-format'', ''x264enc.option-string'']"

definition encoder_args_rest :: "string list" where
  "encoder_args_rest = [''vaapih264enc.keyframe-period'', ''vaapih264enc.tune'', ''vaapih264enc.max-bframes'',
     ''vaapih264enc.num-slices'', ''vaapih264enc.init-qp'', ''vaapih264enc.min-qp'', ''vaapih264enc.rate-control'',
     ''vaapih264enc.cabac'', ''vaapih264enc.dct8x8'', ''vaapih264enc.cpb-length'', ''openh264enc.multi-thread'',
     ''openh264enc.complexity'', ''openh264enc.rate-control'', ''openh264enc.gop-size'', ''eavcenc.preset'',
     ''eavcenc.profile'', ''eavcenc.performance'', ''eavcenc.bitrate-mode'', ''eavcenc.bitrate-pass'', ''eavcenc.bitrate-max'',
     ''eavcenc.vbv-size'', ''eavcenc.picture-mode'', ''eavcenc.entropy-mode'', ''eavcenc.gop-max-bcount'',
     ''eavcenc.gop-max-length'', ''eavcenc.gop-min-length'', ''eavcenc.level'', ''eavcenc.deblock-mode'',
     ''eavcenc.deblock-alpha'', ''eavcenc.deblock-beta'', ''eavcenc.initial-param'', ''eavcenc.field-order'']"

definition InitVideoEncodersWithArgs :: "conv \<Rightarrow> ArgsMap \<Rightarrow> (string \<rightharpoonup> u32) \<times> (string \<rightharpoonup> string)" where
  "InitVideoEncodersWithArgs cv config =
     (let m1 = foldl (\<lambda>m k. CheckAndSetValue (cv_u32 cv) config k m) Map.empty encoder_args_first;
          strs = foldl (\<lambda>m k. CheckAndSetValue ConvertFromString_string config k m) Map.empty encoder_str_args;
          m2 = set_flag cv config ''x264enc.dct8x8'' (set_flag cv config ''x264enc.interlaced'' m1);
          m3 = foldl (\<lambda>m k. CheckAndSetValue (cv_u32 cv) config k m) m2 encoder_args_rest;
          m4 = set_flag cv config ''eavcenc.gop-adaptive'' m3
      in (m4, strs))"

text \<open>The class of the object a configuration is.\<close>

datatype 'u any_config = Any_av "'u AudioVideoConfig" | Any_relay "'u RelayConfig" | Any_vod_relay "'u VodRelayConfig"
  | Any_encoding "'u EncodingConfig" | Any_vod_encode "'u VodEncodeConfig" | Any_timeshift "'u TimeshiftConfig"

definition kDefaultRestartAttempts :: u64 where "kDefaultRestartAttempts = 10"

definition audio_video_part :: "conv \<Rightarrow> ArgsMap \<Rightarrow> 'u Config \<Rightarrow> 'u AudioVideoConfig" where
  "audio_video_part cv args conf =
     (let aconf = make_AudioVideoConfig conf;
          aconf = set_value (cv_bool cv) args ''have_video'' (\<lambda>v. av_have_video_update (\<lambda>_. v)) aconf;
          aconf = set_value (cv_bool cv) args ''have_audio'' (\<lambda>v. av_have_audio_update (\<lambda>_. v)) aconf;
          aconf = set_value (cv_i32 cv) args ''audio_select'' (\<lambda>v. av_audio_select_update (\<lambda>_. Some v)) aconf;
          aconf = set_value (cv_bool cv) args ''avformat'' (\<lambda>v. av_avformat_update (\<lambda>_. v)) aconf
      in set_value (cv_bool cv) args ''loop'' (\<lambda>v. av_loop_update (\<lambda>_. v)) aconf)"

definition relay_part :: "ArgsMap \<Rightarrow> 'u AudioVideoConfig \<Rightarrow> 'u RelayConfig" where
  "relay_part args aconf =
     (let rconfig = set_value ConvertFromString_string args ''video_parser'' (\<lambda>v. rl_video_parser_update (\<lambda>_. v))
                      (make_RelayConfig aconf)
      in set_value ConvertFromString_string args ''audio_parser'' (\<lambda>v. rl_audio_parser_update (\<lambda>_. v)) rconfig)"

definition encoding_part :: "('j, 'u) opt_env \<Rightarrow> int \<times> int \<Rightarrow> ArgsMap \<Rightarrow> 'u AudioVideoConfig \<Rightarrow> 'u EncodingConfig" where
  "encoding_part E size0 args aconf =
     (let cv = oe_conv E;
          c = make_EncodingConfig (Logo0 (oe_url E)) size0 aconf;
          c = set_value (cv_bool cv) args ''relay_audio'' (\<lambda>v. en_relay_audio_update (\<lambda>_. v)) c;
          c = set_value (cv_bool cv) args ''relay_video'' (\<lambda>v. en_relay_video_update (\<lambda>_. v)) c;
          c = set_value (cv_bool cv) args ''deinterlace'' (\<lambda>v. en_deinterlace_update (\<lambda>_. Some v)) c;
          c = set_value (cv_i32 cv) args ''framerate'' (\<lambda>v. en_frame_rate_update (\<lambda>_. Some v)) c;
          c = set_value (cv_f64 cv) args ''volume'' (\<lambda>v. en_volume_update (\<lambda>_. Some v)) c;
          c = set_value ConvertFromString_string args ''video_codec'' (\<lambda>v. en_video_encoder_update (\<lambda>_. v)) c;
          c = set_value ConvertFromString_string args ''audio_codec'' (\<lambda>v. en_audio_encoder_update (\<lambda>_. v)) c;
          c = set_value (cv_i32 cv) args ''audio_channels'' (\<lambda>v. en_audio_channels_count_update (\<lambda>_. Some v)) c;
          c = set_value (cv_size cv) args ''size'' (\<lambda>v. en_size_update (\<lambda>_. v)) c;
          c = set_value (cv_i32 cv) args ''video_bitrate'' (\<lambda>v. en_video_bit_rate_update (\<lambda>_. Some v)) c;
          c = set_value (cv_i32 cv) args ''audio_bitrate'' (\<lambda>v. en_audio_bit_rate_update (\<lambda>_. Some v)) c;
          c = set_value (ConvertFromString_Logo cv (oe_json E) (oe_url E)) args ''logo'' (\<lambda>v. en_logo_update (\<lambda>_. v)) c;
          c = set_value (cv_rational cv) args ''aspect_ratio'' (\<lambda>v. en_aspect_ratio_update (\<lambda>_. Some v)) c;
          c = set_value (cv_u8 cv) args ''decklink_video_mode'' (\<lambda>v. en_decklink_video_mode_update (\<lambda>_. v)) c
      in case InitVideoEncodersWithArgs cv args of (ints, strs) \<Rightarrow>
           c\<lparr>en_video_encoder_args := ints, en_video_encoder_str_args := strs\<rparr>)"

definition timeshift_part :: "conv \<Rightarrow> ArgsMap \<Rightarrow> 'u RelayConfig \<Rightarrow> 'u TimeshiftConfig outcome" where
  "timeshift_part cv args rel =
     (let tconf = set_value (cv_i64 cv) args ''timeshift_chunk_duration'' (\<lambda>v. tc_chunk_duration_update (\<lambda>_. v))
                    (make_TimeshiftConfig rel)
      in if tc_chunk_duration tconf = 0 then Abort else Ret tconf)"

definition specific_config :: "('j, 'u) opt_env \<Rightarrow> int \<times> int \<Rightarrow> ArgsMap \<Rightarrow> u8 \<Rightarrow> 'u AudioVideoConfig \<Rightarrow> (error + 'u any_config) outcome" where
  "specific_config E size0 args stream_type aconf =
     (let cv = oe_conv E; t = type_of stream_type in
      if t = SCREEN then Ret (Inr (Any_av aconf))
      else if t = RELAY \<or> t = TIMESHIFT_PLAYER \<or> t = TEST_LIFE \<or> t = VOD_RELAY then
        (let rconfig = relay_part args aconf in
         if t = VOD_RELAY
         then Ret (Inr (Any_vod_relay (set_value (cv_bool cv) args ''cleanup_ts'' (\<lambda>v. vr_cleanup_ts_update (\<lambda>_. v))
                (make_VodRelayConfig rconfig))))
         else Ret (Inr (Any_relay rconfig)))
      else if t = ENCODE \<or> t = VOD_ENCODE then
        (let econfig = encoding_part E size0 args aconf in
         if t = VOD_ENCODE
         then Ret (Inr (Any_vod_encode (set_value (cv_bool cv) args ''cleanup_ts'' (\<lambda>v. ve_cleanup_ts_update (\<lambda>_. v))
                (make_VodEncodeConfig econfig))))
         else Ret (Inr (Any_encoding econfig)))
      else if t = TIMESHIFT_RECORDER \<or> t = CATCHUP then
        (case timeshift_part cv args (relay_part args aconf) of Abort \<Rightarrow> Abort | Ret tconf \<Rightarrow> Ret (Inr (Any_timeshift tconf)))
      else Ret (Inl (Error_text (''Unknown stream type: '' @ fmt_u64 (ucast stream_type)))))"

definition make_config :: "('j, 'u) opt_env \<Rightarrow> int \<times> int \<Rightarrow> ArgsMap \<Rightarrow> (error + 'u any_config) outcome" where
  "make_config E size0 config_args =
     (let cv = oe_conv E in
      case ArgsGetValue (cv_u8 cv) config_args ''type'' of
        None \<Rightarrow> Ret (Inl (Error_text ''Define type variable and make it valid''))
      | Some stream_type \<Rightarrow>
         if type_of stream_type = PROXY then Ret (Inl (Error_text ''Proxy streams not handled for now''))
         else (case read_input (oe_json E) (oe_url E) config_args of
            None \<Rightarrow> Ret (Inl (Error_text ''Define input variable and make it valid''))
          | Some input_urls \<Rightarrow>
             (let is_multi_input = length input_urls > 1;
                  is_timeshift_and_rec = (type_of stream_type = TIMESHIFT_RECORDER \<and> \<not> is_multi_input)
                     \<or> (type_of stream_type = CATCHUP \<and> \<not> is_multi_input);
                  outputs = (if is_timeshift_and_rec then Some [] else read_output (oe_json E) (oe_url E) config_args)
              in case outputs of
                   None \<Rightarrow> Ret (Inl (Error_text ''Define output variable and make it valid''))
                 | Some output_urls \<Rightarrow>
                    (let max_restart_attempts = (case ArgsGetValue (cv_u64 cv) config_args ''restart_attempts'' of
                            None \<Rightarrow> kDefaultRestartAttempts | Some n \<Rightarrow> n)
                     in if max_restart_attempts = 0 then Abort
                        else
                          (let conf = make_Config (type_of stream_type) max_restart_attempts input_urls output_urls;
                               conf = set_value (cv_i64 cv) config_args ''auto_exit_time'' (\<lambda>v. cf_ttl_sec_update (\<lambda>_. Some v)) conf
                           in specific_config E size0 config_args stream_type (audio_video_part cv config_args conf))))))"

section \<open>The class of the stream\<close>

fun any_base :: "'u any_config \<Rightarrow> 'u Config" where
  "any_base (Any_av c) = Config.truncate c"
| "any_base (Any_relay c) = Config.truncate c"
| "any_base (Any_vod_relay c) = Config.truncate c"
| "any_base (Any_encoding c) = Config.truncate c"
| "any_base (Any_vod_encode c) = Config.truncate c"
| "any_base (Any_timeshift c) = Config.truncate c"

text \<open>The casts of the factory, defined where the object has the class.\<close>

fun as_relay :: "'u any_config \<Rightarrow> 'u RelayConfig outcome" where
  "as_relay (Any_relay c) = Ret c"
| "as_relay (Any_vod_relay c) = Ret (RelayConfig.truncate c)"
| "as_relay (Any_timeshift c) = Ret (RelayConfig.truncate c)"
| "as_relay _ = Abort"

fun as_encoding :: "'u any_config \<Rightarrow> 'u EncodingConfig outcome" where
  "as_encoding (Any_encoding c) = Ret c"
| "as_encoding (Any_vod_encode c) = Ret (EncodingConfig.truncate c)"
| "as_encoding _ = Abort"

fun as_timeshift :: "'u any_config \<Rightarrow> 'u TimeshiftConfig outcome" where
  "as_timeshift (Any_timeshift c) = Ret c"
| "as_timeshift _ = Abort"

fun as_vod_relay :: "'u any_config \<Rightarrow> 'u VodRelayConfig outcome" where
  "as_vod_relay (Any_vod_relay c) = Ret c"
| "as_vod_relay _ = Abort"

fun as_vod_encode :: "'u any_config \<Rightarrow> 'u VodEncodeConfig outcome" where
  "as_vod_encode (Any_vod_encode c) = Ret c"
| "as_vod_encode _ = Abort"

datatype 'u stream_object =
    PlaylistRelayStream "'u RelayConfig" | RelayStream "'u RelayConfig"
  | PlaylistEncodingStream "'u EncodingConfig" | MosaicStream "'u EncodingConfig" | TestInputStream "'u EncodingConfig"
  | DeviceStream "'u EncodingConfig" | EncodingOnlyAudioStream "'u EncodingConfig"
  | EncodingOnlyVideoStream "'u EncodingConfig" | EncodingStream "'u EncodingConfig"
  | TimeShiftPlayerStream "'u RelayConfig" u64 | TimeShiftRecorderStream "'u TimeshiftConfig"
  | CatchupStream "'u TimeshiftConfig" | TestLifeStream "'u RelayConfig"
  | VodRelayStream "'u VodRelayConfig" | VodEncodeStream "'u VodEncodeConfig"

definition is_playlist :: "'u url_api \<Rightarrow> 'u InputUri list \<Rightarrow> bool" where
  "is_playlist U input = foldl (\<lambda>b iuri. b \<and> url_scheme U (iu_input iuri) = Scheme_file) True input"

definition create_relay :: "'u url_api \<Rightarrow> 'u InputUri list \<Rightarrow> 'u RelayConfig \<Rightarrow> 'u stream_object outcome" where
  "create_relay U input rconfig =
     (if length input > 1 then (if is_playlist U input then Ret (PlaylistRelayStream rconfig) else Abort)
      else Ret (RelayStream rconfig))"

definition create_encode :: "'u url_api \<Rightarrow> 'u InputUri list \<Rightarrow> 'u EncodingConfig \<Rightarrow> 'u stream_object outcome" where
  "create_encode U input econfig =
     (if length input > 1 then
        (if is_playlist U input then Ret (PlaylistEncodingStream econfig) else Ret (MosaicStream econfig))
      else case input of
        [] \<Rightarrow> Abort
      | iuri # _ \<Rightarrow>
         if IsTestInputUrl U iuri then Ret (TestInputStream econfig)
         else if url_scheme U (iu_input iuri) = Scheme_dev then Ret (DeviceStream econfig)
         else if en_relay_video econfig then Ret (EncodingOnlyAudioStream econfig)
         else if en_relay_audio econfig then Ret (EncodingOnlyVideoStream econfig)
         else Ret (EncodingStream econfig))"

definition CreateStream :: "'u url_api \<Rightarrow> 'u any_config \<Rightarrow> u64 \<Rightarrow> 'u stream_object outcome" where
  "CreateStream U config start_chunk_index =
     (let input = cf_input (any_base config) in
      case cf_type (any_base config) of
        PROXY \<Rightarrow> Abort
      | RELAY \<Rightarrow> (case as_relay config of Abort \<Rightarrow> Abort | Ret rconfig \<Rightarrow> create_relay U input rconfig)
      | ENCODE \<Rightarrow> (case as_encoding config of Abort \<Rightarrow> Abort | Ret econfig \<Rightarrow> create_encode U input econfig)
      | TIMESHIFT_PLAYER \<Rightarrow> (case as_relay config of Abort \<Rightarrow> Abort
           | Ret tconfig \<Rightarrow> Ret (TimeShiftPlayerStream tconfig start_chunk_index))
      | TIMESHIFT_RECORDER \<Rightarrow> (case as_timeshift config of Abort \<Rightarrow> Abort | Ret tconfig \<Rightarrow> Ret (TimeShiftRecorderStream tconfig))
      | CATCHUP \<Rightarrow> (case as_timeshift config of Abort \<Rightarrow> Abort | Ret tconfig \<Rightarrow> Ret (CatchupStream tconfig))
      | TEST_LIFE \<Rightarrow> (case as_relay config of Abort \<Rightarrow> Abort | Ret rconfig \<Rightarrow> Ret (TestLifeStream rconfig))
      | VOD_RELAY \<Rightarrow> (case as_vod_relay config of Abort \<Rightarrow> Abort
           | Ret vconfig \<Rightarrow> if AudioVideoConfig_IsVod U vconfig then Ret (VodRelayStream vconfig) else Abort)
      | VOD_ENCODE \<Rightarrow> (case as_vod_encode config of Abort \<Rightarrow> Abort
           | Ret vconfig \<Rightarrow> if AudioVideoConfig_IsVod U vconfig then Ret (VodEncodeStream vconfig) else Abort)
      | _ \<Rightarrow> Abort)"

section \<open>What the factories promise\<close>

lemma set_value_keeps: "(\<And>v c. f (upd v c) = f c) \<Longrightarrow> f (set_value conv args key upd c) = f c"
  by (simp add: set_value_def split: option.split)

lemmas truncate_defs = Config.truncate_def AudioVideoConfig.truncate_def RelayConfig.truncate_def EncodingConfig.truncate_def

lemmas config_defs = make_Config_def make_AudioVideoConfig_def make_RelayConfig_def make_VodRelayConfig_def
  make_TimeshiftConfig_def make_EncodingConfig_def make_VodEncodeConfig_def Config.extend_def AudioVideoConfig.extend_def
  RelayConfig.extend_def EncodingConfig.extend_def AudioVideoConfig.fields_def RelayConfig.fields_def
  VodRelayConfig.fields_def TimeshiftConfig.fields_def EncodingConfig.fields_def VodEncodeConfig.fields_def

text \<open>Every part of the construction keeps the parts made before it.\<close>

lemmas keeps_base = trans [OF set_value_keeps [where f = Config.truncate]]
lemmas keeps_av = trans [OF set_value_keeps [where f = AudioVideoConfig.truncate]]

lemma audio_video_part_base [simp]: "Config.truncate (audio_video_part cv args conf) = conf"
  unfolding audio_video_part_def Let_def
  by ((rule keeps_base, simp add: truncate_defs)+) (simp add: truncate_defs config_defs)

lemma relay_part_av [simp]: "AudioVideoConfig.truncate (relay_part args aconf) = aconf"
  unfolding relay_part_def Let_def
  by ((rule keeps_av, simp add: truncate_defs)+) (simp add: truncate_defs config_defs)

lemma encoder_args_base:
  "Config.truncate (c\<lparr>en_video_encoder_args := i, en_video_encoder_str_args := t\<rparr>) = Config.truncate c"
  "AudioVideoConfig.truncate (c\<lparr>en_video_encoder_args := i, en_video_encoder_str_args := t\<rparr>) = AudioVideoConfig.truncate c"
  by (simp_all add: truncate_defs)

lemma encoding_part_av [simp]: "AudioVideoConfig.truncate (encoding_part E size0 args aconf) = aconf"
  unfolding encoding_part_def Let_def case_prod_beta encoder_args_base
  by ((rule keeps_av, simp add: truncate_defs)+) (simp add: truncate_defs config_defs)

lemma timeshift_part_av:
  "timeshift_part cv args rel = Ret tconf \<Longrightarrow> RelayConfig.truncate tconf = rel \<and> tc_chunk_duration tconf \<noteq> 0"
  by (auto simp: timeshift_part_def Let_def set_value_def truncate_defs config_defs split: if_splits option.splits)

lemma timeshift_part_Abort:
  "timeshift_part cv args rel = Abort \<longleftrightarrow> ArgsGetValue (cv_i64 cv) args ''timeshift_chunk_duration'' = Some 0"
  by (auto simp: timeshift_part_def Let_def set_value_def config_defs split: option.splits)

lemma vod_parts [simp]:
  "RelayConfig.truncate (set_value conv args key (\<lambda>v. vr_cleanup_ts_update (\<lambda>_. v)) (make_VodRelayConfig r)) = r"
  "EncodingConfig.truncate (set_value conv args key (\<lambda>v. ve_cleanup_ts_update (\<lambda>_. v)) (make_VodEncodeConfig e)) = e"
  by (simp_all add: set_value_def truncate_defs config_defs split: option.split)

text \<open>The audio and video part of every configuration.\<close>

fun any_av :: "'u any_config \<Rightarrow> 'u AudioVideoConfig" where
  "any_av (Any_av c) = c"
| "any_av (Any_relay c) = AudioVideoConfig.truncate c"
| "any_av (Any_vod_relay c) = AudioVideoConfig.truncate (RelayConfig.truncate c)"
| "any_av (Any_encoding c) = AudioVideoConfig.truncate c"
| "any_av (Any_vod_encode c) = AudioVideoConfig.truncate (EncodingConfig.truncate c)"
| "any_av (Any_timeshift c) = AudioVideoConfig.truncate (RelayConfig.truncate c)"

lemma any_base_av: "any_base c = Config.truncate (any_av c)"
  by (cases c) (simp_all add: truncate_defs)

text \<open>The class of a configuration fits its stream type.\<close>

fun well_classed :: "'u any_config \<Rightarrow> bool" where
  "well_classed (Any_av c) \<longleftrightarrow> cf_type c = SCREEN"
| "well_classed (Any_relay c) \<longleftrightarrow> cf_type c \<in> {RELAY, TIMESHIFT_PLAYER, TEST_LIFE}"
| "well_classed (Any_vod_relay c) \<longleftrightarrow> cf_type c = VOD_RELAY"
| "well_classed (Any_encoding c) \<longleftrightarrow> cf_type c = ENCODE"
| "well_classed (Any_vod_encode c) \<longleftrightarrow> cf_type c = VOD_ENCODE"
| "well_classed (Any_timeshift c) \<longleftrightarrow> cf_type c \<in> {TIMESHIFT_RECORDER, CATCHUP} \<and> tc_chunk_duration c \<noteq> 0"

lemma truncate_type:
  "cf_type c = cf_type (Config.truncate c)" "cf_input c = cf_input (Config.truncate c)"
  "AudioVideoConfig.truncate c' = a \<Longrightarrow> cf_type c' = cf_type a"
  "RelayConfig.truncate r = b \<Longrightarrow> cf_type r = cf_type b" "EncodingConfig.truncate e = d \<Longrightarrow> cf_type e = cf_type d"
  by (auto simp: truncate_defs)

lemma specific_config_Inr:
  assumes "specific_config E size0 args t aconf = Ret (Inr c)" "cf_type aconf = type_of t"
  shows "any_av c = aconf \<and> well_classed c"
proof -
  have rel: "cf_type (relay_part args aconf) = type_of t"
    using assms(2) truncate_type(3) [OF relay_part_av] by metis
  have enc: "cf_type (encoding_part E size0 args aconf) = type_of t"
    using assms(2) truncate_type(3) [OF encoding_part_av] by metis
  show ?thesis
    using assms rel enc
    by (auto simp: specific_config_def Let_def truncate_type(4) [OF vod_parts(1)] truncate_type(5) [OF vod_parts(2)]
        dest!: timeshift_part_av dest: truncate_type(4) split: if_splits outcome.splits)
qed

text \<open>Which configurations have no stream class.\<close>

definition unsupported :: "'u url_api \<Rightarrow> 'u any_config \<Rightarrow> bool" where
  "unsupported U c =
     (let input = cf_input (any_av c) in
      case cf_type (any_av c) of
        SCREEN \<Rightarrow> True
      | RELAY \<Rightarrow> length input > 1 \<and> (\<exists>iuri\<in>set input. url_scheme U (iu_input iuri) \<noteq> Scheme_file)
      | ENCODE \<Rightarrow> input = []
      | VOD_RELAY \<Rightarrow> \<not> AudioVideoConfig_IsVod U (any_av c)
      | VOD_ENCODE \<Rightarrow> \<not> AudioVideoConfig_IsVod U (any_av c)
      | _ \<Rightarrow> False)"

lemma foldl_conj: "foldl (\<lambda>b x. b \<and> P x) b xs \<longleftrightarrow> b \<and> (\<forall>x\<in>set xs. P x)"
  by (induction xs arbitrary: b) auto

lemma is_playlist_iff: "is_playlist U input \<longleftrightarrow> (\<forall>iuri\<in>set input. url_scheme U (iu_input iuri) = Scheme_file)"
  by (simp add: is_playlist_def foldl_conj)

lemma IsVod_truncate:
  "AudioVideoConfig_IsVod U c = AudioVideoConfig_IsVod U (AudioVideoConfig.truncate c)"
  by (simp add: AudioVideoConfig_IsVod_def truncate_defs)

lemma create_encode_Abort: "create_encode U input econfig = Abort \<longleftrightarrow> input = []"
  by (simp add: create_encode_def split: list.split)

lemma CreateStream_Abort:
  assumes "well_classed c"
  shows "CreateStream U c i = Abort \<longleftrightarrow> unsupported U c"
proof (cases c)
  case (Any_vod_relay v)
  then show ?thesis using assms IsVod_truncate [of U v]
    by (simp add: CreateStream_def unsupported_def truncate_defs)
next
  case (Any_vod_encode v)
  then show ?thesis using assms IsVod_truncate [of U v]
    by (simp add: CreateStream_def unsupported_def truncate_defs)
qed (use assms in \<open>auto simp: CreateStream_def unsupported_def Let_def truncate_defs create_relay_def is_playlist_iff
       create_encode_Abort split: if_splits\<close>)

lemma make_config_Inr:
  assumes "make_config E size0 args = Ret (Inr c)"
  obtains t where "ArgsGetValue (cv_u8 (oe_conv E)) args ''type'' = Some t" "cf_type (any_av c) = type_of t" "well_classed c"
    "read_input (oe_json E) (oe_url E) args = Some (cf_input (any_av c))" "cf_max_restart_attempts (any_av c) \<noteq> 0"
    "cf_max_restart_attempts (any_av c) = (case ArgsGetValue (cv_u64 (oe_conv E)) args ''restart_attempts'' of None \<Rightarrow> 10 | Some n \<Rightarrow> n)"
proof -
  from assms obtain t ins outs where t: "ArgsGetValue (cv_u8 (oe_conv E)) args ''type'' = Some t"
      "read_input (oe_json E) (oe_url E) args = Some ins"
      and n: "(case ArgsGetValue (cv_u64 (oe_conv E)) args ''restart_attempts'' of None \<Rightarrow> 10 | Some n \<Rightarrow> n) \<noteq> 0"
      and c: "specific_config E size0 args t (audio_video_part (oe_conv E) args
        (set_value (cv_i64 (oe_conv E)) args ''auto_exit_time'' (\<lambda>v. cf_ttl_sec_update (\<lambda>_. Some v))
          (make_Config (type_of t) (case ArgsGetValue (cv_u64 (oe_conv E)) args ''restart_attempts'' of None \<Rightarrow> 10 | Some n \<Rightarrow> n)
             ins outs))) = Ret (Inr c)"
    by (auto simp: make_config_def Let_def kDefaultRestartAttempts_def split: option.splits if_splits)
  define conf where "conf = set_value (cv_i64 (oe_conv E)) args ''auto_exit_time'' (\<lambda>v. cf_ttl_sec_update (\<lambda>_. Some v))
          (make_Config (type_of t) (case ArgsGetValue (cv_u64 (oe_conv E)) args ''restart_attempts'' of None \<Rightarrow> 10 | Some n \<Rightarrow> n)
             ins outs)"
  define a where "a = audio_video_part (oe_conv E) args conf"
  have conf: "cf_type conf = type_of t" "cf_input conf = ins"
      "cf_max_restart_attempts conf = (case ArgsGetValue (cv_u64 (oe_conv E)) args ''restart_attempts'' of None \<Rightarrow> 10 | Some n \<Rightarrow> n)"
    by (simp_all add: conf_def set_value_def make_Config_def split: option.split)
  have a: "cf_type a = cf_type conf" "cf_input a = cf_input conf" "cf_max_restart_attempts a = cf_max_restart_attempts conf"
  proof -
    have "Config.truncate a = conf" by (simp add: a_def)
    then show "cf_type a = cf_type conf" "cf_input a = cf_input conf" "cf_max_restart_attempts a = cf_max_restart_attempts conf"
      by (auto simp: Config.truncate_def)
  qed
  have "any_av c = a \<and> well_classed c"
    using specific_config_Inr [OF c [folded conf_def, folded a_def]] a(1) conf(1) by simp
  then show thesis using that t n a conf by simp
qed

text \<open>
  (C39) The class of a configuration object always fits its stream type: when the factory of
  configurations succeeds, none of the casts by which the factory of streams reads the object fails, and
  a stream object is made unless the configuration is one of the unsupported ones: a screen stream, a
  relay of several inputs that are not all files, an encoding without inputs, or a video on demand that
  loops or does not have exactly one file as its input.
\<close>

theorem config_class_fits_stream:
  assumes "make_config E size0 args = Ret (Inr c)"
  shows "well_classed c \<and> (CreateStream U c i = Abort \<longleftrightarrow> unsupported U c)"
  using assms by (rule make_config_Inr) (simp add: CreateStream_Abort)

lemma demo_config_made:
  "\<exists>c. make_config demo_opt_env (0, 0) demo_args = Ret (Inr c) \<and> cf_type (any_av c) = TIMESHIFT_RECORDER"
proof -
  have args: "ArgsGetValue (cv_u8 std_conv) demo_args ''type'' = Some 4" "type_of 4 = TIMESHIFT_RECORDER"
      "ArgsGetValue (cv_u64 std_conv) demo_args ''restart_attempts'' = None"
      "ArgsGetValue (cv_i64 std_conv) demo_args ''timeshift_chunk_duration'' = None"
    by (simp_all add: ArgsGetValue_def demo_args_def field_name_defs std_conv_def std_u_def read_dec_def is_digit_def
        digit_val_def type_of_def)
  have nz: "timeshift_part std_conv demo_args rel \<noteq> Abort" for rel :: "string RelayConfig"
    by (simp add: timeshift_part_Abort args(4))
  obtain aconf where "make_config demo_opt_env (0, 0) demo_args = specific_config demo_opt_env (0, 0) demo_args 4 aconf"
    using args demo_read_input by (simp add: make_config_def Let_def demo_opt_env_def kDefaultRestartAttempts_def)
  moreover obtain tconf where "timeshift_part std_conv demo_args (relay_part demo_args aconf) = Ret tconf"
    using nz [of "relay_part demo_args aconf"] by (cases "timeshift_part std_conv demo_args (relay_part demo_args aconf)") auto
  ultimately have "\<exists>c. make_config demo_opt_env (0, 0) demo_args = Ret (Inr c)"
    using args(2) by (simp add: specific_config_def demo_opt_env_def)
  then obtain c where c: "make_config demo_opt_env (0, 0) demo_args = Ret (Inr c)" by blast
  then obtain t where "ArgsGetValue (cv_u8 (oe_conv demo_opt_env)) demo_args ''type'' = Some t" "cf_type (any_av c) = type_of t"
    by (rule make_config_Inr)
  with c args(1,2) show ?thesis by (auto simp: demo_opt_env_def)
qed

theorem config_class_fits_stream_witness:
  "\<exists>c. make_config demo_opt_env (0, 0) demo_args = Ret (Inr c) \<and> CreateStream text_urls c 0 \<noteq> Abort"
proof -
  obtain c where c: "make_config demo_opt_env (0, 0) demo_args = Ret (Inr c)" "cf_type (any_av c) = TIMESHIFT_RECORDER"
    using demo_config_made by blast
  then have "\<not> unsupported text_urls c" by (simp add: unsupported_def)
  with config_class_fits_stream [OF c(1), of text_urls 0] c(1) show ?thesis by blast
qed

text \<open>
  A configuration of the type timeshift player is never a \<open>TimeshiftConfig\<close>, although the worker loop of
  the controller (\<open>StreamController::Exec\<close>) casts it to that class and reads its chunk duration.
\<close>

lemma timeshift_player_is_no_timeshift_config:
  assumes "make_config E size0 args = Ret (Inr c)" "cf_type (any_av c) = TIMESHIFT_PLAYER"
  shows "as_timeshift c = Abort"
proof -
  have "well_classed c" using assms(1) by (rule make_config_Inr)
  then show ?thesis using assms(2) by (cases c) (auto simp: truncate_defs)
qed

section \<open>Validated options\<close>

definition complete_options :: "('j, 'u) opt_env \<Rightarrow> ArgsMap \<Rightarrow> bool" where
  "complete_options E args = (case (ArgsGetValue (cv_u8 (oe_conv E)) args ''type'', read_input (oe_json E) (oe_url E) args) of
       (Some t, Some ins) \<Rightarrow> type_of t \<noteq> PROXY \<and>
          ((type_of t = TIMESHIFT_RECORDER \<or> type_of t = CATCHUP) \<and> length ins \<le> 1
           \<or> read_output (oe_json E) (oe_url E) args \<noteq> None)
     | _ \<Rightarrow> False)"

lemma validated_type:
  assumes "ValidateConfig E crit parse full_config = Ret args" "ArgsGetValue (cv_u8 (oe_conv E)) args ''type'' = Some t"
  shows "t \<le> 9"
proof -
  obtain v where v: "args ''type'' = Some v" "cv_u8 (oe_conv E) v = Some t" using assms(2) by (auto simp: ArgsGetValue_Some)
  have "validate_type E v = VALID" by (rule ValidateConfig_accepts [OF assms(1) v(1) option_lookups(2)])
  with v(2) show ?thesis by (simp add: validate_type_def validate_range_VALID)
qed

lemma validated_attempts:
  assumes "ValidateConfig E crit parse full_config = Ret args"
    "ArgsGetValue (cv_u64 (oe_conv E)) args ''restart_attempts'' = Some n"
  shows "n \<noteq> 0"
proof -
  obtain v where v: "args ''restart_attempts'' = Some v" "cv_u64 (oe_conv E) v = Some n"
    using assms(2) by (auto simp: ArgsGetValue_Some)
  have "validate_restart_attempts E v = VALID" by (rule ValidateConfig_accepts [OF assms(1) v(1) option_lookups(3)])
  with v(2) show ?thesis by (auto simp: validate_restart_attempts_def validate_range_VALID)
qed

lemma known_types:
  assumes "(t :: u8) \<le> 9" "type_of t \<noteq> PROXY"
  shows "type_of t \<in> {RELAY, ENCODE, TIMESHIFT_PLAYER, TIMESHIFT_RECORDER, CATCHUP, TEST_LIFE, VOD_RELAY, VOD_ENCODE, SCREEN}"
proof -
  obtain n where n: "t = of_nat n" "n \<le> 9"
    using assms(1) by (intro that [of "unat t"]) (simp_all add: word_le_nat_alt)
  then have "n = 0 \<or> n = 1 \<or> n = 2 \<or> n = 3 \<or> n = 4 \<or> n = 5 \<or> n = 6 \<or> n = 7 \<or> n = 8 \<or> n = 9" by auto
  then show ?thesis using assms(2) unfolding n(1) by (elim disjE) (simp_all add: type_of_def)
qed

lemma specific_config_outcome:
  assumes "t \<le> 9" "type_of t \<noteq> PROXY"
  shows "(\<exists>c. specific_config E size0 args t aconf = Ret (Inr c))
    \<or> specific_config E size0 args t aconf = Abort \<and> type_of t \<in> {TIMESHIFT_RECORDER, CATCHUP}
        \<and> ArgsGetValue (cv_i64 (oe_conv E)) args ''timeshift_chunk_duration'' = Some 0"
proof (cases "type_of t \<in> {TIMESHIFT_RECORDER, CATCHUP}")
  case True
  then show ?thesis
    using timeshift_part_Abort [of "oe_conv E" args "relay_part args aconf"]
    by (auto simp: specific_config_def Let_def split: outcome.split)
qed (use known_types [OF assms] in \<open>auto simp: specific_config_def Let_def\<close>)



end
