(* ===== verification/Controller.thy ===== *)
theory Controller
  imports BaseStream Timeshift Protocol Configs
begin

text \<open>
  Component \<open>stream/stream_controller\<close>: the process that keeps one stream running. Its worker
  thread loops over runs of the stream with a restart policy, while its event loop handles the
  commands of the service. The functions follow the code; the relation \<open>ctl_step\<close> interleaves the
  two threads at the points where the code synchronises: the check of the stop flag, the search for a
  chunk with its timed wait, the start and the end of a run, and the timed wait before a restart.
\<close>

section \<open>State\<close>

datatype ctl_message = Ctl_request request | Ctl_response response

record 'd controller =
  ctl_stop :: bool
  restart_attempts :: u64
  ctl_mem :: "'d StreamStruct"
  outbox :: "ctl_message list"

definition restart_after_frozen_sec :: u64 where
  "restart_after_frozen_sec = 60"

section \<open>Settings from the options\<close>

definition timeshift_times :: "'a conv_scheme \<Rightarrow> ArgsMap \<Rightarrow> TimeShiftInfo \<Rightarrow> TimeShiftInfo" where
  "timeshift_times cv args tinfo =
     (let t1 = (case ArgsGetValue (cv_i64 cv) args ''timeshift_chunk_life_time'' of None \<Rightarrow> tinfo
                | Some t \<Rightarrow> tinfo\<lparr>timeshift_chunk_life_time := t\<rparr>)
      in case ArgsGetValue (cv_i64 cv) args ''timeshift_delay'' of None \<Rightarrow> t1
         | Some d \<Rightarrow> t1\<lparr>timeshift_delay := d\<rparr>)"

definition make_timeshift_info :: "'a conv_scheme \<Rightarrow> bool \<Rightarrow> ArgsMap \<Rightarrow> TimeShiftInfo outcome" where
  "make_timeshift_info cv crit args =
     (case ArgsGetValue ConvertFromString_string args ''timeshift_dir'' of
        None \<Rightarrow> if crit then Abort else Ret (timeshift_times cv args TimeShiftInfo0)
      | Some dir \<Rightarrow> Ret (timeshift_times cv args (TimeShiftInfo0\<lparr>timshift_dir := dir\<rparr>)))"

section \<open>Reports to the service\<close>

fun stable_double :: "f64 \<Rightarrow> f64" where
  "stable_double (F64 q) = F64 q"
| "stable_double _ = F64 0"

text \<open>\<open>rss\<close> is the size of the process in pages of 1024 bytes.\<close>

definition PrepareStatus ::
  "'j json \<Rightarrow> ('d \<Rightarrow> string) \<Rightarrow> f64 \<Rightarrow> u64 \<Rightarrow> timestamp_t \<Rightarrow> 'd StreamStruct \<Rightarrow> string option" where
  "PrepareStatus J dbps_str load rss current_time stats =
     (case StatisticInfo_Serialize J dbps_str
        \<lparr>stream_struct = stats, cpu_load = stable_double load, rss_bytes = rss * 1024, timestamp = current_time\<rparr> of
        Inl err \<Rightarrow> None
      | Inr j \<Rightarrow> Some (js_print J j))"

text \<open>\<open>prep\<close> is \<open>PrepareStatus\<close> with the readings of the moment.\<close>

definition DumpStreamStatus :: "('d StreamStruct \<Rightarrow> string option) \<Rightarrow> 'd controller \<Rightarrow> 'd controller" where
  "DumpStreamStatus prep c = (case prep (ctl_mem c) of
       None \<Rightarrow> c
     | Some status_json \<Rightarrow> c\<lparr>outbox := outbox c @ [Ctl_request (StatisticStreamBroadcast status_json)]\<rparr>)"

lemma DumpStreamStatus_simps [simp]:
  "restart_attempts (DumpStreamStatus prep c) = restart_attempts c" "ctl_stop (DumpStreamStatus prep c) = ctl_stop c"
  "ctl_mem (DumpStreamStatus prep c) = ctl_mem c"
  by (simp_all add: DumpStreamStatus_def split: option.splits)

section \<open>The worker loop\<close>

text \<open>
  Waiting for a chunk of a delayed playback: one entry for each search, with the result of
  \<open>FindChunkToPlay\<close> and whether the wait after a failed search ended by a notification. The result
  is the chosen index, \<open>invalid_chunk_index\<close> when none was found; \<open>None\<close> while the wait goes on.
\<close>

definition search_failed :: "('d StreamStruct \<Rightarrow> string option) \<Rightarrow> 'd controller \<Rightarrow> 'd controller" where
  "search_failed prep c = DumpStreamStatus prep (c\<lparr>ctl_mem := (ctl_mem c)\<lparr>status := WAITING\<rparr>\<rparr>)"

definition search_interrupted :: "'d controller \<Rightarrow> 'd controller" where
  "search_interrupted c = c\<lparr>ctl_mem := (ctl_mem c)\<lparr>restarts := restarts (ctl_mem c) + 1\<rparr>\<rparr>"

fun find_start_chunk ::
  "('d StreamStruct \<Rightarrow> string option) \<Rightarrow> (chunk_index_t option \<times> bool) list \<Rightarrow> 'd controller
     \<Rightarrow> (chunk_index_t \<times> 'd controller) option" where
  "find_start_chunk prep [] c = None"
| "find_start_chunk prep ((Some i, _) # rs) c = Some (i, c)"
| "find_start_chunk prep ((None, notified) # rs) c =
     (if notified then Some (invalid_chunk_index, search_interrupted (search_failed prep c))
      else find_start_chunk prep rs (search_failed prep c))"

datatype after_run = Break | Go_on | Wait_for u64

text \<open>
  The end of a run: from the exit status of the stream to the next action of the loop. The
  division by the number of attempts is undefined for zero.
\<close>

definition after_exec ::
  "('d StreamStruct \<Rightarrow> string option) \<Rightarrow> u64 \<Rightarrow> bool \<Rightarrow> ExitStatus \<Rightarrow> timestamp_t \<Rightarrow> 'd controller
     \<Rightarrow> (after_run \<times> 'd controller) outcome" where
  "after_exec prep max_attempts is_vod res now c =
     (if is_vod then Ret (Break, c)
      else if res \<noteq> EXIT_INNER then Ret (Go_on, c\<lparr>restart_attempts := 0\<rparr>)
      else if WithoutRestartTime now (ctl_mem c) sdiv 1000 > uint restart_after_frozen_sec * 10
        then Ret (Go_on, c\<lparr>restart_attempts := 0\<rparr>)
      else
        (let c1 = c\<lparr>restart_attempts := restart_attempts c + 1\<rparr> in
         if restart_attempts c1 = max_attempts then
           Ret (Wait_for restart_after_frozen_sec,
                DumpStreamStatus prep (c1\<lparr>restart_attempts := 0, ctl_mem := (ctl_mem c1)\<lparr>status := FROZEN\<rparr>\<rparr>))
         else if max_attempts = 0 then Abort
         else Ret (Wait_for (restart_attempts c1 * (restart_after_frozen_sec div max_attempts)), c1)))"

definition after_wait :: "bool \<Rightarrow> 'd controller \<Rightarrow> 'd controller" where
  "after_wait notified c = (if notified then c\<lparr>restart_attempts := 0\<rparr> else c)"

text \<open>One pass of the loop, with what the environment answers in it.\<close>

record 'd round =
  rd_player :: bool
  rd_searches :: "(chunk_index_t option \<times> bool) list"
  rd_created :: bool
  rd_exit :: ExitStatus
  rd_mem :: "'d StreamStruct"
  rd_end :: timestamp_t
  rd_notified :: bool

definition type_is_vod :: "StreamType \<Rightarrow> bool" where
  "type_is_vod t \<longleftrightarrow> t = VOD_ENCODE \<or> t = VOD_RELAY"

definition run_and_wait ::
  "('d StreamStruct \<Rightarrow> string option) \<Rightarrow> bool \<Rightarrow> u64 \<Rightarrow> 'd round \<Rightarrow> 'd controller \<Rightarrow> (bool \<times> 'd controller) outcome" where
  "run_and_wait prep crit max_attempts rd c =
     (if \<not> rd_created rd then (if crit then Abort else Ret (False, c))
      else
        (let is_vod = type_is_vod (ss_type (ctl_mem c)); c1 = c\<lparr>ctl_mem := rd_mem rd\<rparr> in
         case after_exec prep max_attempts is_vod (rd_exit rd) (rd_end rd) c1 of
           Abort \<Rightarrow> Abort
         | Ret (Break, c2) \<Rightarrow> Ret (False, c2)
         | Ret (Go_on, c2) \<Rightarrow> Ret (True, c2)
         | Ret (Wait_for w, c2) \<Rightarrow> Ret (True, after_wait (rd_notified rd) c2)))"

definition exec_round ::
  "('d StreamStruct \<Rightarrow> string option) \<Rightarrow> bool \<Rightarrow> u64 \<Rightarrow> 'd round \<Rightarrow> 'd controller
     \<Rightarrow> (bool \<times> 'd controller) outcome option" where
  "exec_round prep crit max_attempts rd c =
     (if rd_player rd then
        (case find_start_chunk prep (rd_searches rd) c of
           None \<Rightarrow> None
         | Some (i, c1) \<Rightarrow>
             if i = invalid_chunk_index then Some (Ret (True, c1))
             else Some (run_and_wait prep crit max_attempts rd c1))
      else Some (run_and_wait prep crit max_attempts rd c))"

text \<open>The loop of \<open>Exec\<close> over the rounds; \<open>None\<close> while it has not returned.\<close>

fun exec_loop ::
  "('d StreamStruct \<Rightarrow> string option) \<Rightarrow> bool \<Rightarrow> u64 \<Rightarrow> ('d round \<times> bool) list \<Rightarrow> 'd controller
     \<Rightarrow> 'd controller outcome option" where
  "exec_loop prep crit max_attempts [] c = (if ctl_stop c then Some (Ret c) else None)"
| "exec_loop prep crit max_attempts ((rd, stopped) # rs) c =
     (if ctl_stop c then Some (Ret c)
      else case exec_round prep crit max_attempts rd c of
        None \<Rightarrow> None
      | Some Abort \<Rightarrow> Some Abort
      | Some (Ret (False, c1)) \<Rightarrow> Some (Ret c1)
      | Some (Ret (True, c1)) \<Rightarrow>
          exec_loop prep crit max_attempts rs (if stopped then c1\<lparr>ctl_stop := True\<rparr> else c1))"

section \<open>The restart policy\<close>

lemma wait_bound:
  assumes "a < m" "0 < (m :: u64)"
  shows "a * (60 div m) \<le> 60"
proof -
  have "unat a * (60 div unat m) \<le> unat m * (60 div unat m)"
    using assms(1) by (intro mult_right_mono) (simp_all add: word_less_nat_alt)
  also have "\<dots> \<le> 60" by (rule times_div_less_eq_dividend)
  finally have b: "unat a * (60 div unat m) \<le> 60" .
  have "unat (60 div m) = 60 div unat m" by (simp add: unat_div)
  then have "unat (a * (60 div m)) = (unat a * (60 div unat m)) mod 2 ^ 64"
    by (simp add: unat_word_ariths)
  also have "\<dots> = unat a * (60 div unat m)" using b by simp
  finally show ?thesis using b by (simp add: word_le_nat_alt)
qed

lemma succ_less: "a < m \<Longrightarrow> a + 1 \<noteq> m \<Longrightarrow> a + 1 < (m :: u64)"
  by (metis inc_le order_le_imp_less_or_eq)

lemma after_exec_bounds:
  assumes "0 < m" "restart_attempts c < m"
  shows "\<exists>a c'. after_exec prep m vod res now c = Ret (a, c') \<and> restart_attempts c' < m
     \<and> (\<forall>w. a = Wait_for w \<longrightarrow> w \<le> 60) \<and> ctl_stop c' = ctl_stop c"
proof (cases "restart_attempts c + 1 = m")
  case True
  with assms show ?thesis by (simp add: after_exec_def Let_def restart_after_frozen_sec_def)
next
  case False
  with succ_less [OF assms(2) False] wait_bound [of "restart_attempts c + 1" m] assms show ?thesis
    by (auto simp: after_exec_def Let_def restart_after_frozen_sec_def)
qed

section \<open>Two threads\<close>

text \<open>
  Where the worker thread is: at the check of the stop flag, in the search for a chunk of a timeshift
  player, in the timed wait after a failed search, in a run whose main loop is not yet running, in the
  main loop, between the end of a run and the timed wait before the next one, in that wait, or out
  of the loop. A command that comes between the report of a failed search and its wait has the effect
  of one that comes during the search, and a spurious end of a wait that of a restart.
\<close>

datatype phase = At_check | Searching | Chunk_wait int | Starting | Running | Before_wait u64 | Waiting u64 | Finished

text \<open>
  \<open>cs_chunk_duration\<close> is the chunk duration that \<open>Exec\<close> reads of the configuration of a timeshift player. It
  casts the configuration to \<open>TimeshiftConfig\<close>; of an object of another class it reads \<open>stray\<close>, the content of
  the memory behind that object.
\<close>

record 'd cstate =
  ph :: phase
  ctl :: "'d controller"
  cs_chunk_duration :: "int option"

definition player_chunk_duration :: "int \<Rightarrow> 'u any_config \<Rightarrow> int option" where
  "player_chunk_duration stray conf = (if cf_type (any_av conf) = TIMESHIFT_PLAYER
     then Some (case as_timeshift conf of Abort \<Rightarrow> stray | Ret tconfig \<Rightarrow> tc_chunk_duration tconfig) else None)"

fun next_phase :: "after_run \<Rightarrow> phase" where
  "next_phase Break = Finished"
| "next_phase Go_on = At_check"
| "next_phase (Wait_for w) = Before_wait w"

definition leave_run ::
  "('d StreamStruct \<Rightarrow> string option) \<Rightarrow> u64 \<Rightarrow> ExitStatus \<Rightarrow> timestamp_t \<Rightarrow> 'd cstate \<Rightarrow> 'd cstate outcome" where
  "leave_run prep max_attempts res now s =
     (case after_exec prep max_attempts (type_is_vod (ss_type (ctl_mem (ctl s)))) res now (ctl s) of
        Abort \<Rightarrow> Abort | Ret (a, c) \<Rightarrow> Ret (s\<lparr>ph := next_phase a, ctl := c\<rparr>))"

text \<open>
  \<open>notify_all\<close> ends a wait and is lost when nobody waits; \<open>StopStream\<close> posts the exit command to the
  stream, which its main loop obeys and which is lost on a stream whose main loop does not run yet.
\<close>

definition notify_and_quit ::
  "('d StreamStruct \<Rightarrow> string option) \<Rightarrow> u64 \<Rightarrow> timestamp_t \<Rightarrow> 'd cstate \<Rightarrow> 'd cstate outcome" where
  "notify_and_quit prep max_attempts now s = (case ph s of
       Waiting w \<Rightarrow> Ret (s\<lparr>ph := At_check, ctl := after_wait True (ctl s)\<rparr>)
     | Chunk_wait d \<Rightarrow> Ret (s\<lparr>ph := At_check, ctl := search_interrupted (ctl s)\<rparr>)
     | Running \<Rightarrow> leave_run prep max_attempts EXIT_SELF now s
     | _ \<Rightarrow> Ret s)"

definition controller_Stop ::
  "('d StreamStruct \<Rightarrow> string option) \<Rightarrow> u64 \<Rightarrow> timestamp_t \<Rightarrow> 'd cstate \<Rightarrow> 'd cstate outcome" where
  "controller_Stop prep max_attempts now s =
     notify_and_quit prep max_attempts now (s\<lparr>ctl := (ctl s)\<lparr>ctl_stop := True\<rparr>\<rparr>)"

definition controller_Restart ::
  "('d StreamStruct \<Rightarrow> string option) \<Rightarrow> u64 \<Rightarrow> timestamp_t \<Rightarrow> 'd cstate \<Rightarrow> 'd cstate outcome" where
  "controller_Restart prep max_attempts now s = notify_and_quit prep max_attempts now s"

inductive ctl_step :: "('d StreamStruct \<Rightarrow> string option) \<Rightarrow> u64 \<Rightarrow> 'd cstate \<Rightarrow> 'd cstate \<Rightarrow> bool"
  for prep max_attempts where
  leave: "ph s = At_check \<Longrightarrow> ctl_stop (ctl s) \<Longrightarrow> ctl_step prep max_attempts s (s\<lparr>ph := Finished\<rparr>)"
| create: "ph s = At_check \<Longrightarrow> \<not> ctl_stop (ctl s) \<Longrightarrow> cs_chunk_duration s = None \<Longrightarrow>
     ctl_step prep max_attempts s (s\<lparr>ph := Starting\<rparr>)"
| search: "ph s = At_check \<Longrightarrow> \<not> ctl_stop (ctl s) \<Longrightarrow> cs_chunk_duration s = Some d \<Longrightarrow>
     ctl_step prep max_attempts s (s\<lparr>ph := Searching\<rparr>)"
| found: "ph s = Searching \<Longrightarrow>
     ctl_step prep max_attempts s (s\<lparr>ph := (if i = invalid_chunk_index then At_check else Starting)\<rparr>)"
| not_found: "ph s = Searching \<Longrightarrow> cs_chunk_duration s = Some d \<Longrightarrow>
     ctl_step prep max_attempts s (s\<lparr>ph := Chunk_wait d, ctl := search_failed prep (ctl s)\<rparr>)"
| search_again: "ph s = Chunk_wait d \<Longrightarrow> ctl_step prep max_attempts s (s\<lparr>ph := Searching\<rparr>)"
| not_created: "ph s = Starting \<Longrightarrow> ctl_step prep max_attempts s (s\<lparr>ph := Finished\<rparr>)"
| no_pipeline: "ph s = Starting \<Longrightarrow> leave_run prep max_attempts EXIT_INNER now s = Ret s' \<Longrightarrow>
     ctl_step prep max_attempts s s'"
| loop_up: "ph s = Starting \<Longrightarrow> ctl_step prep max_attempts s (s\<lparr>ph := Running\<rparr>)"
| stream_exit: "ph s = Running \<Longrightarrow> leave_run prep max_attempts res now s = Ret s' \<Longrightarrow>
     ctl_step prep max_attempts s s'"
| stats: "ph s = Starting \<or> ph s = Running \<Longrightarrow> ctl_step prep max_attempts s (s\<lparr>ctl := (ctl s)\<lparr>ctl_mem := m\<rparr>\<rparr>)"
| wait: "ph s = Before_wait w \<Longrightarrow> ctl_step prep max_attempts s (s\<lparr>ph := Waiting w\<rparr>)"
| timeout: "ph s = Waiting w \<Longrightarrow> ctl_step prep max_attempts s (s\<lparr>ph := At_check\<rparr>)"
| stop: "controller_Stop prep max_attempts now s = Ret s' \<Longrightarrow> ctl_step prep max_attempts s s'"
| restart: "controller_Restart prep max_attempts now s = Ret s' \<Longrightarrow> ctl_step prep max_attempts s s'"

inductive_cases ctl_stepE: "ctl_step prep max_attempts s s'"

inductive reaches :: "('d StreamStruct \<Rightarrow> string option) \<Rightarrow> u64 \<Rightarrow> 'd cstate \<Rightarrow> 'd cstate \<Rightarrow> bool"
  for prep max_attempts s where
  start: "reaches prep max_attempts s s"
| step: "reaches prep max_attempts s s1 \<Longrightarrow> ctl_step prep max_attempts s1 s2 \<Longrightarrow> reaches prep max_attempts s s2"

definition ctl_inv :: "u64 \<Rightarrow> 'd cstate \<Rightarrow> bool" where
  "ctl_inv max_attempts s \<longleftrightarrow> restart_attempts (ctl s) < max_attempts
     \<and> (\<forall>w. ph s = Before_wait w \<or> ph s = Waiting w \<longrightarrow> w \<le> 60)
     \<and> (\<forall>d. ph s = Chunk_wait d \<longrightarrow> cs_chunk_duration s = Some d)"

lemma leave_run_inv:
  assumes "0 < m" "ctl_inv m s"
  shows "\<exists>s'. leave_run prep m res now s = Ret s' \<and> ctl_inv m s' \<and> ctl_stop (ctl s') = ctl_stop (ctl s)
     \<and> cs_chunk_duration s' = cs_chunk_duration s"
proof -
  let ?v = "type_is_vod (ss_type (ctl_mem (ctl s)))"
  obtain a c' where r: "after_exec prep m ?v res now (ctl s) = Ret (a, c')" "restart_attempts c' < m"
    "\<forall>w. a = Wait_for w \<longrightarrow> w \<le> 60" "ctl_stop c' = ctl_stop (ctl s)"
    using after_exec_bounds [OF assms(1), of "ctl s" prep ?v res now] assms(2) by (auto simp: ctl_inv_def)
  then show ?thesis by (cases a) (simp_all add: leave_run_def ctl_inv_def)
qed

lemma notify_inv:
  assumes "0 < m" "ctl_inv m s"
  shows "\<exists>s'. notify_and_quit prep m now s = Ret s' \<and> ctl_inv m s' \<and> ctl_stop (ctl s') = ctl_stop (ctl s)
     \<and> cs_chunk_duration s' = cs_chunk_duration s"
  using leave_run_inv [OF assms] assms
  by (auto simp: notify_and_quit_def ctl_inv_def after_wait_def search_interrupted_def split: phase.splits)

lemma ctl_step_inv:
  "ctl_step prep m s s' \<Longrightarrow> 0 < m \<Longrightarrow> ctl_inv m s \<Longrightarrow> ctl_inv m s' \<and> cs_chunk_duration s' = cs_chunk_duration s"
proof (induction rule: ctl_step.induct)
  case (no_pipeline s now s')
  then show ?case using leave_run_inv [of m s prep EXIT_INNER now] by auto
next
  case (stream_exit s res now s')
  then show ?case using leave_run_inv [of m s prep res now] by auto
next
  case (stop now s s')
  have "ctl_inv m (s\<lparr>ctl := (ctl s)\<lparr>ctl_stop := True\<rparr>\<rparr>)" using stop(3) by (simp add: ctl_inv_def)
  from notify_inv [OF stop(2) this, of prep now] stop(1) show ?case by (auto simp: controller_Stop_def)
next
  case (restart now s s')
  then show ?case using notify_inv [OF restart(2,3), of prep now] by (auto simp: controller_Restart_def)
qed (auto simp: ctl_inv_def search_failed_def)

lemma reaches_inv:
  "reaches prep m s s' \<Longrightarrow> 0 < m \<Longrightarrow> ctl_inv m s \<Longrightarrow> ctl_inv m s' \<and> cs_chunk_duration s' = cs_chunk_duration s"
  by (induction rule: reaches.induct) (auto dest: ctl_step_inv)

section \<open>Commands\<close>

text \<open>What the pipe to the service delivers.\<close>

datatype incoming = Read_failed errno_error | Parse_failed error | Got_request request | Got_response seq_id
  | Got_neither

definition reply :: "response \<Rightarrow> 'd cstate \<Rightarrow> 'd cstate" where
  "reply r s = s\<lparr>ctl := (ctl s)\<lparr>outbox := outbox (ctl s) @ [Ctl_response r]\<rparr>\<rparr>"

definition HandleRequestCommand ::
  "('d StreamStruct \<Rightarrow> string option) \<Rightarrow> u64 \<Rightarrow> timestamp_t \<Rightarrow> request \<Rightarrow> 'd cstate \<Rightarrow> 'd cstate outcome" where
  "HandleRequestCommand prep m now req s =
     (if rq_method req = STOP_STREAM then
        controller_Stop prep m now (reply (StopStreamResponceSuccess (rq_id req)) s)
      else if rq_method req = RESTART_STREAM then
        controller_Restart prep m now (reply (RestartStreamResponceSuccess (rq_id req)) s)
      else Ret s)"

text \<open>The result is the error \<open>StreamDataRecived\<close> returns, with the state after it.\<close>

definition StreamDataRecived ::
  "('d StreamStruct \<Rightarrow> string option) \<Rightarrow> u64 \<Rightarrow> timestamp_t \<Rightarrow> incoming \<Rightarrow> 'd cstate
     \<Rightarrow> (errno_error option \<times> 'd cstate) outcome" where
  "StreamDataRecived prep m now input s = (case input of
       Read_failed err \<Rightarrow> Ret (Some err, s)
     | Parse_failed err \<Rightarrow> Ret (Some (Errno_error (GetDescription err) EAGAIN), s)
     | Got_request req \<Rightarrow>
        (case HandleRequestCommand prep m now req s of Abort \<Rightarrow> Abort | Ret s1 \<Rightarrow> Ret (None, s1))
     | Got_response i \<Rightarrow> Ret (None, s)
     | Got_neither \<Rightarrow> Ret (Some (Errno_error ''Invalid command type.'' EINVAL), s))"

definition controller_DataReceived ::
  "('d StreamStruct \<Rightarrow> string option) \<Rightarrow> u64 \<Rightarrow> timestamp_t \<Rightarrow> incoming \<Rightarrow> 'd cstate \<Rightarrow> 'd cstate outcome" where
  "controller_DataReceived prep m now input s = (case StreamDataRecived prep m now input s of
       Abort \<Rightarrow> Abort
     | Ret (None, s1) \<Rightarrow> Ret s1
     | Ret (Some err, s1) \<Rightarrow> controller_Stop prep m now s1)"

definition controller_Closed ::
  "('d StreamStruct \<Rightarrow> string option) \<Rightarrow> u64 \<Rightarrow> timestamp_t \<Rightarrow> 'd cstate \<Rightarrow> 'd cstate outcome" where
  "controller_Closed prep m now s = controller_Stop prep m now s"

text \<open>\<open>TimerEmited\<close>: the only timer of the controller is the time to live of the stream.\<close>

definition controller_TimerEmited ::
  "('d StreamStruct \<Rightarrow> string option) \<Rightarrow> u64 \<Rightarrow> timestamp_t \<Rightarrow> nat \<Rightarrow> nat \<Rightarrow> 'd cstate \<Rightarrow> 'd cstate outcome" where
  "controller_TimerEmited prep m now ttl_master_timer timer_id s =
     (if timer_id = ttl_master_timer then controller_Stop prep m now s else Ret s)"

definition ttl_timer_created :: "u64 option \<Rightarrow> bool" where
  "ttl_timer_created ttl_sec = (case ttl_sec of None \<Rightarrow> False | Some t \<Rightarrow> t \<noteq> 0)"

text \<open>Notifications the stream passes on; an input that cannot be written as JSON is dropped.\<close>

definition controller_OnInputChanged :: "(string \<Rightarrow> error + string) \<Rightarrow> 'd controller \<Rightarrow> 'd controller" where
  "controller_OnInputChanged changed_info c = (case changed_info (ss_id (ctl_mem c)) of
       Inl err \<Rightarrow> c
     | Inr changed_json \<Rightarrow> c\<lparr>outbox := outbox c @ [Ctl_request (ChangedSourcesStreamBroadcast changed_json)]\<rparr>)"

definition NextRequestID :: "(u64 \<Rightarrow> string) \<Rightarrow> u64 \<Rightarrow> seq_id \<times> u64" where
  "NextRequestID MakeRequestID next_id = (Some (MakeRequestID next_id), next_id + 1)"

section \<open>Properties of the controller\<close>

text \<open>
  (C12) The restart policy of a configured stream is bounded in every interleaving of the worker with
  the commands of the service. For a configuration that the factory made, the count of attempts stays
  below the configured number, which is not zero, the wait before a restart is at most 60 seconds, and the
  computation at the end of a run does not fail. Only a timeshift player has another wait, after a failed
  search for a chunk. The factory gives players no chunk duration, so this wait lasts as long as the memory
  says that the cast of the configuration to \<open>TimeshiftConfig\<close> reads.
\<close>

theorem restart_policy_bounded:
  assumes "make_config E size0 args = Ret (Inr conf)" "m = cf_max_restart_attempts (any_av conf)"
    "ph s = At_check" "restart_attempts (ctl s) = 0" "cs_chunk_duration s = player_chunk_duration stray conf"
    "reaches prep m s s'"
  shows "restart_attempts (ctl s') < m \<and> (\<forall>w. ph s' = Before_wait w \<or> ph s' = Waiting w \<longrightarrow> w \<le> 60)
     \<and> (\<forall>d. ph s' = Chunk_wait d \<longrightarrow> cf_type (any_av conf) = TIMESHIFT_PLAYER \<and> d = stray)
     \<and> (\<exists>t. leave_run prep m res now s' = Ret t)"
proof -
  have m: "0 < m" using make_config_Inr [OF assms(1)] assms(2) by (metis word_neq_0_conv)
  have "ctl_inv m s" using m assms(3,4) by (simp add: ctl_inv_def)
  moreover have "player_chunk_duration stray conf = Some d \<Longrightarrow> cf_type (any_av conf) = TIMESHIFT_PLAYER \<and> d = stray" for d
    using timeshift_player_is_no_timeshift_config [OF assms(1)] by (auto simp: player_chunk_duration_def split: if_splits)
  ultimately show ?thesis using reaches_inv [OF assms(6) m] leave_run_inv [OF m, of s' prep res now] assms(5)
    by (auto simp: ctl_inv_def)
qed

definition demo_cstate :: "phase \<Rightarrow> unit cstate" where
  "demo_cstate p = \<lparr>ph = p, ctl = \<lparr>ctl_stop = False, restart_attempts = 0,
     ctl_mem = make_StreamStruct () \<lparr>si_id = ''s'', si_type = RELAY, si_input = [0], si_output = [0]\<rparr> 0 0 0, outbox = []\<rparr>,
     cs_chunk_duration = None\<rparr>"

text \<open>The first step of a stream of the configuration \<open>demo_args\<close>.\<close>

theorem restart_policy_bounded_witness:
  "\<exists>conf. make_config demo_opt_env (0, 0) demo_args = Ret (Inr conf)
     \<and> restart_attempts (ctl ((demo_cstate At_check)\<lparr>ph := Starting\<rparr>)) < cf_max_restart_attempts (any_av conf)"
proof -
  obtain conf where conf: "make_config demo_opt_env (0, 0) demo_args = Ret (Inr conf)" "cf_type (any_av conf) = TIMESHIFT_RECORDER"
    using demo_config_made by blast
  then have d: "cs_chunk_duration (demo_cstate At_check) = player_chunk_duration 0 conf"
    by (simp add: player_chunk_duration_def demo_cstate_def)
  have "reaches (\<lambda>_. None) (cf_max_restart_attempts (any_av conf)) (demo_cstate At_check) ((demo_cstate At_check)\<lparr>ph := Starting\<rparr>)"
    by (rule reaches.step [OF reaches.start create]) (simp_all add: demo_cstate_def)
  from restart_policy_bounded [OF conf(1) refl _ _ d this] conf(1) show ?thesis by (auto simp: demo_cstate_def)
qed

text \<open>
  A series of failing runs with undisturbed waits between them: each run ends at a time with the
  statistics it leaves in the shared memory.
\<close>

fun short_failures ::
  "('d StreamStruct \<Rightarrow> string option) \<Rightarrow> u64 \<Rightarrow> (timestamp_t \<times> 'd StreamStruct) list \<Rightarrow> 'd controller
     \<Rightarrow> (after_run list \<times> 'd controller) outcome" where
  "short_failures prep m [] c = Ret ([], c)"
| "short_failures prep m ((now, mem) # rs) c = (case after_exec prep m False EXIT_INNER now (c\<lparr>ctl_mem := mem\<rparr>) of
       Abort \<Rightarrow> Abort
     | Ret (a, c1) \<Rightarrow> (case short_failures prep m rs (after_wait False c1) of
         Abort \<Rightarrow> Abort | Ret (as, c2) \<Rightarrow> Ret (a # as, c2)))"

definition short_run :: "timestamp_t \<times> 'd StreamStruct \<Rightarrow> bool" where
  "short_run r \<longleftrightarrow> WithoutRestartTime (fst r) (snd r) sdiv 1000 \<le> 600"

lemma frozen_limit [simp]: "uint restart_after_frozen_sec * 10 = 600"
  by (simp add: restart_after_frozen_sec_def)

lemma short_failure_step:
  assumes "WithoutRestartTime now (ctl_mem c) sdiv 1000 \<le> 600" "restart_attempts c = of_nat k" "Suc k < unat m"
  shows "after_exec prep m False EXIT_INNER now c
     = Ret (Wait_for (of_nat (Suc k) * (60 div m)), c\<lparr>restart_attempts := of_nat (Suc k)\<rparr>)"
proof -
  have "unat (of_nat (Suc k) :: u64) = Suc k"
    using assms(3) unsigned_less [of m, where ?'a = nat] by (intro unat_of_nat_small) simp
  then have "of_nat (Suc k) \<noteq> m" using assms(3) by auto
  moreover have "m \<noteq> 0" using assms(3) by auto
  moreover have "of_nat k + 1 = (of_nat (Suc k) :: u64)" by simp
  ultimately show ?thesis using assms(1,2)
    by (simp add: after_exec_def Let_def del: of_nat_Suc) (simp add: restart_after_frozen_sec_def)
qed

lemma short_failure_last:
  assumes "WithoutRestartTime now (ctl_mem c) sdiv 1000 \<le> 600" "restart_attempts c = of_nat k" "Suc k = unat m"
  shows "after_exec prep m False EXIT_INNER now c
     = Ret (Wait_for 60, DumpStreamStatus prep (c\<lparr>restart_attempts := 0, ctl_mem := (ctl_mem c)\<lparr>status := FROZEN\<rparr>\<rparr>))"
proof -
  have "m = of_nat (unat m)" by simp
  also have "\<dots> = of_nat k + 1" unfolding assms(3) [symmetric] by simp
  finally show ?thesis using assms(1,2)
    by (simp add: after_exec_def Let_def) (simp add: restart_after_frozen_sec_def)
qed

lemma short_failures_wait:
  "\<forall>r\<in>set rs. short_run r \<Longrightarrow> restart_attempts c = of_nat k \<Longrightarrow> k + length rs < unat m \<Longrightarrow>
   short_failures prep m rs c = Ret (map (\<lambda>i. Wait_for (of_nat i * (60 div m))) [Suc k..<Suc (k + length rs)],
     c\<lparr>restart_attempts := of_nat (k + length rs), ctl_mem := last (ctl_mem c # map snd rs)\<rparr>)"
proof (induction rs arbitrary: k c)
  case Nil
  then show ?case by simp
next
  case (Cons r rs)
  obtain now mem where r: "r = (now, mem)" by (cases r)
  let ?c = "c\<lparr>ctl_mem := mem, restart_attempts := of_nat (Suc k)\<rparr>"
  have step: "after_exec prep m False EXIT_INNER now (c\<lparr>ctl_mem := mem\<rparr>) = Ret (Wait_for (of_nat (Suc k) * (60 div m)), ?c)"
    using short_failure_step [of now "c\<lparr>ctl_mem := mem\<rparr>" k m prep] Cons.prems by (simp add: r short_run_def)
  have rest: "short_failures prep m rs ?c = Ret (map (\<lambda>i. Wait_for (of_nat i * (60 div m))) [Suc (Suc k)..<Suc (Suc k + length rs)],
     ?c\<lparr>restart_attempts := of_nat (Suc k + length rs), ctl_mem := last (ctl_mem ?c # map snd rs)\<rparr>)"
    by (rule Cons.IH) (use Cons.prems in simp_all)
  have l: "[Suc k..<Suc (k + length (r # rs))] = Suc k # [Suc (Suc k)..<Suc (Suc k + length rs)]"
    by (subst upt_conv_Cons) simp_all
  show ?case unfolding l using rest
    by (simp add: r step after_wait_def del: upt_Suc upt.simps of_nat_Suc of_nat_add)
qed

lemma short_failures_snoc:
  "short_failures prep m rs c = Ret (as, c1) \<Longrightarrow> after_exec prep m False EXIT_INNER now (c1\<lparr>ctl_mem := mem\<rparr>) = Ret (a, c2)
   \<Longrightarrow> short_failures prep m (rs @ [(now, mem)]) c = Ret (as @ [a], c2)"
  by (induction rs arbitrary: c as) (auto simp: after_wait_def split: outcome.splits prod.splits)

lemma share_no_wrap:
  assumes "i < unat m"
  shows "unat (of_nat i * (60 div m) :: u64) = i * (60 div unat m)"
proof -
  have i: "unat (of_nat i :: u64) = i"
    using assms unsigned_less [of m, where ?'a = nat] by (intro unat_of_nat_small) simp
  have "i * (60 div unat m) \<le> unat m * (60 div unat m)" using assms by (intro mult_right_mono) simp_all
  also have "\<dots> \<le> 60" by (rule times_div_less_eq_dividend)
  finally have b: "i * (60 div unat m) \<le> 60" .
  have "60 div unat m < 2 ^ 64" by (rule le_less_trans [OF div_le_dividend]) simp
  with b show ?thesis by (simp add: unat_word_ariths unat_div i)
qed

text \<open>
  (C13) A stream that keeps failing shortly after its start is retried and then frozen. From a fresh
  count, the k-th failure waits k shares of 60 seconds, one share being 60 divided by the configured
  number of attempts and rounded down, without wrap-around (zero for more than 60 attempts). Each
  failure before the last one counts one attempt, leaves the statistics as the run left them and
  reports nothing. The failure that uses up the attempts, and no earlier one, marks the stream as frozen,
  reports this, waits the full 60 seconds and starts the count anew.
\<close>

theorem failing_stream_is_frozen:
  assumes "restart_attempts c = 0" "length runs = unat m" "0 < m" "\<forall>r\<in>set runs. short_run r"
  shows "(\<forall>k<unat m. short_failures prep m (take k runs) c = Ret (map (\<lambda>i. Wait_for (of_nat i * (60 div m))) [1..<Suc k],
          c\<lparr>restart_attempts := of_nat k, ctl_mem := last (ctl_mem c # map snd (take k runs))\<rparr>))
    \<and> short_failures prep m runs c = Ret (map (\<lambda>i. Wait_for (of_nat i * (60 div m))) [1..<unat m] @ [Wait_for 60],
          DumpStreamStatus prep (c\<lparr>restart_attempts := 0, ctl_mem := (snd (last runs))\<lparr>status := FROZEN\<rparr>\<rparr>))
    \<and> (\<forall>i<unat m. unat (of_nat i * (60 div m) :: u64) = i * (60 div unat m))"
proof -
  have before: "short_failures prep m (take k runs) c = Ret (map (\<lambda>i. Wait_for (of_nat i * (60 div m))) [1..<Suc k],
      c\<lparr>restart_attempts := of_nat k, ctl_mem := last (ctl_mem c # map snd (take k runs))\<rparr>)" if "k < unat m" for k
  proof -
    have "\<forall>r\<in>set (take k runs). short_run r" using assms(4) by (meson in_set_takeD)
    from short_failures_wait [OF this, of c 0 m prep] show ?thesis using that assms(1,2) by (simp del: upt_Suc)
  qed
  obtain rs now mem where runs: "runs = rs @ [(now, mem)]"
    using assms(2,3) by (cases runs rule: rev_cases) (auto simp: word_less_nat_alt)
  then have n: "length rs < unat m" "Suc (length rs) = unat m" "short_run (now, mem)" "take (length rs) runs = rs"
    using assms(2,4) by simp_all
  let ?c = "c\<lparr>restart_attempts := of_nat (length rs), ctl_mem := last (ctl_mem c # map snd rs)\<rparr>"
  have "after_exec prep m False EXIT_INNER now (?c\<lparr>ctl_mem := mem\<rparr>)
      = Ret (Wait_for 60, DumpStreamStatus prep (c\<lparr>restart_attempts := 0, ctl_mem := mem\<lparr>status := FROZEN\<rparr>\<rparr>))"
    using short_failure_last [of now "?c\<lparr>ctl_mem := mem\<rparr>" "length rs" m prep] n by (simp add: short_run_def)
  from short_failures_snoc [OF before [OF n(1), unfolded n(4)] this] before share_no_wrap n(2) show ?thesis
    by (simp add: runs del: upt_Suc short_failures.simps)
qed

theorem failing_stream_is_frozen_witness:
  "\<exists>c'. short_failures (\<lambda>_. None) 3 (replicate 3 (5000, ctl_mem (ctl (demo_cstate At_check)))) (ctl (demo_cstate At_check))
        = Ret ([Wait_for 20, Wait_for 40, Wait_for 60], c') \<and> status (ctl_mem c') = FROZEN"
proof -
  let ?mem = "ctl_mem (ctl (demo_cstate At_check))"
  have "restart_attempts (ctl (demo_cstate At_check)) = 0" "length (replicate 3 (5000 :: int, ?mem)) = unat (3 :: u64)" "0 < (3 :: u64)"
    "\<forall>r\<in>set (replicate 3 (5000, ?mem)). short_run r"
    by (simp_all add: demo_cstate_def WithoutRestartTime_def make_StreamStruct_def signed_divide_int_def short_run_def)
  from failing_stream_is_frozen [OF this, of "\<lambda>_. None"] show ?thesis
    by (auto simp: upt_rec simp del: short_failures.simps)
qed

text \<open>A stop is heard in every phase but those between the check of the flag and the main loop of the stream.\<close>

definition hears_stop :: "phase \<Rightarrow> bool" where
  "hears_stop p \<longleftrightarrow> p \<noteq> Searching \<and> p \<noteq> Starting"

definition between_runs :: "phase \<Rightarrow> bool" where
  "between_runs p \<longleftrightarrow> p = At_check \<or> p = Finished"

definition stopped :: "'d cstate \<Rightarrow> bool" where
  "stopped s \<longleftrightarrow> ctl_stop (ctl s) \<and> between_runs (ph s)"

text \<open>After a stop that came before the wait \<open>w\<close> of the worker.\<close>

definition stopping :: "u64 \<Rightarrow> 'd cstate \<Rightarrow> bool" where
  "stopping w s \<longleftrightarrow> ctl_stop (ctl s) \<and> (between_runs (ph s) \<or> ph s = Before_wait w \<or> ph s = Waiting w)"

lemmas stop_phase_defs = stopped_def stopping_def between_runs_def hears_stop_def

lemma leave_run_self:
  "leave_run prep m EXIT_SELF now s = Ret s' \<Longrightarrow> ctl_stop (ctl s') = ctl_stop (ctl s) \<and> between_runs (ph s')"
  by (auto simp: leave_run_def after_exec_def between_runs_def split: outcome.splits if_splits)

lemma stopped_step: "ctl_step prep m s s' \<Longrightarrow> stopped s \<Longrightarrow> stopped s'"
  by (induction rule: ctl_step.induct)
     (auto simp: stop_phase_defs controller_Stop_def controller_Restart_def notify_and_quit_def)

lemma stopping_step: "ctl_step prep m s s' \<Longrightarrow> stopping w s \<Longrightarrow> stopping w s'"
  by (induction rule: ctl_step.induct)
     (auto simp: stop_phase_defs controller_Stop_def controller_Restart_def notify_and_quit_def after_wait_def)

lemma stopped_reaches: "reaches prep m s s' \<Longrightarrow> stopped s \<Longrightarrow> stopped s'"
  by (induction rule: reaches.induct) (auto dest: stopped_step)

lemma stopping_reaches: "reaches prep m s s' \<Longrightarrow> stopping w s \<Longrightarrow> stopping w s'"
  by (induction rule: reaches.induct) (auto dest: stopping_step)

lemma stop_heard:
  assumes "hears_stop (ph s)" "controller_Stop prep m now s = Ret s'"
  shows "(\<exists>w. ph s = Before_wait w \<and> stopping w s') \<or> stopped s'"
  using assms leave_run_self [of prep m now "s\<lparr>ctl := (ctl s)\<lparr>ctl_stop := True\<rparr>\<rparr>" s']
  by (cases "ph s") (auto simp: controller_Stop_def notify_and_quit_def stop_phase_defs after_wait_def search_interrupted_def)

text \<open>
  (C14) A stop reaches the worker wherever it can be heard. When the worker is at its check, in the main
  loop of a run, in the wait for a chunk or in the wait before a restart, the stop leaves it at the
  check with the flag set or out of the loop, and whatever happens afterwards no further run is created.
  When it comes between the end of a run and the wait, the notification is lost: the worker may still
  wait, for at most the time it had computed, but no further run is created either.
\<close>

theorem stop_prevents_further_runs:
  assumes "ph s \<noteq> Searching" "ph s \<noteq> Starting" "controller_Stop prep m now s = Ret s'" "reaches prep m s' t"
  shows "ctl_stop (ctl t) \<and> (ph t = At_check \<or> ph t = Finished
     \<or> (\<exists>w. ph s = Before_wait w \<and> (ph t = Before_wait w \<or> ph t = Waiting w)))"
proof -
  have "(\<exists>w. ph s = Before_wait w \<and> stopping w s') \<or> stopped s'"
    using assms(1,2) by (intro stop_heard [OF _ assms(3)]) (simp add: hears_stop_def)
  then show ?thesis using stopping_reaches [OF assms(4)] stopped_reaches [OF assms(4)]
    by (auto simp: stop_phase_defs)
qed

theorem stop_prevents_further_runs_witness:
  "\<exists>s'. controller_Stop (\<lambda>_. None) 10 0 (demo_cstate (Waiting 6)) = Ret s' \<and>
     ctl_stop (ctl s') \<and> (ph s' = At_check \<or> ph s' = Finished)"
proof -
  obtain s' where s': "controller_Stop (\<lambda>_. None) 10 0 (demo_cstate (Waiting 6)) = Ret s'"
    by (simp add: controller_Stop_def notify_and_quit_def demo_cstate_def)
  with stop_prevents_further_runs [OF _ _ s' reaches.start] show ?thesis by (simp add: demo_cstate_def)
qed

text \<open>
  A stop that comes while a run is being started is lost: the exit command is posted to a
  stream whose main loop does not run yet and is ignored, so the run goes on with the stop flag set
  and ends only by itself.
\<close>

lemma stop_during_start_is_lost:
  assumes "ph s = Starting"
  shows "\<exists>s' t. controller_Stop prep m now s = Ret s' \<and> ctl_step prep m s' t \<and> ph t = Running \<and> ctl_stop (ctl t)
    \<and> (\<forall>st bs. \<not> loop_running bs \<longrightarrow> last_exit_status (Quit st bs) = last_exit_status bs \<and> \<not> loop_running (Quit st bs))"
proof -
  let ?s' = "s\<lparr>ctl := (ctl s)\<lparr>ctl_stop := True\<rparr>\<rparr>"
  have "controller_Stop prep m now s = Ret ?s'" using assms by (simp add: controller_Stop_def notify_and_quit_def)
  moreover have "ctl_step prep m ?s' (?s'\<lparr>ph := Running\<rparr>)" using assms by (intro loop_up) simp
  ultimately show ?thesis
    by (intro exI [of _ ?s'] exI [of _ "?s'\<lparr>ph := Running\<rparr>"])
       (simp add: Quit_def HandleSyncBusMessageReceived_def call_def)
qed

text \<open>
  So is a stop that comes while a timeshift player searches for a chunk: the search does not look at the
  flag, and when it finds a chunk, at once or after the next waits, a run is started.
\<close>

lemma stop_during_search_is_lost:
  assumes "ph s = Searching" "cs_chunk_duration s = Some d"
  shows "\<exists>s' t u. controller_Stop prep m now s = Ret s' \<and> reaches prep m s' t \<and> ph t = Chunk_wait d
    \<and> reaches prep m t u \<and> ph u = Starting \<and> ctl_stop (ctl u)"
proof -
  let ?s' = "s\<lparr>ctl := (ctl s)\<lparr>ctl_stop := True\<rparr>\<rparr>"
  let ?t = "?s'\<lparr>ph := Chunk_wait d, ctl := search_failed prep (ctl ?s')\<rparr>"
  let ?u = "?t\<lparr>ph := Searching\<rparr>"
  have "controller_Stop prep m now s = Ret ?s'" using assms by (simp add: controller_Stop_def notify_and_quit_def)
  moreover have "reaches prep m ?s' ?t" using assms by (intro reaches.step [OF reaches.start] not_found) simp_all
  moreover have "reaches prep m ?t ?u" by (rule reaches.step [OF reaches.start search_again]) simp
  moreover have "ctl_step prep m ?u (?u\<lparr>ph := if 0 = invalid_chunk_index then At_check else Starting\<rparr>)"
    by (rule found) simp
  ultimately show ?thesis
    by (intro exI [of _ ?s'] exI [of _ ?t] exI [of _ "?u\<lparr>ph := Starting\<rparr>"])
       (auto simp: search_failed_def invalid_chunk_index_def intro: reaches.step)
qed

end
