(* ===== verification/Users.thy ===== *)
theory Users
  imports JsonApi
begin

text \<open>
  Components \<open>server/subscribers/commands_info/user_info\<close>, \<open>server/subscribers/server_auth_info\<close>,
  \<open>server/subscribers/rpc\<close> and \<open>server/sync_finder\<close>: the users the service knows, their devices, and
  finding a user by the credentials of a client. The list of channels of a user is a value of the
  protocol library, the type parameter \<open>'c\<close>, with its JSON conversions as parameters; so are the
  credentials, of which login, password and device are read and whose validity test is a parameter.
\<close>

section \<open>Devices and users\<close>

record DeviceInfo =
  dev_id :: string
  dev_connections :: u64

definition DeviceInfo_IsValid :: "DeviceInfo \<Rightarrow> bool" where
  "DeviceInfo_IsValid d \<longleftrightarrow> dev_id d \<noteq> [] \<and> dev_connections d > 0"

definition DeviceInfo_Serialize :: "'j json \<Rightarrow> DeviceInfo \<Rightarrow> error + 'j" where
  "DeviceInfo_Serialize J d =
     (if \<not> DeviceInfo_IsValid d then Inl Error_inval
      else Inr (js_add J (js_add J (js_new_object J) ''id'' (js_of_string J (dev_id d)))
                  ''connections'' (js_of_int64 J (sint (dev_connections d)))))"

definition DeviceInfo_DeSerialize :: "'j json \<Rightarrow> 'j \<Rightarrow> error + DeviceInfo" where
  "DeviceInfo_DeSerialize J serialized =
     (case js_get J serialized ''id'' of None \<Rightarrow> Inl Error_inval | Some jdid \<Rightarrow>
      (case js_get J serialized ''connections'' of None \<Rightarrow> Inl Error_inval | Some jconnections \<Rightarrow>
       Inr \<lparr>dev_id = js_string J jdid, dev_connections = of_int (js_int64 J jconnections)\<rparr>))"

interpretation device_ser: serializer "\<lambda>d. json_laws J \<and> DeviceInfo_IsValid d"
  "DeviceInfo_Serialize J" "DeviceInfo_DeSerialize J" "\<lambda>d. d" for J
  by unfold_locales (auto simp: DeviceInfo_Serialize_def DeviceInfo_DeSerialize_def json_lawsD)

datatype Status = NO_ACTIVE | ACTIVE | BANNED | OTHER_STATE int

fun state_code :: "Status \<Rightarrow> int" where
  "state_code NO_ACTIVE = 0" | "state_code ACTIVE = 1" | "state_code BANNED = 2" | "state_code (OTHER_STATE i) = i"

definition state_of :: "int \<Rightarrow> Status" where
  "state_of i = (if i = 0 then NO_ACTIVE else if i = 1 then ACTIVE else if i = 2 then BANNED else OTHER_STATE i)"

record 'c UserInfo =
  ui_uid :: string
  ui_login :: string
  ui_password :: string
  ui_channels :: 'c
  ui_devices :: "DeviceInfo list"
  ui_status :: Status

definition UserInfo_IsValid :: "'c UserInfo \<Rightarrow> bool" where
  "UserInfo_IsValid u \<longleftrightarrow> ui_uid u \<noteq> [] \<and> ui_login u \<noteq> [] \<and> ui_password u \<noteq> []"

definition IsBanned :: "'c UserInfo \<Rightarrow> bool" where
  "IsBanned u \<longleftrightarrow> ui_status u = BANNED"

definition UserInfo_Serialize :: "'j json \<Rightarrow> ('c \<Rightarrow> error + 'j) \<Rightarrow> 'c UserInfo \<Rightarrow> error + 'j" where
  "UserInfo_Serialize J ch_ser u =
     (if \<not> UserInfo_IsValid u then Inl Error_inval
      else case ch_ser (ui_channels u) of
        Inl err \<Rightarrow> Inl err
      | Inr jchannels \<Rightarrow>
         (let out = js_add J (js_new_object J) ''id'' (js_of_string J (ui_uid u));
              out = js_add J out ''login'' (js_of_string J (ui_login u));
              out = js_add J out ''password'' (js_of_string J (ui_password u));
              out = js_add J out ''status'' (js_of_int J (state_code (ui_status u)));
              out = js_add J out ''channels'' jchannels;
              out = js_add J out ''devices'' (js_of_array J (ser_list (DeviceInfo_Serialize J) (ui_devices u)))
          in Inr out))"

definition UserInfo_DeSerialize :: "'j json \<Rightarrow> 'c \<Rightarrow> ('j \<Rightarrow> error + 'c) \<Rightarrow> 'j \<Rightarrow> error + 'c UserInfo" where
  "UserInfo_DeSerialize J ch0 ch_deser serialized =
     (case (case js_get J serialized ''channels'' of None \<Rightarrow> Inr ch0 | Some jchan \<Rightarrow> ch_deser jchan) of
        Inl err \<Rightarrow> Inl err
      | Inr chan \<Rightarrow>
     (case js_get J serialized ''id'' of None \<Rightarrow> Inl Error_inval | Some juid \<Rightarrow>
      (case js_get J serialized ''login'' of None \<Rightarrow> Inl Error_inval | Some jlogin \<Rightarrow>
       (case js_get J serialized ''password'' of None \<Rightarrow> Inl Error_inval | Some jpassword \<Rightarrow>
        (case js_get J serialized ''status'' of None \<Rightarrow> Inl Error_inval | Some jstate \<Rightarrow>
          Inr \<lparr>ui_uid = js_string J juid, ui_login = js_string J jlogin, ui_password = js_string J jpassword,
               ui_channels = chan,
               ui_devices = (case js_get J serialized ''devices'' of None \<Rightarrow> []
                  | Some j \<Rightarrow> deser_list (DeviceInfo_DeSerialize J) (js_array J j)),
               ui_status = state_of (js_int J jstate)\<rparr>)))))"

fun find_device :: "string \<Rightarrow> DeviceInfo list \<Rightarrow> DeviceInfo option" where
  "find_device i [] = None"
| "find_device i (d # ds) = (if i = dev_id d then Some d else find_device i ds)"

definition FindDevice :: "string \<Rightarrow> 'c UserInfo \<Rightarrow> error + DeviceInfo" where
  "FindDevice i u =
     (if i = [] then Inl Error_inval
      else case find_device i (ui_devices u) of
        Some d \<Rightarrow> Inr d | None \<Rightarrow> Inl (Error_text ''Device not found''))"

lemma find_device_Some: "find_device i ds = Some d \<Longrightarrow> d \<in> set ds \<and> dev_id d = i"
  by (induction ds) (auto split: if_splits)

lemma ser_list_devices:
  "ser_list (DeviceInfo_Serialize J) ds = ser_list (DeviceInfo_Serialize J) (filter DeviceInfo_IsValid ds)"
  by (induction ds) (auto simp: DeviceInfo_Serialize_def)

text \<open>
  A user record survives its JSON form with the identifier, the credentials, the status and
  the channels it had; of its devices exactly the valid ones remain, in their order.
\<close>

theorem user_info_roundtrip:
  assumes "json_laws J" "UserInfo_IsValid u" "ui_status u \<in> {NO_ACTIVE, ACTIVE, BANNED}"
    and "ch_ser (ui_channels u) = Inr jch" "ch_deser jch = Inr (ui_channels u)"
  shows "\<exists>j. UserInfo_Serialize J ch_ser u = Inr j
     \<and> UserInfo_DeSerialize J ch0 ch_deser j = Inr (u\<lparr>ui_devices := filter DeviceInfo_IsValid (ui_devices u)\<rparr>)"
proof -
  have d: "deser_list (DeviceInfo_DeSerialize J) (ser_list (DeviceInfo_Serialize J) (ui_devices u))
      = filter DeviceInfo_IsValid (ui_devices u)"
    using device_ser.list_roundtrip [of J "filter DeviceInfo_IsValid (ui_devices u)"] assms(1)
    by (subst ser_list_devices) (simp add: list_all_iff)
  have st: "int32_range (state_code (ui_status u))" "state_of (state_code (ui_status u)) = ui_status u"
    using assms(3) by (auto simp: int32_range_def state_of_def)
  show ?thesis
    using assms(2,4,5) d st
    by (simp add: UserInfo_Serialize_def UserInfo_DeSerialize_def Let_def json_lawsD [OF assms(1)])
qed

theorem user_info_roundtrip_witness:
  "\<exists>j. UserInfo_Serialize tree_json (\<lambda>_ :: unit. Inr (JInt 0))
       \<lparr>ui_uid = ''u'', ui_login = ''l'', ui_password = ''p'', ui_channels = (),
        ui_devices = [\<lparr>dev_id = ''d'', dev_connections = 2\<rparr>, \<lparr>dev_id = ''e'', dev_connections = 0\<rparr>], ui_status = ACTIVE\<rparr> = Inr j
     \<and> UserInfo_DeSerialize tree_json () (\<lambda>_. Inr ()) j = Inr
       \<lparr>ui_uid = ''u'', ui_login = ''l'', ui_password = ''p'', ui_channels = (),
        ui_devices = [\<lparr>dev_id = ''d'', dev_connections = 2\<rparr>], ui_status = ACTIVE\<rparr>"
  using user_info_roundtrip [of tree_json "\<lparr>ui_uid = ''u'', ui_login = ''l'', ui_password = ''p'', ui_channels = (),
        ui_devices = [\<lparr>dev_id = ''d'', dev_connections = 2\<rparr>, \<lparr>dev_id = ''e'', dev_connections = 0\<rparr>], ui_status = ACTIVE\<rparr>"
      "\<lambda>_. Inr (JInt 0)" "JInt 0" "\<lambda>_. Inr ()" "()"]
  by (simp add: UserInfo_IsValid_def DeviceInfo_IsValid_def)

section \<open>Credentials\<close>

record AuthInfo =
  au_login :: string
  au_password :: string
  au_device :: string

record ServerAuthInfo =
  sa_uid :: string
  sa_auth :: AuthInfo

definition ServerAuthInfo0 :: ServerAuthInfo where
  "ServerAuthInfo0 = \<lparr>sa_uid = [], sa_auth = \<lparr>au_login = [], au_password = [], au_device = []\<rparr>\<rparr>"

definition ServerAuthInfo_IsValid :: "(AuthInfo \<Rightarrow> bool) \<Rightarrow> ServerAuthInfo \<Rightarrow> bool" where
  "ServerAuthInfo_IsValid auth_valid a \<longleftrightarrow> sa_uid a \<noteq> [] \<and> auth_valid (sa_auth a)"

text \<open>\<open>base_ser\<close> and \<open>base_deser\<close> write and read the fields of the credentials.\<close>

definition ServerAuthInfo_Serialize ::
  "'j json \<Rightarrow> (AuthInfo \<Rightarrow> bool) \<Rightarrow> (AuthInfo \<Rightarrow> 'j \<Rightarrow> error + 'j) \<Rightarrow> ServerAuthInfo \<Rightarrow> error + 'j" where
  "ServerAuthInfo_Serialize J auth_valid base_ser a =
     (if \<not> ServerAuthInfo_IsValid auth_valid a then Inl Error_inval
      else base_ser (sa_auth a) (js_add J (js_new_object J) ''id'' (js_of_string J (sa_uid a))))"

definition ServerAuthInfo_DeSerialize ::
  "'j json \<Rightarrow> ('j \<Rightarrow> error + AuthInfo) \<Rightarrow> 'j \<Rightarrow> error + ServerAuthInfo" where
  "ServerAuthInfo_DeSerialize J base_deser serialized = (case base_deser serialized of
       Inl err \<Rightarrow> Inl err
     | Inr auth \<Rightarrow> (case js_get J serialized ''id'' of None \<Rightarrow> Inl Error_inval
         | Some jid \<Rightarrow> Inr \<lparr>sa_uid = js_string J jid, sa_auth = auth\<rparr>))"

record UserRpcInfo =
  ur_user_id :: string
  ur_device_id :: string

definition UserRpcInfo_IsValid :: "UserRpcInfo \<Rightarrow> bool" where
  "UserRpcInfo_IsValid r \<longleftrightarrow> ur_user_id r \<noteq> [] \<and> ur_device_id r \<noteq> []"

definition MakeUserRpc :: "ServerAuthInfo \<Rightarrow> UserRpcInfo" where
  "MakeUserRpc a = \<lparr>ur_user_id = sa_uid a, ur_device_id = au_device (sa_auth a)\<rparr>"

definition UserRpcInfo_Serialize :: "'j json \<Rightarrow> UserRpcInfo \<Rightarrow> error + 'j" where
  "UserRpcInfo_Serialize J r =
     Inr (js_add J (js_add J (js_new_object J) ''user_id'' (js_of_string J (ur_user_id r)))
            ''device_id'' (js_of_string J (ur_device_id r)))"

definition UserRpcInfo_DeSerialize :: "'j json \<Rightarrow> 'j \<Rightarrow> error + UserRpcInfo" where
  "UserRpcInfo_DeSerialize J serialized =
     Inr \<lparr>ur_user_id = (case js_get J serialized ''user_id'' of None \<Rightarrow> [] | Some j \<Rightarrow> js_string J j),
          ur_device_id = (case js_get J serialized ''device_id'' of None \<Rightarrow> [] | Some j \<Rightarrow> js_string J j)\<rparr>"

interpretation rpc_ser: serializer "\<lambda>r. json_laws J" "UserRpcInfo_Serialize J" "UserRpcInfo_DeSerialize J" "\<lambda>r. r" for J
  by unfold_locales (auto simp: UserRpcInfo_Serialize_def UserRpcInfo_DeSerialize_def json_lawsD)

section \<open>Finding a user\<close>

type_synonym 'c users_t = "string \<rightharpoonup> 'c UserInfo"

definition FindUser :: "(AuthInfo \<Rightarrow> bool) \<Rightarrow> 'c users_t \<Rightarrow> AuthInfo \<Rightarrow> error + 'c UserInfo" where
  "FindUser auth_valid users user =
     (if \<not> auth_valid user then Inl Error_inval
      else case users (au_login user) of
        None \<Rightarrow> Inl (Error_text ''User not found'')
      | Some founded_user \<Rightarrow>
          if au_password user \<noteq> ui_password founded_user then Inl (Error_text ''Invalid password'')
          else Inr founded_user)"

definition Clear :: "'c users_t \<Rightarrow> 'c users_t" where
  "Clear users = Map.empty"

text \<open>\<open>std::map::insert\<close> keeps the entry that is already there.\<close>

definition AddUser :: "'c users_t \<Rightarrow> 'c UserInfo \<Rightarrow> 'c users_t" where
  "AddUser users user =
     (case users (ui_login user) of Some _ \<Rightarrow> users | None \<Rightarrow> users(ui_login user \<mapsto> user))"

text \<open>The contract of \<open>ISubscribeFinder\<close>: only a known login with its own password is found.\<close>

locale subscribe_finder =
  fixes auth_valid :: "AuthInfo \<Rightarrow> bool"
    and find :: "'db \<Rightarrow> AuthInfo \<Rightarrow> error + 'c UserInfo"
    and known :: "'db \<Rightarrow> 'c UserInfo \<Rightarrow> bool"
  assumes found: "find db a = Inr u \<Longrightarrow> auth_valid a \<and> known db u \<and> au_password a = ui_password u"
begin

lemma not_found: "\<not> auth_valid a \<Longrightarrow> \<exists>e. find db a = Inl e"
  using found [of db a] by (cases "find db a") auto

end

interpretation sync: subscribe_finder auth_valid "FindUser auth_valid" "\<lambda>users u. u \<in> ran users" for auth_valid
  by unfold_locales (auto simp: FindUser_def intro: ranI split: if_splits option.splits)

text \<open>
  The user base behaves like a register in which the first entry of a login wins: after users
  were added to an empty base, a client is found exactly when its credentials are valid and the
  first added user of its login has its password, and that user is the answer.
\<close>

theorem find_user_after_adding:
  "FindUser auth_valid (foldl AddUser (Clear db) us) a =
     (if \<not> auth_valid a then Inl Error_inval
      else case filter (\<lambda>u. ui_login u = au_login a) us of
        [] \<Rightarrow> Inl (Error_text ''User not found'')
      | u # _ \<Rightarrow> if au_password a = ui_password u then Inr u else Inl (Error_text ''Invalid password''))"
proof -
  have "foldl AddUser (Clear db) us l = (case filter (\<lambda>u. ui_login u = l) us of [] \<Rightarrow> None | u # _ \<Rightarrow> Some u)" for l
    by (induction us rule: rev_induct)
       (auto simp: Clear_def AddUser_def split: option.splits list.splits)
  then show ?thesis by (simp add: FindUser_def split: list.splits)
qed

end
