(* ===== verification/Subscribers.thy ===== *)
theory Subscribers
  imports Users Protocol
begin

text \<open>
  Components \<open>server/base/iserver_handler\<close>, \<open>server/subscribers/client\<close> and
  \<open>server/subscribers/handler\<close>: the server the viewers connect to. A connected client is a number;
  its state is the credentials it activated with and the stream it watches. Every answer the handler
  sends is recorded with the client it goes to. What the network and the JSON parser answer are
  parameters: whether a write succeeds, and the content of the parameters of a request.
\<close>

section \<open>State\<close>

type_synonym client = nat

record SubscriberClient =
  hinfo :: ServerAuthInfo
  current_stream_id :: string

datatype 'c reply = ActivateSuccess seq_id | ActivateFail seq_id error | CheckActivateFail seq_id error
  | Pong seq_id | GetServerInfoSuccess seq_id string | GetChannelsSuccess seq_id 'c
  | GetRuntimeChannelInfoSuccess seq_id string nat | Ping

record 'c handler =
  clients :: "client \<rightharpoonup> SubscriberClient"
  client_order :: "client list"
  connections :: "string \<rightharpoonup> client list"
  online_clients :: u64
  sent :: "(client \<times> 'c reply) list"

text \<open>The parameters: the user base, the answer of a write, and the bandwidth host.\<close>

record 'c env =
  env_find :: "AuthInfo \<Rightarrow> error + 'c UserInfo"
  env_valid :: "AuthInfo \<Rightarrow> bool"
  env_write :: "client \<Rightarrow> errno_error option"
  env_bandwidth_host :: string

definition client0 :: SubscriberClient where
  "client0 = \<lparr>hinfo = ServerAuthInfo0, current_stream_id = []\<rparr>"

definition info_of :: "'c handler \<Rightarrow> client \<Rightarrow> ServerAuthInfo" where
  "info_of h c = (case clients h c of None \<Rightarrow> ServerAuthInfo0 | Some x \<Rightarrow> hinfo x)"

definition send :: "client \<Rightarrow> 'c reply \<Rightarrow> 'c handler \<Rightarrow> 'c handler" where
  "send c r h = h\<lparr>sent := sent h @ [(c, r)]\<rparr>"

section \<open>Connections\<close>

text \<open>\<open>Accepted\<close> of the base class, after the server created the client.\<close>

definition Accepted :: "client \<Rightarrow> 'c handler \<Rightarrow> 'c handler" where
  "Accepted c h = h\<lparr>clients := (clients h)(c \<mapsto> client0), client_order := client_order h @ [c],
     online_clients := online_clients h + 1\<rparr>"

definition RegisterInnerConnectionByHost ::
  "(AuthInfo \<Rightarrow> bool) \<Rightarrow> ServerAuthInfo \<Rightarrow> client \<Rightarrow> 'c handler \<Rightarrow> 'c handler outcome" where
  "RegisterInnerConnectionByHost auth_valid info c h =
     (if \<not> ServerAuthInfo_IsValid auth_valid info then Abort
      else Ret (h\<lparr>clients := (clients h)(c \<mapsto> (case clients h c of None \<Rightarrow> client0 | Some x \<Rightarrow> x)\<lparr>hinfo := info\<rparr>),
          connections := (connections h)(sa_uid info \<mapsto>
            (case connections h (sa_uid info) of None \<Rightarrow> [] | Some cs \<Rightarrow> cs) @ [c])\<rparr>))"

definition UnRegisterInnerConnectionByHost ::
  "(AuthInfo \<Rightarrow> bool) \<Rightarrow> client \<Rightarrow> 'c handler \<Rightarrow> error option \<times> 'c handler" where
  "UnRegisterInnerConnectionByHost auth_valid c h =
     (let sinf = info_of h c in
      if \<not> ServerAuthInfo_IsValid auth_valid sinf then (Some Error_inval, h)
      else case connections h (sa_uid sinf) of
        None \<Rightarrow> (None, h)
      | Some hs \<Rightarrow>
         (let hs1 = remove1 c hs in
          (None, h\<lparr>connections := (connections h)(sa_uid sinf := (if hs1 = [] then None else Some hs1))\<rparr>)))"

text \<open>\<open>Closed\<close>; afterwards the client object is deleted.\<close>

definition Closed :: "(AuthInfo \<Rightarrow> bool) \<Rightarrow> client \<Rightarrow> 'c handler \<Rightarrow> 'c handler" where
  "Closed auth_valid c h =
     (let h1 = snd (UnRegisterInnerConnectionByHost auth_valid c h)
      in h1\<lparr>online_clients := online_clients h1 - 1, clients := (clients h1)(c := None),
            client_order := removeAll c (client_order h1)\<rparr>)"

text \<open>Reading an entry whose client no longer exists is undefined.\<close>

definition FindInnerConnectionsByUser :: "UserRpcInfo \<Rightarrow> 'c handler \<Rightarrow> client list outcome" where
  "FindInnerConnectionsByUser user h = (case connections h (ur_user_id user) of
       None \<Rightarrow> Ret []
     | Some hs \<Rightarrow> if list_ex (\<lambda>d. clients h d = None) hs then Abort
         else Ret (filter (\<lambda>d. MakeUserRpc (info_of h d) = user) hs))"

definition GetAndUpdateOnlineUserByStreamID :: "string \<Rightarrow> 'c handler \<Rightarrow> nat" where
  "GetAndUpdateOnlineUserByStreamID sid h =
     length (filter (\<lambda>c. case clients h c of None \<Rightarrow> False | Some x \<Rightarrow> current_stream_id x = sid) (client_order h))"

section \<open>Requests\<close>

text \<open>
  The parameters of a request: none, a text that is not JSON, a value that cannot be read, or the
  value.
\<close>

datatype 'p params = No_params | Not_json | Bad_value error | Value 'p

definition fail_with :: "client \<Rightarrow> 'c reply \<Rightarrow> error \<Rightarrow> 'c handler \<Rightarrow> errno_error option \<times> 'c handler" where
  "fail_with c r err h = (Some (Errno_error (GetDescription err) EINVAL), send c r h)"

definition HandleRequestClientActivate ::
  "'c env \<Rightarrow> client \<Rightarrow> seq_id \<Rightarrow> AuthInfo params \<Rightarrow> 'c handler \<Rightarrow> (errno_error option \<times> 'c handler) outcome" where
  "HandleRequestClientActivate E c i p h = (case p of
       No_params \<Rightarrow> Ret (Some Errno_inval, h)
     | Not_json \<Rightarrow> Ret (Some Errno_inval, h)
     | Bad_value err_des \<Rightarrow> Ret (fail_with c (ActivateFail i err_des) err_des h)
     | Value uauth \<Rightarrow>
        (case env_find E uauth of
           Inl err_find \<Rightarrow> Ret (fail_with c (ActivateFail i err_find) err_find h)
         | Inr registered_user \<Rightarrow>
            if IsBanned registered_user then
              Ret (fail_with c (ActivateFail i (Error_text ''Banned user'')) (Error_text ''Banned user'') h)
            else case FindDevice (au_device uauth) registered_user of
              Inl dev_find \<Rightarrow> Ret (fail_with c (ActivateFail i dev_find) dev_find h)
            | Inr dev \<Rightarrow>
               (let server_user_auth = \<lparr>sa_uid = ui_uid registered_user, sa_auth = uauth\<rparr>;
                    limit = Error_text ''Limit connection reject''
                in case FindInnerConnectionsByUser (MakeUserRpc server_user_auth) h of
                     Abort \<Rightarrow> Abort
                   | Ret fconnections \<Rightarrow>
                      if unat (dev_connections dev) \<le> length fconnections then
                        Ret (fail_with c (ActivateFail i limit) limit h)
                      else (case env_write E c of
                        Some errn \<Rightarrow> Ret (Some errn, h)
                      | None \<Rightarrow>
                         (case RegisterInnerConnectionByHost (env_valid E) server_user_auth c
                                 (send c (ActivateSuccess i) h) of
                            Abort \<Rightarrow> Abort | Ret h1 \<Rightarrow> Ret (None, h1))))))"

definition CheckIsAuthClient :: "'c env \<Rightarrow> client \<Rightarrow> 'c handler \<Rightarrow> error + 'c UserInfo" where
  "CheckIsAuthClient E c h = env_find E (sa_auth (info_of h c))"

text \<open>The shared reaction to a client that is not authorised: an answer, then the connection is closed.\<close>

definition reject_client :: "'c env \<Rightarrow> client \<Rightarrow> seq_id \<Rightarrow> error \<Rightarrow> 'c handler \<Rightarrow> errno_error option \<times> 'c handler" where
  "reject_client E c i err h =
     (Some (Errno_error (GetDescription err) EINVAL), Closed (env_valid E) c (send c (CheckActivateFail i err) h))"

text \<open>An answer whose write fails is not received; the error of the write is returned.\<close>

definition answer :: "'c env \<Rightarrow> client \<Rightarrow> 'c reply \<Rightarrow> 'c handler \<Rightarrow> errno_error option \<times> 'c handler" where
  "answer E c r h = (case env_write E c of Some err \<Rightarrow> (Some err, h) | None \<Rightarrow> (None, send c r h))"

definition HandleRequestClientPing ::
  "'c env \<Rightarrow> client \<Rightarrow> seq_id \<Rightarrow> unit params \<Rightarrow> 'c handler \<Rightarrow> errno_error option \<times> 'c handler" where
  "HandleRequestClientPing E c i p h = (case CheckIsAuthClient E c h of
       Inl err \<Rightarrow> reject_client E c i err h
     | Inr user \<Rightarrow> (case p of
          No_params \<Rightarrow> (Some Errno_inval, h)
        | Not_json \<Rightarrow> (Some Errno_inval, h)
        | Bad_value err_des \<Rightarrow> (Some (Errno_error (GetDescription err_des) EAGAIN), h)
        | Value _ \<Rightarrow> answer E c (Pong i) h))"

definition HandleRequestClientGetServerInfo ::
  "'c env \<Rightarrow> client \<Rightarrow> seq_id \<Rightarrow> 'c handler \<Rightarrow> errno_error option \<times> 'c handler" where
  "HandleRequestClientGetServerInfo E c i h = (case CheckIsAuthClient E c h of
       Inl err \<Rightarrow> reject_client E c i err h
     | Inr user \<Rightarrow> answer E c (GetServerInfoSuccess i (env_bandwidth_host E)) h)"

definition HandleRequestClientGetChannels ::
  "'c env \<Rightarrow> client \<Rightarrow> seq_id \<Rightarrow> 'c handler \<Rightarrow> errno_error option \<times> 'c handler" where
  "HandleRequestClientGetChannels E c i h = (case CheckIsAuthClient E c h of
       Inl err \<Rightarrow> reject_client E c i err h
     | Inr user \<Rightarrow> answer E c (GetChannelsSuccess i (ui_channels user)) h)"

definition SetCurrentStreamID :: "client \<Rightarrow> string \<Rightarrow> 'c handler \<Rightarrow> 'c handler" where
  "SetCurrentStreamID c sid h =
     h\<lparr>clients := (clients h)(c := map_option (\<lambda>x. x\<lparr>current_stream_id := sid\<rparr>) (clients h c))\<rparr>"

definition HandleRequestClientGetRuntimeChannelInfo ::
  "'c env \<Rightarrow> client \<Rightarrow> seq_id \<Rightarrow> string params \<Rightarrow> 'c handler \<Rightarrow> errno_error option \<times> 'c handler" where
  "HandleRequestClientGetRuntimeChannelInfo E c i p h = (case CheckIsAuthClient E c h of
       Inl err \<Rightarrow> reject_client E c i err h
     | Inr user \<Rightarrow> (case p of
          No_params \<Rightarrow> (Some Errno_inval, h)
        | Not_json \<Rightarrow> (Some Errno_inval, h)
        | Bad_value err_des \<Rightarrow> (Some (Errno_error (GetDescription err_des) EAGAIN), h)
        | Value sid \<Rightarrow>
           (let watchers = GetAndUpdateOnlineUserByStreamID sid h
            in answer E c (GetRuntimeChannelInfoSuccess i sid watchers) (SetCurrentStreamID c sid h))))"

datatype sub_request = Client_activate seq_id "AuthInfo params" | Client_ping seq_id "unit params"
  | Client_get_server_info seq_id | Client_get_channels seq_id
  | Client_get_runtime_channel_info seq_id "string params" | Client_unknown

definition HandleRequestCommand ::
  "'c env \<Rightarrow> client \<Rightarrow> sub_request \<Rightarrow> 'c handler \<Rightarrow> (errno_error option \<times> 'c handler) outcome" where
  "HandleRequestCommand E c req h = (case req of
       Client_activate i p \<Rightarrow> HandleRequestClientActivate E c i p h
     | Client_ping i p \<Rightarrow> Ret (HandleRequestClientPing E c i p h)
     | Client_get_server_info i \<Rightarrow> Ret (HandleRequestClientGetServerInfo E c i h)
     | Client_get_channels i \<Rightarrow> Ret (HandleRequestClientGetChannels E c i h)
     | Client_get_runtime_channel_info i p \<Rightarrow> Ret (HandleRequestClientGetRuntimeChannelInfo E c i p h)
     | Client_unknown \<Rightarrow> Ret (None, h))"

text \<open>Responses of a client to a ping or a question of the server change nothing.\<close>

definition HandleResponceServerPing :: "unit params option \<Rightarrow> errno_error option" where
  "HandleResponceServerPing message = (case message of
       None \<Rightarrow> None | Some Not_json \<Rightarrow> Some Errno_inval
     | Some (Bad_value err) \<Rightarrow> Some (Errno_error (GetDescription err) EAGAIN) | Some _ \<Rightarrow> None)"

datatype sub_input = Sub_read_error errno_error | Sub_parse_error error | Sub_request sub_request
  | Sub_response "unit params option" | Sub_neither

definition HandleInnerDataReceived ::
  "'c env \<Rightarrow> client \<Rightarrow> sub_input \<Rightarrow> 'c handler \<Rightarrow> (errno_error option \<times> 'c handler) outcome" where
  "HandleInnerDataReceived E c inp h = (case inp of
       Sub_parse_error err \<Rightarrow> Ret (Some (Errno_error (GetDescription err) EAGAIN), h)
     | Sub_request req \<Rightarrow> (case HandleRequestCommand E c req h of Abort \<Rightarrow> Abort | Ret (_, h1) \<Rightarrow> Ret (None, h1))
     | Sub_response m \<Rightarrow> Ret (None, h)
     | _ \<Rightarrow> Ret (Some (Errno_error ''Invalid command type'' EINVAL), h))"

definition DataReceived :: "'c env \<Rightarrow> client \<Rightarrow> sub_input \<Rightarrow> 'c handler \<Rightarrow> 'c handler outcome" where
  "DataReceived E c inp h = (case inp of
       Sub_read_error err \<Rightarrow> Ret (Closed (env_valid E) c h)
     | _ \<Rightarrow> (case HandleInnerDataReceived E c inp h of Abort \<Rightarrow> Abort | Ret (_, h1) \<Rightarrow> Ret h1))"

text \<open>The ping timer: a client whose ping fails is closed.\<close>

definition TimerEmited :: "'c env \<Rightarrow> bool \<Rightarrow> 'c handler \<Rightarrow> 'c handler" where
  "TimerEmited E is_ping_timer h =
     (if is_ping_timer then
        foldl (\<lambda>h c. case env_write E c of None \<Rightarrow> send c Ping h | Some err \<Rightarrow> Closed (env_valid E) c h) h (client_order h)
      else h)"

section \<open>Activation\<close>

text \<open>The clients connected as a device of a user.\<close>

definition connected :: "'c handler \<Rightarrow> string \<Rightarrow> string \<Rightarrow> client set" where
  "connected h u d = {c. \<exists>cs. connections h u = Some cs \<and> c \<in> set cs
     \<and> MakeUserRpc (info_of h c) = \<lparr>ur_user_id = u, ur_device_id = d\<rparr>}"

lemma connected_find:
  "FindInnerConnectionsByUser \<lparr>ur_user_id = u, ur_device_id = d\<rparr> h = Ret fs \<Longrightarrow> connected h u d = set fs"
  by (cases "connections h u") (auto simp: connected_def FindInnerConnectionsByUser_def split: if_splits)

lemma info_of_register:
  assumes "RegisterInnerConnectionByHost v a c h = Ret h'"
  shows "info_of h' x = (if x = c then a else info_of h x)"
    "connections h' = (connections h)(sa_uid a \<mapsto> (case connections h (sa_uid a) of None \<Rightarrow> [] | Some cs \<Rightarrow> cs) @ [c])"
  using assms by (auto simp: RegisterInnerConnectionByHost_def info_of_def split: if_splits option.splits)

lemma connected_register:
  assumes "RegisterInnerConnectionByHost v a c h = Ret h'" "u = sa_uid a" "d = au_device (sa_auth a)"
  shows "connected h' u d \<subseteq> insert c (connected h u d)" "c \<in> connected h' u d"
    "\<not> (u' = u \<and> d' = d) \<Longrightarrow> connected h' u' d' \<subseteq> connected h u' d'"
  using info_of_register [OF assms(1)] assms(2,3)
  by (auto simp: connected_def MakeUserRpc_def split: option.splits if_splits)

lemma activated:
  assumes "HandleRequestClientActivate E c i (Value a) h = Ret (None, h')"
  obtains u dev fs where "env_find E a = Inr u" "\<not> IsBanned u" "FindDevice (au_device a) u = Inr dev"
    "FindInnerConnectionsByUser (MakeUserRpc \<lparr>sa_uid = ui_uid u, sa_auth = a\<rparr>) h = Ret fs" "length fs < unat (dev_connections dev)"
    "RegisterInnerConnectionByHost (env_valid E) \<lparr>sa_uid = ui_uid u, sa_auth = a\<rparr> c (send c (ActivateSuccess i) h) = Ret h'"
  using assms
  by (auto simp: HandleRequestClientActivate_def fail_with_def Let_def not_le
      split: sum.splits if_splits option.splits outcome.splits)

lemma connected_send [simp]: "connected (send c r h) = connected h"
  by (auto simp: connected_def send_def info_of_def fun_eq_iff)

text \<open>
  (C26) Activation. A client is registered only with the credentials of a user of the base, with
  that user's password, not banned, on a device the user owns; afterwards the client counts for
  that device, the number of different clients connected as the device does not exceed the limit of
  the device, and no other device of any user gained a client.
\<close>

theorem activation_respects_device_limit:
  assumes "env_find E = FindUser (env_valid E) users"
    and "HandleRequestClientActivate E c i (Value a) h = Ret (None, h')"
  shows "\<exists>u dev. u \<in> ran users \<and> ui_password u = au_password a \<and> \<not> IsBanned u
     \<and> dev \<in> set (ui_devices u) \<and> dev_id dev = au_device a
     \<and> c \<in> connected h' (ui_uid u) (au_device a)
     \<and> card (connected h' (ui_uid u) (au_device a)) \<le> unat (dev_connections dev)
     \<and> (\<forall>u' d'. \<not> (u' = ui_uid u \<and> d' = au_device a) \<longrightarrow> connected h' u' d' \<subseteq> connected h u' d')"
proof -
  obtain u dev fs where u: "env_find E a = Inr u" "\<not> IsBanned u" and dev: "FindDevice (au_device a) u = Inr dev"
    and fs: "FindInnerConnectionsByUser (MakeUserRpc \<lparr>sa_uid = ui_uid u, sa_auth = a\<rparr>) h = Ret fs"
    and lim: "length fs < unat (dev_connections dev)"
    and reg: "RegisterInnerConnectionByHost (env_valid E) \<lparr>sa_uid = ui_uid u, sa_auth = a\<rparr> c (send c (ActivateSuccess i) h) = Ret h'"
    by (rule activated [OF assms(2)])
  let ?u = "ui_uid u" and ?d = "au_device a"
  have found: "u \<in> ran users" "ui_password u = au_password a"
    using sync.found [of "env_valid E" users a u] u(1) assms(1) by auto
  have d: "dev \<in> set (ui_devices u)" "dev_id dev = ?d"
    using dev find_device_Some [of ?d "ui_devices u" dev] by (auto simp: FindDevice_def split: if_splits option.splits)
  note cr = connected_register [OF reg, of ?u ?d, simplified]
  have cf: "connected h ?u ?d = set fs" using fs by (intro connected_find) (simp add: MakeUserRpc_def)
  have "card (connected h' ?u ?d) \<le> card (insert c (connected h ?u ?d))"
    using cr(1) by (intro card_mono) (simp_all add: cf)
  also have "\<dots> \<le> Suc (card (connected h ?u ?d))" by (simp add: cf card_insert_le_m1 card_insert_if)
  also have "card (connected h ?u ?d) \<le> length fs" unfolding cf by (rule card_length)
  finally have "card (connected h' ?u ?d) \<le> unat (dev_connections dev)" using lim by simp
  with found u(2) d cr show ?thesis by blast
qed

text \<open>A small server to evaluate on: one user with one device that may connect twice.\<close>

definition demo_user :: "unit UserInfo" where
  "demo_user = \<lparr>ui_uid = ''u1'', ui_login = ''bob'', ui_password = ''pw'', ui_channels = (),
     ui_devices = [\<lparr>dev_id = ''tv'', dev_connections = 2\<rparr>], ui_status = ACTIVE\<rparr>"

definition demo_auth :: AuthInfo where
  "demo_auth = \<lparr>au_login = ''bob'', au_password = ''pw'', au_device = ''tv''\<rparr>"

definition demo_env :: "unit env" where
  "demo_env = \<lparr>env_find = FindUser (\<lambda>_. True) [''bob'' \<mapsto> demo_user], env_valid = (\<lambda>_. True), env_write = (\<lambda>_. None),
     env_bandwidth_host = ''h:1''\<rparr>"

definition demo_handler :: "unit handler" where
  "demo_handler = \<lparr>clients = [7 \<mapsto> client0], client_order = [7], connections = Map.empty, online_clients = 1, sent = []\<rparr>"

lemmas demo_defs = demo_user_def demo_auth_def demo_env_def demo_handler_def client0_def ServerAuthInfo0_def
  HandleRequestClientActivate_def FindUser_def IsBanned_def FindDevice_def FindInnerConnectionsByUser_def
  RegisterInnerConnectionByHost_def ServerAuthInfo_IsValid_def send_def info_of_def MakeUserRpc_def

theorem activation_respects_device_limit_witness:
  "\<exists>h'. HandleRequestClientActivate demo_env 7 None (Value demo_auth) demo_handler = Ret (None, h')
     \<and> card (connected h' ''u1'' ''tv'') \<le> 2"
proof -
  obtain h' where h': "HandleRequestClientActivate demo_env 7 None (Value demo_auth) demo_handler = Ret (None, h')"
    by (simp add: demo_defs)
  have "env_find demo_env = FindUser (env_valid demo_env) [''bob'' \<mapsto> demo_user]" by (simp add: demo_env_def)
  from activation_respects_device_limit [OF this h'] h' show ?thesis
    by (auto simp: demo_user_def demo_auth_def split: if_splits)
qed

section \<open>Clients that are not authorised\<close>

text \<open>The answers that carry data of the service or of a user.\<close>

fun discloses :: "'c reply \<Rightarrow> bool" where
  "discloses (GetServerInfoSuccess _ _) = True"
| "discloses (GetChannelsSuccess _ _) = True"
| "discloses (GetRuntimeChannelInfoSuccess _ _ _) = True"
| "discloses (Pong _) = True"
| "discloses _ = False"

lemma sent_Closed [simp]: "sent (Closed v c h) = sent h"
  by (simp add: Closed_def UnRegisterInnerConnectionByHost_def Let_def split: option.splits)

lemma clients_Closed [simp]: "clients (Closed v c h) c = None"
  by (simp add: Closed_def Let_def)

text \<open>
  (C27) A client whose stored credentials the user base does not accept learns nothing: whatever it
  asks for, no answer with data is sent to anybody, and every request that needs an authorised
  client ends with the connection closed.
\<close>

theorem unauthorised_client_learns_nothing:
  assumes "CheckIsAuthClient E c h = Inl err" "HandleRequestCommand E c req h = Ret (e, h')"
  shows "(\<forall>x. x \<in> set (sent h') \<and> x \<notin> set (sent h) \<longrightarrow> \<not> discloses (snd x))
     \<and> ((\<forall>i p. req \<noteq> Client_activate i p) \<and> req \<noteq> Client_unknown \<longrightarrow> clients h' c = None)"
proof (cases req)
  case (Client_activate i p)
  have "sent h' = sent h \<or> (\<exists>r. sent h' = sent h @ [(c, r)] \<and> \<not> discloses r)"
    using assms(2) Client_activate
    by (auto simp: HandleRequestCommand_def HandleRequestClientActivate_def fail_with_def send_def Let_def
        RegisterInnerConnectionByHost_def split: params.splits sum.splits if_splits option.splits outcome.splits)
  then show ?thesis using Client_activate by auto
qed (use assms in \<open>auto simp: HandleRequestCommand_def HandleRequestClientPing_def HandleRequestClientGetServerInfo_def
    HandleRequestClientGetChannels_def HandleRequestClientGetRuntimeChannelInfo_def reject_client_def send_def\<close>)

theorem unauthorised_client_learns_nothing_witness:
  "\<exists>e h'. HandleRequestCommand demo_env 7 (Client_get_channels None) demo_handler = Ret (e, h') \<and> clients h' 7 = None"
proof -
  have "CheckIsAuthClient demo_env 7 demo_handler = Inl (Error_text ''User not found'')"
    by (simp add: CheckIsAuthClient_def demo_defs)
  moreover obtain e h' where "HandleRequestCommand demo_env 7 (Client_get_channels None) demo_handler = Ret (e, h')"
    by (cases "HandleRequestClientGetChannels demo_env 7 None demo_handler") (auto simp: HandleRequestCommand_def)
  ultimately show ?thesis using unauthorised_client_learns_nothing [of demo_env 7 demo_handler] by auto
qed

text \<open>
  A client that activates twice stays registered after it is gone: each activation adds an
  entry for the client, closing it removes one, and the entry that remains names a client that no
  longer exists.
\<close>

theorem second_activation_leaves_dangling_entry:
  assumes "connections h (sa_uid (info_of h c)) = Some cs" "count_list cs c \<ge> 2"
    and "ServerAuthInfo_IsValid v (info_of h c)"
  shows "\<exists>cs'. connections (Closed v c h) (sa_uid (info_of h c)) = Some cs' \<and> c \<in> set cs'
     \<and> clients (Closed v c h) c = None"
proof -
  have "c \<in> set cs" using assms(2) count_notin [of c cs] by fastforce
  then have "count_list (remove1 c cs) c = count_list cs c - 1"
    by (induction cs) auto
  then have "c \<in> set (remove1 c cs)" using assms(2) count_notin [of c "remove1 c cs"] by fastforce
  then show ?thesis using assms(1,3)
    by (auto simp: Closed_def UnRegisterInnerConnectionByHost_def Let_def)
qed

theorem second_activation_leaves_dangling_entry_witness:
  "\<exists>h1 h2. HandleRequestClientActivate demo_env 7 None (Value demo_auth) demo_handler = Ret (None, h1)
     \<and> HandleRequestClientActivate demo_env 7 None (Value demo_auth) h1 = Ret (None, h2)
     \<and> (\<exists>cs. connections (Closed (\<lambda>_. True) 7 h2) ''u1'' = Some cs \<and> 7 \<in> set cs)"
proof -
  obtain h1 where h1: "HandleRequestClientActivate demo_env 7 None (Value demo_auth) demo_handler = Ret (None, h1)"
    "connections h1 ''u1'' = Some [7]" "clients h1 7 = Some \<lparr>hinfo = \<lparr>sa_uid = ''u1'', sa_auth = demo_auth\<rparr>, current_stream_id = []\<rparr>"
    by (simp add: demo_defs)
  then obtain h2 where h2: "HandleRequestClientActivate demo_env 7 None (Value demo_auth) h1 = Ret (None, h2)"
    "connections h2 ''u1'' = Some [7, 7]" "info_of h2 7 = \<lparr>sa_uid = ''u1'', sa_auth = demo_auth\<rparr>"
    by (simp add: demo_defs)
  from second_activation_leaves_dangling_entry [of h2 7 "[7, 7]" "\<lambda>_. True"] h1 h2 show ?thesis
    by (auto simp: ServerAuthInfo_IsValid_def)
qed

text \<open>The next activation of the same user reads the entry of the client that no longer exists.\<close>

lemma dangling_entry_undefined:
  assumes "connections h (ui_uid u) = Some cs" "c' \<in> set cs" "clients h c' = None"
    and "env_find E a = Inr u" "\<not> IsBanned u" "FindDevice (au_device a) u = Inr dev"
  shows "HandleRequestClientActivate E c i (Value a) h = Abort"
  using assms by (auto simp: HandleRequestClientActivate_def FindInnerConnectionsByUser_def MakeUserRpc_def Let_def list_ex_iff)

end
