(* ===== verification/HttpHandlers.thy ===== *)
theory HttpHandlers
  imports Prelude
begin

text \<open>
  Components \<open>server/http\<close> and \<open>server/vods\<close>: the two file servers of the service, one for live
  streams and one for videos on demand. The HTTP parser, the path classes and the file system are
  the record \<open>http_env\<close>; what a handler does to a connection is a list of effects in their order.
\<close>

section \<open>Environment and effects\<close>

datatype http_method = HM_GET | HM_HEAD | HM_OTHER

datatype http_status = HS_OK | HS_BAD_REQUEST | HS_FORBIDDEN | HS_NOT_FOUND | HS_STATUS nat

datatype http_protocol = HP_1_0 | HP_1_1

text \<open>
  A parsed request: of its path the classes say whether it is valid and whether it is the root, its
  directory part, the name and the kind of the file.
\<close>

record HttpRequest =
  hr_method :: http_method
  hr_protocol :: http_protocol
  hr_connection :: "string option"
  hr_path_valid :: bool
  hr_path_root :: bool
  hr_hpath :: string
  hr_file_name :: string
  hr_mime :: string

record file_stat =
  st_is_dir :: bool
  st_size :: int
  st_mtime :: int

record http_env =
  he_parse :: "string \<Rightarrow> (http_status \<times> error) + HttpRequest"
  he_equals_ascii :: "string \<Rightarrow> string \<Rightarrow> bool"
  he_make_dir :: "string \<Rightarrow> string \<Rightarrow> string option"
  he_make_file :: "string \<Rightarrow> string \<Rightarrow> string option"
  he_stat :: "string \<Rightarrow> file_stat option"
  he_open :: "string \<Rightarrow> bool"
  he_headers_sent :: bool

datatype http_effect =
    SendError http_protocol http_status string bool
  | SendHeaders http_protocol http_status string int int bool
  | SendFileByFd string int
  | OnHttpRequest string
  | Close_client

section \<open>One request\<close>

definition IsKeepAlive :: "http_env \<Rightarrow> HttpRequest \<Rightarrow> bool" where
  "IsKeepAlive H r = (case hr_connection r of None \<Rightarrow> False | Some v \<Rightarrow> he_equals_ascii H v ''Keep-Alive'')"

text \<open>
  The file a request names below a root; \<open>substr(1)\<close> of an empty directory part throws, which ends
  the process.
\<close>

definition request_file :: "http_env \<Rightarrow> string \<Rightarrow> HttpRequest \<Rightarrow> string option outcome" where
  "request_file H docroot r =
     (if hr_hpath r = [] then Abort
      else let dirs_path = (case he_make_dir H docroot (drop 1 (hr_hpath r)) of None \<Rightarrow> docroot | Some d \<Rightarrow> d)
           in Ret (he_make_file H dirs_path (hr_file_name r)))"

text \<open>Sending an existing file: the result says whether the request is finished early.\<close>

definition send_file ::
  "http_env \<Rightarrow> HttpRequest \<Rightarrow> bool \<Rightarrow> string \<Rightarrow> http_effect list \<times> bool" where
  "send_file H r keep file_path = (case he_stat H file_path of
       None \<Rightarrow> ([SendError (hr_protocol r) HS_NOT_FOUND ''File not found.'' keep], True)
     | Some sb \<Rightarrow>
        if st_is_dir sb then ([SendError (hr_protocol r) HS_BAD_REQUEST ''Bad filename.'' keep], True)
        else if \<not> he_open H file_path then ([SendError (hr_protocol r) HS_FORBIDDEN ''File is protected.'' keep], True)
        else let hdr = SendHeaders (hr_protocol r) HS_OK (hr_mime r) (st_size sb) (st_mtime sb) keep
             in if \<not> he_headers_sent H then ([hdr], True)
                else (hdr # (if hr_method r = HM_GET then [SendFileByFd file_path (st_size sb)] else []), False))"

text \<open>The branch of \<open>GET\<close> and \<open>HEAD\<close>; \<open>observed\<close> says whether an observer is set.\<close>

definition process_get ::
  "http_env \<Rightarrow> bool \<Rightarrow> string \<Rightarrow> HttpRequest \<Rightarrow> bool \<Rightarrow> (http_effect list \<times> bool) outcome" where
  "process_get H observed docroot r keep =
     (let not_found = SendError (hr_protocol r) HS_NOT_FOUND ''File not found.'' keep
      in if \<not> hr_path_valid r \<or> hr_path_root r then Ret ([not_found], True)
         else case request_file H docroot r of
           Abort \<Rightarrow> Abort
         | Ret None \<Rightarrow> Ret ([not_found], True)
         | Ret (Some file_path) \<Rightarrow>
            (case send_file H r keep file_path of (es, finished) \<Rightarrow>
               Ret ((if observed then [OnHttpRequest file_path] else []) @ es, finished)))"

definition ProcessReceived :: "http_env \<Rightarrow> bool \<Rightarrow> string \<Rightarrow> string \<Rightarrow> http_effect list outcome" where
  "ProcessReceived H observed docroot request = (case he_parse H request of
       Inl (status, err) \<Rightarrow> Ret [SendError HP_1_1 status (GetDescription err) False, Close_client]
     | Inr hrequest \<Rightarrow>
        (let keep = IsKeepAlive H hrequest;
             leave = (if keep then [] else [Close_client])
         in if hr_method hrequest = HM_GET \<or> hr_method hrequest = HM_HEAD
            then (case process_get H observed docroot hrequest keep of
                    Abort \<Rightarrow> Abort
                  | Ret (es, finished) \<Rightarrow> Ret (if finished then es else es @ leave))
            else Ret leave))"

section \<open>The two handlers\<close>

record HttpHandler =
  http_root :: string

record VodsHandler =
  vods_root :: string

definition SetHttpRoot :: "string \<Rightarrow> HttpHandler \<Rightarrow> HttpHandler" where
  "SetHttpRoot docroot h = h\<lparr>http_root := docroot\<rparr>"

definition SetVodsRoot :: "string \<Rightarrow> VodsHandler \<Rightarrow> VodsHandler" where
  "SetVodsRoot docroot h = h\<lparr>vods_root := docroot\<rparr>"

definition HttpHandler_ProcessReceived :: "http_env \<Rightarrow> HttpHandler \<Rightarrow> string \<Rightarrow> http_effect list outcome" where
  "HttpHandler_ProcessReceived H h request = ProcessReceived H True (http_root h) request"

definition VodsHandler_ProcessReceived :: "http_env \<Rightarrow> VodsHandler \<Rightarrow> string \<Rightarrow> http_effect list outcome" where
  "VodsHandler_ProcessReceived H h request = ProcessReceived H True (vods_root h) request"

text \<open>
  \<open>DataReceived\<close>: the outcome of one read of at most 4095 bytes is an error with its code or the
  bytes; an error that is not \<open>EAGAIN\<close> and an empty read close the client.
\<close>

definition BUF_SIZE :: nat where
  "BUF_SIZE = 4096"

definition http_DataReceived ::
  "(string \<Rightarrow> http_effect list outcome) \<Rightarrow> errno option \<Rightarrow> string \<Rightarrow> http_effect list outcome" where
  "http_DataReceived process errn available =
     (let buff = take (BUF_SIZE - 1) available
      in if (case errn of None \<Rightarrow> False | Some e \<Rightarrow> e \<noteq> EAGAIN) \<or> buff = [] then Ret [Close_client]
         else process buff)"

section \<open>Behaviour\<close>

text \<open>The contract of a file server, proved once and given to both handlers.\<close>

text \<open>The status line a request must get, and the file it names, if any.\<close>

definition expected_status :: "http_env \<Rightarrow> string \<Rightarrow> HttpRequest \<Rightarrow> http_status" where
  "expected_status H docroot r =
     (if \<not> hr_path_valid r \<or> hr_path_root r then HS_NOT_FOUND
      else case request_file H docroot r of
        Ret (Some f) \<Rightarrow> (case he_stat H f of
            None \<Rightarrow> HS_NOT_FOUND
          | Some sb \<Rightarrow> if st_is_dir sb then HS_BAD_REQUEST else if he_open H f then HS_OK else HS_FORBIDDEN)
      | _ \<Rightarrow> HS_NOT_FOUND)"

fun status_of_effect :: "http_effect \<Rightarrow> http_status list" where
  "status_of_effect (SendError _ s _ _) = [s]"
| "status_of_effect (SendHeaders _ s _ _ _ _) = [s]"
| "status_of_effect _ = []"

definition statuses :: "http_effect list \<Rightarrow> http_status list" where
  "statuses es = concat (map status_of_effect es)"

fun body_of_effect :: "http_effect \<Rightarrow> string list" where
  "body_of_effect (SendFileByFd f _) = [f]"
| "body_of_effect _ = []"

definition bodies :: "http_effect list \<Rightarrow> string list" where
  "bodies es = concat (map body_of_effect es)"

lemma effect_lists [simp]:
  "statuses [] = []" "statuses (e # es) = status_of_effect e @ statuses es" "statuses (es @ es') = statuses es @ statuses es'"
  "bodies [] = []" "bodies (e # es) = body_of_effect e @ bodies es" "bodies (es @ es') = bodies es @ bodies es'"
  by (simp_all add: statuses_def bodies_def)

text \<open>
  What the answer to a received text must be: a text that cannot be parsed gets the status of the parser and the
  connection is closed; a \<open>GET\<close> or \<open>HEAD\<close> gets one status, a body only after success headers for a \<open>GET\<close>, and the
  connection is closed after a delivery without keep-alive; any other method gets nothing at all.
\<close>

definition answered :: "http_env \<Rightarrow> string \<Rightarrow> string \<Rightarrow> http_effect list \<Rightarrow> bool" where
  "answered H docroot request es = (case he_parse H request of
       Inl (status, err) \<Rightarrow> statuses es = [status] \<and> bodies es = [] \<and> Close_client \<in> set es
     | Inr r \<Rightarrow>
        if hr_method r = HM_GET \<or> hr_method r = HM_HEAD then
          (let delivered = (expected_status H docroot r = HS_OK \<and> he_headers_sent H)
           in statuses es = [expected_status H docroot r]
            \<and> bodies es = (if hr_method r = HM_GET \<and> delivered
                 then (case request_file H docroot r of Ret (Some f) \<Rightarrow> [f] | _ \<Rightarrow> []) else [])
            \<and> (Close_client \<in> set es \<longleftrightarrow> \<not> IsKeepAlive H r \<and> delivered))
        else statuses es = [] \<and> bodies es = [] \<and> (Close_client \<in> set es \<longleftrightarrow> \<not> IsKeepAlive H r))"

text \<open>A request whose path has no directory part although it is valid and not the root ends the process.\<close>

definition path_without_directory :: "http_env \<Rightarrow> string \<Rightarrow> bool" where
  "path_without_directory H request = (case he_parse H request of
       Inl _ \<Rightarrow> False
     | Inr r \<Rightarrow> (hr_method r = HM_GET \<or> hr_method r = HM_HEAD) \<and> hr_path_valid r \<and> \<not> hr_path_root r \<and> hr_hpath r = [])"

locale file_server =
  fixes H :: http_env
    and docroot :: string
    and serve :: "string \<Rightarrow> http_effect list outcome"
  assumes serve_is_process: "serve request = ProcessReceived H True docroot request"
begin

lemma process_get_answered:
  assumes "hr_method r = HM_GET \<or> hr_method r = HM_HEAD" "process_get H True docroot r keep = Ret (es, finished)"
  shows "statuses es = [expected_status H docroot r]"
    "bodies es = (if hr_method r = HM_GET \<and> expected_status H docroot r = HS_OK \<and> he_headers_sent H
       then (case request_file H docroot r of Ret (Some f) \<Rightarrow> [f] | _ \<Rightarrow> []) else [])"
    "Close_client \<notin> set es" "finished \<longleftrightarrow> \<not> (expected_status H docroot r = HS_OK \<and> he_headers_sent H)"
  using assms
  by (auto simp: process_get_def send_file_def expected_status_def Let_def split: option.splits outcome.splits if_splits prod.splits)

lemma answer:
  assumes "serve request = Ret es"
  shows "answered H docroot request es"
proof (cases "he_parse H request")
  case (Inl e)
  then show ?thesis using assms by (cases e) (auto simp: serve_is_process ProcessReceived_def answered_def)
next
  case (Inr r)
  show ?thesis
  proof (cases "hr_method r = HM_GET \<or> hr_method r = HM_HEAD")
    case True
    then obtain es1 finished where p: "process_get H True docroot r (IsKeepAlive H r) = Ret (es1, finished)"
        "es = (if finished then es1 else es1 @ (if IsKeepAlive H r then [] else [Close_client]))"
      using assms Inr by (auto simp: serve_is_process ProcessReceived_def Let_def split: outcome.splits prod.splits)
    from process_get_answered [OF True p(1)] p(2) True Inr show ?thesis by (auto simp: answered_def Let_def)
  next
    case False
    then show ?thesis using assms Inr by (auto simp: serve_is_process ProcessReceived_def answered_def Let_def)
  qed
qed

lemma fails_when: "serve request = Abort \<longleftrightarrow> path_without_directory H request"
  by (auto simp: serve_is_process ProcessReceived_def process_get_def request_file_def path_without_directory_def Let_def
      split: sum.splits option.splits outcome.splits prod.splits)

end

interpretation live: file_server H "http_root h" "HttpHandler_ProcessReceived H h" for H h
  by unfold_locales (simp add: HttpHandler_ProcessReceived_def)

interpretation vods: file_server H "vods_root h" "VodsHandler_ProcessReceived H h" for H h
  by unfold_locales (simp add: VodsHandler_ProcessReceived_def)

text \<open>
  (C40) How the two file servers answer every text they receive. A text that cannot be parsed gets exactly one
  error, the status of the parser, and the connection is closed. A parsed GET or HEAD request gets exactly one
  status: not found for an invalid or root path, an unresolvable or missing file, bad request for a directory,
  forbidden for a file that cannot be opened, and success otherwise; the file it names below the configured
  root is sent exactly to a GET after success headers, and without keep-alive the connection is closed exactly after
  a delivery. A request with any other method gets no answer at all; without
  keep-alive its connection is closed. The handler fails exactly on a valid path
  without directory part.
\<close>

theorem file_server_answers:
  "(HttpHandler_ProcessReceived H h request = Abort \<longleftrightarrow> path_without_directory H request)
   \<and> (VodsHandler_ProcessReceived H v request = Abort \<longleftrightarrow> path_without_directory H request)
   \<and> (\<forall>es. HttpHandler_ProcessReceived H h request = Ret es \<longrightarrow> answered H (http_root h) request es)
   \<and> (\<forall>vs. VodsHandler_ProcessReceived H v request = Ret vs \<longrightarrow> answered H (vods_root v) request vs)"
  using live.fails_when vods.fails_when live.answer vods.answer by blast

definition demo_http :: http_env where
  "demo_http = \<lparr>he_parse = (\<lambda>s. Inr \<lparr>hr_method = HM_GET, hr_protocol = HP_1_1, hr_connection = None,
       hr_path_valid = True, hr_path_root = False, hr_hpath = ''/a/'', hr_file_name = s, hr_mime = ''text''\<rparr>),
     he_equals_ascii = (=), he_make_dir = (\<lambda>docroot sub. Some (docroot @ sub)), he_make_file = (\<lambda>d f. Some (d @ f)),
     he_stat = (\<lambda>f. if f = ''/w/a/x.ts'' then Some \<lparr>st_is_dir = False, st_size = 3, st_mtime = 1\<rparr> else None),
     he_open = (\<lambda>f. True), he_headers_sent = True\<rparr>"

lemmas demo_http_simps = demo_http_def HttpHandler_ProcessReceived_def VodsHandler_ProcessReceived_def ProcessReceived_def
  process_get_def send_file_def request_file_def expected_status_def IsKeepAlive_def

theorem file_server_answers_witness:
  "\<exists>es vs. HttpHandler_ProcessReceived demo_http \<lparr>http_root = ''/w/''\<rparr> ''x.ts'' = Ret es
     \<and> VodsHandler_ProcessReceived demo_http \<lparr>vods_root = ''/v/''\<rparr> ''x.ts'' = Ret vs
     \<and> statuses es = [HS_OK] \<and> bodies es = [''/w/a/x.ts''] \<and> statuses vs = [HS_NOT_FOUND]"
proof -
  obtain es vs where ev: "HttpHandler_ProcessReceived demo_http \<lparr>http_root = ''/w/''\<rparr> ''x.ts'' = Ret es"
      "VodsHandler_ProcessReceived demo_http \<lparr>vods_root = ''/v/''\<rparr> ''x.ts'' = Ret vs"
    by (simp add: demo_http_simps)
  from file_server_answers [of demo_http "\<lparr>http_root = ''/w/''\<rparr>" "''x.ts''" "\<lparr>vods_root = ''/v/''\<rparr>"] ev
  have "answered demo_http ''/w/'' ''x.ts'' es" "answered demo_http ''/v/'' ''x.ts'' vs" by simp_all
  then have "statuses es = [HS_OK]" "bodies es = [''/w/a/x.ts'']" "statuses vs = [HS_NOT_FOUND]"
    by (simp_all add: answered_def demo_http_def request_file_def expected_status_def)
  with ev show ?thesis by blast
qed

text \<open>
  A connection without keep-alive is closed after a file was delivered, but it stays open after
  every refusal: the early returns of the error branches skip the closing of the client.
\<close>

theorem refused_connection_stays_open:
  assumes "he_parse H request = Inr r" "hr_method r = HM_GET \<or> hr_method r = HM_HEAD" "\<not> IsKeepAlive H r"
    and "HttpHandler_ProcessReceived H h request = Ret es"
  shows "Close_client \<in> set es \<longleftrightarrow> expected_status H (http_root h) r = HS_OK \<and> he_headers_sent H"
  using live.answer [OF assms(4)] assms(1-3) by (simp add: answered_def Let_def)

theorem refused_connection_stays_open_witness:
  "\<exists>es. HttpHandler_ProcessReceived demo_http \<lparr>http_root = ''/v/''\<rparr> ''x.ts'' = Ret es \<and> Close_client \<notin> set es"
proof -
  obtain r where r: "he_parse demo_http ''x.ts'' = Inr r" "hr_method r = HM_GET" "\<not> IsKeepAlive demo_http r"
      "expected_status demo_http (http_root \<lparr>http_root = ''/v/''\<rparr>) r = HS_NOT_FOUND"
    by (auto simp: demo_http_simps)
  obtain es where es: "HttpHandler_ProcessReceived demo_http \<lparr>http_root = ''/v/''\<rparr> ''x.ts'' = Ret es"
    by (simp add: demo_http_simps)
  from refused_connection_stays_open [OF r(1) disjI1 [OF r(2)] r(3) es] r(4) es show ?thesis by auto
qed

end
