(* ===== verification/Daemon.thy ===== *)
theory Daemon
  imports StreamLaunch Users Protocol HttpHandlers
begin

text \<open>
  Components \<open>server/process_slave_wrapper\<close>, \<open>server/child_stream\<close> and \<open>server/daemon/client\<close>: the
  service itself. Its state holds the clients of its event loop (operators and the pipes to the
  stream processes) as numbered connections, the running streams, the timers, the links from
  directories to video configurations, the user base, the roots of the two file servers, and every
  message written, in order. The environment of one event \<open>env\<close> answers for the libraries and the
  operating system. Memory segments and pipe ends are counted, so that leaks are visible.
\<close>

section \<open>State\<close>

datatype io_client = Daemon_client bool | Pipe_client

datatype out_message = Out_request request | Out_response response

record 'd child =
  ch_mem :: "'d StreamStruct"
  ch_client :: "nat option"
  ch_pid :: int

record ('d, 'c) daemon =
  dm_clients :: "(nat \<times> io_client) list"
  dm_children :: "'d child list"
  dm_next :: nat
  dm_id :: u64
  ping_client_timer :: "nat option"
  node_stats_timer :: "nat option"
  cleanup_files_timer :: "nat option"
  quit_cleanup_timer :: "nat option"
  dm_node :: NodeStats
  vods_links :: "string \<rightharpoonup> ArgsMap"
  dm_users :: "string \<rightharpoonup> 'c UserInfo"
  dm_http :: HttpHandler
  dm_vods :: VodsHandler
  dm_files :: "string \<rightharpoonup> string \<times> string list"
  dm_sent :: "(nat \<times> out_message) list"
  dm_posts :: "(string \<times> string) list"
  dm_shm :: nat
  dm_fds :: nat
  dm_stopped :: bool

record ('j, 'u, 'd, 'c) env =
  en_opt :: "('j, 'u) opt_env"
  en_license :: string
  en_crit :: bool
  en_parse_config :: "string \<Rightarrow> config_text"
  en_fs :: fs_api
  en_scan :: "string \<Rightarrow> string list"
  en_describe :: describe
  en_write :: "nat \<Rightarrow> errno_error option"
  en_make_id :: "u64 \<Rightarrow> string"
  en_mem0 :: 'd
  en_mmap :: mmap_result
  en_now :: int
  en_pipe1 :: "errno_error option"
  en_pipe2 :: "errno_error option"
  en_fork :: "int option"
  en_channels0 :: 'c
  en_channels :: "'j \<Rightarrow> error + 'c"
  en_stats :: stats_env
  en_machine :: machine
  en_online :: "u64 \<times> u64 \<times> u64"
  en_new_timer :: nat
  en_server_ping :: "error + string"
  en_client_ping :: "'j \<Rightarrow> error option"
  en_dbps_str :: "'d \<Rightarrow> string"
  en_dbps_of :: "string \<Rightarrow> 'd option"
  en_make_file :: "string \<Rightarrow> string \<Rightarrow> string option"
  en_log_path :: string

abbreviation en_json :: "('j, 'u, 'd, 'c, 'z) env_scheme \<Rightarrow> 'j json" where
  "en_json E \<equiv> oe_json (en_opt E)"

abbreviation en_url :: "('j, 'u, 'd, 'c, 'z) env_scheme \<Rightarrow> 'u url_api" where
  "en_url E \<equiv> oe_url (en_opt E)"

section \<open>Clients and messages\<close>

definition IsVerified :: "('d, 'c) daemon \<Rightarrow> nat \<Rightarrow> bool" where
  "IsVerified D c \<longleftrightarrow> map_of (dm_clients D) c = Some (Daemon_client True)"

definition SetVerified :: "nat \<Rightarrow> ('d, 'c) daemon \<Rightarrow> ('d, 'c) daemon" where
  "SetVerified c D = D\<lparr>dm_clients := map (\<lambda>(k, v). if k = c then (k, Daemon_client True) else (k, v)) (dm_clients D)\<rparr>"

definition send_to :: "nat \<Rightarrow> out_message \<Rightarrow> ('d, 'c) daemon \<Rightarrow> ('d, 'c) daemon" where
  "send_to c msg D = D\<lparr>dm_sent := dm_sent D @ [(c, msg)]\<rparr>"

definition respond :: "nat \<Rightarrow> response \<Rightarrow> ('d, 'c) daemon \<Rightarrow> ('d, 'c) daemon" where
  "respond c r D = send_to c (Out_response r) D"

definition close_client :: "nat \<Rightarrow> ('d, 'c) daemon \<Rightarrow> ('d, 'c) daemon" where
  "close_client c D = D\<lparr>dm_clients := filter (\<lambda>k. fst k \<noteq> c) (dm_clients D)\<rparr>"

definition NextRequestID :: "('j, 'u, 'd, 'c) env \<Rightarrow> ('d, 'c) daemon \<Rightarrow> seq_id \<times> ('d, 'c) daemon" where
  "NextRequestID E D = (Some (en_make_id E (dm_id D)), D\<lparr>dm_id := dm_id D + 1\<rparr>)"

definition BroadcastClients :: "request \<Rightarrow> ('d, 'c) daemon \<Rightarrow> ('d, 'c) daemon" where
  "BroadcastClients req D =
     foldl (\<lambda>D c. if snd c = Daemon_client True then send_to (fst c) (Out_request req) D else D) D (dm_clients D)"

section \<open>Streams\<close>

definition GetStreamID :: "'d child \<Rightarrow> string" where
  "GetStreamID ch = ss_id (ch_mem ch)"

fun find_child :: "string \<Rightarrow> 'd child list \<Rightarrow> 'd child option" where
  "find_child cid [] = None"
| "find_child cid (channel # childs) = (if GetStreamID channel = cid then Some channel else find_child cid childs)"

definition FindChildByID :: "string \<Rightarrow> ('d, 'c) daemon \<Rightarrow> 'd child option" where
  "FindChildByID cid D = find_child cid (dm_children D)"

definition SendStop :: "'d child \<Rightarrow> seq_id \<Rightarrow> ('d, 'c) daemon \<Rightarrow> ('d, 'c) daemon" where
  "SendStop ch i D = (case ch_client ch of None \<Rightarrow> D | Some h \<Rightarrow> send_to h (Out_request (StopStreamRequest i)) D)"

definition SendRestart :: "'d child \<Rightarrow> seq_id \<Rightarrow> ('d, 'c) daemon \<Rightarrow> ('d, 'c) daemon" where
  "SendRestart ch i D = (case ch_client ch of None \<Rightarrow> D | Some h \<Rightarrow> send_to h (Out_request (RestartStreamRequest i)) D)"

text \<open>
  \<open>CreateChildStream\<close> after the shared memory was allocated, in the parent process: two pipes with
  four ends, of which the parent closes two after the fork. A failed fork is only logged.
\<close>

definition launch ::
  "('j, 'u, 'd, 'c) env \<Rightarrow> 'd StreamStruct \<Rightarrow> ('d, 'c) daemon \<Rightarrow> errno_error option \<times> ('d, 'c) daemon" where
  "launch E mem D = (case en_pipe1 E of
       Some err \<Rightarrow> (Some err, D)
     | None \<Rightarrow> (case en_pipe2 E of
          Some err \<Rightarrow> (Some err, D\<lparr>dm_fds := dm_fds D + 2\<rparr>)
        | None \<Rightarrow> (case en_fork E of
             None \<Rightarrow> (None, D\<lparr>dm_shm := dm_shm D + 1, dm_fds := dm_fds D + 4\<rparr>)
           | Some pid \<Rightarrow> (None, D\<lparr>dm_shm := dm_shm D + 1, dm_fds := dm_fds D + 2, dm_next := dm_next D + 1,
                dm_clients := dm_clients D @ [(dm_next D, Pipe_client)],
                dm_children := dm_children D @ [\<lparr>ch_mem = mem, ch_client = Some (dm_next D), ch_pid = pid\<rparr>]\<rparr>))))"

definition CreateChildStream ::
  "('j, 'u, 'd, 'c) env \<Rightarrow> ArgsMap \<Rightarrow> ('d, 'c) daemon \<Rightarrow> (errno_error option \<times> ('d, 'c) daemon) outcome" where
  "CreateChildStream E config_args D = (case MakeStreamInfo (en_opt E) (en_fs E) config_args True of
       Inl err \<Rightarrow> Ret (Some err, D)
     | Inr (sha, feedback_dir, logs_level) \<Rightarrow>
        if FindChildByID (si_id sha) D \<noteq> None
        then Ret (Some (Errno_error (''Stream with id: '' @ si_id sha @ '' exist, skip request.'') EINVAL), D)
        else (case AllocSharedStreamStruct (en_mem0 E) (en_mmap E) (en_now E) sha of
            Abort \<Rightarrow> Abort
          | Ret (Inl err) \<Rightarrow> Ret (Some err, D)
          | Ret (Inr mem) \<Rightarrow> Ret (launch E mem D)))"

definition CreateChildStream_text ::
  "('j, 'u, 'd, 'c) env \<Rightarrow> string \<Rightarrow> ('d, 'c) daemon \<Rightarrow> (errno_error option \<times> ('d, 'c) daemon) outcome" where
  "CreateChildStream_text E config D = (case ValidateConfig (en_opt E) (en_crit E) (en_parse_config E) config of
       Abort \<Rightarrow> Abort | Ret config_args \<Rightarrow> CreateChildStream E config_args D)"

text \<open>
  The end of a stream process: the wait status is decoded as by \<open>WIFEXITED\<close>, \<open>WEXITSTATUS\<close>,
  \<open>WIFSIGNALED\<close> and \<open>WTERMSIG\<close>.
\<close>

definition term_signal :: "nat \<Rightarrow> nat" where
  "term_signal wstatus = wstatus mod 128"

definition stabled_status :: "nat \<Rightarrow> int" where
  "stabled_status wstatus = (if term_signal wstatus = 0 then int (wstatus div 256 mod 256) else 1)"

definition signal_number :: "nat \<Rightarrow> int" where
  "signal_number wstatus = (if term_signal wstatus \<noteq> 0 \<and> term_signal wstatus \<noteq> 127 then int (term_signal wstatus) else 0)"

definition ChildStatusChanged :: "('j, 'u, 'd, 'c) env \<Rightarrow> 'd child \<Rightarrow> nat \<Rightarrow> ('d, 'c) daemon \<Rightarrow> ('d, 'c) daemon" where
  "ChildStatusChanged E channel wstatus D =
     (let sid = GetStreamID channel;
          D1 = D\<lparr>dm_children := remove1 channel (dm_children D), dm_shm := dm_shm D - 1\<rparr>
      in case QuitStatusInfo_Serialize (en_json E)
                \<lparr>qs_stream_id = sid, qs_exit_status = (if stabled_status wstatus = 0 then 1 else 0),
                 qs_signal = signal_number wstatus\<rparr> of
           Inl err \<Rightarrow> D1
         | Inr j \<Rightarrow> BroadcastClients (QuitStatusStreamBroadcast (js_print (en_json E) j)) D1)"

section \<open>Requests of an operator\<close>

text \<open>
  The shared frame of the handlers: no parameters and a text that is not JSON give an invalid
  argument error, a value that cannot be read its description.
\<close>

definition with_params ::
  "('j, 'u, 'd, 'c) env \<Rightarrow> ('j \<Rightarrow> error + 'p) \<Rightarrow> request \<Rightarrow> ('d, 'c) daemon
     \<Rightarrow> ('p \<Rightarrow> (errno_error option \<times> ('d, 'c) daemon) outcome) \<Rightarrow> (errno_error option \<times> ('d, 'c) daemon) outcome" where
  "with_params E deser req D k = (case rq_params req of
       None \<Rightarrow> Ret (Some Errno_inval, D)
     | Some params \<Rightarrow> (case js_parse (en_json E) params of
          None \<Rightarrow> Ret (Some Errno_inval, D)
        | Some j \<Rightarrow> (case deser j of
             Inl err_des \<Rightarrow> Ret (Some (Errno_error (GetDescription err_des) EAGAIN), D)
           | Inr p \<Rightarrow> k p)))"

definition if_verified ::
  "nat \<Rightarrow> ('d, 'c) daemon \<Rightarrow> (errno_error option \<times> ('d, 'c) daemon) outcome \<Rightarrow> (errno_error option \<times> ('d, 'c) daemon) outcome" where
  "if_verified c D k = (if \<not> IsVerified D c then Ret (Some Errno_inval, D) else k)"

definition HandleRequestClientStopService ::
  "('j, 'u, 'd, 'c) env \<Rightarrow> nat \<Rightarrow> request \<Rightarrow> ('d, 'c) daemon \<Rightarrow> (errno_error option \<times> ('d, 'c) daemon) outcome" where
  "HandleRequestClientStopService E c req D =
     with_params E (StopServiceInfo_DeSerialize (en_json E)) req D (\<lambda>stop_info.
       if \<not> (st_license stop_info = en_license E \<or> IsVerified D c) then Ret (Some Errno_inval, D)
       else if quit_cleanup_timer D \<noteq> None
       then Ret (None, respond c (StopServiceResponceFail (rq_id req) ''Stop service in progress...'') D)
       else
         (let D1 = foldl (\<lambda>D channel. case NextRequestID E D of (i, D) \<Rightarrow> SendStop channel i D) D (dm_children D);
              D2 = respond c (StopServiceResponceSuccess (rq_id req)) D1
          in Ret (None, D2\<lparr>quit_cleanup_timer := Some (en_new_timer E)\<rparr>)))"

definition HandleRequestClientStartStream ::
  "('j, 'u, 'd, 'c) env \<Rightarrow> nat \<Rightarrow> request \<Rightarrow> ('d, 'c) daemon \<Rightarrow> (errno_error option \<times> ('d, 'c) daemon) outcome" where
  "HandleRequestClientStartStream E c req D = if_verified c D
     (with_params E (StartInfo_DeSerialize (en_json E)) req D (\<lambda>config.
        case CreateChildStream_text E config D of
          Abort \<Rightarrow> Abort
        | Ret (Some err, D1) \<Rightarrow> Ret (Some err, respond c (StartStreamResponceFail (rq_id req) (en_describe E err)) D1)
        | Ret (None, D1) \<Rightarrow> Ret (None, respond c (StartStreamResponceSuccess (rq_id req)) D1)))"

definition HandleRequestClientStopStream ::
  "('j, 'u, 'd, 'c) env \<Rightarrow> nat \<Rightarrow> request \<Rightarrow> ('d, 'c) daemon \<Rightarrow> (errno_error option \<times> ('d, 'c) daemon) outcome" where
  "HandleRequestClientStopStream E c req D = if_verified c D
     (with_params E (StreamIdInfo_DeSerialize (en_json E)) req D (\<lambda>sid.
        case FindChildByID sid D of
          None \<Rightarrow> Ret (None, respond c (StopStreamResponceFail (rq_id req) ''Stream not found.'') D)
        | Some chan \<Rightarrow> (case NextRequestID E D of (i, D1) \<Rightarrow>
            Ret (None, respond c (daemon_StopStreamResponceSuccess (rq_id req)) (SendStop chan i D1)))))"

definition HandleRequestClientRestartStream ::
  "('j, 'u, 'd, 'c) env \<Rightarrow> nat \<Rightarrow> request \<Rightarrow> ('d, 'c) daemon \<Rightarrow> (errno_error option \<times> ('d, 'c) daemon) outcome" where
  "HandleRequestClientRestartStream E c req D = if_verified c D
     (with_params E (StreamIdInfo_DeSerialize (en_json E)) req D (\<lambda>sid.
        case FindChildByID sid D of
          None \<Rightarrow> Ret (None, respond c (RestartStreamResponceFail (rq_id req) ''Stream not found.'') D)
        | Some chan \<Rightarrow> (case NextRequestID E D of (i, D1) \<Rightarrow>
            Ret (None, respond c (daemon_RestartStreamResponceSuccess (rq_id req)) (SendRestart chan i D1)))))"

text \<open>
  The requests for log files post a file to the address of the request when it is an HTTP address
  (\<open>PostHttpFile\<close>, whose outcome is ignored: the attempt is recorded), and answer with success.
\<close>

definition post_file :: "('j, 'u, 'd, 'c) env \<Rightarrow> string option \<Rightarrow> 'u \<Rightarrow> ('d, 'c) daemon \<Rightarrow> ('d, 'c) daemon" where
  "post_file E path url D =
     (if url_scheme (en_url E) url = Scheme_http
      then (case path of None \<Rightarrow> D | Some p \<Rightarrow> D\<lparr>dm_posts := dm_posts D @ [(p, url_text (en_url E) url)]\<rparr>)
      else D)"

definition LOGS_FILE_NAME :: string where "LOGS_FILE_NAME = ''logs''"

definition HandleRequestClientGetLogStream ::
  "('j, 'u, 'd, 'c) env \<Rightarrow> nat \<Rightarrow> request \<Rightarrow> ('d, 'c) daemon \<Rightarrow> (errno_error option \<times> ('d, 'c) daemon) outcome" where
  "HandleRequestClientGetLogStream E c req D = if_verified c D
     (with_params E (GetLogStreamInfo_DeSerialize (en_json E) (en_url E)) req D (\<lambda>log_info.
        Ret (None, respond c (GetLogStreamResponceSuccess (rq_id req))
          (post_file E (MakeStreamLogPath (en_url E) (en_make_file E) LOGS_FILE_NAME (gl_feedback_dir log_info))
             (gl_path log_info) D))))"

definition HandleRequestClientGetPipelineStream ::
  "('j, 'u, 'd, 'c) env \<Rightarrow> nat \<Rightarrow> request \<Rightarrow> ('d, 'c) daemon \<Rightarrow> (errno_error option \<times> ('d, 'c) daemon) outcome" where
  "HandleRequestClientGetPipelineStream E c req D = if_verified c D
     (with_params E (GetLogStreamInfo_DeSerialize (en_json E) (en_url E)) req D (\<lambda>log_info.
        Ret (None, respond c (GetLogStreamResponceSuccess (rq_id req))
          (post_file E (MakeStreamPipelinePath (en_url E) (en_make_file E) (gl_feedback_dir log_info))
             (gl_path log_info) D))))"

definition HandleRequestClientPrepareService ::
  "('j, 'u, 'd, 'c) env \<Rightarrow> nat \<Rightarrow> request \<Rightarrow> ('d, 'c) daemon \<Rightarrow> (errno_error option \<times> ('d, 'c) daemon) outcome" where
  "HandleRequestClientPrepareService E c req D = if_verified c D
     (with_params E (PrepareInfo_DeSerialize (en_json E)) req D (\<lambda>state_info.
        let D1 = D\<lparr>dm_http := SetHttpRoot (dir_path (en_url E) (hls_directory state_info)) (dm_http D),
                   dm_vods := SetVodsRoot (dir_path (en_url E) (vods_directory state_info)) (dm_vods D)\<rparr>;
            dirs = Directories (en_url E) (en_fs E) (en_describe E) (en_scan E) state_info
        in Ret (None, respond c (StateServiceResponce (rq_id req) (MakeDirectoryResponce (en_json E) dirs)) D1)))"

text \<open>
  A line of the synchronisation: the directories of the HTTP outputs of a video are linked to its
  configuration with the cleaning of chunks switched off.
\<close>

definition link_outputs :: "'u url_api \<Rightarrow> ArgsMap \<Rightarrow> 'u OutputUri list \<Rightarrow> (string \<rightharpoonup> ArgsMap) \<Rightarrow> (string \<rightharpoonup> ArgsMap)" where
  "link_outputs U config_args outs links =
     foldl (\<lambda>links out_uri. if url_scheme U (ou_output out_uri) = Scheme_http
              then links(ou_http_root out_uri \<mapsto> config_args(CLEANUP_TS_FIELD \<mapsto> ''false'')) else links) links outs"

definition AddStreamLine :: "('j, 'u, 'd, 'c) env \<Rightarrow> (string \<rightharpoonup> ArgsMap) \<Rightarrow> string \<Rightarrow> (string \<rightharpoonup> ArgsMap) outcome" where
  "AddStreamLine E links config = (case ValidateConfig (en_opt E) (en_crit E) (en_parse_config E) config of
       Abort \<Rightarrow> Abort
     | Ret config_args \<Rightarrow> (case MakeStreamInfo (en_opt E) (en_fs E) config_args False of
          Inl err \<Rightarrow> Ret links
        | Inr (sha, feedback_dir, logs_level) \<Rightarrow>
           if si_type sha = VOD_ENCODE \<or> si_type sha = VOD_RELAY then
             (case read_output (en_json E) (en_url E) config_args of
                None \<Rightarrow> Ret links
              | Some outs \<Rightarrow> Ret (link_outputs (en_url E) config_args outs links))
           else Ret links))"

fun add_stream_lines :: "('j, 'u, 'd, 'c) env \<Rightarrow> (string \<rightharpoonup> ArgsMap) \<Rightarrow> string list \<Rightarrow> (string \<rightharpoonup> ArgsMap) outcome" where
  "add_stream_lines E links [] = Ret links"
| "add_stream_lines E links (config # configs) = (case AddStreamLine E links config of
     Abort \<Rightarrow> Abort | Ret links1 \<Rightarrow> add_stream_lines E links1 configs)"

definition read_user :: "('j, 'u, 'd, 'c) env \<Rightarrow> string \<Rightarrow> error + 'c UserInfo" where
  "read_user E text = (case js_parse (en_json E) text of
     None \<Rightarrow> Inl Error_inval | Some j \<Rightarrow> UserInfo_DeSerialize (en_json E) (en_channels0 E) (en_channels E) j)"

definition HandleRequestClientSyncService ::
  "('j, 'u, 'd, 'c) env \<Rightarrow> nat \<Rightarrow> request \<Rightarrow> ('d, 'c) daemon \<Rightarrow> (errno_error option \<times> ('d, 'c) daemon) outcome" where
  "HandleRequestClientSyncService E c req D = if_verified c D
     (with_params E (SyncInfo_DeSerialize (en_json E)) req D (\<lambda>sync_info.
        case add_stream_lines E Map.empty (sy_streams sync_info) of
          Abort \<Rightarrow> Abort
        | Ret links \<Rightarrow>
           (let users = foldl (\<lambda>db text. case read_user E text of Inl err \<Rightarrow> db | Inr uinf \<Rightarrow> AddUser db uinf)
                  (Clear (dm_users D)) (sy_users sync_info)
            in Ret (None, respond c (daemon_StopStreamResponceSuccess (rq_id req))
                      (D\<lparr>vods_links := links, dm_users := users\<rparr>)))))"

definition online_users :: "('j, 'u, 'd, 'c) env \<Rightarrow> ('d, 'c) daemon \<Rightarrow> OnlineUsers" where
  "online_users E D = (case en_online E of (http, vods, subscriber) \<Rightarrow>
     \<lparr>on_daemon = of_nat (length (filter (\<lambda>c. snd c = Daemon_client True) (dm_clients D))),
      on_http = http, on_vods = vods, on_subscriber = subscriber\<rparr>)"

definition service_stats :: "('j, 'u, 'd, 'c) env \<Rightarrow> bool \<Rightarrow> ('d, 'c) daemon \<Rightarrow> (string \<times> ('d, 'c) daemon) outcome" where
  "service_stats E full D =
     (case MakeServiceStats (en_json E) (en_stats E) (en_machine E) (online_users E D) full (dm_node D) of
        Abort \<Rightarrow> Abort | Ret (s, ns) \<Rightarrow> Ret (s, D\<lparr>dm_node := ns\<rparr>))"

definition HandleRequestClientActivate ::
  "('j, 'u, 'd, 'c) env \<Rightarrow> nat \<Rightarrow> request \<Rightarrow> ('d, 'c) daemon \<Rightarrow> (errno_error option \<times> ('d, 'c) daemon) outcome" where
  "HandleRequestClientActivate E c req D = (case rq_params req of
       None \<Rightarrow> Ret (Some Errno_inval, D)
     | Some params \<Rightarrow> (case js_parse (en_json E) params of
          None \<Rightarrow> Ret (Some Errno_inval, D)
        | Some j \<Rightarrow> (case LicenseInfo_DeSerialize (en_json E) j of
             Inl err_des \<Rightarrow> Ret (Some (Errno_error (GetDescription err_des) EAGAIN),
                respond c (ActivateResponceFail (rq_id req) (GetDescription err_des)) D)
           | Inr activate_info \<Rightarrow>
              if lic_license activate_info \<noteq> en_license E then
                Ret (Some Errno_inval, respond c (ActivateResponceFail (rq_id req) ''Wrong license key'') D)
              else (case service_stats E True D of
                 Abort \<Rightarrow> Abort
               | Ret (node_stats, D1) \<Rightarrow>
                   Ret (None, SetVerified c (respond c (ActivateResponce (rq_id req) node_stats) D1))))))"

definition HandleRequestClientPingService ::
  "('j, 'u, 'd, 'c) env \<Rightarrow> nat \<Rightarrow> request \<Rightarrow> ('d, 'c) daemon \<Rightarrow> (errno_error option \<times> ('d, 'c) daemon) outcome" where
  "HandleRequestClientPingService E c req D = if_verified c D
     (with_params E (\<lambda>j. case en_client_ping E j of Some err \<Rightarrow> Inl err | None \<Rightarrow> Inr ()) req D (\<lambda>_.
        case en_server_ping E of
          Inl err_ser \<Rightarrow> Ret (Some (Errno_error (GetDescription err_ser) EAGAIN), D)
        | Inr ping_server_json \<Rightarrow> Ret (None, respond c (PingServiceResponce (rq_id req) ping_server_json) D)))"

definition HandleRequestClientGetLogService ::
  "('j, 'u, 'd, 'c) env \<Rightarrow> nat \<Rightarrow> request \<Rightarrow> ('d, 'c) daemon \<Rightarrow> (errno_error option \<times> ('d, 'c) daemon) outcome" where
  "HandleRequestClientGetLogService E c req D = if_verified c D
     (with_params E (GetLogServiceInfo_DeSerialize (en_json E) (en_url E)) req D (\<lambda>remote_log_path.
        Ret (None, respond c (GetLogServiceResponceSuccess (rq_id req))
          (post_file E (Some (en_log_path E)) remote_log_path D))))"

definition HandleRequestServiceCommand ::
  "('j, 'u, 'd, 'c) env \<Rightarrow> nat \<Rightarrow> request \<Rightarrow> ('d, 'c) daemon \<Rightarrow> (errno_error option \<times> ('d, 'c) daemon) outcome" where
  "HandleRequestServiceCommand E c req D =
     (if rq_method req = DAEMON_START_STREAM then HandleRequestClientStartStream E c req D
      else if rq_method req = DAEMON_STOP_STREAM then HandleRequestClientStopStream E c req D
      else if rq_method req = DAEMON_RESTART_STREAM then HandleRequestClientRestartStream E c req D
      else if rq_method req = DAEMON_GET_LOG_STREAM then HandleRequestClientGetLogStream E c req D
      else if rq_method req = DAEMON_GET_PIPELINE_STREAM then HandleRequestClientGetPipelineStream E c req D
      else if rq_method req = DAEMON_PREPARE_SERVICE then HandleRequestClientPrepareService E c req D
      else if rq_method req = DAEMON_SYNC_SERVICE then HandleRequestClientSyncService E c req D
      else if rq_method req = DAEMON_STOP_SERVICE then HandleRequestClientStopService E c req D
      else if rq_method req = DAEMON_ACTIVATE then HandleRequestClientActivate E c req D
      else if rq_method req = DAEMON_PING_SERVICE then HandleRequestClientPingService E c req D
      else if rq_method req = DAEMON_GET_LOG_SERVICE then HandleRequestClientGetLogService E c req D
      else Ret (None, D))"

section \<open>Messages of a stream process\<close>

definition HandleRequestChangedSourcesStream ::
  "('j, 'u, 'd, 'c) env \<Rightarrow> request \<Rightarrow> ('d, 'c) daemon \<Rightarrow> (errno_error option \<times> ('d, 'c) daemon) outcome" where
  "HandleRequestChangedSourcesStream E req D =
     with_params E (ChangedSouresInfo_DeSerialize (en_json E) (en_url E)) req D (\<lambda>ch_sources_info.
       case ChangedSouresInfo_Serialize (en_json E) (en_url E) ch_sources_info of
         Inl err_ser \<Rightarrow> Ret (Some (Errno_error (GetDescription err_ser) EAGAIN), D)
       | Inr j \<Rightarrow> Ret (None, BroadcastClients (daemon_ChangedSourcesStreamBroadcast (js_print (en_json E) j)) D))"

definition HandleRequestStatisticStream ::
  "('j, 'u, 'd, 'c) env \<Rightarrow> request \<Rightarrow> ('d, 'c) daemon \<Rightarrow> (errno_error option \<times> ('d, 'c) daemon) outcome" where
  "HandleRequestStatisticStream E req D =
     with_params E (StatisticInfo_DeSerialize (en_json E) (en_mem0 E) (en_dbps_of E) (en_now E)) req D (\<lambda>stat.
       case StatisticInfo_Serialize (en_json E) (en_dbps_str E) stat of
         Inl err_ser \<Rightarrow> Ret (Some (Errno_error (GetDescription err_ser) EAGAIN), D)
       | Inr j \<Rightarrow> Ret (None, BroadcastClients (StatisitcStreamBroadcast (js_print (en_json E) j)) D))"

definition HandleRequestStreamsCommand ::
  "('j, 'u, 'd, 'c) env \<Rightarrow> request \<Rightarrow> ('d, 'c) daemon \<Rightarrow> (errno_error option \<times> ('d, 'c) daemon) outcome" where
  "HandleRequestStreamsCommand E req D =
     (if rq_method req = CHANGED_SOURCES_STREAM then HandleRequestChangedSourcesStream E req D
      else if rq_method req = STATISTIC_STREAM then HandleRequestStatisticStream E req D
      else Ret (None, D))"

text \<open>
  Responses: the library forgets the request that is answered, \<open>pop\<close>; the answer to a ping is read
  and dropped, and so are the answers of a stream.
\<close>

definition HandleResponcePingService :: "('j, 'u, 'd, 'c) env \<Rightarrow> response \<Rightarrow> errno_error option" where
  "HandleResponcePingService E resp = (case resp of
       Resp_message i (Some result) \<Rightarrow> (case js_parse (en_json E) result of
          None \<Rightarrow> Some Errno_inval
        | Some j \<Rightarrow> (case en_client_ping E j of Some err \<Rightarrow> Some (Errno_error (GetDescription err) EAGAIN) | None \<Rightarrow> None))
     | _ \<Rightarrow> None)"

definition HandleResponceServiceCommand :: "nat \<Rightarrow> ('d, 'c) daemon \<Rightarrow> errno_error option" where
  "HandleResponceServiceCommand c D = (if \<not> IsVerified D c then Some Errno_inval else None)"

section \<open>Events of the loop\<close>

text \<open>What reading a client gives: an error, a text that is no message, a request, or a response.\<close>

datatype incoming = Read_failed | Parse_failed | Got_request request | Got_response response

definition DaemonDataReceived ::
  "('j, 'u, 'd, 'c) env \<Rightarrow> nat \<Rightarrow> incoming \<Rightarrow> ('d, 'c) daemon \<Rightarrow> (bool \<times> ('d, 'c) daemon) outcome" where
  "DaemonDataReceived E c inp D = (case inp of
       Read_failed \<Rightarrow> Ret (False, D)
     | Parse_failed \<Rightarrow> Ret (False, D)
     | Got_request req \<Rightarrow> (case HandleRequestServiceCommand E c req D of Abort \<Rightarrow> Abort | Ret (_, D1) \<Rightarrow> Ret (True, D1))
     | Got_response resp \<Rightarrow> Ret (True, D))"

definition PipeDataReceived ::
  "('j, 'u, 'd, 'c) env \<Rightarrow> incoming \<Rightarrow> ('d, 'c) daemon \<Rightarrow> (bool \<times> ('d, 'c) daemon) outcome" where
  "PipeDataReceived E inp D = (case inp of
       Read_failed \<Rightarrow> Ret (False, D)
     | Parse_failed \<Rightarrow> Ret (False, D)
     | Got_request req \<Rightarrow> (case HandleRequestStreamsCommand E req D of Abort \<Rightarrow> Abort | Ret (_, D1) \<Rightarrow> Ret (True, D1))
     | Got_response resp \<Rightarrow> Ret (True, D))"

text \<open>The first stream of a closed pipe loses its client.\<close>

fun detach :: "nat \<Rightarrow> 'd child list \<Rightarrow> 'd child list" where
  "detach h [] = []"
| "detach h (channel # childs) =
     (if ch_client channel = Some h then channel\<lparr>ch_client := None\<rparr> # childs else channel # detach h childs)"

definition DataReceived :: "('j, 'u, 'd, 'c) env \<Rightarrow> nat \<Rightarrow> incoming \<Rightarrow> ('d, 'c) daemon \<Rightarrow> ('d, 'c) daemon outcome" where
  "DataReceived E c inp D = (case map_of (dm_clients D) c of
       Some (Daemon_client _) \<Rightarrow> (case DaemonDataReceived E c inp D of
          Abort \<Rightarrow> Abort | Ret (ok, D1) \<Rightarrow> Ret (if ok then D1 else close_client c D1))
     | Some Pipe_client \<Rightarrow> (case PipeDataReceived E inp D of
          Abort \<Rightarrow> Abort
        | Ret (ok, D1) \<Rightarrow> Ret (if ok then D1 else
            close_client c (D1\<lparr>dm_children := detach c (dm_children D1), dm_fds := dm_fds D1 - 2\<rparr>)))
     | None \<Rightarrow> Abort)"

definition CHUNK_EXT :: string where "CHUNK_EXT = ''.ts''"

definition ping_client :: "('j, 'u, 'd, 'c) env \<Rightarrow> ('d, 'c) daemon \<Rightarrow> nat \<times> io_client \<Rightarrow> ('d, 'c) daemon" where
  "ping_client E D c =
     (if snd c = Daemon_client True then
        (case en_server_ping E of
           Inl err_ser \<Rightarrow> D
         | Inr ping_server_json \<Rightarrow> (case NextRequestID E D of (i, D1) \<Rightarrow>
             (case en_write E (fst c) of
                Some err \<Rightarrow> close_client (fst c) D1
              | None \<Rightarrow> send_to (fst c) (Out_request (PingDaemonRequest i ping_server_json)) D1)))
      else D)"

definition TimerEmited :: "('j, 'u, 'd, 'c) env \<Rightarrow> nat \<Rightarrow> ('d, 'c) daemon \<Rightarrow> ('d, 'c) daemon outcome" where
  "TimerEmited E tid D =
     (if ping_client_timer D = Some tid then Ret (foldl (ping_client E) D (dm_clients D))
      else if node_stats_timer D = Some tid then
        (case service_stats E False D of
           Abort \<Rightarrow> Abort
         | Ret (node_stats, D1) \<Rightarrow> Ret (BroadcastClients (StatisitcServiceBroadcast node_stats) D1))
      else if cleanup_files_timer D = Some tid then
        Ret (D\<lparr>dm_files := (\<lambda>d. if d \<in> dom (vods_links D)
               then RemoveFilesByExtension (en_fs E) (dm_files D d) CHUNK_EXT else dm_files D d)\<rparr>)
      else if quit_cleanup_timer D = Some tid then Ret (D\<lparr>dm_stopped := True\<rparr>)
      else Ret D)"

definition PreLooped :: "nat \<Rightarrow> nat \<Rightarrow> nat \<Rightarrow> ('d, 'c) daemon \<Rightarrow> ('d, 'c) daemon" where
  "PreLooped t1 t2 t3 D =
     D\<lparr>ping_client_timer := Some t1, node_stats_timer := Some t2, cleanup_files_timer := Some t3\<rparr>"

definition PostLooped :: "('d, 'c) daemon \<Rightarrow> ('d, 'c) daemon" where
  "PostLooped D = D\<lparr>cleanup_files_timer := None, ping_client_timer := None, node_stats_timer := None\<rparr>"

text \<open>
  A request for a playlist of a video: when its directory is linked and the video is not complete
  (\<open>CheckIsFullVod\<close>, given as \<open>full\<close>), the stream that makes it is started.
\<close>

definition OnHttpRequest ::
  "('j, 'u, 'd, 'c) env \<Rightarrow> bool \<Rightarrow> bool \<Rightarrow> string \<Rightarrow> bool outcome \<Rightarrow> ('d, 'c) daemon \<Rightarrow> ('d, 'c) daemon outcome" where
  "OnHttpRequest E to_vods is_m3u8 dir full D =
     (if to_vods \<and> is_m3u8 then
        (case vods_links D dir of
           None \<Rightarrow> Ret D
         | Some config \<Rightarrow> (case full of
              Abort \<Rightarrow> Abort
            | Ret is_full_vod \<Rightarrow> if is_full_vod then Ret D
                else (case CreateChildStream E config D of Abort \<Rightarrow> Abort | Ret (_, D1) \<Rightarrow> Ret D1)))
      else Ret D)"

text \<open>A new connection of an operator.\<close>

definition accept_client :: "('d, 'c) daemon \<Rightarrow> ('d, 'c) daemon" where
  "accept_client D = D\<lparr>dm_clients := dm_clients D @ [(dm_next D, Daemon_client False)], dm_next := dm_next D + 1\<rparr>"

text \<open>One event of the loop, and when it can happen.\<close>

datatype 'd event = Ev_accept | Ev_data nat incoming | Ev_timer nat | Ev_child "'d child" nat
  | Ev_http bool bool string "bool outcome"

definition event_enabled :: "'d event \<Rightarrow> ('d, 'c) daemon \<Rightarrow> bool" where
  "event_enabled e D = (case e of
       Ev_data c inp \<Rightarrow> c \<in> fst ` set (dm_clients D)
     | Ev_child channel wstatus \<Rightarrow> channel \<in> set (dm_children D)
     | _ \<Rightarrow> True)"

definition handle_event :: "('j, 'u, 'd, 'c) env \<Rightarrow> 'd event \<Rightarrow> ('d, 'c) daemon \<Rightarrow> ('d, 'c) daemon outcome" where
  "handle_event E e D = (case e of
       Ev_accept \<Rightarrow> Ret (accept_client D)
     | Ev_data c inp \<Rightarrow> DataReceived E c inp D
     | Ev_timer tid \<Rightarrow> TimerEmited E tid D
     | Ev_child channel wstatus \<Rightarrow> Ret (ChildStatusChanged E channel wstatus D)
     | Ev_http to_vods is_m3u8 dir full \<Rightarrow> OnHttpRequest E to_vods is_m3u8 dir full D)"

definition dm_init :: "('d, 'c) daemon \<Rightarrow> bool" where
  "dm_init D \<longleftrightarrow> dm_clients D = [] \<and> dm_children D = [] \<and> vods_links D = Map.empty \<and> dm_sent D = []
     \<and> dm_shm D = 0 \<and> quit_cleanup_timer D = None"

inductive dm_reaches :: "('j, 'u) opt_env \<Rightarrow> string \<Rightarrow> ('d, 'c) daemon \<Rightarrow> bool" for Opt lic where
  init: "dm_init D \<Longrightarrow> dm_reaches Opt lic D"
| step: "dm_reaches Opt lic D \<Longrightarrow> en_opt E = Opt \<Longrightarrow> en_license E = lic \<Longrightarrow> event_enabled e D
     \<Longrightarrow> handle_event E e D = Ret D' \<Longrightarrow> dm_reaches Opt lic D'"

section \<open>What messages leave alone\<close>

text \<open>Everything but the messages written.\<close>

definition quiet :: "('d, 'c) daemon \<Rightarrow> ('d, 'c) daemon" where
  "quiet D = D\<lparr>dm_sent := []\<rparr>"

lemma quiet_send_to [simp]: "quiet (send_to c m D) = quiet D"
  by (simp add: quiet_def send_to_def)

lemma quiet_respond [simp]: "quiet (respond c r D) = quiet D"
  by (simp add: respond_def)

lemma sent_send_to [simp]: "dm_sent (send_to c m D) = dm_sent D @ [(c, m)]"
  by (simp add: send_to_def)

lemma sent_respond [simp]: "dm_sent (respond c r D) = dm_sent D @ [(c, Out_response r)]"
  by (simp add: respond_def)

lemma quiet_SendStop [simp]: "quiet (SendStop ch i D) = quiet D" "quiet (SendRestart ch i D) = quiet D"
  by (simp_all add: SendStop_def SendRestart_def split: option.split)

lemma quiet_eqD:
  assumes "quiet D = quiet D'"
  shows "dm_clients D = dm_clients D'" "dm_children D = dm_children D'" "dm_next D = dm_next D'"
    "vods_links D = vods_links D'" "dm_users D = dm_users D'" "dm_id D = dm_id D'" "dm_shm D = dm_shm D'"
    "quit_cleanup_timer D = quit_cleanup_timer D'"
  using assms by (cases D; cases D'; simp add: quiet_def)+

text \<open>A broadcast goes to the verified operators, in the order of the connections.\<close>

definition verified_clients :: "('d, 'c) daemon \<Rightarrow> nat list" where
  "verified_clients D = map fst (filter (\<lambda>c. snd c = Daemon_client True) (dm_clients D))"

lemma BroadcastClients_eq:
  "BroadcastClients req D = D\<lparr>dm_sent := dm_sent D @ map (\<lambda>c. (c, Out_request req)) (verified_clients D)\<rparr>"
proof -
  have "foldl (\<lambda>D c. if snd c = Daemon_client True then send_to (fst c) (Out_request req) D else D) D cs
      = D\<lparr>dm_sent := dm_sent D @ map (\<lambda>c. (c, Out_request req)) (map fst (filter (\<lambda>c. snd c = Daemon_client True) cs))\<rparr>"
    for cs :: "(nat \<times> io_client) list"
    by (induction cs arbitrary: D) (auto simp: send_to_def)
  then show ?thesis by (simp add: BroadcastClients_def verified_clients_def)
qed

lemma quiet_Broadcast [simp]: "quiet (BroadcastClients req D) = quiet D"
  by (simp add: BroadcastClients_eq quiet_def)

lemma verified_clients_iff:
  assumes "distinct (map fst (dm_clients D))"
  shows "c \<in> set (verified_clients D) \<longleftrightarrow> IsVerified D c"
  using assms by (auto simp: verified_clients_def IsVerified_def map_of_eq_Some_iff image_iff)

section \<open>The streams of the service\<close>

text \<open>The pipes of the streams.\<close>

definition pipes :: "'d child list \<Rightarrow> nat list" where
  "pipes chs = List.map_filter ch_client chs"

lemma pipes_simps [simp]:
  "pipes [] = []" "pipes (chs @ chs') = pipes chs @ pipes chs'"
  "pipes (ch # chs) = (case ch_client ch of None \<Rightarrow> pipes chs | Some h \<Rightarrow> h # pipes chs)"
  by (simp_all add: pipes_def map_filter_simps map_filter_def split: option.split)

lemma in_pipes: "h \<in> set (pipes chs) \<longleftrightarrow> (\<exists>ch\<in>set chs. ch_client ch = Some h)"
  by (induction chs) (auto split: option.splits)

definition dm_inv :: "('d, 'c) daemon \<Rightarrow> bool" where
  "dm_inv D \<longleftrightarrow> distinct (map GetStreamID (dm_children D)) \<and> [] \<notin> GetStreamID ` set (dm_children D)
     \<and> distinct (pipes (dm_children D)) \<and> (\<forall>h\<in>set (pipes (dm_children D)). (h, Pipe_client) \<in> set (dm_clients D))
     \<and> distinct (map fst (dm_clients D)) \<and> (\<forall>k\<in>fst ` set (dm_clients D). k < dm_next D)
     \<and> (\<forall>d cfg. vods_links D d = Some cfg \<longrightarrow> cfg ID_FIELD \<noteq> Some [])
     \<and> length (dm_children D) \<le> dm_shm D"

lemma dm_inv_quiet: "quiet D = quiet D' \<Longrightarrow> dm_inv D = dm_inv D'"
  using quiet_eqD [of D D'] by (simp add: dm_inv_def)

lemma dm_inv_send [simp]:
  "dm_inv (send_to c m D) = dm_inv D" "dm_inv (respond c r D) = dm_inv D" "dm_inv (BroadcastClients req D) = dm_inv D"
  "dm_inv (SendStop ch i D) = dm_inv D" "dm_inv (SendRestart ch i D) = dm_inv D"
  by (rule dm_inv_quiet, simp)+

lemma dm_inv_updates [simp]:
  "dm_inv (D\<lparr>dm_id := n\<rparr>) = dm_inv D" "dm_inv (D\<lparr>quit_cleanup_timer := t\<rparr>) = dm_inv D"
  "dm_inv (D\<lparr>dm_http := h, dm_vods := v\<rparr>) = dm_inv D" "dm_inv (D\<lparr>dm_node := ns\<rparr>) = dm_inv D"
  "dm_inv (D\<lparr>dm_files := f\<rparr>) = dm_inv D" "dm_inv (D\<lparr>dm_stopped := b\<rparr>) = dm_inv D"
  "dm_inv (D\<lparr>dm_posts := p\<rparr>) = dm_inv D" "dm_inv (D\<lparr>dm_fds := n'\<rparr>) = dm_inv D"
  by (simp_all add: dm_inv_def)

lemma find_child_None: "find_child cid chs = None \<longleftrightarrow> cid \<notin> GetStreamID ` set chs"
  by (induction chs) auto

lemma find_child_Some: "find_child cid chs = Some ch \<Longrightarrow> ch \<in> set chs \<and> GetStreamID ch = cid"
  by (induction chs) (auto split: if_splits)

lemma dm_inv_launch:
  assumes "dm_inv D" "ss_id mem \<noteq> []" "FindChildByID (ss_id mem) D = None"
  shows "dm_inv (snd (launch E mem D))"
proof -
  have "ss_id mem \<notin> GetStreamID ` set (dm_children D)"
    using assms(3) by (simp add: FindChildByID_def find_child_None)
  moreover have "dm_next D \<notin> set (pipes (dm_children D))"
    using assms(1) by (force simp: dm_inv_def)
  ultimately show ?thesis using assms(1,2)
    by (auto simp: launch_def dm_inv_def GetStreamID_def less_Suc_eq split: option.splits)
qed

text \<open>A creation that returns either changes nothing or launches a new stream with memory of its name.\<close>

lemma create_cases:
  assumes "CreateChildStream E config D = Ret (x, D1)"
  obtains "x \<noteq> None" "D1 = D"
  | mem where "config ID_FIELD = Some (ss_id mem)" "FindChildByID (ss_id mem) D = None" "(x, D1) = launch E mem D"
proof (cases "MakeStreamInfo (en_opt E) (en_fs E) config True")
  case (Inr r)
  obtain sha feedback level where r: "r = (sha, feedback, level)" by (cases r) auto
  have i: "config ID_FIELD = Some (si_id sha)" using Inr r by (auto dest: MakeStreamInfo_InrD(1))
  have m: "ss_id (make_StreamStruct (en_mem0 E) sha (en_now E) 0 0) = si_id sha" by (simp add: make_StreamStruct_def)
  show ?thesis using assms that(1) that(2) [of "make_StreamStruct (en_mem0 E) sha (en_now E) 0 0"] i m
    by (auto simp: CreateChildStream_def Inr r AllocSharedStreamStruct_def split: if_splits mmap_result.splits)
qed (use assms that(1) in \<open>auto simp: CreateChildStream_def\<close>)

lemma dm_inv_create:
  assumes "dm_inv D" "config ID_FIELD \<noteq> Some []" "CreateChildStream E config D = Ret (x, D1)"
  shows "dm_inv D1"
  using assms(3)
proof (cases rule: create_cases)
  case (2 mem)
  then have "ss_id mem \<noteq> []" using assms(2) by auto
  from dm_inv_launch [OF assms(1) this 2(2)] 2(3) show ?thesis by (metis snd_conv)
qed (use assms(1) in simp)

lemma validated_id: "ValidateConfig Opt crit parse config = Ret args \<Longrightarrow> args ID_FIELD \<noteq> Some []"
  using ValidateConfig_accepts [OF _ _ option_lookups(1)] by (force simp: ID_FIELD_def validate_id_def)

lemma with_params_Ret:
  "with_params E deser req D k = Ret (r, D') \<Longrightarrow> D' = D \<or> (\<exists>p. k p = Ret (r, D'))"
  by (auto simp: with_params_def split: option.splits sum.splits)

lemma if_verified_Ret:
  "if_verified c D k = Ret (r, D') \<Longrightarrow> D' = D \<or> IsVerified D c \<and> k = Ret (r, D')"
  by (auto simp: if_verified_def split: if_splits)

text \<open>A handler that keeps the invariant in its continuation keeps it.\<close>

lemma handler_inv:
  assumes "dm_inv D" "with_params E deser req D k = Ret (r, D')" "\<And>p. k p = Ret (r, D') \<Longrightarrow> dm_inv D'"
  shows "dm_inv D'"
  using with_params_Ret [OF assms(2)] assms(1,3) by auto

lemma verified_handler_inv:
  assumes "dm_inv D" "if_verified c D (with_params E deser req D k) = Ret (r, D')"
    "\<And>p. k p = Ret (r, D') \<Longrightarrow> dm_inv D'"
  shows "dm_inv D'"
  using if_verified_Ret [OF assms(2)] handler_inv [OF assms(1) _ assms(3)] assms(1) by auto

text \<open>
  What a synchronisation should link, line by line: a line claims a directory for its configuration when it is a
  video with an HTTP output in that directory, and a directory belongs to the last line that claims it.
\<close>

definition claims_dir :: "('j, 'u, 'd, 'c) env \<Rightarrow> string \<Rightarrow> string \<Rightarrow> ArgsMap \<Rightarrow> bool" where
  "claims_dir E config dir cfg \<longleftrightarrow> (\<exists>args sha feedback level outs.
     ValidateConfig (en_opt E) (en_crit E) (en_parse_config E) config = Ret args
     \<and> MakeStreamInfo (en_opt E) (en_fs E) args False = Inr (sha, feedback, level)
     \<and> (si_type sha = VOD_ENCODE \<or> si_type sha = VOD_RELAY)
     \<and> read_output (en_json E) (en_url E) args = Some outs
     \<and> (\<exists>x\<in>set outs. url_scheme (en_url E) (ou_output x) = Scheme_http \<and> ou_http_root x = dir)
     \<and> cfg = args(CLEANUP_TS_FIELD \<mapsto> ''false''))"

definition last_claim :: "('j, 'u, 'd, 'c) env \<Rightarrow> string list \<Rightarrow> string \<Rightarrow> ArgsMap \<Rightarrow> bool" where
  "last_claim E streams dir cfg \<longleftrightarrow> (\<exists>before config after. streams = before @ config # after \<and> claims_dir E config dir cfg
     \<and> (\<forall>later\<in>set after. \<forall>cfg'. \<not> claims_dir E later dir cfg'))"

lemma claims_dir_unique: "claims_dir E config dir cfg \<Longrightarrow> claims_dir E config dir cfg' \<Longrightarrow> cfg' = cfg"
  unfolding claims_dir_def by auto

lemma link_outputs_at:
  "link_outputs U args outs links dir = (if \<exists>x\<in>set outs. url_scheme U (ou_output x) = Scheme_http \<and> ou_http_root x = dir
     then Some (args(CLEANUP_TS_FIELD \<mapsto> ''false'')) else links dir)"
  unfolding link_outputs_def by (induction outs arbitrary: links) auto

lemma AddStreamLine_at:
  assumes "AddStreamLine E links config = Ret links'"
  shows "links' dir = Some cfg \<longleftrightarrow> claims_dir E config dir cfg \<or> links dir = Some cfg \<and> (\<forall>cfg'. \<not> claims_dir E config dir cfg')"
proof -
  consider args sha feedback level outs where "ValidateConfig (en_opt E) (en_crit E) (en_parse_config E) config = Ret args"
      "MakeStreamInfo (en_opt E) (en_fs E) args False = Inr (sha, feedback, level)" "si_type sha = VOD_ENCODE \<or> si_type sha = VOD_RELAY"
      "read_output (en_json E) (en_url E) args = Some outs" "links' = link_outputs (en_url E) args outs links"
    | "links' = links" "\<forall>dir cfg. \<not> claims_dir E config dir cfg"
    using assms unfolding AddStreamLine_def
    by (auto simp: claims_dir_def split: outcome.splits sum.splits option.splits if_splits)
  then show ?thesis
  proof cases
    case 1
    define hit where "hit \<longleftrightarrow> (\<exists>x\<in>set outs. url_scheme (en_url E) (ou_output x) = Scheme_http \<and> ou_http_root x = dir)"
    have "claims_dir E config dir cfg' \<longleftrightarrow> hit \<and> cfg' = args(CLEANUP_TS_FIELD \<mapsto> ''false'')" for cfg'
      using 1(1-4) by (simp add: claims_dir_def hit_def)
    moreover have "links' dir = (if hit then Some (args(CLEANUP_TS_FIELD \<mapsto> ''false'')) else links dir)"
      by (simp add: 1(5) link_outputs_at hit_def)
    ultimately show ?thesis by auto
  qed simp
qed

lemma last_claim_Cons:
  "last_claim E (config # configs) dir cfg
     \<longleftrightarrow> last_claim E configs dir cfg \<or> claims_dir E config dir cfg \<and> (\<forall>later\<in>set configs. \<forall>cfg'. \<not> claims_dir E later dir cfg')"
  unfolding last_claim_def by (auto simp: Cons_eq_append_conv)

lemma no_last_claim: "(\<forall>cfg. \<not> last_claim E configs dir cfg) \<longleftrightarrow> (\<forall>config\<in>set configs. \<forall>cfg. \<not> claims_dir E config dir cfg)"
  by (induction configs) (auto simp: last_claim_Cons, simp add: last_claim_def)

text \<open>The lines of a synchronisation: a directory is linked by the last line that claims it.\<close>

lemma add_stream_lines_at:
  "add_stream_lines E links streams = Ret links' \<Longrightarrow>
   links' dir = Some cfg \<longleftrightarrow> last_claim E streams dir cfg \<or> links dir = Some cfg \<and> (\<forall>cfg'. \<not> last_claim E streams dir cfg')"
proof (induction streams arbitrary: links)
  case Nil
  then show ?case by (simp add: last_claim_def)
next
  case (Cons config configs)
  from Cons.prems obtain links1 where l1: "AddStreamLine E links config = Ret links1"
      "add_stream_lines E links1 configs = Ret links'"
    by (auto split: outcome.splits)
  show ?case
    unfolding Cons.IH [OF l1(2)] AddStreamLine_at [OF l1(1)] last_claim_Cons no_last_claim [symmetric] by blast
qed

lemma id_field_kept [simp]: "(args(CLEANUP_TS_FIELD \<mapsto> v)) ID_FIELD = args ID_FIELD"
  by (simp add: ID_FIELD_def CLEANUP_TS_FIELD_def)

lemma last_claim_id: "last_claim E streams dir cfg \<Longrightarrow> cfg ID_FIELD \<noteq> Some []"
  by (auto simp del: fun_upd_apply simp: last_claim_def claims_dir_def dest: validated_id)

lemma dm_inv_links:
  assumes "dm_inv D" "add_stream_lines E Map.empty streams = Ret links"
  shows "dm_inv (D\<lparr>vods_links := links, dm_users := users\<rparr>)"
  using assms(1) add_stream_lines_at [OF assms(2)] last_claim_id by (fastforce simp: dm_inv_def)

lemma dm_inv_stop_all:
  "dm_inv (foldl (\<lambda>D channel. case NextRequestID E D of (i, D) \<Rightarrow> SendStop channel i D) D chs) = dm_inv D"
  by (induction chs arbitrary: D) (simp_all add: NextRequestID_def)

lemma dm_inv_clients:
  assumes "dm_inv D" "map fst cs = map fst (dm_clients D)"
    "\<And>h. (h, Pipe_client) \<in> set (dm_clients D) \<Longrightarrow> (h, Pipe_client) \<in> set cs"
  shows "dm_inv (D\<lparr>dm_clients := cs\<rparr>)"
proof -
  have "fst ` set cs = fst ` set (dm_clients D)" using assms(2) by (metis list.set_map)
  then show ?thesis using assms by (auto simp: dm_inv_def)
qed

lemma dm_inv_SetVerified:
  assumes "dm_inv D" "(c, Pipe_client) \<notin> set (dm_clients D)"
  shows "dm_inv (SetVerified c D)"
  unfolding SetVerified_def
  by (rule dm_inv_clients [OF assms(1)]) (use assms(2) in \<open>force simp: image_iff split: prod.splits if_splits\<close>)+

lemma service_stats_node: "service_stats E full D = Ret (s, D') \<Longrightarrow> \<exists>ns. D' = D\<lparr>dm_node := ns\<rparr>"
  by (auto simp: service_stats_def split: outcome.splits prod.splits)

lemma dm_inv_post_file [simp]: "dm_inv (post_file E p url D) = dm_inv D"
  by (simp add: post_file_def split: option.split)

lemma dm_inv_create_text:
  assumes "dm_inv D" "CreateChildStream_text E config D = Ret (x, D1)"
  shows "dm_inv D1"
proof -
  from assms(2) obtain args where args: "ValidateConfig (en_opt E) (en_crit E) (en_parse_config E) config = Ret args"
      "CreateChildStream E args D = Ret (x, D1)"
    by (auto simp: CreateChildStream_text_def split: outcome.splits)
  show ?thesis by (rule dm_inv_create [OF assms(1) validated_id [OF args(1)] args(2)])
qed

lemma start_keeps_inv:
  assumes "dm_inv D" "HandleRequestClientStartStream E c req D = Ret (r, D')"
  shows "dm_inv D'"
  by (rule verified_handler_inv [OF assms(1) assms(2) [unfolded HandleRequestClientStartStream_def]])
     (auto split: outcome.splits option.splits prod.splits dest: dm_inv_create_text [OF assms(1)])

lemma stop_restart_keeps_inv:
  assumes "dm_inv D"
    "HandleRequestClientStopStream E c req D = Ret (r, D') \<or> HandleRequestClientRestartStream E c req D = Ret (r, D')"
  shows "dm_inv D'"
  using assms(2)
proof
  assume *: "HandleRequestClientStopStream E c req D = Ret (r, D')"
  show ?thesis
    by (rule verified_handler_inv [OF assms(1) * [unfolded HandleRequestClientStopStream_def]])
       (use assms(1) in \<open>auto simp: NextRequestID_def split: option.splits\<close>)
next
  assume *: "HandleRequestClientRestartStream E c req D = Ret (r, D')"
  show ?thesis
    by (rule verified_handler_inv [OF assms(1) * [unfolded HandleRequestClientRestartStream_def]])
       (use assms(1) in \<open>auto simp: NextRequestID_def split: option.splits\<close>)
qed

lemma logs_keep_inv:
  assumes "dm_inv D"
    "HandleRequestClientGetLogStream E c req D = Ret (r, D') \<or> HandleRequestClientGetPipelineStream E c req D = Ret (r, D')
     \<or> HandleRequestClientGetLogService E c req D = Ret (r, D') \<or> HandleRequestClientPingService E c req D = Ret (r, D')"
  shows "dm_inv D'"
  using assms
  by (elim disjE)
     (auto simp: HandleRequestClientGetLogStream_def HandleRequestClientGetPipelineStream_def
        HandleRequestClientGetLogService_def HandleRequestClientPingService_def
        dest!: if_verified_Ret with_params_Ret split: sum.splits)

lemma prepare_keeps_inv:
  "dm_inv D \<Longrightarrow> HandleRequestClientPrepareService E c req D = Ret (r, D') \<Longrightarrow> dm_inv D'"
  by (auto simp: HandleRequestClientPrepareService_def Let_def dest!: if_verified_Ret with_params_Ret)

lemma sync_keeps_inv:
  "dm_inv D \<Longrightarrow> HandleRequestClientSyncService E c req D = Ret (r, D') \<Longrightarrow> dm_inv D'"
  by (auto simp: HandleRequestClientSyncService_def Let_def dm_inv_links dest!: if_verified_Ret with_params_Ret
      split: outcome.splits)

lemma stop_service_keeps_inv:
  "dm_inv D \<Longrightarrow> HandleRequestClientStopService E c req D = Ret (r, D') \<Longrightarrow> dm_inv D'"
  by (auto simp: HandleRequestClientStopService_def Let_def dm_inv_stop_all dest!: with_params_Ret split: if_splits)

lemma activate_Ret:
  assumes "HandleRequestClientActivate E c req D = Ret (r, D')"
  shows "D' = D \<or> (\<exists>t. D' = respond c (ActivateResponceFail (rq_id req) t) D)
     \<or> (\<exists>ns x. D' = SetVerified c (respond c x (D\<lparr>dm_node := ns\<rparr>)))"
proof -
  have "\<exists>ns. D1 = D\<lparr>dm_node := ns\<rparr>" if "service_stats E True D = Ret (s, D1)" for s D1
    using that by (rule service_stats_node)
  with assms show ?thesis
    unfolding HandleRequestClientActivate_def
    by (fastforce split: option.splits sum.splits if_splits outcome.splits prod.splits)
qed

lemma activate_keeps_inv:
  assumes "dm_inv D" "(c, Pipe_client) \<notin> set (dm_clients D)" "HandleRequestClientActivate E c req D = Ret (r, D')"
  shows "dm_inv D'"
proof -
  have "dm_inv (SetVerified c (respond c x (D\<lparr>dm_node := ns\<rparr>)))" for x ns
  proof (rule dm_inv_SetVerified)
    show "dm_inv (respond c x (D\<lparr>dm_node := ns\<rparr>))" using assms(1) by simp
    show "(c, Pipe_client) \<notin> set (dm_clients (respond c x (D\<lparr>dm_node := ns\<rparr>)))"
      using assms(2) by (simp add: respond_def send_to_def)
  qed
  with activate_Ret [OF assms(3)] assms(1) show ?thesis by auto
qed

text \<open>The dispatcher calls one of the handlers or ignores the request.\<close>

lemma service_command_cases:
  "HandleRequestServiceCommand E c req D \<in>
     {HandleRequestClientStartStream E c req D, HandleRequestClientStopStream E c req D,
      HandleRequestClientRestartStream E c req D, HandleRequestClientGetLogStream E c req D,
      HandleRequestClientGetPipelineStream E c req D, HandleRequestClientPrepareService E c req D,
      HandleRequestClientSyncService E c req D, HandleRequestClientStopService E c req D,
      HandleRequestClientActivate E c req D, HandleRequestClientPingService E c req D,
      HandleRequestClientGetLogService E c req D, Ret (None, D)}"
  by (simp add: HandleRequestServiceCommand_def)

lemma operator_no_pipe:
  "dm_inv D \<Longrightarrow> map_of (dm_clients D) c = Some (Daemon_client b) \<Longrightarrow> (c, Pipe_client) \<notin> set (dm_clients D)"
proof
  assume D: "dm_inv D" "map_of (dm_clients D) c = Some (Daemon_client b)" "(c, Pipe_client) \<in> set (dm_clients D)"
  then have "map_of (dm_clients D) c = Some Pipe_client" by (intro map_of_is_SomeI) (simp_all add: dm_inv_def)
  with D(2) show False by simp
qed

lemma request_keeps_inv:
  assumes "dm_inv D" "map_of (dm_clients D) c = Some (Daemon_client b)"
    and "HandleRequestServiceCommand E c req D = Ret (r, D')"
  shows "dm_inv D'"
proof -
  note D = assms(1)
  show ?thesis
    using service_command_cases [of E c req D] unfolding assms(3) insert_iff empty_iff
  proof (elim disjE)
    assume "Ret (r, D') = Ret (None, D)"
    with D show ?thesis by simp
  qed (erule start_keeps_inv [OF D sym] stop_restart_keeps_inv [OF D disjI1, OF sym]
      stop_restart_keeps_inv [OF D disjI2, OF sym] prepare_keeps_inv [OF D sym] sync_keeps_inv [OF D sym]
      stop_service_keeps_inv [OF D sym] activate_keeps_inv [OF D operator_no_pipe [OF D assms(2)] sym]
      logs_keep_inv [OF D disjI1, OF sym] logs_keep_inv [OF D disjI2, OF disjI1, OF sym]
      logs_keep_inv [OF D disjI2, OF disjI2, OF disjI1, OF sym] logs_keep_inv [OF D disjI2, OF disjI2, OF disjI2, OF sym]
      | simp)+
qed

lemma stream_request_keeps_inv:
  "dm_inv D \<Longrightarrow> HandleRequestStreamsCommand E req D = Ret (r, D') \<Longrightarrow> dm_inv D'"
  by (auto simp: HandleRequestStreamsCommand_def HandleRequestChangedSourcesStream_def HandleRequestStatisticStream_def
      dest!: with_params_Ret split: if_splits sum.splits)

lemma detach_ids: "map GetStreamID (detach h chs) = map GetStreamID chs"
  by (induction chs) (simp_all add: GetStreamID_def)

lemma detach_pipes: "pipes (detach h chs) = remove1 h (pipes chs)"
  by (induction chs) (auto split: option.splits)

lemma detach_length [simp]: "length (detach h chs) = length chs"
  by (induction chs) simp_all

lemma close_client_inv:
  assumes "dm_inv D" "c \<notin> set (pipes (dm_children D))"
  shows "dm_inv (close_client c D)"
proof -
  have "distinct (map fst (filter (\<lambda>k. fst k \<noteq> c) (dm_clients D)))"
    using assms(1) by (simp add: dm_inv_def distinct_map_filter)
  moreover have "(h, Pipe_client) \<in> set (filter (\<lambda>k. fst k \<noteq> c) (dm_clients D))" if "h \<in> set (pipes (dm_children D))" for h
    using assms that by (auto simp: dm_inv_def)
  ultimately show ?thesis using assms(1) by (auto simp: dm_inv_def close_client_def)
qed

lemma detach_inv:
  assumes "dm_inv D"
  shows "dm_inv (close_client c (D\<lparr>dm_children := detach c (dm_children D), dm_fds := n\<rparr>))"
proof (rule close_client_inv)
  have "GetStreamID ` set (detach c (dm_children D)) = GetStreamID ` set (dm_children D)"
    using detach_ids [of c "dm_children D"] by (metis list.set_map)
  then show "dm_inv (D\<lparr>dm_children := detach c (dm_children D), dm_fds := n\<rparr>)"
    using assms by (auto simp: dm_inv_def detach_ids detach_pipes dest: notin_set_remove1)
  show "c \<notin> set (pipes (dm_children (D\<lparr>dm_children := detach c (dm_children D), dm_fds := n\<rparr>)))"
    using assms by (simp add: dm_inv_def detach_pipes)
qed

lemma operator_not_piped:
  "dm_inv D \<Longrightarrow> (c, Pipe_client) \<notin> set (dm_clients D) \<Longrightarrow> c \<notin> set (pipes (dm_children D))"
  by (auto simp: dm_inv_def)

lemma data_keeps_inv:
  assumes "dm_inv D" "DataReceived E c inp D = Ret D'"
  shows "dm_inv D'"
proof (cases "map_of (dm_clients D) c")
  case (Some cl)
  show ?thesis
  proof (cases cl)
    case (Daemon_client b)
    with Some have c: "map_of (dm_clients D) c = Some (Daemon_client b)" by simp
    have "dm_inv (close_client c D)"
      using assms(1) operator_no_pipe [OF assms(1) c] by (intro close_client_inv operator_not_piped)
    with assms c show ?thesis
      by (auto simp: DataReceived_def DaemonDataReceived_def split: incoming.splits outcome.splits prod.splits if_splits
          dest: request_keeps_inv [OF assms(1) c])
  next
    case Pipe_client
    with Some assms show ?thesis
      by (auto simp: DataReceived_def PipeDataReceived_def detach_inv split: incoming.splits outcome.splits prod.splits
          if_splits dest: stream_request_keeps_inv [OF assms(1)])
  qed
qed (use assms in \<open>simp add: DataReceived_def\<close>)

lemma ping_keeps_inv:
  assumes "dm_inv D" "\<And>c. c \<in> set cs \<Longrightarrow> snd c = Daemon_client True \<Longrightarrow> (fst c, Pipe_client) \<notin> set (dm_clients D)"
  shows "dm_inv (foldl (ping_client E) D cs)"
  using assms
proof (induction cs arbitrary: D)
  case (Cons c cs)
  have sub: "set (dm_clients (ping_client E D c)) \<subseteq> set (dm_clients D)"
    by (auto simp: ping_client_def NextRequestID_def close_client_def send_to_def split: sum.splits option.splits)
  have "dm_inv (ping_client E D c)"
  proof (cases "snd c = Daemon_client True")
    case True
    then have "fst c \<notin> set (pipes (dm_children (D\<lparr>dm_id := dm_id D + 1\<rparr>)))"
      using operator_not_piped [OF Cons.prems(1) Cons.prems(2) [of c]] by simp
    then have "dm_inv (close_client (fst c) (D\<lparr>dm_id := dm_id D + 1\<rparr>))"
      using Cons.prems(1) by (intro close_client_inv) simp_all
    then show ?thesis using Cons.prems(1)
      by (simp add: ping_client_def NextRequestID_def split: sum.split option.split)
  qed (use Cons.prems(1) in \<open>simp add: ping_client_def\<close>)
  then show ?case using Cons.IH [of "ping_client E D c"] Cons.prems(2) sub by auto
qed simp

lemma timer_keeps_inv:
  assumes "dm_inv D" "TimerEmited E tid D = Ret D'"
  shows "dm_inv D'"
proof -
  have "(fst c, Pipe_client) \<notin> set (dm_clients D)" if "c \<in> set (dm_clients D)" "snd c = Daemon_client True" for c
  proof (rule operator_no_pipe [OF assms(1)])
    show "map_of (dm_clients D) (fst c) = Some (Daemon_client True)"
      using assms(1) that by (intro map_of_is_SomeI) (auto simp: dm_inv_def simp flip: that(2))
  qed
  then have "dm_inv (foldl (ping_client E) D (dm_clients D))" by (intro ping_keeps_inv [OF assms(1)])
  moreover have "dm_inv D1" if "service_stats E False D = Ret (t, D1)" for t D1
    using service_stats_node [OF that] assms(1) by auto
  ultimately show ?thesis
    using assms by (auto simp: TimerEmited_def split: if_splits outcome.splits)
qed

lemma pipes_remove1: "distinct (pipes chs) \<Longrightarrow> distinct (pipes (remove1 ch chs))"
  and pipes_remove1_subset: "set (pipes (remove1 ch chs)) \<subseteq> set (pipes chs)"
proof -
  have sub: "set (pipes (remove1 ch xs)) \<subseteq> set (pipes xs)" for xs
    by (induction xs) (auto split: option.splits)
  show "set (pipes (remove1 ch chs)) \<subseteq> set (pipes chs)" by (rule sub)
  show "distinct (pipes chs) \<Longrightarrow> distinct (pipes (remove1 ch chs))"
    by (induction chs) (use sub in \<open>auto split: option.splits\<close>)
qed

lemma distinct_map_remove1: "distinct (map f xs) \<Longrightarrow> distinct (map f (remove1 x xs))"
  by (induction xs) (auto dest: set_remove1_subset [THEN subsetD])

lemma child_keeps_inv:
  assumes "dm_inv D" "channel \<in> set (dm_children D)"
  shows "dm_inv (ChildStatusChanged E channel wstatus D)"
proof -
  define chs where "chs = remove1 channel (dm_children D)"
  have "set chs \<subseteq> set (dm_children D)" "set (pipes chs) \<subseteq> set (pipes (dm_children D))"
      "distinct (pipes chs)" "distinct (map GetStreamID chs)" "length chs = length (dm_children D) - 1"
    using assms by (simp_all add: chs_def set_remove1_subset pipes_remove1_subset pipes_remove1 distinct_map_remove1
        length_remove1 dm_inv_def)
  then have "dm_inv (D\<lparr>dm_children := chs, dm_shm := dm_shm D - 1\<rparr>)"
    using assms(1) by (auto simp: dm_inv_def)
  then show ?thesis
    by (simp add: ChildStatusChanged_def Let_def chs_def split: sum.split)
qed

lemma http_keeps_inv:
  assumes "dm_inv D" "OnHttpRequest E to_vods is_m3u8 dir full D = Ret D'"
  shows "dm_inv D'"
proof -
  have "dm_inv D1" if "vods_links D dir = Some config" "CreateChildStream E config D = Ret (x, D1)" for config x D1
    by (rule dm_inv_create [OF assms(1) _ that(2)]) (use assms(1) that(1) in \<open>simp add: dm_inv_def\<close>)
  with assms show ?thesis by (auto simp: OnHttpRequest_def split: if_splits option.splits outcome.splits)
qed

lemma event_keeps_inv:
  assumes "dm_inv D" "event_enabled e D" "handle_event E e D = Ret D'"
  shows "dm_inv D'"
proof (cases e)
  case Ev_accept
  have "\<forall>k\<in>fst ` set (dm_clients D). k < dm_next D" using assms(1) by (simp add: dm_inv_def)
  then have "dm_next D \<notin> fst ` set (dm_clients D)" "\<forall>k\<in>set (dm_clients D). fst k < Suc (dm_next D)"
    by auto
  moreover have "D' = accept_client D" using Ev_accept assms(3) by (simp add: handle_event_def)
  ultimately show ?thesis using assms(1) by (simp add: accept_client_def dm_inv_def)
qed (use assms in \<open>auto simp: handle_event_def event_enabled_def intro: data_keeps_inv timer_keeps_inv child_keeps_inv
      http_keeps_inv\<close>)

end
