(* ===== verification/DaemonSpec.thy ===== *)
theory DaemonSpec
  imports Daemon
begin

text \<open>
  What the service of theory \<open>Daemon\<close> promises: an abstract service that knows only the names of the
  running streams and the verified operators, the refinement of every event of the loop to it, the
  powers of an operator that did not present the licence, who gets messages, what starting and stopping
  streams, synchronising and stopping the service do.
\<close>

section \<open>The abstract service\<close>

type_synonym service = "string set \<times> nat set"

definition svc :: "('d, 'c) daemon \<Rightarrow> service" where
  "svc D = (GetStreamID ` set (dm_children D), set (verified_clients D))"

definition presents_license :: "'j json \<Rightarrow> string \<Rightarrow> request \<Rightarrow> bool" where
  "presents_license J lic req = (case rq_params req of
     None \<Rightarrow> False
   | Some params \<Rightarrow> (case js_parse J params of
        None \<Rightarrow> False
      | Some j \<Rightarrow> get_text J j ''license_key'' [] = lic))"

text \<open>
  The steps of the abstract service: only a verified operator or a request for a video starts a stream,
  under a new name; only the end of a process ends one; only an activation with the licence verifies an
  operator; failed reads and writes lose operators.
\<close>

inductive svc_step :: "'j json \<Rightarrow> string \<Rightarrow> 'd event \<Rightarrow> service \<Rightarrow> service \<Rightarrow> bool" for J lic where
  idle: "svc_step J lic e S S"
| start: "rq_method req = DAEMON_START_STREAM \<Longrightarrow> c \<in> V \<Longrightarrow> i \<noteq> [] \<Longrightarrow> i \<notin> R
     \<Longrightarrow> svc_step J lic (Ev_data c (Got_request req)) (R, V) (insert i R, V)"
| video: "i \<noteq> [] \<Longrightarrow> i \<notin> R \<Longrightarrow> svc_step J lic (Ev_http True True dir full) (R, V) (insert i R, V)"
| quit: "GetStreamID ch \<in> R \<Longrightarrow> svc_step J lic (Ev_child ch wstatus) (R, V) (R - {GetStreamID ch}, V)"
| verify: "rq_method req = DAEMON_ACTIVATE \<Longrightarrow> presents_license J lic req
     \<Longrightarrow> svc_step J lic (Ev_data c (Got_request req)) (R, V) (R, insert c V)"
| lost: "inp = Read_failed \<or> inp = Parse_failed \<Longrightarrow> svc_step J lic (Ev_data c inp) (R, V) (R, V - {c})"
| timer: "W \<subseteq> V \<Longrightarrow> svc_step J lic (Ev_timer tid) (R, V) (R, W)"

inductive_cases svc_step_timerE: "svc_step J lic (Ev_timer tid) S S'"
inductive_cases svc_step_acceptE: "svc_step J lic Ev_accept S S'"

text \<open>The methods the service knows.\<close>

definition service_methods :: "string list" where
  "service_methods = [DAEMON_START_STREAM, DAEMON_STOP_STREAM, DAEMON_RESTART_STREAM, DAEMON_GET_LOG_STREAM,
     DAEMON_GET_PIPELINE_STREAM, DAEMON_PREPARE_SERVICE, DAEMON_SYNC_SERVICE, DAEMON_STOP_SERVICE, DAEMON_ACTIVATE,
     DAEMON_PING_SERVICE, DAEMON_GET_LOG_SERVICE]"

lemmas daemon_method_defs = DAEMON_START_STREAM_def DAEMON_STOP_STREAM_def DAEMON_RESTART_STREAM_def
  DAEMON_GET_LOG_STREAM_def DAEMON_GET_PIPELINE_STREAM_def DAEMON_PREPARE_SERVICE_def DAEMON_SYNC_SERVICE_def
  DAEMON_STOP_SERVICE_def DAEMON_ACTIVATE_def DAEMON_PING_SERVICE_def DAEMON_GET_LOG_SERVICE_def

section \<open>Refinement\<close>

lemma svc_quiet: "quiet D = quiet D' \<Longrightarrow> svc D = svc D'"
  using quiet_eqD [of D D'] by (simp add: svc_def verified_clients_def)

lemma svc_send [simp]:
  "svc (send_to c m D) = svc D" "svc (respond c r D) = svc D" "svc (BroadcastClients req D) = svc D"
  "svc (SendStop ch i D) = svc D" "svc (SendRestart ch i D) = svc D"
  by (rule svc_quiet, simp)+

lemma svc_updates [simp]:
  "svc (D\<lparr>dm_id := n\<rparr>) = svc D" "svc (D\<lparr>quit_cleanup_timer := t\<rparr>) = svc D"
  "svc (D\<lparr>dm_http := h, dm_vods := v\<rparr>) = svc D" "svc (D\<lparr>dm_node := ns\<rparr>) = svc D"
  "svc (D\<lparr>dm_files := f\<rparr>) = svc D" "svc (D\<lparr>dm_stopped := b\<rparr>) = svc D" "svc (D\<lparr>dm_posts := p\<rparr>) = svc D"
  "svc (D\<lparr>dm_fds := n'\<rparr>) = svc D" "svc (D\<lparr>dm_next := n2\<rparr>) = svc D"
  "svc (D\<lparr>vods_links := links, dm_users := users\<rparr>) = svc D"
  by (simp_all add: svc_def verified_clients_def)

lemma svc_post_file [simp]: "svc (post_file E p url D) = svc D"
  by (simp add: post_file_def split: option.split)

lemma svc_close: "svc (close_client c D) = (fst (svc D), snd (svc D) - {c})"
  by (auto simp: svc_def verified_clients_def close_client_def)

lemma svc_SetVerified:
  assumes "c \<in> fst ` set (dm_clients D)"
  shows "svc (SetVerified c D) = (fst (svc D), insert c (snd (svc D)))"
  using assms by (force simp: svc_def verified_clients_def SetVerified_def image_iff split: if_splits)

lemma svc_stop_all:
  "svc (foldl (\<lambda>D channel. case NextRequestID E D of (i, D) \<Rightarrow> SendStop channel i D) D chs) = svc D"
  by (induction chs arbitrary: D) (simp_all add: NextRequestID_def)

text \<open>A handler that keeps a property of the state in its continuation keeps it.\<close>

lemma handler_keeps:
  assumes "P D" "with_params E deser req D k = Ret (r, D')" "\<And>p. k p = Ret (r, D') \<Longrightarrow> P D'"
  shows "P D'"
  using with_params_Ret [OF assms(2)] assms(1,3) by auto

lemma verified_handler_keeps:
  assumes "P D" "if_verified c D (with_params E deser req D k) = Ret (r, D')" "\<And>p. k p = Ret (r, D') \<Longrightarrow> P D'"
  shows "P D'"
  using if_verified_Ret [OF assms(2)] handler_keeps [where P = P, OF assms(1) _ assms(3)] assms(1) by auto

definition started :: "service \<Rightarrow> service \<Rightarrow> bool" where
  "started S S' \<longleftrightarrow> S' = S \<or> (\<exists>i. i \<noteq> [] \<and> i \<notin> fst S \<and> S' = (insert i (fst S), snd S))"

lemma create_svc:
  assumes "config ID_FIELD \<noteq> Some []" "CreateChildStream E config D = Ret (x, D1)"
  shows "started (svc D) (svc D1)"
  using assms(2)
proof (cases rule: create_cases)
  case (2 mem)
  then have "ss_id mem \<noteq> []" using assms(1) by auto
  moreover have "D1 = snd (launch E mem D)" using 2(3) by (metis snd_conv)
  ultimately show ?thesis using 2(2)
    by (auto simp: FindChildByID_def find_child_None launch_def GetStreamID_def started_def svc_def verified_clients_def split: option.splits)
qed (simp add: started_def)

lemma create_text_svc:
  assumes "CreateChildStream_text E config D = Ret (x, D1)"
  shows "started (svc D) (svc D1)"
proof -
  from assms obtain args where args: "ValidateConfig (en_opt E) (en_crit E) (en_parse_config E) config = Ret args"
      "CreateChildStream E args D = Ret (x, D1)"
    by (auto simp: CreateChildStream_text_def split: outcome.splits)
  then show ?thesis by (intro create_svc [OF validated_id])
qed

lemma start_svc:
  assumes "HandleRequestClientStartStream E c req D = Ret (r, D')"
  shows "svc D' = svc D \<or> IsVerified D c \<and> started (svc D) (svc D')"
proof (cases "IsVerified D c")
  case True
  have "started (svc D) (svc D')"
    by (rule verified_handler_keeps [OF _ assms [unfolded HandleRequestClientStartStream_def], where P = "\<lambda>D'. started (svc D) (svc D')"])
       (auto simp: started_def [of _ "svc D"] split: outcome.splits option.splits prod.splits dest: create_text_svc)
  with True show ?thesis by simp
qed (use assms in \<open>simp add: HandleRequestClientStartStream_def if_verified_def\<close>)

lemma other_handlers_svc:
  assumes "Ret (r, D') \<in> {HandleRequestClientStopStream E c req D, HandleRequestClientRestartStream E c req D,
      HandleRequestClientGetLogStream E c req D, HandleRequestClientGetPipelineStream E c req D,
      HandleRequestClientPrepareService E c req D, HandleRequestClientSyncService E c req D,
      HandleRequestClientStopService E c req D, HandleRequestClientPingService E c req D,
      HandleRequestClientGetLogService E c req D, Ret (None, D)}"
  shows "svc D' = svc D"
  using assms unfolding insert_iff empty_iff
  by (elim disjE)
     (auto simp: HandleRequestClientStopStream_def HandleRequestClientRestartStream_def HandleRequestClientGetLogStream_def
        HandleRequestClientGetPipelineStream_def HandleRequestClientPrepareService_def HandleRequestClientSyncService_def
        HandleRequestClientStopService_def HandleRequestClientPingService_def HandleRequestClientGetLogService_def
        NextRequestID_def Let_def svc_stop_all [unfolded NextRequestID_def, simplified] dest!: if_verified_Ret [OF sym] with_params_Ret with_params_Ret [OF sym]
        split: option.splits sum.splits outcome.splits if_splits)

lemma activate_svc:
  assumes "HandleRequestClientActivate E c req D = Ret (r, D')" "c \<in> fst ` set (dm_clients D)"
  shows "svc D' = svc D \<or> presents_license (en_json E) (en_license E) req \<and> svc D' = (fst (svc D), insert c (snd (svc D)))"
proof -
  have "svc (SetVerified c (respond c x (D\<lparr>dm_node := ns\<rparr>))) = (fst (svc D), insert c (snd (svc D)))" for x ns
  proof -
    have "c \<in> fst ` set (dm_clients (respond c x (D\<lparr>dm_node := ns\<rparr>)))"
      using assms(2) by (simp add: respond_def send_to_def)
    from svc_SetVerified [OF this] show ?thesis by simp
  qed
  with assms(1) show ?thesis
    by (auto simp: HandleRequestClientActivate_def LicenseInfo_DeSerialize_def presents_license_def
        split: option.splits if_splits outcome.splits prod.splits dest!: service_stats_node)
qed

lemma verified_in_svc: "dm_inv D \<Longrightarrow> IsVerified D c \<longleftrightarrow> c \<in> snd (svc D)"
  by (simp add: svc_def verified_clients_iff dm_inv_def)

lemma request_svc:
  assumes "dm_inv D" "c \<in> fst ` set (dm_clients D)" "HandleRequestServiceCommand E c req D = Ret (r, D')"
  shows "svc_step (en_json E) (en_license E) (Ev_data c (Got_request req)) (svc D) (svc D')"
proof -
  obtain R V where S: "svc D = (R, V)" by (cases "svc D") auto
  consider (start) "rq_method req = DAEMON_START_STREAM" "HandleRequestClientStartStream E c req D = Ret (r, D')"
    | (activate) "rq_method req = DAEMON_ACTIVATE" "HandleRequestClientActivate E c req D = Ret (r, D')"
    | (other) "Ret (r, D') \<in> {HandleRequestClientStopStream E c req D, HandleRequestClientRestartStream E c req D,
      HandleRequestClientGetLogStream E c req D, HandleRequestClientGetPipelineStream E c req D,
      HandleRequestClientPrepareService E c req D, HandleRequestClientSyncService E c req D,
      HandleRequestClientStopService E c req D, HandleRequestClientPingService E c req D,
      HandleRequestClientGetLogService E c req D, Ret (None, D)}"
    using assms(3) by (simp add: HandleRequestServiceCommand_def split: if_splits)
  then show ?thesis
  proof cases
    case start
    then show ?thesis using start_svc [OF start(2)] verified_in_svc [OF assms(1)] S
      by (auto simp: started_def intro: svc_step.intros)
  next
    case activate
    then show ?thesis using activate_svc [OF activate(2) assms(2)] S by (auto intro: svc_step.intros)
  next
    case other
    then show ?thesis using other_handlers_svc by (metis svc_step.idle)
  qed
qed

lemma svc_detach [simp]: "svc (D\<lparr>dm_children := detach c (dm_children D)\<rparr>) = svc D"
proof -
  have "GetStreamID ` set (detach c (dm_children D)) = GetStreamID ` set (dm_children D)"
    using detach_ids [of c "dm_children D"] by (metis list.set_map)
  then show ?thesis by (simp add: svc_def verified_clients_def)
qed

lemma stream_request_svc:
  "HandleRequestStreamsCommand E req D = Ret (r, D') \<Longrightarrow> svc D' = svc D"
  by (auto simp: HandleRequestStreamsCommand_def HandleRequestChangedSourcesStream_def HandleRequestStatisticStream_def
      dest!: with_params_Ret split: if_splits sum.splits)

lemma data_svc:
  assumes "dm_inv D" "DataReceived E c inp D = Ret D'"
  shows "svc_step (en_json E) (en_license E) (Ev_data c inp) (svc D) (svc D')"
proof -
  obtain R V where S: "svc D = (R, V)" by (cases "svc D") auto
  obtain cl where cl: "map_of (dm_clients D) c = Some cl"
    using assms(2) by (auto simp: DataReceived_def split: option.splits)
  then have c: "c \<in> fst ` set (dm_clients D)" by (force dest: map_of_SomeD)
  show ?thesis
  proof (cases cl)
    case (Daemon_client b)
    with assms cl S show ?thesis
      by (auto simp: DataReceived_def DaemonDataReceived_def svc_close split: incoming.splits outcome.splits prod.splits if_splits
          intro: svc_step.intros dest: request_svc [OF assms(1) c])
  next
    case Pipe_client
    with assms cl S show ?thesis
      by (auto simp: DataReceived_def PipeDataReceived_def svc_close split: incoming.splits outcome.splits
          prod.splits if_splits intro: svc_step.intros dest!: stream_request_svc)
  qed
qed

lemma ping_svc: "fst (svc (foldl (ping_client E) D cs)) = fst (svc D) \<and> snd (svc (foldl (ping_client E) D cs)) \<subseteq> snd (svc D)"
proof (induction cs arbitrary: D)
  case (Cons c cs)
  have "fst (svc (ping_client E D c)) = fst (svc D) \<and> snd (svc (ping_client E D c)) \<subseteq> snd (svc D)"
    by (auto simp: ping_client_def NextRequestID_def svc_close split: sum.splits option.splits)
  with Cons.IH [of "ping_client E D c"] show ?case by auto
qed simp

lemma timer_svc:
  assumes "TimerEmited E tid D = Ret D'"
  shows "svc_step (en_json E) (en_license E) (Ev_timer tid) (svc D) (svc D')"
proof -
  obtain R V where S: "svc D = (R, V)" by (cases "svc D") auto
  have "fst (svc D') = R \<and> snd (svc D') \<subseteq> V"
    using assms ping_svc [of E D "dm_clients D"] S
    by (auto simp: TimerEmited_def split: if_splits outcome.splits dest: service_stats_node)
  then show ?thesis using S svc_step.timer [of "snd (svc D')" V _ _ tid R] by (cases "svc D'") auto
qed

lemma child_svc:
  assumes "dm_inv D" "channel \<in> set (dm_children D)"
  shows "svc (ChildStatusChanged E channel wstatus D) = (fst (svc D) - {GetStreamID channel}, snd (svc D))"
proof -
  have "distinct (map GetStreamID (dm_children D))" using assms(1) by (simp add: dm_inv_def)
  then have "GetStreamID ` set (remove1 channel (dm_children D)) = GetStreamID ` set (dm_children D) - {GetStreamID channel}"
    using assms(2) by (induction "dm_children D") (auto simp: distinct_map set_remove1_eq inj_on_def)
  then have "svc (D\<lparr>dm_children := remove1 channel (dm_children D), dm_shm := dm_shm D - 1\<rparr>)
      = (fst (svc D) - {GetStreamID channel}, snd (svc D))"
    by (simp add: svc_def verified_clients_def)
  then show ?thesis by (simp add: ChildStatusChanged_def Let_def split: sum.split)
qed

lemma find_child_append:
  "find_child cid chs = None \<Longrightarrow> find_child cid (chs @ [ch]) = (if GetStreamID ch = cid then Some ch else None)"
  by (induction chs) (auto split: if_splits)

lemma http_Ret:
  "OnHttpRequest E to_vods is_m3u8 dir full D = Ret D' \<Longrightarrow>
   D' = D \<or> (\<exists>config x. vods_links D dir = Some config \<and> CreateChildStream E config D = Ret (x, D') \<and> to_vods \<and> is_m3u8)"
  by (auto simp: OnHttpRequest_def split: if_splits option.splits outcome.splits)

lemma http_svc:
  assumes "dm_inv D" "OnHttpRequest E to_vods is_m3u8 dir full D = Ret D'"
  shows "svc_step J lic (Ev_http to_vods is_m3u8 dir full) (svc D) (svc D')"
proof -
  obtain R V where S: "svc D = (R, V)" by (cases "svc D") auto
  have "started (svc D) (svc D1)" if "vods_links D dir = Some config" "CreateChildStream E config D = Ret (x, D1)" for config x D1
    by (rule create_svc [OF _ that(2)]) (use assms(1) that(1) in \<open>simp add: dm_inv_def\<close>)
  then have "D' = D \<or> started (svc D) (svc D') \<and> to_vods \<and> is_m3u8" using http_Ret [OF assms(2)] by auto
  then show ?thesis using S by (auto simp: started_def intro: svc_step.intros)
qed

lemma daemon_reaches_inv: "dm_reaches Opt lic D \<Longrightarrow> dm_inv D"
proof (induction rule: dm_reaches.induct)
  case (init D)
  then show ?case by (simp add: dm_init_def dm_inv_def)
next
  case (step D E e D')
  then show ?case using event_keeps_inv by blast
qed

lemma event_svc:
  assumes "dm_inv D" "event_enabled e D" "handle_event E e D = Ret D'"
  shows "svc_step (en_json E) (en_license E) e (svc D) (svc D')"
proof (cases e)
  case Ev_accept
  then have "svc D' = svc D"
    using assms(3) by (auto simp: handle_event_def accept_client_def svc_def verified_clients_def)
  then show ?thesis by (simp add: svc_step.idle)
next
  case (Ev_child channel wstatus)
  with assms have "D' = ChildStatusChanged E channel wstatus D" "channel \<in> set (dm_children D)"
    by (simp_all add: handle_event_def event_enabled_def)
  moreover obtain R V where S: "svc D = (R, V)" by (cases "svc D") auto
  ultimately show ?thesis using child_svc [OF assms(1), of channel E wstatus] Ev_child
    by (auto simp: svc_def intro!: svc_step.quit)
qed (use assms in \<open>auto simp: handle_event_def intro: data_svc timer_svc http_svc\<close>)

section \<open>A concrete service\<close>

text \<open>
  The environment of the witnesses: an operator (connection 0) activates itself and starts the
  timeshift recorder \<open>s1\<close> of theory \<open>StreamLaunch\<close>.
\<close>

definition demo_env :: "(jval, string, unit, unit) env" where
  "demo_env = \<lparr>en_opt = demo_opt_env, en_license = ''key'', en_crit = True,
     en_parse_config = demo_parse,
     en_fs = demo_fs, en_scan = (\<lambda>d. []), en_describe = (\<lambda>e. ''failed''), en_write = (\<lambda>c. None),
     en_make_id = (\<lambda>i. ''i''), en_mem0 = (), en_mmap = Mapped, en_now = 0, en_pipe1 = None, en_pipe2 = None,
     en_fork = Some 42, en_channels0 = (), en_channels = (\<lambda>j. Inr ()), en_stats = demo_stats_env,
     en_machine = demo_machine, en_online = (0, 0, 0), en_new_timer = 9, en_server_ping = Inr ''ping'',
     en_client_ping = (\<lambda>j. None), en_dbps_str = (\<lambda>d. []), en_dbps_of = (\<lambda>s. Some ()),
     en_make_file = (\<lambda>a b. Some (a @ b)), en_log_path = ''/log''\<rparr>"

definition demo_license :: string where
  "demo_license = js_print tree_json (add_text tree_json ''license_key'' ''key'' (js_new_object tree_json))"

definition demo_start :: string where
  "demo_start = js_print tree_json (add_text tree_json ''config'' ''cfg'' (js_new_object tree_json))"

definition demo_request :: "string \<Rightarrow> string \<Rightarrow> request" where
  "demo_request m params = \<lparr>rq_id = Some ''7'', rq_method = m, rq_params = Some params\<rparr>"

definition demo_daemon :: "(unit, unit) daemon" where
  "demo_daemon = \<lparr>dm_clients = [(0, Daemon_client False)], dm_children = [], dm_next = 1, dm_id = 0,
     ping_client_timer = Some 1, node_stats_timer = Some 2, cleanup_files_timer = Some 3, quit_cleanup_timer = None,
     dm_node = demo_node, vods_links = Map.empty, dm_users = Map.empty, dm_http = \<lparr>http_root = ''/h/''\<rparr>,
     dm_vods = \<lparr>vods_root = ''/v/''\<rparr>, dm_files = Map.empty, dm_sent = [], dm_posts = [], dm_shm = 0, dm_fds = 0,
     dm_stopped = False\<rparr>"

lemma demo_env_sel [simp]:
  "en_opt demo_env = demo_opt_env" "en_license demo_env = ''key''" "en_crit demo_env = True" "en_fs demo_env = demo_fs"
  "en_mmap demo_env = Mapped" "en_pipe1 demo_env = None" "en_pipe2 demo_env = None" "en_fork demo_env = Some 42"
  "oe_json demo_opt_env = tree_json"
  by (simp_all add: demo_env_def demo_opt_env_def)

lemma demo_params [simp]:
  "js_parse tree_json demo_license = Some (add_text tree_json ''license_key'' ''key'' (js_new_object tree_json))"
  "js_parse tree_json demo_start = Some (add_text tree_json ''config'' ''cfg'' (js_new_object tree_json))"
  by (simp_all add: demo_license_def demo_start_def json_lawsD)

lemma demo_texts [simp]:
  "get_text tree_json (add_text tree_json ''license_key'' ''key'' (js_new_object tree_json)) ''license_key'' [] = ''key''"
  "get_text tree_json (add_text tree_json ''config'' ''cfg'' (js_new_object tree_json)) ''license_key'' [] = []"
  "StartInfo_DeSerialize tree_json (add_text tree_json ''config'' ''cfg'' (js_new_object tree_json)) = Inr ''cfg''"
  by (simp_all add: info_laws StartInfo_DeSerialize_def)

lemma demo_config: "ValidateConfig demo_opt_env True (en_parse_config demo_env) ''cfg'' = Ret demo_args"
  by (simp add: demo_env_def demo_args_validated)

lemma demo_reached: "dm_reaches demo_opt_env ''key'' demo_daemon"
proof (rule dm_reaches.step [OF dm_reaches.init, where E = demo_env and e = Ev_accept])
  show "dm_init (demo_daemon\<lparr>dm_clients := [], dm_next := 0\<rparr>)" by (simp add: dm_init_def demo_daemon_def)
  show "handle_event demo_env Ev_accept (demo_daemon\<lparr>dm_clients := [], dm_next := 0\<rparr>) = Ret demo_daemon"
    by (simp add: handle_event_def accept_client_def demo_daemon_def)
qed (simp_all add: event_enabled_def)

lemma demo_active:
  "\<exists>D. dm_reaches demo_opt_env ''key'' D \<and> dm_clients D = [(0, Daemon_client True)] \<and> dm_children D = []
     \<and> handle_event demo_env (Ev_data 0 (Got_request (demo_request DAEMON_ACTIVATE demo_license))) demo_daemon = Ret D"
proof -
  have "\<exists>t ns. MakeServiceStats tree_json demo_stats_env demo_machine (online_users demo_env demo_daemon) True demo_node
      = Ret (t, ns)"
    by (simp add: MakeServiceStats_def demo_machine_def demo_node_def GetMachineCpuShot_def GetMachineNetShot_def
        ts_diff_def FullServiceInfo_Serialize_def Let_def split: sum.split)
  then obtain t ns where "service_stats demo_env True demo_daemon = Ret (t, demo_daemon\<lparr>dm_node := ns\<rparr>)"
    by (auto simp: service_stats_def demo_env_def demo_daemon_def demo_opt_env_def)
  then have *: "handle_event demo_env (Ev_data 0 (Got_request (demo_request DAEMON_ACTIVATE demo_license))) demo_daemon
      = Ret (SetVerified 0 (respond 0 (ActivateResponce (Some ''7'') t) (demo_daemon\<lparr>dm_node := ns\<rparr>)))"
    by (simp add: handle_event_def DataReceived_def DaemonDataReceived_def HandleRequestServiceCommand_def demo_request_def
        daemon_method_defs HandleRequestClientActivate_def LicenseInfo_DeSerialize_def demo_daemon_def)
  show ?thesis
    by (rule exI, intro conjI, rule dm_reaches.step [OF demo_reached _ _ _ *], simp_all add: * event_enabled_def)
       (simp_all add: demo_daemon_def SetVerified_def respond_def send_to_def)
qed

lemma demo_running:
  "\<exists>D D'. dm_reaches demo_opt_env ''key'' (D :: (unit, unit) daemon) \<and> dm_reaches demo_opt_env ''key'' D' \<and> event_enabled
     (Ev_data 0 (Got_request (demo_request DAEMON_START_STREAM demo_start))) D
     \<and> handle_event demo_env (Ev_data 0 (Got_request (demo_request DAEMON_START_STREAM demo_start))) D = Ret D'
     \<and> svc D = ({}, {0}) \<and> svc D' = ({''s1''}, {0})"
proof -
  obtain D :: "(unit, unit) daemon" where D: "dm_reaches demo_opt_env ''key'' D" "dm_clients D = [(0, Daemon_client True)]" "dm_children D = []"
    using demo_active by blast
  define sha where "sha = \<lparr>si_id = ''s1'', si_type = TIMESHIFT_RECORDER, si_input = [7], si_output = []\<rparr>"
  define mem where "mem = make_StreamStruct () sha 0 0 0"
  define D1 where "D1 = respond 0 (StartStreamResponceSuccess (Some ''7'')) (snd (launch demo_env mem D))"
  have "en_mem0 demo_env = ()" "en_now demo_env = 0" by (simp_all add: demo_env_def)
  then have "CreateChildStream_text demo_env ''cfg'' D = Ret (launch demo_env mem D)"
    using demo_config demo_stream_info D(3)
    by (simp add: CreateChildStream_text_def CreateChildStream_def FindChildByID_def sha_def AllocSharedStreamStruct_def mem_def)
  moreover have "fst (launch demo_env mem D) = None" by (simp add: launch_def)
  ultimately have *: "handle_event demo_env (Ev_data 0 (Got_request (demo_request DAEMON_START_STREAM demo_start))) D = Ret D1"
    using D(2) by (cases "launch demo_env mem D")
      (simp add: handle_event_def DataReceived_def DaemonDataReceived_def HandleRequestServiceCommand_def demo_request_def
        HandleRequestClientStartStream_def if_verified_def with_params_def IsVerified_def D1_def)
  have en: "event_enabled (Ev_data 0 (Got_request (demo_request DAEMON_START_STREAM demo_start))) D"
    using D(2) by (simp add: event_enabled_def)
  have "svc D1 = ({''s1''}, {0})"
    using D(2,3) by (simp add: D1_def launch_def svc_def verified_clients_def GetStreamID_def
        make_StreamStruct_def sha_def mem_def respond_def send_to_def)
  moreover have "svc D = ({}, {0})" using D(2,3) by (simp add: svc_def verified_clients_def)
  moreover have "dm_reaches demo_opt_env ''key'' D1" by (rule dm_reaches.step [OF D(1) _ _ en *]) simp_all
  ultimately show ?thesis using D(1) en * by blast
qed

section \<open>The properties of the service\<close>

lemma piped_client:
  assumes "dm_inv D" "ch \<in> set (dm_children D)" "ch_client ch = Some h"
  shows "map_of (dm_clients D) h = Some Pipe_client"
proof (rule map_of_is_SomeI)
  have "h \<in> set (pipes (dm_children D))" using assms(2,3) by (auto simp: in_pipes)
  then show "(h, Pipe_client) \<in> set (dm_clients D)" using assms(1) by (simp add: dm_inv_def)
qed (use assms(1) in \<open>simp add: dm_inv_def\<close>)

lemma find_child_unique:
  "ch \<in> set chs \<Longrightarrow> distinct (map GetStreamID chs) \<Longrightarrow> find_child (GetStreamID ch) chs = Some ch"
  by (induction chs) auto

text \<open>
  (C1) The service refines the abstract service: whatever events happened before, every event of the
  loop that returns is a step of the abstract service on the names of the running streams and the
  verified operators. In particular only verified operators and requests for videos start streams, under
  names that are not in use, and only activations with the licence verify operators.
\<close>

theorem daemon_refines_service:
  assumes "dm_reaches Opt lic D" "en_opt E = Opt" "en_license E = lic" "event_enabled e D" "handle_event E e D = Ret D'"
  shows "svc_step (oe_json Opt) lic e (svc D) (svc D')"
  using event_svc [OF daemon_reaches_inv [OF assms(1)] assms(4,5)] assms(2,3) by simp

theorem daemon_refines_service_witness:
  "svc_step (oe_json demo_opt_env) ''key'' (Ev_data 0 (Got_request (demo_request DAEMON_START_STREAM demo_start)) :: unit event)
     ({}, {0}) ({''s1''}, {0})"
proof -
  obtain D D' :: "(unit, unit) daemon" where D: "dm_reaches demo_opt_env ''key'' D"
      "event_enabled (Ev_data 0 (Got_request (demo_request DAEMON_START_STREAM demo_start))) D"
      "handle_event demo_env (Ev_data 0 (Got_request (demo_request DAEMON_START_STREAM demo_start))) D = Ret D'"
      "svc D = ({}, {0})" "svc D' = ({''s1''}, {0})"
    using demo_running by blast
  from daemon_refines_service [OF D(1) _ _ D(2,3)] D(4,5) show ?thesis by simp
qed

text \<open>
  (C2) In every state the service can reach, no two running streams have the same name and none has the
  empty name; the pipe of a stream that is still connected is a registered pipe client and belongs to no
  other stream; and no shared memory segment of a running stream was given back.
\<close>

theorem daemon_streams_unique:
  assumes "dm_reaches Opt lic D"
  shows "distinct (map GetStreamID (dm_children D)) \<and> (\<forall>ch. FindChildByID [] D \<noteq> Some ch)
    \<and> (\<forall>ch\<in>set (dm_children D). FindChildByID (GetStreamID ch) D = Some ch
         \<and> (\<forall>h. ch_client ch = Some h \<longrightarrow> map_of (dm_clients D) h = Some Pipe_client))
    \<and> distinct (List.map_filter ch_client (dm_children D)) \<and> length (dm_children D) \<le> dm_shm D"
proof -
  have inv: "dm_inv D" using assms by (rule daemon_reaches_inv)
  then have dist: "distinct (map GetStreamID (dm_children D))" by (simp add: dm_inv_def)
  have "FindChildByID (GetStreamID ch) D = Some ch" if "ch \<in> set (dm_children D)" for ch
    using that dist by (simp add: FindChildByID_def find_child_unique)
  moreover have "FindChildByID [] D = None" using inv by (simp add: FindChildByID_def find_child_None dm_inv_def)
  ultimately show ?thesis using inv dist piped_client [OF inv] by (simp add: dm_inv_def pipes_def)
qed

theorem daemon_streams_unique_witness:
  "\<exists>D. dm_reaches demo_opt_env ''key'' D \<and> GetStreamID ` set (dm_children (D :: (unit, unit) daemon)) = {''s1''}
     \<and> distinct (map GetStreamID (dm_children D))"
proof -
  obtain D :: "(unit, unit) daemon" where D: "dm_reaches demo_opt_env ''key'' D" "svc D = ({''s1''}, {0})"
    using demo_running by blast
  with daemon_streams_unique [OF D(1)] show ?thesis by (auto simp: svc_def)
qed



text \<open>
  (C7) What a verified operator gets for a start request with a complete configuration, in every
  combination of used name, memory, pipes and fork. A name in use, the null pointer for the memory and a
  first pipe that cannot be made are refused: the only effect is the answer, a failure that describes the
  error the handler returns. So is a second pipe that cannot be made, but then the two ends of the first pipe
  are lost. When memory and pipes are available the answer is success, and the stream is found under its name
  with the process of the fork and its connection; but when the fork fails the answer is success as well,
  although there is no stream, and the memory segment and all four pipe ends are lost. Memory that cannot be
  mapped is not noticed: the structure is built at an invalid address.
\<close>

theorem start_stream_outcomes:
  assumes "IsVerified D c" "rq_params req = Some params" "js_parse (en_json E) params = Some j"
    "StartInfo_DeSerialize (en_json E) j = Inr config"
    "ValidateConfig (en_opt E) (en_crit E) (en_parse_config E) config = Ret args"
    "MakeStreamInfo (en_opt E) (en_fs E) args True = Inr (sha, feedback, level)"
    "used = Errno_error (''Stream with id: '' @ si_id sha @ '' exist, skip request.'') EINVAL"
    "failed = (\<lambda>err D1. Ret (Some err, D1\<lparr>dm_sent := dm_sent D
        @ [(c, Out_response (StartStreamResponceFail (rq_id req) (en_describe E err)))]\<rparr>))"
    "result = HandleRequestClientStartStream E c req D"
  shows "if FindChildByID (si_id sha) D \<noteq> None then result = failed used D
    else if en_mmap E = Map_failed then result = Abort
    else if en_mmap E = Map_null then result = failed (Errno_error ''Failed to allocate memory.'' ENOMEM) D
    else if en_pipe1 E \<noteq> None then result = failed (the (en_pipe1 E)) D
    else if en_pipe2 E \<noteq> None then result = failed (the (en_pipe2 E)) (D\<lparr>dm_fds := dm_fds D + 2\<rparr>)
    else \<exists>D'. result = Ret (None, D')
       \<and> dm_sent D' = dm_sent D @ [(c, Out_response (StartStreamResponceSuccess (rq_id req)))] \<and> dm_shm D' = dm_shm D + 1 \<and>
       (case en_fork E of
          None \<Rightarrow> dm_children D' = dm_children D \<and> dm_clients D' = dm_clients D \<and> dm_fds D' = dm_fds D + 4
            \<and> FindChildByID (si_id sha) D' = None
        | Some pid \<Rightarrow> (\<exists>ch. dm_children D' = dm_children D @ [ch] \<and> FindChildByID (si_id sha) D' = Some ch
            \<and> GetStreamID ch = si_id sha \<and> ss_type (ch_mem ch) = si_type sha \<and> ch_pid ch = pid \<and> ch_client ch = Some (dm_next D))
            \<and> dm_clients D' = dm_clients D @ [(dm_next D, Pipe_client)] \<and> dm_fds D' = dm_fds D + 2)"
proof -
  define mem where "mem = make_StreamStruct (en_mem0 E) sha (en_now E) 0 0"
  have mem: "ss_id mem = si_id sha" "ss_type mem = si_type sha" by (simp_all add: mem_def make_StreamStruct_def)
  define x where "x = (if FindChildByID (si_id sha) D \<noteq> None then Ret (Some used, D)
        else (case en_mmap E of Map_null \<Rightarrow> Ret (Some (Errno_error ''Failed to allocate memory.'' ENOMEM), D)
          | Mapped \<Rightarrow> Ret (launch E mem D) | Map_failed \<Rightarrow> Abort))"
  have r: "result = (case x of Abort \<Rightarrow> Abort
    | Ret (Some err, D1) \<Rightarrow> Ret (Some err, respond c (StartStreamResponceFail (rq_id req) (en_describe E err)) D1)
    | Ret (None, D1) \<Rightarrow> Ret (None, respond c (StartStreamResponceSuccess (rq_id req)) D1))"
    using assms(1-6) unfolding assms(9)
    by (simp add: HandleRequestClientStartStream_def if_verified_def with_params_def assms(7)
        CreateChildStream_text_def CreateChildStream_def x_def AllocSharedStreamStruct_def mem_def split: mmap_result.split)
  show ?thesis
    by (cases "en_mmap E"; cases "en_pipe1 E"; cases "en_pipe2 E"; cases "en_fork E")
       (auto simp: r x_def launch_def assms(8) respond_def send_to_def FindChildByID_def GetStreamID_def mem
          find_child_append)
qed

theorem start_stream_outcomes_witness:
  "\<exists>D. HandleRequestClientStartStream (demo_env\<lparr>en_fork := None\<rparr>) 0 (demo_request DAEMON_START_STREAM demo_start)
      (demo_daemon\<lparr>dm_clients := [(0, Daemon_client True)]\<rparr>) = Ret (None, D)
    \<and> dm_children D = [] \<and> dm_shm D = 1 \<and> dm_fds D = 4"
proof -
  define E where "E = demo_env\<lparr>en_fork := None\<rparr>"
  define D where "D = demo_daemon\<lparr>dm_clients := [(0, Daemon_client True)]\<rparr>"
  have E: "en_opt E = demo_opt_env" "en_crit E = True" "en_parse_config E = en_parse_config demo_env" "en_fs E = demo_fs"
      "en_mmap E = Mapped" "en_pipe1 E = None" "en_pipe2 E = None" "en_fork E = None"
    by (simp_all add: E_def)
  have D: "IsVerified D 0" "dm_children D = []" "dm_shm D = 0" "dm_fds D = 0"
    by (simp_all add: D_def IsVerified_def demo_daemon_def)
  have "\<exists>r D'. HandleRequestClientStartStream E 0 (demo_request DAEMON_START_STREAM demo_start) D = Ret (r, D')
      \<and> r = None \<and> dm_children D' = [] \<and> dm_shm D' = 1 \<and> dm_fds D' = 4"
    using start_stream_outcomes [of D 0 "demo_request DAEMON_START_STREAM demo_start" demo_start E
        "add_text tree_json ''config'' ''cfg'' (js_new_object tree_json)" "''cfg''" demo_args, OF D(1)]
      demo_config demo_stream_info E D
    by (fastforce simp: demo_request_def FindChildByID_def)
  then show ?thesis unfolding E_def D_def by auto
qed

text \<open>The users of a synchronisation that can be read.\<close>

definition readable_users :: "('j, 'u, 'd, 'c) env \<Rightarrow> string list \<Rightarrow> 'c UserInfo list" where
  "readable_users E ts = concat (map (\<lambda>t. case read_user E t of Inl err \<Rightarrow> [] | Inr u \<Rightarrow> [u]) ts)"

lemma users_replaced:
  "foldl (\<lambda>db text. case read_user E text of Inl err \<Rightarrow> db | Inr uinf \<Rightarrow> AddUser db uinf) (Clear db) ts l
     = find (\<lambda>u. ui_login u = l) (readable_users E ts)"
proof -
  have app: "find P (xs @ ys) = (case find P xs of None \<Rightarrow> find P ys | Some x \<Rightarrow> Some x)" for P and xs ys :: "'a UserInfo list"
    by (induction xs) auto
  show ?thesis
    by (induction ts arbitrary: l rule: rev_induct)
       (auto simp: readable_users_def Clear_def AddUser_def app split: sum.split option.split)
qed

lemma stop_all_timers:
  fixes D :: "('d, 'c) daemon" and E :: "('j, 'u, 'd, 'c) env"
  defines "f \<equiv> \<lambda>D channel. case NextRequestID E D of (i, D) \<Rightarrow> SendStop channel i D"
  shows "ping_client_timer (foldl f D chs) = ping_client_timer D \<and> node_stats_timer (foldl f D chs) = node_stats_timer D
    \<and> cleanup_files_timer (foldl f D chs) = cleanup_files_timer D"
  by (induction chs arbitrary: D) (auto simp: f_def NextRequestID_def SendStop_def send_to_def split: option.split)

text \<open>
  (C11) A synchronisation by a verified operator replaces the two registers and touches nothing else.
  Afterwards a directory is linked exactly when some line of this message is a complete configuration of a video
  with an HTTP output in that directory, and it is linked to the validated configuration of the last such line,
  with the cleaning of chunks switched off; lines of other streams and lines that cannot be read link
  nothing. The user base holds for each login the first readable user of this message; the streams and
  connections are as before. The answer is the one to a stop request.
\<close>

theorem sync_replaces_registers:
  assumes "IsVerified D c" "rq_params req = Some params" "js_parse (en_json E) params = Some j"
    "SyncInfo_DeSerialize (en_json E) j = Inr info" "HandleRequestClientSyncService E c req D = Ret (r, D')"
  shows "r = None \<and> (\<forall>dir cfg. vods_links D' dir = Some cfg \<longleftrightarrow> last_claim E (sy_streams info) dir cfg)
    \<and> (\<forall>l. dm_users D' l = find (\<lambda>u. ui_login u = l) (readable_users E (sy_users info)))
    \<and> D' = D\<lparr>vods_links := vods_links D', dm_users := dm_users D',
         dm_sent := dm_sent D @ [(c, Out_response (daemon_StopStreamResponceSuccess (rq_id req)))]\<rparr>"
proof -
  from assms obtain links where links: "add_stream_lines E Map.empty (sy_streams info) = Ret links" "r = None"
      "D' = respond c (daemon_StopStreamResponceSuccess (rq_id req)) (D\<lparr>vods_links := links, dm_users :=
         foldl (\<lambda>db text. case read_user E text of Inl err \<Rightarrow> db | Inr uinf \<Rightarrow> AddUser db uinf)
           (Clear (dm_users D)) (sy_users info)\<rparr>)"
    by (auto simp: HandleRequestClientSyncService_def if_verified_def with_params_def Let_def split: outcome.splits)
  have "links dir = Some cfg \<longleftrightarrow> last_claim E (sy_streams info) dir cfg" for dir cfg
    using add_stream_lines_at [OF links(1)] by simp
  then show ?thesis using links(2,3) by (auto simp: respond_def send_to_def users_replaced)
qed

text \<open>A synchronisation with one video: an encoding whose HTTP output is the directory \<open>/v/\<close>.\<close>

definition vod_args :: ArgsMap where
  "vod_args = [ID_FIELD \<mapsto> ''v1'', TYPE_FIELD \<mapsto> ''8'', FEEDBACK_DIR_FIELD \<mapsto> ''/hls'',
     INPUT_FIELD \<mapsto> urls_text tree_json (InputUri_Serialize tree_json text_urls)
        [\<lparr>iu_id = 7, iu_input = ''udp://a'', iu_user_agent = VLC\<rparr>],
     OUTPUT_FIELD \<mapsto> urls_text tree_json (OutputUri_Serialize tree_json text_urls)
        [\<lparr>ou_id = 1, ou_output = ''http://b'', ou_http_root = ''/v/''\<rparr>]]"

definition vod_env :: "(jval, string, unit, unit) env" where
  "vod_env = demo_env\<lparr>en_parse_config := (\<lambda>s. Config_object [(''id'', Some ''v1''), (''type'', Some ''8''),
     (''feedback_directory'', Some ''/hls''), (''input'', vod_args INPUT_FIELD), (''output'', vod_args OUTPUT_FIELD)])\<rparr>"

lemma vod_env_sel [simp]: "en_opt vod_env = demo_opt_env" "en_crit vod_env = True" "en_fs vod_env = demo_fs"
  by (simp_all add: vod_env_def)

lemma vod_urls:
  "read_input tree_json text_urls vod_args = Some [\<lparr>iu_id = 7, iu_input = ''udp://a'', iu_user_agent = VLC\<rparr>]"
  "read_output tree_json text_urls vod_args = Some [\<lparr>ou_id = 1, ou_output = ''http://b'', ou_http_root = ''/v/''\<rparr>]"
proof -
  have k: "input_kept text_urls \<lparr>iu_id = 7, iu_input = ''udp://a'', iu_user_agent = VLC\<rparr>"
    "output_kept text_urls \<lparr>ou_id = 1, ou_output = ''http://b'', ou_http_root = ''/v/''\<rparr>"
    by (simp_all add: input_kept_def output_kept_def text_urls_def proper_agent_def)
  show "read_input tree_json text_urls vod_args = Some [\<lparr>iu_id = 7, iu_input = ''udp://a'', iu_user_agent = VLC\<rparr>]"
    using urls_roundtrip [OF input_ser.serializer_axioms [of tree_json text_urls],
        of tree_json "[\<lparr>iu_id = 7, iu_input = ''udp://a'', iu_user_agent = VLC\<rparr>]"] k
    by (simp add: read_input_def ArgsGetValue_def ConvertFromString_input_def vod_args_def field_name_defs)
  show "read_output tree_json text_urls vod_args = Some [\<lparr>ou_id = 1, ou_output = ''http://b'', ou_http_root = ''/v/''\<rparr>]"
    using urls_roundtrip [OF output_ser.serializer_axioms [of tree_json text_urls],
        of tree_json "[\<lparr>ou_id = 1, ou_output = ''http://b'', ou_http_root = ''/v/''\<rparr>]"] k
    by (simp add: read_output_def ArgsGetValue_def ConvertFromString_output_def vod_args_def field_name_defs)
qed

lemma vod_validated: "ValidateConfig demo_opt_env True (en_parse_config vod_env) ''video'' = Ret vod_args"
proof -
  have "validate_output demo_opt_env (urls_text tree_json (OutputUri_Serialize tree_json text_urls)
        [\<lparr>ou_id = 1, ou_output = ''http://b'', ou_http_root = ''/v/''\<rparr>]) = VALID"
    using vod_urls(2)
    by (simp add: validate_output_def read_output_def ArgsGetValue_def vod_args_def field_name_defs demo_opt_env_def)
  then show ?thesis
    by (simp add: ValidateConfig_def FindOption_eq ALLOWED_OPTIONS_def validate_id_def validate_type_def validate_input_def
        validate_feedback_dir_def validate_range_def vod_env_def vod_args_def field_name_defs value_text_def fun_eq_iff)
      (simp add: demo_opt_env_def std_conv_def std_u_def read_dec_def is_digit_def digit_val_def)
qed

lemma vod_claims: "claims_dir vod_env ''video'' ''/v/'' (vod_args(CLEANUP_TS_FIELD \<mapsto> ''false''))"
proof -
  have "MakeStreamInfo demo_opt_env demo_fs vod_args False
     = Inr (\<lparr>si_id = ''v1'', si_type = VOD_ENCODE, si_input = [7], si_output = []\<rparr>, ''/hls'', 7)"
    using vod_urls(1)
    by (simp add: MakeStreamInfo_def ArgsGetValue_def ConvertFromString_string_def demo_opt_env_def
        vod_args_def field_name_defs std_conv_def std_u_def read_dec_def is_digit_def digit_val_def type_of_def
        CreateAndCheckDir_def demo_fs_def)
  moreover have "en_json vod_env = tree_json" "en_url vod_env = text_urls" by (simp_all add: demo_opt_env_def)
  ultimately show ?thesis using vod_validated vod_urls(2)
    by (simp add: claims_dir_def text_urls_def)
qed

definition demo_sync :: jval where
  "demo_sync = js_add tree_json (js_new_object tree_json) ''streams'' (js_of_array tree_json [js_of_string tree_json ''video''])"

theorem sync_replaces_registers_witness:
  "\<exists>D'. HandleRequestClientSyncService vod_env 0 (demo_request DAEMON_SYNC_SERVICE (js_print tree_json demo_sync))
      (demo_daemon\<lparr>dm_clients := [(0, Daemon_client True)], vods_links := [''/old/'' \<mapsto> demo_args]\<rparr>) = Ret (None, D')
    \<and> vods_links D' ''/v/'' = Some (vod_args(CLEANUP_TS_FIELD \<mapsto> ''false''))"
proof -
  define D where "D = demo_daemon\<lparr>dm_clients := [(0, Daemon_client True)], vods_links := [''/old/'' \<mapsto> demo_args]\<rparr>"
  have j: "js_parse tree_json (js_print tree_json demo_sync) = Some demo_sync" by (simp add: json_lawsD)
  have s: "SyncInfo_DeSerialize tree_json demo_sync = Inr \<lparr>sy_streams = [''video''], sy_users = []\<rparr>"
    by (simp add: SyncInfo_DeSerialize_def demo_sync_def Let_def json_lawsD)
  have J: "en_json vod_env = tree_json" by (simp add: demo_opt_env_def)
  have D: "IsVerified D 0" by (simp add: D_def IsVerified_def)
  have "\<exists>links. add_stream_lines vod_env Map.empty [''video''] = Ret links"
    using vod_validated by (simp add: AddStreamLine_def split: sum.split option.split prod.split)
  then obtain D' where D': "HandleRequestClientSyncService vod_env 0 (demo_request DAEMON_SYNC_SERVICE (js_print tree_json demo_sync)) D
      = Ret (None, D')"
    using j s D J by (auto simp: HandleRequestClientSyncService_def if_verified_def with_params_def demo_request_def Let_def)
  have "vods_links D' ''/v/'' = Some cfg \<longleftrightarrow> last_claim vod_env [''video''] ''/v/'' cfg" for cfg
    using sync_replaces_registers [OF D _ _ _ D', of "js_print tree_json demo_sync" demo_sync] j s J by (simp add: demo_request_def)
  moreover have "last_claim vod_env [''video''] ''/v/'' (vod_args(CLEANUP_TS_FIELD \<mapsto> ''false''))"
    using vod_claims by (simp add: last_claim_Cons)
  ultimately show ?thesis using D' unfolding D_def by blast
qed

section \<open>Stopping the service\<close>

fun run_events :: "(('j, 'u, 'd, 'c) env \<times> 'd event) list \<Rightarrow> ('d, 'c) daemon \<Rightarrow> ('d, 'c) daemon outcome" where
  "run_events [] D = Ret D"
| "run_events ((E, e) # es) D = (case handle_event E e D of Abort \<Rightarrow> Abort | Ret D' \<Rightarrow> run_events es D')"

text \<open>The service is about to stop: its quit timer is set, and no other timer has its number.\<close>

definition quitting :: "nat \<Rightarrow> ('d, 'c) daemon \<Rightarrow> bool" where
  "quitting t D \<longleftrightarrow> quit_cleanup_timer D = Some t
     \<and> t \<notin> {k. Some k \<in> {ping_client_timer D, node_stats_timer D, cleanup_files_timer D}}"

lemma quitting_updates [simp]:
  "quitting t (send_to c m D) = quitting t D" "quitting t (respond c r D) = quitting t D"
  "quitting t (BroadcastClients req D) = quitting t D" "quitting t (close_client c D) = quitting t D"
  "quitting t (SendStop ch i D) = quitting t D" "quitting t (SendRestart ch i D) = quitting t D"
  "quitting t (post_file E p url D) = quitting t D" "quitting t (SetVerified c D) = quitting t D"
  "quitting t (D\<lparr>dm_id := n\<rparr>) = quitting t D" "quitting t (D\<lparr>dm_http := h, dm_vods := v\<rparr>) = quitting t D"
  "quitting t (D\<lparr>dm_node := ns\<rparr>) = quitting t D" "quitting t (D\<lparr>dm_files := f\<rparr>) = quitting t D"
  "quitting t (D\<lparr>dm_stopped := b\<rparr>) = quitting t D" "quitting t (D\<lparr>dm_fds := n'\<rparr>) = quitting t D"
  "quitting t (D\<lparr>dm_children := chs\<rparr>) = quitting t D" "quitting t (D\<lparr>dm_shm := n2\<rparr>) = quitting t D"
  "quitting t (D\<lparr>vods_links := links, dm_users := users\<rparr>) = quitting t D"
  by (simp_all add: quitting_def send_to_def respond_def BroadcastClients_eq close_client_def SendStop_def SendRestart_def
      post_file_def SetVerified_def split: option.split)

lemma quitting_launch: "launch E mem D = (x, D1) \<Longrightarrow> quitting t D1 = quitting t D"
  by (auto simp: launch_def quitting_def split: option.splits)

lemma quitting_create: "CreateChildStream E config D = Ret (x, D1) \<Longrightarrow> quitting t D1 = quitting t D"
  by (erule create_cases) (auto dest: quitting_launch [OF sym])

lemma quitting_create_text: "CreateChildStream_text E config D = Ret (x, D1) \<Longrightarrow> quitting t D1 = quitting t D"
  by (auto simp: CreateChildStream_text_def split: outcome.splits dest: quitting_create)

lemma request_quitting:
  assumes "quitting t D" "HandleRequestServiceCommand E c req D = Ret (r, D')"
  shows "quitting t D'"
proof -
  have "quit_cleanup_timer D = Some t" using assms(1) by (simp add: quitting_def)
  with service_command_cases [of E c req D] assms show ?thesis
    unfolding insert_iff empty_iff
    by (elim disjE)
       (auto simp: HandleRequestClientStartStream_def HandleRequestClientStopStream_def HandleRequestClientRestartStream_def
          HandleRequestClientGetLogStream_def HandleRequestClientGetPipelineStream_def HandleRequestClientPrepareService_def
          HandleRequestClientSyncService_def HandleRequestClientStopService_def HandleRequestClientPingService_def
          HandleRequestClientGetLogService_def NextRequestID_def Let_def
          dest!: if_verified_Ret if_verified_Ret [OF sym] with_params_Ret with_params_Ret [OF sym] activate_Ret [OF sym] activate_Ret
            quitting_create_text split: option.splits sum.splits outcome.splits if_splits prod.splits)
qed

lemma stream_request_quitting:
  "HandleRequestStreamsCommand E req D = Ret (r, D') \<Longrightarrow> quitting t D' = quitting t D"
  by (auto simp: HandleRequestStreamsCommand_def HandleRequestChangedSourcesStream_def HandleRequestStatisticStream_def
      dest!: with_params_Ret split: if_splits sum.splits)

lemma ping_quitting: "quitting t (foldl (ping_client E) D cs) = quitting t D"
proof (induction cs arbitrary: D)
  case (Cons c cs)
  have "quitting t (ping_client E D c) = quitting t D"
    by (simp add: ping_client_def NextRequestID_def split: sum.split option.split)
  with Cons.IH [of "ping_client E D c"] show ?case by simp
qed simp

lemma event_quitting:
  assumes "quitting t D" "handle_event E e D = Ret D'"
  shows "quitting t D'"
proof (cases e)
  case Ev_accept
  with assms show ?thesis by (auto simp: handle_event_def accept_client_def quitting_def)
next
  case (Ev_data c inp)
  with assms show ?thesis
    by (auto simp: handle_event_def DataReceived_def DaemonDataReceived_def PipeDataReceived_def request_quitting
        dest!: stream_request_quitting split: option.splits io_client.splits incoming.splits outcome.splits prod.splits if_splits)
next
  case (Ev_timer tid)
  with assms show ?thesis
    by (auto simp: handle_event_def TimerEmited_def ping_quitting dest!: service_stats_node split: if_splits outcome.splits)
next
  case (Ev_child channel wstatus)
  with assms show ?thesis by (auto simp: handle_event_def ChildStatusChanged_def Let_def split: sum.splits)
next
  case (Ev_http to_vods is_m3u8 dir full)
  with assms show ?thesis by (auto simp: handle_event_def dest!: http_Ret quitting_create)
qed

lemma run_quitting: "quitting t D \<Longrightarrow> run_events es D = Ret D' \<Longrightarrow> quitting t D'"
  by (induction es D rule: run_events.induct) (auto split: outcome.splits dest: event_quitting)

lemma stop_all_mono:
  "set (dm_sent D) \<subseteq> set (dm_sent (foldl (\<lambda>D channel. case NextRequestID E D of (i, D) \<Rightarrow> SendStop channel i D) D chs))"
proof (induction chs arbitrary: D)
  case (Cons ch chs)
  let ?f = "\<lambda>D channel. case NextRequestID E D of (i, D) \<Rightarrow> SendStop channel i D"
  have "set (dm_sent D) \<subseteq> set (dm_sent (?f D ch))"
    by (auto simp: NextRequestID_def SendStop_def split: option.split)
  also have "\<dots> \<subseteq> set (dm_sent (foldl ?f (?f D ch) chs))" by (rule Cons.IH)
  finally show ?case by simp
qed simp

lemma stop_all_sent:
  assumes "ch \<in> set chs" "ch_client ch = Some h"
  shows "\<exists>i. (h, Out_request (StopStreamRequest i))
     \<in> set (dm_sent (foldl (\<lambda>D channel. case NextRequestID E D of (i, D) \<Rightarrow> SendStop channel i D) D chs))"
  using assms
proof (induction chs arbitrary: D)
  case (Cons a chs)
  let ?f = "\<lambda>D channel. case NextRequestID E D of (i, D) \<Rightarrow> SendStop channel i D"
  show ?case
  proof (cases "ch = a")
    case True
    then have "\<exists>i. (h, Out_request (StopStreamRequest i)) \<in> set (dm_sent (?f D a))"
      using Cons.prems by (auto simp: NextRequestID_def SendStop_def)
    then show ?thesis using stop_all_mono [of "?f D a" E chs] by auto
  qed (use Cons in auto)
qed simp

text \<open>
  (C4) Stopping the service takes effect: a licensed or verified operator that asks for it, while no stop
  is in progress, is answered with success after every connected stream was told to stop; and whatever
  events happen then, the quit timer stays set and its expiry stops the service. Further stop requests in
  the meantime are answered with a failure and change nothing.
\<close>

theorem stop_service_takes_effect:
  assumes "rq_params req = Some params" "js_parse (en_json E) params = Some j"
    "StopServiceInfo_DeSerialize (en_json E) j = Inr info" "st_license info = en_license E \<or> IsVerified D c"
    "quit_cleanup_timer D = None"
    "t = en_new_timer E" "Some t \<notin> {ping_client_timer D, node_stats_timer D, cleanup_files_timer D}"
  shows "\<exists>D1. HandleRequestClientStopService E c req D = Ret (None, D1)
    \<and> last (dm_sent D1) = (c, Out_response (StopServiceResponceSuccess (rq_id req)))
    \<and> (\<forall>ch\<in>set (dm_children D). \<forall>h. ch_client ch = Some h
          \<longrightarrow> (\<exists>i. (h, Out_request (StopStreamRequest i)) \<in> set (dm_sent D1)))
    \<and> (\<forall>es D2 E2. run_events es D1 = Ret D2 \<longrightarrow>
          (\<exists>D3. handle_event E2 (Ev_timer t) D2 = Ret D3 \<and> dm_stopped D3)
          \<and> HandleRequestClientStopService E c req D2
              \<in> {Ret (Some Errno_inval, D2), Ret (None, respond c (StopServiceResponceFail (rq_id req) ''Stop service in progress...'') D2)})"
proof -
  define Ds where "Ds = foldl (\<lambda>D channel. case NextRequestID E D of (i, D) \<Rightarrow> SendStop channel i D) D (dm_children D)"
  define D1 where "D1 = (respond c (StopServiceResponceSuccess (rq_id req)) Ds)\<lparr>quit_cleanup_timer := Some t\<rparr>"
  have eq: "HandleRequestClientStopService E c req D = Ret (None, D1)"
    using assms(1-6) by (simp add: HandleRequestClientStopService_def with_params_def Let_def D1_def Ds_def)
  have "quitting t D1"
  proof -
    have "ping_client_timer Ds = ping_client_timer D \<and> node_stats_timer Ds = node_stats_timer D \<and> cleanup_files_timer Ds = cleanup_files_timer D"
      unfolding Ds_def by (rule stop_all_timers)
    then show ?thesis using assms(7) by (auto simp: quitting_def D1_def respond_def send_to_def)
  qed
  then have q: "quitting t D2" if "run_events es D1 = Ret D2" for es D2
    using that by (rule run_quitting)
  have stops: "\<exists>i. (h, Out_request (StopStreamRequest i)) \<in> set (dm_sent D1)" if "ch \<in> set (dm_children D)" "ch_client ch = Some h" for ch h
    using stop_all_sent [OF that, of E D] by (auto simp: D1_def Ds_def respond_def send_to_def)
  have "(\<exists>D3. handle_event E2 (Ev_timer t) D2 = Ret D3 \<and> dm_stopped D3)
      \<and> HandleRequestClientStopService E c req D2
         \<in> {Ret (Some Errno_inval, D2), Ret (None, respond c (StopServiceResponceFail (rq_id req) ''Stop service in progress...'') D2)}"
    if "run_events es D1 = Ret D2" for es D2 E2
    using q [OF that] assms(1-3)
    by (auto simp: handle_event_def TimerEmited_def quitting_def HandleRequestClientStopService_def with_params_def)
  moreover have "last (dm_sent D1) = (c, Out_response (StopServiceResponceSuccess (rq_id req)))" by (simp add: D1_def)
  ultimately show ?thesis using eq stops by blast
qed

theorem stop_service_takes_effect_witness:
  "\<exists>D1 D3. HandleRequestClientStopService demo_env 0 (demo_request DAEMON_STOP_SERVICE demo_license) demo_daemon = Ret (None, D1)
     \<and> handle_event demo_env (Ev_timer 9) D1 = Ret D3 \<and> dm_stopped D3"
proof -
  define req where "req = demo_request DAEMON_STOP_SERVICE demo_license"
  define j where "j = add_text tree_json ''license_key'' ''key'' (js_new_object tree_json)"
  have j: "rq_params req = Some demo_license" "js_parse (en_json demo_env) demo_license = Some j"
      "StopServiceInfo_DeSerialize (en_json demo_env) j
         = Inr \<lparr>st_license = ''key'', st_delay = get_int64 tree_json j ''delay'' 0\<rparr>"
    by (simp_all add: req_def demo_request_def StopServiceInfo_DeSerialize_def LicenseInfo_DeSerialize_def j_def)
  have "9 = en_new_timer demo_env" by (simp add: demo_env_def)
  moreover have "Some 9 \<notin> {ping_client_timer demo_daemon, node_stats_timer demo_daemon, cleanup_files_timer demo_daemon}"
    "quit_cleanup_timer demo_daemon = None" by (simp_all add: demo_daemon_def)
  ultimately obtain D1 where D1: "HandleRequestClientStopService demo_env 0 req demo_daemon = Ret (None, D1)"
      "run_events [] D1 = Ret D1 \<longrightarrow> (\<exists>D3. handle_event demo_env (Ev_timer 9) D1 = Ret D3 \<and> dm_stopped D3)"
    using stop_service_takes_effect [OF j, of demo_daemon 0 9] by (metis StopServiceInfo.select_convs(1) demo_env_sel(2))
  then show ?thesis by (simp add: req_def)
qed

section \<open>Who gets messages\<close>

text \<open>
  Whom an event may write to: a response goes to the client whose request is handled; a request of the
  service goes to a verified operator, or, to stop or restart a stream, to the pipe of its process.
\<close>

fun entitled :: "('d, 'c) daemon \<Rightarrow> 'd event \<Rightarrow> nat \<times> out_message \<Rightarrow> bool" where
  "entitled D e (d, Out_response r) \<longleftrightarrow> (case e of Ev_data c (Got_request req) \<Rightarrow> c = d | _ \<Rightarrow> False)"
| "entitled D e (d, Out_request q) \<longleftrightarrow> IsVerified D d
     \<or> (map_of (dm_clients D) d = Some Pipe_client \<and> rq_method q \<in> {STOP_STREAM, RESTART_STREAM})"

definition wrote :: "('d, 'c) daemon \<Rightarrow> 'd event \<Rightarrow> ('d, 'c) daemon \<Rightarrow> bool" where
  "wrote D e D' \<longleftrightarrow> (\<exists>msgs. dm_sent D' = dm_sent D @ msgs \<and> list_all (entitled D e) msgs)"

lemma wrote_nothing: "dm_sent D' = dm_sent D \<Longrightarrow> wrote D e D'"
  by (auto simp: wrote_def)

lemma wrote_self [simp]: "wrote D e D"
  by (rule wrote_nothing) simp

lemma wrote_send: "wrote D e D1 \<Longrightarrow> entitled D e (c, m) \<Longrightarrow> wrote D e (send_to c m D1)"
  by (fastforce simp: wrote_def)

lemma wrote_respond [simp]: "wrote D (Ev_data c (Got_request req)) D1 \<Longrightarrow> wrote D (Ev_data c (Got_request req)) (respond c r D1)"
  by (simp add: respond_def wrote_send)

lemma wrote_cong: "dm_sent D1 = dm_sent D2 \<Longrightarrow> wrote D e D1 = wrote D e D2"
  by (simp add: wrote_def)

lemma wrote_updates [simp]:
  "wrote D e (close_client c D1) = wrote D e D1" "wrote D e (post_file E p url D1) = wrote D e D1"
  "wrote D e (SetVerified c D1) = wrote D e D1"
  "wrote D e (D1\<lparr>dm_id := n\<rparr>) = wrote D e D1" "wrote D e (D1\<lparr>dm_http := h, dm_vods := v\<rparr>) = wrote D e D1"
  "wrote D e (D1\<lparr>dm_node := ns\<rparr>) = wrote D e D1" "wrote D e (D1\<lparr>dm_files := f\<rparr>) = wrote D e D1"
  "wrote D e (D1\<lparr>dm_stopped := b\<rparr>) = wrote D e D1" "wrote D e (D1\<lparr>dm_fds := n'\<rparr>) = wrote D e D1"
  "wrote D e (D1\<lparr>dm_children := chs\<rparr>) = wrote D e D1" "wrote D e (D1\<lparr>dm_shm := n2\<rparr>) = wrote D e D1"
  "wrote D e (D1\<lparr>vods_links := links, dm_users := users\<rparr>) = wrote D e D1"
  "wrote D e (D1\<lparr>quit_cleanup_timer := t\<rparr>) = wrote D e D1"
  by (rule wrote_cong; simp add: close_client_def post_file_def SetVerified_def split: sum.split option.split)+

lemma launch_sent: "launch E mem D = (x, D1) \<Longrightarrow> dm_sent D1 = dm_sent D"
  by (auto simp: launch_def split: option.splits)

lemma wrote_create: "CreateChildStream E config D = Ret (x, D1) \<Longrightarrow> wrote D e D1"
  by (erule create_cases) (auto intro: wrote_nothing dest: launch_sent [OF sym])

lemma wrote_create_text: "CreateChildStream_text E config D = Ret (x, D1) \<Longrightarrow> wrote D e D1"
  by (auto simp: CreateChildStream_text_def split: outcome.splits dest: wrote_create)

lemma verified_listed: "dm_inv D \<Longrightarrow> (a, Daemon_client True) \<in> set (dm_clients D) \<Longrightarrow> IsVerified D a"
  unfolding IsVerified_def by (rule map_of_is_SomeI) (simp_all add: dm_inv_def)

lemma wrote_broadcast:
  assumes "dm_inv D" "dm_sent D1 = dm_sent D" "dm_clients D1 = dm_clients D"
  shows "wrote D e (BroadcastClients req D1)"
proof -
  have "list_all (entitled D e) (map (\<lambda>c. (c, Out_request req)) (verified_clients D1))"
    using assms(3) by (auto simp: list_all_iff verified_clients_def verified_listed [OF assms(1)])
  then show ?thesis using assms(2) by (auto simp: wrote_def BroadcastClients_eq)
qed

lemma wrote_stop:
  assumes "dm_inv D" "ch \<in> set (dm_children D)" "wrote D e D1"
  shows "wrote D e (SendStop ch i D1)" "wrote D e (SendRestart ch i D1)"
  using assms piped_client [OF assms(1,2)]
  by (auto simp: SendStop_def SendRestart_def StopStreamRequest_def RestartStreamRequest_def make_request_def
      split: option.split intro!: wrote_send)

lemma wrote_stop_all:
  assumes "dm_inv D" "set chs \<subseteq> set (dm_children D)" "wrote D e D1"
  shows "wrote D e (foldl (\<lambda>D channel. SendStop channel (Some (en_make_id E (dm_id D))) (D\<lparr>dm_id := dm_id D + 1\<rparr>)) D1 chs)"
  using assms(2,3) by (induction chs arbitrary: D1) (simp_all add: wrote_stop [OF assms(1)])

lemma request_wrote:
  assumes "dm_inv D" "HandleRequestServiceCommand E c req D = Ret (r, D')"
  shows "wrote D (Ev_data c (Got_request req)) D'"
proof -
  have found: "ch \<in> set (dm_children D)" if "FindChildByID sid D = Some ch" for sid ch
    using find_child_Some that by (auto simp: FindChildByID_def)
  show ?thesis using service_command_cases [of E c req D] assms(2)
    unfolding insert_iff empty_iff
    by (elim disjE)
       (auto simp: HandleRequestClientStartStream_def HandleRequestClientStopStream_def HandleRequestClientRestartStream_def
          HandleRequestClientGetLogStream_def HandleRequestClientGetPipelineStream_def HandleRequestClientPrepareService_def
          HandleRequestClientSyncService_def HandleRequestClientStopService_def HandleRequestClientPingService_def
          HandleRequestClientGetLogService_def NextRequestID_def Let_def wrote_stop [OF assms(1)] wrote_stop_all [OF assms(1)]
          wrote_create_text
          dest!: if_verified_Ret if_verified_Ret [OF sym] with_params_Ret with_params_Ret [OF sym] activate_Ret [OF sym]
            activate_Ret found split: option.splits sum.splits outcome.splits if_splits prod.splits)
qed

lemma stream_request_wrote:
  "dm_inv D \<Longrightarrow> HandleRequestStreamsCommand E req D = Ret (r, D') \<Longrightarrow> wrote D e D'"
  by (auto simp: HandleRequestStreamsCommand_def HandleRequestChangedSourcesStream_def HandleRequestStatisticStream_def
      wrote_broadcast dest!: with_params_Ret split: if_splits sum.splits)

lemma ping_wrote:
  assumes "\<And>c. c \<in> set cs \<Longrightarrow> snd c = Daemon_client True \<Longrightarrow> IsVerified D (fst c)" "wrote D e D1"
  shows "wrote D e (foldl (ping_client E) D1 cs)"
  using assms
proof (induction cs arbitrary: D1)
  case (Cons c cs)
  have "wrote D e (ping_client E D1 c)"
    using Cons.prems(1) [of c] Cons.prems(2)
    by (auto simp: ping_client_def NextRequestID_def split: sum.split option.split intro!: wrote_send)
  then show ?case using Cons.IH [of "ping_client E D1 c"] Cons.prems(1) by simp
qed simp

text \<open>
  (C6) In every reachable state, an event that returns keeps every message written before, and writes new
  ones only to those entitled to them: answers to the client that asked, statistics, changes, exit
  statuses and pings to verified operators, stop and restart commands to the processes of streams.
\<close>

theorem messages_only_to_entitled:
  assumes "dm_reaches Opt lic D" "event_enabled e D" "handle_event E e D = Ret D'"
  shows "\<exists>msgs. dm_sent D' = dm_sent D @ msgs \<and> (\<forall>m\<in>set msgs. entitled D e m)"
proof -
  have inv: "dm_inv D" using assms(1) by (rule daemon_reaches_inv)
  have "wrote D e D'"
  proof (cases e)
    case Ev_accept
    with assms(3) show ?thesis by (intro wrote_nothing) (auto simp: handle_event_def accept_client_def)
  next
    case (Ev_data c inp)
    with assms(3) inv show ?thesis
      by (auto simp: handle_event_def DataReceived_def DaemonDataReceived_def PipeDataReceived_def request_wrote
          stream_request_wrote split: option.splits io_client.splits incoming.splits outcome.splits prod.splits if_splits)
  next
    case (Ev_timer tid)
    with assms(3) inv show ?thesis
      by (auto simp: handle_event_def TimerEmited_def wrote_broadcast intro!: ping_wrote intro: verified_listed dest!: service_stats_node
          split: if_splits outcome.splits)
  next
    case (Ev_child channel wstatus)
    with assms(3) inv show ?thesis
      by (auto simp: handle_event_def ChildStatusChanged_def Let_def wrote_broadcast split: sum.splits)
  next
    case (Ev_http to_vods is_m3u8 dir full)
    with assms(3) show ?thesis
      by (auto simp: handle_event_def OnHttpRequest_def intro: wrote_create split: if_splits option.splits outcome.splits)
  qed
  then show ?thesis by (simp add: wrote_def list_all_iff)
qed

theorem messages_only_to_entitled_witness:
  "\<exists>D D' msgs. handle_event demo_env (Ev_data 0 (Got_request (demo_request DAEMON_START_STREAM demo_start))) D = Ret D'
     \<and> dm_sent D' = dm_sent D @ msgs
     \<and> (\<forall>m\<in>set msgs. entitled D (Ev_data 0 (Got_request (demo_request DAEMON_START_STREAM demo_start))) m)"
proof -
  obtain D D' :: "(unit, unit) daemon" where D: "dm_reaches demo_opt_env ''key'' D"
      "event_enabled (Ev_data 0 (Got_request (demo_request DAEMON_START_STREAM demo_start))) D"
      "handle_event demo_env (Ev_data 0 (Got_request (demo_request DAEMON_START_STREAM demo_start))) D = Ret D'"
    using demo_running by blast
  from messages_only_to_entitled [OF this] D(3) show ?thesis by blast
qed

end
