(* ===== verification/Elements.thy ===== *)
theory Elements
  imports Configs StreamTypes "HOL-Library.Monad_Syntax"
begin

text \<open>
  Components \<open>stream/elements\<close>, \<open>stream/ilinker\<close> and the linker part of \<open>stream/ibase_builder\<close>: the
  elements of a pipeline with the properties that are set on them, the factories of sources, sinks,
  parsers, encoders, payloaders and muxers, and adding and linking of elements.

  The multimedia library is a record of functions: which plugins are installed, which pads elements have
  and which links it accepts. An element is known by its name, which is unique in a pipeline because
  the library refuses a second element of the same name. A null pointer is \<open>None\<close>. A computation that
  ends the process (a failed \<open>CHECK\<close>, \<open>NOTREACHED\<close>, a call through a null pointer, a signed overflow)
  is \<open>None\<close>.
\<close>

section \<open>Elements and pipelines\<close>

datatype prop_value = Pv_bool bool | Pv_int int | Pv_text string | Pv_double f64 | Pv_fraction int int
  | Pv_caps string "(string \<times> prop_value) list" | Pv_element string string

record element =
  el_plugin :: string
  el_name :: string
  el_props :: "(string \<times> prop_value) list"

definition SetProperty :: "string \<Rightarrow> prop_value \<Rightarrow> element \<Rightarrow> element" where
  "SetProperty property val e = e\<lparr>el_props := el_props e @ [(property, val)]\<rparr>"

text \<open>What a builder tells its observer, in order.\<close>

datatype notice = Input_src_pad scheme nat | Output_sink_pad scheme nat | Decodebin_created string | App_src_created string
  | Splitmuxsink_created "string option" "string option" string | Cairo_created string "((int \<times> int) \<times> (int \<times> int)) list"
  | Pad_position string string "int \<times> int"

record pipeline =
  pl_elements :: "element list"
  pl_links :: "(string \<times> string) list"
  pl_notes :: "notice list"

definition pipeline0 :: pipeline where
  "pipeline0 = \<lparr>pl_elements = [], pl_links = [], pl_notes = []\<rparr>"

definition pl_names :: "pipeline \<Rightarrow> string list" where
  "pl_names p = map el_name (pl_elements p)"

record 'u gst_env =
  ge_crit :: bool
  ge_has :: "string \<Rightarrow> bool"
  ge_link :: "pipeline \<Rightarrow> string \<Rightarrow> string \<Rightarrow> bool"
  ge_pad :: "string \<Rightarrow> string \<Rightarrow> bool"
  ge_url :: "'u url_api"
  ge_file_name :: "'u \<Rightarrow> string"
  ge_query :: "'u \<Rightarrow> string"
  ge_hpath :: "'u \<Rightarrow> string"
  ge_host :: "string \<Rightarrow> (string \<times> u16) option"
  ge_size_valid :: "int \<times> int \<Rightarrow> bool"
  ge_now :: timestamp_t

record Connector =
  cn_video :: "string option"
  cn_audio :: "string option"

text \<open>\<open>make_element_safe\<close>: a missing plugin is logged as critical and gives a null element.\<close>

definition make_element :: "'u gst_env \<Rightarrow> string \<Rightarrow> string \<Rightarrow> element option" where
  "make_element G plugin name =
     (if ge_has G plugin \<or> \<not> ge_crit G then Some \<lparr>el_plugin = plugin, el_name = name, el_props = []\<rparr> else None)"

definition ElementAdd :: "'u gst_env \<Rightarrow> element \<Rightarrow> pipeline \<Rightarrow> pipeline option" where
  "ElementAdd G elem p =
     (if ge_has G (el_plugin elem) \<and> el_name elem \<notin> set (pl_names p)
      then Some (p\<lparr>pl_elements := pl_elements p @ [elem]\<rparr>) else None)"

definition ElementLink :: "'u gst_env \<Rightarrow> string option \<Rightarrow> string option \<Rightarrow> pipeline \<Rightarrow> pipeline option" where
  "ElementLink G src dest p = do {
     a \<leftarrow> src;
     b \<leftarrow> dest;
     if a \<in> set (pl_names p) \<and> b \<in> set (pl_names p) \<and> ge_link G p a b
     then Some (p\<lparr>pl_links := pl_links p @ [(a, b)]\<rparr>) else None
   }"

definition ElementRemove :: "string \<Rightarrow> pipeline \<Rightarrow> pipeline option" where
  "ElementRemove name p =
     (if name \<in> set (pl_names p)
      then Some (p\<lparr>pl_elements := filter (\<lambda>e. el_name e \<noteq> name) (pl_elements p),
             pl_links := filter (\<lambda>(a, b). a \<noteq> name \<and> b \<noteq> name) (pl_links p)\<rparr>)
      else None)"

definition ElementLinkRemove :: "string \<Rightarrow> string \<Rightarrow> pipeline \<Rightarrow> pipeline" where
  "ElementLinkRemove src dest p = p\<lparr>pl_links := filter (\<lambda>l. l \<noteq> (src, dest)) (pl_links p)\<rparr>"

definition GetElementByName :: "string \<Rightarrow> pipeline \<Rightarrow> element option" where
  "GetElementByName name p = find (\<lambda>el. el_name el = name) (pl_elements p)"

text \<open>Setting a property of an element that is already in the pipeline.\<close>

definition pl_set_property :: "string \<Rightarrow> string \<Rightarrow> prop_value \<Rightarrow> pipeline \<Rightarrow> pipeline" where
  "pl_set_property name property val p =
     p\<lparr>pl_elements := map (\<lambda>e. if el_name e = name then SetProperty property val e else e) (pl_elements p)\<rparr>"

definition notify :: "notice \<Rightarrow> pipeline \<Rightarrow> pipeline" where
  "notify n p = p\<lparr>pl_notes := pl_notes p @ [n]\<rparr>"

text \<open>\<open>StaticPad\<close> of an element, and the notification of the observer when it has the pad.\<close>

definition HandleInputSrcPadCreated :: "'u gst_env \<Rightarrow> element \<Rightarrow> scheme \<Rightarrow> nat \<Rightarrow> pipeline \<Rightarrow> pipeline" where
  "HandleInputSrcPadCreated G e sch i p =
     (if ge_has G (el_plugin e) \<and> ge_pad G (el_plugin e) ''src'' then notify (Input_src_pad sch i) p else p)"

definition HandleOutputSinkPadCreated :: "'u gst_env \<Rightarrow> element \<Rightarrow> scheme \<Rightarrow> nat \<Rightarrow> pipeline \<Rightarrow> pipeline" where
  "HandleOutputSinkPadCreated G e sch i p =
     (if ge_has G (el_plugin e) \<and> ge_pad G (el_plugin e) ''sink'' then notify (Output_sink_pad sch i) p else p)"

definition checked_i32 :: "int \<Rightarrow> int option" where
  "checked_i32 n = (if - (2 ^ 31) \<le> n \<and> n < 2 ^ 31 then Some n else None)"

definition checked_i64 :: "int \<Rightarrow> int option" where
  "checked_i64 n = (if - (2 ^ 63) \<le> n \<and> n < 2 ^ 63 then Some n else None)"

section \<open>Sources\<close>

definition make_file_src :: "'u gst_env \<Rightarrow> string \<Rightarrow> nat \<Rightarrow> element option" where
  "make_file_src G location input_id = do {
     file_src \<leftarrow> make_element G ''filesrc'' (SRC_NAME_1U input_id);
     Some (SetProperty ''location'' (Pv_text location) file_src)
   }"

definition make_http_src :: "'u gst_env \<Rightarrow> string \<Rightarrow> string option \<Rightarrow> int \<Rightarrow> nat \<Rightarrow> element option" where
  "make_http_src G location user_agent timeout_secs input_id = do {
     http_src \<leftarrow> make_element G ''souphttpsrc'' (SRC_NAME_1U input_id);
     let http_src = SetProperty ''timeout'' (Pv_int timeout_secs) (SetProperty ''location'' (Pv_text location) http_src);
     Some (case user_agent of None \<Rightarrow> http_src | Some a \<Rightarrow> SetProperty ''user-agent'' (Pv_text a) http_src)
   }"

definition make_udp_src :: "'u gst_env \<Rightarrow> string \<times> u16 \<Rightarrow> nat \<Rightarrow> element option" where
  "make_udp_src G host input_id = do {
     udpsrc \<leftarrow> make_element G ''udpsrc'' (SRC_NAME_1U input_id);
     Some (SetProperty ''port'' (Pv_int (uint (snd host))) (SetProperty ''address'' (Pv_text (fst host)) udpsrc))
   }"

definition make_rtmp_src :: "'u gst_env \<Rightarrow> string \<Rightarrow> int \<Rightarrow> nat \<Rightarrow> element option" where
  "make_rtmp_src G location timeout_secs input_id = do {
     rtmp_src \<leftarrow> make_element G ''rtmpsrc'' (SRC_NAME_1U input_id);
     Some (SetProperty ''timeout'' (Pv_int timeout_secs) (SetProperty ''location'' (Pv_text location) rtmp_src))
   }"

definition make_tcp_server_src :: "'u gst_env \<Rightarrow> string \<times> u16 \<Rightarrow> nat \<Rightarrow> element option" where
  "make_tcp_server_src G host input_id = do {
     tcpsrc \<leftarrow> make_element G ''tcpserversrc'' (SRC_NAME_1U input_id);
     Some (SetProperty ''port'' (Pv_int (uint (snd host))) (SetProperty ''host'' (Pv_text (fst host)) tcpsrc))
   }"

definition make_multifile_src :: "'u gst_env \<Rightarrow> string \<Rightarrow> int \<Rightarrow> bool \<Rightarrow> nat \<Rightarrow> element option" where
  "make_multifile_src G location index loop input_id = do {
     src \<leftarrow> make_element G ''multifilesrc'' (SRC_NAME_1U input_id);
     Some (SetProperty ''loop'' (Pv_bool loop) (SetProperty ''index'' (Pv_int index)
             (SetProperty ''location'' (Pv_text location) src)))
   }"

definition make_app_src :: "'u gst_env \<Rightarrow> nat \<Rightarrow> element option" where
  "make_app_src G input_id = make_element G ''appsrc'' (SRC_NAME_1U input_id)"

definition make_v4l2_src :: "'u gst_env \<Rightarrow> string \<Rightarrow> nat \<Rightarrow> element option" where
  "make_v4l2_src G device input_id = do {
     v4l2sr \<leftarrow> make_element G ''v4l2src'' (SRC_NAME_1U input_id);
     Some (SetProperty ''device'' (Pv_text device) v4l2sr)
   }"

definition make_alsa_src :: "'u gst_env \<Rightarrow> string \<Rightarrow> nat \<Rightarrow> element option" where
  "make_alsa_src G device input_id = do {
     alsa \<leftarrow> make_element G ''alsasrc'' (SRC_NAME_1U input_id);
     Some (SetProperty ''device'' (Pv_text device) alsa)
   }"

definition kFFmpegUA :: string where "kFFmpegUA = ''Lavf/58.27.103''"

definition kVLC :: string where "kVLC = ''VLC/3.0.1 LibVLC/3.0.1''"

definition make_src :: "'u gst_env \<Rightarrow> 'u InputUri \<Rightarrow> nat \<Rightarrow> int \<Rightarrow> element option" where
  "make_src G uri input_id timeout_secs =
     (let U = ge_url G; url = iu_input uri in
      case url_scheme U url of
        Scheme_file \<Rightarrow> make_file_src G (url_path U url) input_id
      | Scheme_http \<Rightarrow> make_http_src G (url_text U url)
           (if iu_user_agent uri = VLC then Some kVLC else if iu_user_agent uri = FFMPEG then Some kFFmpegUA else None)
           timeout_secs input_id
      | Scheme_https \<Rightarrow> make_http_src G (url_text U url)
           (if iu_user_agent uri = VLC then Some kVLC else if iu_user_agent uri = FFMPEG then Some kFFmpegUA else None)
           timeout_secs input_id
      | Scheme_udp \<Rightarrow> do { host \<leftarrow> ge_host G (url_host U url); make_udp_src G host input_id }
      | Scheme_rtmp \<Rightarrow> make_rtmp_src G (url_text U url) timeout_secs input_id
      | Scheme_tcp \<Rightarrow> do { host \<leftarrow> ge_host G (url_host U url); make_tcp_server_src G host input_id }
      | _ \<Rightarrow> None)"

section \<open>Sinks\<close>

definition make_udp_sink :: "'u gst_env \<Rightarrow> string \<times> u16 \<Rightarrow> nat \<Rightarrow> element option" where
  "make_udp_sink G host sink_id = do {
     udp_out \<leftarrow> make_element G ''udpsink'' (SINK_NAME_1U sink_id);
     Some (SetProperty ''port'' (Pv_int (uint (snd host))) (SetProperty ''host'' (Pv_text (fst host)) udp_out))
   }"

definition make_tcp_server_sink :: "'u gst_env \<Rightarrow> string \<times> u16 \<Rightarrow> nat \<Rightarrow> element option" where
  "make_tcp_server_sink G host sink_id = do {
     tcp_out \<leftarrow> make_element G ''tcpserversink'' (SINK_NAME_1U sink_id);
     Some (SetProperty ''port'' (Pv_int (uint (snd host))) (SetProperty ''host'' (Pv_text (fst host)) tcp_out))
   }"

definition make_rtmp_sink :: "'u gst_env \<Rightarrow> nat \<Rightarrow> string \<Rightarrow> element option" where
  "make_rtmp_sink G sink_id location = do {
     rtmp_out \<leftarrow> make_element G ''rtmpsink'' (SINK_NAME_1U sink_id);
     Some (SetProperty ''location'' (Pv_text location) rtmp_out)
   }"

record HlsOutput =
  ho_location :: string
  ho_play_location :: string
  ho_playlist_root :: string
  ho_playlist_length :: int
  ho_max_files :: int

definition MakeHlsOutput :: "'u gst_env \<Rightarrow> 'u \<Rightarrow> string \<Rightarrow> string \<Rightarrow> HlsOutput" where
  "MakeHlsOutput G uri http_root filename =
     \<lparr>ho_location = http_root @ GenHttpTsTemplate (ge_now G), ho_play_location = http_root @ filename,
      ho_playlist_root = ge_hpath G uri,
      ho_playlist_length = 5, ho_max_files = 10\<rparr>"

definition MakeVodHlsOutput :: "'u gst_env \<Rightarrow> 'u \<Rightarrow> string \<Rightarrow> string \<Rightarrow> HlsOutput" where
  "MakeVodHlsOutput G uri http_root filename =
     \<lparr>ho_location = http_root @ GenVodHttpTsTemplate, ho_play_location = http_root @ filename,
      ho_playlist_root = ge_hpath G uri,
      ho_playlist_length = 0, ho_max_files = 0\<rparr>"

definition make_http_sink :: "'u gst_env \<Rightarrow> nat \<Rightarrow> HlsOutput \<Rightarrow> element option" where
  "make_http_sink G sink_id output = do {
     hls_out \<leftarrow> make_element G ''hlssink'' (SINK_NAME_1U sink_id);
     let hls_out = SetProperty ''location'' (Pv_text (ho_location output)) hls_out;
     let hls_out = SetProperty ''playlist-location'' (Pv_text (ho_play_location output)) hls_out;
     let hls_out = SetProperty ''target-duration'' (Pv_int 10) hls_out;
     let hls_out = SetProperty ''playlist-length'' (Pv_int (ho_playlist_length output)) hls_out;
     Some (SetProperty ''max-files'' (Pv_int (ho_max_files output)) hls_out)
   }"

definition build_output :: "'u gst_env \<Rightarrow> 'u OutputUri \<Rightarrow> nat \<Rightarrow> bool \<Rightarrow> element option" where
  "build_output G output sink_id is_vod =
     (let U = ge_url G; uri = ou_output output in
      case url_scheme U uri of
        Scheme_udp \<Rightarrow> do { host \<leftarrow> ge_host G (url_host U uri); make_udp_sink G host sink_id }
      | Scheme_tcp \<Rightarrow> do { host \<leftarrow> ge_host G (url_host U uri); make_tcp_server_sink G host sink_id }
      | Scheme_rtmp \<Rightarrow> make_rtmp_sink G sink_id (url_text U uri)
      | Scheme_http \<Rightarrow>
         (let filename = ge_file_name G uri; http_root = ou_http_root output in
          if filename = [] then None
          else make_http_sink G sink_id
                 (if is_vod then MakeVodHlsOutput G uri http_root filename else MakeHlsOutput G uri http_root filename))
      | _ \<Rightarrow> None)"

definition make_fake_sink :: "'u gst_env \<Rightarrow> nat \<Rightarrow> element option" where
  "make_fake_sink G sink_id = do {
     fake_sink \<leftarrow> make_element G ''fakesink'' (SINK_NAME_1U sink_id);
     Some (SetProperty ''sync'' (Pv_bool True) fake_sink)
   }"

definition make_test_sink :: "'u gst_env \<Rightarrow> nat \<Rightarrow> element option" where
  "make_test_sink G sink_id = do {
     test_sink \<leftarrow> make_element G ''testsink'' (SINK_NAME_1U sink_id);
     Some (SetProperty ''sync'' (Pv_bool True) test_sink)
   }"

definition make_video_screen_sink :: "'u gst_env \<Rightarrow> nat \<Rightarrow> element option" where
  "make_video_screen_sink G sink_id = make_element G ''autovideosink'' (VIDEO_SINK_NAME_1U sink_id)"

definition make_audio_screen_sink :: "'u gst_env \<Rightarrow> nat \<Rightarrow> element option" where
  "make_audio_screen_sink G sink_id = make_element G ''autoaudiosink'' (AUDIO_SINK_NAME_1U sink_id)"

definition make_video_deck_sink :: "'u gst_env \<Rightarrow> nat \<Rightarrow> element option" where
  "make_video_deck_sink G sink_id = make_element G ''decklinkvideosink'' (VIDEO_SINK_NAME_1U sink_id)"

definition make_audio_deck_sink :: "'u gst_env \<Rightarrow> nat \<Rightarrow> element option" where
  "make_audio_deck_sink G sink_id = make_element G ''decklinkaudiosink'' (AUDIO_SINK_NAME_1U sink_id)"

fun make_video_device_sink :: "'u gst_env \<Rightarrow> SinkDeviceType \<Rightarrow> nat \<Rightarrow> element option" where
  "make_video_device_sink G SCREEN_OUTPUT sink_id = make_video_screen_sink G sink_id"
| "make_video_device_sink G DECKLINK_OUTPUT sink_id = make_video_deck_sink G sink_id"

fun make_audio_device_sink :: "'u gst_env \<Rightarrow> SinkDeviceType \<Rightarrow> nat \<Rightarrow> element option" where
  "make_audio_device_sink G SCREEN_OUTPUT sink_id = make_audio_screen_sink G sink_id"
| "make_audio_device_sink G DECKLINK_OUTPUT sink_id = make_audio_deck_sink G sink_id"

section \<open>Muxers, parsers and payloaders\<close>

definition make_flvmux :: "'u gst_env \<Rightarrow> bool \<Rightarrow> nat \<Rightarrow> element option" where
  "make_flvmux G streamable muxer_id = do {
     flvmux \<leftarrow> make_element G ''flvmux'' (MUXER_NAME_1U muxer_id);
     Some (SetProperty ''streamable'' (Pv_bool streamable) flvmux)
   }"

definition make_mpegtsmux :: "'u gst_env \<Rightarrow> nat \<Rightarrow> element option" where
  "make_mpegtsmux G muxer_id = make_element G ''mpegtsmux'' (MUXER_NAME_1U muxer_id)"

definition make_rtpmux :: "'u gst_env \<Rightarrow> nat \<Rightarrow> element option" where
  "make_rtpmux G muxer_id = make_element G ''rtpmux'' (MUXER_NAME_1U muxer_id)"

definition make_muxer :: "'u gst_env \<Rightarrow> scheme \<Rightarrow> nat \<Rightarrow> element option" where
  "make_muxer G sch muxer_id = (case sch of
     Scheme_rtmp \<Rightarrow> make_flvmux G True muxer_id
   | Scheme_udp \<Rightarrow> make_rtpmux G muxer_id
   | Scheme_tcp \<Rightarrow> make_mpegtsmux G muxer_id
   | Scheme_http \<Rightarrow> make_mpegtsmux G muxer_id
   | _ \<Rightarrow> None)"

definition make_aac_parser :: "'u gst_env \<Rightarrow> nat \<Rightarrow> element option" where
  "make_aac_parser G parser_id = make_element G ''aacparse'' (AUDIO_PARSER_NAME_1U parser_id)"

definition make_h264_parser :: "'u gst_env \<Rightarrow> nat \<Rightarrow> element option" where
  "make_h264_parser G parser_id = make_element G ''h264parse'' (VIDEO_PARSER_NAME_1U parser_id)"

definition make_audio_parser :: "'u gst_env \<Rightarrow> string \<Rightarrow> string \<Rightarrow> element option" where
  "make_audio_parser G parser name =
     (if parser = ''aacparse'' \<or> parser = ''ac3parse'' \<or> parser = ''mpegaudioparse'' then make_element G parser name else None)"

definition make_video_parser :: "'u gst_env \<Rightarrow> string \<Rightarrow> string \<Rightarrow> element option" where
  "make_video_parser G parser name =
     (if parser = ''h264parse'' \<or> parser = ''h265parse'' \<or> parser = ''mpegvideoparse'' \<or> parser = ''tsparse''
      then make_element G parser name else None)"

definition make_aac_pay :: "'u gst_env \<Rightarrow> int \<Rightarrow> nat \<Rightarrow> element option" where
  "make_aac_pay G pt pay_id = do {
     aac_pay \<leftarrow> make_element G ''rtpmp4apay'' (AUDIO_PAY_NAME_1U pay_id);
     Some (SetProperty ''pt'' (Pv_int pt) aac_pay)
   }"

definition make_ac3_pay :: "'u gst_env \<Rightarrow> int \<Rightarrow> nat \<Rightarrow> element option" where
  "make_ac3_pay G pt pay_id = do {
     ac3_pay \<leftarrow> make_element G ''rtpac3pay'' (AUDIO_PAY_NAME_1U pay_id);
     Some (SetProperty ''pt'' (Pv_int pt) ac3_pay)
   }"

definition make_mpeg2_pay :: "'u gst_env \<Rightarrow> int \<Rightarrow> nat \<Rightarrow> element option" where
  "make_mpeg2_pay G pt pay_id = do {
     mpeg2_pay \<leftarrow> make_element G ''rtpmp2tpay'' (VIDEO_PAY_NAME_1U pay_id);
     Some (SetProperty ''pt'' (Pv_int pt) mpeg2_pay)
   }"

definition make_h264_pay :: "'u gst_env \<Rightarrow> int \<Rightarrow> nat \<Rightarrow> element option" where
  "make_h264_pay G pt pay_id = do {
     h264_pay \<leftarrow> make_element G ''rtph264pay'' (VIDEO_PAY_NAME_1U pay_id);
     Some (SetProperty ''pt'' (Pv_int pt) h264_pay)
   }"

definition make_h265_pay :: "'u gst_env \<Rightarrow> int \<Rightarrow> nat \<Rightarrow> element option" where
  "make_h265_pay G pt pay_id = do {
     h265_pay \<leftarrow> make_element G ''rtph265pay'' (VIDEO_PAY_NAME_1U pay_id);
     Some (SetProperty ''pt'' (Pv_int pt) h265_pay)
   }"

section \<open>Encoders\<close>

definition make_audio_encoder :: "'u gst_env \<Rightarrow> string \<Rightarrow> string \<Rightarrow> int option \<Rightarrow> element option" where
  "make_audio_encoder G codec name audiorate =
     (if codec = ''faac'' then do {
        aac \<leftarrow> make_element G codec name;
        case audiorate of None \<Rightarrow> Some aac
        | Some r \<Rightarrow> do {
            bits \<leftarrow> checked_i32 (r * 1024);
            Some (SetProperty ''bitrate'' (Pv_int bits) (SetProperty ''rate-control'' (Pv_int 2) aac))
          }
      }
      else if codec = ''voaacenc'' then do {
        aac \<leftarrow> make_element G codec name;
        case audiorate of None \<Rightarrow> Some aac
        | Some r \<Rightarrow> do { bits \<leftarrow> checked_i32 (r * 1024); Some (SetProperty ''bitrate'' (Pv_int bits) aac) }
      }
      else if codec = ''lamemp3enc'' then do {
        mp3 \<leftarrow> make_element G codec name;
        case audiorate of None \<Rightarrow> Some mp3
        | Some r \<Rightarrow> Some (SetProperty ''bitrate'' (Pv_int r) (SetProperty ''target'' (Pv_int 1) mp3))
      }
      else None)"

definition IsAACEncoder :: "string \<Rightarrow> bool" where
  "IsAACEncoder encoder \<longleftrightarrow> encoder = ''faac'' \<or> encoder = ''voaacenc''"

text \<open>A line of elements that were built, as its first and last one; a pointer may be null.\<close>

type_synonym elements_line = "(string option \<times> string option) option"

definition build_audio_converters ::
  "'u gst_env \<Rightarrow> f64 option \<Rightarrow> int option \<Rightarrow> nat \<Rightarrow> pipeline \<Rightarrow> (elements_line \<times> pipeline) option" where
  "build_audio_converters G volume achannels audio_convert_id p = do {
     audio_convert \<leftarrow> make_element G ''audioconvert'' (AUDIO_CONVERT_NAME_1U audio_convert_id);
     let first = Some (el_name audio_convert);
     p \<leftarrow> ElementAdd G audio_convert p;
     (last, p) \<leftarrow> (case achannels of
         None \<Rightarrow> Some (first, p)
       | Some n \<Rightarrow> do {
           caps \<leftarrow> make_element G ''capsfilter'' (AUDIO_CONVERT_CAPS_FILTER_NAME_1U audio_convert_id);
           p \<leftarrow> ElementAdd G (SetProperty ''caps'' (Pv_caps ''audio/x-raw'' [(''channels'', Pv_int n)]) caps) p;
           p \<leftarrow> ElementLink G first (Some (el_name caps)) p;
           Some (Some (el_name caps), p)
         });
     case volume of
       None \<Rightarrow> Some (Some (first, last), p)
     | Some v \<Rightarrow> do {
         vol \<leftarrow> make_element G ''volume'' (VOLUME_NAME_1U audio_convert_id);
         p \<leftarrow> ElementAdd G (SetProperty ''volume'' (Pv_double v) vol) p;
         p \<leftarrow> ElementLink G last (Some (el_name vol)) p;
         Some (Some (first, Some (el_name vol)), p)
       }
   }"

definition make_video_deinterlace :: "'u gst_env \<Rightarrow> string \<Rightarrow> string \<Rightarrow> element option" where
  "make_video_deinterlace G deinterlace name =
     (if deinterlace = ''avdeinterlace'' then make_element G deinterlace name
      else if deinterlace = ''deinterlace'' then do {
        deint \<leftarrow> make_element G deinterlace name;
        Some (SetProperty ''method'' (Pv_int 5) deint)
      }
      else None)"

definition build_video_convert ::
  "'u gst_env \<Rightarrow> bool option \<Rightarrow> nat \<Rightarrow> pipeline \<Rightarrow> (elements_line \<times> pipeline) option" where
  "build_video_convert G deinterlace video_convert_id p = do {
     video_convert \<leftarrow> make_element G ''videoconvert'' (VIDEO_CONVERT_NAME_1U video_convert_id);
     p \<leftarrow> ElementAdd G video_convert p;
     let first = Some (el_name video_convert);
     if deinterlace = Some True then do {
       deinter \<leftarrow> make_video_deinterlace G ''avdeinterlace'' (DEINTERLACE_NAME_1U video_convert_id);
       p \<leftarrow> ElementAdd G deinter p;
       p \<leftarrow> ElementLink G first (Some (el_name deinter)) p;
       Some (Some (first, Some (el_name deinter)), p)
     }
     else Some (Some (first, first), p)
   }"

text \<open>
  \<open>build_video_scale\<close>, \<open>build_video_framerate\<close> and \<open>build_mux_video_scale\<close> add an element and a caps
  filter behind it.
\<close>

definition build_with_caps ::
  "'u gst_env \<Rightarrow> string \<Rightarrow> string \<Rightarrow> string \<Rightarrow> (string \<times> prop_value) list \<Rightarrow> string option \<Rightarrow> pipeline
     \<Rightarrow> (string option \<times> pipeline) option" where
  "build_with_caps G plugin name caps_name caps link_to p = do {
     elem \<leftarrow> make_element G plugin name;
     capsfilter \<leftarrow> make_element G ''capsfilter'' caps_name;
     p \<leftarrow> ElementAdd G elem p;
     p \<leftarrow> ElementAdd G (SetProperty ''caps'' (Pv_caps ''video/x-raw'' caps) capsfilter) p;
     p \<leftarrow> ElementLink G link_to (Some name) p;
     p \<leftarrow> ElementLink G (Some name) (Some caps_name) p;
     Some (Some caps_name, p)
   }"

definition build_video_scale ::
  "'u gst_env \<Rightarrow> int \<Rightarrow> int \<Rightarrow> string option \<Rightarrow> nat \<Rightarrow> pipeline \<Rightarrow> (string option \<times> pipeline) option" where
  "build_video_scale G width height link_to video_scale_id =
     build_with_caps G ''videoscale'' (VIDEO_SCALE_NAME_1U video_scale_id) (VIDEO_SCALE_CAPS_FILTER_NAME_1U video_scale_id)
       [(''width'', Pv_int width), (''height'', Pv_int height)] link_to"

definition build_video_framerate ::
  "'u gst_env \<Rightarrow> int \<Rightarrow> string option \<Rightarrow> nat \<Rightarrow> pipeline \<Rightarrow> (string option \<times> pipeline) option" where
  "build_video_framerate G framerate link_to video_framerate_id =
     build_with_caps G ''videorate'' (VIDEO_RATE_NAME_1U video_framerate_id) (VIDEO_RATE_CAPS_FILTER_NAME_1U video_framerate_id)
       [(''framerate'', Pv_fraction framerate 1)] link_to"

definition video_encoders :: "string list" where
  "video_encoders = [''x264enc'', ''x265enc'', ''mpeg2enc'', ''vaapih264enc'', ''vaapimpeg2enc'', ''mfxh264enc'',
     ''openh264enc'', ''eavcenc'', ''nvh264enc'', ''msdkh264enc'']"

definition make_video_encoder :: "'u gst_env \<Rightarrow> string \<Rightarrow> string \<Rightarrow> element option" where
  "make_video_encoder G codec name = (if codec \<in> set video_encoders then make_element G codec name else None)"

definition IsH264Encoder :: "string \<Rightarrow> bool" where
  "IsH264Encoder encoder \<longleftrightarrow> encoder = ''x264enc'' \<or> encoder = ''vaapih264enc'' \<or> encoder = ''openh264enc''
     \<or> encoder = ''nvh264enc'' \<or> encoder = ''mfxh264enc''"

text \<open>
  The maps of encoder options are walked in the order of their keys; only these keys are ever in them
  (see \<open>InitVideoEncodersWithArgs\<close>).
\<close>

definition encoder_arg_keys :: "string list" where
  "encoder_arg_keys =
     [''eavcenc.bitrate-max'', ''eavcenc.bitrate-mode'', ''eavcenc.bitrate-pass'', ''eavcenc.deblock-alpha'',
     ''eavcenc.deblock-beta'', ''eavcenc.deblock-mode'', ''eavcenc.entropy-mode'', ''eavcenc.field-order'',
     ''eavcenc.gop-adaptive'', ''eavcenc.gop-max-bcount'', ''eavcenc.gop-max-length'', ''eavcenc.gop-min-length'',
     ''eavcenc.initial-param'', ''eavcenc.level'', ''eavcenc.performance'', ''eavcenc.picture-mode'',
     ''eavcenc.preset'', ''eavcenc.profile'', ''eavcenc.vbv-size'', ''mfxh264enc.gop-size'', ''mfxh264enc.preset'',
     ''nvh264enc.preset'', ''openh264enc.complexity'', ''openh264enc.gop-size'', ''openh264enc.multi-thread'',
     ''openh264enc.rate-control'', ''vaapih264enc.cabac'', ''vaapih264enc.cpb-length'', ''vaapih264enc.dct8x8'',
     ''vaapih264enc.init-qp'', ''vaapih264enc.keyframe-period'', ''vaapih264enc.max-bframes'',
     ''vaapih264enc.min-qp'', ''vaapih264enc.num-slices'', ''vaapih264enc.rate-control'', ''vaapih264enc.tune'',
     ''x264enc.b-adapt'', ''x264enc.byte-stream'', ''x264enc.dct8x8'', ''x264enc.interlaced'',
     ''x264enc.key-int-max'', ''x264enc.me'', ''x264enc.pass'', ''x264enc.qp-max'', ''x264enc.quantizer'',
     ''x264enc.rc-lookahead'', ''x264enc.sliced-threads'', ''x264enc.speed-preset'', ''x264enc.threads'',
     ''x264enc.tune'', ''x264enc.vbv-buf-capacity'']"

definition encoder_str_arg_keys :: "string list" where
  "encoder_str_arg_keys = [''x264enc.option-string'', ''x264enc.profile'', ''x264enc.stream-format'']"

definition map_entries :: "string list \<Rightarrow> (string \<rightharpoonup> 'v) \<Rightarrow> (string \<times> 'v) list" where
  "map_entries ks m = List.map_filter (\<lambda>k. map_option (Pair k) (m k)) ks"

text \<open>The encoder and the name of the parameter of a key; without a dot both are the key.\<close>

definition split_key :: "string \<Rightarrow> string \<times> string" where
  "split_key key = (case split_first (CHR ''.'') key of Some (prefix, param) \<Rightarrow> (prefix, param) | None \<Rightarrow> (key, key))"

definition setup_encoder_params :: "(string \<times> u32) list \<Rightarrow> string \<Rightarrow> string \<Rightarrow> pipeline \<Rightarrow> pipeline" where
  "setup_encoder_params video_args plugin name p =
     foldl (\<lambda>p (key, v). case split_key key of (prefix, param) \<Rightarrow>
        if prefix \<noteq> plugin then p else pl_set_property name param (Pv_int (uint v)) p) p video_args"

definition encoder_caps ::
  "'u gst_env \<Rightarrow> string \<Rightarrow> string \<Rightarrow> string \<Rightarrow> string option \<Rightarrow> pipeline \<Rightarrow> (string option \<times> pipeline) option" where
  "encoder_caps G caps_name param v prev p = do {
     caps \<leftarrow> make_element G ''capsfilter'' caps_name;
     p \<leftarrow> ElementAdd G caps p;
     let p = pl_set_property caps_name ''caps'' (Pv_caps ''video/x-h264'' [(param, Pv_text v)]) p;
     p \<leftarrow> ElementLink G prev (Some caps_name) p;
     Some (Some caps_name, p)
   }"

fun setup_encoder_str_params ::
  "'u gst_env \<Rightarrow> string \<Rightarrow> string \<Rightarrow> nat \<Rightarrow> (string \<times> string) list \<Rightarrow> string option \<Rightarrow> pipeline
     \<Rightarrow> (string option \<times> pipeline) option" where
  "setup_encoder_str_params G plugin name encoder_id [] prev p = Some (prev, p)"
| "setup_encoder_str_params G plugin name encoder_id ((key, v) # args) prev p =
     (case split_key key of (enc_name, param) \<Rightarrow>
        if enc_name \<noteq> plugin then setup_encoder_str_params G plugin name encoder_id args prev p
        else if key = ''x264enc.profile'' then do {
          (prev, p) \<leftarrow> encoder_caps G (VIDEO_X264ENC_CAPS_FILTER_PROFILE_NAME_1U encoder_id) ''profile'' v prev p;
          setup_encoder_str_params G plugin name encoder_id args prev p
        }
        else if key = ''x264enc.stream-format'' then do {
          (prev, p) \<leftarrow> encoder_caps G (VIDEO_X264ENC_CAPS_FILTER_STREAM_FORMAT_NAME_1U encoder_id) ''stream-format'' v prev p;
          setup_encoder_str_params G plugin name encoder_id args prev p
        }
        else setup_encoder_str_params G plugin name encoder_id args prev (pl_set_property name param (Pv_text v) p))"

definition set_video_bitrate :: "string \<Rightarrow> string \<Rightarrow> int \<Rightarrow> pipeline \<Rightarrow> pipeline option" where
  "set_video_bitrate plugin name rate p =
     (if plugin = ''eavcenc'' then do {
        bits \<leftarrow> checked_i32 (rate * 1024);
        Some (pl_set_property name ''bitrate-avg'' (Pv_int bits) p)
      }
      else if plugin = ''openh264enc'' then do {
        bits \<leftarrow> checked_i32 (rate * 1024);
        Some (pl_set_property name ''bitrate'' (Pv_int bits) p)
      }
      else
        (let p = (if plugin = ''nvh264enc'' then pl_set_property name ''rc-mode'' (Pv_int 2) p
                  else if plugin = ''vaapih264enc'' then pl_set_property name ''rate-control'' (Pv_int 2) p
                  else if plugin = ''mfxh264enc'' then pl_set_property name ''rate-control'' (Pv_int 1) p
                  else p)
         in Some (pl_set_property name ''bitrate'' (Pv_int rate) p)))"

definition build_video_encoder ::
  "'u gst_env \<Rightarrow> string \<Rightarrow> int option \<Rightarrow> (string \<rightharpoonup> u32) \<Rightarrow> (string \<rightharpoonup> string) \<Rightarrow> nat \<Rightarrow> pipeline
     \<Rightarrow> (elements_line \<times> pipeline) option" where
  "build_video_encoder G codec video_bitrate video_args video_str_args encoder_id p = do {
     codec_element \<leftarrow> make_video_encoder G codec (VIDEO_CODEC_NAME_1U encoder_id);
     let name = el_name codec_element;
     p \<leftarrow> ElementAdd G codec_element p;
     p \<leftarrow> (case video_bitrate of None \<Rightarrow> Some p | Some rate \<Rightarrow> set_video_bitrate codec name rate p);
     let p = setup_encoder_params (map_entries encoder_arg_keys video_args) codec name p;
     (last, p) \<leftarrow> setup_encoder_str_params G codec name encoder_id (map_entries encoder_str_arg_keys video_str_args) (Some name) p;
     Some (Some (Some name, last), p)
   }"

end
