(* ===== verification/Pipelines.thy ===== *)
theory Pipelines
  imports Elements
begin

text \<open>
  Components \<open>stream/ibase_builder\<close> and \<open>stream/streams/builders\<close>: how the pipeline of every kind of
  stream is put together. The virtual functions of the builder classes are hooks: the code of a base
  class takes the overridden functions as arguments, and a class is the record of its five stages.
\<close>

section \<open>The common part of builders\<close>

record builder =
  bd_BuildInput :: "pipeline \<Rightarrow> (Connector \<times> pipeline) option"
  bd_BuildUdbConnections :: "Connector \<Rightarrow> pipeline \<Rightarrow> (Connector \<times> pipeline) option"
  bd_BuildPostProc :: "Connector \<Rightarrow> pipeline \<Rightarrow> (Connector \<times> pipeline) option"
  bd_BuildConverter :: "Connector \<Rightarrow> pipeline \<Rightarrow> (Connector \<times> pipeline) option"
  bd_BuildOutput :: "Connector \<Rightarrow> pipeline \<Rightarrow> (Connector \<times> pipeline) option"

definition InitPipeline :: "builder \<Rightarrow> pipeline \<Rightarrow> (bool \<times> pipeline) option" where
  "InitPipeline b p = do {
     (conn, p) \<leftarrow> bd_BuildInput b p;
     (conn, p) \<leftarrow> bd_BuildUdbConnections b conn p;
     (conn, p) \<leftarrow> bd_BuildPostProc b conn p;
     (conn, p) \<leftarrow> bd_BuildConverter b conn p;
     (conn, p) \<leftarrow> bd_BuildOutput b conn p;
     Some (True, p)
   }"

text \<open>The pipeline, or nothing where \<open>InitPipeline\<close> refuses.\<close>

definition CreatePipeLine :: "(pipeline \<Rightarrow> (bool \<times> pipeline) option) \<Rightarrow> pipeline option option" where
  "CreatePipeLine init = do {
     (ok, p) \<leftarrow> init pipeline0;
     Some (if ok then Some p else None)
   }"

definition src_timeout_sec :: int where "src_timeout_sec = 60 * 2"

definition CreateSink :: "'u gst_env \<Rightarrow> bool \<Rightarrow> 'u OutputUri \<Rightarrow> nat \<Rightarrow> element option" where
  "CreateSink G is_vod output sink_id = build_output G output sink_id is_vod"

definition BuildGenericOutput :: "'u gst_env \<Rightarrow> bool \<Rightarrow> 'u OutputUri \<Rightarrow> nat \<Rightarrow> pipeline \<Rightarrow> (element \<times> pipeline) option" where
  "BuildGenericOutput G is_vod output sink_id p = do {
     sink \<leftarrow> CreateSink G is_vod output sink_id;
     Some (sink, HandleOutputSinkPadCreated G sink (url_scheme (ge_url G) (ou_output output)) sink_id p)
   }"

fun each_output :: "(nat \<Rightarrow> 'u OutputUri \<Rightarrow> pipeline \<Rightarrow> pipeline option) \<Rightarrow> nat \<Rightarrow> 'u OutputUri list \<Rightarrow> pipeline \<Rightarrow> pipeline option" where
  "each_output f i [] p = Some p"
| "each_output f i (output # out) p = do { p \<leftarrow> f i output p; each_output f (Suc i) out p }"

text \<open>Adding an element behind another one, as most stages do.\<close>

definition add_after :: "'u gst_env \<Rightarrow> element \<Rightarrow> string option \<Rightarrow> pipeline \<Rightarrow> (string option \<times> pipeline) option" where
  "add_after G elem prev p = do {
     p \<leftarrow> ElementAdd G elem p;
     p \<leftarrow> ElementLink G prev (Some (el_name elem)) p;
     Some (Some (el_name elem), p)
   }"

section \<open>Streams behind a decoder\<close>

definition video_pay_of :: "'u gst_env \<Rightarrow> SupportedVideoCodec \<Rightarrow> nat \<Rightarrow> element option" where
  "video_pay_of G vcodec pay_id = (case vcodec of
     VIDEO_H264_CODEC \<Rightarrow> make_h264_pay G 96 pay_id
   | VIDEO_H265_CODEC \<Rightarrow> make_h265_pay G 96 pay_id
   | VIDEO_MPEG_CODEC \<Rightarrow> make_mpeg2_pay G 96 pay_id)"

definition audio_pay_of :: "'u gst_env \<Rightarrow> SupportedAudioCodec \<Rightarrow> nat \<Rightarrow> element option" where
  "audio_pay_of G acodec pay_id = (case acodec of
     AUDIO_AAC_CODEC \<Rightarrow> make_aac_pay G 97 pay_id
   | AUDIO_AC3_CODEC \<Rightarrow> make_ac3_pay G 97 pay_id
   | AUDIO_MPEG_CODEC \<Rightarrow> make_mpeg2_pay G 97 pay_id)"

definition SrcDecode_BuildInputSrc ::
  "'u gst_env \<Rightarrow> ('u, 'm) Config_scheme \<Rightarrow> pipeline \<Rightarrow> (string option \<times> pipeline) option" where
  "SrcDecode_BuildInputSrc G config p = (case cf_input config of
     [] \<Rightarrow> None
   | uri # _ \<Rightarrow> do {
       src \<leftarrow> make_src G uri 0 src_timeout_sec;
       let p = HandleInputSrcPadCreated G src (url_scheme (ge_url G) (iu_input uri)) 0 p;
       p \<leftarrow> ElementAdd G src p;
       Some (Some (el_name src), p)
     })"

definition SrcDecode_BuildInput ::
  "'u gst_env \<Rightarrow> (pipeline \<Rightarrow> (string option \<times> pipeline) option) \<Rightarrow> pipeline \<Rightarrow> (Connector \<times> pipeline) option" where
  "SrcDecode_BuildInput G BuildInputSrc p = do {
     (src, p) \<leftarrow> BuildInputSrc p;
     decodebin \<leftarrow> make_element G ''decodebin'' (DECODEBIN_NAME_1U 0);
     p \<leftarrow> ElementAdd G decodebin p;
     p \<leftarrow> ElementLink G src (Some (el_name decodebin)) p;
     let p = notify (Decodebin_created (el_name decodebin)) p;
     Some (\<lparr>cn_video = None, cn_audio = None\<rparr>, p)
   }"

definition SrcDecode_BuildVideoUdbConnection :: "'u gst_env \<Rightarrow> element option" where
  "SrcDecode_BuildVideoUdbConnection G = make_element G ''queue'' (UDB_VIDEO_NAME_1U 0)"

definition SrcDecode_BuildAudioUdbConnection :: "'u gst_env \<Rightarrow> element option" where
  "SrcDecode_BuildAudioUdbConnection G = make_element G ''queue'' (UDB_AUDIO_NAME_1U 0)"

definition SrcDecode_BuildUdbConnections ::
  "'u gst_env \<Rightarrow> ('u, 'm) AudioVideoConfig_scheme \<Rightarrow> element option \<Rightarrow> element option \<Rightarrow> Connector \<Rightarrow> pipeline
     \<Rightarrow> (Connector \<times> pipeline) option" where
  "SrcDecode_BuildUdbConnections G config BuildVideoUdbConnection BuildAudioUdbConnection conn p =
     (if cn_video conn \<noteq> None \<or> cn_audio conn \<noteq> None then None
      else do {
        (conn, p) \<leftarrow> (if av_have_video config then do {
            vudb \<leftarrow> BuildVideoUdbConnection;
            p \<leftarrow> ElementAdd G vudb p;
            Some (conn\<lparr>cn_video := Some (el_name vudb)\<rparr>, p)
          } else Some (conn, p));
        (if av_have_audio config then do {
           audb \<leftarrow> BuildAudioUdbConnection;
           p \<leftarrow> ElementAdd G audb p;
           Some (conn\<lparr>cn_audio := Some (el_name audb)\<rparr>, p)
         } else Some (conn, p))
      })"

text \<open>One branch of an output: a queue behind the tee, a payloader for RTP, and the muxer.\<close>

definition output_branch ::
  "'u gst_env \<Rightarrow> string \<Rightarrow> element option \<Rightarrow> bool \<Rightarrow> string option \<Rightarrow> string \<Rightarrow> pipeline \<Rightarrow> pipeline option" where
  "output_branch G queue_name pay is_rtp_out tee mux p = do {
     tee_queue \<leftarrow> make_element G ''queue'' queue_name;
     (next, p) \<leftarrow> add_after G tee_queue tee p;
     (next, p) \<leftarrow> (if is_rtp_out then do { rtp_pay \<leftarrow> pay; add_after G rtp_pay next p } else Some (next, p));
     ElementLink G next (Some mux) p
   }"

definition decode_output ::
  "'u gst_env \<Rightarrow> bool \<Rightarrow> ('u, 'm) AudioVideoConfig_scheme \<Rightarrow> SupportedVideoCodec option \<Rightarrow> SupportedAudioCodec option
     \<Rightarrow> Connector \<Rightarrow> nat \<Rightarrow> 'u OutputUri \<Rightarrow> pipeline \<Rightarrow> pipeline option" where
  "decode_output G is_vod config GetVideoCodecType GetAudioCodecType conn i output p =
     (if IsDeviceOutUrl (ge_url G) (ou_output output) \<noteq> None then (if ge_crit G then None else Some p)
      else do {
        let sch = url_scheme (ge_url G) (ou_output output);
        let is_rtp_out = (sch = Scheme_udp);
        mux \<leftarrow> make_muxer G sch i;
        p \<leftarrow> ElementAdd G mux p;
        p \<leftarrow> (if av_have_video config
              then output_branch G (VIDEO_TEE_QUEUE_NAME_1U i) (do { vcodec \<leftarrow> GetVideoCodecType; video_pay_of G vcodec i })
                     is_rtp_out (cn_video conn) (el_name mux) p
              else Some p);
        p \<leftarrow> (if av_have_audio config
              then output_branch G (AUDIO_TEE_QUEUE_NAME_1U i) (do { acodec \<leftarrow> GetAudioCodecType; audio_pay_of G acodec i })
                     is_rtp_out (cn_audio conn) (el_name mux) p
              else Some p);
        (sink, p) \<leftarrow> BuildGenericOutput G is_vod output i p;
        p \<leftarrow> ElementAdd G sink p;
        ElementLink G (Some (el_name mux)) (Some (el_name sink)) p
      })"

definition SrcDecode_BuildOutput ::
  "'u gst_env \<Rightarrow> bool \<Rightarrow> ('u, 'm) AudioVideoConfig_scheme \<Rightarrow> SupportedVideoCodec option \<Rightarrow> SupportedAudioCodec option
     \<Rightarrow> Connector \<Rightarrow> pipeline \<Rightarrow> (Connector \<times> pipeline) option" where
  "SrcDecode_BuildOutput G is_vod config GetVideoCodecType GetAudioCodecType conn p = do {
     p \<leftarrow> each_output (decode_output G is_vod config GetVideoCodecType GetAudioCodecType conn) 0 (cf_output config) p;
     Some (conn, p)
   }"

section \<open>Relays\<close>

definition Relay_BuildVideoUdbConnection :: "'u gst_env \<Rightarrow> ('u, 'm) RelayConfig_scheme \<Rightarrow> element option" where
  "Relay_BuildVideoUdbConnection G rconfig = make_video_parser G (rl_video_parser rconfig) (UDB_VIDEO_NAME_1U 0)"

definition Relay_BuildAudioUdbConnection :: "'u gst_env \<Rightarrow> ('u, 'm) RelayConfig_scheme \<Rightarrow> element option" where
  "Relay_BuildAudioUdbConnection G rconfig = make_audio_parser G (rl_audio_parser rconfig) (UDB_AUDIO_NAME_1U 0)"

definition Relay_GetVideoCodecType :: "('u, 'm) RelayConfig_scheme \<Rightarrow> SupportedVideoCodec option" where
  "Relay_GetVideoCodecType conf =
     (let vparser = rl_video_parser conf in
      if vparser = ''h264parse'' then Some VIDEO_H264_CODEC
      else if vparser = ''h265parse'' then Some VIDEO_H265_CODEC
      else if vparser = ''tsparse'' then Some VIDEO_MPEG_CODEC else None)"

definition Relay_GetAudioCodecType :: "('u, 'm) RelayConfig_scheme \<Rightarrow> SupportedAudioCodec option" where
  "Relay_GetAudioCodecType conf =
     (let aparser = rl_audio_parser conf in
      if aparser = ''aacparse'' then Some AUDIO_AAC_CODEC
      else if aparser = ''mpegaudioparse'' then Some AUDIO_MPEG_CODEC
      else if aparser = ''ac3parse'' then Some AUDIO_AC3_CODEC else None)"

text \<open>A tee behind a channel.\<close>

definition add_tee :: "'u gst_env \<Rightarrow> string \<Rightarrow> string option \<Rightarrow> pipeline \<Rightarrow> (string option \<times> pipeline) option" where
  "add_tee G name prev p = do {
     tee \<leftarrow> make_element G ''tee'' name;
     add_after G tee prev p
   }"

definition Relay_BuildConverter ::
  "'u gst_env \<Rightarrow> ('u, 'm) AudioVideoConfig_scheme \<Rightarrow> Connector \<Rightarrow> pipeline \<Rightarrow> (Connector \<times> pipeline) option" where
  "Relay_BuildConverter G config conn p = do {
     (conn, p) \<leftarrow> (if av_have_video config then do {
         (tee, p) \<leftarrow> add_tee G (VIDEO_TEE_NAME_1U 0) (cn_video conn) p;
         Some (conn\<lparr>cn_video := tee\<rparr>, p)
       } else Some (conn, p));
     (if av_have_audio config then do {
        (tee, p) \<leftarrow> add_tee G (AUDIO_TEE_NAME_1U 0) (cn_audio conn) p;
        Some (conn\<lparr>cn_audio := tee\<rparr>, p)
      } else Some (conn, p))
   }"

text \<open>Stages that hand the connector on unchanged.\<close>

definition pass_on :: "Connector \<Rightarrow> pipeline \<Rightarrow> (Connector \<times> pipeline) option" where
  "pass_on conn p = Some (conn, p)"

definition RelayStreamBuilder :: "'u gst_env \<Rightarrow> bool \<Rightarrow> ('u, 'm) RelayConfig_scheme \<Rightarrow> builder" where
  "RelayStreamBuilder G is_vod c =
     \<lparr>bd_BuildInput = SrcDecode_BuildInput G (SrcDecode_BuildInputSrc G c),
      bd_BuildUdbConnections = SrcDecode_BuildUdbConnections G c (Relay_BuildVideoUdbConnection G c) (Relay_BuildAudioUdbConnection G c),
      bd_BuildPostProc = pass_on,
      bd_BuildConverter = Relay_BuildConverter G c,
      bd_BuildOutput = SrcDecode_BuildOutput G is_vod c (Relay_GetVideoCodecType c) (Relay_GetAudioCodecType c)\<rparr>"

text \<open>The source of playlists, for relays and encodings.\<close>

definition Playlist_BuildInputSrc :: "'u gst_env \<Rightarrow> pipeline \<Rightarrow> (string option \<times> pipeline) option" where
  "Playlist_BuildInputSrc G p = do {
     appsrc \<leftarrow> make_app_src G 0;
     let p = HandleInputSrcPadCreated G appsrc Scheme_file 0 p;
     p \<leftarrow> ElementAdd G appsrc p;
     let p = notify (App_src_created (el_name appsrc)) p;
     Some (Some (el_name appsrc), p)
   }"

definition PlaylistRelayStreamBuilder :: "'u gst_env \<Rightarrow> bool \<Rightarrow> ('u, 'm) RelayConfig_scheme \<Rightarrow> builder" where
  "PlaylistRelayStreamBuilder G is_vod c =
     (RelayStreamBuilder G is_vod c)\<lparr>bd_BuildInput := SrcDecode_BuildInput G (Playlist_BuildInputSrc G)\<rparr>"

text \<open>
  One output of the streams that have no network output: a sink for the video and one for the audio,
  linked where the channel has an element.
\<close>

definition local_sink ::
  "'u gst_env \<Rightarrow> element option \<Rightarrow> nat \<Rightarrow> string option \<Rightarrow> pipeline \<Rightarrow> pipeline option" where
  "local_sink G mk i channel p = do {
     sink \<leftarrow> mk;
     p \<leftarrow> ElementAdd G sink p;
     let p = HandleOutputSinkPadCreated G sink Scheme_unknown i p;
     (if channel \<noteq> None then ElementLink G channel (Some (el_name sink)) p else Some p)
   }"

definition BuildLocalOutput ::
  "'u gst_env \<Rightarrow> ('u, 'm) AudioVideoConfig_scheme \<Rightarrow> (nat \<Rightarrow> element option) \<Rightarrow> Connector \<Rightarrow> pipeline
     \<Rightarrow> (Connector \<times> pipeline) option" where
  "BuildLocalOutput G config mk conn p = do {
     p \<leftarrow> (if av_have_video config then local_sink G (mk 0) 0 (cn_video conn) p else Some p);
     p \<leftarrow> (if av_have_audio config then local_sink G (mk 1) 0 (cn_audio conn) p else Some p);
     Some (conn, p)
   }"

definition BuildTestOutput ::
  "'u gst_env \<Rightarrow> ('u, 'm) AudioVideoConfig_scheme \<Rightarrow> Connector \<Rightarrow> pipeline \<Rightarrow> (Connector \<times> pipeline) option" where
  "BuildTestOutput G config = BuildLocalOutput G config (make_test_sink G)"

definition BuildFakeOutput ::
  "'u gst_env \<Rightarrow> ('u, 'm) AudioVideoConfig_scheme \<Rightarrow> Connector \<Rightarrow> pipeline \<Rightarrow> (Connector \<times> pipeline) option" where
  "BuildFakeOutput G config = BuildLocalOutput G config (make_fake_sink G)"

definition TestLifeStreamBuilder :: "'u gst_env \<Rightarrow> bool \<Rightarrow> ('u, 'm) RelayConfig_scheme \<Rightarrow> builder" where
  "TestLifeStreamBuilder G is_vod c = (RelayStreamBuilder G is_vod c)\<lparr>bd_BuildOutput := BuildTestOutput G c\<rparr>"

section \<open>Timeshift\<close>

definition TimeShiftPlayer_BuildInputSrc :: "'u gst_env \<Rightarrow> string \<Rightarrow> u64 \<Rightarrow> pipeline \<Rightarrow> (string option \<times> pipeline) option" where
  "TimeShiftPlayer_BuildInputSrc G timeshift_dir start_chunk_index p = do {
     src \<leftarrow> make_multifile_src G (timeshift_dir @ ''%llu.ts'') (sint (ucast start_chunk_index :: 32 word)) False 0;
     p \<leftarrow> ElementAdd G src p;
     Some (Some (el_name src), p)
   }"

definition TimeShiftPlayerBuilder :: "'u gst_env \<Rightarrow> bool \<Rightarrow> string \<Rightarrow> u64 \<Rightarrow> ('u, 'm) RelayConfig_scheme \<Rightarrow> builder" where
  "TimeShiftPlayerBuilder G is_vod timeshift_dir start_chunk_index c =
     (RelayStreamBuilder G is_vod c)
     \<lparr>bd_BuildInput := SrcDecode_BuildInput G (TimeShiftPlayer_BuildInputSrc G timeshift_dir start_chunk_index)\<rparr>"

definition TimeShiftRecorder_BuildOutput ::
  "'u gst_env \<Rightarrow> 'u TimeshiftConfig \<Rightarrow> Connector \<Rightarrow> pipeline \<Rightarrow> (Connector \<times> pipeline) option" where
  "TimeShiftRecorder_BuildOutput G tconf conn p = do {
     splitmuxsink \<leftarrow> make_element G ''splitmuxsink'' (name_1u ''splitmuxsink'' 0);
     p \<leftarrow> ElementAdd G splitmuxsink p;
     mpegtsmux \<leftarrow> make_mpegtsmux G 0;
     mst_nsec \<leftarrow> checked_i64 (tc_chunk_duration tconf * 1000000000);
     let p = pl_set_property (el_name splitmuxsink) ''muxer'' (Pv_element (el_plugin mpegtsmux) (el_name mpegtsmux)) p;
     let p = pl_set_property (el_name splitmuxsink) ''max-size-time'' (Pv_int (uint (of_int mst_nsec :: u64))) p;
     let p = notify (Splitmuxsink_created (cn_video conn) (cn_audio conn) (el_name splitmuxsink)) p;
     Some (conn, p)
   }"

definition TimeShiftRecorderStreamBuilder :: "'u gst_env \<Rightarrow> bool \<Rightarrow> 'u TimeshiftConfig \<Rightarrow> builder" where
  "TimeShiftRecorderStreamBuilder G is_vod c =
     (RelayStreamBuilder G is_vod c)\<lparr>bd_BuildConverter := pass_on, bd_BuildOutput := TimeShiftRecorder_BuildOutput G c\<rparr>"

definition CatchupStreamBuilder :: "'u gst_env \<Rightarrow> bool \<Rightarrow> 'u TimeshiftConfig \<Rightarrow> builder" where
  "CatchupStreamBuilder = TimeShiftRecorderStreamBuilder"

section \<open>Encodings\<close>

text \<open>A line of elements behind a channel: the channel continues at the end of the line.\<close>

definition append_line ::
  "'u gst_env \<Rightarrow> elements_line \<Rightarrow> string option \<Rightarrow> pipeline \<Rightarrow> (string option \<times> pipeline) option" where
  "append_line G line channel p = (case line of
     None \<Rightarrow> Some (channel, p)
   | Some (front, back) \<Rightarrow> do { p \<leftarrow> ElementLink G channel front p; Some (back, p) })"

definition Encoding_BuildPostProc ::
  "'u gst_env \<Rightarrow> ('u, 'm) AudioVideoConfig_scheme \<Rightarrow> (pipeline \<Rightarrow> (elements_line \<times> pipeline) option)
     \<Rightarrow> (pipeline \<Rightarrow> (elements_line \<times> pipeline) option) \<Rightarrow> Connector \<Rightarrow> pipeline \<Rightarrow> (Connector \<times> pipeline) option" where
  "Encoding_BuildPostProc G config BuildVideoPostProc BuildAudioPostProc conn p = do {
     (conn, p) \<leftarrow> (if av_have_video config then do {
         (line, p) \<leftarrow> BuildVideoPostProc p;
         (channel, p) \<leftarrow> append_line G line (cn_video conn) p;
         Some (conn\<lparr>cn_video := channel\<rparr>, p)
       } else Some (conn, p));
     (if av_have_audio config then do {
        (line, p) \<leftarrow> BuildAudioPostProc p;
        (channel, p) \<leftarrow> append_line G line (cn_audio conn) p;
        Some (conn\<lparr>cn_audio := channel\<rparr>, p)
      } else Some (conn, p))
   }"

definition Encoding_GetVideoCodecType :: "('u, 'm) EncodingConfig_scheme \<Rightarrow> SupportedVideoCodec option" where
  "Encoding_GetVideoCodecType conf =
     (let vcodec = en_video_encoder conf in
      if IsH264Encoder vcodec then Some VIDEO_H264_CODEC
      else if vcodec = ''x265enc'' then Some VIDEO_H265_CODEC
      else if vcodec = ''mpeg2enc'' then Some VIDEO_MPEG_CODEC else None)"

definition Encoding_GetAudioCodecType :: "('u, 'm) EncodingConfig_scheme \<Rightarrow> SupportedAudioCodec option" where
  "Encoding_GetAudioCodecType conf =
     (let acodec = en_audio_encoder conf in
      if IsAACEncoder acodec then Some AUDIO_AAC_CODEC
      else if acodec = ''lamemp3enc'' then Some AUDIO_MPEG_CODEC else None)"

definition Encoding_BuildConverter ::
  "'u gst_env \<Rightarrow> ('u, 'm) EncodingConfig_scheme \<Rightarrow> (pipeline \<Rightarrow> (elements_line \<times> pipeline) option)
     \<Rightarrow> (pipeline \<Rightarrow> (elements_line \<times> pipeline) option) \<Rightarrow> Connector \<Rightarrow> pipeline \<Rightarrow> (Connector \<times> pipeline) option" where
  "Encoding_BuildConverter G config BuildVideoConverter BuildAudioConverter conn p = do {
     (conn, p) \<leftarrow> (if av_have_video config then do {
         (line, p) \<leftarrow> BuildVideoConverter p;
         (channel, p) \<leftarrow> append_line G line (cn_video conn) p;
         (channel, p) \<leftarrow> (if IsH264Encoder (en_video_encoder config) then do {
             premux_parser \<leftarrow> make_h264_parser G 0;
             add_after G premux_parser channel p
           } else Some (channel, p));
         (tee, p) \<leftarrow> add_tee G (VIDEO_TEE_NAME_1U 0) channel p;
         Some (conn\<lparr>cn_video := tee\<rparr>, p)
       } else Some (conn, p));
     (if av_have_audio config then do {
        (line, p) \<leftarrow> BuildAudioConverter p;
        (channel, p) \<leftarrow> append_line G line (cn_audio conn) p;
        (channel, p) \<leftarrow> (if IsAACEncoder (en_audio_encoder config) then do {
            premux_parser \<leftarrow> make_aac_parser G 0;
            add_after G premux_parser channel p
          } else Some (channel, p));
        (tee, p) \<leftarrow> add_tee G (AUDIO_TEE_NAME_1U 0) channel p;
        Some (conn\<lparr>cn_audio := tee\<rparr>, p)
      } else Some (conn, p))
   }"

text \<open>The hardware post-processors; the last element of the line stays null.\<close>

definition mfx_post_proc :: "'u gst_env \<Rightarrow> ('u, 'm) EncodingConfig_scheme \<Rightarrow> nat \<Rightarrow> element option" where
  "mfx_post_proc G conf video_id = do {
     post \<leftarrow> make_element G ''mfxvpp'' (POST_PROC_NAME_1U video_id);
     let post = SetProperty ''force-aspect-ratio'' (Pv_bool False) post;
     let post = (if ge_size_valid G (en_size conf)
                 then SetProperty ''height'' (Pv_int (snd (en_size conf))) (SetProperty ''width'' (Pv_int (fst (en_size conf))) post)
                 else post);
     let post = (case en_frame_rate conf of None \<Rightarrow> post | Some r \<Rightarrow> SetProperty ''framerate'' (Pv_fraction r 1) post);
     Some (if en_deinterlace conf \<noteq> None then SetProperty ''deinterlace-mode'' (Pv_int 1) post else post)
   }"

definition vaapi_post_proc :: "'u gst_env \<Rightarrow> ('u, 'm) EncodingConfig_scheme \<Rightarrow> nat \<Rightarrow> element option" where
  "vaapi_post_proc G conf video_id = do {
     post \<leftarrow> make_element G ''vaapipostproc'' (POST_PROC_NAME_1U video_id);
     let post = (if en_deinterlace conf = None then SetProperty ''deinterlace-method'' (Pv_int 2) post else post);
     Some (SetProperty ''force-aspect-ratio'' (Pv_bool False) (SetProperty ''format'' (Pv_int 2) post))
   }"

definition cpu_post_proc ::
  "'u gst_env \<Rightarrow> ('u, 'm) EncodingConfig_scheme \<Rightarrow> nat \<Rightarrow> pipeline \<Rightarrow> ((string option \<times> string option) \<times> pipeline) option" where
  "cpu_post_proc G conf video_id p = do {
     (line, p) \<leftarrow> build_video_convert G (en_deinterlace conf) video_id p;
     (first, last) \<leftarrow> line;
     (last, p) \<leftarrow> (if ge_size_valid G (en_size conf)
        then build_video_scale G (fst (en_size conf)) (snd (en_size conf)) last video_id p else Some (last, p));
     (last, p) \<leftarrow> (case en_aspect_ratio conf of
         None \<Rightarrow> Some (last, p)
       | Some (num, den) \<Rightarrow> do {
           aspect_ratio \<leftarrow> make_element G ''aspectratiocrop'' (ASPECT_RATIO_NAME_1U video_id);
           add_after G (SetProperty ''aspect-ratio'' (Pv_fraction num den) aspect_ratio) last p
         });
     (last, p) \<leftarrow> (case en_frame_rate conf of
         None \<Rightarrow> Some (last, p) | Some r \<Rightarrow> build_video_framerate G r last video_id p);
     Some ((first, last), p)
   }"

definition Encoding_BuildVideoPostProc ::
  "'u gst_env \<Rightarrow> ('u, 'm) EncodingConfig_scheme \<Rightarrow> pipeline \<Rightarrow> (elements_line \<times> pipeline) option" where
  "Encoding_BuildVideoPostProc G conf p = do {
     ((first, last), p) \<leftarrow> (if IsGpu conf then do {
         post \<leftarrow> (if IsMfxGpu conf then mfx_post_proc G conf 0 else vaapi_post_proc G conf 0);
         p \<leftarrow> ElementAdd G post p;
         Some ((Some (el_name post), None), p)
       } else cpu_post_proc G conf 0 p);
     let logo = en_logo conf;
     (if Logo_IsValid (ge_url G) logo then do {
        videologo \<leftarrow> make_element G ''gdkpixbufoverlay'' (VIDEO_LOGO_NAME_1U 0);
        videologo \<leftarrow> (if url_scheme (ge_url G) (lg_path logo) = Scheme_file
            then Some (SetProperty ''location'' (Pv_text (url_path (ge_url G) (lg_path logo))) videologo) else None);
        let videologo = SetProperty ''offset-x'' (Pv_int (fst (lg_position logo))) videologo;
        let videologo = SetProperty ''offset-y'' (Pv_int (snd (lg_position logo))) videologo;
        let videologo = SetProperty ''alpha'' (Pv_double (lg_alpha logo)) videologo;
        (last, p) \<leftarrow> add_after G videologo last p;
        Some (Some (first, last), p)
      } else Some (Some (first, last), p))
   }"

definition Encoding_BuildAudioPostProc ::
  "'u gst_env \<Rightarrow> ('u, 'm) EncodingConfig_scheme \<Rightarrow> pipeline \<Rightarrow> (elements_line \<times> pipeline) option" where
  "Encoding_BuildAudioPostProc G conf = build_audio_converters G (en_volume conf) (en_audio_channels_count conf) 0"

definition Encoding_BuildVideoConverter ::
  "'u gst_env \<Rightarrow> ('u, 'm) EncodingConfig_scheme \<Rightarrow> pipeline \<Rightarrow> (elements_line \<times> pipeline) option" where
  "Encoding_BuildVideoConverter G conf =
     build_video_encoder G (en_video_encoder conf) (en_video_bit_rate conf) (en_video_encoder_args conf)
       (en_video_encoder_str_args conf) 0"

definition Encoding_BuildAudioConverter ::
  "'u gst_env \<Rightarrow> ('u, 'm) EncodingConfig_scheme \<Rightarrow> pipeline \<Rightarrow> (elements_line \<times> pipeline) option" where
  "Encoding_BuildAudioConverter G conf p = do {
     enc \<leftarrow> make_audio_encoder G (en_audio_encoder conf) (AUDIO_CODEC_NAME_1U 0) (en_audio_bit_rate conf);
     p \<leftarrow> ElementAdd G enc p;
     let enc = Some (el_name enc);
     (if en_audio_encoder conf = ''lamemp3enc'' then do {
        audioresample \<leftarrow> make_element G ''audioresample'' (AUDIO_RESAMPLE_NAME_1U 0);
        mpegaudioparse \<leftarrow> make_element G ''mpegaudioparse'' (MPEG_AUDIO_PARSE_NAME_1U 0);
        p \<leftarrow> ElementAdd G audioresample p;
        p \<leftarrow> ElementAdd G mpegaudioparse p;
        p \<leftarrow> ElementLink G (Some (el_name audioresample)) enc p;
        p \<leftarrow> ElementLink G enc (Some (el_name mpegaudioparse)) p;
        Some (Some (Some (el_name audioresample), Some (el_name mpegaudioparse)), p)
      } else Some (Some (enc, enc), p))
   }"

definition no_line :: "pipeline \<Rightarrow> (elements_line \<times> pipeline) option" where
  "no_line p = Some (None, p)"

definition EncodingStreamBuilder :: "'u gst_env \<Rightarrow> bool \<Rightarrow> ('u, 'm) EncodingConfig_scheme \<Rightarrow> builder" where
  "EncodingStreamBuilder G is_vod c =
     \<lparr>bd_BuildInput = SrcDecode_BuildInput G (SrcDecode_BuildInputSrc G c),
      bd_BuildUdbConnections = SrcDecode_BuildUdbConnections G c (SrcDecode_BuildVideoUdbConnection G) (SrcDecode_BuildAudioUdbConnection G),
      bd_BuildPostProc = Encoding_BuildPostProc G c (Encoding_BuildVideoPostProc G c) (Encoding_BuildAudioPostProc G c),
      bd_BuildConverter = Encoding_BuildConverter G c (Encoding_BuildVideoConverter G c) (Encoding_BuildAudioConverter G c),
      bd_BuildOutput = SrcDecode_BuildOutput G is_vod c (Encoding_GetVideoCodecType c) (Encoding_GetAudioCodecType c)\<rparr>"

definition EncodingOnlyAudioStreamBuilder :: "'u gst_env \<Rightarrow> bool \<Rightarrow> ('u, 'm) EncodingConfig_scheme \<Rightarrow> builder" where
  "EncodingOnlyAudioStreamBuilder G is_vod c = (EncodingStreamBuilder G is_vod c)
     \<lparr>bd_BuildPostProc := Encoding_BuildPostProc G c no_line (Encoding_BuildAudioPostProc G c),
      bd_BuildConverter := Encoding_BuildConverter G c no_line (Encoding_BuildAudioConverter G c)\<rparr>"

definition EncodingOnlyVideoStreamBuilder :: "'u gst_env \<Rightarrow> bool \<Rightarrow> ('u, 'm) EncodingConfig_scheme \<Rightarrow> builder" where
  "EncodingOnlyVideoStreamBuilder G is_vod c = (EncodingStreamBuilder G is_vod c)
     \<lparr>bd_BuildPostProc := Encoding_BuildPostProc G c (Encoding_BuildVideoPostProc G c) no_line,
      bd_BuildConverter := Encoding_BuildConverter G c (Encoding_BuildVideoConverter G c) no_line\<rparr>"

definition PlaylistEncodingStreamBuilder :: "'u gst_env \<Rightarrow> bool \<Rightarrow> ('u, 'm) EncodingConfig_scheme \<Rightarrow> builder" where
  "PlaylistEncodingStreamBuilder G is_vod c =
     (EncodingStreamBuilder G is_vod c)\<lparr>bd_BuildInput := SrcDecode_BuildInput G (Playlist_BuildInputSrc G)\<rparr>"

definition FakeStreamBuilder :: "'u gst_env \<Rightarrow> bool \<Rightarrow> ('u, 'm) EncodingConfig_scheme \<Rightarrow> builder" where
  "FakeStreamBuilder G is_vod c = (EncodingStreamBuilder G is_vod c)\<lparr>bd_BuildOutput := BuildFakeOutput G c\<rparr>"

text \<open>A source that needs no decoder.\<close>

definition raw_source :: "'u gst_env \<Rightarrow> element option \<Rightarrow> scheme \<Rightarrow> nat \<Rightarrow> pipeline \<Rightarrow> (string option \<times> pipeline) option" where
  "raw_source G mk sch i p = do {
     src \<leftarrow> mk;
     p \<leftarrow> ElementAdd G src p;
     Some (Some (el_name src), HandleInputSrcPadCreated G src sch i p)
   }"

definition Device_BuildInput :: "'u gst_env \<Rightarrow> ('u, 'm) AudioVideoConfig_scheme \<Rightarrow> pipeline \<Rightarrow> (Connector \<times> pipeline) option" where
  "Device_BuildInput G config p = (case cf_input config of
     [] \<Rightarrow> None
   | diuri # _ \<Rightarrow> do {
       let duri = iu_input diuri;
       let sch = url_scheme (ge_url G) duri;
       (video, p) \<leftarrow> (if av_have_video config then do {
           (video, p) \<leftarrow> raw_source G (make_v4l2_src G (url_path (ge_url G) duri) 0) sch 0 p;
           capsfilter \<leftarrow> make_element G ''capsfilter'' (VIDEO_CAPS_DEVICE_NAME_1U 0);
           add_after G (SetProperty ''caps'' (Pv_caps ''video/x-raw'' [(''width'', Pv_int 1920), (''height'', Pv_int 1080)]) capsfilter)
             video p
         } else Some (None, p));
       (audio, p) \<leftarrow> (if av_have_audio config then raw_source G (make_alsa_src G (ge_query G duri) 1) sch 1 p else Some (None, p));
       Some (\<lparr>cn_video = video, cn_audio = audio\<rparr>, p)
     })"

definition DeviceStreamBuilder :: "'u gst_env \<Rightarrow> bool \<Rightarrow> ('u, 'm) EncodingConfig_scheme \<Rightarrow> builder" where
  "DeviceStreamBuilder G is_vod c =
     (EncodingStreamBuilder G is_vod c)\<lparr>bd_BuildInput := Device_BuildInput G c\<rparr>"

text \<open>The sources of test pictures and tones.\<close>

definition test_sources ::
  "'u gst_env \<Rightarrow> ('u, 'm) AudioVideoConfig_scheme \<Rightarrow> string \<Rightarrow> string \<Rightarrow> pipeline \<Rightarrow> (Connector \<times> pipeline) option" where
  "test_sources G config video_name audio_name p = do {
     (video, p) \<leftarrow> (if av_have_video config
        then raw_source G (make_element G ''videotestsrc'' video_name) Scheme_unknown 0 p else Some (None, p));
     (audio, p) \<leftarrow> (if av_have_audio config
        then raw_source G (make_element G ''audiotestsrc'' audio_name) Scheme_unknown 0 p else Some (None, p));
     Some (\<lparr>cn_video = video, cn_audio = audio\<rparr>, p)
   }"

definition TestInput_BuildInput :: "'u gst_env \<Rightarrow> ('u, 'm) AudioVideoConfig_scheme \<Rightarrow> pipeline \<Rightarrow> (Connector \<times> pipeline) option" where
  "TestInput_BuildInput G config = test_sources G config ''video_src'' ''audio_src''"

definition TestInputStreamBuilder :: "'u gst_env \<Rightarrow> bool \<Rightarrow> ('u, 'm) EncodingConfig_scheme \<Rightarrow> builder" where
  "TestInputStreamBuilder G is_vod c =
     (EncodingStreamBuilder G is_vod c)\<lparr>bd_BuildInput := TestInput_BuildInput G c, bd_BuildUdbConnections := pass_on\<rparr>"

section \<open>Screen\<close>

definition Screen_BuildInput :: "'u gst_env \<Rightarrow> ('u, 'm) AudioVideoConfig_scheme \<Rightarrow> pipeline \<Rightarrow> (Connector \<times> pipeline) option" where
  "Screen_BuildInput G config = test_sources G config (name_1u ''video_src'' 0) (name_1u ''audio_src'' 0)"

definition screen_output :: "'u gst_env \<Rightarrow> ('u, 'm) AudioVideoConfig_scheme \<Rightarrow> Connector \<Rightarrow> nat \<Rightarrow> 'u OutputUri \<Rightarrow> pipeline \<Rightarrow> pipeline option" where
  "screen_output G aconf conn i output p = do {
     p \<leftarrow> (if av_have_video aconf then local_sink G (make_video_screen_sink G i) i (cn_video conn) p else Some p);
     (if av_have_audio aconf then local_sink G (make_audio_screen_sink G (i + 1)) i (cn_audio conn) p else Some p)
   }"

definition Screen_BuildOutput ::
  "'u gst_env \<Rightarrow> ('u, 'm) AudioVideoConfig_scheme \<Rightarrow> Connector \<Rightarrow> pipeline \<Rightarrow> (Connector \<times> pipeline) option" where
  "Screen_BuildOutput G aconf conn p = do {
     p \<leftarrow> each_output (screen_output G aconf conn) 0 (cf_output aconf) p;
     Some (conn, p)
   }"

definition ScreenStreamBuilder :: "'u gst_env \<Rightarrow> ('u, 'm) AudioVideoConfig_scheme \<Rightarrow> builder" where
  "ScreenStreamBuilder G c =
     \<lparr>bd_BuildInput = Screen_BuildInput G c, bd_BuildUdbConnections = pass_on, bd_BuildPostProc = pass_on,
      bd_BuildConverter = pass_on, bd_BuildOutput = Screen_BuildOutput G c\<rparr>"

section \<open>Mosaics\<close>

definition build_mux_video_scale ::
  "'u gst_env \<Rightarrow> int \<times> int \<Rightarrow> string option \<Rightarrow> nat \<Rightarrow> pipeline \<Rightarrow> (string option \<times> pipeline) option" where
  "build_mux_video_scale G sz link_to video_scale_id =
     build_with_caps G ''videoscale'' (name_1u ''mux_videoscale'' video_scale_id) (name_1u ''mux_videoscale_capsfilter'' video_scale_id)
       [(''width'', Pv_int (fst sz)), (''height'', Pv_int (snd sz))] link_to"

text \<open>Rows and columns for the numbers of inputs that are supported.\<close>

definition mosaic_grid :: "nat \<Rightarrow> (nat \<times> nat) option" where
  "mosaic_grid sz =
     (if sz = 1 then Some (1, 1) else if sz = 2 then Some (2, 1) else if sz = 4 then Some (2, 2)
      else if sz = 9 then Some (3, 3) else if sz = 16 then Some (4, 4) else None)"

definition screen_size :: "int \<times> int" where "screen_size = (1280, 720)"

text \<open>Position and size of the picture of input \<open>i\<close>, in row \<open>i div columns\<close>.\<close>

definition image_info :: "nat \<times> nat \<Rightarrow> nat \<Rightarrow> (int \<times> int) \<times> (int \<times> int)" where
  "image_info grid i = (case grid of (rows, columns) \<Rightarrow>
     (let w = fst screen_size div int columns; h = snd screen_size div int rows
      in ((int (i mod columns) * w, int (i div columns) * h), (w, h))))"

definition mosaic_cell_video ::
  "'u gst_env \<Rightarrow> nat \<times> nat \<Rightarrow> string \<Rightarrow> nat \<Rightarrow> pipeline \<Rightarrow> pipeline option" where
  "mosaic_cell_video G grid vmix i p = do {
     video_queue \<leftarrow> make_element G ''queue'' (UDB_VIDEO_NAME_1U i);
     p \<leftarrow> ElementAdd G video_queue p;
     (scale, p) \<leftarrow> build_mux_video_scale G (snd (image_info grid i)) (Some (el_name video_queue)) i p;
     video_box \<leftarrow> make_element G ''videobox'' (VIDEO_BOX_NAME_1U i);
     (box, p) \<leftarrow> add_after G video_box scale p;
     let p = pl_set_property (el_name video_box) ''border-alpha'' (Pv_double (F64 1)) p;
     p \<leftarrow> ElementLink G box (Some vmix) p;
     Some (if ge_pad G ''videomixer'' (SINK_NAME_1U i)
           then notify (Pad_position vmix (SINK_NAME_1U i) (fst (image_info grid i))) p else p)
   }"

definition mosaic_cell_audio :: "'u gst_env \<Rightarrow> string \<Rightarrow> nat \<Rightarrow> pipeline \<Rightarrow> pipeline option" where
  "mosaic_cell_audio G amix i p = do {
     audio_queue \<leftarrow> make_element G ''queue'' (UDB_AUDIO_NAME_1U i);
     p \<leftarrow> ElementAdd G audio_queue p;
     spec \<leftarrow> make_element G ''level'' (AUDIO_LEVEL_NAME_1U i);
     (level, p) \<leftarrow> add_after G spec (Some (el_name audio_queue)) p;
     ElementLink G level (Some amix) p
   }"

definition mosaic_cell ::
  "'u gst_env \<Rightarrow> ('u, 'm) EncodingConfig_scheme \<Rightarrow> nat \<times> nat \<Rightarrow> string \<Rightarrow> string \<Rightarrow> nat \<Rightarrow> 'u InputUri \<Rightarrow> pipeline \<Rightarrow> pipeline option" where
  "mosaic_cell G config grid vmix amix i uri p = do {
     src \<leftarrow> make_src G uri i src_timeout_sec;
     let p = HandleInputSrcPadCreated G src (url_scheme (ge_url G) (iu_input uri)) i p;
     p \<leftarrow> ElementAdd G src p;
     decodebin \<leftarrow> make_element G ''decodebin'' (DECODEBIN_NAME_1U i);
     (d, p) \<leftarrow> add_after G decodebin (Some (el_name src)) p;
     let p = notify (Decodebin_created (el_name decodebin)) p;
     p \<leftarrow> (if av_have_video config then mosaic_cell_video G grid vmix i p else Some p);
     (if av_have_audio config then mosaic_cell_audio G amix i p else Some p)
   }"

fun mosaic_cells ::
  "'u gst_env \<Rightarrow> ('u, 'm) EncodingConfig_scheme \<Rightarrow> nat \<times> nat \<Rightarrow> string \<Rightarrow> string \<Rightarrow> nat \<Rightarrow> 'u InputUri list \<Rightarrow> pipeline \<Rightarrow> pipeline option" where
  "mosaic_cells G config grid vmix amix i [] p = Some p"
| "mosaic_cells G config grid vmix amix i (uri # prepared) p = do {
     p \<leftarrow> mosaic_cell G config grid vmix amix i uri p;
     mosaic_cells G config grid vmix amix (Suc i) prepared p
   }"

text \<open>An output on the own screen or a capture card.\<close>

definition device_branch ::
  "'u gst_env \<Rightarrow> string \<Rightarrow> element option \<Rightarrow> nat \<Rightarrow> string option \<Rightarrow> pipeline \<Rightarrow> pipeline option" where
  "device_branch G queue_name mk i tee p = do {
     tee_queue \<leftarrow> make_element G ''queue'' queue_name;
     (next, p) \<leftarrow> add_after G tee_queue tee p;
     sink \<leftarrow> mk;
     p \<leftarrow> ElementAdd G sink p;
     let p = HandleOutputSinkPadCreated G sink Scheme_unknown i p;
     ElementLink G next (Some (el_name sink)) p
   }"

definition mosaic_video_sink :: "'u gst_env \<Rightarrow> ('u, 'm) EncodingConfig_scheme \<Rightarrow> SinkDeviceType \<Rightarrow> nat \<Rightarrow> element option" where
  "mosaic_video_sink G config dt i = do {
     video_sink \<leftarrow> make_video_device_sink G dt i;
     Some (if dt = DECKLINK_OUTPUT \<and> en_decklink_video_mode config \<noteq> 1
           then SetProperty ''mode'' (Pv_int (uint (en_decklink_video_mode config))) video_sink else video_sink)
   }"

definition mosaic_device_output ::
  "'u gst_env \<Rightarrow> ('u, 'm) EncodingConfig_scheme \<Rightarrow> SinkDeviceType \<Rightarrow> string option \<Rightarrow> string option \<Rightarrow> nat \<Rightarrow> pipeline \<Rightarrow> pipeline option" where
  "mosaic_device_output G config dt video audio i p = do {
     p \<leftarrow> (if av_have_video config
           then device_branch G (VIDEO_TEE_QUEUE_NAME_1U i) (mosaic_video_sink G config dt i) i video p else Some p);
     (if av_have_audio config
      then device_branch G (AUDIO_TEE_QUEUE_NAME_1U i) (make_audio_device_sink G dt i) i audio p else Some p)
   }"

definition mosaic_video_pay :: "'u gst_env \<Rightarrow> string \<Rightarrow> nat \<Rightarrow> element option" where
  "mosaic_video_pay G vcodec i =
     (if IsH264Encoder vcodec then make_h264_pay G 96 i
      else if vcodec = ''x265enc'' then make_h265_pay G 96 i
      else if vcodec = ''mpeg2enc'' then make_mpeg2_pay G 96 i else None)"

definition mosaic_video_branch ::
  "'u gst_env \<Rightarrow> ('u, 'm) EncodingConfig_scheme \<Rightarrow> bool \<Rightarrow> string option \<Rightarrow> string \<Rightarrow> nat \<Rightarrow> pipeline \<Rightarrow> pipeline option" where
  "mosaic_video_branch G config is_rtp_out video mux i p = do {
     tee_queue \<leftarrow> make_element G ''queue'' (VIDEO_TEE_QUEUE_NAME_1U i);
     (last, p) \<leftarrow> add_after G tee_queue video p;
     (last, p) \<leftarrow> (case en_aspect_ratio config of
         None \<Rightarrow> Some (last, p)
       | Some (num, den) \<Rightarrow> do {
           aspect_ratio \<leftarrow> make_element G ''aspectratiocrop'' (ASPECT_RATIO_NAME_1U i);
           add_after G (SetProperty ''aspect-ratio'' (Pv_fraction num den) aspect_ratio) last p
         });
     (last, p) \<leftarrow> (case en_frame_rate config of
         None \<Rightarrow> Some (last, p)
       | Some r \<Rightarrow> if IsMfxGpu config then Some (last, p) else build_video_framerate G r last i p);
     (line, p) \<leftarrow> build_video_encoder G (en_video_encoder config) None (en_video_encoder_args config)
        (en_video_encoder_str_args config) i p;
     (next, p) \<leftarrow> append_line G line last p;
     (next, p) \<leftarrow> (if is_rtp_out
        then do { rtp_pay \<leftarrow> mosaic_video_pay G (en_video_encoder config) i; add_after G rtp_pay next p }
        else Some (next, p));
     (next, p) \<leftarrow> (if IsH264Encoder (en_video_encoder config)
        then do { premux_parser \<leftarrow> make_h264_parser G i; add_after G premux_parser next p } else Some (next, p));
     ElementLink G next (Some mux) p
   }"

definition mosaic_audio_branch ::
  "'u gst_env \<Rightarrow> ('u, 'm) EncodingConfig_scheme \<Rightarrow> bool \<Rightarrow> string option \<Rightarrow> string \<Rightarrow> nat \<Rightarrow> pipeline \<Rightarrow> pipeline option" where
  "mosaic_audio_branch G config is_rtp_out audio mux i p = do {
     tee_queue \<leftarrow> make_element G ''queue'' (AUDIO_TEE_QUEUE_NAME_1U i);
     (next, p) \<leftarrow> add_after G tee_queue audio p;
     audio_encoder \<leftarrow> make_audio_encoder G (en_audio_encoder config) (AUDIO_CODEC_NAME_1U i) None;
     p \<leftarrow> ElementAdd G audio_encoder p;
     let enc = Some (el_name audio_encoder);
     (next, p) \<leftarrow> (if en_audio_encoder config = ''lamemp3enc'' then do {
         audioresample \<leftarrow> make_element G ''audioresample'' (AUDIO_RESAMPLE_NAME_1U i);
         mpegaudioparse \<leftarrow> make_element G ''mpegaudioparse'' (MPEG_AUDIO_PARSE_NAME_1U i);
         p \<leftarrow> ElementAdd G audioresample p;
         p \<leftarrow> ElementAdd G mpegaudioparse p;
         p \<leftarrow> ElementLink G next (Some (el_name audioresample)) p;
         p \<leftarrow> ElementLink G (Some (el_name audioresample)) enc p;
         p \<leftarrow> ElementLink G enc (Some (el_name mpegaudioparse)) p;
         Some (Some (el_name mpegaudioparse), p)
       } else do { p \<leftarrow> ElementLink G next enc p; Some (enc, p) });
     (next, p) \<leftarrow> (if is_rtp_out
        then do { rtp_pay \<leftarrow> make_aac_pay G 97 i; add_after G rtp_pay next p } else Some (next, p));
     ElementLink G next (Some mux) p
   }"

definition mosaic_output ::
  "'u gst_env \<Rightarrow> bool \<Rightarrow> ('u, 'm) EncodingConfig_scheme \<Rightarrow> string option \<Rightarrow> string option \<Rightarrow> nat \<Rightarrow> 'u OutputUri \<Rightarrow> pipeline \<Rightarrow> pipeline option" where
  "mosaic_output G is_vod config video audio i output p =
     (case IsDeviceOutUrl (ge_url G) (ou_output output) of
        Some dt \<Rightarrow> mosaic_device_output G config dt video audio i p
      | None \<Rightarrow> do {
          let sch = url_scheme (ge_url G) (ou_output output);
          let is_rtp_out = (sch = Scheme_udp);
          mux \<leftarrow> make_muxer G sch i;
          p \<leftarrow> ElementAdd G mux p;
          p \<leftarrow> (if av_have_video config then mosaic_video_branch G config is_rtp_out video (el_name mux) i p else Some p);
          p \<leftarrow> (if av_have_audio config then mosaic_audio_branch G config is_rtp_out audio (el_name mux) i p else Some p);
          (sink, p) \<leftarrow> BuildGenericOutput G is_vod output i p;
          p \<leftarrow> ElementAdd G sink p;
          ElementLink G (Some (el_name mux)) (Some (el_name sink)) p
        })"

definition Mosaic_BuildOutput ::
  "'u gst_env \<Rightarrow> bool \<Rightarrow> ('u, 'm) EncodingConfig_scheme \<Rightarrow> string option \<Rightarrow> string option \<Rightarrow> pipeline \<Rightarrow> pipeline option" where
  "Mosaic_BuildOutput G is_vod config video audio p = each_output (mosaic_output G is_vod config video audio) 0 (cf_output config) p"

definition mosaic_video_line ::
  "'u gst_env \<Rightarrow> ('u, 'm) EncodingConfig_scheme \<Rightarrow> ((int \<times> int) \<times> (int \<times> int)) list \<Rightarrow> string \<Rightarrow> pipeline \<Rightarrow> (string option \<times> pipeline) option" where
  "mosaic_video_line G config options vmix p = do {
     cairo \<leftarrow> make_element G ''cairooverlay'' (CAIRO_NAME_1U 0);
     (video, p) \<leftarrow> add_after G cairo (Some vmix) p;
     let p = notify (Cairo_created (el_name cairo) options) p;
     (line, p) \<leftarrow> build_video_convert G (en_deinterlace config) 0 p;
     (video, p) \<leftarrow> append_line G line video p;
     add_tee G (VIDEO_TEE_NAME_1U 0) video p
   }"

definition mosaic_audio_line ::
  "'u gst_env \<Rightarrow> ('u, 'm) EncodingConfig_scheme \<Rightarrow> string \<Rightarrow> pipeline \<Rightarrow> (string option \<times> pipeline) option" where
  "mosaic_audio_line G config amix p = do {
     (line, p) \<leftarrow> build_audio_converters G (en_volume config) (en_audio_channels_count config) 0 p;
     (audio, p) \<leftarrow> append_line G line (Some amix) p;
     add_tee G (AUDIO_TEE_NAME_1U 0) audio p
   }"

definition Mosaic_InitPipeline :: "'u gst_env \<Rightarrow> bool \<Rightarrow> ('u, 'm) EncodingConfig_scheme \<Rightarrow> pipeline \<Rightarrow> (bool \<times> pipeline) option" where
  "Mosaic_InitPipeline G is_vod config p = (case mosaic_grid (length (cf_input config)) of
     None \<Rightarrow> Some (False, p)
   | Some grid \<Rightarrow> do {
       vmix \<leftarrow> make_element G ''videomixer'' (VIDEOMIXER_NAME_1U 0);
       p \<leftarrow> ElementAdd G vmix p;
       amix \<leftarrow> make_element G ''audiomixer'' (INTERLIVE_NAME_1U 0);
       p \<leftarrow> ElementAdd G amix p;
       p \<leftarrow> mosaic_cells G config grid (el_name vmix) (el_name amix) 0 (cf_input config) p;
       let options = map (image_info grid) [0..<length (cf_input config)];
       (video, p) \<leftarrow> (if av_have_video config then mosaic_video_line G config options (el_name vmix) p
                        else Some (Some (el_name vmix), p));
       (audio, p) \<leftarrow> (if av_have_audio config then mosaic_audio_line G config (el_name amix) p
                        else Some (Some (el_name amix), p));
       p \<leftarrow> Mosaic_BuildOutput G is_vod config video audio p;
       Some (True, p)
     })"

section \<open>The builder of a stream\<close>

definition vod_type :: "StreamType \<Rightarrow> bool" where
  "vod_type type \<longleftrightarrow> type = VOD_ENCODE \<or> type = VOD_RELAY"

text \<open>\<open>CreateBuilder\<close> of the class of the stream, as the construction it starts.\<close>

fun CreateBuilder :: "'u gst_env \<Rightarrow> string \<Rightarrow> 'u stream_object \<Rightarrow> pipeline \<Rightarrow> (bool \<times> pipeline) option" where
  "CreateBuilder G d (PlaylistRelayStream c) = InitPipeline (PlaylistRelayStreamBuilder G (vod_type (cf_type c)) c)"
| "CreateBuilder G d (RelayStream c) = InitPipeline (RelayStreamBuilder G (vod_type (cf_type c)) c)"
| "CreateBuilder G d (PlaylistEncodingStream c) = InitPipeline (PlaylistEncodingStreamBuilder G (vod_type (cf_type c)) c)"
| "CreateBuilder G d (MosaicStream c) = Mosaic_InitPipeline G (vod_type (cf_type c)) c"
| "CreateBuilder G d (TestInputStream c) = InitPipeline (TestInputStreamBuilder G (vod_type (cf_type c)) c)"
| "CreateBuilder G d (DeviceStream c) = InitPipeline (DeviceStreamBuilder G (vod_type (cf_type c)) c)"
| "CreateBuilder G d (EncodingOnlyAudioStream c) = InitPipeline (EncodingOnlyAudioStreamBuilder G (vod_type (cf_type c)) c)"
| "CreateBuilder G d (EncodingOnlyVideoStream c) = InitPipeline (EncodingOnlyVideoStreamBuilder G (vod_type (cf_type c)) c)"
| "CreateBuilder G d (EncodingStream c) = InitPipeline (EncodingStreamBuilder G (vod_type (cf_type c)) c)"
| "CreateBuilder G d (TimeShiftPlayerStream c i) = InitPipeline (TimeShiftPlayerBuilder G (vod_type (cf_type c)) d i c)"
| "CreateBuilder G d (TimeShiftRecorderStream c) = InitPipeline (TimeShiftRecorderStreamBuilder G (vod_type (cf_type c)) c)"
| "CreateBuilder G d (CatchupStream c) = InitPipeline (CatchupStreamBuilder G (vod_type (cf_type c)) c)"
| "CreateBuilder G d (TestLifeStream c) = InitPipeline (TestLifeStreamBuilder G (vod_type (cf_type c)) c)"
| "CreateBuilder G d (VodRelayStream c) = InitPipeline (RelayStreamBuilder G (vod_type (cf_type c)) c)"
| "CreateBuilder G d (VodEncodeStream c) = InitPipeline (EncodingStreamBuilder G (vod_type (cf_type c)) c)"

end
