(* ===== verification/PipelineSpec.thy ===== *)
theory PipelineSpec
  imports Pipelines
begin

text \<open>
  What all construction steps have in common: they extend the pipeline they start from. Elements and links
  that the library would refuse end the construction, so the pipelines that are made are well formed.
\<close>

section \<open>Well-formed pipelines\<close>

abbreviation names :: "pipeline \<Rightarrow> string set" where "names p \<equiv> set (pl_names p)"

abbreviation links :: "pipeline \<Rightarrow> (string \<times> string) set" where "links p \<equiv> set (pl_links p)"

definition pl_ok :: "pipeline \<Rightarrow> bool" where
  "pl_ok p \<longleftrightarrow> distinct (pl_names p) \<and> links p \<subseteq> names p \<times> names p"

text \<open>A pipeline after some construction steps.\<close>

definition extends :: "pipeline \<Rightarrow> pipeline \<Rightarrow> bool" where
  "extends p p' \<longleftrightarrow> (pl_ok p \<longrightarrow> pl_ok p') \<and> names p \<subseteq> names p' \<and> links p \<subseteq> links p'
     \<and> (\<exists>ns. pl_notes p' = pl_notes p @ ns)"

lemma extends_refl [simp]: "extends p p"
  by (simp add: extends_def)

lemma extends_trans [trans]: "extends p q \<Longrightarrow> extends q r \<Longrightarrow> extends p r"
  by (fastforce simp: extends_def)

lemma ElementAdd_extends: "ElementAdd G e p = Some p' \<Longrightarrow> extends p p'"
  by (auto simp: ElementAdd_def extends_def pl_ok_def pl_names_def split: if_splits)

lemma ElementLink_extends: "ElementLink G a b p = Some p' \<Longrightarrow> extends p p'"
  by (auto simp: ElementLink_def extends_def pl_ok_def pl_names_def bind_eq_Some_conv split: if_splits)

lemma pl_set_property_names [simp]: "pl_names (pl_set_property n q v p) = pl_names p"
  by (simp add: pl_set_property_def pl_names_def SetProperty_def comp_def if_distrib cong: if_cong)

lemma pl_set_property_frame [simp]:
  "pl_links (pl_set_property n q v p) = pl_links p" "pl_notes (pl_set_property n q v p) = pl_notes p"
  by (simp_all add: pl_set_property_def)

lemma notify_frame [simp]:
  "pl_names (notify n p) = pl_names p" "pl_links (notify n p) = pl_links p" "pl_notes (notify n p) = pl_notes p @ [n]"
  by (simp_all add: notify_def pl_names_def)

lemma extends_notify [simp]: "extends p (notify n p)" "extends p (pl_set_property m q v p)"
  by (simp_all add: extends_def pl_ok_def)

lemma extends_pads [simp]:
  "extends p (HandleInputSrcPadCreated G e s i p)" "extends p (HandleOutputSinkPadCreated G e s i p)"
  by (simp_all add: HandleInputSrcPadCreated_def HandleOutputSinkPadCreated_def)

lemma extends_under [simp]:
  "extends q p \<Longrightarrow> extends q (notify n p)" "extends q p \<Longrightarrow> extends q (pl_set_property m x v p)"
  "extends q p \<Longrightarrow> extends q (HandleInputSrcPadCreated G e s i p)"
  "extends q p \<Longrightarrow> extends q (HandleOutputSinkPadCreated G e s i p)"
  by (blast intro: extends_trans extends_notify extends_pads)+


text \<open>
  Construction steps extend the pipeline they start from: two predicates on results, for steps with and
  without a value, and the rules that follow the text of a definition.
\<close>

definition keeps1 :: "pipeline \<Rightarrow> pipeline option \<Rightarrow> bool" where
  "keeps1 p r \<longleftrightarrow> (\<forall>q. r = Some q \<longrightarrow> extends p q)"

definition keeps :: "pipeline \<Rightarrow> ('a \<times> pipeline) option \<Rightarrow> bool" where
  "keeps p r \<longleftrightarrow> (\<forall>x q. r = Some (x, q) \<longrightarrow> extends p q)"

named_theorems keep \<open>construction steps extend the pipeline\<close>

lemma keeps_return [keep]:
  "extends p q \<Longrightarrow> keeps1 p (Some q)" "extends p q \<Longrightarrow> keeps p (Some (x, q))" "keeps1 p None" "keeps p None"
  by (simp_all add: keeps1_def keeps_def)

lemma keeps_bind [keep]:
  fixes r1 :: "pipeline option" and e :: "element option" and n :: "string option" and z :: "int option"
    and l :: "(string option \<times> string option) option" and vc :: "SupportedVideoCodec option"
    and h :: "(string \<times> u16) option"
  shows "keeps1 p r1 \<Longrightarrow> (\<And>q. extends p q \<Longrightarrow> keeps1 p (k1 q)) \<Longrightarrow> keeps1 p (r1 \<bind> k1)"
    "keeps1 p r1 \<Longrightarrow> (\<And>q. extends p q \<Longrightarrow> keeps p (k2 q)) \<Longrightarrow> keeps p (r1 \<bind> k2)"
    "keeps p r2 \<Longrightarrow> (\<And>x q. extends p q \<Longrightarrow> keeps1 p (k3 x q)) \<Longrightarrow> keeps1 p (r2 \<bind> (\<lambda>(x, q). k3 x q))"
    "keeps p r2 \<Longrightarrow> (\<And>x q. extends p q \<Longrightarrow> keeps p (k4 x q)) \<Longrightarrow> keeps p (r2 \<bind> (\<lambda>(x, q). k4 x q))"
    "(\<And>x. keeps1 p (k5 x)) \<Longrightarrow> keeps1 p (e \<bind> k5)" "(\<And>x. keeps p (k6 x)) \<Longrightarrow> keeps p (e \<bind> k6)"
    "(\<And>x. keeps1 p (k7 x)) \<Longrightarrow> keeps1 p (z \<bind> k7)" "(\<And>x. keeps p (k8 x)) \<Longrightarrow> keeps p (z \<bind> k8)"
    "(\<And>x y. keeps p (k9 x y)) \<Longrightarrow> keeps p (l \<bind> (\<lambda>(x, y). k9 x y))"
  by (fastforce simp: keeps1_def keeps_def bind_eq_Some_conv)+

lemma keeps_cases [keep]:
  "(c \<Longrightarrow> keeps1 p a) \<Longrightarrow> (\<not> c \<Longrightarrow> keeps1 p b) \<Longrightarrow> keeps1 p (if c then a else b)"
  "(c \<Longrightarrow> keeps p a') \<Longrightarrow> (\<not> c \<Longrightarrow> keeps p b') \<Longrightarrow> keeps p (if c then a' else b')"
  "keeps1 p (f v) \<Longrightarrow> keeps1 p (Let v f)" "keeps p (f' v) \<Longrightarrow> keeps p (Let v f')"
  "(u = None \<Longrightarrow> keeps1 p m) \<Longrightarrow> (\<And>x. u = Some x \<Longrightarrow> keeps1 p (g x)) \<Longrightarrow> keeps1 p (case_option m g u)"
  "(u = None \<Longrightarrow> keeps p m') \<Longrightarrow> (\<And>x. u = Some x \<Longrightarrow> keeps p (g' x)) \<Longrightarrow> keeps p (case_option m' g' u)"
  "(\<And>x y. w = (x, y) \<Longrightarrow> keeps p (h x y)) \<Longrightarrow> keeps p (case_prod h w)"
  "(\<And>x y. w = (x, y) \<Longrightarrow> keeps p (h' x y q)) \<Longrightarrow> keeps p ((case_prod h' w) q)"
  "(ys = [] \<Longrightarrow> keeps p n) \<Longrightarrow> (\<And>x xs. ys = x # xs \<Longrightarrow> keeps p (j x xs)) \<Longrightarrow> keeps p (case_list n j ys)"
  by (auto split: option.split prod.split list.split)

lemma keeps_chain:
  "extends p q \<Longrightarrow> keeps1 q r \<Longrightarrow> keeps1 p r" "extends p q \<Longrightarrow> keeps q r' \<Longrightarrow> keeps p r'"
  by (auto simp: keeps1_def keeps_def intro: extends_trans)

lemma keeps_element [keep]:
  "extends p q \<Longrightarrow> keeps1 p (ElementAdd G e q)" "extends p q \<Longrightarrow> keeps1 p (ElementLink G a b q)"
  by (auto simp: keeps1_def intro: extends_trans ElementAdd_extends ElementLink_extends)

lemma build_with_caps_keeps [keep]: "extends p q \<Longrightarrow> keeps p (build_with_caps G pl n c caps a q)"
  unfolding build_with_caps_def by (intro keep) simp_all

lemma build_audio_converters_keeps [keep]: "extends p q \<Longrightarrow> keeps p (build_audio_converters G v a i q)"
  unfolding build_audio_converters_def by (intro keep) simp_all

lemma build_video_convert_keeps [keep]: "extends p q \<Longrightarrow> keeps p (build_video_convert G d i q)"
  unfolding build_video_convert_def by (intro keep) simp_all

lemma encoder_caps_keeps [keep]: "extends p q \<Longrightarrow> keeps p (encoder_caps G c x v a q)"
  unfolding encoder_caps_def by (intro keep) simp_all

lemma setup_encoder_params_frame [simp]:
  "pl_names (setup_encoder_params args c n p) = pl_names p" "pl_links (setup_encoder_params args c n p) = pl_links p"
  "pl_notes (setup_encoder_params args c n p) = pl_notes p"
proof -
  have "pl_names (foldl f p args) = pl_names p \<and> pl_links (foldl f p args) = pl_links p \<and> pl_notes (foldl f p args) = pl_notes p"
    if "\<And>p kv. pl_names (f p kv) = pl_names p \<and> pl_links (f p kv) = pl_links p \<and> pl_notes (f p kv) = pl_notes p"
    for f :: "pipeline \<Rightarrow> string \<times> u32 \<Rightarrow> pipeline"
    by (induction args arbitrary: p) (auto simp: that)
  note * = this [of "\<lambda>p (key, v). case split_key key of (prefix, param) \<Rightarrow>
        if prefix \<noteq> c then p else pl_set_property n param (Pv_int (uint v)) p"]
  show "pl_names (setup_encoder_params args c n p) = pl_names p" "pl_links (setup_encoder_params args c n p) = pl_links p"
    "pl_notes (setup_encoder_params args c n p) = pl_notes p"
    unfolding setup_encoder_params_def by (subst *, simp split: prod.split, simp)+
qed

lemma setup_encoder_params_extends [simp]: "extends q p \<Longrightarrow> extends q (setup_encoder_params args c n p)"
  by (simp add: extends_def pl_ok_def)

lemma setup_encoder_str_params_keeps [keep]: "extends p q \<Longrightarrow> keeps p (setup_encoder_str_params G c n i args a q)"
proof (induction args arbitrary: a q)
  case (Cons kv args)
  obtain key v where "kv = (key, v)" by (cases kv)
  then show ?case using Cons.prems
    by (simp only: setup_encoder_str_params.simps) (intro keep Cons.IH | simp)+
qed (simp add: keeps_return)

lemma set_video_bitrate_keeps [keep]: "extends p q \<Longrightarrow> keeps1 p (set_video_bitrate c n r q)"
  unfolding set_video_bitrate_def by (intro keep) simp_all

lemma build_video_encoder_keeps [keep]: "extends p q \<Longrightarrow> keeps p (build_video_encoder G c r args sargs i q)"
  unfolding build_video_encoder_def by (intro keep) simp_all

lemma add_after_keeps [keep]: "extends p q \<Longrightarrow> keeps p (add_after G e a q)" "extends p q \<Longrightarrow> keeps p (add_tee G n a q)"
  unfolding add_after_def add_tee_def by (intro keep; simp)+

lemma BuildGenericOutput_keeps [keep]: "extends p q \<Longrightarrow> keeps p (BuildGenericOutput G v output i q)"
  unfolding BuildGenericOutput_def by (intro keep) simp_all

lemma each_output_keeps:
  assumes "\<And>i output q. extends p q \<Longrightarrow> keeps1 p (f i output q)"
  shows "extends p q \<Longrightarrow> keeps1 p (each_output f i out q)"
  by (induction out arbitrary: i q) (auto intro!: keep assms)

lemma input_src_keeps [keep]:
  "extends p q \<Longrightarrow> keeps p (SrcDecode_BuildInputSrc G c q)" "extends p q \<Longrightarrow> keeps p (Playlist_BuildInputSrc G q)"
  "extends p q \<Longrightarrow> keeps p (TimeShiftPlayer_BuildInputSrc G d i q)"
  unfolding SrcDecode_BuildInputSrc_def Playlist_BuildInputSrc_def TimeShiftPlayer_BuildInputSrc_def
  by (intro keep; simp)+

lemma SrcDecode_BuildInput_keeps:
  "(\<And>q. extends p q \<Longrightarrow> keeps p (src q)) \<Longrightarrow> extends p q \<Longrightarrow> keeps p (SrcDecode_BuildInput G src q)"
  unfolding SrcDecode_BuildInput_def by (intro keep) simp_all

lemma SrcDecode_BuildUdbConnections_keeps: "extends p q \<Longrightarrow> keeps p (SrcDecode_BuildUdbConnections G c v a conn q)"
  unfolding SrcDecode_BuildUdbConnections_def by (intro keep) simp_all

lemma output_branch_keeps [keep]: "extends p q \<Longrightarrow> keeps1 p (output_branch G n pay rtp tee mux q)"
  unfolding output_branch_def by (intro keep) simp_all

lemma decode_output_keeps: "extends p q \<Longrightarrow> keeps1 p (decode_output G v c vc ac conn i output q)"
  unfolding decode_output_def by (intro keep) simp_all

lemma SrcDecode_BuildOutput_keeps: "extends p q \<Longrightarrow> keeps p (SrcDecode_BuildOutput G v c vc ac conn q)"
  unfolding SrcDecode_BuildOutput_def by (intro keep each_output_keeps decode_output_keeps) simp_all

lemma append_line_keeps [keep]: "extends p q \<Longrightarrow> keeps p (append_line G line a q)"
  unfolding append_line_def by (intro keep) simp_all

lemma Relay_BuildConverter_keeps: "extends p q \<Longrightarrow> keeps p (Relay_BuildConverter G c conn q)"
  unfolding Relay_BuildConverter_def by (intro keep) simp_all

lemma local_sink_keeps [keep]: "extends p q \<Longrightarrow> keeps1 p (local_sink G mk i a q)"
  unfolding local_sink_def by (intro keep) simp_all

lemma BuildLocalOutput_keeps: "extends p q \<Longrightarrow> keeps p (BuildLocalOutput G c mk conn q)"
  unfolding BuildLocalOutput_def by (intro keep) simp_all

lemma TimeShiftRecorder_BuildOutput_keeps: "extends p q \<Longrightarrow> keeps p (TimeShiftRecorder_BuildOutput G c conn q)"
  unfolding TimeShiftRecorder_BuildOutput_def by (intro keep) simp_all

lemma Encoding_BuildPostProc_keeps:
  "(\<And>q. extends p q \<Longrightarrow> keeps p (v q)) \<Longrightarrow> (\<And>q. extends p q \<Longrightarrow> keeps p (a q)) \<Longrightarrow> extends p q
    \<Longrightarrow> keeps p (Encoding_BuildPostProc G c v a conn q)"
  unfolding Encoding_BuildPostProc_def by (intro keep) simp_all

lemma Encoding_BuildConverter_keeps:
  "(\<And>q. extends p q \<Longrightarrow> keeps p (v q)) \<Longrightarrow> (\<And>q. extends p q \<Longrightarrow> keeps p (a q)) \<Longrightarrow> extends p q
    \<Longrightarrow> keeps p (Encoding_BuildConverter G c v a conn q)"
  unfolding Encoding_BuildConverter_def by (intro keep) simp_all

lemma build_scale_keeps [keep]:
  "extends p q \<Longrightarrow> keeps p (build_video_scale G w h a i q)" "extends p q \<Longrightarrow> keeps p (build_video_framerate G r a i q)"
  unfolding build_video_scale_def build_video_framerate_def by (intro keep; simp)+

lemma cpu_post_proc_keeps [keep]: "extends p q \<Longrightarrow> keeps p (cpu_post_proc G c i q)"
  unfolding cpu_post_proc_def by (intro keep) simp_all

lemma line_keeps [keep]:
  "extends p q \<Longrightarrow> keeps p (Encoding_BuildAudioPostProc G c q)" "extends p q \<Longrightarrow> keeps p (Encoding_BuildVideoConverter G c q)"
  "extends p q \<Longrightarrow> keeps p (Encoding_BuildAudioConverter G c q)" "extends p q \<Longrightarrow> keeps p (no_line q)"
  unfolding Encoding_BuildAudioPostProc_def Encoding_BuildVideoConverter_def Encoding_BuildAudioConverter_def no_line_def
  by (intro keep; simp)+

lemma raw_source_keeps [keep]: "extends p q \<Longrightarrow> keeps p (raw_source G mk s i q)"
  unfolding raw_source_def by (intro keep) simp_all

lemma raw_input_keeps:
  "extends p q \<Longrightarrow> keeps p (Device_BuildInput G c q)" "extends p q \<Longrightarrow> keeps p (test_sources G c v a q)"
  unfolding Device_BuildInput_def test_sources_def by (intro keep; simp)+

lemma screen_output_keeps: "extends p q \<Longrightarrow> keeps1 p (screen_output G c conn i output q)"
  unfolding screen_output_def by (intro keep) simp_all

lemma Screen_BuildOutput_keeps: "extends p q \<Longrightarrow> keeps p (Screen_BuildOutput G c conn q)"
  unfolding Screen_BuildOutput_def by (intro keep each_output_keeps screen_output_keeps) simp_all

lemma pass_on_keeps: "extends p q \<Longrightarrow> keeps p (pass_on conn q)"
  unfolding pass_on_def by (intro keep)

lemma Encoding_BuildVideoPostProc_keeps [keep]: "extends p q \<Longrightarrow> keeps p (Encoding_BuildVideoPostProc G c q)"
  unfolding Encoding_BuildVideoPostProc_def by (intro keep) simp_all

section \<open>All builders\<close>

locale gst_builder =
  fixes b :: builder
  assumes input_keeps: "extends p q \<Longrightarrow> keeps p (bd_BuildInput b q)"
    and udb_keeps: "extends p q \<Longrightarrow> keeps p (bd_BuildUdbConnections b conn q)"
    and post_keeps: "extends p q \<Longrightarrow> keeps p (bd_BuildPostProc b conn q)"
    and converter_keeps: "extends p q \<Longrightarrow> keeps p (bd_BuildConverter b conn q)"
    and output_keeps: "extends p q \<Longrightarrow> keeps p (bd_BuildOutput b conn q)"
begin

lemma InitPipeline_keeps: "extends p q \<Longrightarrow> keeps p (InitPipeline b q)"
  unfolding InitPipeline_def
  by (intro keep input_keeps udb_keeps post_keeps converter_keeps output_keeps)

lemma created_ok:
  assumes "CreatePipeLine (InitPipeline b) = Some r"
  obtains p where "r = Some p" "pl_ok p"
proof -
  obtain ok p where p: "InitPipeline b pipeline0 = Some (ok, p)" "r = (if ok then Some p else None)"
    using assms by (auto simp: CreatePipeLine_def bind_eq_Some_conv)
  then have "extends pipeline0 p" using InitPipeline_keeps [OF extends_refl] by (auto simp: keeps_def)
  then have "pl_ok p" by (simp add: extends_def pl_ok_def pipeline0_def pl_names_def)
  moreover have ok by (use p(1) in \<open>auto simp: InitPipeline_def bind_eq_Some_conv\<close>)
  ultimately show thesis using p(2) that by simp
qed

end

lemmas stage_keeps = SrcDecode_BuildInput_keeps SrcDecode_BuildUdbConnections_keeps SrcDecode_BuildOutput_keeps
  Relay_BuildConverter_keeps BuildLocalOutput_keeps TimeShiftRecorder_BuildOutput_keeps Encoding_BuildPostProc_keeps
  Encoding_BuildConverter_keeps raw_input_keeps Screen_BuildOutput_keeps pass_on_keeps

interpretation relay: gst_builder "RelayStreamBuilder G is_vod c" for G is_vod c
  by unfold_locales (simp_all add: RelayStreamBuilder_def stage_keeps keep)

interpretation playlist_relay: gst_builder "PlaylistRelayStreamBuilder G is_vod c" for G is_vod c
  by unfold_locales (simp_all add: PlaylistRelayStreamBuilder_def RelayStreamBuilder_def stage_keeps keep)

interpretation test_life: gst_builder "TestLifeStreamBuilder G is_vod c" for G is_vod c
  by unfold_locales (simp_all add: TestLifeStreamBuilder_def RelayStreamBuilder_def BuildTestOutput_def stage_keeps keep)

interpretation player: gst_builder "TimeShiftPlayerBuilder G is_vod d i c" for G is_vod d i c
  by unfold_locales (simp_all add: TimeShiftPlayerBuilder_def RelayStreamBuilder_def stage_keeps keep)

interpretation recorder: gst_builder "TimeShiftRecorderStreamBuilder G is_vod c" for G is_vod c
  by unfold_locales (simp_all add: TimeShiftRecorderStreamBuilder_def RelayStreamBuilder_def stage_keeps keep)

interpretation encoding: gst_builder "EncodingStreamBuilder G is_vod c" for G is_vod c
  by unfold_locales (simp_all add: EncodingStreamBuilder_def stage_keeps keep)

interpretation only_audio: gst_builder "EncodingOnlyAudioStreamBuilder G is_vod c" for G is_vod c
  by unfold_locales (simp_all add: EncodingOnlyAudioStreamBuilder_def EncodingStreamBuilder_def stage_keeps keep)

interpretation only_video: gst_builder "EncodingOnlyVideoStreamBuilder G is_vod c" for G is_vod c
  by unfold_locales (simp_all add: EncodingOnlyVideoStreamBuilder_def EncodingStreamBuilder_def stage_keeps keep)

interpretation playlist_encoding: gst_builder "PlaylistEncodingStreamBuilder G is_vod c" for G is_vod c
  by unfold_locales (simp_all add: PlaylistEncodingStreamBuilder_def EncodingStreamBuilder_def stage_keeps keep)

interpretation fake: gst_builder "FakeStreamBuilder G is_vod c" for G is_vod c
  by unfold_locales (simp_all add: FakeStreamBuilder_def EncodingStreamBuilder_def BuildFakeOutput_def stage_keeps keep)

interpretation device: gst_builder "DeviceStreamBuilder G is_vod c" for G is_vod c
  by unfold_locales (simp_all add: DeviceStreamBuilder_def EncodingStreamBuilder_def stage_keeps keep)

interpretation test_input: gst_builder "TestInputStreamBuilder G is_vod c" for G is_vod c
  by unfold_locales
     (simp_all add: TestInputStreamBuilder_def EncodingStreamBuilder_def TestInput_BuildInput_def stage_keeps keep)

interpretation screen: gst_builder "ScreenStreamBuilder G c" for G c
  by unfold_locales (simp_all add: ScreenStreamBuilder_def Screen_BuildInput_def stage_keeps keep)

lemma mosaic_parts_keeps [keep]:
  "extends p q \<Longrightarrow> keeps1 p (mosaic_cell_video G grid vm i q)" "extends p q \<Longrightarrow> keeps1 p (mosaic_cell_audio G am i q)"
  "extends p q \<Longrightarrow> keeps1 p (device_branch G n mk i tee q)" "extends p q \<Longrightarrow> keeps1 p (mosaic_video_branch G c rtp video mux i q)"
  "extends p q \<Longrightarrow> keeps1 p (mosaic_audio_branch G c rtp audio mux i q)"
  "extends p q \<Longrightarrow> keeps p (mosaic_video_line G c opts vm q)" "extends p q \<Longrightarrow> keeps p (mosaic_audio_line G c am q)"
  unfolding mosaic_cell_video_def mosaic_cell_audio_def device_branch_def mosaic_video_branch_def mosaic_audio_branch_def
    mosaic_video_line_def mosaic_audio_line_def build_mux_video_scale_def
  by (intro keep; simp)+

lemma mosaic_cells_keeps [keep]: "extends p q \<Longrightarrow> keeps1 p (mosaic_cells G c grid vm am i inputs q)"
proof (induction inputs arbitrary: i q)
  case (Cons uri inputs)
  have "keeps1 p (mosaic_cell G c grid vm am i uri q)"
    unfolding mosaic_cell_def using Cons.prems by (intro keep) simp_all
  then show ?case unfolding mosaic_cells.simps by (intro keep Cons.IH)
qed (simp add: keeps_return)

lemma mosaic_output_keeps: "extends p q \<Longrightarrow> keeps1 p (mosaic_output G v c video audio i output q)"
  unfolding mosaic_output_def mosaic_device_output_def by (intro keep) simp_all

lemma Mosaic_BuildOutput_keeps [keep]: "extends p q \<Longrightarrow> keeps1 p (Mosaic_BuildOutput G v c video audio q)"
  unfolding Mosaic_BuildOutput_def by (intro each_output_keeps mosaic_output_keeps)

lemma Mosaic_InitPipeline_keeps: "extends p q \<Longrightarrow> keeps p (Mosaic_InitPipeline G v c q)"
  unfolding Mosaic_InitPipeline_def by (intro keep) simp_all

lemma Mosaic_refuses: "Mosaic_InitPipeline G v c p = Some (False, p') \<Longrightarrow> mosaic_grid (length (cf_input c)) = None"
  by (auto simp: Mosaic_InitPipeline_def bind_eq_Some_conv Let_def split: option.splits)

lemma mosaic_created:
  assumes "CreatePipeLine (Mosaic_InitPipeline G v c) = Some r"
  shows "case r of Some p \<Rightarrow> pl_ok p | None \<Rightarrow> mosaic_grid (length (cf_input c)) = None"
proof -
  obtain ok p where p: "Mosaic_InitPipeline G v c pipeline0 = Some (ok, p)" "r = (if ok then Some p else None)"
    using assms by (auto simp: CreatePipeLine_def bind_eq_Some_conv)
  have "extends pipeline0 p" using Mosaic_InitPipeline_keeps [OF extends_refl] p(1) by (force simp: keeps_def)
  then have "pl_ok p" by (simp add: extends_def pl_ok_def pipeline0_def pl_names_def)
  then show ?thesis using p Mosaic_refuses by (cases ok) auto
qed

lemma created_ok_or_refused:
  assumes "CreatePipeLine (CreateBuilder G d stream) = Some r"
  shows "case r of Some p \<Rightarrow> pl_ok p
     | None \<Rightarrow> (\<exists>c. stream = MosaicStream c \<and> length (cf_input c) \<notin> {1, 2, 4, 9, 16})"
proof (cases stream)
  case (MosaicStream c)
  then show ?thesis using mosaic_created assms
    by (force simp: mosaic_grid_def split: option.splits if_splits)
qed (use assms in \<open>auto simp: CatchupStreamBuilder_def elim!: relay.created_ok playlist_relay.created_ok test_life.created_ok
       player.created_ok recorder.created_ok encoding.created_ok only_audio.created_ok only_video.created_ok
       playlist_encoding.created_ok device.created_ok test_input.created_ok\<close>)

end
