(* ===== verification/PipelineBuild.thy ===== *)
theory PipelineBuild
  imports PipelineSpec
begin

text \<open>
  Which configurations give a pipeline, when the multimedia library has all plugins and accepts the links
  it is asked for, and that in such a pipeline the data of the source channels reach the sink of every
  output. Failures are then exactly those of the program itself.
\<close>

section \<open>Which configurations give a pipeline\<close>

text \<open>A library with all plugins that accepts every link between elements of a pipeline.\<close>

definition gst_complete :: "'u gst_env \<Rightarrow> bool" where
  "gst_complete G \<longleftrightarrow> (\<forall>plugin. ge_has G plugin) \<and> (\<forall>p a b. a \<in> names p \<and> b \<in> names p \<longrightarrow> ge_link G p a b)"

text \<open>
  A step adds elements of given names: the names are pairs of a stem and an index.
\<close>

definition adds :: "(string \<times> nat) set \<Rightarrow> pipeline \<Rightarrow> pipeline \<Rightarrow> bool" where
  "adds F p p' \<longleftrightarrow> names p \<subseteq> names p' \<and> names p' \<subseteq> names p \<union> (\<lambda>(s, i). name_1u s i) ` F \<and> links p \<subseteq> links p'"

definition fresh :: "(string \<times> nat) set \<Rightarrow> pipeline \<Rightarrow> bool" where
  "fresh F p \<longleftrightarrow> (\<forall>(s, i)\<in>F. name_1u s i \<notin> names p)"

lemma adds_refl [simp]: "adds F p p"
  by (auto simp: adds_def)

lemma adds_trans: "adds F p q \<Longrightarrow> adds F' q r \<Longrightarrow> adds (F \<union> F') p r"
  unfolding adds_def image_Un by blast

lemma adds_mono: "adds F p q \<Longrightarrow> F \<subseteq> F' \<Longrightarrow> adds F' p q"
  unfolding adds_def by blast

lemma adds_names: "adds F p q \<Longrightarrow> n \<in> names p \<Longrightarrow> n \<in> names q"
  by (auto simp: adds_def)

lemma adds_path: "adds F p q \<Longrightarrow> (a, b) \<in> (links p)\<^sup>* \<Longrightarrow> (a, b) \<in> (links q)\<^sup>*"
  by (auto simp: adds_def dest: rtrancl_mono)

lemma fresh_adds: "fresh F p \<Longrightarrow> adds F' p q \<Longrightarrow> F \<inter> F' = {} \<Longrightarrow> fresh F q"
  by (fastforce simp: fresh_def adds_def)

lemma fresh_Un [simp]: "fresh (F \<union> F') p \<longleftrightarrow> fresh F p \<and> fresh F' p"
  by (auto simp: fresh_def)

lemma fresh_insert [simp]: "fresh (insert (s, i) F) p \<longleftrightarrow> name_1u s i \<notin> names p \<and> fresh F p" "fresh {} p"
  by (auto simp: fresh_def)

text \<open>
  Results of steps: when they fail, which names they add, and where the data of a channel arrive.
\<close>

definition chan :: "(string \<times> nat) set \<Rightarrow> bool \<Rightarrow> string \<Rightarrow> pipeline \<Rightarrow> (string option \<times> pipeline) option \<Rightarrow> bool" where
  "chan F ok a p r \<longleftrightarrow> (if ok then (\<exists>n p'. r = Some (Some n, p') \<and> adds F p p' \<and> n \<in> names p' \<and> (a, n) \<in> (links p')\<^sup>*)
     else r = None)"

definition line :: "(string \<times> nat) set \<Rightarrow> bool \<Rightarrow> pipeline \<Rightarrow> (elements_line \<times> pipeline) option \<Rightarrow> bool" where
  "line F ok p r \<longleftrightarrow> (if ok then (\<exists>f b p'. r = Some (Some (Some f, Some b), p') \<and> adds F p p' \<and> f \<in> names p' \<and> b \<in> names p'
       \<and> (f, b) \<in> (links p')\<^sup>*) else r = None)"

lemma chanI:
  "r = Some (Some n, q) \<Longrightarrow> adds F p q \<Longrightarrow> n \<in> names q \<Longrightarrow> (a, n) \<in> (links q)\<^sup>* \<Longrightarrow> ok \<Longrightarrow> chan F ok a p r"
  by (simp add: chan_def)

lemma chanE:
  assumes "chan F ok a p r" ok
  obtains n q where "r = Some (Some n, q)" "adds F p q" "n \<in> names q" "(a, n) \<in> (links q)\<^sup>*"
  using assms by (auto simp: chan_def)

lemma chan_None: "\<not> ok \<Longrightarrow> chan F ok a p r \<longleftrightarrow> r = None"
  by (simp add: chan_def)

lemma chan_return: "n \<in> names p \<Longrightarrow> (a, n) \<in> (links p)\<^sup>* \<Longrightarrow> chan F True a p (Some (Some n, p))"
  by (auto simp: chan_def)

lemma chan_bind:
  assumes "chan F ok a p r" "\<And>n q. ok \<Longrightarrow> adds F p q \<Longrightarrow> n \<in> names q \<Longrightarrow> chan F' ok' n q (k (Some n) q)"
  shows "chan (F \<union> F') (ok \<and> ok') a p (r \<bind> (\<lambda>(b, q). k b q))"
proof (cases ok)
  case True
  obtain n q where r: "r = Some (Some n, q)" "adds F p q" "n \<in> names q" "(a, n) \<in> (links q)\<^sup>*"
    using assms(1) True by (rule chanE)
  have *: "chan F' ok' n q (k (Some n) q)" by (rule assms(2) [OF True r(2,3)])
  have k: "r \<bind> (\<lambda>(b, q). k b q) = k (Some n) q" using r(1) by simp
  show ?thesis
  proof (cases ok')
    case True
    obtain m q' where m: "k (Some n) q = Some (Some m, q')" "adds F' q q'" "m \<in> names q'" "(n, m) \<in> (links q')\<^sup>*"
      using * True by (rule chanE)
    have "(a, m) \<in> (links q')\<^sup>*" using adds_path [OF m(2) r(4)] m(4) by (rule rtrancl_trans)
    with k m(1) adds_trans [OF r(2) m(2)] m(3) show ?thesis by (intro chanI) (simp_all add: \<open>ok\<close> \<open>ok'\<close>)
  next
    case False
    then show ?thesis using * k by (simp add: chan_None)
  qed
qed (use assms(1) in \<open>simp add: chan_None\<close>)

lemma make_element_complete [simp]:
  "gst_complete G \<Longrightarrow> make_element G plugin name = Some \<lparr>el_plugin = plugin, el_name = name, el_props = []\<rparr>"
  by (simp add: gst_complete_def make_element_def)

lemma SetProperty_frame [simp]: "el_name (SetProperty q v e) = el_name e" "el_plugin (SetProperty q v e) = el_plugin e"
  by (simp_all add: SetProperty_def)

lemma ElementAdd_complete:
  assumes "gst_complete G"
  shows "ElementAdd G e p = (if el_name e \<in> names p then None else Some (p\<lparr>pl_elements := pl_elements p @ [e]\<rparr>))"
  using assms by (simp add: gst_complete_def ElementAdd_def)

lemma ElementLink_complete:
  assumes "gst_complete G" "a \<in> names p" "b \<in> names p"
  shows "ElementLink G (Some a) (Some b) p = Some (p\<lparr>pl_links := pl_links p @ [(a, b)]\<rparr>)"
  using assms by (simp add: gst_complete_def ElementLink_def)

lemma pipeline_updates [simp]:
  "pl_names (p\<lparr>pl_elements := pl_elements p @ es\<rparr>) = pl_names p @ map el_name es" "pl_names (p\<lparr>pl_links := ls\<rparr>) = pl_names p"
  by (simp_all add: pl_names_def)

lemma chan_add_after:
  assumes "gst_complete G" "a \<in> names p" "el_name e = name_1u s i" "fresh {(s, i)} p"
  shows "chan {(s, i)} True a p (add_after G e (Some a) p)"
proof -
  let ?q = "p\<lparr>pl_elements := pl_elements p @ [e]\<rparr>" and ?n = "name_1u s i"
  have q: "names ?q = insert ?n (names p)" using assms(3) by (simp add: pl_names_def)
  have "add_after G e (Some a) p = Some (Some ?n, ?q\<lparr>pl_links := pl_links p @ [(a, ?n)]\<rparr>)"
    using assms q by (simp add: add_after_def ElementAdd_complete ElementLink_complete)
  then show ?thesis using q assms(2) by (auto simp: chan_def adds_def)
qed

lemma chan_add_tee:
  assumes "gst_complete G" "a \<in> names p" "fresh {(s, i)} p"
  shows "chan {(s, i)} True a p (add_tee G (name_1u s i) (Some a) p)"
  using chan_add_after [OF assms(1,2) _ assms(3)] assms(1) by (simp add: add_tee_def)

lemma chan_append_line:
  assumes "gst_complete G" "a \<in> names p" "line F ok p r"
  shows "chan F ok a p (r \<bind> (\<lambda>(l, q). append_line G l (Some a) q))"
proof (cases ok)
  case True
  then obtain f b q where r: "r = Some (Some (Some f, Some b), q)" "adds F p q" "f \<in> names q" "b \<in> names q"
      "(f, b) \<in> (links q)\<^sup>*" using assms(3) by (auto simp: line_def)
  let ?q = "q\<lparr>pl_links := pl_links q @ [(a, f)]\<rparr>"
  have "r \<bind> (\<lambda>(l, q). append_line G l (Some a) q) = Some (Some b, ?q)"
    using r ElementLink_complete [OF assms(1) adds_names [OF r(2) assms(2)] r(3)] by (simp add: append_line_def)
  moreover have "adds F p ?q" using r(2) by (auto simp: adds_def)
  moreover have "(a, b) \<in> (links ?q)\<^sup>*"
    using rtrancl_mono [of "links q" "links ?q"] r(5) by (auto intro: converse_rtrancl_into_rtrancl)
  ultimately show ?thesis using True r(4) by (auto simp: chan_def)
qed (use assms(3) in \<open>simp add: line_def chan_def\<close>)

subsection \<open>Stages for both channels\<close>

definition two_channels ::
  "('u, 'm) AudioVideoConfig_scheme \<Rightarrow> (string option \<Rightarrow> pipeline \<Rightarrow> (string option \<times> pipeline) option)
     \<Rightarrow> (string option \<Rightarrow> pipeline \<Rightarrow> (string option \<times> pipeline) option) \<Rightarrow> Connector \<Rightarrow> pipeline \<Rightarrow> (Connector \<times> pipeline) option" where
  "two_channels c V A conn p = do {
     (conn, p) \<leftarrow> (if av_have_video c then do {
         (channel, p) \<leftarrow> V (cn_video conn) p;
         Some (conn\<lparr>cn_video := channel\<rparr>, p)
       } else Some (conn, p));
     (if av_have_audio c then do {
        (channel, p) \<leftarrow> A (cn_audio conn) p;
        Some (conn\<lparr>cn_audio := channel\<rparr>, p)
      } else Some (conn, p))
   }"

lemma Relay_BuildConverter_channels:
  "Relay_BuildConverter G c = two_channels c (add_tee G (VIDEO_TEE_NAME_1U 0)) (add_tee G (AUDIO_TEE_NAME_1U 0))"
  by (intro ext) (simp add: Relay_BuildConverter_def two_channels_def)

lemma Encoding_BuildPostProc_channels:
  "Encoding_BuildPostProc G c v a = two_channels c
     (\<lambda>ch p. v p \<bind> (\<lambda>(l, q). append_line G l ch q)) (\<lambda>ch p. a p \<bind> (\<lambda>(l, q). append_line G l ch q))"
  by (intro ext) (simp add: Encoding_BuildPostProc_def two_channels_def Option.bind_assoc split_def)

lemma Encoding_BuildConverter_channels:
  "Encoding_BuildConverter G c v a = two_channels c
     (\<lambda>ch p. (v p \<bind> (\<lambda>(l, q). append_line G l ch q)) \<bind> (\<lambda>(ch, q).
        (if IsH264Encoder (en_video_encoder c) then do { e \<leftarrow> make_h264_parser G 0; add_after G e ch q } else Some (ch, q))
          \<bind> (\<lambda>(ch, q). add_tee G (VIDEO_TEE_NAME_1U 0) ch q)))
     (\<lambda>ch p. (a p \<bind> (\<lambda>(l, q). append_line G l ch q)) \<bind> (\<lambda>(ch, q).
        (if IsAACEncoder (en_audio_encoder c) then do { e \<leftarrow> make_aac_parser G 0; add_after G e ch q } else Some (ch, q))
          \<bind> (\<lambda>(ch, q). add_tee G (AUDIO_TEE_NAME_1U 0) ch q)))"
  by (intro ext) (simp add: Encoding_BuildConverter_def two_channels_def Option.bind_assoc split_def)

text \<open>A connector whose channels continue the given ones.\<close>

definition conn_ok :: "('u, 'm) AudioVideoConfig_scheme \<Rightarrow> string \<Rightarrow> string \<Rightarrow> Connector \<Rightarrow> pipeline \<Rightarrow> bool" where
  "conn_ok c v a conn p \<longleftrightarrow>
     (av_have_video c \<longrightarrow> (\<exists>n\<in>names p. cn_video conn = Some n \<and> (v, n) \<in> (links p)\<^sup>*))
     \<and> (av_have_audio c \<longrightarrow> (\<exists>n\<in>names p. cn_audio conn = Some n \<and> (a, n) \<in> (links p)\<^sup>*))"

definition conn_stage ::
  "(string \<times> nat) set \<Rightarrow> bool \<Rightarrow> ('u, 'm) AudioVideoConfig_scheme \<Rightarrow> string \<Rightarrow> string \<Rightarrow> pipeline \<Rightarrow> (Connector \<times> pipeline) option \<Rightarrow> bool" where
  "conn_stage F ok c v a p r \<longleftrightarrow>
     (if ok then \<exists>conn q. r = Some (conn, q) \<and> adds F p q \<and> conn_ok c v a conn q else r = None)"

lemma conn_ok_adds: "conn_ok c v a conn p \<Longrightarrow> adds F p q \<Longrightarrow> conn_ok c v a conn q"
  unfolding conn_ok_def using adds_names adds_path by blast

lemma conn_stage_bind:
  assumes "conn_stage F ok c v a p r"
    "\<And>conn q. ok \<Longrightarrow> adds F p q \<Longrightarrow> conn_ok c v a conn q \<Longrightarrow> conn_stage F' ok' c v a q (k conn q)"
  shows "conn_stage (F \<union> F') (ok \<and> ok') c v a p (r \<bind> (\<lambda>(conn, q). k conn q))"
proof (cases ok)
  case True
  then obtain conn q where r: "r = Some (conn, q)" "adds F p q" "conn_ok c v a conn q"
    using assms(1) by (auto simp: conn_stage_def)
  have "conn_stage F' ok' c v a q (k conn q)" by (rule assms(2) [OF True r(2,3)])
  then show ?thesis using r(1) True adds_trans [OF r(2)]
    by (cases ok') (auto simp: conn_stage_def)
qed (use assms(1) in \<open>simp add: conn_stage_def\<close>)

lemma two_channels_stage:
  assumes conn: "conn_ok c v a conn p"
    and V: "\<And>n q. n \<in> names q \<Longrightarrow> fresh FV q \<Longrightarrow> chan FV okV n q (V (Some n) q)"
    and A: "\<And>n q. n \<in> names q \<Longrightarrow> fresh FA q \<Longrightarrow> chan FA okA n q (A (Some n) q)"
    and F: "fresh FV p" "fresh FA p" "FV \<inter> FA = {}"
  shows "conn_stage (FV \<union> FA) ((av_have_video c \<longrightarrow> okV) \<and> (av_have_audio c \<longrightarrow> okA)) c v a p (two_channels c V A conn p)"
  unfolding two_channels_def
proof (rule conn_stage_bind)
  show "conn_stage FV (av_have_video c \<longrightarrow> okV) c v a p
     (if av_have_video c then V (cn_video conn) p \<bind> (\<lambda>(channel, p). Some (conn\<lparr>cn_video := channel\<rparr>, p)) else Some (conn, p))"
  proof (cases "av_have_video c")
    case True
    with conn obtain n where n: "n \<in> names p" "cn_video conn = Some n" "(v, n) \<in> (links p)\<^sup>*" by (auto simp: conn_ok_def)
    have ch: "chan FV okV n p (V (Some n) p)" by (rule V [OF n(1) F(1)])
    show ?thesis
    proof (cases okV)
      case okV: True
      obtain m q where m: "V (Some n) p = Some (Some m, q)" "adds FV p q" "m \<in> names q" "(n, m) \<in> (links q)\<^sup>*"
        using ch okV by (rule chanE)
      have "(v, m) \<in> (links q)\<^sup>*" using adds_path [OF m(2) n(3)] m(4) by (rule rtrancl_trans)
      with conn_ok_adds [OF conn m(2)] m n(2) okV show ?thesis by (simp add: conn_stage_def conn_ok_def True)
    qed (use ch n(2) True in \<open>simp add: conn_stage_def chan_None\<close>)
  qed (use conn in \<open>simp add: conn_stage_def\<close>)
next
  fix conn q
  assume q: "adds FV p q" "conn_ok c v a conn q"
  have fresh: "fresh FA q" using fresh_adds [OF F(2) q(1)] F(3) by (simp add: Int_commute)
  show "conn_stage FA (av_have_audio c \<longrightarrow> okA) c v a q
     (if av_have_audio c then A (cn_audio conn) q \<bind> (\<lambda>(channel, p). Some (conn\<lparr>cn_audio := channel\<rparr>, p)) else Some (conn, q))"
  proof (cases "av_have_audio c")
    case True
    with q(2) obtain n where n: "n \<in> names q" "cn_audio conn = Some n" "(a, n) \<in> (links q)\<^sup>*" by (auto simp: conn_ok_def)
    have ch: "chan FA okA n q (A (Some n) q)" by (rule A [OF n(1) fresh])
    show ?thesis
    proof (cases okA)
      case okA: True
      obtain m r where m: "A (Some n) q = Some (Some m, r)" "adds FA q r" "m \<in> names r" "(n, m) \<in> (links r)\<^sup>*"
        using ch okA by (rule chanE)
      have "(a, m) \<in> (links r)\<^sup>*" using adds_path [OF m(2) n(3)] m(4) by (rule rtrancl_trans)
      with conn_ok_adds [OF q(2) m(2)] m n(2) okA show ?thesis by (simp add: conn_stage_def conn_ok_def True)
    qed (use ch n(2) True in \<open>simp add: conn_stage_def chan_None\<close>)
  qed (use q in \<open>simp add: conn_stage_def\<close>)
qed

subsection \<open>Inputs\<close>

text \<open>Addresses for which there is a source.\<close>

definition src_ok :: "'u gst_env \<Rightarrow> 'u InputUri \<Rightarrow> bool" where
  "src_ok G uri = (case url_scheme (ge_url G) (iu_input uri) of
     Scheme_udp \<Rightarrow> ge_host G (url_host (ge_url G) (iu_input uri)) \<noteq> None
   | Scheme_tcp \<Rightarrow> ge_host G (url_host (ge_url G) (iu_input uri)) \<noteq> None
   | Scheme_unknown \<Rightarrow> False | Scheme_dev \<Rightarrow> False | _ \<Rightarrow> True)"

definition makes :: "bool \<Rightarrow> string \<Rightarrow> element option \<Rightarrow> bool" where
  "makes ok name e \<longleftrightarrow> (if ok then \<exists>x. e = Some x \<and> el_name x = name else e = None)"

lemma make_src_makes: "gst_complete G \<Longrightarrow> makes (src_ok G uri) (SRC_NAME_1U i) (make_src G uri i t)"
  by (cases "ge_host G (url_host (ge_url G) (iu_input uri))")
     (auto simp: makes_def src_ok_def make_src_def make_file_src_def make_http_src_def make_udp_src_def make_rtmp_src_def
      make_tcp_server_src_def Let_def split: scheme.split)

definition src_made :: "bool \<Rightarrow> (pipeline \<Rightarrow> (string option \<times> pipeline) option) \<Rightarrow> bool" where
  "src_made ok src \<longleftrightarrow> (if ok then \<exists>q. src pipeline0 = Some (Some (name_1u ''src'' 0), q) \<and> names q = {name_1u ''src'' 0}
     else src pipeline0 = None)"

lemma pad_names [simp]:
  "pl_names (HandleInputSrcPadCreated G e sch i p) = pl_names p" "pl_names (HandleOutputSinkPadCreated G e sch i p) = pl_names p"
  "pl_links (HandleInputSrcPadCreated G e sch i p) = pl_links p" "pl_links (HandleOutputSinkPadCreated G e sch i p) = pl_links p"
  by (simp_all add: HandleInputSrcPadCreated_def HandleOutputSinkPadCreated_def)

lemma pipeline0_names [simp]: "pl_names pipeline0 = []"
  by (simp add: pipeline0_def pl_names_def)

lemma SrcDecode_src_made:
  assumes "gst_complete G"
  shows "src_made (\<exists>uri rest. cf_input c = uri # rest \<and> src_ok G uri) (SrcDecode_BuildInputSrc G c)"
proof (cases "cf_input c")
  case (Cons uri rest)
  have "makes (src_ok G uri) (SRC_NAME_1U 0) (make_src G uri 0 src_timeout_sec)" by (rule make_src_makes [OF assms])
  then show ?thesis using Cons
    by (auto simp: src_made_def SrcDecode_BuildInputSrc_def makes_def ElementAdd_complete [OF assms] Let_def SRC_NAME_1U_def)
qed (simp add: src_made_def SrcDecode_BuildInputSrc_def)

lemma Playlist_src_made: "gst_complete G \<Longrightarrow> src_made True (Playlist_BuildInputSrc G)"
  by (simp add: src_made_def Playlist_BuildInputSrc_def make_app_src_def ElementAdd_complete Let_def SRC_NAME_1U_def)

lemma decode_input:
  assumes "gst_complete G" "src_made ok src"
  shows "if ok then \<exists>p. SrcDecode_BuildInput G src pipeline0 = Some (\<lparr>cn_video = None, cn_audio = None\<rparr>, p)
      \<and> names p = {name_1u ''src'' 0, name_1u ''decodebin'' 0} else SrcDecode_BuildInput G src pipeline0 = None"
proof (cases ok)
  case True
  then obtain q where q: "src pipeline0 = Some (Some (name_1u ''src'' 0), q)" "names q = {name_1u ''src'' 0}"
    using assms(2) by (auto simp: src_made_def)
  define e where "e = \<lparr>el_plugin = ''decodebin'', el_name = name_1u ''decodebin'' 0, el_props = []\<rparr>"
  define q1 where "q1 = q\<lparr>pl_elements := pl_elements q @ [e]\<rparr>"
  have n: "names q1 = {name_1u ''decodebin'' 0, name_1u ''src'' 0}" using q(2) by (simp add: q1_def e_def)
  have "ElementAdd G e q = Some q1" using q(2) by (simp add: ElementAdd_complete [OF assms(1)] q1_def e_def)
  moreover have "ElementLink G (Some (name_1u ''src'' 0)) (Some (name_1u ''decodebin'' 0)) q1
      = Some (q1\<lparr>pl_links := pl_links q1 @ [(name_1u ''src'' 0, name_1u ''decodebin'' 0)]\<rparr>)"
    by (rule ElementLink_complete [OF assms(1)]) (simp_all add: n)
  ultimately show ?thesis using True q n assms(1)
    by (simp add: SrcDecode_BuildInput_def DECODEBIN_NAME_1U_def Let_def insert_commute flip: e_def) (simp add: e_def)
qed (use assms(2) in \<open>simp add: src_made_def SrcDecode_BuildInput_def\<close>)

abbreviation video_udb :: string where "video_udb \<equiv> name_1u ''udb_conn_video'' 0"

abbreviation audio_udb :: string where "audio_udb \<equiv> name_1u ''udb_conn_audio'' 0"

lemma udb_stage:
  assumes "gst_complete G" "makes okv video_udb mkv" "makes oka audio_udb mka"
    and "fresh {(''udb_conn_video'', 0), (''udb_conn_audio'', 0)} p"
  shows "conn_stage {(''udb_conn_video'', 0), (''udb_conn_audio'', 0)} ((av_have_video c \<longrightarrow> okv) \<and> (av_have_audio c \<longrightarrow> oka)) c
     video_udb audio_udb p (SrcDecode_BuildUdbConnections G c mkv mka \<lparr>cn_video = None, cn_audio = None\<rparr> p)"
  using assms(2-4)
  by (auto simp: conn_stage_def SrcDecode_BuildUdbConnections_def makes_def ElementAdd_complete [OF assms(1)] adds_def
      conn_ok_def pl_names_def)

subsection \<open>Outputs\<close>

text \<open>Addresses for which there is a sink.\<close>

definition sink_ok :: "'u gst_env \<Rightarrow> 'u OutputUri \<Rightarrow> bool" where
  "sink_ok G output = (case url_scheme (ge_url G) (ou_output output) of
     Scheme_udp \<Rightarrow> ge_host G (url_host (ge_url G) (ou_output output)) \<noteq> None
   | Scheme_tcp \<Rightarrow> ge_host G (url_host (ge_url G) (ou_output output)) \<noteq> None
   | Scheme_rtmp \<Rightarrow> True
   | Scheme_http \<Rightarrow> ge_file_name G (ou_output output) \<noteq> []
   | _ \<Rightarrow> False)"

text \<open>
  What an output needs: RTP needs known codecs, and for an audio and a video channel an audio codec other
  than MPEG, whose payloader takes the name of the payloader of the video.
\<close>

definition output_ok ::
  "'u gst_env \<Rightarrow> ('u, 'm) AudioVideoConfig_scheme \<Rightarrow> SupportedVideoCodec option \<Rightarrow> SupportedAudioCodec option \<Rightarrow> 'u OutputUri \<Rightarrow> bool" where
  "output_ok G c vc ac output \<longleftrightarrow>
     (if IsDeviceOutUrl (ge_url G) (ou_output output) \<noteq> None then \<not> ge_crit G
      else sink_ok G output \<and> (url_scheme (ge_url G) (ou_output output) = Scheme_udp \<longrightarrow>
        (av_have_video c \<longrightarrow> vc \<noteq> None) \<and> (av_have_audio c \<longrightarrow> ac \<noteq> None)
        \<and> \<not> (av_have_video c \<and> av_have_audio c \<and> ac = Some AUDIO_MPEG_CODEC)))"

lemma make_muxer_makes:
  assumes "gst_complete G"
  shows "makes (sch \<in> {Scheme_rtmp, Scheme_udp, Scheme_tcp, Scheme_http}) (name_1u ''muxer'' i) (make_muxer G sch i)"
  using assms by (cases sch)
    (simp_all add: makes_def make_muxer_def make_flvmux_def make_rtpmux_def make_mpegtsmux_def MUXER_NAME_1U_def)

lemma build_output_makes:
  assumes "gst_complete G"
  shows "makes (sink_ok G output) (name_1u ''sink'' i) (build_output G output i is_vod)"
  using assms by (cases "ge_host G (url_host (ge_url G) (ou_output output))")
    (auto simp: makes_def sink_ok_def build_output_def make_udp_sink_def make_tcp_server_sink_def make_rtmp_sink_def
      make_http_sink_def SINK_NAME_1U_def Let_def split: scheme.split)

lemma video_pay_makes:
  "gst_complete G \<Longrightarrow> makes (vc \<noteq> None) (name_1u ''video_pay'' i) (do { vcodec \<leftarrow> vc; video_pay_of G vcodec i })"
  by (cases vc) (auto simp: makes_def video_pay_of_def make_h264_pay_def make_h265_pay_def make_mpeg2_pay_def
      VIDEO_PAY_NAME_1U_def split: SupportedVideoCodec.split)

lemma audio_pay_makes:
  "gst_complete G \<Longrightarrow> makes (ac \<noteq> None) (name_1u (if ac = Some AUDIO_MPEG_CODEC then ''video_pay'' else ''audio_pay'') i)
     (do { acodec \<leftarrow> ac; audio_pay_of G acodec i })"
  by (cases ac) (auto simp: makes_def audio_pay_of_def make_aac_pay_def make_ac3_pay_def make_mpeg2_pay_def
      VIDEO_PAY_NAME_1U_def AUDIO_PAY_NAME_1U_def split: SupportedAudioCodec.split)

lemma add_after_clash: "gst_complete G \<Longrightarrow> el_name e \<in> names p \<Longrightarrow> add_after G e a p = None"
  by (simp add: add_after_def ElementAdd_complete)

text \<open>The names a branch adds.\<close>

definition branch_names :: "string \<Rightarrow> string \<Rightarrow> bool \<Rightarrow> nat \<Rightarrow> (string \<times> nat) set" where
  "branch_names qs ps rtp i = insert (qs, i) (if rtp then {(ps, i)} else {})"

lemma chan_makes:
  assumes "gst_complete G" "a \<in> names p" "makes okp (name_1u s i) e"
  shows "chan {(s, i)} (okp \<and> name_1u s i \<notin> names p) a p (do { x \<leftarrow> e; add_after G x (Some a) p })"
proof (cases "okp \<and> name_1u s i \<notin> names p")
  case True
  then obtain x where x: "e = Some x" "el_name x = name_1u s i" using assms(3) by (auto simp: makes_def)
  have "fresh {(s, i)} p" using True by simp
  from chan_add_after [OF assms(1,2) x(2) this] show ?thesis using True x(1) by simp
next
  case False
  then show ?thesis using assms(3) add_after_clash [OF assms(1)]
    by (cases okp) (auto simp: chan_None makes_def)
qed

lemma output_branch_chan:
  assumes "gst_complete G" "tee \<in> names p" "fresh {(qs, i)} p" "qs \<noteq> ps" "makes okp (name_1u ps i) pay"
  shows "chan (branch_names qs ps rtp i) (rtp \<longrightarrow> okp \<and> name_1u ps i \<notin> names p) tee p
     (do { tee_queue \<leftarrow> make_element G ''queue'' (name_1u qs i);
           (next, p) \<leftarrow> add_after G tee_queue (Some tee) p;
           (if rtp then do { rtp_pay \<leftarrow> pay; add_after G rtp_pay next p } else Some (next, p)) })"
proof -
  define e where "e = \<lparr>el_plugin = ''queue'', el_name = name_1u qs i, el_props = []\<rparr>"
  define k where "k = (\<lambda>next p. if rtp then do { rtp_pay \<leftarrow> pay; add_after G rtp_pay next p } else Some (next, p))"
  have "chan {(qs, i)} True tee p (add_after G e (Some tee) p)"
    by (rule chan_add_after [OF assms(1,2) _ assms(3)]) (simp add: e_def)
  moreover have "chan (if rtp then {(ps, i)} else {}) (rtp \<longrightarrow> okp \<and> name_1u ps i \<notin> names p) n q (k (Some n) q)"
    if "adds {(qs, i)} p q" "n \<in> names q" for n q
  proof -
    have "name_1u ps i \<in> names q \<longleftrightarrow> name_1u ps i \<in> names p" using that(1) assms(4) by (auto simp: adds_def)
    then show ?thesis using chan_makes [OF assms(1) that(2) assms(5)] that(2)
      by (auto simp: k_def intro: chan_return)
  qed
  ultimately have "chan ({(qs, i)} \<union> (if rtp then {(ps, i)} else {})) (True \<and> (rtp \<longrightarrow> okp \<and> name_1u ps i \<notin> names p)) tee p
      (add_after G e (Some tee) p \<bind> (\<lambda>(b, q). k b q))"
    by (rule chan_bind)
  then show ?thesis using assms(1) by (simp add: branch_names_def k_def e_def)
qed

lemma output_branch_spec:
  assumes "gst_complete G" "tee \<in> names p" "mux \<in> names p" "fresh {(qs, i)} p" "qs \<noteq> ps" "makes okp (name_1u ps i) pay"
  shows "if rtp \<longrightarrow> okp \<and> name_1u ps i \<notin> names p
     then \<exists>q. output_branch G (name_1u qs i) pay rtp (Some tee) mux p = Some q \<and> adds (branch_names qs ps rtp i) p q
        \<and> (tee, mux) \<in> (links q)\<^sup>* \<and> (rtp \<longrightarrow> name_1u ps i \<in> names q)
     else output_branch G (name_1u qs i) pay rtp (Some tee) mux p = None"
proof -
  define r where "r = (do { tee_queue \<leftarrow> make_element G ''queue'' (name_1u qs i);
           (next, p) \<leftarrow> add_after G tee_queue (Some tee) p;
           (if rtp then do { rtp_pay \<leftarrow> pay; add_after G rtp_pay next p } else Some (next, p)) })"
  have eq: "output_branch G (name_1u qs i) pay rtp (Some tee) mux p = r \<bind> (\<lambda>(next, p). ElementLink G next (Some mux) p)"
    using assms(1) by (simp add: output_branch_def r_def Option.bind_assoc split_def)
  have ch: "chan (branch_names qs ps rtp i) (rtp \<longrightarrow> okp \<and> name_1u ps i \<notin> names p) tee p r"
    unfolding r_def by (rule output_branch_chan [OF assms(1,2,4-6)])
  show ?thesis
  proof (cases "rtp \<longrightarrow> okp \<and> name_1u ps i \<notin> names p")
    case True
    obtain n q where q: "r = Some (Some n, q)" "adds (branch_names qs ps rtp i) p q" "n \<in> names q" "(tee, n) \<in> (links q)\<^sup>*"
      using ch True by (rule chanE)
    let ?q = "q\<lparr>pl_links := pl_links q @ [(n, mux)]\<rparr>"
    have "ElementLink G (Some n) (Some mux) q = Some ?q"
      by (rule ElementLink_complete [OF assms(1) q(3) adds_names [OF q(2) assms(3)]])
    moreover have "(tee, mux) \<in> (links ?q)\<^sup>*"
      using rtrancl_mono [of "links q" "links ?q"] q(4) by (auto intro: rtrancl_into_rtrancl)
    moreover have "name_1u ps i \<in> names q" if rtp: rtp
    proof -
      obtain x where x: "pay = Some x" "el_name x = name_1u ps i" using True rtp assms(6) by (auto simp: makes_def)
      from q(1) show ?thesis using rtp x
        by (auto simp: r_def bind_eq_Some_conv add_after_def ElementAdd_def ElementLink_def split: if_splits)
    qed
    ultimately show ?thesis using True q(1,2) eq by (auto simp: adds_def)
  next
    case False
    then show ?thesis using ch eq by (simp add: chan_None)
  qed
qed

lemma opt_branch_spec:
  assumes "gst_complete G" "h \<Longrightarrow> tee = Some t \<and> t \<in> names p" "mux \<in> names p" "fresh {(qs, i)} p" "qs \<noteq> ps"
    "makes okp (name_1u ps i) pay"
  shows "if h \<and> rtp \<longrightarrow> okp \<and> name_1u ps i \<notin> names p
     then \<exists>q. (if h then output_branch G (name_1u qs i) pay rtp tee mux p else Some p) = Some q
        \<and> adds (branch_names qs ps rtp i) p q \<and> (h \<longrightarrow> (t, mux) \<in> (links q)\<^sup>*)
        \<and> (name_1u ps i \<in> names q \<longleftrightarrow> h \<and> rtp \<or> name_1u ps i \<in> names p)
     else (if h then output_branch G (name_1u qs i) pay rtp tee mux p else Some p) = None"
proof (cases h)
  case True
  note h = assms(2) [OF this]
  note spec = output_branch_spec [OF assms(1) conjunct2 [OF h] assms(3-6), of rtp]
  show ?thesis
  proof (cases "rtp \<longrightarrow> okp \<and> name_1u ps i \<notin> names p")
    case True
    with spec obtain q where q: "output_branch G (name_1u qs i) pay rtp (Some t) mux p = Some q"
        "adds (branch_names qs ps rtp i) p q" "(t, mux) \<in> (links q)\<^sup>*" "rtp \<longrightarrow> name_1u ps i \<in> names q" by auto
    have "name_1u ps i \<in> names q \<longleftrightarrow> rtp \<or> name_1u ps i \<in> names p"
      using q(2,4) assms(5) by (cases rtp) (auto simp: adds_def branch_names_def)
    then show ?thesis using True h \<open>h\<close> q by simp
  next
    case False
    with spec have "output_branch G (name_1u qs i) pay rtp (Some t) mux p = None" by (simp split: if_splits)
    then show ?thesis using False h \<open>h\<close> by auto
  qed
qed simp

definition output_names :: "nat \<Rightarrow> (string \<times> nat) set" where
  "output_names i = {''muxer'', ''video_tee_queue'', ''audio_tee_queue'', ''video_pay'', ''audio_pay'', ''sink''} \<times> {i}"

lemma output_names_eq:
  "output_names i = {(''muxer'', i), (''video_tee_queue'', i), (''audio_tee_queue'', i), (''video_pay'', i), (''audio_pay'', i), (''sink'', i)}"
  by (auto simp: output_names_def)

text \<open>What an output of the pipeline has: its sink, behind the channels of the connector.\<close>

definition served ::
  "'u gst_env \<Rightarrow> ('u, 'm) AudioVideoConfig_scheme \<Rightarrow> string \<Rightarrow> string \<Rightarrow> nat \<Rightarrow> 'u OutputUri \<Rightarrow> pipeline \<Rightarrow> bool" where
  "served G c v a i output p \<longleftrightarrow> (IsDeviceOutUrl (ge_url G) (ou_output output) = None \<longrightarrow>
     SINK_NAME_1U i \<in> names p \<and> (av_have_video c \<longrightarrow> (v, SINK_NAME_1U i) \<in> (links p)\<^sup>*)
     \<and> (av_have_audio c \<longrightarrow> (a, SINK_NAME_1U i) \<in> (links p)\<^sup>*))"

lemma served_adds: "served G c v a i output p \<Longrightarrow> adds F p q \<Longrightarrow> served G c v a i output q"
  unfolding served_def using adds_names adds_path by blast

lemma sink_spec:
  assumes "gst_complete G" "mux \<in> names p" "fresh {(''sink'', i)} p"
  shows "if sink_ok G output
     then \<exists>q. do { (sink, p) \<leftarrow> BuildGenericOutput G vod output i p; p \<leftarrow> ElementAdd G sink p;
                   ElementLink G (Some mux) (Some (el_name sink)) p } = Some q
        \<and> adds {(''sink'', i)} p q \<and> SINK_NAME_1U i \<in> names q \<and> (mux, SINK_NAME_1U i) \<in> links q
     else do { (sink, p) \<leftarrow> BuildGenericOutput G vod output i p; p \<leftarrow> ElementAdd G sink p;
               ElementLink G (Some mux) (Some (el_name sink)) p } = None"
proof (cases "sink_ok G output")
  case True
  then obtain e where e: "build_output G output i vod = Some e" "el_name e = name_1u ''sink'' i"
    using build_output_makes [OF assms(1), of "output" i vod] by (auto simp: makes_def)
  define p1 where "p1 = HandleOutputSinkPadCreated G e (url_scheme (ge_url G) (ou_output output)) i p"
  define p2 where "p2 = p1\<lparr>pl_elements := pl_elements p1 @ [e]\<rparr>"
  have n: "names p2 = insert (name_1u ''sink'' i) (names p)" "pl_links p2 = pl_links p"
    by (simp_all add: p2_def p1_def e(2))
  have "ElementAdd G e p1 = Some p2" using assms(3) e(2) by (simp add: ElementAdd_complete [OF assms(1)] p2_def p1_def)
  moreover have "ElementLink G (Some mux) (Some (el_name e)) p2 = Some (p2\<lparr>pl_links := pl_links p2 @ [(mux, el_name e)]\<rparr>)"
    by (rule ElementLink_complete [OF assms(1)]) (use n e(2) assms(2) in auto)
  ultimately show ?thesis using True e n
    by (auto simp: BuildGenericOutput_def CreateSink_def adds_def SINK_NAME_1U_def simp flip: p1_def)
next
  case False
  then show ?thesis using build_output_makes [OF assms(1), of "output" i vod]
    by (simp add: makes_def BuildGenericOutput_def CreateSink_def)
qed

text \<open>The part of an output before its sink, by the addresses it can have.\<close>

lemma adds_subset: "adds F p q \<Longrightarrow> adds F' q r \<Longrightarrow> F \<union> F' \<subseteq> F'' \<Longrightarrow> adds F'' p r"
  using adds_trans adds_mono by blast

lemma fresh_mono: "fresh F p \<Longrightarrow> F' \<subseteq> F \<Longrightarrow> fresh F' p"
  unfolding fresh_def by blast

lemma branches_spec:
  assumes G: "gst_complete G" and conn: "conn_ok c v a conn p" and mux: "mux \<in> names p"
    and f: "fresh {(''video_tee_queue'', i), (''audio_tee_queue'', i), (''video_pay'', i), (''audio_pay'', i)} p"
  shows "if rtp \<longrightarrow> (av_have_video c \<longrightarrow> vc \<noteq> None) \<and> (av_have_audio c \<longrightarrow> ac \<noteq> None)
        \<and> \<not> (av_have_video c \<and> av_have_audio c \<and> ac = Some AUDIO_MPEG_CODEC)
     then \<exists>q. do { p \<leftarrow> (if av_have_video c then output_branch G (VIDEO_TEE_QUEUE_NAME_1U i)
                (do { vcodec \<leftarrow> vc; video_pay_of G vcodec i }) rtp (cn_video conn) mux p else Some p);
              (if av_have_audio c then output_branch G (AUDIO_TEE_QUEUE_NAME_1U i)
                (do { acodec \<leftarrow> ac; audio_pay_of G acodec i }) rtp (cn_audio conn) mux p else Some p) } = Some q
        \<and> adds {(''video_tee_queue'', i), (''audio_tee_queue'', i), (''video_pay'', i), (''audio_pay'', i)} p q
        \<and> (av_have_video c \<longrightarrow> (v, mux) \<in> (links q)\<^sup>*) \<and> (av_have_audio c \<longrightarrow> (a, mux) \<in> (links q)\<^sup>*)
     else do { p \<leftarrow> (if av_have_video c then output_branch G (VIDEO_TEE_QUEUE_NAME_1U i)
                (do { vcodec \<leftarrow> vc; video_pay_of G vcodec i }) rtp (cn_video conn) mux p else Some p);
              (if av_have_audio c then output_branch G (AUDIO_TEE_QUEUE_NAME_1U i)
                (do { acodec \<leftarrow> ac; audio_pay_of G acodec i }) rtp (cn_audio conn) mux p else Some p) } = None"
proof -
  define V where "V = (\<lambda>p. if av_have_video c then output_branch G (VIDEO_TEE_QUEUE_NAME_1U i)
                (do { vcodec \<leftarrow> vc; video_pay_of G vcodec i }) rtp (cn_video conn) mux p else Some p)"
  define A where "A = (\<lambda>p. if av_have_audio c then output_branch G (AUDIO_TEE_QUEUE_NAME_1U i)
                (do { acodec \<leftarrow> ac; audio_pay_of G acodec i }) rtp (cn_audio conn) mux p else Some p)"
  define aps where "aps = (if ac = Some AUDIO_MPEG_CODEC then ''video_pay'' else ''audio_pay'')"
  obtain tv where tv: "av_have_video c \<Longrightarrow> cn_video conn = Some tv \<and> tv \<in> names p \<and> (v, tv) \<in> (links p)\<^sup>*"
    using conn by (auto simp: conn_ok_def)
  obtain ta where ta: "av_have_audio c \<Longrightarrow> cn_audio conn = Some ta \<and> ta \<in> names p \<and> (a, ta) \<in> (links p)\<^sup>*"
    using conn by (auto simp: conn_ok_def)
  have fv: "fresh {(''video_tee_queue'', i)} p" using f by simp
  have V: "if av_have_video c \<and> rtp \<longrightarrow> vc \<noteq> None
     then \<exists>q. V p = Some q \<and> adds (branch_names ''video_tee_queue'' ''video_pay'' rtp i) p q
        \<and> (av_have_video c \<longrightarrow> (tv, mux) \<in> (links q)\<^sup>*) \<and> (name_1u ''video_pay'' i \<in> names q \<longleftrightarrow> av_have_video c \<and> rtp)
     else V p = None"
    using opt_branch_spec [OF G _ mux fv _ video_pay_makes [OF G, of vc], where h = "av_have_video c" and tee = "cn_video conn" and t = tv
        and rtp = rtp] tv f
    by (auto simp: V_def VIDEO_TEE_QUEUE_NAME_1U_def split: if_splits)
  have A: "if av_have_audio c \<and> rtp \<longrightarrow> ac \<noteq> None \<and> name_1u aps i \<notin> names q
     then \<exists>r. A q = Some r \<and> adds (branch_names ''audio_tee_queue'' aps rtp i) q r
        \<and> (av_have_audio c \<longrightarrow> (ta, mux) \<in> (links r)\<^sup>*)
     else A q = None" if q: "adds (branch_names ''video_tee_queue'' ''video_pay'' rtp i) p q" for q
  proof -
    have fa: "fresh {(''audio_tee_queue'', i)} q"
      by (rule fresh_adds [OF _ q]) (use f in \<open>auto simp: branch_names_def\<close>)
    have ta': "av_have_audio c \<Longrightarrow> cn_audio conn = Some ta \<and> ta \<in> names q" using ta adds_names [OF q] by blast
    have mk: "makes (ac \<noteq> None) (name_1u aps i) (do { acodec \<leftarrow> ac; audio_pay_of G acodec i })"
      unfolding aps_def by (rule audio_pay_makes [OF G])
    have ne: "''audio_tee_queue'' \<noteq> aps" by (simp add: aps_def)
    show ?thesis
      using opt_branch_spec [OF G _ adds_names [OF q mux] fa ne mk, where h = "av_have_audio c" and tee = "cn_audio conn"
          and t = ta and rtp = rtp] ta'
      by (auto simp: A_def AUDIO_TEE_QUEUE_NAME_1U_def split: if_splits)
  qed
  have goal: "if rtp \<longrightarrow> (av_have_video c \<longrightarrow> vc \<noteq> None) \<and> (av_have_audio c \<longrightarrow> ac \<noteq> None)
        \<and> \<not> (av_have_video c \<and> av_have_audio c \<and> ac = Some AUDIO_MPEG_CODEC)
     then \<exists>q. V p \<bind> A = Some q
        \<and> adds {(''video_tee_queue'', i), (''audio_tee_queue'', i), (''video_pay'', i), (''audio_pay'', i)} p q
        \<and> (av_have_video c \<longrightarrow> (v, mux) \<in> (links q)\<^sup>*) \<and> (av_have_audio c \<longrightarrow> (a, mux) \<in> (links q)\<^sup>*)
     else V p \<bind> A = None"
  proof (cases "av_have_video c \<and> rtp \<longrightarrow> vc \<noteq> None")
    case True
    then obtain q where q: "V p = Some q" "adds (branch_names ''video_tee_queue'' ''video_pay'' rtp i) p q"
        "av_have_video c \<longrightarrow> (tv, mux) \<in> (links q)\<^sup>*" "name_1u ''video_pay'' i \<in> names q \<longleftrightarrow> av_have_video c \<and> rtp"
      using V by auto
    have apay: "name_1u ''audio_pay'' i \<notin> names q" using f q(2) by (auto simp: adds_def branch_names_def split: if_splits)
    have clash: "name_1u aps i \<notin> names q \<longleftrightarrow> \<not> (av_have_video c \<and> rtp \<and> ac = Some AUDIO_MPEG_CODEC)"
      using q(4) apay by (auto simp: aps_def)
    show ?thesis
    proof (cases "av_have_audio c \<and> rtp \<longrightarrow> ac \<noteq> None \<and> name_1u aps i \<notin> names q")
      case ok: True
      then obtain r where r: "A q = Some r" "adds (branch_names ''audio_tee_queue'' aps rtp i) q r"
          "av_have_audio c \<longrightarrow> (ta, mux) \<in> (links r)\<^sup>*"
        using A [OF q(2)] by auto
      have "adds {(''video_tee_queue'', i), (''audio_tee_queue'', i), (''video_pay'', i), (''audio_pay'', i)} p r"
        by (rule adds_subset [OF q(2) r(2)]) (auto simp: branch_names_def aps_def)
      moreover have "av_have_video c \<longrightarrow> (v, mux) \<in> (links r)\<^sup>*"
        using tv q(3) adds_path [OF q(2)] adds_path [OF r(2)] by (meson rtrancl_trans)
      moreover have "av_have_audio c \<longrightarrow> (a, mux) \<in> (links r)\<^sup>*"
        using ta r(3) adds_path [OF q(2)] adds_path [OF r(2)] by (meson rtrancl_trans)
      ultimately show ?thesis using q(1) r(1) True ok clash by auto
    next
      case bad: False
      then have "A q = None" using A [OF q(2)] by auto
      then show ?thesis using q(1) bad clash by auto
    qed
  next
    case False
    then show ?thesis using V by auto
  qed
  then show ?thesis unfolding V_def A_def .
qed

lemma decode_output_spec:
  assumes G: "gst_complete G" and conn: "conn_ok c v a conn p" and f: "fresh (output_names i) p"
  shows "if output_ok G c vc ac output
     then \<exists>q. decode_output G vod c vc ac conn i output p = Some q \<and> adds (output_names i) p q \<and> served G c v a i output q
     else decode_output G vod c vc ac conn i output p = None"
proof (cases "IsDeviceOutUrl (ge_url G) (ou_output output)")
  case (Some dt)
  then show ?thesis by (simp add: decode_output_def output_ok_def served_def)
next
  case None
  define sch where "sch = url_scheme (ge_url G) (ou_output output)"
  show ?thesis
  proof (cases "sch \<in> {Scheme_rtmp, Scheme_udp, Scheme_tcp, Scheme_http}")
    case False
    then have "make_muxer G sch i = None" using make_muxer_makes [OF G, of sch i] by (simp add: makes_def)
    moreover have "\<not> sink_ok G output" using False by (auto simp: sink_ok_def sch_def split: scheme.split)
    ultimately show ?thesis using None by (simp add: decode_output_def output_ok_def Let_def sch_def)
  next
    case True
    then obtain m where m: "make_muxer G sch i = Some m" "el_name m = name_1u ''muxer'' i"
      using make_muxer_makes [OF G, of sch i] by (auto simp: makes_def)
    define p1 where "p1 = p\<lparr>pl_elements := pl_elements p @ [m]\<rparr>"
    have p1: "names p1 = insert (name_1u ''muxer'' i) (names p)" by (simp add: p1_def m(2))
    have add: "ElementAdd G m p = Some p1" using f m(2) by (simp add: ElementAdd_complete [OF G] p1_def output_names_eq)
    have adds1: "adds {(''muxer'', i)} p p1" using p1 by (auto simp: adds_def p1_def)
    let ?F = "{(''video_tee_queue'', i), (''audio_tee_queue'', i), (''video_pay'', i), (''audio_pay'', i)}"
    have f1: "fresh ?F p1" "fresh {(''sink'', i)} p1"
      by (rule fresh_adds [OF _ adds1]; use f in \<open>auto simp: output_names_eq\<close>)+
    let ?ok = "sch = Scheme_udp \<longrightarrow> (av_have_video c \<longrightarrow> vc \<noteq> None) \<and> (av_have_audio c \<longrightarrow> ac \<noteq> None)
        \<and> \<not> (av_have_video c \<and> av_have_audio c \<and> ac = Some AUDIO_MPEG_CODEC)"
    define B where "B = do { p \<leftarrow> (if av_have_video c then output_branch G (VIDEO_TEE_QUEUE_NAME_1U i)
                (do { vcodec \<leftarrow> vc; video_pay_of G vcodec i }) (sch = Scheme_udp) (cn_video conn) (el_name m) p1 else Some p1);
              (if av_have_audio c then output_branch G (AUDIO_TEE_QUEUE_NAME_1U i)
                (do { acodec \<leftarrow> ac; audio_pay_of G acodec i }) (sch = Scheme_udp) (cn_audio conn) (el_name m) p else Some p) }"
    define S where "S = (\<lambda>p. do { (sink, p) \<leftarrow> BuildGenericOutput G vod output i p; p \<leftarrow> ElementAdd G sink p;
                   ElementLink G (Some (el_name m)) (Some (el_name sink)) p })"
    have eq: "decode_output G vod c vc ac conn i output p = B \<bind> S"
      using None m(1) add by (simp add: decode_output_def B_def S_def Let_def Option.bind_assoc flip: sch_def)
    have B: "if ?ok then \<exists>q. B = Some q \<and> adds ?F p1 q \<and> (av_have_video c \<longrightarrow> (v, el_name m) \<in> (links q)\<^sup>*)
          \<and> (av_have_audio c \<longrightarrow> (a, el_name m) \<in> (links q)\<^sup>*) else B = None"
      unfolding B_def
      by (rule branches_spec [OF G conn_ok_adds [OF conn adds1] _ f1(1)]) (simp add: p1 m(2))
    show ?thesis
    proof (cases ?ok)
      case True
      then obtain q where q: "B = Some q" "adds ?F p1 q" "av_have_video c \<longrightarrow> (v, el_name m) \<in> (links q)\<^sup>*"
          "av_have_audio c \<longrightarrow> (a, el_name m) \<in> (links q)\<^sup>*" using B by auto
      have "el_name m \<in> names q" by (rule adds_names [OF q(2)]) (simp add: p1 m(2))
      moreover have "fresh {(''sink'', i)} q" by (rule fresh_adds [OF f1(2) q(2)]) auto
      ultimately have S: "if sink_ok G output then \<exists>r. S q = Some r \<and> adds {(''sink'', i)} q r \<and> SINK_NAME_1U i \<in> names r
            \<and> (el_name m, SINK_NAME_1U i) \<in> links r else S q = None"
        unfolding S_def by (rule sink_spec [OF G])
      show ?thesis
      proof (cases "sink_ok G output")
        case ok: True
        with S obtain r where r: "S q = Some r" "adds {(''sink'', i)} q r" "SINK_NAME_1U i \<in> names r"
            "(el_name m, SINK_NAME_1U i) \<in> links r" by auto
        have "adds (output_names i) p r"
          by (rule adds_subset [OF adds1 adds_subset [OF q(2) r(2) subset_refl]]) (auto simp: output_names_eq)
        moreover have "served G c v a i output r"
          using r(3,4) q(3,4) adds_path [OF r(2)] by (auto simp: served_def intro: rtrancl_into_rtrancl)
        ultimately show ?thesis using eq q(1) r(1) True ok None by (simp add: output_ok_def sch_def)
      qed (use eq q(1) S None in \<open>simp add: output_ok_def\<close>)
    next
      case False
      then have "B = None" using B by argo
      then show ?thesis using eq False None by (auto simp: output_ok_def sch_def)
    qed
  qed
qed

lemma outputs_spec:
  assumes "gst_complete G" "conn_ok c v a conn p" "fresh (\<Union>j\<in>{i..}. output_names j) p"
  shows "if list_all (output_ok G c vc ac) out
     then \<exists>q. each_output (decode_output G vod c vc ac conn) i out p = Some q \<and> adds (\<Union>j\<in>{i..}. output_names j) p q
        \<and> (\<forall>j<length out. served G c v a (i + j) (out ! j) q)
     else each_output (decode_output G vod c vc ac conn) i out p = None"
  using assms(2,3)
proof (induction out arbitrary: i p)
  case (Cons x out)
  have fi: "fresh (output_names i) p" by (rule fresh_mono [OF Cons.prems(2)]) auto
  note one = decode_output_spec [OF assms(1) Cons.prems(1) fi, of vc ac x vod]
  show ?case
  proof (cases "output_ok G c vc ac x")
    case True
    then obtain q where q: "decode_output G vod c vc ac conn i x p = Some q" "adds (output_names i) p q"
        "served G c v a i x q" using one by auto
    have "fresh (\<Union>j\<in>{Suc i..}. output_names j) p" by (rule fresh_mono [OF Cons.prems(2)]) fastforce
    then have f: "fresh (\<Union>j\<in>{Suc i..}. output_names j) q"
      by (rule fresh_adds [OF _ q(2)]) (auto simp: output_names_def)
    note rest = Cons.IH [OF conn_ok_adds [OF Cons.prems(1) q(2)] f]
    show ?thesis
    proof (cases "list_all (output_ok G c vc ac) out")
      case ok: True
      then obtain r where r: "each_output (decode_output G vod c vc ac conn) (Suc i) out q = Some r"
          "adds (\<Union>j\<in>{Suc i..}. output_names j) q r" "\<forall>j<length out. served G c v a (Suc i + j) (out ! j) r"
        using rest by auto
      have "adds (\<Union>j\<in>{i..}. output_names j) p r" by (rule adds_subset [OF q(2) r(2)]) fastforce
      moreover have "served G c v a (i + j) ((x # out) ! j) r" if "j < length (x # out)" for j
        using that r(3) served_adds [OF q(3) r(2)] by (cases j) auto
      ultimately show ?thesis using True ok q(1) r(1) by simp
    qed (use rest q(1) in \<open>simp split: if_splits\<close>)
  qed (use one in \<open>simp split: if_splits\<close>)
qed simp

subsection \<open>Whole pipelines behind a decoder\<close>

definition decoder_names :: "(string \<times> nat) set" where
  "decoder_names = {(''src'', 0), (''decodebin'', 0), (''udb_conn_video'', 0), (''udb_conn_audio'', 0)}"

definition all_output_names :: "(string \<times> nat) set" where
  "all_output_names = (\<Union>j. output_names j)"

lemma fresh_named: "names p = (\<lambda>(s, i). name_1u s i) ` N \<Longrightarrow> F \<inter> N = {} \<Longrightarrow> fresh F p"
  by (fastforce simp: fresh_def)

lemma decode_pipeline:
  assumes G: "gst_complete G" and src: "src_made okS src"
    and udb: "makes okv video_udb mkv" "makes oka audio_udb mka"
    and post: "\<And>conn q. conn_ok c video_udb audio_udb conn q \<Longrightarrow> fresh FP q
        \<Longrightarrow> conn_stage FP okP c video_udb audio_udb q (bd_BuildPostProc b conn q)"
    and conv: "\<And>conn q. conn_ok c video_udb audio_udb conn q \<Longrightarrow> fresh FC q
        \<Longrightarrow> conn_stage FC okC c video_udb audio_udb q (bd_BuildConverter b conn q)"
    and b: "bd_BuildInput b = SrcDecode_BuildInput G src" "bd_BuildUdbConnections b = SrcDecode_BuildUdbConnections G c mkv mka"
        "bd_BuildOutput b = SrcDecode_BuildOutput G vod c vc ac"
    and names: "FP \<inter> decoder_names = {}" "FC \<inter> (decoder_names \<union> FP) = {}" "all_output_names \<inter> (FP \<union> FC) = {}"
  shows "if okS \<and> (av_have_video c \<longrightarrow> okv) \<and> (av_have_audio c \<longrightarrow> oka) \<and> okP \<and> okC \<and> list_all (output_ok G c vc ac) (cf_output c)
     then \<exists>p. InitPipeline b pipeline0 = Some (True, p)
        \<and> (\<forall>j<length (cf_output c). served G c video_udb audio_udb j (cf_output c ! j) p)
     else InitPipeline b pipeline0 = None"
proof (cases okS)
  case False
  then show ?thesis using decode_input [OF G src] b(1) by (simp add: InitPipeline_def)
next
  case True
  then obtain p where p: "SrcDecode_BuildInput G src pipeline0 = Some (\<lparr>cn_video = None, cn_audio = None\<rparr>, p)"
      "names p = (\<lambda>(s, i). name_1u s i) ` {(''src'', 0), (''decodebin'', 0)}"
    using decode_input [OF G src] by auto
  let ?U = "{(''udb_conn_video'', 0), (''udb_conn_audio'', 0)}"
  let ?O = "all_output_names"
  have O: "?O = (\<Union>j\<in>{0..}. output_names j)" by (auto simp: all_output_names_def)
  have O_dec: "?O \<inter> decoder_names = {}" by (auto simp: all_output_names_def output_names_def decoder_names_def)
  have f0: "fresh ?U p" "fresh FP p" "fresh FC p" "fresh ?O p"
    by (rule fresh_named [OF p(2)]; use names O_dec in \<open>auto simp: decoder_names_def\<close>)+
  define k where "k = (\<lambda>conn p. do { (conn, p) \<leftarrow> bd_BuildPostProc b conn p; bd_BuildConverter b conn p })"
  define r where "r = SrcDecode_BuildUdbConnections G c mkv mka \<lparr>cn_video = None, cn_audio = None\<rparr> p \<bind> (\<lambda>(conn, p). k conn p)"
  have stage: "conn_stage (?U \<union> (FP \<union> FC)) (((av_have_video c \<longrightarrow> okv) \<and> (av_have_audio c \<longrightarrow> oka)) \<and> okP \<and> okC)
      c video_udb audio_udb p r"
    unfolding r_def
  proof (rule conn_stage_bind [OF udb_stage [OF G udb f0(1)]])
    fix conn q assume q: "adds ?U p q" "conn_ok c video_udb audio_udb conn q"
    have f1: "fresh FP q" "fresh FC q"
      by (rule fresh_adds [OF f0(2) q(1)], use names(1) in \<open>auto simp: decoder_names_def\<close>)
         (rule fresh_adds [OF f0(3) q(1)], use names(2) in \<open>auto simp: decoder_names_def\<close>)
    show "conn_stage (FP \<union> FC) (okP \<and> okC) c video_udb audio_udb q (k conn q)"
      unfolding k_def
    proof (rule conn_stage_bind [OF post [OF q(2) f1(1)]])
      fix conn' q' assume q': "adds FP q q'" "conn_ok c video_udb audio_udb conn' q'"
      have "fresh FC q'" by (rule fresh_adds [OF f1(2) q'(1)]) (use names(2) in auto)
      then show "conn_stage FC okC c video_udb audio_udb q' (bd_BuildConverter b conn' q')" by (rule conv [OF q'(2)])
    qed
  qed
  have init: "InitPipeline b pipeline0 = r \<bind> (\<lambda>(conn, p). SrcDecode_BuildOutput G vod c vc ac conn p \<bind> (\<lambda>(conn, p). Some (True, p)))"
    using p(1) b by (simp add: InitPipeline_def r_def k_def Option.bind_assoc split_def)
  show ?thesis
  proof (cases "((av_have_video c \<longrightarrow> okv) \<and> (av_have_audio c \<longrightarrow> oka)) \<and> okP \<and> okC")
    case ok: True
    then obtain conn q where q: "r = Some (conn, q)" "adds (?U \<union> (FP \<union> FC)) p q" "conn_ok c video_udb audio_udb conn q"
      using stage unfolding conn_stage_def by auto
    have "fresh ?O q" by (rule fresh_adds [OF f0(4) q(2)]) (use names(3) O_dec in \<open>auto simp: decoder_names_def\<close>)
    from outputs_spec [OF G q(3) this [unfolded O], of vc ac "cf_output c" vod]
    show ?thesis using True ok q(1) init by (auto simp: SrcDecode_BuildOutput_def split: if_splits)
  next
    case False
    then have "r = None" using stage unfolding conn_stage_def by argo
    then show ?thesis using init False by auto
  qed
qed

end
