(* ===== verification/PipelineEncode.thy ===== *)
theory PipelineEncode
  imports PipelineBuild
begin

text \<open>
  Which relays and encodings get a pipeline: the stages of the encoding builders one by one, and the
  results for the whole builders.
\<close>

section \<open>Relays\<close>

definition relay_ok :: "'u gst_env \<Rightarrow> ('u, 'm) RelayConfig_scheme \<Rightarrow> bool" where
  "relay_ok G c \<longleftrightarrow> (\<exists>uri rest. cf_input c = uri # rest \<and> src_ok G uri)
     \<and> (av_have_video c \<longrightarrow> rl_video_parser c \<in> {''h264parse'', ''h265parse'', ''mpegvideoparse'', ''tsparse''})
     \<and> (av_have_audio c \<longrightarrow> rl_audio_parser c \<in> {''aacparse'', ''ac3parse'', ''mpegaudioparse''})
     \<and> list_all (output_ok G c (Relay_GetVideoCodecType c) (Relay_GetAudioCodecType c)) (cf_output c)"

lemma pass_on_stage: "conn_ok c v a conn q \<Longrightarrow> conn_stage {} True c v a q (pass_on conn q)"
  by (simp add: conn_stage_def pass_on_def)

lemma relay_udb_makes:
  assumes "gst_complete G"
  shows "makes (rl_video_parser c \<in> {''h264parse'', ''h265parse'', ''mpegvideoparse'', ''tsparse''}) video_udb
      (Relay_BuildVideoUdbConnection G c)"
    "makes (rl_audio_parser c \<in> {''aacparse'', ''ac3parse'', ''mpegaudioparse''}) audio_udb (Relay_BuildAudioUdbConnection G c)"
  using assms by (auto simp: makes_def Relay_BuildVideoUdbConnection_def Relay_BuildAudioUdbConnection_def make_video_parser_def
      make_audio_parser_def UDB_VIDEO_NAME_1U_def UDB_AUDIO_NAME_1U_def)

lemma relay_converter_stage:
  assumes "gst_complete G" "conn_ok c v a conn q" "fresh {(''video_tee'', 0), (''audio_tee'', 0)} q"
  shows "conn_stage {(''video_tee'', 0), (''audio_tee'', 0)} True c v a q (Relay_BuildConverter G c conn q)"
proof -
  have "conn_stage ({(''video_tee'', 0)} \<union> {(''audio_tee'', 0)}) ((av_have_video c \<longrightarrow> True) \<and> (av_have_audio c \<longrightarrow> True))
      c v a q (two_channels c (add_tee G (name_1u ''video_tee'' 0)) (add_tee G (name_1u ''audio_tee'' 0)) conn q)"
    by (rule two_channels_stage [OF assms(2)]) (use assms(3) chan_add_tee [OF assms(1)] in auto)
  then show ?thesis
    by (simp add: Relay_BuildConverter_channels VIDEO_TEE_NAME_1U_def AUDIO_TEE_NAME_1U_def insert_commute)
qed

text \<open>What the creation of a pipeline gives: a pipeline that serves every output, or the end of the process.\<close>

definition builds ::
  "bool \<Rightarrow> 'u gst_env \<Rightarrow> ('u, 'm) AudioVideoConfig_scheme \<Rightarrow> pipeline option option \<Rightarrow> bool" where
  "builds ok G c r \<longleftrightarrow> (if ok
     then \<exists>p. r = Some (Some p) \<and> (\<forall>j<length (cf_output c). served G c video_udb audio_udb j (cf_output c ! j) p)
     else r = None)"

lemma relay_builds:
  assumes G: "gst_complete G"
  shows "builds (relay_ok G c) G c (CreatePipeLine (InitPipeline (RelayStreamBuilder G vod c)))"
proof -
  have "if (\<exists>uri rest. cf_input c = uri # rest \<and> src_ok G uri)
        \<and> (av_have_video c \<longrightarrow> rl_video_parser c \<in> {''h264parse'', ''h265parse'', ''mpegvideoparse'', ''tsparse''})
        \<and> (av_have_audio c \<longrightarrow> rl_audio_parser c \<in> {''aacparse'', ''ac3parse'', ''mpegaudioparse''}) \<and> True \<and> True
        \<and> list_all (output_ok G c (Relay_GetVideoCodecType c) (Relay_GetAudioCodecType c)) (cf_output c)
     then \<exists>p. InitPipeline (RelayStreamBuilder G vod c) pipeline0 = Some (True, p)
        \<and> (\<forall>j<length (cf_output c). served G c video_udb audio_udb j (cf_output c ! j) p)
     else InitPipeline (RelayStreamBuilder G vod c) pipeline0 = None"
    by (rule decode_pipeline [OF G SrcDecode_src_made [OF G] relay_udb_makes [OF G],
          where FP = "{}" and FC = "{(''video_tee'', 0), (''audio_tee'', 0)}"])
       (auto simp: RelayStreamBuilder_def pass_on_stage relay_converter_stage [OF G] decoder_names_def all_output_names_def
         output_names_def)
  then show ?thesis by (auto simp: builds_def relay_ok_def CreatePipeLine_def split: if_splits)
qed

section \<open>Stages of encodings\<close>

lemma chan_mono: "chan F ok a p r \<Longrightarrow> F \<subseteq> F' \<Longrightarrow> chan F' ok a p r"
  using adds_mono by (fastforce simp: chan_def split: if_splits)

lemma line_mono: "line F ok p r \<Longrightarrow> F \<subseteq> F' \<Longrightarrow> line F' ok p r"
  using adds_mono by (fastforce simp: line_def split: if_splits)

lemma chan_opt: "(c \<Longrightarrow> chan F ok a p r) \<Longrightarrow> a \<in> names p \<Longrightarrow> chan F (c \<longrightarrow> ok) a p (if c then r else Some (Some a, p))"
  by (cases c) (auto intro: chan_return)

lemma chan_case: "(\<And>x. u = Some x \<Longrightarrow> chan F True a p (g x)) \<Longrightarrow> a \<in> names p
    \<Longrightarrow> chan F True a p (case u of None \<Rightarrow> Some (Some a, p) | Some x \<Rightarrow> g x)"
  by (cases u) (auto intro: chan_return)

text \<open>A line that is continued.\<close>

lemma line_bind:
  assumes "line F ok p r" "\<And>b q. ok \<Longrightarrow> adds F p q \<Longrightarrow> b \<in> names q \<Longrightarrow> chan F' ok' b q (k (Some b) q)"
  shows "line (F \<union> F') (ok \<and> ok') p (r \<bind> (\<lambda>(l, q). l \<bind> (\<lambda>(f, b). k b q \<bind> (\<lambda>(b, q). Some (Some (f, b), q)))))"
proof (cases ok)
  case True
  then obtain f b q where r: "r = Some (Some (Some f, Some b), q)" "adds F p q" "f \<in> names q" "b \<in> names q" "(f, b) \<in> (links q)\<^sup>*"
    using assms(1) by (auto simp: line_def)
  have ch: "chan F' ok' b q (k (Some b) q)" by (rule assms(2) [OF True r(2,4)])
  show ?thesis
  proof (cases ok')
    case ok': True
    obtain n q' where n: "k (Some b) q = Some (Some n, q')" "adds F' q q'" "n \<in> names q'" "(b, n) \<in> (links q')\<^sup>*"
      using ch ok' by (rule chanE)
    have "(f, n) \<in> (links q')\<^sup>*" using adds_path [OF n(2) r(5)] n(4) by (rule rtrancl_trans)
    then show ?thesis using True ok' r(1) n(1,3) adds_trans [OF r(2) n(2)] adds_names [OF n(2) r(3)] by (simp add: line_def)
  qed (use ch r(1) in \<open>simp add: chan_None line_def\<close>)
qed (use assms(1) in \<open>simp add: line_def\<close>)

text \<open>A line of one element.\<close>

lemma line_single:
  assumes "gst_complete G" "el_name e = name_1u s i" "fresh {(s, i)} p"
  shows "line {(s, i)} True p (do { p \<leftarrow> ElementAdd G e p; Some (Some (Some (el_name e), Some (el_name e)), p) })"
  using assms by (auto simp: line_def ElementAdd_complete adds_def)

lemma build_with_caps_chan:
  assumes "gst_complete G" "a \<in> names p" "fresh {(s, i), (t, i)} p" "s \<noteq> t"
  shows "chan {(s, i), (t, i)} True a p (build_with_caps G plugin (name_1u s i) (name_1u t i) caps (Some a) p)"
proof -
  let ?e = "\<lparr>el_plugin = plugin, el_name = name_1u s i, el_props = []\<rparr>"
  let ?f = "SetProperty ''caps'' (Pv_caps ''video/x-raw'' caps) \<lparr>el_plugin = ''capsfilter'', el_name = name_1u t i, el_props = []\<rparr>"
  let ?p = "p\<lparr>pl_elements := pl_elements p @ [?e]\<rparr>"
  define q where "q = ?p\<lparr>pl_elements := pl_elements ?p @ [?f]\<rparr>"
  define r where "r = q\<lparr>pl_links := pl_links q @ [(a, name_1u s i)]\<rparr>"
  have q: "names q = {name_1u t i, name_1u s i} \<union> names p" "pl_links q = pl_links p" unfolding q_def by (subst pipeline_updates) auto
  have "ElementAdd G ?e p = Some ?p" "ElementAdd G ?f ?p = Some q"
    using assms(3,4) by (simp_all add: ElementAdd_complete [OF assms(1)] q_def)
  moreover have "ElementLink G (Some a) (Some (name_1u s i)) q = Some r"
    unfolding r_def by (rule ElementLink_complete [OF assms(1)]) (use q assms(2) in auto)
  moreover have "ElementLink G (Some (name_1u s i)) (Some (name_1u t i)) r
      = Some (r\<lparr>pl_links := pl_links r @ [(name_1u s i, name_1u t i)]\<rparr>)"
    by (rule ElementLink_complete [OF assms(1)]) (use q in \<open>auto simp: r_def\<close>)
  ultimately have eq: "build_with_caps G plugin (name_1u s i) (name_1u t i) caps (Some a) p
      = Some (Some (name_1u t i), r\<lparr>pl_links := pl_links r @ [(name_1u s i, name_1u t i)]\<rparr>)"
    using assms(1) by (simp add: build_with_caps_def)
  let ?r = "r\<lparr>pl_links := pl_links r @ [(name_1u s i, name_1u t i)]\<rparr>"
  have r: "names ?r = names q" "links ?r = {(a, name_1u s i), (name_1u s i, name_1u t i)} \<union> links p"
    using q(2) by (auto simp: r_def)
  have path: "(a, name_1u t i) \<in> (links ?r)\<^sup>*"
    unfolding r(2) by (rule rtrancl_trans [OF r_into_rtrancl r_into_rtrancl, of _ "name_1u s i"]) simp_all
  have "adds {(s, i), (t, i)} p ?r" unfolding adds_def r q(1) by auto
  moreover have "name_1u t i \<in> names ?r" unfolding r q(1) by simp
  ultimately show ?thesis by (rule chanI [OF eq _ _ path TrueI])
qed

lemma build_video_convert_line:
  assumes "gst_complete G" "fresh {(''video_convert'', i), (''deinterlace'', i)} p"
  shows "line {(''video_convert'', i), (''deinterlace'', i)} True p (build_video_convert G d i p)"
proof -
  define e where "e = \<lparr>el_plugin = ''videoconvert'', el_name = name_1u ''video_convert'' i, el_props = []\<rparr>"
  define k where "k = (\<lambda>b q. if d = Some True then add_after G \<lparr>el_plugin = ''avdeinterlace'', el_name = name_1u ''deinterlace'' i,
     el_props = []\<rparr> b q else Some (b, q))"
  have "line ({(''video_convert'', i)} \<union> {(''deinterlace'', i)}) (True \<and> (d = Some True \<longrightarrow> True)) p
    (do { p \<leftarrow> ElementAdd G e p; Some (Some (Some (el_name e), Some (el_name e)), p) }
      \<bind> (\<lambda>(l, q). l \<bind> (\<lambda>(f, b). k b q \<bind> (\<lambda>(b, q). Some (Some (f, b), q)))))"
  proof (rule line_bind)
    show "line {(''video_convert'', i)} True p (do { p \<leftarrow> ElementAdd G e p; Some (Some (Some (el_name e), Some (el_name e)), p) })"
      by (rule line_single [OF assms(1)]) (use assms(2) in \<open>simp_all add: e_def\<close>)
    fix b q assume q: "adds {(''video_convert'', i)} p q" "b \<in> names q"
    have "fresh {(''deinterlace'', i)} q" by (rule fresh_adds [OF _ q(1)]) (use assms(2) in auto)
    then show "chan {(''deinterlace'', i)} (d = Some True \<longrightarrow> True) b q (k (Some b) q)"
      unfolding k_def by (intro chan_opt chan_add_after [OF assms(1) q(2)] q(2)) simp_all
  qed
  then show ?thesis using assms(1)
    by (cases "d = Some True")
       (simp_all add: build_video_convert_def make_video_deinterlace_def k_def e_def VIDEO_CONVERT_NAME_1U_def
        DEINTERLACE_NAME_1U_def Let_def add_after_def Option.bind_assoc split_def insert_commute)
qed

lemma build_audio_converters_line:
  assumes "gst_complete G" "fresh {(''audio_convert'', i), (''audio_convert_capsfilter'', i), (''volume'', i)} p"
  shows "line {(''audio_convert'', i), (''audio_convert_capsfilter'', i), (''volume'', i)} True p (build_audio_converters G v n i p)"
proof -
  define e where "e = \<lparr>el_plugin = ''audioconvert'', el_name = name_1u ''audio_convert'' i, el_props = []\<rparr>"
  define caps where "caps = (\<lambda>n. SetProperty ''caps'' (Pv_caps ''audio/x-raw'' [(''channels'', Pv_int n)])
     \<lparr>el_plugin = ''capsfilter'', el_name = name_1u ''audio_convert_capsfilter'' i, el_props = []\<rparr>)"
  define vol where "vol = (\<lambda>v. SetProperty ''volume'' (Pv_double v) \<lparr>el_plugin = ''volume'', el_name = name_1u ''volume'' i, el_props = []\<rparr>)"
  define k1 where "k1 = (\<lambda>b q. case n of None \<Rightarrow> Some (b, q) | Some m \<Rightarrow> add_after G (caps m) b q)"
  define k2 where "k2 = (\<lambda>b q. case v of None \<Rightarrow> Some (b, q) | Some x \<Rightarrow> add_after G (vol x) b q)"
  have "line ({(''audio_convert'', i)} \<union> ({(''audio_convert_capsfilter'', i)} \<union> {(''volume'', i)})) (True \<and> (True \<and> True)) p
    (do { p \<leftarrow> ElementAdd G e p; Some (Some (Some (el_name e), Some (el_name e)), p) }
      \<bind> (\<lambda>(l, q). l \<bind> (\<lambda>(f, b). (k1 b q \<bind> (\<lambda>(b, q). k2 b q)) \<bind> (\<lambda>(b, q). Some (Some (f, b), q)))))"
  proof (rule line_bind)
    show "line {(''audio_convert'', i)} True p (do { p \<leftarrow> ElementAdd G e p; Some (Some (Some (el_name e), Some (el_name e)), p) })"
      by (rule line_single [OF assms(1)]) (use assms(2) in \<open>simp_all add: e_def\<close>)
    fix b q assume q: "adds {(''audio_convert'', i)} p q" "b \<in> names q"
    show "chan ({(''audio_convert_capsfilter'', i)} \<union> {(''volume'', i)}) (True \<and> True) b q (k1 (Some b) q \<bind> (\<lambda>(b, q). k2 b q))"
    proof (rule chan_bind)
      have "fresh {(''audio_convert_capsfilter'', i)} q" by (rule fresh_adds [OF _ q(1)]) (use assms(2) in auto)
      then show "chan {(''audio_convert_capsfilter'', i)} True b q (k1 (Some b) q)"
        unfolding k1_def by (intro chan_case chan_add_after [OF assms(1) q(2)] q(2)) (simp_all add: caps_def)
      fix b' q' assume q': "adds {(''audio_convert_capsfilter'', i)} q q'" "b' \<in> names q'"
      have "fresh {(''volume'', i)} q" by (rule fresh_adds [OF _ q(1)]) (use assms(2) in auto)
      then have "fresh {(''volume'', i)} q'" by (rule fresh_adds [OF _ q'(1)]) auto
      then show "chan {(''volume'', i)} True b' q' (k2 (Some b') q')"
        unfolding k2_def by (intro chan_case chan_add_after [OF assms(1) q'(2)] q'(2)) (simp_all add: vol_def)
    qed
  qed
  then show ?thesis using assms(1)
    by (cases n; cases v)
       (simp_all add: build_audio_converters_def k1_def k2_def e_def caps_def vol_def AUDIO_CONVERT_NAME_1U_def
        AUDIO_CONVERT_CAPS_FILTER_NAME_1U_def VOLUME_NAME_1U_def Let_def add_after_def Option.bind_assoc split_def insert_commute)
qed

text \<open>The chain of optional elements behind the video converter.\<close>

definition scale_chain :: "'u gst_env \<Rightarrow> ('u, 'm) EncodingConfig_scheme \<Rightarrow> string option \<Rightarrow> pipeline \<Rightarrow> (string option \<times> pipeline) option" where
  "scale_chain G c b q = (if ge_size_valid G (en_size c) then build_video_scale G (fst (en_size c)) (snd (en_size c)) b 0 q else Some (b, q))"

definition aspect_chain :: "'u gst_env \<Rightarrow> ('u, 'm) EncodingConfig_scheme \<Rightarrow> string option \<Rightarrow> pipeline \<Rightarrow> (string option \<times> pipeline) option" where
  "aspect_chain G c b q = (case en_aspect_ratio c of None \<Rightarrow> Some (b, q)
     | Some r \<Rightarrow> make_element G ''aspectratiocrop'' (ASPECT_RATIO_NAME_1U 0)
         \<bind> (\<lambda>e. add_after G (SetProperty ''aspect-ratio'' (Pv_fraction (fst r) (snd r)) e) b q))"

definition rate_chain :: "'u gst_env \<Rightarrow> ('u, 'm) EncodingConfig_scheme \<Rightarrow> string option \<Rightarrow> pipeline \<Rightarrow> (string option \<times> pipeline) option" where
  "rate_chain G c b q = (case en_frame_rate c of None \<Rightarrow> Some (b, q) | Some r \<Rightarrow> build_video_framerate G r b 0 q)"

definition logo_chain :: "'u gst_env \<Rightarrow> ('u, 'm) EncodingConfig_scheme \<Rightarrow> string option \<Rightarrow> pipeline \<Rightarrow> (string option \<times> pipeline) option" where
  "logo_chain G c b q =
     (let logo = en_logo c in
      if Logo_IsValid (ge_url G) logo then do {
        e \<leftarrow> make_element G ''gdkpixbufoverlay'' (VIDEO_LOGO_NAME_1U 0);
        e \<leftarrow> (if url_scheme (ge_url G) (lg_path logo) = Scheme_file
            then Some (SetProperty ''location'' (Pv_text (url_path (ge_url G) (lg_path logo))) e) else None);
        add_after G (SetProperty ''alpha'' (Pv_double (lg_alpha logo)) (SetProperty ''offset-y'' (Pv_int (snd (lg_position logo)))
            (SetProperty ''offset-x'' (Pv_int (fst (lg_position logo))) e))) b q
      } else Some (b, q))"

lemma video_post_proc_chain:
  assumes "\<not> IsGpu c"
  shows "Encoding_BuildVideoPostProc G c p = build_video_convert G (en_deinterlace c) 0 p \<bind> (\<lambda>(l, q). l \<bind> (\<lambda>(f, b).
    (scale_chain G c b q \<bind> (\<lambda>(b, q). aspect_chain G c b q \<bind> (\<lambda>(b, q). rate_chain G c b q \<bind> (\<lambda>(b, q). logo_chain G c b q))))
      \<bind> (\<lambda>(b, q). Some (Some (f, b), q))))"
  using assms unfolding Encoding_BuildVideoPostProc_def cpu_post_proc_def scale_chain_def aspect_chain_def rate_chain_def logo_chain_def
  by (cases "Logo_IsValid (ge_url G) (en_logo c)"; cases "en_aspect_ratio c"; simp add: Option.bind_assoc split_def Let_def split del: if_split)

definition logo_ok :: "'u gst_env \<Rightarrow> ('u, 'm) EncodingConfig_scheme \<Rightarrow> bool" where
  "logo_ok G c \<longleftrightarrow> (Logo_IsValid (ge_url G) (en_logo c) \<longrightarrow> url_scheme (ge_url G) (lg_path (en_logo c)) = Scheme_file)"

lemma logo_chain_chan:
  assumes "gst_complete G" "b \<in> names q" "fresh {(''videologo'', 0)} q"
  shows "chan {(''videologo'', 0)} (logo_ok G c) b q (logo_chain G c (Some b) q)"
proof (cases "Logo_IsValid (ge_url G) (en_logo c) \<and> url_scheme (ge_url G) (lg_path (en_logo c)) = Scheme_file")
  case True
  then show ?thesis using assms
    by (auto simp: logo_chain_def logo_ok_def Let_def VIDEO_LOGO_NAME_1U_def intro!: chan_add_after)
next
  case False
  then show ?thesis using assms by (auto simp: logo_chain_def logo_ok_def Let_def chan_None intro: chan_return)
qed

lemma scale_chain_chan:
  assumes "gst_complete G" "b \<in> names q" "fresh {(''videoscale'', 0), (''videoscale_capsfilter'', 0)} q"
  shows "chan {(''videoscale'', 0), (''videoscale_capsfilter'', 0)} True b q (scale_chain G c (Some b) q)"
  using build_with_caps_chan [OF assms] assms(2)
  by (auto simp: scale_chain_def build_video_scale_def VIDEO_SCALE_NAME_1U_def VIDEO_SCALE_CAPS_FILTER_NAME_1U_def intro: chan_return)

lemma rate_chain_chan:
  assumes "gst_complete G" "b \<in> names q" "fresh {(''videorate'', 0), (''videorate_capsfilter'', 0)} q"
  shows "chan {(''videorate'', 0), (''videorate_capsfilter'', 0)} True b q (rate_chain G c (Some b) q)"
  using build_with_caps_chan [OF assms] assms(2)
  by (auto simp: rate_chain_def build_video_framerate_def VIDEO_RATE_NAME_1U_def VIDEO_RATE_CAPS_FILTER_NAME_1U_def
      intro: chan_return split: option.split)

lemma aspect_chain_chan:
  assumes "gst_complete G" "b \<in> names q" "fresh {(''aspect_ratio'', 0)} q"
  shows "chan {(''aspect_ratio'', 0)} True b q (aspect_chain G c (Some b) q)"
  using assms by (auto simp: aspect_chain_def ASPECT_RATIO_NAME_1U_def intro: chan_return chan_add_after split: option.split)

definition post_names :: "(string \<times> nat) set" where
  "post_names = {(''video_convert'', 0), (''deinterlace'', 0)} \<union> ({(''videoscale'', 0), (''videoscale_capsfilter'', 0)}
     \<union> ({(''aspect_ratio'', 0)} \<union> ({(''videorate'', 0), (''videorate_capsfilter'', 0)} \<union> {(''videologo'', 0)})))"

lemma video_post_line:
  assumes G: "gst_complete G" and c: "\<not> IsGpu c" and f: "fresh post_names p"
  shows "line post_names (logo_ok G c) p (Encoding_BuildVideoPostProc G c p)"
proof -
  have "line post_names (True \<and> (True \<and> (True \<and> (True \<and> logo_ok G c)))) p (Encoding_BuildVideoPostProc G c p)"
    unfolding video_post_proc_chain [OF c] post_names_def
  proof (rule line_bind [OF build_video_convert_line [OF G]])
    show "fresh {(''video_convert'', 0), (''deinterlace'', 0)} p" using f by (simp add: post_names_def)
    fix b q assume q: "adds {(''video_convert'', 0), (''deinterlace'', 0)} p q" "b \<in> names q"
    have fq: "fresh ({(''videoscale'', 0), (''videoscale_capsfilter'', 0)} \<union> ({(''aspect_ratio'', 0)}
        \<union> ({(''videorate'', 0), (''videorate_capsfilter'', 0)} \<union> {(''videologo'', 0)}))) q"
      by (rule fresh_adds [OF _ q(1)]) (use f in \<open>auto simp: post_names_def\<close>)
    show "chan ({(''videoscale'', 0), (''videoscale_capsfilter'', 0)} \<union> ({(''aspect_ratio'', 0)}
        \<union> ({(''videorate'', 0), (''videorate_capsfilter'', 0)} \<union> {(''videologo'', 0)}))) (True \<and> (True \<and> (True \<and> logo_ok G c))) b q
      (scale_chain G c (Some b) q \<bind> (\<lambda>(b, q). aspect_chain G c b q \<bind> (\<lambda>(b, q). rate_chain G c b q \<bind> (\<lambda>(b, q). logo_chain G c b q))))"
    proof (rule chan_bind [OF scale_chain_chan [OF G q(2)]])
      show "fresh {(''videoscale'', 0), (''videoscale_capsfilter'', 0)} q" using fq by simp
      fix n q1 assume q1: "adds {(''videoscale'', 0), (''videoscale_capsfilter'', 0)} q q1" "n \<in> names q1"
      have f1: "fresh ({(''aspect_ratio'', 0)} \<union> ({(''videorate'', 0), (''videorate_capsfilter'', 0)} \<union> {(''videologo'', 0)})) q1"
        by (rule fresh_adds [OF _ q1(1)]) (use fq in auto)
      show "chan ({(''aspect_ratio'', 0)} \<union> ({(''videorate'', 0), (''videorate_capsfilter'', 0)} \<union> {(''videologo'', 0)}))
        (True \<and> (True \<and> logo_ok G c)) n q1
        (aspect_chain G c (Some n) q1 \<bind> (\<lambda>(b, q). rate_chain G c b q \<bind> (\<lambda>(b, q). logo_chain G c b q)))"
      proof (rule chan_bind [OF aspect_chain_chan [OF G q1(2)]])
        show "fresh {(''aspect_ratio'', 0)} q1" using f1 by simp
        fix m q2 assume q2: "adds {(''aspect_ratio'', 0)} q1 q2" "m \<in> names q2"
        have f2: "fresh ({(''videorate'', 0), (''videorate_capsfilter'', 0)} \<union> {(''videologo'', 0)}) q2"
          by (rule fresh_adds [OF _ q2(1)]) (use f1 in auto)
        show "chan ({(''videorate'', 0), (''videorate_capsfilter'', 0)} \<union> {(''videologo'', 0)}) (True \<and> logo_ok G c) m q2
          (rate_chain G c (Some m) q2 \<bind> (\<lambda>(b, q). logo_chain G c b q))"
        proof (rule chan_bind [OF rate_chain_chan [OF G q2(2)]])
          show "fresh {(''videorate'', 0), (''videorate_capsfilter'', 0)} q2" using f2 by simp
          fix k q3 assume q3: "adds {(''videorate'', 0), (''videorate_capsfilter'', 0)} q2 q3" "k \<in> names q3"
          have "fresh {(''videologo'', 0)} q3" by (rule fresh_adds [OF _ q3(1)]) (use f2 in auto)
          then show "chan {(''videologo'', 0)} (logo_ok G c) k q3 (logo_chain G c (Some k) q3)" by (rule logo_chain_chan [OF G q3(2)])
        qed
      qed
    qed
  qed
  then show ?thesis by simp
qed

subsection \<open>Encoders\<close>

text \<open>Rates that are multiplied have to stay in the range of an \<open>int\<close>.\<close>

definition video_rate_ok :: "string \<Rightarrow> int option \<Rightarrow> bool" where
  "video_rate_ok codec rate \<longleftrightarrow> (codec = ''eavcenc'' \<or> codec = ''openh264enc'') \<and> rate \<noteq> None \<longrightarrow> checked_i32 (the rate * 1024) \<noteq> None"

definition audio_rate_ok :: "string \<Rightarrow> int option \<Rightarrow> bool" where
  "audio_rate_ok codec rate \<longleftrightarrow> codec \<noteq> ''lamemp3enc'' \<and> rate \<noteq> None \<longrightarrow> checked_i32 (the rate * 1024) \<noteq> None"

text \<open>Steps that only set properties.\<close>

definition same_graph :: "pipeline \<Rightarrow> pipeline \<Rightarrow> bool" where
  "same_graph p q \<longleftrightarrow> pl_names q = pl_names p \<and> pl_links q = pl_links p"

lemma bitrate_spec:
  "if video_rate_ok codec rate
   then \<exists>q. (case rate of None \<Rightarrow> Some p | Some r \<Rightarrow> set_video_bitrate codec n r p) = Some q \<and> same_graph p q
   else (case rate of None \<Rightarrow> Some p | Some r \<Rightarrow> set_video_bitrate codec n r p) = None"
proof (cases rate)
  case (Some r)
  show ?thesis
  proof (cases "codec = ''eavcenc'' \<or> codec = ''openh264enc''")
    case True
    then show ?thesis using Some
      by (cases "checked_i32 (r * 1024)") (elim disjE; simp add: video_rate_ok_def set_video_bitrate_def same_graph_def)+
  qed (use Some in \<open>simp add: video_rate_ok_def set_video_bitrate_def same_graph_def Let_def\<close>)
qed (simp add: video_rate_ok_def same_graph_def)

lemma chan_same: "same_graph p q \<Longrightarrow> chan F ok a q r \<Longrightarrow> chan F ok a p r"
  unfolding chan_def same_graph_def adds_def by metis

lemma fresh_same: "same_graph p q \<Longrightarrow> fresh F q \<longleftrightarrow> fresh F p"
  by (simp add: fresh_def same_graph_def)

lemma encoder_caps_chan:
  assumes "gst_complete G" "a \<in> names p" "fresh {(s, i)} p"
  shows "chan {(s, i)} True a p (encoder_caps G (name_1u s i) param v (Some a) p)"
proof -
  let ?e = "\<lparr>el_plugin = ''capsfilter'', el_name = name_1u s i, el_props = []\<rparr>"
  define q where "q = pl_set_property (name_1u s i) ''caps'' (Pv_caps ''video/x-h264'' [(param, Pv_text v)])
      (p\<lparr>pl_elements := pl_elements p @ [?e]\<rparr>)"
  have q: "names q = insert (name_1u s i) (names p)" "pl_links q = pl_links p" by (simp_all add: q_def)
  have "ElementLink G (Some a) (Some (name_1u s i)) q = Some (q\<lparr>pl_links := pl_links q @ [(a, name_1u s i)]\<rparr>)"
    by (rule ElementLink_complete [OF assms(1)]) (use q assms(2) in auto)
  then have "encoder_caps G (name_1u s i) param v (Some a) p = Some (Some (name_1u s i), q\<lparr>pl_links := pl_links q @ [(a, name_1u s i)]\<rparr>)"
    using assms(1,3) by (simp add: encoder_caps_def ElementAdd_complete Let_def flip: q_def)
  then show ?thesis using q by (auto simp: chan_def adds_def)
qed

definition caps_names :: "nat \<Rightarrow> (string \<times> nat) set" where
  "caps_names i = {(''x264enc_capsfilter_profile'', i), (''x264enc_capsfilter_stream_format'', i)}"

text \<open>The caps filter names of the keys that are still to come.\<close>

definition caps_of :: "nat \<Rightarrow> (string \<times> string) list \<Rightarrow> (string \<times> nat) set" where
  "caps_of i args = (if ''x264enc.profile'' \<in> fst ` set args then {(''x264enc_capsfilter_profile'', i)} else {})
     \<union> (if ''x264enc.stream-format'' \<in> fst ` set args then {(''x264enc_capsfilter_stream_format'', i)} else {})"

lemma str_params_chan:
  assumes "gst_complete G"
  shows "distinct (map fst args) \<Longrightarrow> a \<in> names p \<Longrightarrow> fresh (caps_of i args) p
    \<Longrightarrow> chan (caps_of i args) True a p (setup_encoder_str_params G codec n i args (Some a) p)"
proof (induction args arbitrary: a p)
  case Nil
  then show ?case by (auto intro: chan_return)
next
  case (Cons kv args)
  obtain key v where kv: "kv = (key, v)" by (cases kv)
  have key: "key \<notin> fst ` set args" and dist: "distinct (map fst args)" using Cons.prems(1) kv by auto
  have sub: "caps_of i args \<subseteq> caps_of i (kv # args)" by (auto simp: caps_of_def)
  obtain enc param where sk: "split_key key = (enc, param)" by (cases "split_key key")
  note IH = Cons.IH [OF dist]
  have rest: "chan (caps_of i (kv # args)) True a p (setup_encoder_str_params G codec n i args (Some a) q)"
    if "same_graph p q" for q
  proof (rule chan_mono [OF chan_same [OF that IH] sub])
    show "a \<in> names q" using that Cons.prems(2) by (simp add: same_graph_def)
    show "fresh (caps_of i args) q" using fresh_mono [OF Cons.prems(3) sub] fresh_same [OF that] by simp
  qed
  have caps: "chan (caps_of i (kv # args)) True a p
      (encoder_caps G (name_1u s i) prm v (Some a) p \<bind> (\<lambda>(l, q). setup_encoder_str_params G codec n i args l q))"
    if s: "(s, i) \<in> caps_of i (kv # args)" "(s, i) \<notin> caps_of i args" for s prm
  proof -
    have "chan ({(s, i)} \<union> caps_of i args) (True \<and> True) a p
        (encoder_caps G (name_1u s i) prm v (Some a) p \<bind> (\<lambda>(l, q). setup_encoder_str_params G codec n i args l q))"
    proof (rule chan_bind [OF encoder_caps_chan [OF assms Cons.prems(2)]])
      show "fresh {(s, i)} p" by (rule fresh_mono [OF Cons.prems(3)]) (use s in simp)
      fix b q assume q: "adds {(s, i)} p q" "b \<in> names q"
      have "fresh (caps_of i args) q" by (rule fresh_adds [OF fresh_mono [OF Cons.prems(3) sub] q(1)]) (use s in simp)
      then show "chan (caps_of i args) True b q (setup_encoder_str_params G codec n i args (Some b) q)" by (rule IH [OF q(2)])
    qed
    then have "chan ({(s, i)} \<union> caps_of i args) True a p
        (encoder_caps G (name_1u s i) prm v (Some a) p \<bind> (\<lambda>(l, q). setup_encoder_str_params G codec n i args l q))" by simp
    then show ?thesis by (rule chan_mono) (use s sub in auto)
  qed
  show ?case
  proof (cases "enc \<noteq> codec")
    case True
    then show ?thesis using rest [of p] kv sk by (simp add: same_graph_def)
  next
    case False
    consider "key = ''x264enc.profile''" | "key = ''x264enc.stream-format''"
      | "key \<noteq> ''x264enc.profile''" "key \<noteq> ''x264enc.stream-format''" by blast
    then show ?thesis
    proof cases
      case 1
      have "chan (caps_of i (kv # args)) True a p (encoder_caps G (name_1u ''x264enc_capsfilter_profile'' i) ''profile'' v (Some a) p
          \<bind> (\<lambda>(l, q). setup_encoder_str_params G codec n i args l q))"
        by (rule caps) (use 1 kv key in \<open>simp_all add: caps_of_def\<close>)
      then show ?thesis using 1 False kv sk by (simp add: VIDEO_X264ENC_CAPS_FILTER_PROFILE_NAME_1U_def)
    next
      case 2
      have "chan (caps_of i (kv # args)) True a p (encoder_caps G (name_1u ''x264enc_capsfilter_stream_format'' i) ''stream-format'' v (Some a) p
          \<bind> (\<lambda>(l, q). setup_encoder_str_params G codec n i args l q))"
        by (rule caps) (use 2 kv key in \<open>simp_all add: caps_of_def\<close>)
      then show ?thesis using 2 False kv sk by (simp add: VIDEO_X264ENC_CAPS_FILTER_STREAM_FORMAT_NAME_1U_def)
    next
      case 3
      then show ?thesis using rest [of "pl_set_property n param (Pv_text v) p"] False kv sk by (simp add: same_graph_def)
    qed
  qed
qed

lemma map_entries_keys: "distinct ks \<Longrightarrow> distinct (map fst (map_entries ks m))" "fst ` set (map_entries ks m) \<subseteq> set ks"
proof -
  show sub: "fst ` set (map_entries ks m) \<subseteq> set ks" for ks
    by (auto simp: map_entries_def map_filter_def)
  show "distinct (map fst (map_entries ks m))" if "distinct ks"
    using that
  proof (induction ks)
    case (Cons k ks)
    have "map_entries (k # ks) m = (case m k of None \<Rightarrow> [] | Some v \<Rightarrow> [(k, v)]) @ map_entries ks m"
      by (simp add: map_entries_def map_filter_simps split: option.split)
    then show ?case using Cons sub [of ks] by (auto split: option.split)
  qed (simp add: map_entries_def map_filter_simps)
qed

lemma setup_params_same: "same_graph p (setup_encoder_params args c n p)"
  by (simp add: same_graph_def)

lemma caps_of_subset: "caps_of i args \<subseteq> caps_names i"
  by (simp add: caps_of_def caps_names_def)

lemma video_encoder_line:
  assumes G: "gst_complete G" and f: "fresh (insert (''video_codec'', i) (caps_names i)) p"
  shows "line (insert (''video_codec'', i) (caps_names i)) (codec \<in> set video_encoders \<and> video_rate_ok codec rate) p
     (build_video_encoder G codec rate args sargs i p)"
proof (cases "codec \<in> set video_encoders")
  case True
  define e where "e = \<lparr>el_plugin = codec, el_name = name_1u ''video_codec'' i, el_props = []\<rparr>"
  define p1 where "p1 = p\<lparr>pl_elements := pl_elements p @ [e]\<rparr>"
  have p1: "names p1 = insert (name_1u ''video_codec'' i) (names p)" "pl_links p1 = pl_links p" by (simp_all add: p1_def e_def)
  have add: "ElementAdd G e p = Some p1" using f by (simp add: ElementAdd_complete [OF G] p1_def e_def)
  have eq: "build_video_encoder G codec rate args sargs i p =
     (case rate of None \<Rightarrow> Some p1 | Some r \<Rightarrow> set_video_bitrate codec (name_1u ''video_codec'' i) r p1) \<bind> (\<lambda>p.
       setup_encoder_str_params G codec (name_1u ''video_codec'' i) i (map_entries encoder_str_arg_keys sargs) (Some (name_1u ''video_codec'' i))
         (setup_encoder_params (map_entries encoder_arg_keys args) codec (name_1u ''video_codec'' i) p) \<bind> (\<lambda>(l, p).
       Some (Some (Some (name_1u ''video_codec'' i), l), p)))"
    using True G add
    by (cases rate) (simp_all add: build_video_encoder_def make_video_encoder_def VIDEO_CODEC_NAME_1U_def Let_def e_def)
  note rate = bitrate_spec [of codec rate p1 "name_1u ''video_codec'' i"]
  show ?thesis
  proof (cases "video_rate_ok codec rate")
    case ok: True
    obtain q where q: "(case rate of None \<Rightarrow> Some p1 | Some r \<Rightarrow> set_video_bitrate codec (name_1u ''video_codec'' i) r p1) = Some q" "same_graph p1 q"
      using ok rate by (simp split: if_splits) blast
    let ?args = "map_entries encoder_str_arg_keys sargs"
    define r where "r = setup_encoder_params (map_entries encoder_arg_keys args) codec (name_1u ''video_codec'' i) q"
    have r: "same_graph p1 r" using q(2) by (simp add: r_def same_graph_def)
    have "fresh (caps_of i ?args) p1"
      using f p1 by (auto simp: fresh_def caps_names_def dest: subsetD [OF caps_of_subset])
    then have ch: "chan (caps_of i ?args) True (name_1u ''video_codec'' i) r
        (setup_encoder_str_params G codec (name_1u ''video_codec'' i) i ?args (Some (name_1u ''video_codec'' i)) r)"
      using r p1 by (intro str_params_chan [OF G] map_entries_keys) (simp_all add: encoder_str_arg_keys_def fresh_same [OF r] same_graph_def)
    then obtain n s where n: "setup_encoder_str_params G codec (name_1u ''video_codec'' i) i ?args (Some (name_1u ''video_codec'' i)) r = Some (Some n, s)"
        "adds (caps_of i ?args) r s" "n \<in> names s" "(name_1u ''video_codec'' i, n) \<in> (links s)\<^sup>*"
      using TrueI by (rule chanE)
    have "adds {(''video_codec'', i)} p r" using r p1 by (auto simp: adds_def same_graph_def)
    then have "adds (insert (''video_codec'', i) (caps_names i)) p s"
      by (rule adds_subset [OF _ n(2)]) (use caps_of_subset in auto)
    moreover have "name_1u ''video_codec'' i \<in> names s" by (rule adds_names [OF n(2)]) (use r p1 in \<open>simp add: same_graph_def\<close>)
    ultimately show ?thesis using True ok eq q(1) n by (simp add: line_def flip: r_def)
  next
    case False
    then show ?thesis using rate eq by (simp add: line_def split: if_splits)
  qed
qed (simp add: line_def build_video_encoder_def make_video_encoder_def)

definition audio_encoders :: "string set" where
  "audio_encoders = {''faac'', ''voaacenc'', ''lamemp3enc''}"

lemma audio_encoder_makes:
  assumes "gst_complete G"
  shows "makes (codec \<in> audio_encoders \<and> audio_rate_ok codec rate) name (make_audio_encoder G codec name rate)"
proof (cases rate)
  case (Some r)
  then show ?thesis using assms
    by (cases "checked_i32 (r * 1024)") (simp_all add: makes_def make_audio_encoder_def audio_encoders_def audio_rate_ok_def)
qed (use assms in \<open>simp add: makes_def make_audio_encoder_def audio_encoders_def audio_rate_ok_def\<close>)

definition audio_names :: "(string \<times> nat) set" where
  "audio_names = {(''audio_codec'', 0), (''audioresample'', 0), (''mpegaudioparse'', 0)}"

lemma audio_encoder_line:
  assumes G: "gst_complete G" and f: "fresh audio_names p"
  shows "line audio_names (en_audio_encoder c \<in> audio_encoders \<and> audio_rate_ok (en_audio_encoder c) (en_audio_bit_rate c)) p
     (Encoding_BuildAudioConverter G c p)"
proof (cases "en_audio_encoder c \<in> audio_encoders \<and> audio_rate_ok (en_audio_encoder c) (en_audio_bit_rate c)")
  case False
  then show ?thesis using audio_encoder_makes [OF G, of "en_audio_encoder c" "en_audio_bit_rate c"]
    by (simp add: line_def makes_def Encoding_BuildAudioConverter_def)
next
  case True
  then obtain e where e: "make_audio_encoder G (en_audio_encoder c) (name_1u ''audio_codec'' 0) (en_audio_bit_rate c) = Some e"
      "el_name e = name_1u ''audio_codec'' 0"
    using audio_encoder_makes [OF G, of "en_audio_encoder c" "en_audio_bit_rate c" "name_1u ''audio_codec'' 0"] by (auto simp: makes_def)
  show ?thesis
  proof (cases "en_audio_encoder c = ''lamemp3enc''")
    case no: False
    have "Encoding_BuildAudioConverter G c p = do { p \<leftarrow> ElementAdd G e p; Some (Some (Some (el_name e), Some (el_name e)), p) }"
      using e no by (simp add: Encoding_BuildAudioConverter_def AUDIO_CODEC_NAME_1U_def Let_def)
    moreover have "line {(''audio_codec'', 0)} True p (do { p \<leftarrow> ElementAdd G e p; Some (Some (Some (el_name e), Some (el_name e)), p) })"
      by (rule line_single [OF G e(2)]) (use f in \<open>simp add: audio_names_def\<close>)
    ultimately show ?thesis using True line_mono [of "{(''audio_codec'', 0)}" True p _ audio_names] by (simp add: audio_names_def)
  next
    case mp3: True
    let ?n = "\<lambda>s. name_1u s (0::nat)"
    let ?a = "\<lparr>el_plugin = ''audioresample'', el_name = ?n ''audioresample'', el_props = []\<rparr>"
    let ?b = "\<lparr>el_plugin = ''mpegaudioparse'', el_name = ?n ''mpegaudioparse'', el_props = []\<rparr>"
    define p1 where "p1 = p\<lparr>pl_elements := pl_elements p @ [e]\<rparr>"
    define p2 where "p2 = p1\<lparr>pl_elements := pl_elements p1 @ [?a]\<rparr>"
    define p3 where "p3 = p2\<lparr>pl_elements := pl_elements p2 @ [?b]\<rparr>"
    have n: "names p1 = insert (?n ''audio_codec'') (names p)" "names p2 = insert (?n ''audioresample'') (names p1)"
        "names p3 = insert (?n ''mpegaudioparse'') (names p2)" by (simp_all add: p1_def p2_def p3_def e(2) insert_commute)
    have l: "pl_links p3 = pl_links p" by (simp add: p1_def p2_def p3_def)
    have add: "ElementAdd G e p = Some p1" "ElementAdd G ?a p1 = Some p2" "ElementAdd G ?b p2 = Some p3"
      using f n e(2) by (simp_all add: ElementAdd_complete [OF G] audio_names_def p1_def p2_def p3_def)
    define p4 where "p4 = p3\<lparr>pl_links := pl_links p3 @ [(?n ''audioresample'', ?n ''audio_codec'')]\<rparr>"
    define p5 where "p5 = p4\<lparr>pl_links := pl_links p4 @ [(?n ''audio_codec'', ?n ''mpegaudioparse'')]\<rparr>"
    have link: "ElementLink G (Some (?n ''audioresample'')) (Some (?n ''audio_codec'')) p3 = Some p4"
        "ElementLink G (Some (?n ''audio_codec'')) (Some (?n ''mpegaudioparse'')) p4 = Some p5"
      unfolding p4_def p5_def by (rule ElementLink_complete [OF G]; simp add: n)+
    have eq: "Encoding_BuildAudioConverter G c p = Some (Some (Some (?n ''audioresample''), Some (?n ''mpegaudioparse'')), p5)"
      using e mp3 G add link
      by (simp add: Encoding_BuildAudioConverter_def AUDIO_CODEC_NAME_1U_def AUDIO_RESAMPLE_NAME_1U_def MPEG_AUDIO_PARSE_NAME_1U_def Let_def)
    have names5: "names p5 = names p3" by (simp add: p5_def p4_def)
    have links5: "links p5 = {(?n ''audioresample'', ?n ''audio_codec''), (?n ''audio_codec'', ?n ''mpegaudioparse'')} \<union> links p"
      by (auto simp: p5_def p4_def l)
    have "adds audio_names p p5" unfolding adds_def names5 links5 n audio_names_def by auto
    moreover have "(?n ''audioresample'', ?n ''mpegaudioparse'') \<in> (links p5)\<^sup>*"
      unfolding links5 by (rule rtrancl_trans [OF r_into_rtrancl r_into_rtrancl, of _ "?n ''audio_codec''"]) simp_all
    moreover have "?n ''audioresample'' \<in> names p5" "?n ''mpegaudioparse'' \<in> names p5" by (simp_all add: names5 n)
    ultimately show ?thesis using True eq by (simp add: line_def)
  qed
qed

subsection \<open>Both stages of encodings\<close>

definition audio_post_names :: "(string \<times> nat) set" where
  "audio_post_names = {(''audio_convert'', 0), (''audio_convert_capsfilter'', 0), (''volume'', 0)}"

lemma encoding_post_stage:
  assumes G: "gst_complete G" and c: "av_have_video c \<Longrightarrow> \<not> IsGpu c" and conn: "conn_ok c v a conn q"
    and f: "fresh (post_names \<union> audio_post_names) q"
  shows "conn_stage (post_names \<union> audio_post_names) (av_have_video c \<longrightarrow> logo_ok G c) c v a q
     (Encoding_BuildPostProc G c (Encoding_BuildVideoPostProc G c) (Encoding_BuildAudioPostProc G c) conn q)"
proof (cases "av_have_video c")
  case True
  have "conn_stage (post_names \<union> audio_post_names) ((av_have_video c \<longrightarrow> logo_ok G c) \<and> (av_have_audio c \<longrightarrow> True)) c v a q
     (Encoding_BuildPostProc G c (Encoding_BuildVideoPostProc G c) (Encoding_BuildAudioPostProc G c) conn q)"
    unfolding Encoding_BuildPostProc_channels
  proof (rule two_channels_stage [OF conn])
    show "chan post_names (logo_ok G c) n q (Encoding_BuildVideoPostProc G c q \<bind> (\<lambda>(l, q). append_line G l (Some n) q))"
      if "n \<in> names q" "fresh post_names q" for n q
      by (rule chan_append_line [OF G that(1) video_post_line [OF G c [OF True] that(2)]])
    show "chan audio_post_names True n q (Encoding_BuildAudioPostProc G c q \<bind> (\<lambda>(l, q). append_line G l (Some n) q))"
      if "n \<in> names q" "fresh audio_post_names q" for n q
      unfolding audio_post_names_def Encoding_BuildAudioPostProc_def
      by (rule chan_append_line [OF G that(1) build_audio_converters_line [OF G that(2) [unfolded audio_post_names_def]]])
  qed (use f in \<open>auto simp: post_names_def audio_post_names_def\<close>)
  then show ?thesis by simp
next
  case False
  have "conn_stage (post_names \<union> audio_post_names) ((av_have_video c \<longrightarrow> True) \<and> (av_have_audio c \<longrightarrow> True)) c v a q
     (two_channels c (\<lambda>ch p. Some (ch, p)) (\<lambda>ch p. Encoding_BuildAudioPostProc G c p \<bind> (\<lambda>(l, q). append_line G l ch q)) conn q)"
  proof (rule two_channels_stage [OF conn])
    show "chan post_names True n q (Some (Some n, q))" if "n \<in> names q" for n q
      by (rule chan_return [OF that]) simp
    show "chan audio_post_names True n q (Encoding_BuildAudioPostProc G c q \<bind> (\<lambda>(l, q). append_line G l (Some n) q))"
      if "n \<in> names q" "fresh audio_post_names q" for n q
      unfolding audio_post_names_def Encoding_BuildAudioPostProc_def
      by (rule chan_append_line [OF G that(1) build_audio_converters_line [OF G that(2) [unfolded audio_post_names_def]]])
  qed (use f in \<open>auto simp: post_names_def audio_post_names_def\<close>)
  then show ?thesis using False by (simp add: Encoding_BuildPostProc_channels two_channels_def)
qed

text \<open>An encoder line, the parser where the codec has one, and the tee.\<close>

lemma converter_channel:
  assumes G: "gst_complete G" and a: "a \<in> names p" and l: "line F ok p r"
    and mk: "makes True (name_1u s i) mk" and f: "fresh {(s, i), (t, i)} p" and d: "F \<inter> {(s, i), (t, i)} = {}" "s \<noteq> t"
  shows "chan (F \<union> {(s, i), (t, i)}) ok a p ((r \<bind> (\<lambda>(l, q). append_line G l (Some a) q)) \<bind> (\<lambda>(ch, q).
      (if h then mk \<bind> (\<lambda>e. add_after G e ch q) else Some (ch, q)) \<bind> (\<lambda>(ch, q). add_tee G (name_1u t i) ch q)))"
proof -
  have "chan (F \<union> ({(s, i)} \<union> {(t, i)})) (ok \<and> (True \<and> True)) a p ((r \<bind> (\<lambda>(l, q). append_line G l (Some a) q)) \<bind> (\<lambda>(ch, q).
      (if h then mk \<bind> (\<lambda>e. add_after G e ch q) else Some (ch, q)) \<bind> (\<lambda>(ch, q). add_tee G (name_1u t i) ch q)))"
  proof (rule chan_bind [OF chan_append_line [OF G a l]], rule chan_bind)
    fix n q assume q: "adds F p q" "n \<in> names q"
    have f1: "fresh {(s, i), (t, i)} q" by (rule fresh_adds [OF f q(1)]) (use d(1) in auto)
    obtain e where e: "mk = Some e" "el_name e = name_1u s i" using mk by (auto simp: makes_def)
    have "chan {(s, i)} (h \<longrightarrow> True) n q (if h then mk \<bind> (\<lambda>e. add_after G e (Some n) q) else Some (Some n, q))"
      by (rule chan_opt [OF _ q(2)]) (use chan_add_after [OF G q(2) e(2)] f1 e(1) in simp)
    then show "chan {(s, i)} True n q (if h then mk \<bind> (\<lambda>e. add_after G e (Some n) q) else Some (Some n, q))" by simp
    fix m q' assume q': "adds {(s, i)} q q'" "m \<in> names q'"
    have "fresh {(t, i)} q'" by (rule fresh_adds [OF _ q'(1)]) (use f1 d(2) in auto)
    then show "chan {(t, i)} True m q' (add_tee G (name_1u t i) (Some m) q')" by (rule chan_add_tee [OF G q'(2)])
  qed
  then show ?thesis by (simp add: insert_commute)
qed

definition video_conv_names :: "(string \<times> nat) set" where
  "video_conv_names = insert (''video_codec'', 0) (caps_names 0) \<union> {(''video_parser'', 0), (''video_tee'', 0)}"

definition audio_conv_names :: "(string \<times> nat) set" where
  "audio_conv_names = audio_names \<union> {(''audio_parser'', 0), (''audio_tee'', 0)}"

definition video_codec_ok :: "('u, 'm) EncodingConfig_scheme \<Rightarrow> bool" where
  "video_codec_ok c \<longleftrightarrow> en_video_encoder c \<in> set video_encoders \<and> video_rate_ok (en_video_encoder c) (en_video_bit_rate c)"

definition audio_codec_ok :: "('u, 'm) EncodingConfig_scheme \<Rightarrow> bool" where
  "audio_codec_ok c \<longleftrightarrow> en_audio_encoder c \<in> audio_encoders \<and> audio_rate_ok (en_audio_encoder c) (en_audio_bit_rate c)"

lemma encoding_converter_stage:
  assumes G: "gst_complete G" and conn: "conn_ok c v a conn q" and f: "fresh (video_conv_names \<union> audio_conv_names) q"
  shows "conn_stage (video_conv_names \<union> audio_conv_names) ((av_have_video c \<longrightarrow> video_codec_ok c) \<and> (av_have_audio c \<longrightarrow> audio_codec_ok c))
     c v a q (Encoding_BuildConverter G c (Encoding_BuildVideoConverter G c) (Encoding_BuildAudioConverter G c) conn q)"
  unfolding Encoding_BuildConverter_channels VIDEO_TEE_NAME_1U_def AUDIO_TEE_NAME_1U_def
proof (rule two_channels_stage [OF conn])
  fix n q assume n: "n \<in> names q"
  show "chan video_conv_names (video_codec_ok c) n q
      ((Encoding_BuildVideoConverter G c q \<bind> (\<lambda>(l, q). append_line G l (Some n) q)) \<bind> (\<lambda>(ch, q).
        (if IsH264Encoder (en_video_encoder c) then make_h264_parser G 0 \<bind> (\<lambda>e. add_after G e ch q) else Some (ch, q))
          \<bind> (\<lambda>(ch, q). add_tee G (name_1u ''video_tee'' 0) ch q)))" if f: "fresh video_conv_names q"
    unfolding video_conv_names_def video_codec_ok_def Encoding_BuildVideoConverter_def
    by (rule converter_channel [OF G n video_encoder_line [OF G]])
       (use f G in \<open>auto simp: video_conv_names_def caps_names_def makes_def make_h264_parser_def VIDEO_PARSER_NAME_1U_def\<close>)
  show "chan audio_conv_names (audio_codec_ok c) n q
      ((Encoding_BuildAudioConverter G c q \<bind> (\<lambda>(l, q). append_line G l (Some n) q)) \<bind> (\<lambda>(ch, q).
        (if IsAACEncoder (en_audio_encoder c) then make_aac_parser G 0 \<bind> (\<lambda>e. add_after G e ch q) else Some (ch, q))
          \<bind> (\<lambda>(ch, q). add_tee G (name_1u ''audio_tee'' 0) ch q)))" if f: "fresh audio_conv_names q"
    unfolding audio_conv_names_def audio_codec_ok_def
    by (rule converter_channel [OF G n audio_encoder_line [OF G]])
       (use f G in \<open>auto simp: audio_conv_names_def audio_names_def makes_def make_aac_parser_def AUDIO_PARSER_NAME_1U_def\<close>)
qed (use f in \<open>auto simp: video_conv_names_def audio_conv_names_def caps_names_def audio_names_def\<close>)

section \<open>Encodings\<close>

definition encoding_ok :: "'u gst_env \<Rightarrow> ('u, 'm) EncodingConfig_scheme \<Rightarrow> bool" where
  "encoding_ok G c \<longleftrightarrow> (\<exists>uri rest. cf_input c = uri # rest \<and> src_ok G uri)
     \<and> (av_have_video c \<longrightarrow> \<not> IsGpu c \<and> logo_ok G c \<and> video_codec_ok c) \<and> (av_have_audio c \<longrightarrow> audio_codec_ok c)
     \<and> list_all (output_ok G c (Encoding_GetVideoCodecType c) (Encoding_GetAudioCodecType c)) (cf_output c)"

lemma udb_queue_makes:
  assumes "gst_complete G"
  shows "makes True video_udb (SrcDecode_BuildVideoUdbConnection G)" "makes True audio_udb (SrcDecode_BuildAudioUdbConnection G)"
  using assms by (simp_all add: makes_def SrcDecode_BuildVideoUdbConnection_def SrcDecode_BuildAudioUdbConnection_def
      UDB_VIDEO_NAME_1U_def UDB_AUDIO_NAME_1U_def)

lemma cpu_encoding_builds:
  assumes G: "gst_complete G" and c: "av_have_video c \<Longrightarrow> \<not> IsGpu c"
  shows "builds (encoding_ok G c) G c (CreatePipeLine (InitPipeline (EncodingStreamBuilder G vod c)))"
proof -
  let ?b = "EncodingStreamBuilder G vod c"
  have "if (\<exists>uri rest. cf_input c = uri # rest \<and> src_ok G uri) \<and> (av_have_video c \<longrightarrow> True) \<and> (av_have_audio c \<longrightarrow> True)
        \<and> (av_have_video c \<longrightarrow> logo_ok G c) \<and> ((av_have_video c \<longrightarrow> video_codec_ok c) \<and> (av_have_audio c \<longrightarrow> audio_codec_ok c))
        \<and> list_all (output_ok G c (Encoding_GetVideoCodecType c) (Encoding_GetAudioCodecType c)) (cf_output c)
     then \<exists>p. InitPipeline ?b pipeline0 = Some (True, p)
        \<and> (\<forall>j<length (cf_output c). served G c video_udb audio_udb j (cf_output c ! j) p)
     else InitPipeline ?b pipeline0 = None"
  proof (rule decode_pipeline [OF G SrcDecode_src_made [OF G] udb_queue_makes [OF G],
          where FP = "post_names \<union> audio_post_names" and FC = "video_conv_names \<union> audio_conv_names"])
    show "conn_stage (post_names \<union> audio_post_names) (av_have_video c \<longrightarrow> logo_ok G c) c video_udb audio_udb q
        (bd_BuildPostProc ?b conn q)"
      if "conn_ok c video_udb audio_udb conn q" "fresh (post_names \<union> audio_post_names) q" for conn q
      using encoding_post_stage [OF G c that] by (simp add: EncodingStreamBuilder_def)
    show "conn_stage (video_conv_names \<union> audio_conv_names) ((av_have_video c \<longrightarrow> video_codec_ok c) \<and> (av_have_audio c \<longrightarrow> audio_codec_ok c))
        c video_udb audio_udb q (bd_BuildConverter ?b conn q)"
      if "conn_ok c video_udb audio_udb conn q" "fresh (video_conv_names \<union> audio_conv_names) q" for conn q
      using encoding_converter_stage [OF G that] by (simp add: EncodingStreamBuilder_def)
  qed (auto simp: EncodingStreamBuilder_def decoder_names_def all_output_names_def output_names_def post_names_def audio_post_names_def
      video_conv_names_def audio_conv_names_def caps_names_def audio_names_def)
  then show ?thesis using c by (auto simp: builds_def encoding_ok_def CreatePipeLine_def split: if_splits)
qed

text \<open>
  With a hardware encoder the line of the video post-processor has no last element, so its channel is
  lost and the next stage links a null pointer.
\<close>

lemma ElementLink_null [simp]: "ElementLink G None b p = None" "ElementLink G a None p = None"
  by (cases a; simp add: ElementLink_def)+

lemma gpu_post_proc_null:
  assumes "IsGpu c" "Encoding_BuildVideoPostProc G c p = Some (l, q)"
  obtains f where "l = Some (f, None)"
  using assms by (auto simp: Encoding_BuildVideoPostProc_def Let_def add_after_def bind_eq_Some_conv split: if_splits)

lemma gpu_post_stage_null:
  assumes "IsGpu c" "av_have_video c"
    "Encoding_BuildPostProc G c (Encoding_BuildVideoPostProc G c) (Encoding_BuildAudioPostProc G c) conn p = Some (conn', q)"
  shows "cn_video conn' = None"
proof -
  obtain l p1 ch p2 where v: "Encoding_BuildVideoPostProc G c p = Some (l, p1)" "append_line G l (cn_video conn) p1 = Some (ch, p2)"
      "(if av_have_audio c then do {
          (line, p) \<leftarrow> Encoding_BuildAudioPostProc G c p2;
          (channel, p) \<leftarrow> append_line G line (cn_audio (conn\<lparr>cn_video := ch\<rparr>)) p;
          Some (conn\<lparr>cn_video := ch, cn_audio := channel\<rparr>, p)
        } else Some (conn\<lparr>cn_video := ch\<rparr>, p2)) = Some (conn', q)"
    using assms(2,3) by (auto simp: Encoding_BuildPostProc_def bind_eq_Some_conv split del: if_split)
  obtain f where "l = Some (f, None)" using v(1) by (rule gpu_post_proc_null [OF assms(1)])
  then have "ch = None" using v(2) by (auto simp: append_line_def bind_eq_Some_conv)
  then show ?thesis using v(3) by (auto simp: bind_eq_Some_conv split: if_splits)
qed

lemma video_converter_line:
  assumes "Encoding_BuildVideoConverter G c p = Some (l, q)"
  obtains f b where "l = Some (f, b)"
  using assms by (auto simp: Encoding_BuildVideoConverter_def build_video_encoder_def Let_def bind_eq_Some_conv)

lemma converter_null:
  assumes "av_have_video c" "cn_video conn = None"
  shows "Encoding_BuildConverter G c (Encoding_BuildVideoConverter G c) a conn p = None"
  using assms
  by (cases "Encoding_BuildVideoConverter G c p")
     (auto simp: Encoding_BuildConverter_def append_line_def elim: video_converter_line)

lemma gpu_encoding_aborts:
  assumes "IsGpu c" "av_have_video c"
  shows "InitPipeline (EncodingStreamBuilder G vod c) p = None"
proof (rule ccontr)
  assume "InitPipeline (EncodingStreamBuilder G vod c) p \<noteq> None"
  then obtain r where "InitPipeline (EncodingStreamBuilder G vod c) p = Some r" by auto
  then obtain conn q conn' q' r' where
    "Encoding_BuildPostProc G c (Encoding_BuildVideoPostProc G c) (Encoding_BuildAudioPostProc G c) conn q = Some (conn', q')"
    "Encoding_BuildConverter G c (Encoding_BuildVideoConverter G c) (Encoding_BuildAudioConverter G c) conn' q' = Some r'"
    by (auto simp: InitPipeline_def EncodingStreamBuilder_def bind_eq_Some_conv)
  then show False using gpu_post_stage_null [OF assms] converter_null [OF assms(2)] by simp
qed

lemma encoding_builds:
  assumes "gst_complete G"
  shows "builds (encoding_ok G c) G c (CreatePipeLine (InitPipeline (EncodingStreamBuilder G vod c)))"
proof (cases "av_have_video c \<and> IsGpu c")
  case True
  then show ?thesis using gpu_encoding_aborts [of c G vod pipeline0] by (simp add: builds_def encoding_ok_def CreatePipeLine_def)
qed (use cpu_encoding_builds [OF assms] in blast)

text \<open>
  Devices already fill the connector that \<open>SrcDecode_BuildUdbConnections\<close> requires to be empty.
\<close>

lemma device_encoding_aborts:
  assumes "av_have_video c \<or> av_have_audio c"
  shows "InitPipeline (DeviceStreamBuilder G vod c) p = None"
proof (rule ccontr)
  assume "InitPipeline (DeviceStreamBuilder G vod c) p \<noteq> None"
  then obtain r where "InitPipeline (DeviceStreamBuilder G vod c) p = Some r" by auto
  then obtain conn q where conn: "Device_BuildInput G c p = Some (conn, q)" "cn_video conn = None" "cn_audio conn = None"
    by (auto simp: InitPipeline_def DeviceStreamBuilder_def EncodingStreamBuilder_def SrcDecode_BuildUdbConnections_def
        bind_eq_Some_conv split: if_splits)
  then show False using assms
    by (auto simp: Device_BuildInput_def raw_source_def add_after_def Let_def bind_eq_Some_conv split: list.splits if_splits)
qed

end
