(* ===== verification/PipelineProps.thy ===== *)
theory PipelineProps
  imports PipelineEncode
begin

text \<open>
  Exactly which configurations of relays, encodings, timeshift recorders and players get a pipeline, and what
  these pipelines consist of.
\<close>

section \<open>A library and configurations for the witnesses\<close>

text \<open>A library in which a URL is its own scheme, with all plugins and links.\<close>

definition demo_urls :: "scheme url_api" where
  "demo_urls = \<lparr>url0 = Scheme_unknown, url_of = (\<lambda>s. if s = ''udp'' then Scheme_udp else Scheme_unknown), url_text = (\<lambda>u. []),
     url_valid = (\<lambda>u. u \<noteq> Scheme_unknown), url_scheme = (\<lambda>u. u), url_host = (\<lambda>u. ''localhost:1000''), url_path = (\<lambda>u. ''/''),
     dir_path = (\<lambda>s. s)\<rparr>"

definition demo_gst :: "scheme gst_env" where
  "demo_gst = \<lparr>ge_crit = True, ge_has = (\<lambda>plugin. True), ge_link = (\<lambda>p a b. True), ge_pad = (\<lambda>e n. True), ge_url = demo_urls,
     ge_file_name = (\<lambda>u. ''master.m3u8''), ge_query = (\<lambda>u. []), ge_hpath = (\<lambda>u. ''/''), ge_host = (\<lambda>s. Some (''localhost'', 1000)),
     ge_size_valid = (\<lambda>(w, h). w \<noteq> 0 \<and> h \<noteq> 0), ge_now = 0\<rparr>"

definition demo_config :: "StreamType \<Rightarrow> scheme AudioVideoConfig" where
  "demo_config type = make_AudioVideoConfig (make_Config type 10
     [\<lparr>iu_id = 1, iu_input = Scheme_udp, iu_user_agent = GSTREAMER\<rparr>]
     [\<lparr>ou_id = 2, ou_output = Scheme_tcp, ou_http_root = []\<rparr>, \<lparr>ou_id = 3, ou_output = Scheme_udp, ou_http_root = []\<rparr>])"

definition demo_relay :: "scheme RelayConfig" where
  "demo_relay = make_RelayConfig (demo_config RELAY)"

definition demo_encoding :: "scheme EncodingConfig" where
  "demo_encoding = make_EncodingConfig (Logo0 demo_urls) (640, 480) (demo_config ENCODE)"

lemmas demo_defs = demo_config_def demo_relay_def demo_encoding_def make_Config_def make_AudioVideoConfig_def make_RelayConfig_def
  make_EncodingConfig_def Config.defs AudioVideoConfig.defs RelayConfig.defs EncodingConfig.defs

lemma demo_gst_complete: "gst_complete demo_gst"
  by (simp add: gst_complete_def demo_gst_def)

lemma demo_relay_ok: "relay_ok demo_gst demo_relay"
  by (simp add: relay_ok_def src_ok_def output_ok_def sink_ok_def Relay_GetVideoCodecType_def Relay_GetAudioCodecType_def
      IsDeviceOutUrl_def IsScreenUrl_def IsDecklinkUrl_def demo_gst_def demo_urls_def demo_defs)

lemma demo_encoding_ok: "encoding_ok demo_gst demo_encoding"
  by (simp add: encoding_ok_def src_ok_def output_ok_def sink_ok_def Encoding_GetVideoCodecType_def Encoding_GetAudioCodecType_def
      IsDeviceOutUrl_def IsScreenUrl_def IsDecklinkUrl_def logo_ok_def Logo_IsValid_def video_codec_ok_def audio_codec_ok_def video_encoders_def audio_encoders_def
      video_rate_ok_def audio_rate_ok_def IsGpu_def GetEncoderType_def IsH264Encoder_def IsAACEncoder_def Logo0_def
      demo_gst_def demo_urls_def demo_defs)

lemma demo_outputs: "length (cf_output demo_relay) = 2" "length (cf_output demo_encoding) = 2"
  by (simp_all add: demo_defs)

section \<open>Recorders and players\<close>

text \<open>
  The sink of a recorder cuts the record into chunks of the configured duration, given in nanoseconds as
  a signed 64 bit number.
\<close>

definition recorder_sink :: "'u TimeshiftConfig \<Rightarrow> element" where
  "recorder_sink c = \<lparr>el_plugin = ''splitmuxsink'', el_name = name_1u ''splitmuxsink'' 0,
     el_props = [(''muxer'', Pv_element ''mpegtsmux'' (MUXER_NAME_1U 0)),
                 (''max-size-time'', Pv_int (tc_chunk_duration c * 10 ^ 9))]\<rparr>"

definition recorder_ok :: "'u gst_env \<Rightarrow> 'u TimeshiftConfig \<Rightarrow> bool" where
  "recorder_ok G c \<longleftrightarrow> (\<exists>uri rest. cf_input c = uri # rest \<and> src_ok G uri)
     \<and> (av_have_video c \<longrightarrow> rl_video_parser c \<in> {''h264parse'', ''h265parse'', ''mpegvideoparse'', ''tsparse''})
     \<and> (av_have_audio c \<longrightarrow> rl_audio_parser c \<in> {''aacparse'', ''ac3parse'', ''mpegaudioparse''})
     \<and> tc_chunk_duration c * 10 ^ 9 < 2 ^ 63"

text \<open>A player needs no source address: it reads the chunks of a directory.\<close>

definition player_src :: "string \<Rightarrow> u64 \<Rightarrow> element" where
  "player_src dir i = \<lparr>el_plugin = ''multifilesrc'', el_name = SRC_NAME_1U 0,
     el_props = [(''location'', Pv_text (dir @ ''%llu.ts'')), (''index'', Pv_int (uint i)), (''loop'', Pv_bool False)]\<rparr>"

definition player_ok :: "'u gst_env \<Rightarrow> 'u RelayConfig \<Rightarrow> bool" where
  "player_ok G c \<longleftrightarrow>
     (av_have_video c \<longrightarrow> rl_video_parser c \<in> {''h264parse'', ''h265parse'', ''mpegvideoparse'', ''tsparse''})
     \<and> (av_have_audio c \<longrightarrow> rl_audio_parser c \<in> {''aacparse'', ''ac3parse'', ''mpegaudioparse''})
     \<and> list_all (output_ok G c (Relay_GetVideoCodecType c) (Relay_GetAudioCodecType c)) (cf_output c)"

text \<open>The elements a pipeline starts with stay in place while stages of relays are added.\<close>

definition begins :: "element list \<Rightarrow> pipeline \<Rightarrow> bool" where
  "begins es p \<longleftrightarrow> (\<exists>more. pl_elements p = es @ more)"

lemma begins_frame [simp]:
  "begins es p \<Longrightarrow> begins es (notify n p)" "begins es p \<Longrightarrow> begins es (HandleOutputSinkPadCreated G e sch i p)"
  "ElementLink G a b p = Some p' \<Longrightarrow> begins es p \<Longrightarrow> begins es p'" "ElementAdd G e p = Some p' \<Longrightarrow> begins es p \<Longrightarrow> begins es p'"
  by (auto simp: begins_def notify_def HandleOutputSinkPadCreated_def ElementLink_def ElementAdd_def bind_eq_Some_conv split: if_splits)

lemma add_after_begins [simp]: "add_after G e a p = Some (n, p') \<Longrightarrow> begins es p \<Longrightarrow> begins es p'"
  by (auto simp: add_after_def bind_eq_Some_conv)

lemma branch_begins [simp]: "output_branch G n pay rtp tee mux p = Some p' \<Longrightarrow> begins es p \<Longrightarrow> begins es p'"
  by (auto simp: output_branch_def bind_eq_Some_conv split: if_splits)

lemma decode_output_begins: "decode_output G v c vc ac conn i output p = Some p' \<Longrightarrow> begins es p \<Longrightarrow> begins es p'"
  by (auto simp: decode_output_def BuildGenericOutput_def bind_eq_Some_conv Let_def split: if_splits)

lemma outputs_begin: "each_output (decode_output G v c vc ac conn) i out p = Some p' \<Longrightarrow> begins es p \<Longrightarrow> begins es p'"
  by (induction out arbitrary: i p) (auto simp: bind_eq_Some_conv dest: decode_output_begins)

lemma relay_stages_begin:
  "SrcDecode_BuildUdbConnections G c v a conn p = Some (conn', p') \<Longrightarrow> begins es p \<Longrightarrow> begins es p'"
  "Relay_BuildConverter G c conn p = Some (conn', p') \<Longrightarrow> begins es p \<Longrightarrow> begins es p'"
  "SrcDecode_BuildOutput G vod c vc ac conn p = Some (conn', p') \<Longrightarrow> begins es p \<Longrightarrow> begins es p'"
  by (auto simp: SrcDecode_BuildUdbConnections_def Relay_BuildConverter_def SrcDecode_BuildOutput_def add_tee_def bind_eq_Some_conv
      intro: outputs_begin split: if_splits)

lemma small_index: "uint i < 2 ^ 31 \<Longrightarrow> sint (ucast (i :: u64) :: 32 word) = uint i"
proof -
  assume i: "uint i < 2 ^ 31"
  have u: "uint (ucast i :: 32 word) = uint i"
    using i by (simp add: unsigned_ucast_eq take_bit_int_eq_self)
  have "- (2 ^ 31) \<le> uint i" by (rule order_trans [OF _ uint_ge_0]) simp
  then have "signed_take_bit 31 (uint i) = uint i" using i by (rule signed_take_bit_int_eq_self)
  then show ?thesis by (simp add: sint_uint u)
qed

lemma player_src_made:
  assumes "gst_complete G" "uint i < 2 ^ 31"
  shows "src_made True (TimeShiftPlayer_BuildInputSrc G dir i)"
    "TimeShiftPlayer_BuildInputSrc G dir i pipeline0 = Some (Some (SRC_NAME_1U 0), pipeline0\<lparr>pl_elements := [player_src dir i]\<rparr>)"
  using assms by (simp_all add: src_made_def TimeShiftPlayer_BuildInputSrc_def make_multifile_src_def ElementAdd_complete SRC_NAME_1U_def
      player_src_def SetProperty_def small_index pipeline0_def pl_names_def)

lemma player_begins:
  assumes "gst_complete G" "uint i < 2 ^ 31" "InitPipeline (TimeShiftPlayerBuilder G vod dir i c) pipeline0 = Some (ok, p)"
  shows "begins [player_src dir i] p"
proof -
  let ?p = "pipeline0\<lparr>pl_elements := [player_src dir i]\<rparr>"
  have p: "begins [player_src dir i] ?p" by (simp add: begins_def)
  show ?thesis using assms(3) p
    by (auto simp: InitPipeline_def TimeShiftPlayerBuilder_def RelayStreamBuilder_def SrcDecode_BuildInput_def pass_on_def Let_def
        player_src_made(2) [OF assms(1,2)] bind_eq_Some_conv elim!: relay_stages_begin)
qed

lemma player_builds:
  assumes G: "gst_complete G" and i: "uint i < 2 ^ 31"
  shows "if player_ok G c
     then \<exists>p. InitPipeline (TimeShiftPlayerBuilder G vod dir i c) pipeline0 = Some (True, p)
        \<and> (\<forall>j<length (cf_output c). served G c video_udb audio_udb j (cf_output c ! j) p)
     else InitPipeline (TimeShiftPlayerBuilder G vod dir i c) pipeline0 = None"
proof -
  have "if True
        \<and> (av_have_video c \<longrightarrow> rl_video_parser c \<in> {''h264parse'', ''h265parse'', ''mpegvideoparse'', ''tsparse''})
        \<and> (av_have_audio c \<longrightarrow> rl_audio_parser c \<in> {''aacparse'', ''ac3parse'', ''mpegaudioparse''}) \<and> True \<and> True
        \<and> list_all (output_ok G c (Relay_GetVideoCodecType c) (Relay_GetAudioCodecType c)) (cf_output c)
     then \<exists>p. InitPipeline (TimeShiftPlayerBuilder G vod dir i c) pipeline0 = Some (True, p)
        \<and> (\<forall>j<length (cf_output c). served G c video_udb audio_udb j (cf_output c ! j) p)
     else InitPipeline (TimeShiftPlayerBuilder G vod dir i c) pipeline0 = None"
    by (rule decode_pipeline [OF G player_src_made(1) [OF assms] relay_udb_makes [OF G],
          where FP = "{}" and FC = "{(''video_tee'', 0), (''audio_tee'', 0)}"])
       (auto simp: TimeShiftPlayerBuilder_def RelayStreamBuilder_def pass_on_stage relay_converter_stage [OF G] decoder_names_def
         all_output_names_def output_names_def)
  then show ?thesis by (auto simp: player_ok_def split: if_splits)
qed

text \<open>What a recorder consists of: the decoder, the parsers of the channels, and the sink.\<close>

definition recorder_names :: "'u TimeshiftConfig \<Rightarrow> string list" where
  "recorder_names c = [SRC_NAME_1U 0, DECODEBIN_NAME_1U 0] @ (if av_have_video c then [UDB_VIDEO_NAME_1U 0] else [])
     @ (if av_have_audio c then [UDB_AUDIO_NAME_1U 0] else []) @ [name_1u ''splitmuxsink'' 0]"

definition recorder_pipeline :: "'u TimeshiftConfig \<Rightarrow> pipeline \<Rightarrow> bool" where
  "recorder_pipeline c p \<longleftrightarrow> pl_names p = recorder_names c \<and> pl_links p = [(SRC_NAME_1U 0, DECODEBIN_NAME_1U 0)]
     \<and> last (pl_elements p) = recorder_sink c
     \<and> last (pl_notes p) = Splitmuxsink_created (if av_have_video c then Some (UDB_VIDEO_NAME_1U 0) else None)
         (if av_have_audio c then Some (UDB_AUDIO_NAME_1U 0) else None) (name_1u ''splitmuxsink'' 0)"

lemma decode_input_names:
  assumes "gst_complete G" "cf_input c = uri # rest"
  shows "if src_ok G uri then \<exists>p. SrcDecode_BuildInput G (SrcDecode_BuildInputSrc G c) pipeline0 = Some (\<lparr>cn_video = None, cn_audio = None\<rparr>, p)
      \<and> pl_names p = [SRC_NAME_1U 0, DECODEBIN_NAME_1U 0] \<and> pl_links p = [(SRC_NAME_1U 0, DECODEBIN_NAME_1U 0)]
    else SrcDecode_BuildInput G (SrcDecode_BuildInputSrc G c) pipeline0 = None"
proof -
  have "makes (src_ok G uri) (SRC_NAME_1U 0) (make_src G uri 0 src_timeout_sec)" by (rule make_src_makes [OF assms(1)])
  then show ?thesis using assms
    by (auto simp: SrcDecode_BuildInput_def SrcDecode_BuildInputSrc_def makes_def ElementAdd_complete ElementLink_complete Let_def
        SRC_NAME_1U_def DECODEBIN_NAME_1U_def) (simp add: pipeline0_def)
qed

lemma recorder_udbs:
  assumes G: "gst_complete G" and p: "pl_names p = [SRC_NAME_1U 0, DECODEBIN_NAME_1U 0]"
    and ok: "av_have_video c \<longrightarrow> rl_video_parser c \<in> {''h264parse'', ''h265parse'', ''mpegvideoparse'', ''tsparse''}"
      "av_have_audio c \<longrightarrow> rl_audio_parser c \<in> {''aacparse'', ''ac3parse'', ''mpegaudioparse''}"
  obtains q where "SrcDecode_BuildUdbConnections G c (Relay_BuildVideoUdbConnection G c) (Relay_BuildAudioUdbConnection G c)
       \<lparr>cn_video = None, cn_audio = None\<rparr> p
     = Some (\<lparr>cn_video = if av_have_video c then Some (UDB_VIDEO_NAME_1U 0) else None,
             cn_audio = if av_have_audio c then Some (UDB_AUDIO_NAME_1U 0) else None\<rparr>, q)"
    "pl_names q = pl_names p @ (if av_have_video c then [UDB_VIDEO_NAME_1U 0] else []) @ (if av_have_audio c then [UDB_AUDIO_NAME_1U 0] else [])"
    "pl_links q = pl_links p"
proof -
  note mk = relay_udb_makes [OF G, of c]
  obtain v where v: "av_have_video c \<Longrightarrow> Relay_BuildVideoUdbConnection G c = Some v \<and> el_name v = video_udb"
    using mk(1) ok(1) by (auto simp: makes_def)
  obtain a where a: "av_have_audio c \<Longrightarrow> Relay_BuildAudioUdbConnection G c = Some a \<and> el_name a = audio_udb"
    using mk(2) ok(2) by (auto simp: makes_def)
  let ?es = "(if av_have_video c then [v] else []) @ (if av_have_audio c then [a] else [])"
  show thesis
    by (rule that [of "p\<lparr>pl_elements := pl_elements p @ ?es\<rparr>"])
       (use v a p in \<open>auto simp: SrcDecode_BuildUdbConnections_def ElementAdd_complete [OF G] UDB_VIDEO_NAME_1U_def UDB_AUDIO_NAME_1U_def
          SRC_NAME_1U_def DECODEBIN_NAME_1U_def\<close>)
qed

lemma set_property_last:
  assumes "n \<notin> names p" "el_name e = n"
  shows "pl_set_property n x v (p\<lparr>pl_elements := pl_elements p @ [e]\<rparr>) = p\<lparr>pl_elements := pl_elements p @ [SetProperty x v e]\<rparr>"
proof -
  have "map (\<lambda>e. if el_name e = n then SetProperty x v e else e) (pl_elements p) = pl_elements p"
    using assms(1) by (intro map_idI) (force simp: pl_names_def)
  then show ?thesis using assms(2) by (simp add: pl_set_property_def)
qed

lemma recorder_output:
  assumes "gst_complete G" "0 < tc_chunk_duration c" "name_1u ''splitmuxsink'' 0 \<notin> names p"
  shows "TimeShiftRecorder_BuildOutput G c conn p = (if tc_chunk_duration c * 10 ^ 9 < 2 ^ 63
     then Some (conn, notify (Splitmuxsink_created (cn_video conn) (cn_audio conn) (name_1u ''splitmuxsink'' 0))
        (p\<lparr>pl_elements := pl_elements p @ [recorder_sink c]\<rparr>)) else None)"
proof -
  define n where "n = tc_chunk_duration c * 1000000000"
  have n: "0 < n" using assms(2) by (simp add: n_def)
  then have "uint (word_of_int n :: u64) = n" if "n < 2 ^ 63" using that by (simp add: uint_word_of_int)
  then show ?thesis using assms(1,3) n
    by (simp add: TimeShiftRecorder_BuildOutput_def ElementAdd_complete checked_i64_def make_mpegtsmux_def set_property_last
        recorder_sink_def flip: n_def) (simp add: SetProperty_def)
qed

lemma recorder_builds:
  assumes G: "gst_complete G" and d: "0 < tc_chunk_duration c"
  shows "if recorder_ok G c
     then \<exists>p. InitPipeline (TimeShiftRecorderStreamBuilder G vod c) pipeline0 = Some (True, p) \<and> recorder_pipeline c p
     else InitPipeline (TimeShiftRecorderStreamBuilder G vod c) pipeline0 = None"
proof -
  let ?input = "SrcDecode_BuildInput G (SrcDecode_BuildInputSrc G c)"
  let ?udbs = "SrcDecode_BuildUdbConnections G c (Relay_BuildVideoUdbConnection G c) (Relay_BuildAudioUdbConnection G c)"
  let ?parsers = "(av_have_video c \<longrightarrow> rl_video_parser c \<in> {''h264parse'', ''h265parse'', ''mpegvideoparse'', ''tsparse''})
     \<and> (av_have_audio c \<longrightarrow> rl_audio_parser c \<in> {''aacparse'', ''ac3parse'', ''mpegaudioparse''})"
  have init: "InitPipeline (TimeShiftRecorderStreamBuilder G vod c) pipeline0 = do {
      (conn, p) \<leftarrow> ?input pipeline0; (conn, p) \<leftarrow> ?udbs conn p;
      (conn, p) \<leftarrow> TimeShiftRecorder_BuildOutput G c conn p; Some (True, p) }"
    by (simp add: InitPipeline_def TimeShiftRecorderStreamBuilder_def RelayStreamBuilder_def pass_on_def split_def)
  show ?thesis
  proof (cases "\<exists>uri rest. cf_input c = uri # rest \<and> src_ok G uri")
    case True
    then obtain uri rest where uri: "cf_input c = uri # rest" "src_ok G uri" by blast
    then obtain p where p: "?input pipeline0 = Some (\<lparr>cn_video = None, cn_audio = None\<rparr>, p)"
        "pl_names p = [SRC_NAME_1U 0, DECODEBIN_NAME_1U 0]" "pl_links p = [(SRC_NAME_1U 0, DECODEBIN_NAME_1U 0)]"
      using decode_input_names [OF G uri(1)] by auto
    show ?thesis
    proof (cases ?parsers)
      case ok: True
      obtain q where q: "?udbs \<lparr>cn_video = None, cn_audio = None\<rparr> p
          = Some (\<lparr>cn_video = if av_have_video c then Some (UDB_VIDEO_NAME_1U 0) else None,
             cn_audio = if av_have_audio c then Some (UDB_AUDIO_NAME_1U 0) else None\<rparr>, q)"
        "pl_names q = pl_names p @ (if av_have_video c then [UDB_VIDEO_NAME_1U 0] else []) @ (if av_have_audio c then [UDB_AUDIO_NAME_1U 0] else [])"
        "pl_links q = pl_links p"
        using ok by (elim conjE) (rule recorder_udbs [OF G p(2)])
      have fresh: "name_1u ''splitmuxsink'' 0 \<notin> names q"
        by (simp add: q(2) p(2) SRC_NAME_1U_def DECODEBIN_NAME_1U_def UDB_VIDEO_NAME_1U_def UDB_AUDIO_NAME_1U_def)
      show ?thesis using True ok
        by (simp add: init p q recorder_output [OF G d fresh] recorder_ok_def recorder_pipeline_def recorder_names_def)
           (simp add: recorder_sink_def notify_def)
    next
      case False
      then have "?udbs \<lparr>cn_video = None, cn_audio = None\<rparr> p = None"
        using relay_udb_makes [OF G, of c]
        by (auto simp: SrcDecode_BuildUdbConnections_def makes_def bind_eq_None_conv split: if_splits)
      then show ?thesis using False by (auto simp: init p(1) recorder_ok_def)
    qed
  next
    case False
    then have "?input pipeline0 = None"
      using decode_input [OF G SrcDecode_src_made [OF G, of c]] by simp
    then show ?thesis using False by (auto simp: init recorder_ok_def)
  qed
qed

text \<open>Which recorders and players get a pipeline.\<close>

lemma timeshift_created:
  assumes "gst_complete G" "0 < tc_chunk_duration c" "uint i < 2 ^ 31"
  shows "(if recorder_ok G c
     then \<exists>p. recorder_pipeline c p \<and> CreatePipeLine (CreateBuilder G d (TimeShiftRecorderStream c)) = Some (Some p)
        \<and> CreatePipeLine (CreateBuilder G d (CatchupStream c)) = Some (Some p)
     else CreatePipeLine (CreateBuilder G d (TimeShiftRecorderStream c)) = None
        \<and> CreatePipeLine (CreateBuilder G d (CatchupStream c)) = None)
   \<and> (if player_ok G rc
     then \<exists>p. CreatePipeLine (CreateBuilder G d (TimeShiftPlayerStream rc i)) = Some (Some p) \<and> hd (pl_elements p) = player_src d i
        \<and> (\<forall>j<length (cf_output rc). served G rc (UDB_VIDEO_NAME_1U 0) (UDB_AUDIO_NAME_1U 0) j (cf_output rc ! j) p)
     else CreatePipeLine (CreateBuilder G d (TimeShiftPlayerStream rc i)) = None)" (is "?rec \<and> ?play")
proof
  show ?rec
    using recorder_builds [OF assms(1,2), of "vod_type (cf_type c)"]
    by (auto simp: CreatePipeLine_def CatchupStreamBuilder_def split: if_splits)
  show ?play
  proof (cases "player_ok G rc")
    case True
    then obtain p where p: "InitPipeline (TimeShiftPlayerBuilder G (vod_type (cf_type rc)) d i rc) pipeline0 = Some (True, p)"
        "\<forall>j<length (cf_output rc). served G rc video_udb audio_udb j (cf_output rc ! j) p"
      using player_builds [OF assms(1,3), of rc "vod_type (cf_type rc)" d] by auto
    have "begins [player_src d i] p" by (rule player_begins [OF assms(1,3) p(1)])
    then show ?thesis using True p by (auto simp: CreatePipeLine_def UDB_VIDEO_NAME_1U_def UDB_AUDIO_NAME_1U_def begins_def)
  next
    case False
    then show ?thesis using player_builds [OF assms(1,3), of rc "vod_type (cf_type rc)" d] by (simp add: CreatePipeLine_def)
  qed
qed

section \<open>Which streams get a pipeline\<close>

text \<open>
  (C16) With a library that has all plugins and accepts all links, a relay gets a pipeline exactly for an
  acceptable source, parsers of its channels that exist, and outputs that can be muxed and, for RTP, paid;
  then the data of each channel reach the sink of every output. Every other configuration ends the process.
\<close>

theorem relay_pipelines:
  assumes "gst_complete G"
  shows "if relay_ok G c
     then \<exists>p. CreatePipeLine (CreateBuilder G d (RelayStream c)) = Some (Some p)
        \<and> (\<forall>j<length (cf_output c). served G c (UDB_VIDEO_NAME_1U 0) (UDB_AUDIO_NAME_1U 0) j (cf_output c ! j) p)
     else CreatePipeLine (CreateBuilder G d (RelayStream c)) = None"
  using relay_builds [OF assms, of c "vod_type (cf_type c)"]
  by (simp add: builds_def UDB_VIDEO_NAME_1U_def UDB_AUDIO_NAME_1U_def)

theorem relay_pipelines_witness:
  "\<exists>p. CreatePipeLine (CreateBuilder demo_gst [] (RelayStream demo_relay)) = Some (Some p)
     \<and> (\<forall>j<2. served demo_gst demo_relay (UDB_VIDEO_NAME_1U 0) (UDB_AUDIO_NAME_1U 0) j (cf_output demo_relay ! j) p)"
  using relay_pipelines [OF demo_gst_complete, of demo_relay "[]"] by (simp add: demo_relay_ok demo_outputs del: CreateBuilder.simps)

text \<open>
  (C17) An encoding gets a pipeline exactly for an acceptable source and outputs, encoders that exist and
  do not run on the GPU, bit rates that fit an \<open>int\<close> when scaled, and a logo that is a file; then the data
  of each channel reach every sink. Every other configuration ends the process.
\<close>

theorem encoding_pipelines:
  assumes "gst_complete G"
  shows "if encoding_ok G c
     then \<exists>p. CreatePipeLine (CreateBuilder G d (EncodingStream c)) = Some (Some p)
        \<and> (\<forall>j<length (cf_output c). served G c (UDB_VIDEO_NAME_1U 0) (UDB_AUDIO_NAME_1U 0) j (cf_output c ! j) p)
     else CreatePipeLine (CreateBuilder G d (EncodingStream c)) = None"
  using encoding_builds [OF assms, of c "vod_type (cf_type c)"]
  by (simp add: builds_def UDB_VIDEO_NAME_1U_def UDB_AUDIO_NAME_1U_def)

theorem encoding_pipelines_witness:
  "\<exists>p. CreatePipeLine (CreateBuilder demo_gst [] (EncodingStream demo_encoding)) = Some (Some p)
     \<and> (\<forall>j<2. served demo_gst demo_encoding (UDB_VIDEO_NAME_1U 0) (UDB_AUDIO_NAME_1U 0) j (cf_output demo_encoding ! j) p)"
  using encoding_pipelines [OF demo_gst_complete, of demo_encoding "[]"] by (simp add: demo_encoding_ok demo_outputs del: CreateBuilder.simps)

end
