(* ===== verification/StreamSignals.thy ===== *)
theory StreamSignals
  imports PipelineProps BaseStream
begin

text \<open>
  Components \<open>streams/src_decodebin_stream\<close>, \<open>streams/relay/relay_stream\<close>, \<open>streams/encoding/encoding_stream\<close>,
  \<open>streams/encoding/encoding_only_audio_stream\<close>, \<open>streams/encoding/encoding_only_video_stream\<close>: how streams answer the decoder of their pipeline, which asks whether
  to decode a media type further and tells which pads appeared.

  A debug build ends the process at a failed \<open>DCHECK\<close> or at \<open>DNOTREACHED\<close>; \<open>dbg\<close> says whether this is one.
\<close>

section \<open>Media types of the multimedia library\<close>

text \<open>
  Capabilities: their text, and the first structure with its integer fields and its frame rate. A pad has
  a name, the name of the first structure of its capabilities and the number of its channels. The
  functions of the library on them are projections.
\<close>

record gst_caps =
  cp_text :: "string option"
  cp_struct :: "((string \<rightharpoonup> int) \<times> (int \<times> int) option) option"

record gst_pad =
  pd_name :: string
  pd_query :: "string option option"
  pd_channels :: "int option option"

definition pad_get_type :: "gst_pad \<Rightarrow> string option" where
  "pad_get_type pad = (case pd_query pad of None \<Rightarrow> None | Some pad_struct \<Rightarrow> pad_struct)"

definition get_type_from_caps :: "bool \<Rightarrow> gst_caps option \<Rightarrow> (string \<times> string) option outcome" where
  "get_type_from_caps dbg caps = (case caps of
     None \<Rightarrow> if dbg then Abort else Ret None
   | Some c \<Rightarrow> (case cp_text c of
       None \<Rightarrow> if dbg then Abort else Ret None
     | Some t \<Rightarrow> Ret (Some (takeWhile (\<lambda>ch. ch \<noteq> CHR '','') t, t))))"

section \<open>Whether to decode further\<close>

text \<open>
  The answer for capabilities, \<open>True\<close> to go on. The classes differ in the answers for video and audio
  they can hand on, in the input whose desired rate they register, and in the final check.
\<close>

definition register_audio ::
  "'d rates \<Rightarrow> bool \<Rightarrow> gst_caps \<Rightarrow> element_id_t \<Rightarrow> 'd base_stream \<Rightarrow> (bool \<times> 'd base_stream) outcome" where
  "register_audio R go_on caps i s = (case cp_struct caps of
     Some (st, fraction) \<Rightarrow>
       if st ''rate'' \<noteq> None then
         (case RegisterAudioCaps R (Some st) i s of Abort \<Rightarrow> Abort | Ret s \<Rightarrow> Ret (go_on, s))
       else Ret (True, s)
   | None \<Rightarrow> Ret (True, s))"

definition register_video ::
  "'d rates \<Rightarrow> bool \<Rightarrow> gst_caps \<Rightarrow> element_id_t \<Rightarrow> 'd base_stream \<Rightarrow> (bool \<times> 'd base_stream) outcome" where
  "register_video R go_on caps i s = (case cp_struct caps of
     Some (st, fraction) \<Rightarrow>
       if st ''width'' \<noteq> None \<and> st ''height'' \<noteq> None then
         (case RegisterVideoCaps R VIDEO_H264_CODEC (Some (st, fraction)) i s of Abort \<Rightarrow> Abort | Ret s \<Rightarrow> Ret (go_on, s))
       else Ret (True, s)
   | None \<Rightarrow> Ret (True, s))"

definition autoplugger ::
  "bool \<Rightarrow> 'd rates \<Rightarrow> bool \<Rightarrow> bool \<Rightarrow> bool \<Rightarrow> gst_caps option \<Rightarrow> 'd base_stream \<Rightarrow> (bool \<times> 'd base_stream) outcome" where
  "autoplugger dbg R video_on audio_on check_raw caps s = (case get_type_from_caps dbg caps of
     Abort \<Rightarrow> Abort
   | Ret None \<Rightarrow> Ret (True, s)
   | Ret (Some (type_title, type_full)) \<Rightarrow>
      if IsDemuxerFromType type_title \<noteq> None then Ret (True, s)
      else (case IsVideoCodecFromType type_title of
        Some VIDEO_H264_CODEC \<Rightarrow> register_video R video_on (the caps) 0 s
      | Some VIDEO_H265_CODEC \<Rightarrow> Ret (video_on, s)
      | Some VIDEO_MPEG_CODEC \<Rightarrow> Ret (True, s)
      | None \<Rightarrow> (case IsAudioCodecFromType type_title of
          Some AUDIO_MPEG_CODEC \<Rightarrow> register_audio R audio_on (the caps) 0 s
        | Some AUDIO_AC3_CODEC \<Rightarrow> register_audio R audio_on (the caps) 0 s
        | Some AUDIO_AAC_CODEC \<Rightarrow> if dbg then Abort else Ret (True, s)
        | None \<Rightarrow>
            if check_raw \<and> dbg \<and> IsRawStreamFromType type_title = None \<and> IsOtherFromType type_title = None then Abort
            else Ret (True, s))))"

definition Relay_HandleDecodeBinAutoplugger ::
  "bool \<Rightarrow> 'd rates \<Rightarrow> gst_caps option \<Rightarrow> 'd base_stream \<Rightarrow> (bool \<times> 'd base_stream) outcome" where
  "Relay_HandleDecodeBinAutoplugger dbg R = autoplugger dbg R False False False"

definition Encoding_HandleDecodeBinAutoplugger ::
  "bool \<Rightarrow> 'd rates \<Rightarrow> gst_caps option \<Rightarrow> 'd base_stream \<Rightarrow> (bool \<times> 'd base_stream) outcome" where
  "Encoding_HandleDecodeBinAutoplugger dbg R = autoplugger dbg R True True True"

definition OnlyAudio_HandleDecodeBinAutoplugger ::
  "bool \<Rightarrow> 'd rates \<Rightarrow> gst_caps option \<Rightarrow> 'd base_stream \<Rightarrow> (bool \<times> 'd base_stream) outcome" where
  "OnlyAudio_HandleDecodeBinAutoplugger dbg R = autoplugger dbg R False True True"

definition OnlyVideo_HandleDecodeBinAutoplugger ::
  "bool \<Rightarrow> 'd rates \<Rightarrow> gst_caps option \<Rightarrow> 'd base_stream \<Rightarrow> (bool \<times> 'd base_stream) outcome" where
  "OnlyVideo_HandleDecodeBinAutoplugger dbg R = autoplugger dbg R True False True"

datatype autoplug_select = SELECT_TRY | SELECT_SKIP

definition HandleAutoplugSelect ::
  "bool \<Rightarrow> ('u, 'm) AudioVideoConfig_scheme \<Rightarrow> gst_caps option \<Rightarrow> string \<Rightarrow> autoplug_select outcome" where
  "HandleAutoplugSelect dbg config caps factoryName = (case get_type_from_caps dbg caps of
     Abort \<Rightarrow> Abort
   | Ret None \<Rightarrow> Ret SELECT_TRY
   | Ret (Some (type_title, type_full)) \<Rightarrow>
      Ret (if \<not> av_avformat config then SELECT_TRY
           else if factoryName = ''tsdemux'' \<and> IsDemuxerFromType type_title = Some VIDEO_MPEGTS_DEMUXER then SELECT_SKIP
           else SELECT_TRY))"

definition Encoding_HandleAutoplugSelect ::
  "bool \<Rightarrow> ('u, 'm) AudioVideoConfig_scheme \<Rightarrow> gst_caps option \<Rightarrow> string \<Rightarrow> autoplug_select outcome" where
  "Encoding_HandleAutoplugSelect dbg config caps factoryName = HandleAutoplugSelect dbg config caps factoryName"

section \<open>Pads that appear\<close>

text \<open>
  The state of a stream with a running pipeline: its base, the elements of its pipeline and the pads of
  decoders that were linked to the input pad of an element.
\<close>

record 'd decode_stream =
  dc_base :: "'d base_stream"
  dc_pipeline :: pipeline
  dc_linked :: "(gst_pad \<times> string) list"

text \<open>\<open>IBaseStream::GetElementByName\<close>: an unknown name ends the process.\<close>

definition stream_GetElementByName :: "string \<Rightarrow> 'd decode_stream \<Rightarrow> element outcome" where
  "stream_GetElementByName name s = (case GetElementByName name (dc_pipeline s) of Some el \<Rightarrow> Ret el | None \<Rightarrow> Abort)"

definition sink_linked :: "string \<Rightarrow> 'd decode_stream \<Rightarrow> bool" where
  "sink_linked name s \<longleftrightarrow> name \<in> snd ` set (dc_linked s) \<or> name \<in> snd ` set (pl_links (dc_pipeline s))"

definition is_video_pad :: "string \<Rightarrow> bool" where "is_video_pad type \<longleftrightarrow> take 5 type = ''video''"

definition is_audio_pad :: "string \<Rightarrow> bool" where "is_audio_pad type \<longleftrightarrow> take 5 type = ''audio''"

definition audio_selected :: "'a conv_scheme \<Rightarrow> ('u, 'm) AudioVideoConfig_scheme \<Rightarrow> gst_pad \<Rightarrow> bool" where
  "audio_selected cv config pad = (case av_audio_select config of
     None \<Rightarrow> True
   | Some track \<Rightarrow> (case GetPadId cv (pd_name pad) 0 of (ok, current_audio_track) \<Rightarrow> ok \<and> track = current_audio_track))"

text \<open>Linking a pad to the input of an element, whether or not the library accepts the link.\<close>

definition link_pad :: "'u gst_env \<Rightarrow> bool \<Rightarrow> gst_pad \<Rightarrow> element \<Rightarrow> 'd decode_stream \<Rightarrow> bool \<times> 'd decode_stream" where
  "link_pad G accepted pad dest s =
     (if \<not> ge_pad G (el_plugin dest) ''sink'' then (False, s)
      else (True, if sink_linked (el_name dest) s \<or> \<not> accepted then s
                  else s\<lparr>dc_linked := dc_linked s @ [(pad, el_name dest)]\<rparr>))"

definition pad_added ::
  "'u gst_env \<Rightarrow> 'a conv_scheme \<Rightarrow> bool \<Rightarrow> ('u, 'm) AudioVideoConfig_scheme \<Rightarrow> bool \<Rightarrow> gst_pad \<Rightarrow> 'd decode_stream
     \<Rightarrow> 'd decode_stream outcome" where
  "pad_added G cv fatal config accepted pad s = (case pad_get_type pad of
     None \<Rightarrow> if fatal then Abort else Ret s
   | Some type \<Rightarrow>
      if is_video_pad type then
        (if av_have_video config \<and> \<not> IsVideoInited (dc_base s) then
           (case stream_GetElementByName (UDB_VIDEO_NAME_1U 0) s of
              Abort \<Rightarrow> Abort
            | Ret dest \<Rightarrow> (case link_pad G accepted pad dest s of (valid, s) \<Rightarrow>
                Ret (if valid then s\<lparr>dc_base := SetVideoInited True (dc_base s)\<rparr> else s)))
         else Ret s)
      else if is_audio_pad type then
        (if av_have_audio config \<and> \<not> IsAudioInited (dc_base s) \<and> audio_selected cv config pad then
           (case stream_GetElementByName (UDB_AUDIO_NAME_1U 0) s of
              Abort \<Rightarrow> Abort
            | Ret dest \<Rightarrow> (case link_pad G accepted pad dest s of (valid, s) \<Rightarrow>
                Ret (if valid then s\<lparr>dc_base := SetAudioInited True (dc_base s)\<rparr> else s)))
         else Ret s)
      else Ret s)"

definition Relay_HandleDecodeBinPadAdded ::
  "'u gst_env \<Rightarrow> 'a conv_scheme \<Rightarrow> bool \<Rightarrow> ('u, 'm) RelayConfig_scheme \<Rightarrow> bool \<Rightarrow> gst_pad \<Rightarrow> 'd decode_stream
     \<Rightarrow> 'd decode_stream outcome" where
  "Relay_HandleDecodeBinPadAdded G cv dbg config = pad_added G cv dbg config"

definition Encoding_HandleDecodeBinPadAdded ::
  "'u gst_env \<Rightarrow> 'a conv_scheme \<Rightarrow> ('u, 'm) EncodingConfig_scheme \<Rightarrow> bool \<Rightarrow> gst_pad \<Rightarrow> 'd decode_stream
     \<Rightarrow> 'd decode_stream outcome" where
  "Encoding_HandleDecodeBinPadAdded G cv config = pad_added G cv True config"

text \<open>Encodings of sources that are not live pause while the library buffers.\<close>

definition Encoding_HandleBufferingMessage :: "int \<Rightarrow> state_change \<Rightarrow> 'd base_stream \<Rightarrow> gst_state option \<times> 'd base_stream" where
  "Encoding_HandleBufferingMessage percent ret s =
     (if is_live s then (None, s)
      else if percent = 100 then (Some STATE_PLAYING, Play ret s)
      else (Some STATE_PAUSED, s))"

text \<open>The sequence of pads that decoders report, each with the answer of the library to its link.\<close>

fun pads_added ::
  "(bool \<Rightarrow> gst_pad \<Rightarrow> 'd decode_stream \<Rightarrow> 'd decode_stream outcome) \<Rightarrow> (bool \<times> gst_pad) list \<Rightarrow> 'd decode_stream
     \<Rightarrow> 'd decode_stream outcome" where
  "pads_added h [] s = Ret s"
| "pads_added h ((accepted, pad) # pads) s = (case h accepted pad s of Abort \<Rightarrow> Abort | Ret s \<Rightarrow> pads_added h pads s)"

section \<open>The first pad wins\<close>

definition fits_video :: "('u, 'm) AudioVideoConfig_scheme \<Rightarrow> gst_pad \<Rightarrow> bool" where
  "fits_video c pad = (case pad_get_type pad of None \<Rightarrow> False | Some type \<Rightarrow> av_have_video c \<and> is_video_pad type)"

definition fits_audio :: "'a conv_scheme \<Rightarrow> ('u, 'm) AudioVideoConfig_scheme \<Rightarrow> gst_pad \<Rightarrow> bool" where
  "fits_audio cv c pad = (case pad_get_type pad of None \<Rightarrow> False | Some type \<Rightarrow> av_have_audio c \<and> is_audio_pad type \<and> audio_selected cv c pad)"

text \<open>The link a channel gets from a sequence of pads.\<close>

definition first_fit :: "(gst_pad \<Rightarrow> bool) \<Rightarrow> string \<Rightarrow> (bool \<times> gst_pad) list \<Rightarrow> (gst_pad \<times> string) list" where
  "first_fit P n pads = (case find (\<lambda>(accepted, pad). P pad) pads of
     Some (accepted, pad) \<Rightarrow> if accepted then [(pad, n)] else [] | None \<Rightarrow> [])"

text \<open>The elements behind the decoder exist and are free as long as their channel has no pad.\<close>

definition free_input :: "'u gst_env \<Rightarrow> string \<Rightarrow> 'd decode_stream \<Rightarrow> bool" where
  "free_input G n s \<longleftrightarrow> (\<exists>el. GetElementByName n (dc_pipeline s) = Some el \<and> ge_pad G (el_plugin el) ''sink'') \<and> \<not> sink_linked n s"

definition ready :: "'u gst_env \<Rightarrow> ('u, 'm) AudioVideoConfig_scheme \<Rightarrow> 'd decode_stream \<Rightarrow> bool" where
  "ready G c s \<longleftrightarrow> (av_have_video c \<and> \<not> IsVideoInited (dc_base s) \<longrightarrow> free_input G (UDB_VIDEO_NAME_1U 0) s)
     \<and> (av_have_audio c \<and> \<not> IsAudioInited (dc_base s) \<longrightarrow> free_input G (UDB_AUDIO_NAME_1U 0) s)"

lemma GetElementByName_name: "GetElementByName n p = Some el \<Longrightarrow> el_name el = n"
  by (auto simp: GetElementByName_def find_Some_iff)

lemma udb_names_differ [simp]: "UDB_VIDEO_NAME_1U i \<noteq> UDB_AUDIO_NAME_1U j" "UDB_AUDIO_NAME_1U j \<noteq> UDB_VIDEO_NAME_1U i"
  by (simp_all add: UDB_VIDEO_NAME_1U_def UDB_AUDIO_NAME_1U_def)

lemma not_both [simp]: "is_video_pad t \<Longrightarrow> \<not> is_audio_pad t"
  by (simp add: is_video_pad_def is_audio_pad_def)

lemma link_pad_free:
  assumes "free_input G n s" "GetElementByName n (dc_pipeline s) = Some el"
  shows "link_pad G accepted pad el s = (True, if accepted then s\<lparr>dc_linked := dc_linked s @ [(pad, n)]\<rparr> else s)"
  using assms GetElementByName_name [OF assms(2)] by (auto simp: link_pad_def free_input_def)

text \<open>One pad: what it links and which marks it leaves.\<close>

lemma pad_added_step:
  assumes "ready G c s" "fatal \<longrightarrow> pad_get_type pad \<noteq> None"
  obtains t where "pad_added G cv fatal c accepted pad s = Ret t" "dc_pipeline t = dc_pipeline s"
    "IsVideoInited (dc_base t) \<longleftrightarrow> IsVideoInited (dc_base s) \<or> fits_video c pad"
    "IsAudioInited (dc_base t) \<longleftrightarrow> IsAudioInited (dc_base s) \<or> fits_audio cv c pad"
    "dc_linked t = dc_linked s @ (if accepted \<and> fits_video c pad \<and> \<not> IsVideoInited (dc_base s) then [(pad, UDB_VIDEO_NAME_1U 0)]
       else if accepted \<and> fits_audio cv c pad \<and> \<not> IsAudioInited (dc_base s) then [(pad, UDB_AUDIO_NAME_1U 0)] else [])"
proof (cases "pad_get_type pad")
  case None
  then show ?thesis using assms(2) by (intro that [of s]) (auto simp: pad_added_def fits_video_def fits_audio_def)
next
  case (Some t)
  note flags = inited_flags [of "dc_base s"]
  consider (video) "is_video_pad t" "av_have_video c" "\<not> IsVideoInited (dc_base s)"
    | (audio) "\<not> is_video_pad t" "is_audio_pad t" "av_have_audio c" "\<not> IsAudioInited (dc_base s)" "audio_selected cv c pad"
    | (skip) "\<not> (is_video_pad t \<and> av_have_video c \<and> \<not> IsVideoInited (dc_base s))"
        "\<not> (\<not> is_video_pad t \<and> is_audio_pad t \<and> av_have_audio c \<and> \<not> IsAudioInited (dc_base s) \<and> audio_selected cv c pad)" by blast
  then show ?thesis
  proof cases
    case video
    then have free: "free_input G (UDB_VIDEO_NAME_1U 0) s" using assms(1) by (simp add: ready_def)
    then obtain el where el: "GetElementByName (UDB_VIDEO_NAME_1U 0) (dc_pipeline s) = Some el" by (auto simp: free_input_def)
    let ?s = "if accepted then s\<lparr>dc_linked := dc_linked s @ [(pad, UDB_VIDEO_NAME_1U 0)]\<rparr> else s"
    show ?thesis
      by (rule that [of "?s\<lparr>dc_base := SetVideoInited True (dc_base ?s)\<rparr>"])
         (use Some video flags link_pad_free [OF free el] el in
           \<open>simp_all add: pad_added_def stream_GetElementByName_def fits_video_def fits_audio_def\<close>)
  next
    case audio
    then have free: "free_input G (UDB_AUDIO_NAME_1U 0) s" using assms(1) by (simp add: ready_def)
    then obtain el where el: "GetElementByName (UDB_AUDIO_NAME_1U 0) (dc_pipeline s) = Some el" by (auto simp: free_input_def)
    let ?s = "if accepted then s\<lparr>dc_linked := dc_linked s @ [(pad, UDB_AUDIO_NAME_1U 0)]\<rparr> else s"
    show ?thesis
      by (rule that [of "?s\<lparr>dc_base := SetAudioInited True (dc_base ?s)\<rparr>"])
         (use Some audio flags link_pad_free [OF free el] el in
           \<open>simp_all add: pad_added_def stream_GetElementByName_def fits_video_def fits_audio_def\<close>)
  next
    case skip
    then show ?thesis using Some
      by (intro that [of s]) (auto simp: pad_added_def fits_video_def fits_audio_def split: if_splits)
  qed
qed

lemma ready_step:
  assumes "ready G c s" "dc_pipeline t = dc_pipeline s"
    "IsVideoInited (dc_base t) \<longleftrightarrow> IsVideoInited (dc_base s) \<or> v" "IsAudioInited (dc_base t) \<longleftrightarrow> IsAudioInited (dc_base s) \<or> a"
    "dc_linked t = dc_linked s @ (if ok \<and> v \<and> \<not> IsVideoInited (dc_base s) then [(pad, UDB_VIDEO_NAME_1U 0)]
       else if ok \<and> a \<and> \<not> IsAudioInited (dc_base s) then [(pad, UDB_AUDIO_NAME_1U 0)] else [])"
  shows "ready G c t"
  using assms by (auto simp: ready_def free_input_def sink_linked_def)

abbreviation linked_to :: "string \<Rightarrow> 'd decode_stream \<Rightarrow> (gst_pad \<times> string) list" where
  "linked_to n s \<equiv> filter (\<lambda>(pad, m). m = n) (dc_linked s)"

lemma fits_not_both: "fits_video c pad \<Longrightarrow> \<not> fits_audio cv c pad"
  by (auto simp: fits_video_def fits_audio_def split: option.splits)

lemma pads_added_first:
  assumes "ready G c s" "\<forall>(accepted, pad)\<in>set pads. fatal \<longrightarrow> pad_get_type pad \<noteq> None"
  shows "\<exists>t. pads_added (pad_added G cv fatal c) pads s = Ret t \<and> dc_pipeline t = dc_pipeline s
    \<and> linked_to (UDB_VIDEO_NAME_1U 0) t = linked_to (UDB_VIDEO_NAME_1U 0) s
        @ (if IsVideoInited (dc_base s) then [] else first_fit (fits_video c) (UDB_VIDEO_NAME_1U 0) pads)
    \<and> linked_to (UDB_AUDIO_NAME_1U 0) t = linked_to (UDB_AUDIO_NAME_1U 0) s
        @ (if IsAudioInited (dc_base s) then [] else first_fit (fits_audio cv c) (UDB_AUDIO_NAME_1U 0) pads)
    \<and> set (dc_linked t) \<subseteq> set (dc_linked s) \<union> UNIV \<times> {UDB_VIDEO_NAME_1U 0, UDB_AUDIO_NAME_1U 0}"
  using assms
proof (induction pads arbitrary: s)
  case Nil
  then show ?case by (simp add: first_fit_def)
next
  case (Cons x pads)
  obtain accepted pad where x: "x = (accepted, pad)" by (cases x)
  have "fatal \<longrightarrow> pad_get_type pad \<noteq> None" using Cons.prems(2) x by simp
  with Cons.prems(1) obtain t where t: "pad_added G cv fatal c accepted pad s = Ret t" "dc_pipeline t = dc_pipeline s"
    "IsVideoInited (dc_base t) \<longleftrightarrow> IsVideoInited (dc_base s) \<or> fits_video c pad"
    "IsAudioInited (dc_base t) \<longleftrightarrow> IsAudioInited (dc_base s) \<or> fits_audio cv c pad"
    "dc_linked t = dc_linked s @ (if accepted \<and> fits_video c pad \<and> \<not> IsVideoInited (dc_base s) then [(pad, UDB_VIDEO_NAME_1U 0)]
       else if accepted \<and> fits_audio cv c pad \<and> \<not> IsAudioInited (dc_base s) then [(pad, UDB_AUDIO_NAME_1U 0)] else [])"
    by (rule pad_added_step)
  have "ready G c t" by (rule ready_step [OF Cons.prems(1) t(2-5)])
  then obtain u where u: "pads_added (pad_added G cv fatal c) pads t = Ret u" "dc_pipeline u = dc_pipeline t"
    "linked_to (UDB_VIDEO_NAME_1U 0) u = linked_to (UDB_VIDEO_NAME_1U 0) t
        @ (if IsVideoInited (dc_base t) then [] else first_fit (fits_video c) (UDB_VIDEO_NAME_1U 0) pads)"
    "linked_to (UDB_AUDIO_NAME_1U 0) u = linked_to (UDB_AUDIO_NAME_1U 0) t
        @ (if IsAudioInited (dc_base t) then [] else first_fit (fits_audio cv c) (UDB_AUDIO_NAME_1U 0) pads)"
    "set (dc_linked u) \<subseteq> set (dc_linked t) \<union> UNIV \<times> {UDB_VIDEO_NAME_1U 0, UDB_AUDIO_NAME_1U 0}"
    using Cons.IH Cons.prems(2) by fastforce
  have step: "pads_added (pad_added G cv fatal c) (x # pads) s = Ret u" using x t(1) u(1) by simp
  have nb: "\<not> (fits_video c pad \<and> fits_audio cv c pad)" using fits_not_both by blast
  have v: "linked_to (UDB_VIDEO_NAME_1U 0) u = linked_to (UDB_VIDEO_NAME_1U 0) s
        @ (if IsVideoInited (dc_base s) then [] else first_fit (fits_video c) (UDB_VIDEO_NAME_1U 0) (x # pads))"
    unfolding u(3) t(3,5) x by (simp add: first_fit_def)
  have a: "linked_to (UDB_AUDIO_NAME_1U 0) u = linked_to (UDB_AUDIO_NAME_1U 0) s
        @ (if IsAudioInited (dc_base s) then [] else first_fit (fits_audio cv c) (UDB_AUDIO_NAME_1U 0) (x # pads))"
    unfolding u(4) t(4,5) x using nb by (simp add: first_fit_def)
  have "set (dc_linked u) \<subseteq> set (dc_linked s) \<union> UNIV \<times> {UDB_VIDEO_NAME_1U 0, UDB_AUDIO_NAME_1U 0}"
    using u(5) t(5) by (auto split: if_splits)
  then show ?case using step u(2) t(2) v a by auto
qed

section \<open>The inputs of relays are free\<close>

text \<open>Where the links of construction steps lead to.\<close>

definition targets :: "pipeline \<Rightarrow> string set" where "targets p = snd ` links p"

lemma targets_frame [simp]:
  "targets (notify n p) = targets p" "targets (HandleInputSrcPadCreated G e sch i p) = targets p"
  "targets (HandleOutputSinkPadCreated G e sch i p) = targets p"
  by (simp_all add: targets_def HandleInputSrcPadCreated_def HandleOutputSinkPadCreated_def)

lemma ElementAdd_targets: "ElementAdd G e p = Some q \<Longrightarrow> targets q = targets p"
  by (auto simp: ElementAdd_def targets_def split: if_splits)

lemma ElementLink_targets: "ElementLink G a b p = Some q \<Longrightarrow> \<exists>z. b = Some z \<and> targets q = insert z (targets p)"
  by (auto simp: ElementLink_def targets_def bind_eq_Some_conv split: if_splits)

lemma add_after_targets: "add_after G e a p = Some (x, q) \<Longrightarrow> targets q = insert (el_name e) (targets p)"
  by (auto simp: add_after_def bind_eq_Some_conv dest!: ElementAdd_targets ElementLink_targets)

lemma make_element_name: "make_element G plugin n = Some e \<Longrightarrow> el_name e = n"
  by (auto simp: make_element_def split: if_splits)

lemma add_tee_targets: "add_tee G n a p = Some (x, q) \<Longrightarrow> targets q = insert n (targets p)"
  by (auto simp: add_tee_def bind_eq_Some_conv dest!: add_after_targets make_element_name)

lemma output_branch_targets:
  "output_branch G qn pay rtp tee mux p = Some q \<Longrightarrow> targets q \<subseteq> targets p \<union> {qn, mux} \<union> {el_name e | e. pay = Some e}"
  by (auto simp: output_branch_def bind_eq_Some_conv split: if_splits
      dest!: ElementLink_targets add_after_targets make_element_name)

lemma maker_names:
  "make_muxer G sch i = Some e \<Longrightarrow> el_name e = MUXER_NAME_1U i"
  "video_pay_of G vcodec i = Some e \<Longrightarrow> el_name e = VIDEO_PAY_NAME_1U i"
  "audio_pay_of G acodec i = Some e \<Longrightarrow> el_name e \<in> {AUDIO_PAY_NAME_1U i, VIDEO_PAY_NAME_1U i}"
  "build_output G output i vod = Some e \<Longrightarrow> el_name e = SINK_NAME_1U i"
proof -
  show "make_muxer G sch i = Some e \<Longrightarrow> el_name e = MUXER_NAME_1U i"
    by (cases sch) (auto simp: make_muxer_def make_flvmux_def make_rtpmux_def make_mpegtsmux_def bind_eq_Some_conv SetProperty_def
        dest!: make_element_name)
  show "video_pay_of G vcodec i = Some e \<Longrightarrow> el_name e = VIDEO_PAY_NAME_1U i"
    by (cases vcodec) (auto simp: video_pay_of_def make_h264_pay_def make_h265_pay_def make_mpeg2_pay_def bind_eq_Some_conv SetProperty_def
        dest!: make_element_name)
  show "audio_pay_of G acodec i = Some e \<Longrightarrow> el_name e \<in> {AUDIO_PAY_NAME_1U i, VIDEO_PAY_NAME_1U i}"
    by (cases acodec) (auto simp: audio_pay_of_def make_aac_pay_def make_ac3_pay_def make_mpeg2_pay_def bind_eq_Some_conv SetProperty_def
        dest!: make_element_name)
  show "build_output G output i vod = Some e \<Longrightarrow> el_name e = SINK_NAME_1U i"
    by (auto simp: build_output_def make_udp_sink_def make_tcp_server_sink_def make_rtmp_sink_def make_http_sink_def bind_eq_Some_conv
        Let_def SetProperty_def dest!: make_element_name split: scheme.splits if_splits)
qed

definition output_targets :: "nat \<Rightarrow> string set" where
  "output_targets i = {VIDEO_TEE_QUEUE_NAME_1U i, AUDIO_TEE_QUEUE_NAME_1U i, VIDEO_PAY_NAME_1U i, AUDIO_PAY_NAME_1U i, MUXER_NAME_1U i,
     SINK_NAME_1U i}"

lemma decode_output_targets:
  assumes "decode_output G vod c vc ac conn i output p = Some q"
  shows "targets q \<subseteq> targets p \<union> output_targets i"
proof (cases "IsDeviceOutUrl (ge_url G) (ou_output output) \<noteq> None")
  case False
  let ?rtp = "url_scheme (ge_url G) (ou_output output) = Scheme_udp"
  obtain mux p1 p2 p3 sink p4 p5 where
    m: "make_muxer G (url_scheme (ge_url G) (ou_output output)) i = Some mux" "ElementAdd G mux p = Some p1"
    and v: "(if av_have_video c then output_branch G (VIDEO_TEE_QUEUE_NAME_1U i) (do { vcodec \<leftarrow> vc; video_pay_of G vcodec i }) ?rtp
        (cn_video conn) (el_name mux) p1 else Some p1) = Some p2"
    and a: "(if av_have_audio c then output_branch G (AUDIO_TEE_QUEUE_NAME_1U i) (do { acodec \<leftarrow> ac; audio_pay_of G acodec i }) ?rtp
        (cn_audio conn) (el_name mux) p2 else Some p2) = Some p3"
    and s: "BuildGenericOutput G vod output i p3 = Some (sink, p4)" "ElementAdd G sink p4 = Some p5"
      "ElementLink G (Some (el_name mux)) (Some (el_name sink)) p5 = Some q"
    using assms False by (auto simp: decode_output_def Let_def bind_eq_Some_conv simp del: split_paired_Ex)
  have "targets p1 = targets p" using m(2) by (rule ElementAdd_targets)
  moreover have "targets p2 \<subseteq> targets p1 \<union> output_targets i"
    using v maker_names(1) [OF m(1)] maker_names(2)
    by (fastforce simp: output_targets_def bind_eq_Some_conv dest!: output_branch_targets split: if_splits)
  moreover have "targets p3 \<subseteq> targets p2 \<union> output_targets i"
    using a maker_names(1) [OF m(1)] maker_names(3)
    by (fastforce simp: output_targets_def bind_eq_Some_conv dest!: output_branch_targets split: if_splits)
  moreover have "targets p4 = targets p3" "el_name sink = SINK_NAME_1U i"
    using s(1) maker_names(4)
    by (auto simp: BuildGenericOutput_def CreateSink_def bind_eq_Some_conv)
  moreover have "targets p5 = targets p4" using s(2) by (rule ElementAdd_targets)
  moreover have "targets q = insert (el_name sink) (targets p5)" using ElementLink_targets [OF s(3)] by auto
  ultimately show ?thesis by (auto simp: output_targets_def)
qed (use assms in \<open>auto simp: decode_output_def split: if_splits\<close>)

lemma each_output_targets:
  "each_output (decode_output G vod c vc ac conn) i out p = Some q \<Longrightarrow> targets q \<subseteq> targets p \<union> (\<Union>j. output_targets j)"
proof (induction out arbitrary: i p)
  case (Cons x out)
  then obtain r where r: "decode_output G vod c vc ac conn i x p = Some r"
      "each_output (decode_output G vod c vc ac conn) (Suc i) out r = Some q" by (auto simp: bind_eq_Some_conv)
  have "targets r \<subseteq> targets p \<union> (\<Union>j. output_targets j)" using decode_output_targets [OF r(1)] by blast
  moreover have "targets q \<subseteq> targets r \<union> (\<Union>j. output_targets j)" using r(2) by (rule Cons.IH)
  ultimately show ?case by blast
qed simp

text \<open>The stages of a relay: where they lead to, and that the inputs behind the decoder exist.\<close>

lemma SrcDecode_BuildInput_targets:
  assumes "SrcDecode_BuildInput G (SrcDecode_BuildInputSrc G c) p = Some (conn, q)"
  shows "targets q \<subseteq> insert (DECODEBIN_NAME_1U 0) (targets p)"
proof -
  obtain src p1 e p2 p3 where
    b: "SrcDecode_BuildInputSrc G c p = Some (src, p1)" "make_element G ''decodebin'' (DECODEBIN_NAME_1U 0) = Some e"
    "ElementAdd G e p1 = Some p2" "ElementLink G src (Some (el_name e)) p2 = Some p3" "q = notify (Decodebin_created (el_name e)) p3"
    using assms by (auto simp: SrcDecode_BuildInput_def bind_eq_Some_conv Let_def)
  obtain e' sch where "ElementAdd G e' (HandleInputSrcPadCreated G e' sch 0 p) = Some p1"
    using b(1) by (auto simp: SrcDecode_BuildInputSrc_def bind_eq_Some_conv Let_def split: list.splits)
  then have "targets p1 = targets p" using ElementAdd_targets by fastforce
  then show ?thesis using ElementAdd_targets [OF b(3)] ElementLink_targets [OF b(4)] make_element_name [OF b(2)] b(5) by simp
qed

lemma ElementAdd_names: "ElementAdd G e p = Some q \<Longrightarrow> names q = insert (el_name e) (names p)"
  by (auto simp: ElementAdd_def pl_names_def split: if_splits)

lemma udb_stage_targets:
  assumes "SrcDecode_BuildUdbConnections G c v a conn p = Some (conn', q)"
    "\<And>e. v = Some e \<Longrightarrow> el_name e = UDB_VIDEO_NAME_1U 0" "\<And>e. a = Some e \<Longrightarrow> el_name e = UDB_AUDIO_NAME_1U 0"
  shows "targets q = targets p" "av_have_video c \<Longrightarrow> UDB_VIDEO_NAME_1U 0 \<in> names q" "av_have_audio c \<Longrightarrow> UDB_AUDIO_NAME_1U 0 \<in> names q"
  using assms
  by (auto simp: SrcDecode_BuildUdbConnections_def bind_eq_Some_conv ElementAdd_names ElementAdd_targets split: if_splits)

lemma Relay_BuildConverter_targets:
  "Relay_BuildConverter G c conn p = Some (conn', q) \<Longrightarrow> targets q \<subseteq> {VIDEO_TEE_NAME_1U 0, AUDIO_TEE_NAME_1U 0} \<union> targets p"
  by (auto simp: Relay_BuildConverter_def bind_eq_Some_conv split: if_splits dest!: add_tee_targets)

lemma udb_no_output_target: "UDB_VIDEO_NAME_1U 0 \<notin> output_targets j" "UDB_AUDIO_NAME_1U 0 \<notin> output_targets j"
  by (simp_all add: output_targets_def UDB_VIDEO_NAME_1U_def UDB_AUDIO_NAME_1U_def VIDEO_TEE_QUEUE_NAME_1U_def AUDIO_TEE_QUEUE_NAME_1U_def
      VIDEO_PAY_NAME_1U_def AUDIO_PAY_NAME_1U_def MUXER_NAME_1U_def SINK_NAME_1U_def)

lemma udb_no_stage_target:
  "UDB_VIDEO_NAME_1U 0 \<notin> {VIDEO_TEE_NAME_1U 0, AUDIO_TEE_NAME_1U 0, DECODEBIN_NAME_1U 0}"
  "UDB_AUDIO_NAME_1U 0 \<notin> {VIDEO_TEE_NAME_1U 0, AUDIO_TEE_NAME_1U 0, DECODEBIN_NAME_1U 0}"
  by (simp_all add: UDB_VIDEO_NAME_1U_def UDB_AUDIO_NAME_1U_def VIDEO_TEE_NAME_1U_def AUDIO_TEE_NAME_1U_def DECODEBIN_NAME_1U_def)

lemma relay_udb_names:
  "Relay_BuildVideoUdbConnection G c = Some e \<Longrightarrow> el_name e = UDB_VIDEO_NAME_1U 0"
  "Relay_BuildAudioUdbConnection G c = Some e' \<Longrightarrow> el_name e' = UDB_AUDIO_NAME_1U 0"
  by (auto simp: Relay_BuildVideoUdbConnection_def Relay_BuildAudioUdbConnection_def make_video_parser_def make_audio_parser_def
      split: if_splits dest: make_element_name)

lemma relay_inputs_free:
  assumes "CreatePipeLine (CreateBuilder G d (RelayStream c)) = Some (Some p)"
  shows "UDB_VIDEO_NAME_1U 0 \<notin> targets p" "UDB_AUDIO_NAME_1U 0 \<notin> targets p"
    "av_have_video c \<Longrightarrow> UDB_VIDEO_NAME_1U 0 \<in> names p" "av_have_audio c \<Longrightarrow> UDB_AUDIO_NAME_1U 0 \<in> names p"
proof -
  obtain c1 p1 c2 p2 c3 p3 c4 where
    s: "SrcDecode_BuildInput G (SrcDecode_BuildInputSrc G c) pipeline0 = Some (c1, p1)"
      "SrcDecode_BuildUdbConnections G c (Relay_BuildVideoUdbConnection G c) (Relay_BuildAudioUdbConnection G c) c1 p1 = Some (c2, p2)"
      "Relay_BuildConverter G c c2 p2 = Some (c3, p3)"
      "SrcDecode_BuildOutput G (vod_type (cf_type c)) c (Relay_GetVideoCodecType c) (Relay_GetAudioCodecType c) c3 p3 = Some (c4, p)"
    using assms
    by (auto simp: CreatePipeLine_def InitPipeline_def RelayStreamBuilder_def pass_on_def bind_eq_Some_conv simp del: split_paired_Ex split: if_splits)
  note udb = udb_stage_targets [OF s(2) relay_udb_names [where G = G and c = c]]
  have "extends p2 p3" using Relay_BuildConverter_keeps [OF extends_refl] s(3) by (force simp: keeps_def)
  moreover have "extends p3 p" using SrcDecode_BuildOutput_keeps [OF extends_refl] s(4) by (force simp: keeps_def)
  ultimately have n: "names p2 \<subseteq> names p" by (auto simp: extends_def)
  have "targets p \<subseteq> targets p3 \<union> (\<Union>j. output_targets j)"
    using s(4) by (auto simp: SrcDecode_BuildOutput_def bind_eq_Some_conv dest!: each_output_targets)
  moreover have "targets pipeline0 = {}" by (simp add: targets_def pipeline0_def)
  ultimately have t: "targets p \<subseteq> {VIDEO_TEE_NAME_1U 0, AUDIO_TEE_NAME_1U 0, DECODEBIN_NAME_1U 0} \<union> (\<Union>j. output_targets j)"
    using Relay_BuildConverter_targets [OF s(3)] SrcDecode_BuildInput_targets [OF s(1)] udb(1) by auto
  show "UDB_VIDEO_NAME_1U 0 \<notin> targets p" using t udb_no_stage_target(1) udb_no_output_target(1) by blast
  show "UDB_AUDIO_NAME_1U 0 \<notin> targets p" using t udb_no_stage_target(2) udb_no_output_target(2) by blast
  show "av_have_video c \<Longrightarrow> UDB_VIDEO_NAME_1U 0 \<in> names p" using udb(2) n by blast
  show "av_have_audio c \<Longrightarrow> UDB_AUDIO_NAME_1U 0 \<in> names p" using udb(3) n by blast
qed

lemma named_element: "n \<in> names p \<Longrightarrow> \<exists>el. GetElementByName n p = Some el"
  by (cases "GetElementByName n p") (auto simp: GetElementByName_def pl_names_def find_None_iff)

lemma relay_ready:
  assumes "CreatePipeLine (CreateBuilder G d (RelayStream c)) = Some (Some p)" "\<forall>plugin. ge_pad G plugin ''sink''"
  shows "ready G c \<lparr>dc_base = b, dc_pipeline = p, dc_linked = []\<rparr>"
proof -
  have free: "n \<notin> targets p \<Longrightarrow> n \<in> names p \<Longrightarrow> free_input G n \<lparr>dc_base = b, dc_pipeline = p, dc_linked = []\<rparr>" for n
    using assms(2) named_element [of n p] by (simp add: free_input_def sink_linked_def targets_def)
  show ?thesis unfolding ready_def using relay_inputs_free [OF assms(1)] by (auto intro: free)
qed

section \<open>Which pads a relay plays\<close>

text \<open>
  (C20) A relay whose pipeline was built handles every sequence of pads that its decoder reports without an
  abort, if the type of every pad is known: the input behind the decoder of each configured channel gets
  the first pad of that kind (for audio, of the selected track), provided the library accepts the link,
  all later pads are left alone, and no other element gets a pad.
\<close>

theorem relay_plays_first_pads:
  assumes "CreatePipeLine (CreateBuilder G d (RelayStream c)) = Some (Some p)" "\<forall>plugin. ge_pad G plugin ''sink''"
    "\<not> IsVideoInited b" "\<not> IsAudioInited b" "\<forall>(accepted, pad)\<in>set pads. pad_get_type pad \<noteq> None"
  shows "\<exists>t. pads_added (Relay_HandleDecodeBinPadAdded G cv dbg c) pads \<lparr>dc_base = b, dc_pipeline = p, dc_linked = []\<rparr> = Ret t
    \<and> dc_pipeline t = p
    \<and> filter (\<lambda>(pad, n). n = UDB_VIDEO_NAME_1U 0) (dc_linked t) = first_fit (fits_video c) (UDB_VIDEO_NAME_1U 0) pads
    \<and> filter (\<lambda>(pad, n). n = UDB_AUDIO_NAME_1U 0) (dc_linked t) = first_fit (fits_audio cv c) (UDB_AUDIO_NAME_1U 0) pads
    \<and> snd ` set (dc_linked t) \<subseteq> {UDB_VIDEO_NAME_1U 0, UDB_AUDIO_NAME_1U 0}"
proof -
  have "\<forall>(accepted, pad)\<in>set pads. dbg \<longrightarrow> pad_get_type pad \<noteq> None" using assms(5) by auto
  from pads_added_first [OF relay_ready [OF assms(1,2)] this]
  show ?thesis using assms(3,4) by (fastforce simp: Relay_HandleDecodeBinPadAdded_def)
qed

definition demo_cv :: conv where
  "demo_cv = \<lparr>cv_u8 = (\<lambda>_. None), cv_u16 = (\<lambda>_. None), cv_u32 = (\<lambda>_. None), cv_u64 = (\<lambda>_. None), cv_i32 = (\<lambda>_. None), cv_i64 = (\<lambda>_. None),
     cv_bool = (\<lambda>_. None), cv_f64 = (\<lambda>_. None), cv_size = (\<lambda>_. None), cv_point = (\<lambda>_. None), cv_rational = (\<lambda>_. None)\<rparr>"

definition demo_pad :: "string \<Rightarrow> string \<Rightarrow> gst_pad" where
  "demo_pad name type = \<lparr>pd_name = name, pd_query = Some (Some type), pd_channels = None\<rparr>"

theorem relay_plays_first_pads_witness:
  "\<exists>p t. CreatePipeLine (CreateBuilder demo_gst [] (RelayStream demo_relay)) = Some (Some p)
    \<and> pads_added (Relay_HandleDecodeBinPadAdded demo_gst demo_cv True demo_relay)
        [(True, demo_pad ''src_0'' ''text/x-raw''), (True, demo_pad ''src_1'' ''video/x-h264''), (True, demo_pad ''src_2'' ''video/x-h264''),
         (True, demo_pad ''src_3'' ''audio/mpeg''), (True, demo_pad ''src_4'' ''audio/mpeg'')]
        \<lparr>dc_base = demo_stream\<lparr>flags := 0\<rparr>, dc_pipeline = p, dc_linked = []\<rparr> = Ret t
    \<and> filter (\<lambda>(pad, n). n = UDB_VIDEO_NAME_1U 0) (dc_linked t) = [(demo_pad ''src_1'' ''video/x-h264'', UDB_VIDEO_NAME_1U 0)]
    \<and> filter (\<lambda>(pad, n). n = UDB_AUDIO_NAME_1U 0) (dc_linked t) = [(demo_pad ''src_3'' ''audio/mpeg'', UDB_AUDIO_NAME_1U 0)]"
proof -
  let ?pads = "[(True, demo_pad ''src_0'' ''text/x-raw''), (True, demo_pad ''src_1'' ''video/x-h264''), (True, demo_pad ''src_2'' ''video/x-h264''),
         (True, demo_pad ''src_3'' ''audio/mpeg''), (True, demo_pad ''src_4'' ''audio/mpeg'')]"
  obtain p where p: "CreatePipeLine (CreateBuilder demo_gst [] (RelayStream demo_relay)) = Some (Some p)"
    using relay_builds [OF demo_gst_complete, of demo_relay "vod_type (cf_type demo_relay)"] demo_relay_ok by (auto simp: builds_def)
  have "\<forall>plugin. ge_pad demo_gst plugin ''sink''" "\<not> IsVideoInited (demo_stream\<lparr>flags := 0\<rparr>)" "\<not> IsAudioInited (demo_stream\<lparr>flags := 0\<rparr>)"
    "\<forall>(accepted, pad)\<in>set ?pads. pad_get_type pad \<noteq> None"
    by (simp_all add: demo_gst_def IsVideoInited_def IsAudioInited_def demo_pad_def pad_get_type_def)
  note plays = relay_plays_first_pads [OF p this, of demo_cv True]
  have "first_fit (fits_video demo_relay) (UDB_VIDEO_NAME_1U 0) ?pads = [(demo_pad ''src_1'' ''video/x-h264'', UDB_VIDEO_NAME_1U 0)]"
    "first_fit (fits_audio demo_cv demo_relay) (UDB_AUDIO_NAME_1U 0) ?pads = [(demo_pad ''src_3'' ''audio/mpeg'', UDB_AUDIO_NAME_1U 0)]"
    by (simp_all add: first_fit_def fits_video_def fits_audio_def demo_pad_def pad_get_type_def is_video_pad_def is_audio_pad_def
        audio_selected_def demo_defs)
  then show ?thesis using p plays by (fastforce simp del: CreateBuilder.simps)
qed

end
