(* ===== verification/PlaylistStreams.thy ===== *)
theory PlaylistStreams
  imports Configs
begin

text \<open>
  Components \<open>streams/relay/playlist_relay_stream\<close> and \<open>streams/encoding/playlist_encoding_stream\<close>: feeding
  the files of a playlist to the source of a pipeline. Both classes have the same code over their own
  configuration. The loop over empty files may run forever, so it is a partial function: \<open>None\<close> means
  that the call does not return.
\<close>

section \<open>State and operations\<close>

text \<open>
  The open file is what is still unread of it; the file system is a function from paths to the contents
  of the files that can be opened. \<open>ps_told\<close> are the calls of \<open>OnInputChanged\<close>, in order.
\<close>

record 'u playlist_stream =
  ps_current_file :: "string option"
  ps_curent_pos :: nat
  ps_told :: "'u InputUri list"

definition playlist_stream0 :: "'u playlist_stream" where
  "playlist_stream0 = \<lparr>ps_current_file = None, ps_curent_pos = 0, ps_told = []\<rparr>"

definition BUFFER_SIZE :: nat where "BUFFER_SIZE = 4096"

definition OpenNextFile ::
  "(string \<rightharpoonup> string) \<Rightarrow> 'u url_api \<Rightarrow> ('u, 'm) AudioVideoConfig_scheme \<Rightarrow> 'u playlist_stream \<Rightarrow> (string option \<times> 'u playlist_stream) outcome" where
  "OpenNextFile fs U rconf s =
     (let input = cf_input rconf in
      if \<not> av_loop rconf \<and> length input \<le> ps_curent_pos s then Ret (None, s)
      else
        (let pos = (if length input \<le> ps_curent_pos s then 0 else ps_curent_pos s) in
         if length input \<le> pos then Abort
         else
           (let iuri = input ! pos; file = fs (url_path U (iu_input iuri)) in
            Ret (file, s\<lparr>ps_curent_pos := Suc pos, ps_told := (if file = None then ps_told s else ps_told s @ [iuri])\<rparr>))))"

text \<open>The loop of \<open>HandleNeedData\<close>: the bytes read, or nothing where no file could be opened.\<close>

partial_function (option) need_loop ::
  "(string \<rightharpoonup> string) \<Rightarrow> 'u url_api \<Rightarrow> ('u, 'm) AudioVideoConfig_scheme \<Rightarrow> 'u playlist_stream
     \<Rightarrow> (string option \<times> 'u playlist_stream) outcome option" where
  "need_loop fs U rconf s =
     (case (case ps_current_file s of Some data \<Rightarrow> Ret (Some data, s) | None \<Rightarrow> OpenNextFile fs U rconf s) of
        Abort \<Rightarrow> Some Abort
      | Ret r \<Rightarrow> (case fst r of
          None \<Rightarrow> Some (Ret (None, (snd r)\<lparr>ps_current_file := None\<rparr>))
        | Some data \<Rightarrow>
            if take BUFFER_SIZE data = [] then need_loop fs U rconf ((snd r)\<lparr>ps_current_file := None\<rparr>)
            else Some (Ret (Some (take BUFFER_SIZE data), (snd r)\<lparr>ps_current_file := Some (drop BUFFER_SIZE data)\<rparr>))))"

text \<open>What a call does to the source: it ends it or pushes a buffer; a refused buffer ends the stream.\<close>

datatype src_call = SendEOS | PushBuffer string | Quit_inner

definition HandleNeedData ::
  "(string \<rightharpoonup> string) \<Rightarrow> 'u url_api \<Rightarrow> ('u, 'm) AudioVideoConfig_scheme \<Rightarrow> bool \<Rightarrow> bool \<Rightarrow> 'u playlist_stream
     \<Rightarrow> (src_call list \<times> 'u playlist_stream) outcome option" where
  "HandleNeedData fs U rconf allocated flow_ok s =
     (if \<not> allocated then Some (Ret ([SendEOS], s))
      else case need_loop fs U rconf s of
        None \<Rightarrow> None
      | Some Abort \<Rightarrow> Some Abort
      | Some (Ret (None, s)) \<Rightarrow> Some (Ret ([SendEOS], s))
      | Some (Ret (Some buffer, s)) \<Rightarrow> Some (Ret (if flow_ok then [PushBuffer buffer] else [PushBuffer buffer, Quit_inner], s)))"

text \<open>Encodings of playlists have the same code.\<close>

definition PlaylistEncoding_OpenNextFile ::
  "(string \<rightharpoonup> string) \<Rightarrow> 'u url_api \<Rightarrow> ('u, 'm) AudioVideoConfig_scheme \<Rightarrow> 'u playlist_stream \<Rightarrow> (string option \<times> 'u playlist_stream) outcome" where
  "PlaylistEncoding_OpenNextFile = OpenNextFile"

definition PlaylistEncoding_HandleNeedData ::
  "(string \<rightharpoonup> string) \<Rightarrow> 'u url_api \<Rightarrow> ('u, 'm) AudioVideoConfig_scheme \<Rightarrow> bool \<Rightarrow> bool \<Rightarrow> 'u playlist_stream
     \<Rightarrow> (src_call list \<times> 'u playlist_stream) outcome option" where
  "PlaylistEncoding_HandleNeedData = HandleNeedData"

section \<open>Which calls return\<close>

definition contents :: "(string \<rightharpoonup> string) \<Rightarrow> 'u url_api \<Rightarrow> 'u InputUri \<Rightarrow> string option" where
  "contents fs U uri = fs (url_path U (iu_input uri))"

lemma BUFFER_SIZE_pos [simp]: "0 < BUFFER_SIZE" "BUFFER_SIZE \<noteq> 0"
  by (simp_all add: BUFFER_SIZE_def)

text \<open>Unfolding the loop once, for each state of the open file.\<close>

lemma need_loop_open:
  assumes "ps_current_file s = Some data" "data \<noteq> []"
  shows "need_loop fs U c s = Some (Ret (Some (take BUFFER_SIZE data), s\<lparr>ps_current_file := Some (drop BUFFER_SIZE data)\<rparr>))"
  using assms by (simp add: need_loop.simps)

lemma need_loop_drained: "ps_current_file s = Some [] \<Longrightarrow> need_loop fs U c s = need_loop fs U c (s\<lparr>ps_current_file := None\<rparr>)"
  by (subst need_loop.simps) simp

lemma need_loop_end:
  assumes "ps_current_file s = None" "\<not> av_loop c" "length (cf_input c) \<le> ps_curent_pos s"
  shows "need_loop fs U c s = Some (Ret (None, s))"
proof -
  have "s\<lparr>ps_current_file := None\<rparr> = s" using assms(1) by simp
  then show ?thesis using assms by (simp add: need_loop.simps OpenNextFile_def)
qed

lemma need_loop_wrap:
  assumes "ps_current_file s = None" "av_loop c" "length (cf_input c) \<le> ps_curent_pos s"
  shows "need_loop fs U c s = need_loop fs U c (s\<lparr>ps_curent_pos := 0\<rparr>)"
proof -
  have "OpenNextFile fs U c s = OpenNextFile fs U c (s\<lparr>ps_curent_pos := 0\<rparr>)"
    using assms by (simp add: OpenNextFile_def Let_def)
  then show ?thesis using assms(1) by (simp add: need_loop.simps [of fs U c s] need_loop.simps [of fs U c "s\<lparr>ps_curent_pos := 0\<rparr>"])
qed

lemma need_loop_next:
  assumes "ps_current_file s = None" "ps_curent_pos s < length (cf_input c)"
  defines "uri \<equiv> cf_input c ! ps_curent_pos s"
  shows "need_loop fs U c s = (case contents fs U uri of
     None \<Rightarrow> Some (Ret (None, s\<lparr>ps_curent_pos := Suc (ps_curent_pos s)\<rparr>))
   | Some data \<Rightarrow> need_loop fs U c (s\<lparr>ps_current_file := Some data, ps_curent_pos := Suc (ps_curent_pos s), ps_told := ps_told s @ [uri]\<rparr>))"
proof (cases "contents fs U uri")
  case None
  have "s\<lparr>ps_curent_pos := p, ps_told := ps_told s, ps_current_file := None\<rparr> = s\<lparr>ps_curent_pos := p\<rparr>" for p
    using assms(1) by simp
  then show ?thesis using None assms by (simp add: need_loop.simps [of fs U c s] OpenNextFile_def contents_def Let_def)
next
  case (Some data)
  let ?s = "s\<lparr>ps_current_file := Some data, ps_curent_pos := Suc (ps_curent_pos s), ps_told := ps_told s @ [uri]\<rparr>"
  have "need_loop fs U c s = (if data = [] then need_loop fs U c (?s\<lparr>ps_current_file := None\<rparr>)
      else Some (Ret (Some (take BUFFER_SIZE data), ?s\<lparr>ps_current_file := Some (drop BUFFER_SIZE data)\<rparr>)))"
    using Some assms by (simp add: need_loop.simps [of fs U c s] OpenNextFile_def contents_def Let_def)
  then show ?thesis using Some need_loop_open [of ?s data fs U c] need_loop_drained [of ?s fs U c] by simp
qed

text \<open>From a position on, the first file that is not empty is found.\<close>

lemma need_loop_scan:
  assumes "ps_current_file s = None" "ps_curent_pos s \<le> i" "i < length (cf_input c)" "contents fs U (cf_input c ! i) \<noteq> Some []"
  shows "\<exists>b t. need_loop fs U c s = Some (Ret (b, t)) \<and> (b = None \<longrightarrow> (\<exists>uri\<in>set (cf_input c). contents fs U uri = None))"
  using assms(1,2)
proof (induction "i - ps_curent_pos s" arbitrary: s)
  case 0
  then have p: "ps_curent_pos s = i" by simp
  show ?case
  proof (cases "contents fs U (cf_input c ! i)")
    case None
    then show ?thesis using need_loop_next [OF 0(2), of c fs U] p assms(3) by (auto intro!: bexI [of _ "cf_input c ! i"])
  next
    case (Some data)
    then show ?thesis using need_loop_next [OF 0(2), of c fs U] p assms(3,4) by (simp add: need_loop_open)
  qed
next
  case (Suc n)
  then have p: "ps_curent_pos s < length (cf_input c)" using assms(3) by linarith
  let ?uri = "cf_input c ! ps_curent_pos s"
  show ?case
  proof (cases "contents fs U ?uri")
    case None
    then show ?thesis using need_loop_next [OF Suc(3) p, of fs U] p by (auto intro!: bexI [of _ ?uri])
  next
    case (Some data)
    let ?s = "s\<lparr>ps_current_file := Some data, ps_curent_pos := Suc (ps_curent_pos s), ps_told := ps_told s @ [?uri]\<rparr>"
    have next_s: "need_loop fs U c s = need_loop fs U c ?s" using need_loop_next [OF Suc(3) p, of fs U] Some by simp
    show ?thesis
    proof (cases "data = []")
      case True
      have "\<exists>b t. need_loop fs U c (?s\<lparr>ps_current_file := None\<rparr>) = Some (Ret (b, t))
          \<and> (b = None \<longrightarrow> (\<exists>uri\<in>set (cf_input c). contents fs U uri = None))"
        by (rule Suc(1)) (use Suc(2,4) in simp_all)
      then show ?thesis using next_s need_loop_drained [of ?s fs U c] True by simp
    qed (use next_s need_loop_open [of ?s data fs U c] in simp)
  qed
qed

text \<open>Behind the last file that is not empty, all files are passed over.\<close>

lemma need_loop_skip:
  assumes "ps_current_file s = None" "ps_curent_pos s \<le> length (cf_input c)"
    "\<And>i. ps_curent_pos s \<le> i \<Longrightarrow> i < length (cf_input c) \<Longrightarrow> contents fs U (cf_input c ! i) = Some []"
  shows "need_loop fs U c s
    = need_loop fs U c (s\<lparr>ps_curent_pos := length (cf_input c), ps_told := ps_told s @ drop (ps_curent_pos s) (cf_input c)\<rparr>)"
  using assms
proof (induction "length (cf_input c) - ps_curent_pos s" arbitrary: s)
  case 0
  then have "s\<lparr>ps_curent_pos := length (cf_input c), ps_told := ps_told s @ drop (ps_curent_pos s) (cf_input c)\<rparr> = s" by simp
  then show ?case by simp
next
  case (Suc n)
  then have p: "ps_curent_pos s < length (cf_input c)" by linarith
  let ?uri = "cf_input c ! ps_curent_pos s"
  let ?s = "s\<lparr>ps_current_file := Some [], ps_curent_pos := Suc (ps_curent_pos s), ps_told := ps_told s @ [?uri]\<rparr>"
  let ?t = "?s\<lparr>ps_current_file := None\<rparr>"
  have "need_loop fs U c s = need_loop fs U c ?s" using need_loop_next [OF Suc(3) p, of fs U] Suc(5) p by simp
  also have "\<dots> = need_loop fs U c ?t" by (rule need_loop_drained) simp
  also have "\<dots> = need_loop fs U c (?t\<lparr>ps_curent_pos := length (cf_input c), ps_told := ps_told ?t @ drop (ps_curent_pos ?t) (cf_input c)\<rparr>)"
    by (rule Suc(1)) (use Suc(2,5) p in simp_all)
  also have "?t\<lparr>ps_curent_pos := length (cf_input c), ps_told := ps_told ?t @ drop (ps_curent_pos ?t) (cf_input c)\<rparr>
      = s\<lparr>ps_curent_pos := length (cf_input c), ps_told := ps_told s @ drop (ps_curent_pos s) (cf_input c)\<rparr>"
    using Suc(3) Cons_nth_drop_Suc [OF p] by simp
  finally show ?case .
qed

text \<open>A playlist of empty files that starts over never gets to an end.\<close>

lemma need_loop_diverges:
  assumes "av_loop c" "cf_input c \<noteq> []" "\<forall>uri\<in>set (cf_input c). contents fs U uri = Some []" "ps_current_file s \<in> {None, Some []}"
  shows "need_loop fs U c s = None"
proof (rule ccontr)
  let ?P = "\<lambda>fs U c s r. av_loop c \<and> cf_input c \<noteq> [] \<and> (\<forall>uri\<in>set (cf_input c). contents fs U uri = Some [])
      \<and> ps_current_file s \<in> {None, Some []} \<longrightarrow> False"
  assume "need_loop fs U c s \<noteq> None"
  then obtain r where r: "need_loop fs U c s = Some r" by auto
  have "?P fs U c s r"
  proof (rule need_loop.raw_induct [where P = ?P, OF _ r])
    fix f :: "(string \<rightharpoonup> string) \<Rightarrow> 'a url_api \<Rightarrow> ('a, 'b) AudioVideoConfig_scheme \<Rightarrow> 'a playlist_stream
      \<Rightarrow> (string option \<times> 'a playlist_stream) outcome option" and fs U c s r
    assume IH: "\<And>fs U c s r. f fs U c s = Some r \<Longrightarrow> ?P fs U c s r"
      and eq: "(case case ps_current_file s of None \<Rightarrow> OpenNextFile fs U c s | Some data \<Rightarrow> Ret (Some data, s) of
         Ret r \<Rightarrow> (case fst r of None \<Rightarrow> Some (Ret (None, snd r\<lparr>ps_current_file := None\<rparr>))
           | Some data \<Rightarrow> if take BUFFER_SIZE data = [] then f fs U c (snd r\<lparr>ps_current_file := None\<rparr>)
              else Some (Ret (Some (take BUFFER_SIZE data), snd r\<lparr>ps_current_file := Some (drop BUFFER_SIZE data)\<rparr>)))
       | Abort \<Rightarrow> Some Abort) = Some r"
    have f0: False if "f fs U c t = Some r" "ps_current_file t = None" "av_loop c" "cf_input c \<noteq> []"
        "\<forall>uri\<in>set (cf_input c). contents fs U uri = Some []" for t
      using IH [OF that(1)] that by blast
    show "?P fs U c s r"
    proof (intro impI, elim conjE)
      assume c: "av_loop c" "cf_input c \<noteq> []" "\<forall>uri\<in>set (cf_input c). contents fs U uri = Some []"
        and opened: "ps_current_file s \<in> {None, Some []}"
      define pos where "pos = (if length (cf_input c) \<le> ps_curent_pos s then 0 else ps_curent_pos s)"
      have "pos < length (cf_input c)" using c(2) by (simp add: pos_def)
      then have "OpenNextFile fs U c s = Ret (Some [], s\<lparr>ps_curent_pos := Suc pos, ps_told := ps_told s @ [cf_input c ! pos]\<rparr>)"
        using c(1,3) nth_mem by (fastforce simp: OpenNextFile_def contents_def Let_def simp flip: pos_def)
      then consider "f fs U c (s\<lparr>ps_curent_pos := Suc pos, ps_told := ps_told s @ [cf_input c ! pos], ps_current_file := None\<rparr>) = Some r"
        | "f fs U c (s\<lparr>ps_current_file := None\<rparr>) = Some r" using opened eq by auto
      then show False by cases (erule f0 [OF _ _ c]; simp)+
    qed
  qed
  then show False using assms by blast
qed

text \<open>All calls but those return, and a playlist that starts over ends only at a file that cannot be opened.\<close>

lemma need_loop_returns:
  assumes "cf_input c \<noteq> []"
    "\<not> (av_loop c \<and> ps_current_file s \<in> {None, Some []} \<and> (\<forall>uri\<in>set (cf_input c). contents fs U uri = Some []))"
  shows "\<exists>b t. need_loop fs U c s = Some (Ret (b, t)) \<and> (b = None \<and> av_loop c \<longrightarrow> (\<exists>uri\<in>set (cf_input c). contents fs U uri = None))"
    (is "?R s")
proof -
  have scan: "?R t" if "ps_current_file t = None" "ps_curent_pos t \<le> i" "i < length (cf_input c)"
      "contents fs U (cf_input c ! i) \<noteq> Some []" for t i
    using need_loop_scan [OF that] by auto
  have behind: "?R t" if t: "ps_current_file t = None" "length (cf_input c) \<le> ps_curent_pos t"
      and h: "av_loop c \<Longrightarrow> \<exists>uri\<in>set (cf_input c). contents fs U uri \<noteq> Some []" for t
  proof (cases "av_loop c")
    case True
    then obtain i where i: "i < length (cf_input c)" "contents fs U (cf_input c ! i) \<noteq> Some []" using h by (auto simp: in_set_conv_nth)
    have "?R (t\<lparr>ps_curent_pos := 0\<rparr>)" by (rule scan [OF _ _ i]) (use t in simp_all)
    then show ?thesis using need_loop_wrap [OF t(1) True t(2)] by simp
  qed (use need_loop_end [OF t(1) _ t(2)] in auto)
  have none: "?R t" if t: "ps_current_file t = None"
      and h: "av_loop c \<Longrightarrow> \<exists>uri\<in>set (cf_input c). contents fs U uri \<noteq> Some []" for t
  proof (cases "\<exists>i. ps_curent_pos t \<le> i \<and> i < length (cf_input c) \<and> contents fs U (cf_input c ! i) \<noteq> Some []")
    case True
    then show ?thesis using scan [OF t] by blast
  next
    case False
    then have all: "\<And>i. ps_curent_pos t \<le> i \<Longrightarrow> i < length (cf_input c) \<Longrightarrow> contents fs U (cf_input c ! i) = Some []" by blast
    show ?thesis
    proof (cases "ps_curent_pos t \<le> length (cf_input c)")
      case True
      let ?t = "t\<lparr>ps_curent_pos := length (cf_input c), ps_told := ps_told t @ drop (ps_curent_pos t) (cf_input c)\<rparr>"
      have "need_loop fs U c t = need_loop fs U c ?t" by (rule need_loop_skip [OF t True all])
      moreover have "?R ?t" by (rule behind [OF _ _ h]) (use t in simp_all)
      ultimately show ?thesis by simp
    qed (use behind [OF t _ h] in simp)
  qed
  show ?thesis
  proof (cases "ps_current_file s")
    case None
    then show ?thesis by (rule none) (use assms(2) None in auto)
  next
    case (Some data)
    show ?thesis
    proof (cases "data = []")
      case True
      have "?R (s\<lparr>ps_current_file := None\<rparr>)" by (rule none) (use assms(2) Some True in auto)
      then show ?thesis using need_loop_drained [of s fs U c] Some True by simp
    qed (use need_loop_open [OF Some, of fs U c] in auto)
  qed
qed

section \<open>What a playlist plays\<close>

text \<open>The files from a position on, up to the first that cannot be opened.\<close>

definition readable :: "(string \<rightharpoonup> string) \<Rightarrow> 'u url_api \<Rightarrow> 'u InputUri list \<Rightarrow> 'u InputUri list" where
  "readable fs U = takeWhile (\<lambda>uri. contents fs U uri \<noteq> None)"

definition to_play :: "(string \<rightharpoonup> string) \<Rightarrow> 'u url_api \<Rightarrow> ('u, 'm) AudioVideoConfig_scheme \<Rightarrow> 'u playlist_stream \<Rightarrow> string" where
  "to_play fs U c s = (case ps_current_file s of Some data \<Rightarrow> data | None \<Rightarrow> [])
     @ concat (map (\<lambda>uri. the (contents fs U uri)) (readable fs U (drop (ps_curent_pos s) (cf_input c))))"

text \<open>A sequence of calls that each push one buffer.\<close>

inductive plays ::
  "(string \<rightharpoonup> string) \<Rightarrow> 'u url_api \<Rightarrow> ('u, 'm) AudioVideoConfig_scheme \<Rightarrow> 'u playlist_stream \<Rightarrow> string list \<Rightarrow> 'u playlist_stream \<Rightarrow> bool"
  for fs U c where
  plays_nil: "plays fs U c s [] s"
| plays_push: "HandleNeedData fs U c True True s = Some (Ret ([PushBuffer b], s')) \<Longrightarrow> plays fs U c s' bs t \<Longrightarrow> plays fs U c s (b # bs) t"

inductive_cases plays_nilE: "plays fs U c s [] t"

text \<open>
  A call either pushes the next bytes that are to be played, or, when nothing is left to play, ends the source.
\<close>

lemma to_play_next:
  assumes "ps_current_file s = None" "ps_curent_pos s < length (cf_input c)"
  shows "to_play fs U c s = (case contents fs U (cf_input c ! ps_curent_pos s) of None \<Rightarrow> []
     | Some data \<Rightarrow> to_play fs U c (s\<lparr>ps_current_file := Some data, ps_curent_pos := Suc (ps_curent_pos s), ps_told := told\<rparr>))"
  using assms Cons_nth_drop_Suc [OF assms(2), symmetric] by (simp add: to_play_def readable_def split: option.split)

lemma need_loop_plays:
  assumes "\<not> av_loop c"
  shows "(\<exists>b t. need_loop fs U c s = Some (Ret (Some b, t)) \<and> b \<noteq> [] \<and> length b \<le> BUFFER_SIZE \<and> to_play fs U c s = b @ to_play fs U c t)
    \<or> (\<exists>t. need_loop fs U c s = Some (Ret (None, t)) \<and> to_play fs U c s = [])"
    (is "?P s")
proof -
  have opened: "?P s" if "ps_current_file s = Some data" "data \<noteq> []" for s data
    using need_loop_open [OF that, of fs U c] that by (auto simp: to_play_def simp flip: append_assoc)
  have none: "?P s" if "ps_current_file s = None" for s
    using that
  proof (induction "length (cf_input c) - ps_curent_pos s" arbitrary: s)
    case 0
    then show ?case using need_loop_end [OF 0(2) assms] by (intro disjI2) (simp add: to_play_def readable_def)
  next
    case (Suc n)
    then have p: "ps_curent_pos s < length (cf_input c)" by linarith
    let ?uri = "cf_input c ! ps_curent_pos s"
    note nxt = need_loop_next [OF Suc(3) p, of fs U] to_play_next [OF Suc(3) p, of fs U "ps_told s @ [?uri]"]
    show ?case
    proof (cases "contents fs U ?uri")
      case (Some data)
      let ?s = "s\<lparr>ps_current_file := Some data, ps_curent_pos := Suc (ps_curent_pos s), ps_told := ps_told s @ [?uri]\<rparr>"
      have eq: "need_loop fs U c s = need_loop fs U c ?s" "to_play fs U c s = to_play fs U c ?s" using nxt Some by simp_all
      show ?thesis
      proof (cases "data = []")
        case True
        let ?t = "?s\<lparr>ps_current_file := None\<rparr>"
        have "?P ?t" by (rule Suc(1)) (use Suc(2) in simp_all)
        moreover have "need_loop fs U c ?s = need_loop fs U c ?t" by (rule need_loop_drained) (simp add: True)
        moreover have "to_play fs U c ?s = to_play fs U c ?t" using True by (simp add: to_play_def)
        ultimately show ?thesis unfolding eq by metis
      next
        case False
        then show ?thesis unfolding eq by (intro opened) simp_all
      qed
    qed (use nxt in \<open>auto intro!: disjI2\<close>)
  qed
  show ?thesis
  proof (cases "ps_current_file s")
    case (Some data)
    show ?thesis
    proof (cases "data = []")
      case True
      have "?P (s\<lparr>ps_current_file := None\<rparr>)" by (rule none) simp
      moreover have "to_play fs U c s = to_play fs U c (s\<lparr>ps_current_file := None\<rparr>)" using Some True by (simp add: to_play_def)
      ultimately show ?thesis using need_loop_drained [of s fs U c] Some True by simp
    qed (rule opened [OF Some])
  qed (rule none)
qed

lemma plays_everything:
  assumes "\<not> av_loop c"
  shows "\<exists>bs t u. plays fs U c s bs t \<and> concat bs = to_play fs U c s \<and> (\<forall>b\<in>set bs. b \<noteq> [] \<and> length b \<le> BUFFER_SIZE)
     \<and> HandleNeedData fs U c True True t = Some (Ret ([SendEOS], u))"
proof (induction "length (to_play fs U c s)" arbitrary: s rule: less_induct)
  case less
  consider (push) b t where "need_loop fs U c s = Some (Ret (Some b, t))" "b \<noteq> []" "length b \<le> BUFFER_SIZE"
      "to_play fs U c s = b @ to_play fs U c t"
    | (eos) t where "need_loop fs U c s = Some (Ret (None, t))" "to_play fs U c s = []"
    using need_loop_plays [OF assms, of fs U s] by blast
  then show ?case
  proof cases
    case push
    have "length (to_play fs U c t) < length (to_play fs U c s)" using push(2,4) by simp
    then obtain bs t' u where IH: "plays fs U c t bs t'" "concat bs = to_play fs U c t"
        "\<forall>b\<in>set bs. b \<noteq> [] \<and> length b \<le> BUFFER_SIZE" "HandleNeedData fs U c True True t' = Some (Ret ([SendEOS], u))"
      using less.hyps by blast
    have "HandleNeedData fs U c True True s = Some (Ret ([PushBuffer b], t))" using push(1) by (simp add: HandleNeedData_def)
    then have "plays fs U c s (b # bs) t'" using IH(1) by (rule plays_push)
    then show ?thesis using IH(2-4) push(2-4) by (intro exI [of _ "b # bs"] exI [of _ t'] exI [of _ u]) simp
  next
    case eos
    then have "HandleNeedData fs U c True True s = Some (Ret ([SendEOS], t))" by (simp add: HandleNeedData_def)
    then show ?thesis using eos(2) by (intro exI [of _ "[]"] exI [of _ s] exI [of _ t]) (simp add: plays_nil)
  qed
qed

section \<open>Properties\<close>

definition demo_path :: "string url_api" where
  "demo_path = \<lparr>url0 = [], url_of = (\<lambda>s. s), url_text = (\<lambda>u. u), url_valid = (\<lambda>u. u \<noteq> []), url_scheme = (\<lambda>u. Scheme_file),
     url_host = (\<lambda>u. []), url_path = (\<lambda>u. u), dir_path = (\<lambda>s. s)\<rparr>"

definition demo_files :: "string \<rightharpoonup> string" where
  "demo_files = [''a'' \<mapsto> ''xy'', ''b'' \<mapsto> [], ''c'' \<mapsto> ''z'']"

definition demo_playlist :: "bool \<Rightarrow> string list \<Rightarrow> string AudioVideoConfig" where
  "demo_playlist again names = (make_AudioVideoConfig (make_Config RELAY 10
      (map (\<lambda>n. \<lparr>iu_id = 0, iu_input = n, iu_user_agent = GSTREAMER\<rparr>) names) []))\<lparr>av_loop := again\<rparr>"

lemmas demo_playlist_defs = demo_playlist_def make_AudioVideoConfig_def make_Config_def Config.defs AudioVideoConfig.defs
  demo_files_def demo_path_def contents_def

text \<open>
  (C21) A request for data of a playlist that has inputs always returns, without undefined behaviour,
  but for one case: the playlist starts over, its open file is at its end and all its files are empty,
  then the request never returns. A playlist that starts over sends the end of the stream only when
  memory is short or one of its files cannot be opened.
\<close>

theorem playlist_request_returns:
  assumes "cf_input c \<noteq> []"
  shows "(HandleNeedData fs U c allocated flow_ok s = None \<longleftrightarrow>
       allocated \<and> av_loop c \<and> ps_current_file s \<in> {None, Some []} \<and> (\<forall>uri\<in>set (cf_input c). contents fs U uri = Some []))
    \<and> HandleNeedData fs U c allocated flow_ok s \<noteq> Some Abort
    \<and> (\<forall>t. HandleNeedData fs U c allocated flow_ok s = Some (Ret ([SendEOS], t)) \<and> allocated \<and> av_loop c
         \<longrightarrow> (\<exists>uri\<in>set (cf_input c). contents fs U uri = None))"
proof (cases "av_loop c \<and> ps_current_file s \<in> {None, Some []} \<and> (\<forall>uri\<in>set (cf_input c). contents fs U uri = Some [])")
  case True
  then have "need_loop fs U c s = None" using need_loop_diverges [of c fs U s] assms by blast
  then show ?thesis using True by (simp add: HandleNeedData_def)
next
  case False
  then obtain b t where "need_loop fs U c s = Some (Ret (b, t))"
      "b = None \<and> av_loop c \<longrightarrow> (\<exists>uri\<in>set (cf_input c). contents fs U uri = None)"
    using need_loop_returns [OF assms False] by blast
  then show ?thesis using False by (cases b) (auto simp: HandleNeedData_def)
qed

theorem playlist_request_returns_witness:
  "HandleNeedData demo_files demo_path (demo_playlist True [''b'']) True True playlist_stream0 = None
   \<and> HandleNeedData demo_files demo_path (demo_playlist True [''b'', ''a'']) True True playlist_stream0 \<noteq> None"
  using playlist_request_returns [of "demo_playlist True [''b'']" demo_files demo_path True True playlist_stream0]
    playlist_request_returns [of "demo_playlist True [''b'', ''a'']" demo_files demo_path True True playlist_stream0]
  by (simp add: demo_playlist_defs playlist_stream0_def)

text \<open>
  (C22) A playlist that does not start over plays its files in order: the calls push buffers of at most
  4096 bytes that are, put together, the rest of the open file and the contents of the following files,
  up to the first file that cannot be opened; then the end of the stream is sent.
\<close>

theorem playlist_plays_files_in_order:
  assumes "\<not> av_loop c"
  shows "\<exists>bs t u. plays fs U c s bs t \<and> concat bs = to_play fs U c s \<and> (\<forall>b\<in>set bs. b \<noteq> [] \<and> length b \<le> 4096)
     \<and> HandleNeedData fs U c True True t = Some (Ret ([SendEOS], u))"
  using plays_everything [OF assms, of fs U s] by (simp add: BUFFER_SIZE_def)

theorem playlist_plays_files_in_order_witness:
  "\<exists>bs t. plays demo_files demo_path (demo_playlist False [''a'', ''b'', ''c'', ''d'', ''a'']) playlist_stream0 bs t \<and> concat bs = ''xyz''"
  using playlist_plays_files_in_order [of "demo_playlist False [''a'', ''b'', ''c'', ''d'', ''a'']" demo_files demo_path playlist_stream0]
  by (fastforce simp: to_play_def readable_def demo_playlist_defs playlist_stream0_def)

end
