(* ===== verification/Mosaics.thy ===== *)
theory Mosaics
  imports StreamSignals
begin

text \<open>
  Component \<open>streams/mosaic_stream\<close>: pictures of several inputs on one screen, each with a meter of its sound.
  The stream answers the decoders of its inputs, keeps the sound levels it is told and draws the meters
  into every frame.
\<close>

section \<open>Options of the drawing\<close>

record AudioChannelInfo =
  rms_dB :: f64
  peak_dB :: f64
  decay_dB :: f64

definition AudioChannelInfo0 :: AudioChannelInfo where
  "AudioChannelInfo0 = \<lparr>rms_dB = F64 0, peak_dB = F64 0, decay_dB = F64 0\<rparr>"

record ImageInfo =
  x_y :: "int \<times> int"
  img_size :: "int \<times> int"

record Mosaic_StreamInfo =
  img :: ImageInfo
  channels :: "AudioChannelInfo list"

record MosaicImageOptions =
  opt_screen_size :: "int \<times> int"
  right_padding :: int
  sreams :: "Mosaic_StreamInfo list"

definition MosaicImageOptions0 :: MosaicImageOptions where
  "MosaicImageOptions0 = \<lparr>opt_screen_size = (0, 0), right_padding = 0, sreams = []\<rparr>"

definition MosaicImageOptions_isValid :: "MosaicImageOptions \<Rightarrow> bool" where
  "MosaicImageOptions_isValid opts \<longleftrightarrow> fst (opt_screen_size opts) \<noteq> 0 \<and> snd (opt_screen_size opts) \<noteq> 0"

text \<open>The options that the builder hands over with the pictures of the inputs.\<close>

definition builder_options :: "((int \<times> int) \<times> (int \<times> int)) list \<Rightarrow> MosaicImageOptions" where
  "builder_options images = \<lparr>opt_screen_size = screen_size, right_padding = 100,
     sreams = map (\<lambda>(p, sz). \<lparr>img = \<lparr>x_y = p, img_size = sz\<rparr>, channels = []\<rparr>) images\<rparr>"

section \<open>The stream\<close>

record 'd mosaic_stream =
  ms_stream :: "'d decode_stream"
  options_ms :: MosaicImageOptions

definition OnCairoCreated :: "MosaicImageOptions \<Rightarrow> 'd mosaic_stream \<Rightarrow> 'd mosaic_stream" where
  "OnCairoCreated opts s = s\<lparr>options_ms := opts\<rparr>"

text \<open>
  The decoder has the number of its input, which stays as uninitialised as \<open>junk\<close> when it is too large to
  read; MPEG audio is always registered for input 0.
\<close>

definition Mosaic_HandleDecodeBinAutoplugger ::
  "bool \<Rightarrow> 'a conv_scheme \<Rightarrow> element_id_t \<Rightarrow> 'd rates \<Rightarrow> string \<Rightarrow> gst_caps option \<Rightarrow> 'd base_stream \<Rightarrow> (bool \<times> 'd base_stream) outcome" where
  "Mosaic_HandleDecodeBinAutoplugger dbg cv junk R elem_name caps s = (case get_type_from_caps dbg caps of
     Abort \<Rightarrow> Abort
   | Ret None \<Rightarrow> Ret (True, s)
   | Ret (Some (type_title, type_full)) \<Rightarrow>
      (case GetElementId cv elem_name junk of
        (False, _) \<Rightarrow> Ret (True, s)
      | (True, elem_id) \<Rightarrow>
         if IsDemuxerFromType type_title \<noteq> None then Ret (True, s)
         else (case IsVideoCodecFromType type_title of
           Some VIDEO_H264_CODEC \<Rightarrow> register_video R True (the caps) elem_id s
         | Some _ \<Rightarrow> Ret (True, s)
         | None \<Rightarrow> (case IsAudioCodecFromType type_title of
             Some AUDIO_MPEG_CODEC \<Rightarrow> register_audio R True (the caps) 0 s
           | Some _ \<Rightarrow> register_audio R True (the caps) elem_id s
           | None \<Rightarrow>
               if dbg \<and> IsRawStreamFromType type_title = None \<and> IsOtherFromType type_title = None then Abort
               else Ret (True, s)))))"

text \<open>The channels of an audio pad are counted into the sound of its input, if the input has a picture.\<close>

definition add_channels :: "element_id_t \<Rightarrow> gst_pad \<Rightarrow> MosaicImageOptions \<Rightarrow> MosaicImageOptions" where
  "add_channels elem_id pad opts = (case pd_channels pad of
     Some (Some n) \<Rightarrow>
       if unat elem_id < length (sreams opts)
       then opts\<lparr>sreams := (sreams opts)[unat elem_id := (sreams opts ! unat elem_id)
              \<lparr>channels := channels (sreams opts ! unat elem_id) @ replicate (nat n) AudioChannelInfo0\<rparr>]\<rparr>
       else opts
   | _ \<Rightarrow> opts)"

definition Mosaic_HandleDecodeBinPadAdded ::
  "'u gst_env \<Rightarrow> 'a conv_scheme \<Rightarrow> element_id_t \<Rightarrow> ('u, 'm) AudioVideoConfig_scheme \<Rightarrow> bool \<Rightarrow> string \<Rightarrow> gst_pad \<Rightarrow> 'd mosaic_stream
     \<Rightarrow> 'd mosaic_stream outcome" where
  "Mosaic_HandleDecodeBinPadAdded G cv junk config accepted src pad s = (case pad_get_type pad of
     None \<Rightarrow> Abort
   | Some type \<Rightarrow> (case GetElementId cv src junk of
       (False, _) \<Rightarrow> Ret s
     | (True, elem_id) \<Rightarrow>
        if is_video_pad type then
          (if av_have_video config \<and> \<not> IsVideoInited (dc_base (ms_stream s)) then
             (case stream_GetElementByName (UDB_VIDEO_NAME_1U (unat elem_id)) (ms_stream s) of
                Abort \<Rightarrow> Abort
              | Ret dest \<Rightarrow> Ret (s\<lparr>ms_stream := snd (link_pad G accepted pad dest (ms_stream s))\<rparr>))
           else Ret s)
        else if is_audio_pad type then
          (if av_have_audio config \<and> \<not> IsAudioInited (dc_base (ms_stream s)) then
             (case stream_GetElementByName (UDB_AUDIO_NAME_1U (unat elem_id)) (ms_stream s) of
                Abort \<Rightarrow> Abort
              | Ret dest \<Rightarrow> Ret (s\<lparr>ms_stream := snd (link_pad G accepted pad dest (ms_stream s)),
                  options_ms := add_channels elem_id pad (options_ms s)\<rparr>))
           else Ret s)
        else Ret s))"

section \<open>Sound levels\<close>

text \<open>
  A message of the level element has the three values of each channel. Storing values of a channel that
  was not counted is outside of the vector.
\<close>

datatype bus_message = Level string "(f64 \<times> f64 \<times> f64) list" | Plain async_message

fun store_levels :: "element_id_t \<Rightarrow> nat \<Rightarrow> (f64 \<times> f64 \<times> f64) list \<Rightarrow> MosaicImageOptions \<Rightarrow> MosaicImageOptions outcome" where
  "store_levels elem_id i [] opts = Ret opts"
| "store_levels elem_id i ((rms, peak, decay) # arr) opts =
     (if unat elem_id < length (sreams opts) then
        (let st = sreams opts ! unat elem_id in
         if i < length (channels st)
         then store_levels elem_id (Suc i) arr
           (opts\<lparr>sreams := (sreams opts)[unat elem_id := st\<lparr>channels := (channels st)
              [i := \<lparr>rms_dB = rms, peak_dB = peak, decay_dB = decay\<rparr>]\<rparr>]\<rparr>)
         else Abort)
      else store_levels elem_id (Suc i) arr opts)"

definition plain_message :: "timestamp_t \<Rightarrow> async_message \<Rightarrow> 'd mosaic_stream \<Rightarrow> 'd mosaic_stream outcome" where
  "plain_message now m s = (case HandleAsyncBusMessageReceived now m (dc_base (ms_stream s)) of
     Abort \<Rightarrow> Abort | Ret b \<Rightarrow> Ret (s\<lparr>ms_stream := ms_stream s\<lparr>dc_base := b\<rparr>\<rparr>))"

definition Mosaic_HandleAsyncBusMessageReceived ::
  "'a conv_scheme \<Rightarrow> element_id_t \<Rightarrow> timestamp_t \<Rightarrow> bus_message \<Rightarrow> 'd mosaic_stream \<Rightarrow> 'd mosaic_stream outcome" where
  "Mosaic_HandleAsyncBusMessageReceived cv junk now message s = (case message of
     Plain m \<Rightarrow> plain_message now m s
   | Level src arr \<Rightarrow> (case GetElementId cv src junk of
       (False, _) \<Rightarrow> plain_message now MSG_OTHER s
     | (True, elem_id) \<Rightarrow> (case store_levels elem_id 0 arr (options_ms s) of
         Abort \<Rightarrow> Abort
       | Ret opts \<Rightarrow> plain_message now MSG_OTHER (s\<lparr>options_ms := opts\<rparr>))))"

section \<open>Drawing the meters\<close>

datatype meter_colour = Green | Yellow | Red | Blank

text \<open>A filled rectangle; its corner is computed in \<open>size_t\<close>.\<close>

record rectangle =
  rc_x :: u64
  rc_y :: u64
  rc_width :: int
  rc_height :: int
  rc_colour :: meter_colour

definition COUNT_CHUNKS :: nat where "COUNT_CHUNKS = 10"

definition CHANNELS :: nat where "CHANNELS = 2"

text \<open>The level of a channel; \<open>dB\<close> is the division of a \<open>double\<close> by -10.\<close>

definition meter_value :: "(f64 \<Rightarrow> f64) \<Rightarrow> AudioChannelInfo list \<Rightarrow> nat \<Rightarrow> f64" where
  "meter_value dB chans j = (if j < length chans then dB (rms_dB (chans ! j)) else F64 0)"

definition chunk_colour :: "nat \<Rightarrow> f64 \<Rightarrow> meter_colour" where
  "chunk_colour pos val =
     (if f64_le (F64 (rat_of_nat pos)) val then (if pos \<le> 5 then Green else if pos \<le> 8 then Yellow else Red) else Blank)"

definition draw_stream :: "(f64 \<Rightarrow> f64) \<Rightarrow> int \<Rightarrow> int \<Rightarrow> Mosaic_StreamInfo \<Rightarrow> rectangle list option" where
  "draw_stream dB padding width_chunk stream = do {
     let (w, h) = img_size (img stream);
     let (x, y) = x_y (img stream);
     x1 \<leftarrow> checked_i32 (x + w);
     x0 \<leftarrow> checked_i32 (x1 - padding);
     let y0 = y;
     let height_chuk = h sdiv int (COUNT_CHUNKS * 2);
     let x_padding = width_chunk;
     let y_padding = height_chuk;
     left \<leftarrow> checked_i32 (x0 + x_padding);
     top' \<leftarrow> checked_i32 (y0 + y_padding);
     Some (concat (map (\<lambda>i. map (\<lambda>j.
       \<lparr>rc_x = word_of_int left + word_of_int width_chunk * of_nat j + word_of_int (x_padding sdiv 2) * of_nat j,
        rc_y = word_of_int top' + word_of_int height_chuk * of_nat i, rc_width = width_chunk, rc_height = height_chuk,
        rc_colour = chunk_colour ((COUNT_CHUNKS * 2 - i) div 2) (meter_value dB (channels stream) j)\<rparr>)
       [0..<CHANNELS]) (map ((*) 2) [0..<COUNT_CHUNKS])))
   }"

fun draw_streams :: "(f64 \<Rightarrow> f64) \<Rightarrow> int \<Rightarrow> int \<Rightarrow> Mosaic_StreamInfo list \<Rightarrow> rectangle list option" where
  "draw_streams dB padding width_chunk [] = Some []"
| "draw_streams dB padding width_chunk (stream # streams) = do {
     now \<leftarrow> draw_stream dB padding width_chunk stream;
     rest \<leftarrow> draw_streams dB padding width_chunk streams;
     Some (now @ rest)
   }"

definition HandleCairoDraw :: "(f64 \<Rightarrow> f64) \<Rightarrow> 'd mosaic_stream \<Rightarrow> rectangle list option" where
  "HandleCairoDraw dB s =
     (if \<not> MosaicImageOptions_isValid (options_ms s) then Some []
      else draw_streams dB (right_padding (options_ms s)) (right_padding (options_ms s) sdiv (2 * int CHANNELS)) (sreams (options_ms s)))"

text \<open>The client is told the first input; a configuration without inputs is read outside of its vector.\<close>

definition Mosaic_PreLoop :: "('u, 'm) Config_scheme \<Rightarrow> 'u InputUri outcome" where
  "Mosaic_PreLoop config = (case cf_input config of [] \<Rightarrow> Abort | uri # _ \<Rightarrow> Ret uri)"

section \<open>Runs of a mosaic\<close>

text \<open>
  What a run reports of the sound: the channels counted for an input, and the values of a level message. The
  functions say which reports a pad and a message are.
\<close>

datatype sound_report = Counted element_id_t nat | Levelled element_id_t "(f64 \<times> f64 \<times> f64) list"

definition pad_reports ::
  "'a conv_scheme \<Rightarrow> element_id_t \<Rightarrow> ('u, 'm) AudioVideoConfig_scheme \<Rightarrow> string \<Rightarrow> gst_pad \<Rightarrow> 'd mosaic_stream \<Rightarrow> sound_report list" where
  "pad_reports cv junk config src pad s = (case (pad_get_type pad, GetElementId cv src junk, pd_channels pad) of
     (Some type, (True, e), Some (Some n)) \<Rightarrow>
       if \<not> is_video_pad type \<and> is_audio_pad type \<and> av_have_audio config \<and> \<not> IsAudioInited (dc_base (ms_stream s))
       then [Counted e (nat n)] else []
   | _ \<Rightarrow> [])"

definition message_reports :: "'a conv_scheme \<Rightarrow> element_id_t \<Rightarrow> bus_message \<Rightarrow> sound_report list" where
  "message_reports cv junk m = (case m of
     Level src arr \<Rightarrow> (case GetElementId cv src junk of (True, e) \<Rightarrow> [Levelled e arr] | _ \<Rightarrow> [])
   | Plain _ \<Rightarrow> [])"

text \<open>The states of a mosaic whose builder handed over the pictures, with the reports so far: pads and messages come in any order.\<close>

inductive mosaic_reach ::
  "'u gst_env \<Rightarrow> 'a conv_scheme \<Rightarrow> ('u, 'm) AudioVideoConfig_scheme \<Rightarrow> ((int \<times> int) \<times> (int \<times> int)) list \<Rightarrow> sound_report list \<Rightarrow> 'd mosaic_stream \<Rightarrow> bool"
  for G cv c images where
  built: "mosaic_reach G cv c images [] (OnCairoCreated (builder_options images) s)"
| pad: "mosaic_reach G cv c images tr s \<Longrightarrow> Mosaic_HandleDecodeBinPadAdded G cv junk c accepted src pad s = Ret t
    \<Longrightarrow> mosaic_reach G cv c images (tr @ pad_reports cv junk c src pad s) t"
| message: "mosaic_reach G cv c images tr s \<Longrightarrow> Mosaic_HandleAsyncBusMessageReceived cv junk now m s = Ret t
    \<Longrightarrow> mosaic_reach G cv c images (tr @ message_reports cv junk m) t"

text \<open>
  What the reports say of an input: how many channels it has, and the values of a channel in the last message that
  has them.
\<close>

definition channel_count :: "nat \<Rightarrow> sound_report list \<Rightarrow> nat" where
  "channel_count i tr = sum_list (map (\<lambda>r. case r of Counted e n \<Rightarrow> if unat e = i then n else 0 | Levelled _ _ \<Rightarrow> 0) tr)"

definition level_info :: "f64 \<times> f64 \<times> f64 \<Rightarrow> AudioChannelInfo" where
  "level_info v = (case v of (rms, peak, decay) \<Rightarrow> \<lparr>rms_dB = rms, peak_dB = peak, decay_dB = decay\<rparr>)"

definition has_level :: "nat \<Rightarrow> nat \<Rightarrow> sound_report \<Rightarrow> bool" where
  "has_level i j r = (case r of Levelled e arr \<Rightarrow> unat e = i \<and> j < length arr | Counted _ _ \<Rightarrow> False)"

definition last_level :: "nat \<Rightarrow> sound_report list \<Rightarrow> nat \<Rightarrow> AudioChannelInfo" where
  "last_level i tr j = (case find (has_level i j) (rev tr) of Some (Levelled e arr) \<Rightarrow> level_info (arr ! j) | _ \<Rightarrow> AudioChannelInfo0)"

text \<open>What never changes after the construction.\<close>

definition layout :: "MosaicImageOptions \<Rightarrow> (int \<times> int) \<times> int \<times> ImageInfo list" where
  "layout opts = (opt_screen_size opts, right_padding opts, map img (sreams opts))"

lemma layout_update [simp]:
  "i < length (sreams opts) \<Longrightarrow> img st = img (sreams opts ! i) \<Longrightarrow> layout (opts\<lparr>sreams := (sreams opts)[i := st]\<rparr>) = layout opts"
  by (simp add: layout_def map_update list_update_same_conv)

lemma add_channels_layout [simp]: "layout (add_channels e pad opts) = layout opts"
  by (auto simp: add_channels_def split: option.splits)

lemma store_levels_layout: "store_levels e i arr opts = Ret opts' \<Longrightarrow> layout opts' = layout opts"
  by (induction e i arr opts rule: store_levels.induct) (auto simp: Let_def split: if_splits)

lemma plain_message_options: "plain_message now m s = Ret t \<Longrightarrow> options_ms t = options_ms s"
  by (auto simp: plain_message_def split: outcome.splits)

lemma reach_layout: "mosaic_reach G cv c images tr s \<Longrightarrow> layout (options_ms s) = layout (builder_options images)"
proof (induction rule: mosaic_reach.induct)
  case (built s)
  then show ?case by (simp add: OnCairoCreated_def)
next
  case (pad tr s junk accepted src pad t)
  then show ?case
    by (auto simp: Mosaic_HandleDecodeBinPadAdded_def split: option.splits prod.splits bool.splits if_splits outcome.splits)
next
  case (message tr s junk now m t)
  then show ?case
    by (auto simp: Mosaic_HandleAsyncBusMessageReceived_def dest!: plain_message_options store_levels_layout
        split: bus_message.splits prod.splits bool.splits outcome.splits)
qed

text \<open>
  Levels of at most as many channels as were counted replace the old ones of their input; more than those
  are written behind the end of the vector.
\<close>

abbreviation channels_of :: "element_id_t \<Rightarrow> MosaicImageOptions \<Rightarrow> AudioChannelInfo list" where
  "channels_of e opts \<equiv> channels (sreams opts ! unat e)"

lemma store_levels_counted:
  assumes "unat e < length (sreams opts)" "i + length arr \<le> length (channels_of e opts)"
  shows "\<exists>opts'. store_levels e i arr opts = Ret opts' \<and> channels_of e opts'
      = take i (channels_of e opts) @ map (\<lambda>(r, p, d). \<lparr>rms_dB = r, peak_dB = p, decay_dB = d\<rparr>) arr @ drop (i + length arr) (channels_of e opts)
    \<and> (\<forall>k. k \<noteq> unat e \<longrightarrow> sreams opts' ! k = sreams opts ! k)"
  using assms
proof (induction e i arr opts rule: store_levels.induct)
  case (2 e i rms peak decay arr opts)
  let ?opts = "opts\<lparr>sreams := (sreams opts)[unat e := (sreams opts ! unat e)\<lparr>channels := (channels_of e opts)
      [i := \<lparr>rms_dB = rms, peak_dB = peak, decay_dB = decay\<rparr>]\<rparr>]\<rparr>"
  have i: "i < length (channels_of e opts)" using "2.prems"(2) by simp
  have ch: "channels_of e ?opts = (channels_of e opts)[i := \<lparr>rms_dB = rms, peak_dB = peak, decay_dB = decay\<rparr>]" using "2.prems"(1) by simp
  have "unat e < length (sreams ?opts)" "Suc i + length arr \<le> length (channels_of e ?opts)" using "2.prems" by simp_all
  from "2.IH"(1) [OF "2.prems"(1) refl i this] show ?case unfolding ch
    using "2.prems"(1) i by (auto simp: Let_def take_Suc_conv_app_nth drop_update_cancel)
qed simp

lemma store_levels_uncounted:
  assumes "unat e < length (sreams opts)" "i \<le> length (channels_of e opts)" "length (channels_of e opts) < i + length arr"
  shows "store_levels e i arr opts = Abort"
  using assms by (induction e i arr opts rule: store_levels.induct) (auto simp: Let_def)

text \<open>The stored channels are those of the reports.\<close>

lemma store_levels_result:
  assumes "store_levels e 0 arr opts = Ret opts'"
  shows "if unat e < length (sreams opts)
    then length arr \<le> length (channels_of e opts) \<and> channels_of e opts' = map level_info arr @ drop (length arr) (channels_of e opts)
      \<and> (\<forall>k. k \<noteq> unat e \<longrightarrow> sreams opts' ! k = sreams opts ! k)
    else opts' = opts"
proof (cases "unat e < length (sreams opts)")
  case True
  then have n: "length arr \<le> length (channels_of e opts)"
    using store_levels_uncounted [of e opts 0 arr] assms by (cases "length arr \<le> length (channels_of e opts)") auto
  have "(\<lambda>(r, p, d). \<lparr>rms_dB = r, peak_dB = p, decay_dB = d\<rparr>) = level_info" by (simp add: level_info_def fun_eq_iff)
  with store_levels_counted [of e opts 0 arr] True n assms show ?thesis by auto
next
  case False
  have "store_levels e i arr opts = Ret opts" for i
    using False by (induction arr arbitrary: i) auto
  then show ?thesis using False assms by simp
qed

lemma reports_append:
  "channel_count i (tr @ [Counted e n]) = channel_count i tr + (if unat e = i then n else 0)"
  "channel_count i (tr @ [Levelled e arr]) = channel_count i tr"
  "last_level i (tr @ [Counted e n]) = last_level i tr"
  "last_level i (tr @ [Levelled e arr]) j = (if unat e = i \<and> j < length arr then level_info (arr ! j) else last_level i tr j)"
  by (simp_all add: channel_count_def last_level_def has_level_def fun_eq_iff)

definition sound_of :: "sound_report list \<Rightarrow> MosaicImageOptions \<Rightarrow> bool" where
  "sound_of tr opts \<longleftrightarrow> (\<forall>i<length (sreams opts). channels (sreams opts ! i) = map (last_level i tr) [0..<channel_count i tr]
     \<and> (\<forall>j\<ge>channel_count i tr. last_level i tr j = AudioChannelInfo0))"

lemma sound_of_counted:
  assumes "sound_of tr opts" "pd_channels pad = Some (Some n)"
  shows "sound_of (tr @ [Counted e (nat n)]) (add_channels e pad opts)"
proof -
  have more: "channels (sreams opts ! i) @ replicate k AudioChannelInfo0 = map (last_level i tr) [0..<channel_count i tr + k]"
    and rest: "\<forall>j\<ge>channel_count i tr. last_level i tr j = AudioChannelInfo0"
    if "i < length (sreams opts)" for i k
  proof -
    have i: "channels (sreams opts ! i) = map (last_level i tr) [0..<channel_count i tr]"
      "\<forall>j\<ge>channel_count i tr. last_level i tr j = AudioChannelInfo0"
      using assms(1) that by (simp_all add: sound_of_def)
    have "map (last_level i tr) [channel_count i tr..<channel_count i tr + k] = replicate k AudioChannelInfo0"
      using i(2) by (intro replicate_eqI) auto
    then show "channels (sreams opts ! i) @ replicate k AudioChannelInfo0 = map (last_level i tr) [0..<channel_count i tr + k]"
      unfolding i(1) by (simp only: upt_add_eq_append [OF le0] map_append)
    show "\<forall>j\<ge>channel_count i tr. last_level i tr j = AudioChannelInfo0" by (rule i(2))
  qed
  have add: "add_channels e pad opts = (if unat e < length (sreams opts)
      then opts\<lparr>sreams := (sreams opts)[unat e := (sreams opts ! unat e)
              \<lparr>channels := channels (sreams opts ! unat e) @ replicate (nat n) AudioChannelInfo0\<rparr>]\<rparr> else opts)"
    by (simp add: add_channels_def assms(2))
  show ?thesis unfolding sound_of_def
  proof (intro allI impI)
    fix i assume "i < length (sreams (add_channels e pad opts))"
    then have i: "i < length (sreams opts)" by (simp add: add split: if_splits)
    show "channels (sreams (add_channels e pad opts) ! i)
          = map (last_level i (tr @ [Counted e (nat n)])) [0..<channel_count i (tr @ [Counted e (nat n)])]
        \<and> (\<forall>j\<ge>channel_count i (tr @ [Counted e (nat n)]). last_level i (tr @ [Counted e (nat n)]) j = AudioChannelInfo0)"
      using more [OF i, of "nat n"] more [OF i, of 0] rest [OF i] i
      by (cases "unat e = i") (simp_all add: add reports_append)
  qed
qed

lemma sound_of_levelled:
  assumes "sound_of tr opts" "store_levels e 0 arr opts = Ret opts'"
  shows "sound_of (tr @ [Levelled e arr]) opts'"
proof (cases "unat e < length (sreams opts)")
  case True
  have len: "length (sreams opts') = length (sreams opts)"
    using store_levels_layout [OF assms(2)] by (metis layout_def length_map prod.inject)
  note r = store_levels_result [OF assms(2), simplified if_P [OF True]]
  have c: "channels_of e opts = map (last_level (unat e) tr) [0..<channel_count (unat e) tr]"
    using assms(1) True by (simp add: sound_of_def)
  have n: "length arr \<le> channel_count (unat e) tr" using r c by simp
  have "channels_of e opts' = map (last_level (unat e) (tr @ [Levelled e arr])) [0..<channel_count (unat e) tr]"
    using r n unfolding c by (intro nth_equalityI) (auto simp: nth_append reports_append)
  note new = this
  have other: "last_level i (tr @ [Levelled e arr]) = last_level i tr" if "i \<noteq> unat e" for i
    using that by (auto simp: reports_append fun_eq_iff)
  show ?thesis unfolding sound_of_def
  proof (intro allI impI)
    fix i assume "i < length (sreams opts')"
    then have i: "channels (sreams opts ! i) = map (last_level i tr) [0..<channel_count i tr]"
      "\<forall>j\<ge>channel_count i tr. last_level i tr j = AudioChannelInfo0"
      using assms(1) len by (simp_all add: sound_of_def)
    show "channels (sreams opts' ! i) = map (last_level i (tr @ [Levelled e arr])) [0..<channel_count i (tr @ [Levelled e arr])]
        \<and> (\<forall>j\<ge>channel_count i (tr @ [Levelled e arr]). last_level i (tr @ [Levelled e arr]) j = AudioChannelInfo0)"
    proof (cases "i = unat e")
      case True
      then show ?thesis using new i(2) n by (simp add: reports_append)
    next
      case False
      then show ?thesis using r i by (simp add: other reports_append(2))
    qed
  qed
next
  case False
  then have "opts' = opts" using store_levels_result [OF assms(2)] by simp
  then show ?thesis using assms(1) False by (auto simp: sound_of_def reports_append)
qed

lemma reach_sound: "mosaic_reach G cv c images tr s \<Longrightarrow> sound_of tr (options_ms s)"
proof (induction rule: mosaic_reach.induct)
  case (built s)
  then show ?case
    by (auto simp: sound_of_def OnCairoCreated_def builder_options_def channel_count_def last_level_def split_def)
next
  case (pad tr s junk accepted src pad t)
  consider e n where "options_ms t = add_channels e pad (options_ms s)" "pd_channels pad = Some (Some n)"
      "pad_reports cv junk c src pad s = [Counted e (nat n)]"
    | "options_ms t = options_ms s" "pad_reports cv junk c src pad s = []"
    using pad.hyps(2)
    by (fastforce simp: Mosaic_HandleDecodeBinPadAdded_def pad_reports_def add_channels_def
        split: option.splits prod.splits bool.splits if_splits outcome.splits)
  then show ?case
  proof cases
    case 1
    then show ?thesis using sound_of_counted [OF pad.IH 1(2)] by simp
  qed (use pad.IH in simp)
next
  case (message tr s junk now m t)
  then show ?case
    by (auto simp: Mosaic_HandleAsyncBusMessageReceived_def message_reports_def sound_of_levelled dest!: plain_message_options
        split: bus_message.splits prod.splits bool.splits outcome.splits)
qed

section \<open>Meters lie inside their pictures\<close>

definition inside :: "(int \<times> int) \<times> (int \<times> int) \<Rightarrow> rectangle \<Rightarrow> bool" where
  "inside picture r = (case picture of ((x, y), (w, h)) \<Rightarrow>
     x \<le> uint (rc_x r) \<and> uint (rc_x r) + rc_width r \<le> x + w \<and> y \<le> uint (rc_y r) \<and> uint (rc_y r) + rc_height r \<le> y + h)"

text \<open>Two rectangles with no common point but on their borders.\<close>

definition apart :: "rectangle \<Rightarrow> rectangle \<Rightarrow> bool" where
  "apart r s \<longleftrightarrow> uint (rc_x r) + rc_width r \<le> uint (rc_x s) \<or> uint (rc_x s) + rc_width s \<le> uint (rc_x r)
     \<or> uint (rc_y r) + rc_height r \<le> uint (rc_y s) \<or> uint (rc_y s) + rc_height s \<le> uint (rc_y r)"

definition fits_screen :: "(int \<times> int) \<times> (int \<times> int) \<Rightarrow> bool" where
  "fits_screen picture = (case picture of ((x, y), (w, h)) \<Rightarrow>
     0 \<le> x \<and> 0 \<le> y \<and> 100 \<le> w \<and> 0 \<le> h \<and> x + w \<le> fst screen_size \<and> y + h \<le> snd screen_size)"

text \<open>The meter of a picture: ten levels of two channels, with the colours of their values.\<close>

definition is_meter :: "(f64 \<Rightarrow> f64) \<Rightarrow> (int \<times> int) \<times> (int \<times> int) \<Rightarrow> AudioChannelInfo list \<Rightarrow> rectangle list \<Rightarrow> bool" where
  "is_meter dB picture chans ds \<longleftrightarrow> length ds = 20 \<and> (\<forall>r\<in>set ds. inside picture r)
     \<and> (\<forall>a<20. \<forall>b<20. a \<noteq> b \<longrightarrow> apart (ds ! a) (ds ! b))
     \<and> (\<forall>k<20. rc_colour (ds ! k) = chunk_colour (10 - k div 2) (meter_value dB chans (k mod 2)))"

lemma chunks_list:
  "concat (map (\<lambda>i. map (f i) [0..<CHANNELS]) (map ((*) 2) [0..<COUNT_CHUNKS])) = map (\<lambda>k. f (2 * (k div 2)) (k mod 2)) [0..<20]"
  by (simp add: CHANNELS_def COUNT_CHUNKS_def upt_rec)

lemma size_t_sum:
  "0 \<le> a \<Longrightarrow> 0 \<le> b \<Longrightarrow> a + b * int j < 2 ^ 64 \<Longrightarrow> uint (word_of_int a + word_of_int b * of_nat j :: u64) = a + b * int j"
  by (rule word_of_int_inverse) simp_all

lemma draw_stream_inside:
  assumes "fits_screen (x_y (img st), img_size (img st))"
  shows "\<exists>ds. draw_stream dB 100 25 st = Some ds \<and> is_meter dB (x_y (img st), img_size (img st)) (channels st) ds"
proof -
  obtain x y w h where st: "x_y (img st) = (x, y)" "img_size (img st) = (w, h)" by (metis surj_pair)
  define hc where "hc = h div 20"
  have range: "0 \<le> x" "0 \<le> y" "100 \<le> w" "0 \<le> h" "x + w \<le> 1280" "y + h \<le> 720"
    using assms by (auto simp: st fits_screen_def screen_size_def)
  have hc: "h sdiv 20 = hc" "0 \<le> hc" "20 * hc \<le> h"
    using range(4) by (cases "h = 0"; simp add: hc_def signed_divide_int_def)+
  have half: "(25 :: int) sdiv 2 = 12" by (simp add: signed_divide_int_def)
  let ?r = "\<lambda>i j. \<lparr>rc_x = word_of_int (x + w - 75) + word_of_int 25 * of_nat j + word_of_int 12 * of_nat j,
      rc_y = word_of_int (y + hc) + word_of_int hc * of_nat i, rc_width = 25, rc_height = hc,
      rc_colour = chunk_colour ((20 - i) div 2) (meter_value dB (channels st) j)\<rparr>"
  have d: "draw_stream dB 100 25 st = Some (map (\<lambda>k. ?r (2 * (k div 2)) (k mod 2)) [0..<20])"
    unfolding draw_stream_def chunks_list using range hc
    by (simp add: st checked_i32_def COUNT_CHUNKS_def half)
  have x: "uint (rc_x (?r i j)) = x + w - 75 + 37 * int j" if "j < 2" for i j
    using size_t_sum [of "x + w - 75" 37 j] range that by (simp add: algebra_simps)
  have y: "uint (rc_y (?r i j)) = y + hc + hc * int i" if "i < 20" for i j
  proof -
    have "hc * int i \<le> hc * 20" using hc(2) that by (intro mult_left_mono) simp_all
    then show ?thesis using size_t_sum [of "y + hc" hc i] range hc(2,3) by simp
  qed
  have top: "hc + hc * int i + hc \<le> h" if "i < 19" for i
    using mult_left_mono [of "int i" 18 hc] hc that by simp
  have inside: "inside ((x, y), (w, h)) (?r i j)" if "i < 19" "j < 2" for i j
    unfolding inside_def using x [OF that(2), of i] y [of i j] top [OF that(1)] that range hc(2) by simp
  have apart: "apart (?r i j) (?r i' j')" if "i < 19" "j < 2" "i' < 19" "j' < 2" "even i" "even i'" "(i, j) \<noteq> (i', j')" for i j i' j'
  proof (cases "j = j'")
    case True
    have "int i + 1 \<le> int i' \<or> int i' + 1 \<le> int i" using True that by auto
    then have "hc * (int i + 1) \<le> hc * int i' \<or> hc * (int i' + 1) \<le> hc * int i" using hc(2) mult_left_mono by blast
    then show ?thesis using y [of i j] y [of i' j'] that by (simp add: apart_def algebra_simps)
  next
    case False
    then have "int j + 1 \<le> int j' \<or> int j' + 1 \<le> int j" by auto
    then show ?thesis unfolding apart_def using x [OF that(2), of i] x [OF that(4), of i'] by (simp add: algebra_simps) linarith
  qed
  have bound: "2 * (k div 2) < 19" "k mod 2 < 2" if "k < 20" for k :: nat using that by presburger+
  have k: "(2 * (a div 2), a mod 2) \<noteq> (2 * (b div 2), b mod 2)" if "a \<noteq> b" for a b :: nat
    using that by (metis div_mult_mod_eq prod.inject nat_mult_eq_cancel_disj zero_neq_numeral)
  have pos: "(20 - 2 * m) div 2 = 10 - m" for m :: nat by simp
  show ?thesis
    unfolding d st is_meter_def by (intro exI [of _ "map (\<lambda>k. ?r (2 * (k div 2)) (k mod 2)) [0..<20]"] conjI refl allI impI ballI)
      (use inside [OF bound] apart [OF bound bound _ _ k] in \<open>auto simp: pos\<close>)
qed

lemma cell_fits: "k < c \<Longrightarrow> 0 \<le> n \<Longrightarrow> int k * (n div int c) + n div int c \<le> n"
proof -
  assume k: "k < c" "0 \<le> n"
  then have "(int k + 1) * (n div int c) \<le> int c * (n div int c)" by (intro mult_right_mono) (simp_all add: pos_imp_zdiv_nonneg_iff)
  moreover have "int c * (n div int c) \<le> n" using k by (simp add: minus_mod_eq_mult_div [symmetric])
  ultimately show ?thesis by (simp add: algebra_simps)
qed

lemma pictures_fit:
  assumes "mosaic_grid n = Some grid" "i < n"
  shows "fits_screen (image_info grid i)"
proof -
  obtain rows columns where g: "grid = (rows, columns)" "n = rows * columns" "0 < rows" "0 < columns" "rows \<le> 4" "columns \<le> 4"
    using assms(1) by (auto simp: mosaic_grid_def split: if_splits)
  define w h where "w = 1280 div int columns" and "h = 720 div int rows"
  have c: "i mod columns < columns" "i div columns < rows" using g(2,4) assms(2) by (simp_all add: less_mult_imp_div_less)
  have w: "int (i mod columns) * w + w \<le> 1280" "100 \<le> w"
    using cell_fits [OF c(1), of 1280] zdiv_mono2 [of 1280 "int columns" 4] g(4,6) by (simp_all add: w_def)
  have h: "int (i div columns) * h + h \<le> 720" "0 \<le> h"
    using cell_fits [OF c(2), of 720] g(3) by (simp_all add: h_def pos_imp_zdiv_nonneg_iff)
  show ?thesis using w h by (simp add: g(1) fits_screen_def image_info_def screen_size_def Let_def flip: w_def h_def)
qed

lemma draw_streams_inside:
  assumes "\<forall>st\<in>set sts. fits_screen (x_y (img st), img_size (img st))"
  shows "\<exists>dss. draw_streams dB 100 25 sts = Some (concat dss) \<and> length dss = length sts
    \<and> (\<forall>i<length sts. is_meter dB (x_y (img (sts ! i)), img_size (img (sts ! i))) (channels (sts ! i)) (dss ! i))"
  using assms
proof (induction sts)
  case (Cons st sts)
  obtain ds where ds: "draw_stream dB 100 25 st = Some ds" "is_meter dB (x_y (img st), img_size (img st)) (channels st) ds"
    using draw_stream_inside [of st dB] Cons.prems by auto
  obtain dss where "draw_streams dB 100 25 sts = Some (concat dss)" "length dss = length sts"
    "\<forall>i<length sts. is_meter dB (x_y (img (sts ! i)), img_size (img (sts ! i))) (channels (sts ! i)) (dss ! i)"
    using Cons by auto
  then show ?case using ds by (intro exI [of _ "ds # dss"]) (auto simp: less_Suc_eq_0_disj)
qed simp

text \<open>
  (C23) A mosaic that has a picture for each of its inputs draws in every state that pads and messages lead
  to, with no overflow, twenty chunks for each input: ten levels of two channels. They lie inside the
  picture of their input, which lies inside the screen, and do not overlap; a chunk is coloured according
  to the last level of its channel. The stored channels of an input are as many as its pads announced, and
  each holds the values of the last level message for it, whatever came in between.
\<close>

theorem mosaic_meters_inside_pictures:
  assumes "mosaic_grid n = Some grid" "mosaic_reach G cv c (map (image_info grid) [0..<n]) tr s"
  shows "\<exists>dss. HandleCairoDraw dB s = Some (concat dss) \<and> length dss = n \<and> (\<forall>i<n.
    channels (sreams (options_ms s) ! i) = map (last_level i tr) [0..<channel_count i tr]
    \<and> fits_screen (image_info grid i) \<and> is_meter dB (image_info grid i) (map (last_level i tr) [0..<channel_count i tr]) (dss ! i))"
proof -
  have l: "layout (options_ms s) = layout (builder_options (map (image_info grid) [0..<n]))" by (rule reach_layout [OF assms(2)])
  have n: "length (sreams (options_ms s)) = n"
    using arg_cong [OF l, of "\<lambda>l. length (snd (snd l))"] by (simp add: layout_def builder_options_def)
  have img: "(x_y (img (sreams (options_ms s) ! i)), img_size (img (sreams (options_ms s) ! i))) = image_info grid i" if "i < n" for i
    using arg_cong [OF l, of "\<lambda>l. snd (snd l) ! i"] that n by (simp add: layout_def builder_options_def split_def)
  have fits: "fits_screen (x_y (img st), img_size (img st))" if "st \<in> set (sreams (options_ms s))" for st
    using that pictures_fit [OF assms(1)] img n by (auto simp: in_set_conv_nth)
  have "HandleCairoDraw dB s = draw_streams dB 100 25 (sreams (options_ms s))"
    using l by (simp add: HandleCairoDraw_def layout_def builder_options_def MosaicImageOptions_isValid_def screen_size_def
        CHANNELS_def signed_divide_int_def)
  moreover obtain dss where "draw_streams dB 100 25 (sreams (options_ms s)) = Some (concat dss)" "length dss = n"
    "\<forall>i<n. is_meter dB (image_info grid i) (channels (sreams (options_ms s) ! i)) (dss ! i)"
    using draw_streams_inside [of "sreams (options_ms s)" dB] fits img n by auto
  moreover have "channels (sreams (options_ms s) ! i) = map (last_level i tr) [0..<channel_count i tr]" if "i < n" for i
    using reach_sound [OF assms(2)] n that by (simp add: sound_of_def)
  ultimately show ?thesis using pictures_fit [OF assms(1)] by auto
qed

text \<open>The witness: a mosaic of four inputs whose second one reports two channels and then their levels.\<close>

definition demo_dB :: "f64 \<Rightarrow> f64" where
  "demo_dB v = (case v of F64 r \<Rightarrow> F64 (r / -10) | F64_neg_inf \<Rightarrow> F64_pos_inf | F64_pos_inf \<Rightarrow> F64_neg_inf | F64_nan \<Rightarrow> F64_nan)"

definition demo_mosaic :: "unit mosaic_stream" where
  "demo_mosaic = \<lparr>ms_stream = \<lparr>dc_base = demo_stream\<lparr>flags := 0\<rparr>,
     dc_pipeline = pipeline0\<lparr>pl_elements := [\<lparr>el_plugin = ''queue'', el_name = UDB_AUDIO_NAME_1U 1, el_props = []\<rparr>]\<rparr>, dc_linked = []\<rparr>,
     options_ms = MosaicImageOptions0\<rparr>"

lemma demo_ids: "GetElementId std_conv (DECODEBIN_NAME_1U 1) 0 = (True, 1)" "GetElementId std_conv (AUDIO_LEVEL_NAME_1U 1) 0 = (True, 1)"
  using GetElementId_name [of std_conv "''decodebin''" 1 0] GetElementId_name [of std_conv "''level''" 1 0]
  by (simp_all add: DECODEBIN_NAME_1U_def AUDIO_LEVEL_NAME_1U_def)

theorem mosaic_meters_inside_pictures_witness:
  "\<exists>tr s dss. mosaic_reach demo_gst std_conv demo_relay (map (image_info (2, 2)) [0..<4]) tr (s :: unit mosaic_stream)
     \<and> HandleCairoDraw demo_dB s = Some (concat dss) \<and> map rc_colour (dss ! 0) = replicate 20 Blank
     \<and> rc_colour (dss ! 1 ! 18) = Green \<and> rc_colour (dss ! 1 ! 19) = Green \<and> rc_colour (dss ! 1 ! 0) = Red \<and> rc_colour (dss ! 1 ! 1) = Blank"
proof -
  let ?pad = "\<lparr>pd_name = ''src_0'', pd_query = Some (Some ''audio/x-raw''), pd_channels = Some (Some 2)\<rparr>"
  let ?images = "map (image_info (2, 2)) [0..<4]"
  let ?s = "OnCairoCreated (builder_options ?images) demo_mosaic"
  obtain t where t: "Mosaic_HandleDecodeBinPadAdded demo_gst std_conv 0 demo_relay True (DECODEBIN_NAME_1U 1) ?pad ?s = Ret t"
    "options_ms t = add_channels 1 ?pad (builder_options ?images)"
    by (simp add: Mosaic_HandleDecodeBinPadAdded_def demo_ids pad_get_type_def is_video_pad_def is_audio_pad_def
        stream_GetElementByName_def GetElementByName_def IsAudioInited_def OnCairoCreated_def demo_mosaic_def demo_defs del: One_nat_def)
  let ?arr = "[(F64 (-100), F64 0, F64 0), (F64 (-30), F64 0, F64 0)]"
  have c: "channels_of 1 (options_ms t) = [AudioChannelInfo0, AudioChannelInfo0]" "length (sreams (options_ms t)) = 4"
    "channels (sreams (options_ms t) ! 0) = []"
    by (simp_all add: t(2) add_channels_def builder_options_def upt_rec numeral_2_eq_2 split_def)
  obtain opts where opts: "store_levels 1 0 ?arr (options_ms t) = Ret opts" "channels_of 1 opts
      = map (\<lambda>(r, p, d). \<lparr>rms_dB = r, peak_dB = p, decay_dB = d\<rparr>) ?arr" "sreams opts ! 0 = sreams (options_ms t) ! 0"
    using store_levels_counted [of 1 "options_ms t" 0 ?arr] c by auto
  define u where "u = t\<lparr>options_ms := opts, ms_stream := ms_stream t\<lparr>dc_base := call OnASyncMessageReceived (dc_base (ms_stream t))\<rparr>\<rparr>"
  have step: "Mosaic_HandleAsyncBusMessageReceived std_conv 0 0 (Level (AUDIO_LEVEL_NAME_1U 1) ?arr) t = Ret u"
    by (simp add: Mosaic_HandleAsyncBusMessageReceived_def demo_ids opts(1) plain_message_def HandleAsyncBusMessageReceived_def
        async_effect_def u_def del: One_nat_def store_levels.simps)
  define tr where "tr = [Counted 1 2, Levelled 1 ?arr]"
  have "pad_reports std_conv 0 demo_relay (DECODEBIN_NAME_1U 1) ?pad ?s = [Counted 1 2]"
    by (simp add: pad_reports_def demo_ids pad_get_type_def is_video_pad_def is_audio_pad_def IsAudioInited_def
        OnCairoCreated_def demo_mosaic_def demo_defs del: One_nat_def)
  moreover have "message_reports std_conv 0 (Level (AUDIO_LEVEL_NAME_1U 1) ?arr) = [Levelled 1 ?arr]"
    by (simp add: message_reports_def demo_ids del: One_nat_def)
  ultimately have reach: "mosaic_reach demo_gst std_conv demo_relay ?images tr u"
    using mosaic_reach.message [OF mosaic_reach.pad [OF mosaic_reach.built t(1)] step] by (simp add: tr_def)
  moreover have "mosaic_grid 4 = Some (2, 2)" by (simp add: mosaic_grid_def)
  ultimately obtain dss where dss: "HandleCairoDraw demo_dB u = Some (concat dss)"
      "\<forall>i<4. is_meter demo_dB (image_info (2, 2) i) (map (last_level i tr) [0..<channel_count i tr]) (dss ! i)"
    using mosaic_meters_inside_pictures [of 4 "(2, 2)" demo_gst std_conv demo_relay tr u demo_dB] by blast
  have m0: "is_meter demo_dB (image_info (2, 2) 0) [] (dss ! 0)"
    using spec [OF dss(2), of 0] by (simp add: tr_def channel_count_def)
  have m1: "is_meter demo_dB (image_info (2, 2) 1) (map level_info ?arr) (dss ! 1)"
    using spec [OF dss(2), of 1] by (simp add: tr_def channel_count_def last_level_def has_level_def upt_rec numeral_2_eq_2)
  have "map rc_colour (dss ! 0) = replicate 20 Blank"
    using m0 by (intro nth_equalityI) (auto simp: is_meter_def meter_value_def chunk_colour_def)
  moreover have "rc_colour (dss ! 1 ! 18) = Green" "rc_colour (dss ! 1 ! 19) = Green" "rc_colour (dss ! 1 ! 0) = Red" "rc_colour (dss ! 1 ! 1) = Blank"
    using m1 by (simp_all add: level_info_def is_meter_def meter_value_def chunk_colour_def demo_dB_def)
  ultimately show ?thesis using reach dss(1) by blast
qed

end
