(* ===== verification/ServiceProgram.thy ===== *)
theory ServiceProgram
  imports DaemonSpec
begin

text \<open>
  Components \<open>server/config\<close>, \<open>server/daemon_slave\<close> and the start and end of
  \<open>server/process_slave_wrapper\<close>: the configuration file of the service, the program with its command
  line and its pid file, the servers it runs, and the command that stops a running instance.
\<close>

section \<open>The configuration file\<close>

text \<open>
  Addresses and log levels belong to the common library: how a text is read, the address of a local port,
  and the values of default constructors.
\<close>

record ('h, 'l) service_api =
  sv_host_of :: "string \<Rightarrow> 'h option"
  sv_localhost :: "nat \<Rightarrow> 'h"
  sv_host0 :: 'h
  sv_level_of :: "string \<Rightarrow> 'l option"
  sv_level_info :: 'l
  sv_time_of :: "string \<Rightarrow> int option"

record ('h, 'l) service_Config =
  sc_host :: 'h
  sc_log_path :: string
  sc_log_level :: 'l
  sc_http_host :: 'h
  sc_vods_host :: 'h
  sc_subscribers_host :: 'h
  sc_bandwidth_host :: 'h
  sc_ttl_files :: int

definition CLIENT_PORT :: nat where "CLIENT_PORT = 6317"

definition HTTP_PORT :: nat where "HTTP_PORT = 8000"

definition VODS_PORT :: nat where "VODS_PORT = 7000"

definition SUBSCRIPERS_PORT :: nat where "SUBSCRIPERS_PORT = 6000"

definition BANDWIDTH_PORT :: nat where "BANDWIDTH_PORT = 5000"

definition TTL_FILES :: int where "TTL_FILES = 3600"

definition DUMMY_LOG_FILE_PATH :: string where "DUMMY_LOG_FILE_PATH = ''/dev/null''"

definition GetDefaultHost :: "('h, 'l) service_api \<Rightarrow> 'h" where
  "GetDefaultHost S = sv_localhost S CLIENT_PORT"

definition service_Config0 :: "('h, 'l) service_api \<Rightarrow> ('h, 'l) service_Config" where
  "service_Config0 S = \<lparr>sc_host = GetDefaultHost S, sc_log_path = DUMMY_LOG_FILE_PATH, sc_log_level = sv_level_info S,
     sc_http_host = sv_host0 S, sc_vods_host = sv_host0 S, sc_subscribers_host = sv_host0 S, sc_bandwidth_host = sv_host0 S,
     sc_ttl_files = TTL_FILES\<rparr>"

definition service_keys :: "string list" where
  "service_keys = [''log_path'', ''log_level'', ''host'', ''http_host'', ''vods_host'', ''subscribers_host'', ''bandwidth_host'', ''ttl_files'']"

text \<open>\<open>std::map::insert\<close> keeps the entry that is there.\<close>

definition map_insert :: "string \<times> string \<Rightarrow> ArgsMap \<Rightarrow> ArgsMap" where
  "map_insert pair m = (if m (fst pair) = None then m(fst pair \<mapsto> snd pair) else m)"

fun read_config_lines :: "string list \<Rightarrow> ArgsMap \<Rightarrow> ArgsMap" where
  "read_config_lines [] options = options"
| "read_config_lines (line # config) options =
     (let pair = GetKeyValue line (CHR ''='') in
      read_config_lines config (if fst pair \<in> set service_keys then map_insert pair options else options))"

text \<open>The files that can be opened, with their lines.\<close>

definition ReadSlaveConfig :: "(string \<rightharpoonup> string list) \<Rightarrow> string \<Rightarrow> errno_error + ArgsMap" where
  "ReadSlaveConfig files path =
     (if path = [] then Inl (Errno_error ''Invalid config path'' EINVAL)
      else (case files path of
        None \<Rightarrow> Inl (Errno_error (''Failed to open config path: '' @ path) EINVAL)
      | Some config \<Rightarrow> Inr (read_config_lines config Map.empty)))"

definition value_or :: "(string \<Rightarrow> 'v option) \<Rightarrow> ArgsMap \<Rightarrow> string \<Rightarrow> 'v \<Rightarrow> 'v" where
  "value_or conv args key dflt = (case ArgsGetValue conv args key of None \<Rightarrow> dflt | Some v \<Rightarrow> v)"

text \<open>
  A missing bandwidth address assigns its default to the variable of the subscribers address, which was
  already copied: the address of the configuration stays as it was constructed.
\<close>

definition load_config_from_file ::
  "('h, 'l) service_api \<Rightarrow> (string \<rightharpoonup> string list) \<Rightarrow> string \<Rightarrow> errno_error + ('h, 'l) service_Config" where
  "load_config_from_file S files config_absolute_path = (case ReadSlaveConfig files config_absolute_path of
     Inl err \<Rightarrow> Inl err
   | Inr args \<Rightarrow> Inr ((service_Config0 S)
      \<lparr>sc_log_path := value_or ConvertFromString_string args ''log_path'' DUMMY_LOG_FILE_PATH,
       sc_log_level := (case ArgsGetValue ConvertFromString_string args ''log_level'' of
          None \<Rightarrow> sv_level_info S
        | Some level_str \<Rightarrow> (case sv_level_of S level_str of None \<Rightarrow> sv_level_info S | Some level \<Rightarrow> level)),
       sc_host := value_or (sv_host_of S) args ''host'' (sv_localhost S CLIENT_PORT),
       sc_http_host := value_or (sv_host_of S) args ''http_host'' (sv_localhost S HTTP_PORT),
       sc_vods_host := value_or (sv_host_of S) args ''vods_host'' (sv_localhost S VODS_PORT),
       sc_subscribers_host := value_or (sv_host_of S) args ''subscribers_host'' (sv_localhost S SUBSCRIPERS_PORT),
       sc_bandwidth_host := value_or (sv_host_of S) args ''bandwidth_host'' (sv_host0 S),
       sc_ttl_files := value_or (sv_time_of S) args ''ttl_files'' TTL_FILES\<rparr>))"

section \<open>The servers\<close>

text \<open>The service when it is constructed; \<open>home\<close> is the home directory.\<close>

definition make_ProcessSlaveWrapper :: "int \<Rightarrow> string \<Rightarrow> ('d, 'c) daemon" where
  "make_ProcessSlaveWrapper now home = \<lparr>dm_clients = [], dm_children = [], dm_next = 0, dm_id = 0,
     ping_client_timer = None, node_stats_timer = None, cleanup_files_timer = None, quit_cleanup_timer = None,
     dm_node = \<lparr>ns_prev = CpuShot0, ns_prev_nshot = NetShot0, ns_timestamp = now\<rparr>, vods_links = Map.empty, dm_users = Map.empty,
     dm_http = \<lparr>http_root = home\<rparr>, dm_vods = \<lparr>vods_root = home\<rparr>, dm_files = Map.empty, dm_sent = [], dm_posts = [],
     dm_shm = 0, dm_fds = 0, dm_stopped = False\<rparr>"

text \<open>How a server starts, and what the library and the loops do in one run of the program.\<close>

datatype server_start = Bind_failed | Listen_failed | Serves

record run_env =
  xs_library :: bool
  xs_symbol :: bool
  xs_http :: server_start
  xs_vods :: server_start
  xs_subscribers :: server_start
  xs_daemon :: server_start
  xs_daemon_loop :: "int option"

definition EXIT_SUCCESS :: int where "EXIT_SUCCESS = 0"

definition EXIT_FAILURE :: int where "EXIT_FAILURE = 1"

text \<open>
  A thread with a server ends at once when the server does not start, otherwise when the server is
  stopped. Servers are stopped by the timer of the daemon that ends its own loop too, so the daemon has
  stopped them when its loop returned (\<open>Some\<close> result).
\<close>

definition thread_ends :: "server_start \<Rightarrow> bool \<Rightarrow> bool" where
  "thread_ends start stopped \<longleftrightarrow> start \<noteq> Serves \<or> stopped"

text \<open>The result of \<open>Exec\<close>; \<open>None\<close> where it does not return.\<close>

definition wrapper_Exec :: "run_env \<Rightarrow> int option" where
  "wrapper_Exec X =
     (if \<not> xs_library X then Some EXIT_FAILURE
      else if \<not> xs_symbol X then Some EXIT_FAILURE
      else
        (let res = (if xs_daemon X \<noteq> Serves then Some EXIT_FAILURE else xs_daemon_loop X);
             stopped = (xs_daemon X = Serves \<and> xs_daemon_loop X \<noteq> None)
         in if res \<noteq> None \<and> thread_ends (xs_subscribers X) stopped \<and> thread_ends (xs_vods X) stopped
               \<and> thread_ends (xs_http X) stopped
            then res else None))"

section \<open>The program\<close>

record ('h, 'l, 'j) program_env =
  pg_api :: "('h, 'l) service_api"
  pg_json :: "'j json"
  pg_make_id :: "u64 \<Rightarrow> string"
  pg_files :: "string \<rightharpoonup> string list"
  pg_config_path :: string
  pg_hash :: "string option"
  pg_license :: string
  pg_daemonize :: bool
  pg_pid :: nat
  pg_pid_dir :: string
  pg_dir_exists :: bool
  pg_create_dir :: bool
  pg_access :: bool
  pg_open :: bool
  pg_lock :: bool
  pg_write :: bool
  pg_unlock :: bool
  pg_remove :: bool
  pg_connect :: "'h \<Rightarrow> bool"
  pg_send :: bool
  pg_run :: run_env

text \<open>What the program does outside.\<close>

datatype ('h, 'l) action = Print_version | Print_help | Stop_sent 'h request | Became_daemon | Logging string 'l | Pid_locked
  | Pid_written string | Service_run string "('h, 'l) service_Config" | Pid_unlocked | Pid_removed

definition create_license_key :: "('h, 'l, 'j) program_env \<Rightarrow> string option" where
  "create_license_key P = (case pg_hash P of
     None \<Rightarrow> None
   | Some license_key \<Rightarrow> if license_key \<noteq> pg_license P then None else Some license_key)"

definition SendStopDaemonRequest :: "('h, 'l, 'j) program_env \<Rightarrow> string \<Rightarrow> int \<times> ('h, 'l) action list" where
  "SendStopDaemonRequest P license =
     (if license = [] then (EXIT_FAILURE, [])
      else (case StopServiceInfo_Serialize (pg_json P) \<lparr>st_license = license, st_delay = 0\<rparr> of
        Inl serialize_error \<Rightarrow> (EXIT_FAILURE, [])
      | Inr stop \<Rightarrow>
          (let req = StopServiceRequest (Some (pg_make_id P 0)) (js_print (pg_json P) stop);
               host = GetDefaultHost (pg_api P)
           in if \<not> pg_connect P host then (EXIT_FAILURE, [])
              else if \<not> pg_send P then (EXIT_FAILURE, [])
              else (EXIT_SUCCESS, [Stop_sent host req]))))"

text \<open>The options, in order: an exit, or whether to run as a daemon.\<close>

fun parse_args :: "('h, 'l, 'j) program_env \<Rightarrow> string list \<Rightarrow> bool \<Rightarrow> (int \<times> ('h, 'l) action list) + bool" where
  "parse_args P [] run_as_daemon = Inr run_as_daemon"
| "parse_args P (arg # argv) run_as_daemon =
     (if arg = ''--version'' then Inl (EXIT_SUCCESS, [Print_version])
      else if arg = ''--daemon'' then parse_args P argv True
      else if arg = ''--stop'' then
        (case create_license_key P of None \<Rightarrow> Inl (EXIT_FAILURE, []) | Some license_key \<Rightarrow> Inl (SendStopDaemonRequest P license_key))
      else if arg = ''--help'' \<or> arg = ''-h'' then Inl (EXIT_SUCCESS, [Print_help])
      else Inl (EXIT_FAILURE, [Print_help]))"

definition run_service :: "('h, 'l, 'j) program_env \<Rightarrow> ('h, 'l) service_Config \<Rightarrow> int option \<times> ('h, 'l) action list" where
  "run_service P config =
     (if pg_pid_dir P = [] then (Some EXIT_FAILURE, [])
      else if \<not> pg_dir_exists P \<and> \<not> pg_create_dir P then (Some EXIT_FAILURE, [])
      else if \<not> pg_access P then (Some EXIT_FAILURE, [])
      else if \<not> pg_open P then (Some EXIT_FAILURE, [])
      else if \<not> pg_lock P then (Some EXIT_FAILURE, [])
      else if \<not> pg_write P then (Some EXIT_FAILURE, [Pid_locked])
      else
        (let started = [Pid_locked, Pid_written (dec (pg_pid P) @ [nl])] in
         case create_license_key P of
           None \<Rightarrow> (Some EXIT_FAILURE, started)
         | Some license_key \<Rightarrow>
            (let running = started @ [Service_run license_key config] in
             case wrapper_Exec (pg_run P) of
               None \<Rightarrow> (None, running)
             | Some res \<Rightarrow>
                if \<not> pg_unlock P then (Some EXIT_FAILURE, running)
                else (Some res, running @ [Pid_unlocked] @ (if pg_remove P then [Pid_removed] else [])))))"

definition main :: "('h, 'l, 'j) program_env \<Rightarrow> string list \<Rightarrow> int option \<times> ('h, 'l) action list" where
  "main P argv = (case parse_args P argv False of
     Inl (code, actions) \<Rightarrow> (Some code, actions)
   | Inr run_as_daemon \<Rightarrow> (case load_config_from_file (pg_api P) (pg_files P) (pg_config_path P) of
       Inl err \<Rightarrow> (Some EXIT_FAILURE, [])
     | Inr config \<Rightarrow>
        if run_as_daemon \<and> \<not> pg_daemonize P then (Some EXIT_FAILURE, [])
        else (let before = (if run_as_daemon then [Became_daemon] else []) @ [Logging (sc_log_path config) (sc_log_level config)] in
              map_prod (\<lambda>r. r) ((@) before) (run_service P config))))"

section \<open>What the file configures\<close>

text \<open>The value of the first line that assigns a key; a line without a sign assigns nothing to the key it consists of.\<close>

definition first_value :: "string list \<Rightarrow> string \<Rightarrow> string option" where
  "first_value config key = map_of (map (\<lambda>line. GetKeyValue line (CHR ''='')) config) key"

lemma read_config_lines_value:
  "key \<in> set service_keys \<Longrightarrow> read_config_lines config options key
     = (case options key of Some v \<Rightarrow> Some v | None \<Rightarrow> first_value config key)"
proof (induction config arbitrary: options)
  case (Cons line config)
  obtain k v where kv: "GetKeyValue line (CHR ''='') = (k, v)" by (cases "GetKeyValue line (CHR ''='')")
  have "read_config_lines (line # config) options key
      = read_config_lines config (if k \<in> set service_keys then map_insert (k, v) options else options) key" by (simp add: kv Let_def)
  also have "\<dots> = (case (if k \<in> set service_keys then map_insert (k, v) options else options) key of
      Some v \<Rightarrow> Some v | None \<Rightarrow> first_value config key)" by (rule Cons.IH [OF Cons.prems])
  also have "\<dots> = (case options key of Some v \<Rightarrow> Some v | None \<Rightarrow> first_value (line # config) key)"
    using Cons.prems by (auto simp: map_insert_def first_value_def kv split: option.splits)
  finally show ?case .
qed (simp add: first_value_def split: option.splits)

lemma args_first:
  "key \<in> set service_keys \<Longrightarrow> ArgsGetValue conv (read_config_lines config Map.empty) key = Option.bind (first_value config key) conv"
  by (simp add: ArgsGetValue_def read_config_lines_value split: option.split)

lemma string_conv: "Option.bind x ConvertFromString_string = x"
  by (cases x) (simp_all add: ConvertFromString_string_def)

text \<open>
  (C29) The configuration of the service: every setting comes from the first line that assigns its key, if
  that value can be read, and has its default otherwise. Exceptionally the bandwidth address has no
  default: without a readable line it stays as constructed, whatever the port of the bandwidth server.
\<close>

theorem service_config_from_first_lines:
  "load_config_from_file S files path = (case if path = [] then None else files path of
     None \<Rightarrow> Inl (Errno_error (if path = [] then ''Invalid config path'' else ''Failed to open config path: '' @ path) EINVAL)
   | Some config \<Rightarrow>
      (let setting = (\<lambda>conv key dflt. case Option.bind (first_value config key) conv of None \<Rightarrow> dflt | Some v \<Rightarrow> v);
           host = setting (sv_host_of S) in
       Inr \<lparr>sc_host = host ''host'' (sv_localhost S 6317), sc_log_path = (case first_value config ''log_path'' of None \<Rightarrow> ''/dev/null'' | Some v \<Rightarrow> v),
            sc_log_level = (case Option.bind (first_value config ''log_level'') (sv_level_of S) of None \<Rightarrow> sv_level_info S | Some v \<Rightarrow> v),
            sc_http_host = host ''http_host'' (sv_localhost S 8000), sc_vods_host = host ''vods_host'' (sv_localhost S 7000),
            sc_subscribers_host = host ''subscribers_host'' (sv_localhost S 6000),
            sc_bandwidth_host = host ''bandwidth_host'' (sv_host0 S),
            sc_ttl_files = (case Option.bind (first_value config ''ttl_files'') (sv_time_of S) of None \<Rightarrow> 3600 | Some v \<Rightarrow> v)\<rparr>))"
proof (cases "if path = [] then None else files path")
  case None
  then show ?thesis by (auto simp: load_config_from_file_def ReadSlaveConfig_def split: if_splits)
next
  case (Some config)
  then have r: "ReadSlaveConfig files path = Inr (read_config_lines config Map.empty)"
    by (auto simp: ReadSlaveConfig_def split: if_splits)
  show ?thesis unfolding load_config_from_file_def r Some value_or_def CLIENT_PORT_def HTTP_PORT_def VODS_PORT_def
      SUBSCRIPERS_PORT_def TTL_FILES_def DUMMY_LOG_FILE_PATH_def
    by (cases "first_value config ''log_level''")
       (simp_all add: args_first service_keys_def service_Config0_def Let_def string_conv)
qed

section \<open>When the program runs the service\<close>

lemma send_stop_actions: "snd (SendStopDaemonRequest P key) = [] \<or> (\<exists>h r. snd (SendStopDaemonRequest P key) = [Stop_sent h r])"
  by (simp add: SendStopDaemonRequest_def Let_def split: sum.split)

lemma parse_args_actions:
  "parse_args P argv d = Inl ca \<Longrightarrow> snd ca \<in> {[], [Print_version], [Print_help]} \<or> (\<exists>h r. snd ca = [Stop_sent h r])"
proof (induction P argv d rule: parse_args.induct)
  case (2 P arg argv d)
  show ?case
  proof (cases "arg = ''--daemon''")
    case True
    then show ?thesis using 2 by simp
  next
    case False
    then have "ca \<in> {(EXIT_SUCCESS, [Print_version]), (EXIT_FAILURE, []), (EXIT_SUCCESS, [Print_help]), (EXIT_FAILURE, [Print_help])}
        \<or> (\<exists>key. ca = SendStopDaemonRequest P key)"
      using "2.prems" by (simp split: if_splits option.splits) blast+
    then show ?thesis using send_stop_actions [of P] by force
  qed
qed simp

text \<open>The run of the service, from the lock on.\<close>

definition service_run :: "('h, 'l, 'j) program_env \<Rightarrow> ('h, 'l) service_Config \<Rightarrow> int option \<Rightarrow> ('h, 'l) action list \<Rightarrow> bool" where
  "service_run P config code actions \<longleftrightarrow> pg_hash P = Some (pg_license P) \<and> pg_lock P \<and> pg_write P
     \<and> (let start = [Pid_locked, Pid_written (dec (pg_pid P) @ [nl]), Service_run (pg_license P) config] in
        case wrapper_Exec (pg_run P) of
          None \<Rightarrow> code = None \<and> actions = start
        | Some res \<Rightarrow> code = Some (if pg_unlock P then res else EXIT_FAILURE)
            \<and> actions = start @ (if pg_unlock P then Pid_unlocked # (if pg_remove P then [Pid_removed] else []) else []))"

lemma run_service_cases:
  assumes "run_service P config = (code, actions)"
  shows "(\<forall>key c. Service_run key c \<notin> set actions) \<and> code = Some EXIT_FAILURE \<or> service_run P config code actions"
  using assms
  by (auto simp: run_service_def service_run_def create_license_key_def Let_def split: if_splits option.splits)

text \<open>
  (C28) The program runs the service only after it locked the pid file, wrote its own number there and
  found the key of the licence on this machine; it is then run once, with the configuration of the file.
  When the service ends, the pid file is unlocked before it is removed, and the result of the service is
  the exit code unless the unlocking fails. Every other outcome is an exit without a service.
\<close>

theorem service_runs_licensed_and_locked:
  fixes P :: "('h, 'l, 'j) program_env"
  assumes "main P argv = (code, actions)"
  shows "(\<forall>key config. Service_run key config \<notin> set actions) \<and> code \<noteq> None
    \<or> (\<exists>before run config. actions = before @ run \<and> load_config_from_file (pg_api P) (pg_files P) (pg_config_path P) = Inr config
        \<and> set before \<subseteq> {Became_daemon, Logging (sc_log_path config) (sc_log_level config)} \<and> service_run P config code run)"
proof (cases "parse_args P argv False")
  case (Inl ca)
  then show ?thesis using assms parse_args_actions [OF Inl] by (cases ca) (auto simp: main_def)
next
  case (Inr d)
  show ?thesis
  proof (cases "load_config_from_file (pg_api P) (pg_files P) (pg_config_path P)")
    case conf: (Inr config)
    show ?thesis
    proof (cases "d \<and> \<not> pg_daemonize P")
      case False
      define before :: "('h, 'l) action list" where "before = (if d then [Became_daemon] else []) @ [Logging (sc_log_path config) (sc_log_level config)]"
      obtain run where run: "run_service P config = (code, run)" "actions = before @ run"
        using assms Inr conf False by (cases "run_service P config") (auto simp: main_def before_def Let_def)
      have "set before \<subseteq> {Became_daemon, Logging (sc_log_path config) (sc_log_level config)}" by (auto simp: before_def)
      then have "service_run P config code run \<Longrightarrow> ?thesis" using run(2) conf by blast
      moreover have "\<forall>key c. Service_run key c \<notin> set run \<Longrightarrow> \<forall>key c. Service_run key c \<notin> set actions"
        by (auto simp: run(2) before_def)
      ultimately show ?thesis using run_service_cases [OF run(1)] by blast
    qed (use assms Inr conf in \<open>auto simp: main_def\<close>)
  qed (use assms Inr in \<open>auto simp: main_def\<close>)
qed

text \<open>
  The service returns when no server started, or when the daemon served and its loop ended. When the
  daemon cannot bind or listen while another server serves, nobody stops that one, and the program waits
  for its thread forever.
\<close>

lemma wrapper_Exec_returns:
  "wrapper_Exec X \<noteq> None \<longleftrightarrow> \<not> xs_library X \<or> \<not> xs_symbol X \<or> (xs_daemon X = Serves \<and> xs_daemon_loop X \<noteq> None)
     \<or> (xs_daemon X \<noteq> Serves \<and> Serves \<notin> {xs_subscribers X, xs_vods X, xs_http X})"
  by (auto simp: wrapper_Exec_def thread_ends_def Let_def)

lemma constructed_service: "dm_init (make_ProcessSlaveWrapper now home)"
  by (simp add: dm_init_def make_ProcessSlaveWrapper_def)

section \<open>Stopping a running service\<close>

lemma stop_info_reads_back:
  assumes "json_laws J" "StopServiceInfo_Serialize J \<lparr>st_license = lic, st_delay = 0\<rparr> = Inr stop"
  shows "StopServiceInfo_DeSerialize J stop = Inr \<lparr>st_license = lic, st_delay = 0\<rparr>"
  using stop_service_ser.roundtrip [OF _ assms(2)] assms(1) by (simp add: int64_range_def)

lemma stop_request_accepted:
  assumes "rq_method req = DAEMON_STOP_SERVICE" "rq_params req = Some params" "js_parse (en_json E) params = Some j"
    "StopServiceInfo_DeSerialize (en_json E) j = Inr info" "st_license info = en_license E" "map_of (dm_clients D) c = Some (Daemon_client v)"
    "quit_cleanup_timer D = None" "Some (en_new_timer E) \<notin> {ping_client_timer D, node_stats_timer D, cleanup_files_timer D}"
  shows "\<exists>D1. handle_event E (Ev_data c (Got_request req)) D = Ret D1 \<and> quitting (en_new_timer E) D1
    \<and> last (dm_sent D1) = (c, Out_response (StopServiceResponceSuccess (rq_id req)))"
proof -
  define Ds where "Ds = foldl (\<lambda>D channel. case NextRequestID E D of (i, D) \<Rightarrow> SendStop channel i D) D (dm_children D)"
  define D1 where "D1 = (respond c (StopServiceResponceSuccess (rq_id req)) Ds)\<lparr>quit_cleanup_timer := Some (en_new_timer E)\<rparr>"
  have "HandleRequestClientStopService E c req D = Ret (None, D1)"
    using assms by (simp add: HandleRequestClientStopService_def with_params_def Let_def D1_def Ds_def)
  moreover have "HandleRequestServiceCommand E c req D = HandleRequestClientStopService E c req D"
    using assms(1) by (simp add: HandleRequestServiceCommand_def daemon_method_defs)
  ultimately have "handle_event E (Ev_data c (Got_request req)) D = Ret D1"
    using assms(6) by (simp add: handle_event_def DataReceived_def DaemonDataReceived_def)
  moreover have "quitting (en_new_timer E) D1"
    using assms(8) stop_all_timers [of E D "dm_children D"] by (auto simp: quitting_def D1_def Ds_def respond_def send_to_def)
  moreover have "last (dm_sent D1) = (c, Out_response (StopServiceResponceSuccess (rq_id req)))" by (simp add: D1_def respond_def send_to_def)
  ultimately show ?thesis by blast
qed

text \<open>
  (C5) The option \<open>--stop\<close> stops a running service of the same licence: the program exits with success
  after it sent a request which the service, read on any connection of an operator, verified or not,
  answers with success; whatever happens next, the expiry of the quit timer ends the service.
\<close>

theorem stop_option_stops_service:
  assumes "json_laws (pg_json P)" "create_license_key P = Some lic" "lic \<noteq> []" "pg_connect P (GetDefaultHost (pg_api P))" "pg_send P"
    "en_json E = pg_json P" "en_license E = lic" "map_of (dm_clients D) c = Some (Daemon_client v)"
    "quit_cleanup_timer D = None" "Some (en_new_timer E) \<notin> {ping_client_timer D, node_stats_timer D, cleanup_files_timer D}"
  shows "\<exists>req D1. main P (''--stop'' # argv) = (Some EXIT_SUCCESS, [Stop_sent (GetDefaultHost (pg_api P)) req])
    \<and> handle_event E (Ev_data c (Got_request req)) D = Ret D1
    \<and> last (dm_sent D1) = (c, Out_response (StopServiceResponceSuccess (rq_id req)))
    \<and> (\<forall>es D2 E2. run_events es D1 = Ret D2 \<longrightarrow> (\<exists>D3. handle_event E2 (Ev_timer (en_new_timer E)) D2 = Ret D3 \<and> dm_stopped D3))"
proof -
  obtain stop where stop: "StopServiceInfo_Serialize (pg_json P) \<lparr>st_license = lic, st_delay = 0\<rparr> = Inr stop"
    by (simp add: StopServiceInfo_Serialize_def)
  define req where "req = StopServiceRequest (Some (pg_make_id P 0)) (js_print (pg_json P) stop)"
  have m: "main P (''--stop'' # argv) = (Some EXIT_SUCCESS, [Stop_sent (GetDefaultHost (pg_api P)) req])"
    using assms(2-5) stop by (simp add: main_def SendStopDaemonRequest_def Let_def req_def)
  have r: "rq_method req = DAEMON_STOP_SERVICE" "rq_params req = Some (js_print (pg_json P) stop)"
    "js_parse (en_json E) (js_print (pg_json P) stop) = Some stop"
    "StopServiceInfo_DeSerialize (en_json E) stop = Inr \<lparr>st_license = lic, st_delay = 0\<rparr>"
    using stop_info_reads_back [OF assms(1) stop] assms(1,6) by (simp_all add: req_def StopServiceRequest_def make_request_def json_lawsD)
  obtain D1 where D1: "handle_event E (Ev_data c (Got_request req)) D = Ret D1" "quitting (en_new_timer E) D1"
    "last (dm_sent D1) = (c, Out_response (StopServiceResponceSuccess (rq_id req)))"
    using stop_request_accepted [OF r _ assms(8-10)] assms(7) by auto
  have "\<exists>D3. handle_event E2 (Ev_timer (en_new_timer E)) D2 = Ret D3 \<and> dm_stopped D3" if "run_events es D1 = Ret D2" for es D2 E2
    using run_quitting [OF D1(2) that] by (auto simp: handle_event_def TimerEmited_def quitting_def)
  then show ?thesis using m D1 by blast
qed

section \<open>A concrete program\<close>

definition demo_api :: "(string, string) service_api" where
  "demo_api = \<lparr>sv_host_of = Some, sv_localhost = (\<lambda>port. ''localhost:'' @ dec port), sv_host0 = [], sv_level_of = Some, sv_level_info = ''INFO'',
     sv_time_of = (\<lambda>s. None)\<rparr>"

definition demo_program :: "(string, string, jval) program_env" where
  "demo_program = \<lparr>pg_api = demo_api, pg_json = tree_json, pg_make_id = (\<lambda>i. ''0''),
     pg_files = [''/etc/service.conf'' \<mapsto> [''host=h:1'', ''log_level=DEBUG'', ''host=h:2'']], pg_config_path = ''/etc/service.conf'',
     pg_hash = Some ''key'', pg_license = ''key'', pg_daemonize = True, pg_pid = 7, pg_pid_dir = ''/run'', pg_dir_exists = True, pg_create_dir = True,
     pg_access = True, pg_open = True, pg_lock = True, pg_write = True, pg_unlock = True, pg_remove = True, pg_connect = (\<lambda>h. True), pg_send = True,
     pg_run = \<lparr>xs_library = True, xs_symbol = True, xs_http = Serves, xs_vods = Serves, xs_subscribers = Bind_failed, xs_daemon = Serves,
       xs_daemon_loop = Some 0\<rparr>\<rparr>"

theorem service_runs_licensed_and_locked_witness:
  "\<exists>actions config. main demo_program [''--daemon''] = (Some 0, actions) \<and> Service_run ''key'' config \<in> set actions \<and> last actions = Pid_removed"
proof -
  obtain code actions where m: "main demo_program [''--daemon''] = (code, actions)" by (cases "main demo_program [''--daemon'']")
  have e: "wrapper_Exec (pg_run demo_program) = Some 0" by (simp add: wrapper_Exec_def thread_ends_def demo_program_def)
  have "\<exists>config key. Service_run key config \<in> set actions"
    using m by (auto simp: main_def run_service_def create_license_key_def load_config_from_file_def ReadSlaveConfig_def wrapper_Exec_def
        thread_ends_def demo_program_def Let_def)
  then obtain before run config where "actions = before @ run" "service_run demo_program config code run"
    using service_runs_licensed_and_locked [OF m] by blast
  then have "actions = before @ [Pid_locked, Pid_written (dec 7 @ [nl]), Service_run ''key'' config, Pid_unlocked, Pid_removed]" "code = Some 0"
    by (auto simp: service_run_def e) (simp_all add: demo_program_def)
  then show ?thesis using m by auto
qed

theorem stop_option_stops_service_witness:
  "\<exists>req D1 D3. main demo_program [''--stop''] = (Some EXIT_SUCCESS, [Stop_sent (GetDefaultHost demo_api) req])
     \<and> handle_event demo_env (Ev_data 0 (Got_request req)) demo_daemon = Ret D1 \<and> handle_event demo_env (Ev_timer 9) D1 = Ret D3 \<and> dm_stopped D3"
proof -
  have p: "json_laws (pg_json demo_program)" "create_license_key demo_program = Some ''key''" "''key'' \<noteq> []"
    "pg_connect demo_program (GetDefaultHost (pg_api demo_program))" "pg_send demo_program" "pg_api demo_program = demo_api"
    "pg_json demo_program = tree_json"
    by (simp_all add: demo_program_def create_license_key_def)
  have d: "en_json demo_env = pg_json demo_program" "en_license demo_env = ''key''" "map_of (dm_clients demo_daemon) 0 = Some (Daemon_client False)"
    "quit_cleanup_timer demo_daemon = None" "en_new_timer demo_env = 9"
    "Some (en_new_timer demo_env) \<notin> {ping_client_timer demo_daemon, node_stats_timer demo_daemon, cleanup_files_timer demo_daemon}"
    by (simp_all add: p demo_daemon_def demo_env_def demo_opt_env_def)
  have "run_events [] D = Ret D" for D :: "(unit, unit) daemon" by simp
  then show ?thesis using stop_option_stops_service [OF p(1-5) d(1-4,6), of "[]"] unfolding p(6) d(5) by blast
qed

end
