(* ===== verification/StreamProcess.thy ===== *)
theory StreamProcess
  imports Controller Pipelines
begin

text \<open>
  Components \<open>stream/stream_wrapper\<close>, \<open>stream/dumpers\<close> and the life of \<open>stream/stream_controller\<close>: the
  process of one stream, from the options the service hands over to its exit code, and the page it writes
  about its pipeline.
\<close>

section \<open>The multimedia library\<close>

text \<open>What the process can change outside, and the answers it gets.\<close>

record media_process =
  mp_inited :: bool
  mp_environ :: "string \<rightharpoonup> string"
  mp_log_redirected :: bool

definition set_env :: "bool \<Rightarrow> string \<Rightarrow> string \<Rightarrow> media_process \<Rightarrow> media_process" where
  "set_env ok name val m = (if ok then m\<lparr>mp_environ := (mp_environ m)(name \<mapsto> val)\<rparr> else m)"

definition streams_init :: "bool \<Rightarrow> bool \<Rightarrow> EncoderType \<Rightarrow> media_process \<Rightarrow> media_process" where
  "streams_init ok log_debug enc m =
     (if mp_inited m then m
      else
        (let m = (case enc of
              GPU_MFX \<Rightarrow> set_env ok ''LIBVA_DRIVERS_PATH'' ''/opt/intel/mediasdk/lib64'' (set_env ok ''LIBVA_DRIVER_NAME'' ''iHD'' m)
            | GPU_VAAPI \<Rightarrow> set_env ok ''LIBVA_DRIVERS_PATH'' ''/usr/local/lib/dri/'' (set_env ok ''LIBVA_DRIVER_NAME'' ''i965'' m)
            | CPU \<Rightarrow> m);
             m = (if log_debug then (set_env ok ''GST_DEBUG'' ''3'' m)\<lparr>mp_log_redirected := ok\<rparr> else m)
         in m\<lparr>mp_inited := True\<rparr>))"

definition streams_deinit :: "media_process \<Rightarrow> media_process" where
  "streams_deinit m = m\<lparr>mp_inited := False\<rparr>"

section \<open>The controller as an object\<close>

text \<open>\<open>sp_thread\<close> says whether the thread of the event loop was started.\<close>

record ('u, 'd) StreamController =
  sp_feedback_dir :: string
  sp_config :: "'u any_config option"
  sp_timeshift :: TimeShiftInfo
  sp_thread :: bool
  sp_ctl :: "'d controller"
  sp_media :: media_process

definition make_StreamController ::
  "string \<Rightarrow> bool \<Rightarrow> 'd StreamStruct option \<Rightarrow> media_process \<Rightarrow> ('u, 'd) StreamController outcome" where
  "make_StreamController feedback_dir command_client mem media =
     (if \<not> command_client then Abort
      else (case mem of
        None \<Rightarrow> Abort
      | Some mem \<Rightarrow> Ret \<lparr>sp_feedback_dir = feedback_dir, sp_config = None, sp_timeshift = TimeShiftInfo0, sp_thread = False,
          sp_ctl = \<lparr>ctl_stop = False, restart_attempts = 0, ctl_mem = mem, outbox = []\<rparr>, sp_media = media\<rparr>))"

definition init_encoder :: "ArgsMap \<Rightarrow> EncoderType" where
  "init_encoder args = (case ArgsGetValue ConvertFromString_string args ''video_codec'' of
     None \<Rightarrow> CPU | Some video_codec \<Rightarrow> (case GetEncoderType video_codec of None \<Rightarrow> CPU | Some enc \<Rightarrow> enc))"

text \<open>\<open>ok\<close> and \<open>log_debug\<close>: whether variables of the environment can be set, and the level of the log.\<close>

definition StreamController_Init ::
  "('j, 'u) opt_env \<Rightarrow> int \<times> int \<Rightarrow> bool \<Rightarrow> bool \<Rightarrow> bool \<Rightarrow> ArgsMap \<Rightarrow> ('u, 'd) StreamController
     \<Rightarrow> (error option \<times> ('u, 'd) StreamController) outcome" where
  "StreamController_Init Opt size0 crit ok log_debug config_args s = (case make_config Opt size0 config_args of
     Abort \<Rightarrow> Abort
   | Ret (Inl err) \<Rightarrow> Ret (Some err, s)
   | Ret (Inr config) \<Rightarrow>
      (let s = s\<lparr>sp_config := Some config\<rparr>; type = cf_type (any_base config) in
       case (if type = TIMESHIFT_RECORDER \<or> type = TIMESHIFT_PLAYER \<or> type = CATCHUP
             then make_timeshift_info (oe_conv Opt) crit config_args else Ret (sp_timeshift s)) of
         Abort \<Rightarrow> Abort
       | Ret tinfo \<Rightarrow>
           Ret (None, s\<lparr>sp_timeshift := tinfo, sp_media := streams_init ok log_debug (init_encoder config_args) (sp_media s)\<rparr>)))"

text \<open>The destructor joins the thread of the event loop; joining a thread that was not started ends the process.\<close>

definition StreamController_delete :: "('u, 'd) StreamController \<Rightarrow> media_process outcome" where
  "StreamController_delete s = (if sp_thread s then Ret (streams_deinit (sp_media s)) else Abort)"

text \<open>The worker loop over the rounds; \<open>None\<close> while it has not returned.\<close>

definition StreamController_Exec ::
  "('d StreamStruct \<Rightarrow> string option) \<Rightarrow> bool \<Rightarrow> ('d round \<times> bool) list \<Rightarrow> ('u, 'd) StreamController
     \<Rightarrow> (int \<times> ('u, 'd) StreamController) outcome option" where
  "StreamController_Exec prep crit rounds s = (case sp_config s of
     None \<Rightarrow> Some Abort
   | Some config \<Rightarrow> (case exec_loop prep crit (cf_max_restart_attempts (any_base config)) rounds (sp_ctl s) of
       None \<Rightarrow> None
     | Some Abort \<Rightarrow> Some Abort
     | Some (Ret c) \<Rightarrow> Some (Ret (0, s\<lparr>sp_thread := True, sp_ctl := c\<rparr>))))"

section \<open>The process\<close>

definition start_stream ::
  "('j, 'u) opt_env \<Rightarrow> int \<times> int \<Rightarrow> bool \<Rightarrow> bool \<Rightarrow> bool \<Rightarrow> ('d StreamStruct \<Rightarrow> string option) \<Rightarrow> ('d round \<times> bool) list
     \<Rightarrow> string \<Rightarrow> ArgsMap \<Rightarrow> bool \<Rightarrow> 'd StreamStruct option \<Rightarrow> media_process \<Rightarrow> (int \<times> media_process) outcome option" where
  "start_stream Opt size0 crit ok log_debug prep rounds feedback_dir config_args command_client mem media =
     (case (make_StreamController feedback_dir command_client mem media :: ('u, 'd) StreamController outcome) of
        Abort \<Rightarrow> Some Abort
      | Ret s \<Rightarrow> (case StreamController_Init Opt size0 crit ok log_debug config_args s of
          Abort \<Rightarrow> Some Abort
        | Ret (Some err, s) \<Rightarrow> Some (case StreamController_delete s of Abort \<Rightarrow> Abort | Ret m \<Rightarrow> Ret (1, m))
        | Ret (None, s) \<Rightarrow> (case StreamController_Exec prep crit rounds s of
            None \<Rightarrow> None
          | Some Abort \<Rightarrow> Some Abort
          | Some (Ret (res, s)) \<Rightarrow> Some (case StreamController_delete s of Abort \<Rightarrow> Abort | Ret m \<Rightarrow> Ret (res, m)))))"

text \<open>The entry point of the library; absent pointers are \<open>None\<close>.\<close>

definition stream_exec ::
  "('j, 'u) opt_env \<Rightarrow> int \<times> int \<Rightarrow> bool \<Rightarrow> bool \<Rightarrow> bool \<Rightarrow> ('d StreamStruct \<Rightarrow> string option) \<Rightarrow> ('d round \<times> bool) list
     \<Rightarrow> string option \<Rightarrow> string option option \<Rightarrow> ArgsMap option \<Rightarrow> bool \<Rightarrow> 'd StreamStruct option \<Rightarrow> media_process
     \<Rightarrow> (int \<times> media_process) outcome option" where
  "stream_exec Opt size0 crit ok log_debug prep rounds process_name args config_args command_client mem media =
     (case (process_name, args, config_args, command_client, mem) of
        (Some name, Some feedback_dir_ptr, Some config_args, True, Some _) \<Rightarrow>
          (case feedback_dir_ptr of
             None \<Rightarrow> if crit then Some Abort else Some (Ret (1, media))
           | Some feedback_dir \<Rightarrow>
               start_stream Opt size0 crit ok log_debug prep rounds feedback_dir config_args command_client mem media)
      | _ \<Rightarrow> if crit then Some Abort else Some (Ret (1, media)))"

section \<open>The page about the pipeline\<close>

definition JS_LIB :: string where
  "JS_LIB = ''https://github.com/mdaines/viz.js/releases/download/v1.8.2/viz-lite.js''"

text \<open>\<open>dot\<close> is the description the library makes of a pipeline, \<open>writable\<close> the files that can be opened.\<close>

definition dump_page :: "string \<Rightarrow> string" where
  "dump_page pipeline_description =
     ''<html><head></head>'' @ ''<body>'' @ ''  <script type='' @ [CHR 0x22] @ ''text/javascript'' @ [CHR 0x22] @ '' src='' @ [CHR 0x22] @ JS_LIB
       @ [CHR 0x22] @ ''></script>'' @ ''  <script>'' @ ''    document.body.innerHTML += Viz(String.raw`'' @ pipeline_description @ ''`);''
       @ ''  </script>'' @ ''</body>'' @ ''</html>''"

definition HtmlDump_Dump ::
  "(pipeline \<Rightarrow> string option) \<Rightarrow> (string \<Rightarrow> bool) \<Rightarrow> pipeline \<Rightarrow> string \<Rightarrow> (string \<rightharpoonup> string) \<Rightarrow> bool \<times> (string \<rightharpoonup> string)" where
  "HtmlDump_Dump dot writable p path files =
     (if path = [] then (False, files)
      else if \<not> writable path then (False, files)
      else (case dot p of
        None \<Rightarrow> (False, files(path \<mapsto> []))
      | Some dot_description \<Rightarrow> (True, files(path \<mapsto> dump_page dot_description))))"

text \<open>Every format is dumped as a page.\<close>

datatype dumper = HtmlDump

definition CreateDumper :: "string \<Rightarrow> dumper option" where
  "CreateDumper path = (if path = [] then None else Some HtmlDump)"

definition DumpIntoFile ::
  "(pipeline \<Rightarrow> string option) \<Rightarrow> (string \<Rightarrow> bool) \<Rightarrow> pipeline \<Rightarrow> string \<Rightarrow> (string \<rightharpoonup> string) \<Rightarrow> bool \<times> (string \<rightharpoonup> string)" where
  "DumpIntoFile dot writable p path files =
     (if path = [] then (False, files)
      else (case CreateDumper path of None \<Rightarrow> (False, files) | Some HtmlDump \<Rightarrow> HtmlDump_Dump dot writable p path files))"

definition controller_OnPipelineCreated ::
  "(string \<Rightarrow> string \<Rightarrow> string option) \<Rightarrow> (pipeline \<Rightarrow> string option) \<Rightarrow> (string \<Rightarrow> bool) \<Rightarrow> string \<Rightarrow> pipeline
     \<Rightarrow> (string \<rightharpoonup> string) \<Rightarrow> (string \<rightharpoonup> string)" where
  "controller_OnPipelineCreated make_file dot writable feedback_dir p files = (case make_file feedback_dir ''dump.html'' of
     None \<Rightarrow> files
   | Some dump_file \<Rightarrow> snd (DumpIntoFile dot writable p dump_file files))"

text \<open>\<open>IBaseStream::InitPipeLine\<close>: the pipeline, and its page when there is one.\<close>

definition InitPipeLine ::
  "'u gst_env \<Rightarrow> (pipeline \<Rightarrow> (string \<rightharpoonup> string) \<Rightarrow> (string \<rightharpoonup> string)) \<Rightarrow> string \<Rightarrow> 'u stream_object \<Rightarrow> (string \<rightharpoonup> string)
     \<Rightarrow> (pipeline option \<times> (string \<rightharpoonup> string)) option" where
  "InitPipeLine G created d stream files = do {
     r \<leftarrow> CreatePipeLine (CreateBuilder G d stream);
     (case r of None \<Rightarrow> Some (None, files) | Some p \<Rightarrow> Some (Some p, created p files))
   }"

section \<open>How the process of a stream ends\<close>

definition controller0 :: "'d StreamStruct \<Rightarrow> 'd controller" where
  "controller0 mem = \<lparr>ctl_stop = False, restart_attempts = 0, ctl_mem = mem, outbox = []\<rparr>"

text \<open>The settings of a timeshift can be read, where the type needs them.\<close>

definition timeshift_readable :: "('j, 'u) opt_env \<Rightarrow> bool \<Rightarrow> ArgsMap \<Rightarrow> 'u any_config \<Rightarrow> bool" where
  "timeshift_readable Opt crit args config \<longleftrightarrow>
     cf_type (any_base config) \<in> {TIMESHIFT_RECORDER, TIMESHIFT_PLAYER, CATCHUP} \<longrightarrow> make_timeshift_info (oe_conv Opt) crit args \<noteq> Abort"

lemma incomplete_refused: "\<not> complete_options Opt args \<Longrightarrow> \<exists>err. make_config Opt size0 args = Ret (Inl err)"
  by (auto simp: complete_options_def make_config_def Let_def split: option.splits if_splits)

lemma Init_refused: "make_config Opt size0 args = Ret (Inl err) \<Longrightarrow> StreamController_Init Opt size0 crit ok ld args s = Ret (Some err, s)"
  by (simp add: StreamController_Init_def)

lemma Init_accepted:
  assumes "make_config Opt size0 args = Ret (Inr config)"
  shows "if timeshift_readable Opt crit args config
     then \<exists>s'. StreamController_Init Opt size0 crit ok ld args s = Ret (None, s') \<and> sp_config s' = Some config \<and> sp_ctl s' = sp_ctl s
        \<and> mp_inited (sp_media s')
     else StreamController_Init Opt size0 crit ok ld args s = Abort"
  using assms
  by (auto simp: StreamController_Init_def timeshift_readable_def streams_init_def Let_def split: outcome.split)

text \<open>
  (C15) How the process of a stream ends. Options that are refused never give an exit code: the destructor
  joins a thread that was not started, which ends the process abnormally. With a readable configuration the
  process returns exactly when the restart loop returns, then with code 0 and the multimedia library shut
  down.
\<close>

theorem stream_process_ends:
  fixes Opt :: "('j, 'u) opt_env" and mem :: "'d StreamStruct"
  shows "let r = stream_exec Opt size0 crit ok ld prep rounds (Some name) (Some (Some dir)) (Some args) True (Some mem) media in
     (\<not> complete_options Opt args \<longrightarrow> r = Some Abort)
   \<and> (case make_config Opt size0 args of
        Ret (Inr config) \<Rightarrow>
          if timeshift_readable Opt crit args config
          then (case exec_loop prep crit (cf_max_restart_attempts (any_base config)) rounds (controller0 mem) of
              None \<Rightarrow> r = None
            | Some Abort \<Rightarrow> r = Some Abort
            | Some (Ret c) \<Rightarrow> (\<exists>m. r = Some (Ret (0, m)) \<and> \<not> mp_inited m))
          else r = Some Abort
      | _ \<Rightarrow> r = Some Abort)"
proof -
  obtain s where s: "make_StreamController dir True (Some mem) media = Ret (s :: ('u, 'd) StreamController)" "sp_ctl s = controller0 mem"
      "\<not> sp_thread s"
    by (simp add: make_StreamController_def controller0_def)
  define r where "r = stream_exec Opt size0 crit ok ld prep rounds (Some name) (Some (Some dir)) (Some args) True (Some mem) media"
  have r: "r = start_stream Opt size0 crit ok ld prep rounds dir args True (Some mem) media" by (simp add: r_def stream_exec_def)
  have refused: "r = Some Abort" if "make_config Opt size0 args = Ret (Inl err)" for err
    using Init_refused [OF that, of crit ok ld s] s by (simp add: r start_stream_def StreamController_delete_def)
  have "case make_config Opt size0 args of
        Ret (Inr config) \<Rightarrow>
          if timeshift_readable Opt crit args config
          then (case exec_loop prep crit (cf_max_restart_attempts (any_base config)) rounds (controller0 mem) of
              None \<Rightarrow> r = None
            | Some Abort \<Rightarrow> r = Some Abort
            | Some (Ret c) \<Rightarrow> (\<exists>m. r = Some (Ret (0, m)) \<and> \<not> mp_inited m))
          else r = Some Abort
      | _ \<Rightarrow> r = Some Abort"
  proof (cases "make_config Opt size0 args")
    case Abort
    then show ?thesis by (simp add: r start_stream_def s StreamController_Init_def)
  next
    case (Ret x)
    show ?thesis
    proof (cases x)
      case (Inl err)
      then show ?thesis using Ret refused by simp
    next
      case (Inr config)
      with Ret have c: "make_config Opt size0 args = Ret (Inr config)" by simp
      show ?thesis using Init_accepted [OF c, of crit ok ld s]
        by (cases "timeshift_readable Opt crit args config")
           (auto simp: c r start_stream_def s StreamController_Exec_def StreamController_delete_def streams_deinit_def
             split: option.split outcome.split)
    qed
  qed
  moreover have "\<not> complete_options Opt args \<longrightarrow> r = Some Abort" using incomplete_refused refused by blast
  ultimately show ?thesis unfolding Let_def r_def by (intro conjI)
qed

text \<open>The witnesses: a recorder whose only run ends by itself, and options of the proxy type.\<close>

definition demo_round :: "unit round" where
  "demo_round = \<lparr>rd_player = False, rd_searches = [], rd_created = True, rd_exit = EXIT_SELF, rd_mem = ctl_mem (ctl (demo_cstate At_check)),
     rd_end = 5000, rd_notified = False\<rparr>"

definition demo_media :: media_process where
  "demo_media = \<lparr>mp_inited = False, mp_environ = Map.empty, mp_log_redirected = False\<rparr>"

theorem stream_process_ends_witness:
  "(\<exists>m. stream_exec demo_opt_env (0, 0) False True False (\<lambda>_. None) [(demo_round, True)] (Some ''s'') (Some (Some ''/f'')) (Some demo_args) True
      (Some (ctl_mem (ctl (demo_cstate At_check)))) demo_media = Some (Ret (0, m)) \<and> \<not> mp_inited m)
   \<and> stream_exec demo_opt_env (0, 0) False True False (\<lambda>_. None) [(demo_round, True)] (Some ''s'') (Some (Some ''/f'')) (Some Map.empty) True
      (Some (ctl_mem (ctl (demo_cstate At_check)))) demo_media = Some Abort"
proof
  let ?mem = "ctl_mem (ctl (demo_cstate At_check))"
  obtain c where c: "make_config demo_opt_env (0, 0) demo_args = Ret (Inr c)" using demo_config_made by blast
  have t: "timeshift_readable demo_opt_env False demo_args c"
    by (simp add: timeshift_readable_def make_timeshift_info_def split: option.split)
  have "\<exists>k. exec_loop (\<lambda>_. None) False n [(demo_round, True)] (controller0 ?mem) = Some (Ret k)" for n
    by (simp add: exec_round_def run_and_wait_def after_exec_def controller0_def demo_round_def Let_def demo_cstate_def make_StreamStruct_def
        type_is_vod_def)
  then obtain k where "exec_loop (\<lambda>_. None) False (cf_max_restart_attempts (any_base c)) [(demo_round, True)] (controller0 ?mem) = Some (Ret k)"
    by blast
  with stream_process_ends [of demo_opt_env "(0, 0)" False True False "\<lambda>_. None" "[(demo_round, True)]" "''s''" "''/f''" demo_args ?mem demo_media] c t
  show "\<exists>m. stream_exec demo_opt_env (0, 0) False True False (\<lambda>_. None) [(demo_round, True)] (Some ''s'') (Some (Some ''/f'')) (Some demo_args) True
      (Some ?mem) demo_media = Some (Ret (0, m)) \<and> \<not> mp_inited m" by (simp add: Let_def)
  have "\<not> complete_options demo_opt_env Map.empty" by (simp add: complete_options_def ArgsGetValue_def)
  with stream_process_ends [of demo_opt_env "(0, 0)" False True False "\<lambda>_. None" "[(demo_round, True)]" "''s''" "''/f''" Map.empty ?mem demo_media]
  show "stream_exec demo_opt_env (0, 0) False True False (\<lambda>_. None) [(demo_round, True)] (Some ''s'') (Some (Some ''/f'')) (Some Map.empty) True
      (Some ?mem) demo_media = Some Abort" unfolding Let_def by blast
qed

end
