(* ===== verification/Recorders.thy ===== *)
theory Recorders
  imports Timeshift StreamSignals
begin

text \<open>
  Component \<open>streams/timeshift/timeshift_recorder_stream\<close>, with the pads of the sink that splits a recording
  into chunks: how a recorder connects the channels of its pipeline to it, and gives the pads back at its end.
\<close>

section \<open>Pads of the sink\<close>

text \<open>
  The channel is linked to a pad that is requested from the sink; \<open>request\<close> says which pads the sink gives,
  \<open>link_ok\<close> whether the link is accepted. A channel that does not exist is used all the same.
\<close>

definition link_to_multiplexer ::
  "bool \<Rightarrow> 'u gst_env \<Rightarrow> (string \<Rightarrow> bool) \<Rightarrow> (string \<Rightarrow> bool) \<Rightarrow> pipeline \<Rightarrow> string option \<Rightarrow> string \<Rightarrow> string option outcome" where
  "link_to_multiplexer dbg G request link_ok p src pad_name = (case src of
     None \<Rightarrow> Abort
   | Some n \<Rightarrow> (case GetElementByName n p of
       None \<Rightarrow> Abort
     | Some el \<Rightarrow>
        if \<not> ge_pad G (el_plugin el) ''src'' then Ret None
        else if \<not> request pad_name then Ret None
        else if dbg \<and> \<not> link_ok pad_name then Abort
        else Ret (Some pad_name)))"

record recorder_pads =
  rp_recorder :: recorder
  rp_audio_pad :: "string option"
  rp_video_pad :: "string option"

text \<open>
  The whole of \<open>OnSplitmuxsinkCreated\<close>: the chunk to continue with, the registration of the callback that names
  the files (\<open>registered\<close> is its result), and then both pads.
\<close>

definition recorder_OnSplitmuxsinkCreated ::
  "bool \<Rightarrow> 'u gst_env \<Rightarrow> (string \<Rightarrow> bool) \<Rightarrow> (string \<Rightarrow> bool) \<Rightarrow> bool \<Rightarrow> (chunk_index_t \<Rightarrow> int \<Rightarrow> chunk_index_t outcome) \<Rightarrow> 'a conv_scheme
     \<Rightarrow> 'b chunk_fs_scheme \<Rightarrow> string option \<Rightarrow> string option \<Rightarrow> pipeline \<Rightarrow> recorder_pads \<Rightarrow> recorder_pads outcome" where
  "recorder_OnSplitmuxsinkCreated dbg G request link_ok registered strategy cv fs video audio p r =
     (case OnSplitmuxsinkCreated strategy cv fs (ge_crit G) (rp_recorder r) of
       Abort \<Rightarrow> Abort
     | Ret rec \<Rightarrow>
        if dbg \<and> \<not> registered then Abort
        else (case link_to_multiplexer dbg G request link_ok p audio ''audio_%u'' of
          Abort \<Rightarrow> Abort
        | Ret audio_pad \<Rightarrow> (case link_to_multiplexer dbg G request link_ok p video ''video'' of
            Abort \<Rightarrow> Abort
          | Ret video_pad \<Rightarrow> Ret \<lparr>rp_recorder = rec, rp_audio_pad = audio_pad, rp_video_pad = video_pad\<rparr>)))"

text \<open>The destructor: the pads that are given back, in order.\<close>

definition recorder_delete :: "pipeline \<Rightarrow> recorder_pads \<Rightarrow> string list outcome" where
  "recorder_delete p r = (case GetElementByName (name_1u ''splitmuxsink'' 0) p of
     None \<Rightarrow> Abort
   | Some splitmuxsink \<Rightarrow> Ret ((case rp_audio_pad r of None \<Rightarrow> [] | Some n \<Rightarrow> [n]) @ (case rp_video_pad r of None \<Rightarrow> [] | Some n \<Rightarrow> [n])))"

section \<open>Both channels are needed\<close>

lemma TimeShiftRecorder_BuildOutput_notes:
  assumes "TimeShiftRecorder_BuildOutput G c conn p = Some (conn', q)"
  shows "last (pl_notes q) = Splitmuxsink_created (cn_video conn) (cn_audio conn) (name_1u ''splitmuxsink'' 0)"
    "name_1u ''splitmuxsink'' 0 \<in> names q" "extends p q"
proof -
  obtain e p1 m n where b: "make_element G ''splitmuxsink'' (name_1u ''splitmuxsink'' 0) = Some e" "ElementAdd G e p = Some p1"
    "q = notify (Splitmuxsink_created (cn_video conn) (cn_audio conn) (el_name e))
       (pl_set_property (el_name e) ''max-size-time'' (Pv_int n) (pl_set_property (el_name e) ''muxer'' m p1))"
    using assms by (auto simp: TimeShiftRecorder_BuildOutput_def bind_eq_Some_conv Let_def)
  have n: "el_name e = name_1u ''splitmuxsink'' 0" using b(1) by (rule make_element_name)
  show "last (pl_notes q) = Splitmuxsink_created (cn_video conn) (cn_audio conn) (name_1u ''splitmuxsink'' 0)" by (simp add: b(3) n)
  show "name_1u ''splitmuxsink'' 0 \<in> names q" using ElementAdd_names [OF b(2)] by (simp add: b(3) n)
  show "extends p q" using TimeShiftRecorder_BuildOutput_keeps [OF extends_refl] assms by (force simp: keeps_def)
qed

lemma udb_connector:
  assumes "SrcDecode_BuildUdbConnections G c v a conn p = Some (conn', q)"
    "\<And>e. v = Some e \<Longrightarrow> el_name e = UDB_VIDEO_NAME_1U 0" "\<And>e. a = Some e \<Longrightarrow> el_name e = UDB_AUDIO_NAME_1U 0"
  shows "cn_video conn' = (if av_have_video c then Some (UDB_VIDEO_NAME_1U 0) else None)"
    "cn_audio conn' = (if av_have_audio c then Some (UDB_AUDIO_NAME_1U 0) else None)"
  using assms
  by (cases "av_have_video c"; cases "av_have_audio c";
      auto simp: SrcDecode_BuildUdbConnections_def bind_eq_Some_conv split: if_splits)+

text \<open>
  A recorder or catch-up whose pipeline was built, with a library that gives its pads and accepts its
  links, connects to the splitting sink exactly when it has both a video and an audio channel; otherwise it
  uses a channel that does not exist and ends the process. A connected recorder gives back at its end the
  two pads that it requested.
\<close>

theorem recorder_needs_both_channels:
  assumes "CreatePipeLine (CreateBuilder G d stream) = Some (Some p)" "stream \<in> {TimeShiftRecorderStream c, CatchupStream c}"
    "\<forall>plugin n. ge_pad G plugin n" "\<forall>n. request n \<and> link_ok n"
    "OnSplitmuxsinkCreated strategy cv fs (ge_crit G) (rp_recorder r) = Ret rec"
  shows "\<exists>video audio. last (pl_notes p) = Splitmuxsink_created video audio (name_1u ''splitmuxsink'' 0)
    \<and> recorder_OnSplitmuxsinkCreated dbg G request link_ok True strategy cv fs video audio p r
        = (if av_have_video c \<and> av_have_audio c
           then Ret \<lparr>rp_recorder = rec, rp_audio_pad = Some ''audio_%u'', rp_video_pad = Some ''video''\<rparr> else Abort)
    \<and> recorder_delete p \<lparr>rp_recorder = rec, rp_audio_pad = Some ''audio_%u'', rp_video_pad = Some ''video''\<rparr> = Ret [''audio_%u'', ''video'']"
proof -
  obtain vod where "CreatePipeLine (InitPipeline (TimeShiftRecorderStreamBuilder G vod c)) = Some (Some p)"
    using assms(1,2) by (auto simp: CatchupStreamBuilder_def)
  then obtain c1 p1 c2 p2 c3 where
    s: "SrcDecode_BuildInput G (SrcDecode_BuildInputSrc G c) pipeline0 = Some (c1, p1)"
      "SrcDecode_BuildUdbConnections G c (Relay_BuildVideoUdbConnection G c) (Relay_BuildAudioUdbConnection G c) c1 p1 = Some (c2, p2)"
      "TimeShiftRecorder_BuildOutput G c c2 p2 = Some (c3, p)"
    by (auto simp: CreatePipeLine_def InitPipeline_def TimeShiftRecorderStreamBuilder_def RelayStreamBuilder_def pass_on_def bind_eq_Some_conv
        simp del: split_paired_Ex split: if_splits)
  note out = TimeShiftRecorder_BuildOutput_notes [OF s(3)]
  note conn = udb_connector [OF s(2) relay_udb_names [where G = G and c = c]]
  note udb = udb_stage_targets [OF s(2) relay_udb_names [where G = G and c = c]]
  have "names p2 \<subseteq> names p" using out(3) by (simp add: extends_def)
  then have el: "av_have_video c \<Longrightarrow> \<exists>el. GetElementByName (UDB_VIDEO_NAME_1U 0) p = Some el"
    "av_have_audio c \<Longrightarrow> \<exists>el. GetElementByName (UDB_AUDIO_NAME_1U 0) p = Some el"
    using udb(2,3) named_element by blast+
  obtain sink where "GetElementByName (name_1u ''splitmuxsink'' 0) p = Some sink" using named_element [OF out(2)] by blast
  then have del: "recorder_delete p \<lparr>rp_recorder = rec, rp_audio_pad = Some ''audio_%u'', rp_video_pad = Some ''video''\<rparr> = Ret [''audio_%u'', ''video'']"
    by (simp add: recorder_delete_def)
  have "recorder_OnSplitmuxsinkCreated dbg G request link_ok True strategy cv fs (cn_video c2) (cn_audio c2) p r
        = (if av_have_video c \<and> av_have_audio c
           then Ret \<lparr>rp_recorder = rec, rp_audio_pad = Some ''audio_%u'', rp_video_pad = Some ''video''\<rparr> else Abort)"
    using el assms(3-5) by (auto simp: recorder_OnSplitmuxsinkCreated_def link_to_multiplexer_def conn split: outcome.split)
  then show ?thesis using out(1) del by blast
qed

definition demo_recorder_config :: "scheme TimeshiftConfig" where
  "demo_recorder_config = make_TimeshiftConfig (demo_relay\<lparr>cf_type := TIMESHIFT_RECORDER\<rparr>)"

lemma demo_recorder_pipeline: "\<exists>p. CreatePipeLine (CreateBuilder demo_gst [] (TimeShiftRecorderStream demo_recorder_config)) = Some (Some p)"
  by (simp add: demo_recorder_config_def CreatePipeLine_def InitPipeline_def TimeShiftRecorderStreamBuilder_def RelayStreamBuilder_def pass_on_def
      SrcDecode_BuildInput_def SrcDecode_BuildInputSrc_def SrcDecode_BuildUdbConnections_def Relay_BuildVideoUdbConnection_def
      Relay_BuildAudioUdbConnection_def TimeShiftRecorder_BuildOutput_def make_src_def make_udp_src_def make_element_def ElementAdd_def
      ElementLink_def make_mpegtsmux_def make_video_parser_def make_audio_parser_def checked_i64_def
      make_TimeshiftConfig_def TimeshiftConfig.defs HandleInputSrcPadCreated_def pl_names_def notify_def pipeline0_def Let_def
      UDB_VIDEO_NAME_1U_def UDB_AUDIO_NAME_1U_def SRC_NAME_1U_def DECODEBIN_NAME_1U_def demo_gst_def demo_urls_def demo_defs)

theorem recorder_needs_both_channels_witness:
  "\<exists>p video audio r. CreatePipeLine (CreateBuilder demo_gst [] (TimeShiftRecorderStream demo_recorder_config)) = Some (Some p)
    \<and> last (pl_notes p) = Splitmuxsink_created video audio (name_1u ''splitmuxsink'' 0)
    \<and> recorder_OnSplitmuxsinkCreated True demo_gst (\<lambda>_. True) (\<lambda>_. True) True catchup_GetNextChunkStrategy std_conv Timeshift.demo_fs video audio p
        \<lparr>rp_recorder = demo_recorder, rp_audio_pad = None, rp_video_pad = None\<rparr> = Ret r
    \<and> recorder_delete p r = Ret [''audio_%u'', ''video'']"
proof -
  obtain p where p: "CreatePipeLine (CreateBuilder demo_gst [] (TimeShiftRecorderStream demo_recorder_config)) = Some (Some p)"
    using demo_recorder_pipeline by blast
  obtain rec where rec: "OnSplitmuxsinkCreated catchup_GetNextChunkStrategy std_conv Timeshift.demo_fs (ge_crit demo_gst) demo_recorder = Ret rec"
    by (simp add: OnSplitmuxsinkCreated_def demo_last catchup_GetNextChunkStrategy_def demo_gst_def)
  have both: "av_have_video demo_recorder_config \<and> av_have_audio demo_recorder_config" "\<forall>plugin n. ge_pad demo_gst plugin n"
    by (simp_all add: demo_gst_def demo_recorder_config_def make_TimeshiftConfig_def TimeshiftConfig.defs demo_defs)
  show ?thesis
    using recorder_needs_both_channels [OF p _ both(2), of demo_recorder_config "\<lambda>_. True" "\<lambda>_. True" catchup_GetNextChunkStrategy std_conv Timeshift.demo_fs
        "\<lparr>rp_recorder = demo_recorder, rp_audio_pad = None, rp_video_pad = None\<rparr>" rec True] p rec both(1)
    by auto
qed

section \<open>Recorders and players\<close>

text \<open>
  (C19) With a library that has all plugins and pads and accepts all links, the builder of a timeshift or
  catchup recorder gives a pipeline exactly for an acceptable source, parsers of its channels that exist, and a
  chunk duration of less than \<open>2 ^ 63\<close> nanoseconds. It consists of the source, the decoder, the parsers and a
  sink that cuts chunks of the configured duration. The recorder that is told of the sink connects the parsers
  to it when it has both channels, and ends the process when it has not. A player gets a pipeline exactly for
  parsers that exist and outputs that can be muxed and, for RTP, paid: it reads the files of the timeshift
  directory from the given chunk on, once, and the data of each channel reach the sink of every output. Every
  other configuration ends the process.
\<close>

theorem timeshift_pipelines:
  assumes "gst_complete G" "0 < tc_chunk_duration c" "uint i < 2 ^ 31"
    "\<forall>plugin n. ge_pad G plugin n" "\<forall>n. request n \<and> link_ok n"
    "OnSplitmuxsinkCreated strategy cv fs (ge_crit G) (rp_recorder r) = Ret rec"
  shows "(\<forall>stream\<in>{TimeShiftRecorderStream c, CatchupStream c}. if recorder_ok G c
     then \<exists>p. CreatePipeLine (CreateBuilder G d stream) = Some (Some p) \<and> recorder_pipeline c p
        \<and> (\<exists>video audio. last (pl_notes p) = Splitmuxsink_created video audio (name_1u ''splitmuxsink'' 0)
           \<and> recorder_OnSplitmuxsinkCreated dbg G request link_ok True strategy cv fs video audio p r
              = (if av_have_video c \<and> av_have_audio c
                 then Ret \<lparr>rp_recorder = rec, rp_audio_pad = Some ''audio_%u'', rp_video_pad = Some ''video''\<rparr> else Abort))
     else CreatePipeLine (CreateBuilder G d stream) = None)
   \<and> (if player_ok G rc
     then \<exists>p. CreatePipeLine (CreateBuilder G d (TimeShiftPlayerStream rc i)) = Some (Some p) \<and> hd (pl_elements p) = player_src d i
        \<and> (\<forall>j<length (cf_output rc). served G rc (UDB_VIDEO_NAME_1U 0) (UDB_AUDIO_NAME_1U 0) j (cf_output rc ! j) p)
     else CreatePipeLine (CreateBuilder G d (TimeShiftPlayerStream rc i)) = None)" (is "(\<forall>stream\<in>_. ?rec stream) \<and> ?play")
proof (intro conjI ballI)
  note created = timeshift_created [OF assms(1-3), of d rc]
  show ?play using created by blast
  fix stream assume stream: "stream \<in> {TimeShiftRecorderStream c, CatchupStream c}"
  show "?rec stream"
  proof (cases "recorder_ok G c")
    case True
    then obtain p where p: "recorder_pipeline c p" "CreatePipeLine (CreateBuilder G d stream) = Some (Some p)"
      using created stream by (auto simp del: CreateBuilder.simps)
    then show ?thesis using True recorder_needs_both_channels [OF p(2) stream assms(4-6), of dbg] by (auto simp del: CreateBuilder.simps)
  next
    case False
    then show ?thesis using created stream by (auto simp del: CreateBuilder.simps)
  qed
qed

lemma demo_recorder_ok: "recorder_ok demo_gst demo_recorder_config" "tc_chunk_duration demo_recorder_config = 120"
  "\<forall>plugin n. ge_pad demo_gst plugin n" "av_have_video demo_recorder_config" "av_have_audio demo_recorder_config"
  by (simp_all add: recorder_ok_def src_ok_def demo_recorder_config_def make_TimeshiftConfig_def TimeshiftConfig.defs demo_gst_def
      demo_urls_def demo_defs)

theorem timeshift_pipelines_witness:
  "(\<exists>p video audio s. CreatePipeLine (CreateBuilder demo_gst ''/t/'' (CatchupStream demo_recorder_config)) = Some (Some p)
      \<and> recorder_pipeline demo_recorder_config p
      \<and> recorder_OnSplitmuxsinkCreated True demo_gst (\<lambda>_. True) (\<lambda>_. True) True catchup_GetNextChunkStrategy std_conv Timeshift.demo_fs video audio p
        \<lparr>rp_recorder = demo_recorder, rp_audio_pad = None, rp_video_pad = None\<rparr> = Ret s)
   \<and> (\<exists>p. CreatePipeLine (CreateBuilder demo_gst ''/t/'' (TimeShiftPlayerStream demo_relay 7)) = Some (Some p)
       \<and> hd (pl_elements p) = player_src ''/t/'' 7)"
proof -
  obtain rec where rec: "OnSplitmuxsinkCreated catchup_GetNextChunkStrategy std_conv Timeshift.demo_fs (ge_crit demo_gst)
      (rp_recorder \<lparr>rp_recorder = demo_recorder, rp_audio_pad = None, rp_video_pad = None\<rparr>) = Ret rec"
    by (simp add: OnSplitmuxsinkCreated_def demo_last catchup_GetNextChunkStrategy_def demo_gst_def)
  have h: "0 < tc_chunk_duration demo_recorder_config" "uint (7 :: u64) < 2 ^ 31" by (simp_all add: demo_recorder_ok)
  have all: "\<forall>n :: string. (\<lambda>_. True) n \<and> (\<lambda>_. True) n" by simp
  have "player_ok demo_gst demo_relay" using demo_relay_ok by (simp add: player_ok_def relay_ok_def)
  then show ?thesis
    using timeshift_pipelines [OF demo_gst_complete h demo_recorder_ok(3) all rec, of "''/t/''" True demo_relay] demo_recorder_ok(1,4,5)
    by (simp del: CreateBuilder.simps) blast
qed

end
