(* ===== verification/GpuStats.thy ===== *)
theory GpuStats
  imports Prelude
begin

text \<open>
  Component \<open>server/gpu_stats\<close>: the monitors that read the load of a graphics card once per second in a thread
  of their own, and the choice between them. The answers of the vendor libraries are arguments; the thread
  and its callers are a step relation, since \<open>Stop\<close> is called while the monitor runs.
\<close>

section \<open>The libraries of the vendors\<close>

record nvml =
  nv_init :: bool
  nv_count :: "u32 option"

record ctt =
  ct_init :: bool
  ct_metric_count :: bool
  ct_metric_info :: bool
  ct_subscribe :: bool
  ct_sample_count :: bool
  ct_sample_period :: bool

definition nvidia_IsGpuAvailable :: "nvml \<Rightarrow> bool" where
  "nvidia_IsGpuAvailable N =
     (if \<not> nv_init N then False
      else (case nv_count N of None \<Rightarrow> False | Some devices_num \<Rightarrow> devices_num \<noteq> 0))"

definition intel_IsGpuAvailable :: "ctt \<Rightarrow> bool" where
  "intel_IsGpuAvailable C = ct_init C"

datatype gpu_monitor = NvidiaMonitor | IntelMonitor

definition CreatePerfMonitor :: "bool \<Rightarrow> bool \<Rightarrow> nvml \<Rightarrow> ctt \<Rightarrow> gpu_monitor option" where
  "CreatePerfMonitor have_nvml have_ctt_metrics N C =
     (if have_nvml \<and> nvidia_IsGpuAvailable N then Some NvidiaMonitor
      else if have_ctt_metrics \<and> intel_IsGpuAvailable C then Some IntelMonitor
      else None)"

section \<open>One reading\<close>

text \<open>The decoder and encoder utilisation of each device; \<open>None\<close> where the library reports an error.\<close>

type_synonym nvml_reading = "nat \<Rightarrow> (u32 option \<times> u32 option) option"

definition add_device :: "nvml_reading \<Rightarrow> nat \<Rightarrow> u64 \<times> u64 \<Rightarrow> u64 \<times> u64" where
  "add_device r i totals = (case r i of
     None \<Rightarrow> totals
   | Some (decoder, encoder) \<Rightarrow> (case decoder of
       None \<Rightarrow> totals
     | Some d \<Rightarrow> (case encoder of
         None \<Rightarrow> totals
       | Some e \<Rightarrow> (fst totals + ucast d, snd totals + ucast e))))"

text \<open>The quotient of a 64-bit sum and an unsigned product; a product of zero is a division by zero.\<close>

definition nvidia_sample :: "u32 \<Rightarrow> nvml_reading \<Rightarrow> int option outcome" where
  "nvidia_sample devices_num r =
     (let (total_dec, total_enc) = fold (add_device r) [0..<unat devices_num] (0, 0);
          slots = devices_num * 2
      in if slots = 0 then Abort
         else Ret (Some (sint (ucast ((total_dec + total_enc) div ucast slots) :: 32 word))))"

text \<open>Conversion of a floating-point number to \<open>int\<close>: towards zero, undefined outside of its range.\<close>

definition f64_to_int :: "f64 \<Rightarrow> int outcome" where
  "f64_to_int x = (case x of
     F64 q \<Rightarrow> (let n = (if q < 0 then \<lceil>q\<rceil> else \<lfloor>q\<rfloor>) in if - (2 ^ 31) \<le> n \<and> n < 2 ^ 31 then Ret n else Abort)
   | _ \<Rightarrow> Abort)"

definition intel_sample :: "f64 option \<Rightarrow> int option outcome" where
  "intel_sample metric = (case metric of
     None \<Rightarrow> Ret None
   | Some x \<Rightarrow> (case f64_to_int x of Abort \<Rightarrow> Abort | Ret n \<Rightarrow> Ret (Some n)))"

section \<open>The thread of a monitor\<close>

text \<open>
  A monitor starts without its mutex, holds it while it tests its flag and reads, releases it while it waits
  for the next second, and ends. \<open>mo_sessions\<close> counts the initialisations of the library minus its shutdowns.
\<close>

datatype monitor_phase = Starts | Holds_lock | Waits | Ended

record monitor =
  mo_phase :: monitor_phase
  mo_load :: int
  mo_stop_flag :: bool
  mo_sessions :: int

definition monitor_start :: monitor where
  "monitor_start = \<lparr>mo_phase = Starts, mo_load = 0, mo_stop_flag = False, mo_sessions = 1\<rparr>"

text \<open>
  \<open>Exec\<close> up to its loop: what it returns, with the sessions it leaves, when it fails; otherwise the monitor in
  front of its loop. The first guard of the NVIDIA monitor shuts down a library that it did not initialise.
\<close>

definition nvidia_Exec_start :: "bool \<Rightarrow> nvml \<Rightarrow> (bool \<times> int) + (u32 \<times> monitor)" where
  "nvidia_Exec_start has_load N =
     (if \<not> has_load then Inl (False, -1)
      else if \<not> nv_init N then Inl (False, 0)
      else (case nv_count N of
        None \<Rightarrow> Inl (False, 0)
      | Some devices_num \<Rightarrow> if devices_num = 0 then Inl (False, 0) else Inr (devices_num, monitor_start)))"

definition intel_Exec_start :: "bool \<Rightarrow> ctt \<Rightarrow> (bool \<times> int) + monitor" where
  "intel_Exec_start has_load C =
     (if \<not> has_load then Inl (False, 0)
      else if \<not> ct_init C then Inl (False, 0)
      else if \<not> ct_metric_count C then Inl (False, 0)
      else if \<not> ct_metric_info C then Inl (False, 0)
      else if \<not> ct_subscribe C then Inl (False, 0)
      else if \<not> ct_sample_count C then Inl (False, 0)
      else if \<not> ct_sample_period C then Inl (False, 0)
      else Inr monitor_start)"

text \<open>Leaving the loop closes the library.\<close>

definition monitor_finish :: "monitor \<Rightarrow> monitor" where
  "monitor_finish m = m\<lparr>mo_phase := Ended, mo_sessions := mo_sessions m - 1\<rparr>"

definition monitor_Stop :: "monitor \<Rightarrow> monitor" where
  "monitor_Stop m = m\<lparr>mo_stop_flag := True\<rparr>"

datatype 'r monitor_event = Locked | Loop_left | Sampled 'r | Timed_out | Notified | Stop_called

text \<open>
  The events of the thread and the calls of \<open>Stop\<close>, which need the mutex. A wait may also end with a
  notification that nobody sent.
\<close>

inductive monitor_step :: "('r \<Rightarrow> int option outcome) \<Rightarrow> 'r monitor_event \<Rightarrow> monitor \<Rightarrow> monitor \<Rightarrow> bool"
  for sample :: "'r \<Rightarrow> int option outcome" where
  locked: "mo_phase m = Starts \<Longrightarrow> monitor_step sample Locked m (m\<lparr>mo_phase := Holds_lock\<rparr>)"
| left: "mo_phase m = Holds_lock \<Longrightarrow> mo_stop_flag m \<Longrightarrow> monitor_step sample Loop_left m (monitor_finish m)"
| sampled: "mo_phase m = Holds_lock \<Longrightarrow> \<not> mo_stop_flag m \<Longrightarrow> sample r = Ret (Some v)
    \<Longrightarrow> monitor_step sample (Sampled r) m (m\<lparr>mo_load := v, mo_phase := Waits\<rparr>)"
| unreadable: "mo_phase m = Holds_lock \<Longrightarrow> \<not> mo_stop_flag m \<Longrightarrow> sample r = Ret None
    \<Longrightarrow> monitor_step sample (Sampled r) m (monitor_finish m)"
| timed_out: "mo_phase m = Waits \<Longrightarrow> monitor_step sample Timed_out m (m\<lparr>mo_phase := Holds_lock\<rparr>)"
| notified: "mo_phase m = Waits
    \<Longrightarrow> monitor_step sample Notified m (if mo_stop_flag m then monitor_finish m else m\<lparr>mo_phase := Holds_lock\<rparr>)"
| stop_called: "mo_phase m \<noteq> Holds_lock \<Longrightarrow> monitor_step sample Stop_called m (monitor_Stop m)"

inductive_cases monitor_stepE: "monitor_step sample e m m'"

inductive monitor_run :: "('r \<Rightarrow> int option outcome) \<Rightarrow> monitor \<Rightarrow> 'r monitor_event list \<Rightarrow> monitor \<Rightarrow> bool"
  for sample :: "'r \<Rightarrow> int option outcome" where
  run_nil: "monitor_run sample m [] m"
| run_cons: "monitor_step sample e m m1 \<Longrightarrow> monitor_run sample m1 es m2 \<Longrightarrow> monitor_run sample m (e # es) m2"

section \<open>What every monitor promises\<close>

text \<open>The events of the thread that are still possible after \<open>Stop\<close>.\<close>

fun phase_rank :: "monitor_phase \<Rightarrow> nat" where
  "phase_rank Starts = 2"
| "phase_rank Holds_lock = 1"
| "phase_rank Waits = 2"
| "phase_rank Ended = 0"

definition worker_events :: "'r monitor_event list \<Rightarrow> 'r monitor_event list" where
  "worker_events es = filter (\<lambda>e. e \<noteq> Stop_called) es"

lemma worker_events_simps [simp]:
  "worker_events [] = []"
  "worker_events (e # es) = (if e = Stop_called then worker_events es else e # worker_events es)"
  by (simp_all add: worker_events_def)

definition session_ok :: "monitor \<Rightarrow> bool" where
  "session_ok m \<longleftrightarrow> mo_sessions m = (if mo_phase m = Ended then 0 else 1)"

text \<open>
  The interface of the two monitors: a reading the library may give (\<open>percent\<close>) is processed, and what it
  stores is a percentage.
\<close>

locale perf_monitor =
  fixes sample :: "'r \<Rightarrow> int option outcome" and percent :: "'r \<Rightarrow> bool"
  assumes sample_returns: "percent r \<Longrightarrow> sample r \<noteq> Abort"
    and sample_range: "percent r \<Longrightarrow> sample r = Ret (Some v) \<Longrightarrow> 0 \<le> v \<and> v \<le> 100"
begin

definition plausible :: "'r monitor_event list \<Rightarrow> bool" where
  "plausible es \<longleftrightarrow> (\<forall>r. Sampled r \<in> set es \<longrightarrow> percent r)"

lemma step_keeps:
  assumes "monitor_step sample e m m'" "session_ok m" "mo_load m \<in> {0..100}" "plausible [e]"
  shows "session_ok m' \<and> mo_load m' \<in> {0..100}"
  using assms
  by (auto elim!: monitor_stepE simp: session_ok_def monitor_finish_def monitor_Stop_def plausible_def dest: sample_range split: if_splits)

lemma run_keeps:
  assumes "monitor_run sample m es m'" "session_ok m" "mo_load m \<in> {0..100}" "plausible es"
  shows "session_ok m' \<and> mo_load m' \<in> {0..100}"
  using assms
proof induction
  case (run_cons e m m1 es m2)
  have "plausible [e]" "plausible es" using run_cons.prems by (auto simp: plausible_def)
  then show ?case using step_keeps [OF run_cons.hyps(1)] run_cons by blast
qed simp

lemma stopped_run_short:
  assumes "monitor_run sample m es m'" "mo_stop_flag m"
  shows "length (worker_events es) + phase_rank (mo_phase m') \<le> phase_rank (mo_phase m) \<and> mo_stop_flag m'"
  using assms
proof induction
  case (run_cons e m m1 es m2)
  have "mo_stop_flag m1" "(if e = Stop_called then 0 else 1) + phase_rank (mo_phase m1) \<le> phase_rank (mo_phase m)"
    using run_cons.hyps(1) run_cons.prems by (auto elim!: monitor_stepE simp: monitor_finish_def monitor_Stop_def split: if_splits)
  then show ?case using run_cons.IH by auto
qed simp

lemma thread_not_stuck:
  assumes "mo_phase m \<noteq> Ended" "percent r"
  shows "\<exists>e m'. e \<noteq> Stop_called \<and> plausible [e] \<and> monitor_step sample e m m'"
proof (cases "mo_phase m")
  case Holds_lock
  show ?thesis
  proof (cases "mo_stop_flag m")
    case False
    obtain v where "sample r = Ret v" using sample_returns [OF assms(2)] by (cases "sample r") auto
    then have "\<exists>m'. monitor_step sample (Sampled r) m m'"
      using Holds_lock False by (cases v) (blast intro: monitor_step.sampled monitor_step.unreadable)+
    then show ?thesis using assms(2) by (auto simp: plausible_def)
  qed (use Holds_lock in \<open>force simp: plausible_def intro: monitor_step.left\<close>)
qed (use assms(1) in \<open>force simp: plausible_def intro: monitor_step.locked monitor_step.timed_out\<close>)+

end

section \<open>The readings are percentages\<close>

text \<open>The documented range of a utilisation is 0 to 100; the number of devices is one that can be doubled.\<close>

definition nvidia_percent :: "u32 \<Rightarrow> nvml_reading \<Rightarrow> bool" where
  "nvidia_percent n r \<longleftrightarrow> n \<noteq> 0 \<and> unat n < 2 ^ 31 \<and> (\<forall>i d e. r i = Some (Some d, Some e) \<longrightarrow> unat d \<le> 100 \<and> unat e \<le> 100)"

lemma add_percent: "unat (a :: u64) \<le> 100 * k \<Longrightarrow> unat (d :: u32) \<le> 100 \<Longrightarrow> k < 2 ^ 32 \<Longrightarrow> unat (a + ucast d) \<le> 100 * Suc k"
  by (simp add: unat_word_ariths unsigned_ucast_eq take_bit_nat_eq_self)

lemma add_devices_bound:
  assumes "\<forall>i d e. r i = Some (Some d, Some e) \<longrightarrow> unat d \<le> 100 \<and> unat e \<le> 100" "k \<le> 2 ^ 32"
  shows "unat (fst (fold (add_device r) [0..<k] (0, 0))) \<le> 100 * k \<and> unat (snd (fold (add_device r) [0..<k] (0, 0))) \<le> 100 * k"
  using assms(2)
proof (induction k)
  case (Suc k)
  then show ?case using assms(1) add_percent
    by (auto simp: add_device_def split: option.split)
qed simp

lemma sint_small:
  assumes "unat (w :: u64) \<le> 100"
  shows "0 \<le> sint (ucast w :: 32 word) \<and> sint (ucast w :: 32 word) \<le> 100"
proof -
  have "int (unat w) \<le> int 100" using assms by (simp only: of_nat_le_iff)
  then have "uint w \<le> 100" by simp
  moreover have "- (2 ^ 31) \<le> uint w" by (rule order_trans [OF _ unsigned_greater_eq]) simp
  ultimately have "signed_take_bit 31 (uint w) = uint w" by (intro signed_take_bit_int_eq_self) simp_all
  then show ?thesis using \<open>uint w \<le> 100\<close> by (simp only: signed_ucast_eq) simp
qed

lemma nvidia_sample_percent:
  assumes "nvidia_percent n r"
  shows "\<exists>v. nvidia_sample n r = Ret (Some v) \<and> 0 \<le> v \<and> v \<le> 100"
proof -
  obtain a b where ab: "fold (add_device r) [0..<unat n] (0, 0) = (a, b)" by (cases "fold (add_device r) [0..<unat n] (0, 0)")
  have n: "n \<noteq> 0" "unat n < 2 ^ 31" using assms by (auto simp: nvidia_percent_def)
  have le: "unat a \<le> 100 * unat n" "unat b \<le> 100 * unat n"
    using add_devices_bound [of r "unat n"] assms n(2) by (simp_all add: ab nvidia_percent_def)
  have sum: "unat (a + b) \<le> 100 * (2 * unat n)" using le n(2) by (simp add: unat_word_ariths)
  have slots: "unat (n * 2) = 2 * unat n" using n(2) by (simp add: unat_word_ariths)
  have "unat ((a + b) div ucast (n * 2)) = unat (a + b) div (2 * unat n)"
    using slots n(2) by (simp add: unat_div_distrib unsigned_ucast_eq take_bit_nat_eq_self)
  also have "\<dots> \<le> 100" using div_le_mono [OF sum, of "2 * unat n"] n(1) by (simp add: unat_eq_0)
  finally have q: "unat ((a + b) div ucast (n * 2)) \<le> 100" .
  have "n * 2 \<noteq> 0" using slots n(1) by (metis unat_eq_0 mult_eq_0_iff zero_neq_numeral)
  then show ?thesis using sint_small [OF q] by (simp add: nvidia_sample_def ab)
qed

text \<open>The render usage of the Intel library is a percentage, or the library refuses the reading.\<close>

definition intel_percent :: "f64 option \<Rightarrow> bool" where
  "intel_percent m \<longleftrightarrow> (\<forall>x. m = Some x \<longrightarrow> (\<exists>q. x = F64 q \<and> 0 \<le> q \<and> q \<le> 100))"

lemma intel_sample_percent:
  assumes "intel_percent m"
  shows "intel_sample m = Ret None \<or> (\<exists>v. intel_sample m = Ret (Some v) \<and> 0 \<le> v \<and> v \<le> 100)"
proof (cases m)
  case (Some x)
  then obtain q where q: "x = F64 q" "0 \<le> q" "q \<le> 100" using assms by (auto simp: intel_percent_def)
  have "\<lfloor>q\<rfloor> \<le> 100" using floor_mono [OF q(3)] by simp
  then show ?thesis using q Some by (simp add: intel_sample_def f64_to_int_def)
qed (simp add: intel_sample_def)

interpretation nvidia: perf_monitor "nvidia_sample n" "nvidia_percent n" for n
  using nvidia_sample_percent [of n] by unfold_locales fastforce+

interpretation intel: perf_monitor intel_sample intel_percent
  using intel_sample_percent by unfold_locales fastforce+

section \<open>The monitors of the service\<close>

text \<open>A monitor that was chosen for its card reaches its loop, if the library still answers as it did.\<close>

lemma chosen_nvidia_starts:
  "CreatePerfMonitor hn hc N C = Some NvidiaMonitor \<Longrightarrow> \<exists>n. nvidia_Exec_start True N = Inr (n, monitor_start)"
  by (auto simp: CreatePerfMonitor_def nvidia_IsGpuAvailable_def nvidia_Exec_start_def split: if_splits option.splits)

text \<open>
  The thread of the NVIDIA monitor, whatever percentages the library reports and whenever \<open>Stop\<close> is called:
  the load it publishes is a percentage, and its session with the library is closed exactly when it has
  ended. After a call of \<open>Stop\<close> it performs at most two more steps, and it can always perform its next
  step until it has ended, so that the join of the thread returns.
\<close>

theorem nvidia_monitor_ends_after_stop:
  assumes "CreatePerfMonitor hn hc N C = Some NvidiaMonitor" "nvidia_Exec_start True N = Inr (n, m0)"
    "monitor_run (nvidia_sample n) m0 es m" "\<forall>r. Sampled r \<in> set es \<longrightarrow> nvidia_percent n r"
    "monitor_run (nvidia_sample n) m es' m'" "mo_stop_flag m" "nvidia_percent n r"
  shows "0 \<le> mo_load m \<and> mo_load m \<le> 100" "mo_sessions m = (if mo_phase m = Ended then 0 else 1)"
    "length (worker_events es') \<le> 2"
    "mo_phase m' \<noteq> Ended \<Longrightarrow> \<exists>e m''. e \<noteq> Stop_called \<and> monitor_step (nvidia_sample n) e m' m''"
proof -
  have m0: "m0 = monitor_start" using assms(1,2) chosen_nvidia_starts by fastforce
  have "nvidia.plausible n es" using assms(4) by (simp add: nvidia.plausible_def)
  from nvidia.run_keeps [OF assms(3) _ _ this] show "0 \<le> mo_load m \<and> mo_load m \<le> 100" "mo_sessions m = (if mo_phase m = Ended then 0 else 1)"
    by (simp_all add: m0 monitor_start_def session_ok_def)
  have "phase_rank (mo_phase m) \<le> 2" by (cases "mo_phase m") simp_all
  then show "length (worker_events es') \<le> 2" using nvidia.stopped_run_short [OF assms(5,6)] by simp
  show "mo_phase m' \<noteq> Ended \<Longrightarrow> \<exists>e m''. e \<noteq> Stop_called \<and> monitor_step (nvidia_sample n) e m' m''"
    using nvidia.thread_not_stuck [OF _ assms(7)] by blast
qed

text \<open>The same for the Intel monitor, whose thread also ends when the library refuses a reading.\<close>

theorem intel_monitor_ends_after_stop:
  assumes "intel_Exec_start True C = Inr m0" "monitor_run intel_sample m0 es m" "\<forall>r. Sampled r \<in> set es \<longrightarrow> intel_percent r"
    "monitor_run intel_sample m es' m'" "mo_stop_flag m"
  shows "0 \<le> mo_load m \<and> mo_load m \<le> 100" "mo_sessions m = (if mo_phase m = Ended then 0 else 1)"
    "length (worker_events es') \<le> 2" "mo_phase m' \<noteq> Ended \<Longrightarrow> \<exists>e m''. e \<noteq> Stop_called \<and> monitor_step intel_sample e m' m''"
proof -
  have m0: "m0 = monitor_start" using assms(1) by (auto simp: intel_Exec_start_def split: if_splits)
  have "intel.plausible es" using assms(3) by (simp add: intel.plausible_def)
  from intel.run_keeps [OF assms(2) _ _ this] show "0 \<le> mo_load m \<and> mo_load m \<le> 100" "mo_sessions m = (if mo_phase m = Ended then 0 else 1)"
    by (simp_all add: m0 monitor_start_def session_ok_def)
  have "phase_rank (mo_phase m) \<le> 2" by (cases "mo_phase m") simp_all
  then show "length (worker_events es') \<le> 2" using intel.stopped_run_short [OF assms(4,5)] by simp
  have "intel_percent None" by (simp add: intel_percent_def)
  then show "mo_phase m' \<noteq> Ended \<Longrightarrow> \<exists>e m''. e \<noteq> Stop_called \<and> monitor_step intel_sample e m' m''"
    using intel.thread_not_stuck by blast
qed

text \<open>An execution without a place for the load closes a library that was never opened, unlike its sibling.\<close>

lemma exec_without_load: "nvidia_Exec_start False N = Inl (False, -1)" "intel_Exec_start False C = Inl (False, 0)"
  by (simp_all add: nvidia_Exec_start_def intel_Exec_start_def)

end
