(* ===== verification/ElementObjects.thy ===== *)
theory ElementObjects
  imports StreamSignals
begin

text \<open>
  Component \<open>stream/elements/element\<close> apart from the makers, with \<open>stream/pad/pad\<close>: signal handlers that an
  element object connects and disconnects, pads that it hands out, and how a stream behind a decoder
  (\<open>streams/src_decodebin_stream\<close>) listens to the signals of the decoder.
\<close>

section \<open>Signal handlers\<close>

text \<open>
  An element object remembers the numbers of the handlers it connected; the table of connected handlers
  belongs to the multimedia library.
\<close>

type_synonym signal_id = nat

record 'c signal_state =
  ss_signals :: "signal_id list"
  ss_connected :: "(signal_id \<times> string \<times> 'c) list"

definition RegisterCallback :: "signal_id \<Rightarrow> string \<Rightarrow> 'c \<Rightarrow> 'c signal_state \<Rightarrow> bool \<times> 'c signal_state" where
  "RegisterCallback new_id signal_name cb s =
     (if new_id = 0 then (False, s)
      else (True, s\<lparr>ss_signals := ss_signals s @ [new_id], ss_connected := ss_connected s @ [(new_id, signal_name, cb)]\<rparr>))"

definition UnRegisterCallback :: "signal_id \<Rightarrow> 'c signal_state \<Rightarrow> 'c signal_state" where
  "UnRegisterCallback signal_id s = s\<lparr>ss_connected := filter (\<lambda>(i, _). i \<noteq> signal_id) (ss_connected s)\<rparr>"

definition Element_delete :: "'c signal_state \<Rightarrow> 'c signal_state" where
  "Element_delete s = (fold UnRegisterCallback (ss_signals s) s)\<lparr>ss_signals := []\<rparr>"

text \<open>The signals of a decoder and of a bin that a stream can ask for.\<close>

definition RegisterPadAddedCallback :: "signal_id \<Rightarrow> 'c \<Rightarrow> 'c signal_state \<Rightarrow> bool \<times> 'c signal_state" where
  "RegisterPadAddedCallback n cb = RegisterCallback n ''pad-added'' cb"

definition RegisterAutoplugContinue :: "signal_id \<Rightarrow> 'c \<Rightarrow> 'c signal_state \<Rightarrow> bool \<times> 'c signal_state" where
  "RegisterAutoplugContinue n cb = RegisterCallback n ''autoplug-continue'' cb"

definition RegisterAutoplugSelect :: "signal_id \<Rightarrow> 'c \<Rightarrow> 'c signal_state \<Rightarrow> bool \<times> 'c signal_state" where
  "RegisterAutoplugSelect n cb = RegisterCallback n ''autoplug-select'' cb"

definition RegisterAutoplugSort :: "signal_id \<Rightarrow> 'c \<Rightarrow> 'c signal_state \<Rightarrow> bool \<times> 'c signal_state" where
  "RegisterAutoplugSort n cb = RegisterCallback n ''autoplug-sort'' cb"

definition RegisterElementAdded :: "signal_id \<Rightarrow> 'c \<Rightarrow> 'c signal_state \<Rightarrow> bool \<times> 'c signal_state" where
  "RegisterElementAdded n cb = RegisterCallback n ''element-added'' cb"

definition RegisterElementRemoved :: "signal_id \<Rightarrow> 'c \<Rightarrow> 'c signal_state \<Rightarrow> bool \<times> 'c signal_state" where
  "RegisterElementRemoved n cb = RegisterCallback n ''element-removed'' cb"

section \<open>Signals of a decoder\<close>

text \<open>The static functions of a stream behind a decoder that its signals call.\<close>

datatype decodebin_callback = decodebin_pad_added_callback | decodebin_autoplugger_callback | decodebin_autoplug_select_callback
  | decodebin_autoplug_sort_callback | decodebin_element_added_callback | decodebin_element_removed_callback

text \<open>
  \<open>ConnectDecodebinSignals\<close>: six registrations in a row, each of which must succeed in a debug build; \<open>new_id\<close>
  tells which number the library gives to the handler of a signal, zero when it refuses it.
\<close>

definition checked_registration :: "bool \<Rightarrow> ('s \<Rightarrow> bool \<times> 's) \<Rightarrow> 's outcome \<Rightarrow> 's outcome" where
  "checked_registration dbg register r = (case r of
     Abort \<Rightarrow> Abort
   | Ret s \<Rightarrow> (case register s of (ok, s) \<Rightarrow> if dbg \<and> \<not> ok then Abort else Ret s))"

definition ConnectDecodebinSignals ::
  "bool \<Rightarrow> (string \<Rightarrow> signal_id) \<Rightarrow> decodebin_callback signal_state \<Rightarrow> decodebin_callback signal_state outcome" where
  "ConnectDecodebinSignals dbg new_id s =
     (let s1 = checked_registration dbg (RegisterPadAddedCallback (new_id ''pad-added'') decodebin_pad_added_callback) (Ret s);
          s2 = checked_registration dbg (RegisterAutoplugContinue (new_id ''autoplug-continue'') decodebin_autoplugger_callback) s1;
          s3 = checked_registration dbg (RegisterAutoplugSelect (new_id ''autoplug-select'') decodebin_autoplug_select_callback) s2;
          s4 = checked_registration dbg (RegisterAutoplugSort (new_id ''autoplug-sort'') decodebin_autoplug_sort_callback) s3;
          s5 = checked_registration dbg (RegisterElementAdded (new_id ''element-added'') decodebin_element_added_callback) s4
      in checked_registration dbg (RegisterElementRemoved (new_id ''element-removed'') decodebin_element_removed_callback) s5)"

text \<open>The library calls the connected handlers of a signal, in the order of their connection.\<close>

definition emitted :: "string \<Rightarrow> 'c signal_state \<Rightarrow> 'c list" where
  "emitted signal_name s = map (\<lambda>(i, n, cb). cb) (filter (\<lambda>(i, n, cb). n = signal_name) (ss_connected s))"

text \<open>What a stream behind a decoder does with the pads that its builder reports: it attaches a probe.\<close>

definition SrcDecode_OnInpudSrcPadCreated :: "(Probe \<Rightarrow> Probe) \<Rightarrow> scheme \<Rightarrow> element_id_t \<Rightarrow> 'd base_stream \<Rightarrow> 'd base_stream" where
  "SrcDecode_OnInpudSrcPadCreated link sch i s = LinkInputPad link i s"

definition SrcDecode_OnOutputSinkPadCreated :: "(Probe \<Rightarrow> Probe) \<Rightarrow> scheme \<Rightarrow> element_id_t \<Rightarrow> 'd base_stream \<Rightarrow> 'd base_stream" where
  "SrcDecode_OnOutputSinkPadCreated link sch i s = LinkOutputPad link i s"

text \<open>\<open>PreLoop\<close> of a stream behind a decoder: the input that its client is told; the first input of none is undefined.\<close>

definition SrcDecode_PreLoop :: "bool \<Rightarrow> ('u, 'm) Config_scheme \<Rightarrow> 'u InputUri option outcome" where
  "SrcDecode_PreLoop has_client config =
     (if \<not> has_client then Ret None else (case cf_input config of [] \<Rightarrow> Abort | uri # _ \<Rightarrow> Ret (Some uri)))"

section \<open>Pads\<close>

text \<open>
  A pad object wraps a pad that the element owns. \<open>StaticPad\<close> and \<open>RequestPad\<close> get a reference from the library and
  give it back at once; \<open>refs\<close> counts the references to each pad.
\<close>

definition take_pad :: "(string \<rightharpoonup> 'p) \<Rightarrow> string \<Rightarrow> ('p \<Rightarrow> int) \<Rightarrow> 'p option \<times> ('p \<Rightarrow> int)" where
  "take_pad get name refs = (case get name of
     None \<Rightarrow> (None, refs)
   | Some pad \<Rightarrow> (let refs = refs(pad := refs pad + 1) in (Some pad, refs(pad := refs pad - 1))))"

definition ReleaseRequestedPad :: "bool \<Rightarrow> 'p option \<Rightarrow> 'p set \<Rightarrow> 'p set outcome" where
  "ReleaseRequestedPad dbg pad requested = (case pad of
     None \<Rightarrow> if dbg then Abort else Ret requested
   | Some p \<Rightarrow> Ret (requested - {p}))"

definition Pad_GetName :: "gst_pad option \<Rightarrow> string" where
  "Pad_GetName pad = (case pad of None \<Rightarrow> [] | Some p \<Rightarrow> pd_name p)"

definition Pad_GetType :: "gst_pad option \<Rightarrow> string" where
  "Pad_GetType pad = (case pad of None \<Rightarrow> [] | Some p \<Rightarrow> (case pad_get_type p of None \<Rightarrow> [] | Some name \<Rightarrow> name))"

lemma take_pad_borrows: "take_pad get name refs = (get name, refs)"
  by (simp add: take_pad_def Let_def split: option.split)

section \<open>The deinterlacer of the hardware post-processor\<close>

definition ElementVaapiPostProc_SetDinterlaceMode :: "int \<Rightarrow> element \<Rightarrow> element" where
  "ElementVaapiPostProc_SetDinterlaceMode deinterlace_method e = SetProperty ''deinterlace-method'' (Pv_int deinterlace_method) e"

definition ElementVaapiPostProc_SetDeinerlaceMethod :: "int \<Rightarrow> element \<Rightarrow> element" where
  "ElementVaapiPostProc_SetDeinerlaceMethod met e = SetProperty ''deinterlace-method'' (Pv_int met) e"

text \<open>
  The setter of the mode sets the method: a configuration that does not ask for deinterlacing leaves the
  mode of the post-processor at its default and changes the method.
\<close>

lemma vaapi_mode_never_set:
  assumes "vaapi_post_proc G conf i = Some post"
  shows "''deinterlace-mode'' \<notin> fst ` set (el_props post)" "en_deinterlace conf = None \<Longrightarrow> (''deinterlace-method'', Pv_int 2) \<in> set (el_props post)"
    "ElementVaapiPostProc_SetDinterlaceMode = ElementVaapiPostProc_SetDeinerlaceMethod"
  using assms
  by (auto simp: vaapi_post_proc_def make_element_def SetProperty_def Let_def bind_eq_Some_conv ElementVaapiPostProc_SetDinterlaceMode_def
      ElementVaapiPostProc_SetDeinerlaceMethod_def fun_eq_iff split: if_splits)

section \<open>No handler survives its element\<close>

lemma UnRegister_all: "ss_connected (fold UnRegisterCallback ids s) = filter (\<lambda>(i, _). i \<notin> set ids) (ss_connected s)"
  by (induction ids arbitrary: s) (auto simp: UnRegisterCallback_def intro: filter_cong)

lemma UnRegister_signals: "ss_signals (fold UnRegisterCallback ids s) = ss_signals s"
  by (induction ids arbitrary: s) (auto simp: UnRegisterCallback_def)

text \<open>The handlers that an object connected are those it remembers.\<close>

definition signals_known :: "'c signal_state \<Rightarrow> bool" where
  "signals_known s \<longleftrightarrow> map fst (ss_connected s) = ss_signals s"

lemma RegisterCallback_known: "signals_known s \<Longrightarrow> RegisterCallback n sig cb s = (ok, s') \<Longrightarrow> signals_known s'"
  by (auto simp: signals_known_def RegisterCallback_def split: if_splits)

lemma Element_delete_disconnects: "signals_known s \<Longrightarrow> ss_connected (Element_delete s) = []"
  by (simp add: Element_delete_def UnRegister_all signals_known_def filter_empty_conv split_def) (metis image_eqI set_map)

lemmas registrations = RegisterPadAddedCallback_def RegisterAutoplugContinue_def RegisterAutoplugSelect_def RegisterAutoplugSort_def
  RegisterElementAdded_def RegisterElementRemoved_def

text \<open>
  A decoder whose library accepts every handler calls each handler for its own signal and for no other,
  exactly once, and none of them after the element object is destroyed, so that no signal reaches a stream
  that is gone. When the library refuses a handler a debug build ends; a release build runs without it.
\<close>

theorem decoder_signals_delivered:
  assumes "\<forall>n. new_id n \<noteq> 0"
  shows "\<exists>s. ConnectDecodebinSignals dbg new_id \<lparr>ss_signals = [], ss_connected = []\<rparr> = Ret s
    \<and> emitted ''pad-added'' s = [decodebin_pad_added_callback]
    \<and> emitted ''autoplug-continue'' s = [decodebin_autoplugger_callback]
    \<and> emitted ''autoplug-select'' s = [decodebin_autoplug_select_callback]
    \<and> emitted ''autoplug-sort'' s = [decodebin_autoplug_sort_callback]
    \<and> emitted ''element-added'' s = [decodebin_element_added_callback]
    \<and> emitted ''element-removed'' s = [decodebin_element_removed_callback]
    \<and> (\<forall>n. emitted n (Element_delete s) = [])"
proof -
  define table where "table = [(''pad-added'', decodebin_pad_added_callback), (''autoplug-continue'', decodebin_autoplugger_callback),
       (''autoplug-select'', decodebin_autoplug_select_callback), (''autoplug-sort'', decodebin_autoplug_sort_callback),
       (''element-added'', decodebin_element_added_callback), (''element-removed'', decodebin_element_removed_callback)]"
  have accepted: "checked_registration dbg (RegisterCallback (new_id n) n cb) (Ret \<lparr>ss_signals = ids, ss_connected = hs\<rparr>)
      = Ret \<lparr>ss_signals = ids @ [new_id n], ss_connected = hs @ [(new_id n, n, cb)]\<rparr>" for n cb ids and hs :: "(signal_id \<times> string \<times> 'c) list"
    using assms by (simp add: checked_registration_def RegisterCallback_def)
  let ?s = "\<lparr>ss_signals = map (new_id \<circ> fst) table, ss_connected = map (\<lambda>(n, cb). (new_id n, n, cb)) table\<rparr>"
  have s: "ConnectDecodebinSignals dbg new_id \<lparr>ss_signals = [], ss_connected = []\<rparr> = Ret ?s"
    by (simp add: ConnectDecodebinSignals_def registrations accepted table_def)
  have "signals_known ?s" by (simp add: signals_known_def split_def comp_def)
  then have "ss_connected (Element_delete ?s) = []" by (rule Element_delete_disconnects)
  then have d: "emitted n (Element_delete ?s) = []" for n by (simp add: emitted_def)
  have e: "emitted n ?s = map snd (filter (\<lambda>(m, cb). m = n) table)" for n
    by (simp add: emitted_def filter_map comp_def split_def)
  show ?thesis by (intro exI [of _ ?s] conjI s allI d) (simp_all only: e, simp_all add: table_def)
qed

end
