(* ===== verification/ServerLoops.thy ===== *)
theory ServerLoops
  imports Subscribers HttpHandlers DaemonSpec
begin

text \<open>
  Components \<open>server/base/iserver_handler\<close>, \<open>server/*/server\<close> and \<open>server/*/client\<close>: the connections of the
  servers. Each server creates clients of its own class; its handler counts them and is told when one comes
  or goes. The two file servers and the subscribers server run in threads of their own; the service reports
  their counts.
\<close>

section \<open>Classes of clients\<close>

datatype client_class = ProtocoledDaemonClient | HttpClient | VodsClient | SubscriberClient_class

definition DaemonServer_CreateClient :: client_class where "DaemonServer_CreateClient = ProtocoledDaemonClient"
definition HttpServer_CreateClient :: client_class where "HttpServer_CreateClient = HttpClient"
definition VodsServer_CreateClient :: client_class where "VodsServer_CreateClient = VodsClient"
definition SubscribersServer_CreateClient :: client_class where "SubscribersServer_CreateClient = SubscriberClient_class"

text \<open>The class to which the handler of a server casts its clients.\<close>

definition http_cast :: client_class where "http_cast = HttpClient"
definition vods_cast :: client_class where "vods_cast = VodsClient"
definition subscribers_cast :: client_class where "subscribers_cast = SubscriberClient_class"

section \<open>Counting connections\<close>

text \<open>
  The contract of the base class \<open>IServerHandler\<close>: accepting adds a client and closing removes it, and the
  counter goes with them.
\<close>

locale counting_handler =
  fixes clients_of :: "'h \<Rightarrow> nat list" and online_of :: "'h \<Rightarrow> u64"
    and accept :: "nat \<Rightarrow> 'h \<Rightarrow> 'h" and close :: "nat \<Rightarrow> 'h \<Rightarrow> 'h"
  assumes accept_clients: "clients_of (accept c h) = clients_of h @ [c]" and accept_online: "online_of (accept c h) = online_of h + 1"
    and close_clients: "clients_of (close c h) = removeAll c (clients_of h)" and close_online: "online_of (close c h) = online_of h - 1"
begin

definition counted :: "'h \<Rightarrow> bool" where
  "counted h \<longleftrightarrow> distinct (clients_of h) \<and> online_of h = of_nat (length (clients_of h))"

lemma accept_counted: "counted h \<Longrightarrow> c \<notin> set (clients_of h) \<Longrightarrow> counted (accept c h)"
  by (simp add: counted_def accept_clients accept_online)

lemma close_counted:
  assumes "counted h" "c \<in> set (clients_of h)"
  shows "counted (close c h)"
proof -
  have "length (clients_of h) = Suc (length (remove1 c (clients_of h)))" using assms(2) by (metis length_remove1 Suc_pred' length_pos_if_in_set One_nat_def)
  moreover have "removeAll c (clients_of h) = remove1 c (clients_of h)" using assms(1) by (simp add: counted_def distinct_remove1_removeAll)
  ultimately show ?thesis using assms by (simp add: counted_def close_clients close_online)
qed

text \<open>Closing a part of the clients one after the other, as the ping timer does.\<close>

lemma close_some_counted:
  assumes "\<And>c h. step c h = (if bad c then close c h else keep c h)" "\<And>c h. clients_of (keep c h) = clients_of h" "\<And>c h. online_of (keep c h) = online_of h"
    "counted h" "distinct cs" "set cs \<subseteq> set (clients_of h)"
  shows "counted (foldl (\<lambda>h c. step c h) h cs)"
  using assms(4-6)
proof (induction cs arbitrary: h)
  case (Cons c cs)
  have "counted (step c h)" "set cs \<subseteq> set (clients_of (step c h))"
    using Cons.prems close_counted [of h c] by (auto simp: assms(1-3) close_clients counted_def)
  then show ?case using Cons.IH Cons.prems by simp
qed simp

end

section \<open>File servers\<close>

record file_server_state =
  fv_clients :: "nat list"
  fv_online :: u64

definition IServerHandler_Accepted :: "nat \<Rightarrow> file_server_state \<Rightarrow> file_server_state" where
  "IServerHandler_Accepted c s = s\<lparr>fv_clients := fv_clients s @ [c], fv_online := fv_online s + 1\<rparr>"

definition IServerHandler_Closed :: "nat \<Rightarrow> file_server_state \<Rightarrow> file_server_state" where
  "IServerHandler_Closed c s = s\<lparr>fv_clients := removeAll c (fv_clients s), fv_online := fv_online s - 1\<rparr>"

definition IServerHandler_GetOnlineClients :: "file_server_state \<Rightarrow> u64" where
  "IServerHandler_GetOnlineClients s = fv_online s"

text \<open>
  The effects of a request on the connection: closing tells the handler and deletes the client, so any
  further use of the connection is undefined.
\<close>

fun apply_effects :: "nat \<Rightarrow> http_effect list \<Rightarrow> file_server_state \<Rightarrow> file_server_state outcome" where
  "apply_effects c [] s = Ret s"
| "apply_effects c (e # es) s =
     (if c \<notin> set (fv_clients s) then Abort
      else apply_effects c es (if e = Close_client then IServerHandler_Closed c s else s))"

definition file_server_DataReceived ::
  "(string \<Rightarrow> http_effect list outcome) \<Rightarrow> nat \<Rightarrow> errno option \<Rightarrow> string \<Rightarrow> file_server_state \<Rightarrow> file_server_state outcome" where
  "file_server_DataReceived process c errn available s = (case http_DataReceived process errn available of
     Abort \<Rightarrow> Abort | Ret es \<Rightarrow> apply_effects c es s)"

inductive file_server_reach :: "(string \<Rightarrow> http_effect list outcome) \<Rightarrow> file_server_state \<Rightarrow> bool" for process where
  fv_start: "file_server_reach process \<lparr>fv_clients = [], fv_online = 0\<rparr>"
| fv_accept: "file_server_reach process s \<Longrightarrow> c \<notin> set (fv_clients s) \<Longrightarrow> file_server_reach process (IServerHandler_Accepted c s)"
| fv_data: "file_server_reach process s \<Longrightarrow> c \<in> set (fv_clients s)
    \<Longrightarrow> file_server_DataReceived process c errn available s = Ret s' \<Longrightarrow> file_server_reach process s'"

interpretation fv: counting_handler fv_clients fv_online IServerHandler_Accepted IServerHandler_Closed
  by unfold_locales (simp_all add: IServerHandler_Accepted_def IServerHandler_Closed_def)

text \<open>A request closes its connection at most once and does nothing with it afterwards.\<close>

definition closes_last :: "http_effect list \<Rightarrow> bool" where
  "closes_last es \<longleftrightarrow> Close_client \<notin> set (butlast es)"

lemma ProcessReceived_closes_last: "ProcessReceived H observed docroot request = Ret es \<Longrightarrow> closes_last es"
  by (auto simp: ProcessReceived_def process_get_def send_file_def closes_last_def Let_def butlast_append
      split: sum.splits option.splits outcome.splits if_splits prod.splits)

lemma apply_effects_ok:
  assumes "closes_last es" "c \<in> set (fv_clients s)" "fv.counted s"
  shows "\<exists>s'. apply_effects c es s = Ret s' \<and> fv.counted s' \<and> (c \<in> set (fv_clients s') \<longleftrightarrow> Close_client \<notin> set es)"
  using assms
proof (induction es arbitrary: s)
  case (Cons e es)
  show ?case
  proof (cases "es = []")
    case True
    then show ?thesis using Cons.prems fv.close_counted [OF Cons.prems(3,2)] by (simp add: fv.close_clients)
  next
    case False
    then have "e \<noteq> Close_client" "closes_last es" using Cons.prems(1) by (auto simp: closes_last_def)
    then show ?thesis using Cons.IH [OF _ Cons.prems(2,3)] Cons.prems(2) by auto
  qed
qed simp

lemma file_server_reach_counted:
  assumes "file_server_reach process s" "\<And>request es. process request = Ret es \<Longrightarrow> closes_last es"
  shows "fv.counted s"
  using assms(1)
proof induction
  case (fv_data s c errn available s')
  obtain es where es: "http_DataReceived process errn available = Ret es" "apply_effects c es s = Ret s'"
    using fv_data.hyps(3) by (auto simp: file_server_DataReceived_def split: outcome.splits)
  have "closes_last es"
    using es(1) assms(2) by (auto simp: http_DataReceived_def closes_last_def Let_def split: if_splits)
  then show ?case using apply_effects_ok [OF _ fv_data.hyps(2) fv_data.IH] es(2) by fastforce
qed (simp add: fv.counted_def, simp add: fv.accept_counted)

section \<open>The subscribers server\<close>

text \<open>
  The timer of the pings is created before and removed after the loop. Before the loop the handler calls the
  hook of the base class that belongs after it; both hooks do nothing.
\<close>

record subscribers_loop =
  sb_timer :: "nat option"
  sb_timers :: "nat set"

definition SubscribersHandler_PreLooped :: "nat \<Rightarrow> subscribers_loop \<Rightarrow> subscribers_loop" where
  "SubscribersHandler_PreLooped new_timer s = s\<lparr>sb_timer := Some new_timer, sb_timers := insert new_timer (sb_timers s)\<rparr>"

definition SubscribersHandler_PostLooped :: "subscribers_loop \<Rightarrow> subscribers_loop" where
  "SubscribersHandler_PostLooped s = (case sb_timer s of
     None \<Rightarrow> s | Some t \<Rightarrow> s\<lparr>sb_timers := sb_timers s - {t}, sb_timer := None\<rparr>)"

text \<open>Answers of a client: only the answer to a ping or to a question about the client is looked at.\<close>

datatype pending_request = Pending_ping | Pending_client_info | Pending_other

definition HandleResponceServerGetClientInfo :: "unit params option \<Rightarrow> errno_error option" where
  "HandleResponceServerGetClientInfo message = (case message of
       None \<Rightarrow> None | Some Not_json \<Rightarrow> Some Errno_inval
     | Some (Bad_value err) \<Rightarrow> Some (Errno_error (GetDescription err) EAGAIN) | Some _ \<Rightarrow> None)"

definition HandleResponceCommand ::
  "seq_id \<Rightarrow> unit params option \<Rightarrow> (seq_id \<rightharpoonup> pending_request) \<Rightarrow> errno_error option \<times> (seq_id \<rightharpoonup> pending_request)" where
  "HandleResponceCommand i message pending = (case pending i of
     None \<Rightarrow> (None, pending)
   | Some req \<Rightarrow>
      ((case req of Pending_ping \<Rightarrow> HandleResponceServerPing message
        | Pending_client_info \<Rightarrow> HandleResponceServerGetClientInfo message
        | Pending_other \<Rightarrow> None), pending(i := None)))"

text \<open>Answers of a stream to the service take their request from the table of its pipe and have no other effect.\<close>

definition HandleResponceStreamsCommand :: "seq_id \<Rightarrow> (seq_id \<rightharpoonup> request) \<Rightarrow> errno_error option \<times> (seq_id \<rightharpoonup> request)" where
  "HandleResponceStreamsCommand i pending = (case pending i of None \<Rightarrow> (None, pending) | Some req \<Rightarrow> (None, pending(i := None)))"

inductive subscribers_reach :: "'c Subscribers.env \<Rightarrow> 'c handler \<Rightarrow> bool" for E where
  sub_start: "subscribers_reach E \<lparr>clients = Map.empty, client_order = [], connections = Map.empty, online_clients = 0, sent = []\<rparr>"
| sub_accept: "subscribers_reach E h \<Longrightarrow> c \<notin> set (client_order h) \<Longrightarrow> subscribers_reach E (Accepted c h)"
| sub_data: "subscribers_reach E h \<Longrightarrow> c \<in> set (client_order h) \<Longrightarrow> Subscribers.DataReceived E c inp h = Ret h' \<Longrightarrow> subscribers_reach E h'"
| sub_timer: "subscribers_reach E h \<Longrightarrow> subscribers_reach E (Subscribers.TimerEmited E is_ping h)"

lemma Closed_order [simp]:
  "client_order (Closed v c h) = removeAll c (client_order h)" "online_clients (Closed v c h) = online_clients h - 1"
  by (simp_all add: Closed_def UnRegisterInnerConnectionByHost_def Let_def split: option.split)

interpretation sub: counting_handler client_order online_clients Accepted "Closed v" for v
  by unfold_locales (simp_all add: Accepted_def)

lemma sub_counted_cong: "client_order h' = client_order h \<Longrightarrow> online_clients h' = online_clients h \<Longrightarrow> sub.counted h' = sub.counted h"
  by (simp add: sub.counted_def)

text \<open>A request keeps the list of clients and its count, or closes the client that made it.\<close>

definition same_clients :: "'c handler \<Rightarrow> 'c handler \<Rightarrow> bool" where
  "same_clients h h' \<longleftrightarrow> client_order h' = client_order h \<and> online_clients h' = online_clients h"

lemma same_clients_simps [simp]:
  "same_clients h h" "same_clients h (send c r h') = same_clients h h'" "same_clients h (SetCurrentStreamID c sid h') = same_clients h h'"
  by (simp_all add: same_clients_def send_def SetCurrentStreamID_def)

lemma register_same: "RegisterInnerConnectionByHost v info c (send c r h) = Ret h' \<Longrightarrow> same_clients h h'"
  by (auto simp: RegisterInnerConnectionByHost_def same_clients_def send_def split: if_splits)

definition closes_one :: "'c Subscribers.env \<Rightarrow> client \<Rightarrow> 'c handler \<Rightarrow> 'c handler \<Rightarrow> bool" where
  "closes_one E c h h' \<longleftrightarrow> same_clients h h' \<or> (\<exists>h1. same_clients h h1 \<and> h' = Closed (env_valid E) c h1)"

lemma closes_oneI [intro]:
  "same_clients h h' \<Longrightarrow> closes_one E c h h'" "same_clients h h' \<Longrightarrow> closes_one E c h (Closed (env_valid E) c h')"
  by (auto simp: closes_one_def)

lemma activate_same: "Subscribers.HandleRequestClientActivate E c i p h = Ret (r, h') \<Longrightarrow> same_clients h h'"
  by (auto simp: Subscribers.HandleRequestClientActivate_def fail_with_def Let_def dest: register_same
      split: params.splits sum.splits if_splits option.splits outcome.splits)

lemma request_closes_one:
  assumes "HandleRequestCommand E c req h = Ret (r, h')"
  shows "closes_one E c h h'"
proof (cases req)
  case (Client_activate i p)
  then show ?thesis using assms activate_same by (fastforce simp: HandleRequestCommand_def)
qed (use assms in \<open>auto simp: HandleRequestCommand_def HandleRequestClientPing_def HandleRequestClientGetServerInfo_def
      HandleRequestClientGetChannels_def HandleRequestClientGetRuntimeChannelInfo_def reject_client_def answer_def Let_def
      split: sum.splits params.splits option.splits\<close>)

lemma data_closes_one: "Subscribers.DataReceived E c inp h = Ret h' \<Longrightarrow> closes_one E c h h'"
  by (auto simp: Subscribers.DataReceived_def HandleInnerDataReceived_def dest: request_closes_one split: sub_input.splits outcome.splits)

lemma closes_one_counted:
  assumes "closes_one E c h h'" "sub.counted h" "c \<in> set (client_order h)"
  shows "sub.counted h'"
proof -
  have same: "sub.counted h1 \<and> c \<in> set (client_order h1)" if "same_clients h h1" for h1
    using that assms(2,3) by (simp add: same_clients_def sub.counted_def)
  then show ?thesis using assms(1) sub.close_counted by (auto simp: closes_one_def)
qed

lemma subscribers_reach_counted: "subscribers_reach E h \<Longrightarrow> sub.counted h"
proof (induction rule: subscribers_reach.induct)
  case (sub_timer h is_ping)
  have "sub.counted (foldl (\<lambda>h c. if env_write E c \<noteq> None then Closed (env_valid E) c h else send c Ping h) h (client_order h))"
    by (rule sub.close_some_counted [where keep = "\<lambda>c. send c Ping"]) (use sub_timer.IH in \<open>simp_all add: send_def sub.counted_def\<close>)
  moreover have e: "(\<lambda>h c. case env_write E c of None \<Rightarrow> send c Ping h | Some err \<Rightarrow> Closed (env_valid E) c h)
      = (\<lambda>h c. if env_write E c \<noteq> None then Closed (env_valid E) c h else send c Ping h)"
    by (auto simp: fun_eq_iff split: option.split)
  ultimately show ?case using sub_timer.IH unfolding Subscribers.TimerEmited_def e by simp
qed (simp add: sub.counted_def, simp add: sub.accept_counted, use data_closes_one closes_one_counted in blast)

section \<open>What the service reports\<close>

text \<open>A handler that casts its clients finds the class that its server created.\<close>

lemma casts_fit:
  "http_cast = HttpServer_CreateClient" "vods_cast = VodsServer_CreateClient" "subscribers_cast = SubscribersServer_CreateClient"
  by (simp_all add: http_cast_def vods_cast_def subscribers_cast_def HttpServer_CreateClient_def VodsServer_CreateClient_def
      SubscribersServer_CreateClient_def)

lemma file_servers_counted:
  "file_server_reach (HttpHandler_ProcessReceived H h) s \<Longrightarrow> fv.counted s"
  "file_server_reach (VodsHandler_ProcessReceived H v) s \<Longrightarrow> fv.counted s"
  by (auto elim!: file_server_reach_counted simp: HttpHandler_ProcessReceived_def VodsHandler_ProcessReceived_def dest: ProcessReceived_closes_last)

text \<open>
  (C10) The statistics of the service tell the truth about its servers: in whatever states the file servers
  and the subscribers server are, after any sequence of connections, requests, failed reads and failed pings,
  the counters that the service reports are the numbers of their open connections, each counted once; and no
  request makes a file server use a connection that it closed.
\<close>

theorem reported_users_are_connected:
  assumes "file_server_reach (HttpHandler_ProcessReceived H h) hs" "file_server_reach (VodsHandler_ProcessReceived H v) vs" "subscribers_reach S sub"
    "en_online E = (IServerHandler_GetOnlineClients hs, IServerHandler_GetOnlineClients vs, online_clients sub)"
  shows "on_http (online_users E D) = of_nat (card (set (fv_clients hs))) \<and> on_vods (online_users E D) = of_nat (card (set (fv_clients vs)))
    \<and> on_subscriber (online_users E D) = of_nat (card (set (client_order sub)))
    \<and> (\<forall>c\<in>set (fv_clients hs). \<forall>errn bytes. file_server_DataReceived (HttpHandler_ProcessReceived H h) c errn bytes hs = Abort
          \<longrightarrow> http_DataReceived (HttpHandler_ProcessReceived H h) errn bytes = Abort)"
proof -
  have c: "fv.counted hs" "fv.counted vs" "sub.counted sub"
    using file_servers_counted assms(1,2) subscribers_reach_counted [OF assms(3)] by auto
  have "http_DataReceived (HttpHandler_ProcessReceived H h) errn bytes = Abort"
    if "x \<in> set (fv_clients hs)" "file_server_DataReceived (HttpHandler_ProcessReceived H h) x errn bytes hs = Abort" for x errn bytes
  proof (rule ccontr)
    assume "http_DataReceived (HttpHandler_ProcessReceived H h) errn bytes \<noteq> Abort"
    then obtain es where es: "http_DataReceived (HttpHandler_ProcessReceived H h) errn bytes = Ret es"
      by (cases "http_DataReceived (HttpHandler_ProcessReceived H h) errn bytes") auto
    then have "closes_last es"
      by (auto simp: http_DataReceived_def HttpHandler_ProcessReceived_def closes_last_def Let_def
          dest: ProcessReceived_closes_last [unfolded closes_last_def] split: if_splits)
    then show False using apply_effects_ok [OF _ that(1) c(1)] that(2) es by (force simp: file_server_DataReceived_def)
  qed
  then show ?thesis using c assms(4)
    by (simp add: online_users_def IServerHandler_GetOnlineClients_def fv.counted_def sub.counted_def distinct_card)
qed

theorem reported_users_are_connected_witness:
  "\<exists>hs. file_server_reach (HttpHandler_ProcessReceived demo_http \<lparr>http_root = ''/w/''\<rparr>) hs \<and> fv_clients hs = [6]
     \<and> on_http (online_users (DaemonSpec.demo_env\<lparr>en_online := (1, 0, 1)\<rparr>) demo_daemon) = of_nat (card (set (fv_clients hs)))"
proof -
  let ?P = "HttpHandler_ProcessReceived demo_http \<lparr>http_root = ''/w/''\<rparr>"
  let ?s1 = "IServerHandler_Accepted 6 (IServerHandler_Accepted 5 \<lparr>fv_clients = [], fv_online = 0\<rparr>)"
  have "file_server_reach ?P ?s1" by (intro file_server_reach.intros) (simp_all add: IServerHandler_Accepted_def)
  then have hs: "file_server_reach ?P (IServerHandler_Closed 5 ?s1)"
    by (rule file_server_reach.fv_data [of _ _ 5 None "[]"])
       (simp_all add: IServerHandler_Accepted_def file_server_DataReceived_def http_DataReceived_def)
  have vs: "file_server_reach (VodsHandler_ProcessReceived demo_http \<lparr>vods_root = ''/v/''\<rparr>) \<lparr>fv_clients = [], fv_online = 0\<rparr>"
    by (rule file_server_reach.fv_start)
  have sub: "subscribers_reach Subscribers.demo_env (Accepted 7 \<lparr>clients = Map.empty, client_order = [], connections = Map.empty, online_clients = 0, sent = []\<rparr>)"
    by (intro subscribers_reach.intros) simp
  have "on_http (online_users (DaemonSpec.demo_env\<lparr>en_online := (1, 0, 1)\<rparr>) demo_daemon) = of_nat (card (set (fv_clients (IServerHandler_Closed 5 ?s1))))"
    using reported_users_are_connected [OF hs vs sub, of "DaemonSpec.demo_env\<lparr>en_online := (1, 0, 1)\<rparr>" demo_daemon]
    by (simp add: IServerHandler_GetOnlineClients_def IServerHandler_Accepted_def IServerHandler_Closed_def Accepted_def)
  then show ?thesis using hs by (intro exI [of _ "IServerHandler_Closed 5 ?s1"]) (simp add: IServerHandler_Accepted_def IServerHandler_Closed_def)
qed

end
