(* ===== verification/ChildProcess.thy ===== *)
theory ChildProcess
  imports Daemon
begin

text \<open>
  The child side of \<open>CreateChildStream\<close> (\<open>server/process_slave_wrapper\<close>) and \<open>server/pipe/pipe_client\<close>: the pipes
  between the service and the processes of its streams. Descriptors are modelled as POSIX describes them: a
  process has a table of descriptors, a fork copies the table, a pipe holds the bytes written and not yet
  read, and a reader sees the end of a pipe when it is empty and no process holds its other end.
\<close>

section \<open>Descriptors and pipes\<close>

type_synonym fd = int
type_synonym pid = int
type_synonym pipe_id = nat

datatype pipe_end = Reads pipe_id | Writes pipe_id

record kernel =
  k_procs :: "pid list"
  k_tables :: "pid \<Rightarrow> (fd \<times> pipe_end) list"
  k_data :: "pipe_id \<Rightarrow> u8 list"
  k_next :: pipe_id

definition kernel0 :: "pid \<Rightarrow> kernel" where
  "kernel0 service = \<lparr>k_procs = [service], k_tables = (\<lambda>p. []), k_data = (\<lambda>q. []), k_next = 0\<rparr>"

definition os_fork :: "pid \<Rightarrow> pid \<Rightarrow> kernel \<Rightarrow> kernel" where
  "os_fork parent child k = k\<lparr>k_procs := child # k_procs k, k_tables := (k_tables k)(child := k_tables k parent)\<rparr>"

definition close_descriptor :: "pid \<Rightarrow> fd \<Rightarrow> kernel \<Rightarrow> kernel" where
  "close_descriptor p fd k = k\<lparr>k_tables := (k_tables k)(p := filter (\<lambda>(f, _). f \<noteq> fd) (k_tables k p))\<rparr>"

definition os_exit :: "pid \<Rightarrow> kernel \<Rightarrow> kernel" where
  "os_exit p k = k\<lparr>k_procs := removeAll p (k_procs k), k_tables := (k_tables k)(p := [])\<rparr>"

definition has_end :: "pipe_end \<Rightarrow> kernel \<Rightarrow> bool" where
  "has_end e k = list_ex (\<lambda>p. list_ex (\<lambda>(fd, e'). e' = e) (k_tables k p)) (k_procs k)"

datatype read_result = Got "u8 list" | End_of_file | Would_block | Bad_descriptor

definition os_read :: "pid \<Rightarrow> fd \<Rightarrow> nat \<Rightarrow> kernel \<Rightarrow> read_result \<times> kernel" where
  "os_read p fd max_size k = (case map_of (k_tables k p) fd of
     Some (Reads q) \<Rightarrow>
       if k_data k q = [] then (if has_end (Writes q) k then Would_block else End_of_file, k)
       else (Got (take max_size (k_data k q)), k\<lparr>k_data := (k_data k)(q := drop max_size (k_data k q))\<rparr>)
   | _ \<Rightarrow> (Bad_descriptor, k))"

text \<open>A write takes as many bytes as the pipe has room for; without a reader it is an error.\<close>

definition os_write :: "pid \<Rightarrow> fd \<Rightarrow> u8 list \<Rightarrow> nat \<Rightarrow> kernel \<Rightarrow> nat option \<times> kernel" where
  "os_write p fd data room k = (case map_of (k_tables k p) fd of
     Some (Writes q) \<Rightarrow>
       if \<not> has_end (Reads q) k then (None, k)
       else (Some (min room (length data)), k\<lparr>k_data := (k_data k)(q := k_data k q @ take room data)\<rparr>)
   | _ \<Rightarrow> (None, k))"

section \<open>Clients of a pipe\<close>

record ProtocoledPipeClient =
  pc_read_fd :: fd
  pc_write_fd :: fd

definition pipe_SingleWrite :: "pid \<Rightarrow> ProtocoledPipeClient \<Rightarrow> u8 list \<Rightarrow> nat \<Rightarrow> kernel \<Rightarrow> nat option \<times> kernel" where
  "pipe_SingleWrite p c data room k = os_write p (pc_write_fd c) data room k"

definition pipe_SingleRead :: "pid \<Rightarrow> ProtocoledPipeClient \<Rightarrow> nat \<Rightarrow> kernel \<Rightarrow> read_result \<times> kernel" where
  "pipe_SingleRead p c max_size k = os_read p (pc_read_fd c) max_size k"

definition pipe_GetFd :: "ProtocoledPipeClient \<Rightarrow> fd" where
  "pipe_GetFd c = pc_read_fd c"

definition pipe_DoClose :: "pid \<Rightarrow> ProtocoledPipeClient \<Rightarrow> kernel \<Rightarrow> kernel" where
  "pipe_DoClose p c k = close_descriptor p (pc_read_fd c) (close_descriptor p (pc_write_fd c) k)"

section \<open>The start of a stream process\<close>

text \<open>The answers of the system: an error or the two descriptors of each pipe, and the number of the new process.\<close>

record child_env =
  ce_pipe1 :: "errno_error + fd \<times> fd"
  ce_pipe2 :: "errno_error + fd \<times> fd"
  ce_fork :: "pid option"

definition CreatePipe :: "pid \<Rightarrow> errno_error + fd \<times> fd \<Rightarrow> kernel \<Rightarrow> (errno_error + fd \<times> fd) \<times> kernel" where
  "CreatePipe p answer k = (case answer of
     Inl err \<Rightarrow> (Inl err, k)
   | Inr (r, w) \<Rightarrow> (Inr (r, w),
       k\<lparr>k_tables := (k_tables k)(p := (r, Reads (k_next k)) # (w, Writes (k_next k)) # k_tables k p), k_next := k_next k + 1\<rparr>))"

text \<open>
  The two processes after a fork: the child closes the ends of the service and the service those of the
  child, and each makes a client of the ends it keeps.
\<close>

record forked =
  fk_pid :: pid
  fk_service :: ProtocoledPipeClient
  fk_child :: ProtocoledPipeClient

definition create_child :: "pid \<Rightarrow> child_env \<Rightarrow> kernel \<Rightarrow> (errno_error option \<times> forked option) \<times> kernel" where
  "create_child service E k = (case CreatePipe service (ce_pipe1 E) k of
     (Inl err, k) \<Rightarrow> ((Some err, None), k)
   | (Inr (read_command_client, write_requests_client), k) \<Rightarrow> (case CreatePipe service (ce_pipe2 E) k of
       (Inl err, k) \<Rightarrow> ((Some err, None), k)
     | (Inr (read_responce_client, write_responce_client), k) \<Rightarrow> (case ce_fork E of
         None \<Rightarrow> ((None, None), k)
       | Some pid \<Rightarrow>
          (let k = os_fork service pid k;
               k = close_descriptor pid write_requests_client (close_descriptor pid read_responce_client k);
               k = close_descriptor service write_responce_client (close_descriptor service read_command_client k)
           in ((None, Some \<lparr>fk_pid = pid,
                 fk_service = \<lparr>pc_read_fd = read_responce_client, pc_write_fd = write_requests_client\<rparr>,
                 fk_child = \<lparr>pc_read_fd = read_command_client, pc_write_fd = write_responce_client\<rparr>\<rparr>), k)))))"

text \<open>The child at its end: it closes its client and exits.\<close>

definition child_exit :: "pid \<Rightarrow> ProtocoledPipeClient \<Rightarrow> kernel \<Rightarrow> kernel" where
  "child_exit p c k = os_exit p (pipe_DoClose p c k)"

text \<open>
  The child takes its name: the argument strings are cleared, and the name with its end is written over the
  first one. The strings lie one after the other; a name that is longer than all of them overwrites what
  follows them.
\<close>

definition NUL :: char where "NUL = CHR 0x00"

definition argument_area :: "string list \<Rightarrow> string" where
  "argument_area argv = concat (map (\<lambda>a. replicate (length a) NUL @ [NUL]) argv)"

definition rename_process :: "string \<Rightarrow> string \<Rightarrow> string list \<Rightarrow> string outcome" where
  "rename_process streamer_name stream_id argv =
     (let new_name = streamer_name @ ''_'' @ stream_id; area = argument_area argv in
      if length new_name < length area then Ret (new_name @ [NUL] @ drop (length new_name + 1) area) else Abort)"

section \<open>The service and its streams\<close>

text \<open>
  A link joins the service with one stream; it is named by the pipe of its commands. What was written and
  read on either side is recorded.
\<close>

record stream_link =
  lk_fork :: forked
  lk_responses :: pipe_id
  lk_open :: bool
  lk_alive :: bool
  lk_sent :: "u8 list"
  lk_received :: "u8 list"
  lk_answered :: "u8 list"
  lk_heard :: "u8 list"

record link_system =
  sy_kernel :: kernel
  sy_links :: "pipe_id \<rightharpoonup> stream_link"

definition new_link :: "forked \<Rightarrow> pipe_id \<Rightarrow> stream_link" where
  "new_link f responses = \<lparr>lk_fork = f, lk_responses = responses, lk_open = True, lk_alive = True,
     lk_sent = [], lk_received = [], lk_answered = [], lk_heard = []\<rparr>"

abbreviation lk_pid :: "stream_link \<Rightarrow> pid" where "lk_pid l \<equiv> fk_pid (lk_fork l)"
abbreviation lk_service :: "stream_link \<Rightarrow> ProtocoledPipeClient" where "lk_service l \<equiv> fk_service (lk_fork l)"
abbreviation lk_child :: "stream_link \<Rightarrow> ProtocoledPipeClient" where "lk_child l \<equiv> fk_child (lk_fork l)"

text \<open>What the system promises of its answers: new descriptors are free and differ, a new process number is unused.\<close>

definition descriptors :: "errno_error + fd \<times> fd \<Rightarrow> fd list" where
  "descriptors answer = (case answer of Inl err \<Rightarrow> [] | Inr (r, w) \<Rightarrow> [r, w])"

definition fresh_answers :: "pid \<Rightarrow> child_env \<Rightarrow> kernel \<Rightarrow> bool" where
  "fresh_answers service E k \<longleftrightarrow> distinct (descriptors (ce_pipe1 E) @ descriptors (ce_pipe2 E) @ map fst (k_tables k service))
     \<and> (case ce_fork E of None \<Rightarrow> True | Some pid \<Rightarrow> pid \<notin> set (k_procs k))"

inductive link_step :: "pid \<Rightarrow> link_system \<Rightarrow> link_system \<Rightarrow> bool" for service :: pid where
  started: "fresh_answers service E (sy_kernel y) \<Longrightarrow> create_child service E (sy_kernel y) = ((None, Some f), k)
    \<Longrightarrow> link_step service y (y\<lparr>sy_kernel := k, sy_links := (sy_links y)
          (k_next (sy_kernel y) \<mapsto> new_link f (k_next (sy_kernel y) + 1))\<rparr>)"
| not_started: "fresh_answers service E (sy_kernel y) \<Longrightarrow> create_child service E (sy_kernel y) = ((r, None), k)
    \<Longrightarrow> link_step service y (y\<lparr>sy_kernel := k\<rparr>)"
| service_writes: "sy_links y q = Some l \<Longrightarrow> lk_open l \<Longrightarrow> pipe_SingleWrite service (lk_service l) data room (sy_kernel y) = (Some n, k)
    \<Longrightarrow> link_step service y (y\<lparr>sy_kernel := k, sy_links := (sy_links y)(q \<mapsto> l\<lparr>lk_sent := lk_sent l @ take n data\<rparr>)\<rparr>)"
| stream_reads: "sy_links y q = Some l \<Longrightarrow> lk_alive l \<Longrightarrow> pipe_SingleRead (lk_pid l) (lk_child l) m (sy_kernel y) = (Got bytes, k)
    \<Longrightarrow> link_step service y (y\<lparr>sy_kernel := k, sy_links := (sy_links y)(q \<mapsto> l\<lparr>lk_received := lk_received l @ bytes\<rparr>)\<rparr>)"
| stream_writes: "sy_links y q = Some l \<Longrightarrow> lk_alive l \<Longrightarrow> pipe_SingleWrite (lk_pid l) (lk_child l) data room (sy_kernel y) = (Some n, k)
    \<Longrightarrow> link_step service y (y\<lparr>sy_kernel := k, sy_links := (sy_links y)(q \<mapsto> l\<lparr>lk_answered := lk_answered l @ take n data\<rparr>)\<rparr>)"
| service_reads: "sy_links y q = Some l \<Longrightarrow> lk_open l \<Longrightarrow> pipe_SingleRead service (lk_service l) m (sy_kernel y) = (Got bytes, k)
    \<Longrightarrow> link_step service y (y\<lparr>sy_kernel := k, sy_links := (sy_links y)(q \<mapsto> l\<lparr>lk_heard := lk_heard l @ bytes\<rparr>)\<rparr>)"
| stream_exits: "sy_links y q = Some l \<Longrightarrow> lk_alive l
    \<Longrightarrow> link_step service y (y\<lparr>sy_kernel := child_exit (lk_pid l) (lk_child l) (sy_kernel y),
          sy_links := (sy_links y)(q \<mapsto> l\<lparr>lk_alive := False\<rparr>)\<rparr>)"
| service_closes: "sy_links y q = Some l \<Longrightarrow> lk_open l
    \<Longrightarrow> link_step service y (y\<lparr>sy_kernel := pipe_DoClose service (lk_service l) (sy_kernel y),
          sy_links := (sy_links y)(q \<mapsto> l\<lparr>lk_open := False\<rparr>)\<rparr>)"

inductive links_reach :: "pid \<Rightarrow> link_system \<Rightarrow> bool" for service :: pid where
  reach_start: "links_reach service \<lparr>sy_kernel = kernel0 service, sy_links = Map.empty\<rparr>"
| reach_step: "links_reach service y \<Longrightarrow> link_step service y y' \<Longrightarrow> links_reach service y'"

section \<open>Who holds which end\<close>

definition holds :: "kernel \<Rightarrow> pid \<Rightarrow> fd \<Rightarrow> pipe_end \<Rightarrow> bool" where
  "holds k p fd e \<longleftrightarrow> (fd, e) \<in> set (k_tables k p)"

fun pipe_of :: "pipe_end \<Rightarrow> pipe_id" where
  "pipe_of (Reads q) = q"
| "pipe_of (Writes q) = q"

definition tables_ok :: "kernel \<Rightarrow> bool" where
  "tables_ok k \<longleftrightarrow> (\<forall>p. distinct (map fst (k_tables k p))) \<and> (\<forall>p fd e. holds k p fd e \<longrightarrow> p \<in> set (k_procs k)
     \<and> pipe_of e < k_next k) \<and> (\<forall>q\<ge>k_next k. k_data k q = [])"

lemma holds_close [simp]: "holds (close_descriptor p fd k) p' fd' e \<longleftrightarrow> holds k p' fd' e \<and> (p' = p \<longrightarrow> fd' \<noteq> fd)"
  by (auto simp: holds_def close_descriptor_def)

lemma holds_fork [simp]: "holds (os_fork p c k) p' fd e \<longleftrightarrow> (if p' = c then holds k p fd e else holds k p' fd e)"
  by (auto simp: holds_def os_fork_def)

lemma holds_exit [simp]: "holds (os_exit p k) p' fd e \<longleftrightarrow> p' \<noteq> p \<and> holds k p' fd e"
  by (auto simp: holds_def os_exit_def)

lemma holds_data [simp]: "holds (k\<lparr>k_data := d\<rparr>) p fd e \<longleftrightarrow> holds k p fd e"
  by (simp add: holds_def)

lemma k_simps [simp]:
  "k_procs (close_descriptor p fd k) = k_procs k" "k_data (close_descriptor p fd k) = k_data k" "k_next (close_descriptor p fd k) = k_next k"
  "k_procs (os_fork p c k) = c # k_procs k" "k_data (os_fork p c k) = k_data k" "k_next (os_fork p c k) = k_next k"
  "k_procs (os_exit p k) = removeAll p (k_procs k)" "k_data (os_exit p k) = k_data k" "k_next (os_exit p k) = k_next k"
  by (simp_all add: close_descriptor_def os_fork_def os_exit_def)

lemma distinct_tables [simp]:
  "\<forall>p. distinct (map fst (k_tables k p)) \<Longrightarrow> distinct (map fst (k_tables (close_descriptor q fd k) p))"
  "\<forall>p. distinct (map fst (k_tables k p)) \<Longrightarrow> distinct (map fst (k_tables (os_fork q c k) p))"
  "\<forall>p. distinct (map fst (k_tables k p)) \<Longrightarrow> distinct (map fst (k_tables (os_exit q k) p))"
  by (simp_all add: close_descriptor_def os_fork_def os_exit_def distinct_map_filter)

lemma looked_up: "tables_ok k \<Longrightarrow> map_of (k_tables k p) fd = Some e \<longleftrightarrow> holds k p fd e"
  by (simp add: tables_ok_def holds_def map_of_eq_Some_iff)

lemma has_end_holds: "tables_ok k \<Longrightarrow> has_end e k \<longleftrightarrow> (\<exists>p fd. holds k p fd e)"
  by (auto simp: has_end_def tables_ok_def holds_def list_ex_iff) blast+

text \<open>A child that was started, and the descriptors of all processes then.\<close>

lemma pipe_made:
  assumes "CreatePipe p (Inr (a, b)) k = (r, k')"
  shows "r = Inr (a, b)" "holds k' p' fd e \<longleftrightarrow> holds k p' fd e \<or> p' = p \<and> (fd, e) \<in> {(a, Reads (k_next k)), (b, Writes (k_next k))}"
    "k_procs k' = k_procs k" "k_data k' = k_data k" "k_next k' = k_next k + 1"
    "distinct (a # b # map fst (k_tables k p)) \<Longrightarrow> \<forall>p. distinct (map fst (k_tables k p)) \<Longrightarrow> distinct (map fst (k_tables k' p'))"
  using assms by (auto simp: CreatePipe_def holds_def split: if_splits)

lemma pipe_tables_ok:
  assumes "CreatePipe p (Inr (a, b)) k = (r, k')" "tables_ok k" "distinct (a # b # map fst (k_tables k p))" "p \<in> set (k_procs k)"
  shows "tables_ok k'"
  using assms(2-4) pipe_made [OF assms(1)] by (auto simp: tables_ok_def less_Suc_eq)

lemma fork_tables_ok: "tables_ok k \<Longrightarrow> tables_ok (os_fork p c k)"
  by (auto simp: tables_ok_def)

lemma close_tables_ok: "tables_ok k \<Longrightarrow> tables_ok (close_descriptor p fd k)"
  by (auto simp: tables_ok_def)

lemma exit_tables_ok: "tables_ok k \<Longrightarrow> tables_ok (os_exit p k)"
  by (auto simp: tables_ok_def)

lemma create_child_started:
  assumes "create_child service E k = ((r, Some f), k')" "fresh_answers service E k" "tables_ok k" "service \<in> set (k_procs k)"
  shows "r = None" "fk_pid f \<notin> set (k_procs k)" "tables_ok k'" "k_procs k' = fk_pid f # k_procs k" "k_data k' = k_data k" "k_next k' = k_next k + 2"
    "holds k' p fd e \<longleftrightarrow>
       (if p = fk_pid f then holds k service fd e \<or> fd = pc_read_fd (fk_child f) \<and> e = Reads (k_next k)
            \<or> fd = pc_write_fd (fk_child f) \<and> e = Writes (k_next k + 1)
        else holds k p fd e \<or> p = service \<and> (fd = pc_write_fd (fk_service f) \<and> e = Writes (k_next k)
            \<or> fd = pc_read_fd (fk_service f) \<and> e = Reads (k_next k + 1)))"
proof -
  obtain rc wr rr wp pid where E: "ce_pipe1 E = Inr (rc, wr)" "ce_pipe2 E = Inr (rr, wp)" "ce_fork E = Some pid"
    using assms(1) by (auto simp: create_child_def CreatePipe_def split: sum.splits option.splits prod.splits)
  obtain k1 k2 where k: "CreatePipe service (Inr (rc, wr)) k = (Inr (rc, wr), k1)" "CreatePipe service (Inr (rr, wp)) k1 = (Inr (rr, wp), k2)"
    by (simp add: CreatePipe_def)
  note p1 = pipe_made [OF k(1)] and p2 = pipe_made [OF k(2)]
  have f: "f = \<lparr>fk_pid = pid, fk_service = \<lparr>pc_read_fd = rr, pc_write_fd = wr\<rparr>, fk_child = \<lparr>pc_read_fd = rc, pc_write_fd = wp\<rparr>\<rparr>" "r = None"
    "k' = close_descriptor service wp (close_descriptor service rc (close_descriptor pid wr (close_descriptor pid rr (os_fork service pid k2))))"
    using assms(1) by (simp_all add: create_child_def E k Let_def)
  have fresh: "distinct [rc, wr, rr, wp]" "\<And>e. \<not> holds k service rc e" "\<And>e. \<not> holds k service wr e" "\<And>e. \<not> holds k service rr e"
    "\<And>e. \<not> holds k service wp e" "pid \<notin> set (k_procs k)" "distinct (rc # wr # map fst (k_tables k service))"
    using assms(2) by (auto simp: fresh_answers_def descriptors_def E holds_def image_iff)
  have "distinct (rr # wp # map fst (k_tables k1 service))"
    using assms(2) k(1) by (auto simp: fresh_answers_def descriptors_def E CreatePipe_def)
  then have "tables_ok k2"
    using pipe_tables_ok [OF k(2) pipe_tables_ok [OF k(1) assms(3) fresh(7) assms(4)]] assms(4) by (simp add: p1)
  then show "tables_ok k'" by (simp add: f close_tables_ok fork_tables_ok)
  show "r = None" "fk_pid f \<notin> set (k_procs k)" "k_procs k' = fk_pid f # k_procs k" "k_data k' = k_data k" "k_next k' = k_next k + 2"
    using fresh(6) by (simp_all add: f p1 p2)
  have "pid \<noteq> service" using fresh(6) assms(4) by auto
  then show "holds k' p fd e \<longleftrightarrow>
       (if p = fk_pid f then holds k service fd e \<or> fd = pc_read_fd (fk_child f) \<and> e = Reads (k_next k)
            \<or> fd = pc_write_fd (fk_child f) \<and> e = Writes (k_next k + 1)
        else holds k p fd e \<or> p = service \<and> (fd = pc_write_fd (fk_service f) \<and> e = Writes (k_next k)
            \<or> fd = pc_read_fd (fk_service f) \<and> e = Reads (k_next k + 1)))"
    using fresh(1-5) by (auto simp: f p1 p2)
qed

text \<open>Without a child some ends may be left over in the service, all of new pipes.\<close>

lemma create_child_not_started:
  assumes "create_child service E k = ((r, None), k')" "fresh_answers service E k" "tables_ok k" "service \<in> set (k_procs k)"
  shows "tables_ok k' \<and> k_procs k' = k_procs k \<and> k_data k' = k_data k \<and> k_next k \<le> k_next k'
    \<and> (\<forall>p fd e. holds k p fd e \<longrightarrow> holds k' p fd e)
    \<and> (\<forall>p fd q. holds k' p fd (Writes q) \<longrightarrow> holds k p fd (Writes q) \<or> p = service \<and> k_next k \<le> q)"
proof (cases "ce_pipe1 E")
  case (Inl err)
  then show ?thesis using assms by (simp add: create_child_def CreatePipe_def)
next
  case (Inr d1)
  obtain rc wr where d1: "d1 = (rc, wr)" by (cases d1)
  obtain k1 where k1: "CreatePipe service (Inr (rc, wr)) k = (Inr (rc, wr), k1)" by (simp add: CreatePipe_def)
  have ok1: "tables_ok k1"
    using pipe_tables_ok [OF k1 assms(3) _ assms(4)] assms(2) by (auto simp: fresh_answers_def descriptors_def Inr d1)
  note p1 = pipe_made [OF k1]
  show ?thesis
  proof (cases "ce_pipe2 E")
    case (Inl err)
    then have "k' = k1" using assms(1) by (simp add: create_child_def Inr d1 k1) (simp add: CreatePipe_def)
    then show ?thesis using ok1 by (auto simp: p1)
  next
    case Inr2: (Inr d2)
    obtain rr wp where d2: "d2 = (rr, wp)" by (cases d2)
    obtain k2 where k2: "CreatePipe service (Inr (rr, wp)) k1 = (Inr (rr, wp), k2)" by (simp add: CreatePipe_def)
    have "distinct (rr # wp # map fst (k_tables k1 service))"
      using assms(2) k1 by (auto simp: fresh_answers_def descriptors_def Inr d1 Inr2 d2 CreatePipe_def)
    then have "tables_ok k2" using pipe_tables_ok [OF k2 ok1] assms(4) by (simp add: p1)
    moreover have "k' = k2" using assms(1) by (simp add: create_child_def Inr d1 k1 Inr2 d2 k2 Let_def split: option.splits)
    ultimately show ?thesis by (auto simp: p1 pipe_made [OF k2])
  qed
qed

section \<open>The invariant of the links\<close>

text \<open>
  An open link holds its two ends in the service and a running stream holds the two others; only the process
  of the stream can write responses, and it holds no writing end of a pipe that was made after its own; each
  pipe holds what one side wrote and the other did not read yet.
\<close>

definition link_ok :: "pid \<Rightarrow> kernel \<Rightarrow> pipe_id \<Rightarrow> stream_link \<Rightarrow> bool" where
  "link_ok service k q l \<longleftrightarrow> q < k_next k \<and> lk_responses l < k_next k \<and> lk_responses l \<noteq> q
     \<and> (lk_open l \<longrightarrow> holds k service (pc_read_fd (lk_service l)) (Reads (lk_responses l)) \<and> holds k service (pc_write_fd (lk_service l)) (Writes q))
     \<and> (lk_alive l \<longrightarrow> lk_pid l \<noteq> service \<and> holds k (lk_pid l) (pc_read_fd (lk_child l)) (Reads q)
          \<and> holds k (lk_pid l) (pc_write_fd (lk_child l)) (Writes (lk_responses l))
          \<and> (\<forall>fd x. holds k (lk_pid l) fd (Writes x) \<longrightarrow> x < q \<or> x = lk_responses l))
     \<and> (\<forall>p fd. holds k p fd (Writes (lk_responses l)) \<longrightarrow> lk_alive l \<and> p = lk_pid l)
     \<and> lk_sent l = lk_received l @ k_data k q \<and> lk_answered l = lk_heard l @ k_data k (lk_responses l)"

text \<open>The processes that exist are the service and the running streams.\<close>

definition procs_ok :: "pid \<Rightarrow> kernel \<Rightarrow> (pipe_id \<rightharpoonup> stream_link) \<Rightarrow> bool" where
  "procs_ok service k links \<longleftrightarrow> (\<forall>p\<in>set (k_procs k). p = service \<or> (\<exists>q l. links q = Some l \<and> lk_alive l \<and> lk_pid l = p))"

definition apart :: "pipe_id \<Rightarrow> stream_link \<Rightarrow> pipe_id \<Rightarrow> stream_link \<Rightarrow> bool" where
  "apart q l q' l' \<longleftrightarrow> lk_responses l \<noteq> q' \<and> lk_responses l' \<noteq> q \<and> lk_responses l \<noteq> lk_responses l'
     \<and> (lk_alive l \<longrightarrow> lk_alive l' \<longrightarrow> lk_pid l \<noteq> lk_pid l')"

definition links_inv :: "pid \<Rightarrow> link_system \<Rightarrow> bool" where
  "links_inv service y \<longleftrightarrow> tables_ok (sy_kernel y) \<and> service \<in> set (k_procs (sy_kernel y))
     \<and> procs_ok service (sy_kernel y) (sy_links y) \<and> (\<forall>q l. sy_links y q = Some l \<longrightarrow> link_ok service (sy_kernel y) q l)
     \<and> (\<forall>q l q' l'. sy_links y q = Some l \<longrightarrow> sy_links y q' = Some l' \<longrightarrow> q \<noteq> q' \<longrightarrow> apart q l q' l')"

lemma apart_sym: "apart q l q' l' \<longleftrightarrow> apart q' l' q l"
  by (auto simp: apart_def)

text \<open>The invariant is checked for the changed link and for the others alone.\<close>

lemma links_inv_update:
  assumes "links_inv service y" "tables_ok k" "service \<in> set (k_procs k)" "link_ok service k q l"
    "procs_ok service k ((sy_links y)(q \<mapsto> l))" "\<And>q' l'. sy_links y q' = Some l' \<Longrightarrow> q' \<noteq> q \<Longrightarrow> link_ok service k q' l' \<and> apart q l q' l'"
  shows "links_inv service (y\<lparr>sy_kernel := k, sy_links := (sy_links y)(q \<mapsto> l)\<rparr>)"
  using assms unfolding links_inv_def by (auto simp: apart_sym [of _ _ q l])

lemma procs_ok_update:
  assumes "procs_ok service k links" "\<And>p. p \<in> set (k_procs k') \<Longrightarrow> p \<in> set (k_procs k) \<or> lk_alive l' \<and> p = lk_pid l'"
    "\<And>l. links q = Some l \<Longrightarrow> lk_alive l \<Longrightarrow> lk_pid l \<in> set (k_procs k') \<Longrightarrow> lk_alive l' \<and> lk_pid l' = lk_pid l"
  shows "procs_ok service k' (links(q \<mapsto> l'))"
  unfolding procs_ok_def
proof
  fix p assume p: "p \<in> set (k_procs k')"
  then consider "lk_alive l' \<and> p = lk_pid l'" | "p = service" | q0 l0 where "links q0 = Some l0" "lk_alive l0" "lk_pid l0 = p"
    using assms(1) assms(2) [OF p] unfolding procs_ok_def by blast
  then show "p = service \<or> (\<exists>q0 l0. (links(q \<mapsto> l')) q0 = Some l0 \<and> lk_alive l0 \<and> lk_pid l0 = p)"
  proof cases
    case 1
    then show ?thesis by (intro disjI2 exI [of _ q] exI [of _ l']) simp
  next
    case (3 q0 l0)
    then show ?thesis using assms(3) [of l0] p by (cases "q0 = q") (fastforce intro: exI [of _ q0] exI [of _ q])+
  qed simp
qed

lemma link_ok_data:
  "x \<noteq> q \<Longrightarrow> x \<noteq> lk_responses l \<Longrightarrow> link_ok service (k\<lparr>k_data := (k_data k)(x := v)\<rparr>) q l \<longleftrightarrow> link_ok service k q l"
  by (simp add: link_ok_def)

lemma data_tables_ok: "tables_ok k \<Longrightarrow> x < k_next k \<Longrightarrow> tables_ok (k\<lparr>k_data := (k_data k)(x := v)\<rparr>)"
  by (simp add: tables_ok_def)

text \<open>Reading and writing through the end of a pipe that the process holds.\<close>

lemma write_held:
  assumes "os_write p fd data room k = (Some n, k')" "holds k p fd (Writes x)" "tables_ok k"
  shows "k' = k\<lparr>k_data := (k_data k)(x := k_data k x @ take n data)\<rparr>"
proof -
  have "map_of (k_tables k p) fd = Some (Writes x)" using assms(2,3) by (simp add: looked_up)
  then show ?thesis using assms(1) by (auto simp: os_write_def min_def split: if_splits)
qed

lemma read_held:
  assumes "os_read p fd m k = (Got bytes, k')" "holds k p fd (Reads x)" "tables_ok k"
  shows "k' = k\<lparr>k_data := (k_data k)(x := drop m (k_data k x))\<rparr>" "bytes = take m (k_data k x)"
proof -
  have "map_of (k_tables k p) fd = Some (Reads x)" using assms(2,3) by (simp add: looked_up)
  then show "k' = k\<lparr>k_data := (k_data k)(x := drop m (k_data k x))\<rparr>" "bytes = take m (k_data k x)"
    using assms(1) by (auto simp: os_read_def split: if_splits)
qed

text \<open>A transfer changes the bytes of one pipe of one link.\<close>

lemma transfer_inv:
  assumes "links_inv service y" "sy_links y q = Some l" "x \<in> {q, lk_responses l}"
    "link_ok service (sy_kernel y\<lparr>k_data := (k_data (sy_kernel y))(x := v)\<rparr>) q l'"
    "lk_fork l' = lk_fork l" "lk_responses l' = lk_responses l" "lk_alive l' = lk_alive l"
  shows "links_inv service (y\<lparr>sy_kernel := sy_kernel y\<lparr>k_data := (k_data (sy_kernel y))(x := v)\<rparr>, sy_links := (sy_links y)(q \<mapsto> l')\<rparr>)"
proof (rule links_inv_update [OF assms(1) _ _ assms(4)])
  have inv: "tables_ok (sy_kernel y)" "service \<in> set (k_procs (sy_kernel y))" "link_ok service (sy_kernel y) q l"
    "procs_ok service (sy_kernel y) (sy_links y)"
    using assms(1,2) by (simp_all add: links_inv_def)
  show "procs_ok service (sy_kernel y\<lparr>k_data := (k_data (sy_kernel y))(x := v)\<rparr>) ((sy_links y)(q \<mapsto> l'))"
    by (rule procs_ok_update [OF inv(4)]) (use assms(2,5,7) in simp_all)
  show "tables_ok (sy_kernel y\<lparr>k_data := (k_data (sy_kernel y))(x := v)\<rparr>)"
    using inv(1,3) assms(3) by (auto simp: link_ok_def intro!: data_tables_ok)
  show "service \<in> set (k_procs (sy_kernel y\<lparr>k_data := (k_data (sy_kernel y))(x := v)\<rparr>))" using inv(2) by simp
  fix q' m assume m: "sy_links y q' = Some m" "q' \<noteq> q"
  then have a: "apart q l q' m" and ok: "link_ok service (sy_kernel y) q' m" using assms(1,2) by (auto simp: links_inv_def)
  have "x \<noteq> q'" "x \<noteq> lk_responses m" using a m(2) assms(3) by (auto simp: apart_def)
  then show "link_ok service (sy_kernel y\<lparr>k_data := (k_data (sy_kernel y))(x := v)\<rparr>) q' m \<and> apart q l' q' m"
    using a ok assms(5-7) by (simp add: link_ok_data apart_def)
qed

lemma holds_unique: "tables_ok k \<Longrightarrow> holds k p fd e \<Longrightarrow> holds k p fd e' \<Longrightarrow> e = e'"
  using looked_up [of k p fd e] looked_up [of k p fd e'] by simp

lemma holds_known: "tables_ok k \<Longrightarrow> holds k p fd e \<Longrightarrow> p \<in> set (k_procs k) \<and> pipe_of e < k_next k"
  by (auto simp: tables_ok_def)

lemma started_inv:
  assumes inv: "links_inv service y" and E: "fresh_answers service E (sy_kernel y)" "create_child service E (sy_kernel y) = ((None, Some f), k)"
  shows "links_inv service (y\<lparr>sy_kernel := k, sy_links := (sy_links y)(k_next (sy_kernel y) \<mapsto> new_link f (k_next (sy_kernel y) + 1))\<rparr>)"
proof -
  have ok: "tables_ok (sy_kernel y)" "service \<in> set (k_procs (sy_kernel y))" using inv by (simp_all add: links_inv_def)
  note c = create_child_started [OF E(2,1) ok]
  have pid: "fk_pid f \<noteq> service" using c(2) ok(2) by auto
  have new: "\<not> holds (sy_kernel y) p fd (Writes (k_next (sy_kernel y) + 1))" for p fd using holds_known [OF ok(1)] by fastforce
  have old: "holds (sy_kernel y) p fd (Writes x) \<Longrightarrow> x < k_next (sy_kernel y)" for p fd x using holds_known [OF ok(1)] by fastforce
  have data: "k_data (sy_kernel y) q = []" if "k_next (sy_kernel y) \<le> q" for q using ok(1) that by (simp add: tables_ok_def)
  show ?thesis
  proof (rule links_inv_update [OF inv c(3)])
    show "service \<in> set (k_procs k)" using ok(2) by (simp add: c(4))
    have "procs_ok service (sy_kernel y) (sy_links y)" using inv by (simp add: links_inv_def)
    moreover have "sy_links y (k_next (sy_kernel y)) = None" using inv by (cases "sy_links y (k_next (sy_kernel y))") (auto simp: links_inv_def link_ok_def)
    ultimately show "procs_ok service k ((sy_links y)(k_next (sy_kernel y) \<mapsto> new_link f (k_next (sy_kernel y) + 1)))"
      by (rule_tac procs_ok_update) (auto simp: c(4) new_link_def)
    show "link_ok service k (k_next (sy_kernel y)) (new_link f (k_next (sy_kernel y) + 1))"
      using pid new data old by (auto simp: link_ok_def new_link_def c(5,6,7) split: if_splits)
    fix q l assume "sy_links y q = Some l" "q \<noteq> k_next (sy_kernel y)"
    then have l: "link_ok service (sy_kernel y) q l" using inv by (simp add: links_inv_def)
    have other: "lk_alive l \<Longrightarrow> lk_pid l \<noteq> fk_pid f" using l c(2) holds_known [OF ok(1)] by (auto simp: link_ok_def)
    have "\<not> holds (sy_kernel y) service fd (Writes (lk_responses l))" for fd using l by (auto simp: link_ok_def)
    then have "link_ok service k q l"
      using l other pid unfolding link_ok_def by (auto simp: c(5,6,7) split: if_splits)
    moreover have "apart (k_next (sy_kernel y)) (new_link f (k_next (sy_kernel y) + 1)) q l"
      using l other by (auto simp: apart_def new_link_def link_ok_def)
    ultimately show "link_ok service k q l \<and> apart (k_next (sy_kernel y)) (new_link f (k_next (sy_kernel y) + 1)) q l" ..
  qed
qed

lemma not_started_inv:
  assumes inv: "links_inv service y" and E: "fresh_answers service E (sy_kernel y)" "create_child service E (sy_kernel y) = ((r, None), k)"
  shows "links_inv service (y\<lparr>sy_kernel := k\<rparr>)"
proof -
  have ok: "tables_ok (sy_kernel y)" "service \<in> set (k_procs (sy_kernel y))" using inv by (simp_all add: links_inv_def)
  note c = create_child_not_started [OF E(2,1) ok]
  have "link_ok service k q l" if "sy_links y q = Some l" for q l
  proof -
    have l: "link_ok service (sy_kernel y) q l" using inv that by (simp add: links_inv_def)
    then have "lk_responses l < k_next (sy_kernel y)" by (simp add: link_ok_def)
    then have "holds k p fd (Writes (lk_responses l)) \<Longrightarrow> holds (sy_kernel y) p fd (Writes (lk_responses l))" for p fd
      using c by (meson leD)
    then have "\<forall>p fd. holds k p fd (Writes (lk_responses l)) \<longrightarrow> lk_alive l \<and> p = lk_pid l" using l by (auto simp: link_ok_def)
    moreover have "\<forall>fd x. holds k (lk_pid l) fd (Writes x) \<longrightarrow> x < q \<or> x = lk_responses l" if "lk_alive l"
    proof -
      have "lk_pid l \<noteq> service" using l that by (simp add: link_ok_def)
      then have "holds k (lk_pid l) fd (Writes x) \<Longrightarrow> holds (sy_kernel y) (lk_pid l) fd (Writes x)" for fd x using c by blast
      moreover have "\<forall>fd x. holds (sy_kernel y) (lk_pid l) fd (Writes x) \<longrightarrow> x < q \<or> x = lk_responses l"
        using l that by (simp add: link_ok_def)
      ultimately show ?thesis by blast
    qed
    moreover have "q < k_next k" "lk_responses l < k_next k" using l c by (auto simp: link_ok_def)
    ultimately show ?thesis using l c by (simp add: link_ok_def)
  qed
  moreover have "procs_ok service k (sy_links y)" using inv c by (simp add: links_inv_def procs_ok_def)
  ultimately show ?thesis using inv c ok(2) by (simp add: links_inv_def)
qed

lemma exit_inv:
  assumes inv: "links_inv service y" and l: "sy_links y q = Some l" "lk_alive l"
  shows "links_inv service (y\<lparr>sy_kernel := child_exit (lk_pid l) (lk_child l) (sy_kernel y), sy_links := (sy_links y)(q \<mapsto> l\<lparr>lk_alive := False\<rparr>)\<rparr>)"
proof (rule links_inv_update [OF inv])
  let ?k = "child_exit (lk_pid l) (lk_child l) (sy_kernel y)"
  have ok: "tables_ok (sy_kernel y)" "service \<in> set (k_procs (sy_kernel y))" "link_ok service (sy_kernel y) q l"
    using inv l(1) by (simp_all add: links_inv_def)
  have h: "holds ?k p fd e \<longleftrightarrow> p \<noteq> lk_pid l \<and> holds (sy_kernel y) p fd e" for p fd e by (auto simp: child_exit_def pipe_DoClose_def)
  have d: "k_data ?k = k_data (sy_kernel y)" "k_next ?k = k_next (sy_kernel y)" by (simp_all add: child_exit_def pipe_DoClose_def)
  have s: "lk_pid l \<noteq> service" using ok(3) l(2) by (simp add: link_ok_def)
  show "tables_ok ?k" using ok(1) by (simp add: child_exit_def pipe_DoClose_def close_tables_ok exit_tables_ok)
  show "service \<in> set (k_procs ?k)" using ok(2) s by (auto simp: child_exit_def pipe_DoClose_def)
  show "procs_ok service ?k ((sy_links y)(q \<mapsto> l\<lparr>lk_alive := False\<rparr>))"
    by (rule procs_ok_update [of service "sy_kernel y"]) (use inv l in \<open>auto simp: links_inv_def child_exit_def pipe_DoClose_def\<close>)
  show "link_ok service ?k q (l\<lparr>lk_alive := False\<rparr>)" using ok(3) s unfolding link_ok_def h d by auto
  fix q' l' assume "sy_links y q' = Some l'" "q' \<noteq> q"
  then have l': "link_ok service (sy_kernel y) q' l'" "apart q l q' l'" using inv l(1) by (auto simp: links_inv_def)
  then show "link_ok service ?k q' l' \<and> apart q (l\<lparr>lk_alive := False\<rparr>) q' l'"
    using s l(2) unfolding link_ok_def h d by (auto simp: apart_def)
qed

lemma close_inv:
  assumes inv: "links_inv service y" and l: "sy_links y q = Some l" "lk_open l"
  shows "links_inv service (y\<lparr>sy_kernel := pipe_DoClose service (lk_service l) (sy_kernel y), sy_links := (sy_links y)(q \<mapsto> l\<lparr>lk_open := False\<rparr>)\<rparr>)"
proof (rule links_inv_update [OF inv])
  let ?k = "pipe_DoClose service (lk_service l) (sy_kernel y)"
  have ok: "tables_ok (sy_kernel y)" "service \<in> set (k_procs (sy_kernel y))" "link_ok service (sy_kernel y) q l"
    using inv l(1) by (simp_all add: links_inv_def)
  have h: "holds ?k p fd e \<longleftrightarrow> holds (sy_kernel y) p fd e
      \<and> (p = service \<longrightarrow> fd \<noteq> pc_read_fd (lk_service l) \<and> fd \<noteq> pc_write_fd (lk_service l))" for p fd e
    by (auto simp: pipe_DoClose_def)
  have d: "k_data ?k = k_data (sy_kernel y)" "k_next ?k = k_next (sy_kernel y)" by (simp_all add: pipe_DoClose_def)
  have u: "holds (sy_kernel y) service fd e \<Longrightarrow> e \<noteq> Reads (lk_responses l) \<Longrightarrow> e \<noteq> Writes q
      \<Longrightarrow> fd \<noteq> pc_read_fd (lk_service l) \<and> fd \<noteq> pc_write_fd (lk_service l)" for fd e
    using ok(3) l(2) holds_unique [OF ok(1)] by (auto simp: link_ok_def)
  show "tables_ok ?k" using ok(1) by (simp add: pipe_DoClose_def close_tables_ok)
  show "service \<in> set (k_procs ?k)" using ok(2) by (simp add: pipe_DoClose_def)
  show "procs_ok service ?k ((sy_links y)(q \<mapsto> l\<lparr>lk_open := False\<rparr>))"
    by (rule procs_ok_update [of service "sy_kernel y"]) (use inv l in \<open>auto simp: links_inv_def pipe_DoClose_def\<close>)
  show "link_ok service ?k q (l\<lparr>lk_open := False\<rparr>)" using ok(3) unfolding link_ok_def h d by auto
  fix q' l' assume q': "sy_links y q' = Some l'" "q' \<noteq> q"
  then have l': "link_ok service (sy_kernel y) q' l'" "apart q l q' l'" using inv l(1) by (auto simp: links_inv_def)
  have "lk_open l' \<Longrightarrow> pc_read_fd (lk_service l') \<noteq> pc_read_fd (lk_service l) \<and> pc_read_fd (lk_service l') \<noteq> pc_write_fd (lk_service l)"
    "lk_open l' \<Longrightarrow> pc_write_fd (lk_service l') \<noteq> pc_read_fd (lk_service l) \<and> pc_write_fd (lk_service l') \<noteq> pc_write_fd (lk_service l)"
    using l' q'(2) u [of "pc_read_fd (lk_service l')" "Reads (lk_responses l')"] u [of "pc_write_fd (lk_service l')" "Writes q'"]
    by (simp_all add: link_ok_def apart_def)
  then show "link_ok service ?k q' l' \<and> apart q (l\<lparr>lk_open := False\<rparr>) q' l'"
    using l' unfolding link_ok_def h d by (auto simp: apart_def)
qed

lemma links_reach_inv: "links_reach service y \<Longrightarrow> links_inv service y"
proof (induction rule: links_reach.induct)
  case reach_start
  then show ?case by (simp add: links_inv_def tables_ok_def kernel0_def holds_def procs_ok_def)
next
  case (reach_step y y')
  have ok: "tables_ok (sy_kernel y)" "\<And>q l. sy_links y q = Some l \<Longrightarrow> link_ok service (sy_kernel y) q l"
    using reach_step.IH by (auto simp: links_inv_def)
  from reach_step.hyps(2) show ?case
  proof cases
    case (service_writes q l data room n k)
    then have k: "k = sy_kernel y\<lparr>k_data := (k_data (sy_kernel y))(q := k_data (sy_kernel y) q @ take n data)\<rparr>"
      using write_held [OF _ _ ok(1)] ok(2) by (fastforce simp: pipe_SingleWrite_def link_ok_def)
    show ?thesis unfolding service_writes(1) k
      by (rule transfer_inv [OF reach_step.IH service_writes(2)]) (use ok(2) [OF service_writes(2)] in \<open>auto simp: link_ok_def\<close>)
  next
    case (stream_writes q l data room n k)
    then have k: "k = sy_kernel y\<lparr>k_data := (k_data (sy_kernel y))(lk_responses l := k_data (sy_kernel y) (lk_responses l) @ take n data)\<rparr>"
      using write_held [OF _ _ ok(1)] ok(2) by (fastforce simp: pipe_SingleWrite_def link_ok_def)
    show ?thesis unfolding stream_writes(1) k
      by (rule transfer_inv [OF reach_step.IH stream_writes(2)]) (use ok(2) [OF stream_writes(2)] in \<open>auto simp: link_ok_def\<close>)
  next
    case (stream_reads q l m bytes k)
    have h: "holds (sy_kernel y) (lk_pid l) (pc_read_fd (lk_child l)) (Reads q)" using ok(2) [OF stream_reads(2)] stream_reads(3) by (simp add: link_ok_def)
    note r = read_held [OF stream_reads(4) [unfolded pipe_SingleRead_def] h ok(1)]
    show ?thesis unfolding stream_reads(1) r
      by (rule transfer_inv [OF reach_step.IH stream_reads(2)]) (use ok(2) [OF stream_reads(2)] in \<open>auto simp: link_ok_def\<close>)
  next
    case (service_reads q l m bytes k)
    have h: "holds (sy_kernel y) service (pc_read_fd (lk_service l)) (Reads (lk_responses l))"
      using ok(2) [OF service_reads(2)] service_reads(3) by (simp add: link_ok_def)
    note r = read_held [OF service_reads(4) [unfolded pipe_SingleRead_def] h ok(1)]
    show ?thesis unfolding service_reads(1) r
      by (rule transfer_inv [OF reach_step.IH service_reads(2)]) (use ok(2) [OF service_reads(2)] in \<open>auto simp: link_ok_def\<close>)
  next
    case (started E f k)
    show ?thesis unfolding started(1) by (rule started_inv [OF reach_step.IH started(2,3)])
  qed (simp_all add: not_started_inv exit_inv close_inv reach_step.IH)
qed

section \<open>Messages and ends\<close>

lemma end_of_file:
  assumes "tables_ok k" "holds k p fd (Reads x)"
  shows "fst (os_read p fd m k) = End_of_file \<longleftrightarrow> k_data k x = [] \<and> (\<forall>p fd. \<not> holds k p fd (Writes x))"
proof -
  have "map_of (k_tables k p) fd = Some (Reads x)" using assms by (simp add: looked_up)
  then show ?thesis by (auto simp: os_read_def has_end_holds [OF assms(1)])
qed

text \<open>
  (C8) Whatever streams are started, fail to start, write, read and end, in any order: what the service
  writes to a stream is what that stream reads, followed by what is still in the pipe, and likewise for what
  the stream answers; no byte is lost, repeated or delivered to another process. The service sees the end
  of the pipe of a stream exactly when the process of this stream has ended and all its bytes were read.
\<close>

theorem pipes_connect_service_and_streams:
  assumes "links_reach service y" "sy_links y q = Some l"
  shows "lk_sent l = lk_received l @ k_data (sy_kernel y) q
    \<and> lk_answered l = lk_heard l @ k_data (sy_kernel y) (lk_responses l)
    \<and> (lk_open l \<longrightarrow> (fst (pipe_SingleRead service (lk_service l) m (sy_kernel y)) = End_of_file
          \<longleftrightarrow> \<not> lk_alive l \<and> k_data (sy_kernel y) (lk_responses l) = []))"
proof -
  have inv: "tables_ok (sy_kernel y)" "link_ok service (sy_kernel y) q l"
    using links_reach_inv [OF assms(1)] assms(2) by (simp_all add: links_inv_def)
  have "fst (pipe_SingleRead service (lk_service l) m (sy_kernel y)) = End_of_file
      \<longleftrightarrow> \<not> lk_alive l \<and> k_data (sy_kernel y) (lk_responses l) = []" if "lk_open l"
    using that inv end_of_file [OF inv(1), of service "pc_read_fd (lk_service l)" "lk_responses l" m]
    by (auto simp: pipe_SingleRead_def link_ok_def)
  then show ?thesis using inv(2) by (simp add: link_ok_def)
qed

text \<open>The system after a second stream was started, and a first one that was sent a command and has ended.\<close>

definition demo_child :: "int \<Rightarrow> pid \<Rightarrow> child_env" where
  "demo_child n pid = \<lparr>ce_pipe1 = Inr (n, n + 1), ce_pipe2 = Inr (n + 2, n + 3), ce_fork = Some pid\<rparr>"

definition demo_kernel :: "nat \<Rightarrow> kernel" where
  "demo_kernel n = (if n = 0 then kernel0 1 else if n = 1 then snd (create_child 1 (demo_child 3 20) (kernel0 1))
     else snd (create_child 1 (demo_child 30 21) (snd (create_child 1 (demo_child 3 20) (kernel0 1)))))"

lemmas demo_kernel_defs = demo_kernel_def create_child_def CreatePipe_def demo_child_def kernel0_def os_fork_def close_descriptor_def

text \<open>
  The other direction is not as good: a stream that was started later keeps the service's ends of the pipes of
  earlier streams, which no one closes in it. When the service dies, a single stream sees the end of its
  commands; with a second stream running, the first one waits for commands that cannot come.
\<close>

lemma later_stream_hides_end_of_service:
  "fst (os_read 20 3 10 (os_exit 1 (demo_kernel 1))) = End_of_file"
  "fst (os_read 20 3 10 (os_exit 1 (demo_kernel 2))) = Would_block"
  by (simp_all add: demo_kernel_defs os_exit_def os_read_def has_end_def)

text \<open>
  The most recently started of the running streams does see the end: no process but the service holds the
  writing end of its commands. The streams of a service that died therefore end one after the other, the
  latest first.
\<close>

lemma latest_stream_sees_end_of_service:
  assumes "links_reach service y" "sy_links y q = Some l" "lk_alive l"
    and latest: "\<forall>q' l'. sy_links y q' = Some l' \<longrightarrow> lk_alive l' \<longrightarrow> q' \<le> q"
  shows "fst (pipe_SingleRead (lk_pid l) (lk_child l) m (os_exit service (sy_kernel y))) = End_of_file
    \<longleftrightarrow> lk_received l = lk_sent l"
proof -
  let ?k = "os_exit service (sy_kernel y)"
  have inv: "tables_ok (sy_kernel y)" "procs_ok service (sy_kernel y) (sy_links y)"
    "\<And>q l. sy_links y q = Some l \<Longrightarrow> link_ok service (sy_kernel y) q l"
    "\<And>q' l'. sy_links y q' = Some l' \<Longrightarrow> q' \<noteq> q \<Longrightarrow> apart q l q' l'"
    using links_reach_inv [OF assms(1)] assms(2) by (auto simp: links_inv_def)
  have l: "holds ?k (lk_pid l) (pc_read_fd (lk_child l)) (Reads q)" "lk_sent l = lk_received l @ k_data ?k q" "lk_responses l \<noteq> q"
    using inv(3) [OF assms(2)] assms(3) by (simp_all add: link_ok_def)
  have "\<not> holds ?k p fd (Writes q)" for p fd
  proof
    assume "holds ?k p fd (Writes q)"
    then have h: "p \<noteq> service" "holds (sy_kernel y) p fd (Writes q)" by simp_all
    then obtain q' l' where q': "sy_links y q' = Some l'" "lk_alive l'" "lk_pid l' = p"
      using inv(2) holds_known [OF inv(1) h(2)] by (auto simp: procs_ok_def)
    have "q < q' \<or> q = lk_responses l'" using inv(3) [OF q'(1)] q'(2,3) h(2) unfolding link_ok_def by blast
    moreover have "q' \<le> q" using latest q'(1,2) by blast
    ultimately show False using inv(4) [OF q'(1)] l(3) q'(1) assms(2) by (cases "q' = q") (auto simp: apart_def)
  qed
  then show ?thesis using end_of_file [OF exit_tables_ok [OF inv(1)] l(1)] l(2) by (simp add: pipe_SingleRead_def)
qed

definition demo_link :: stream_link where
  "demo_link = new_link \<lparr>fk_pid = 20, fk_service = \<lparr>pc_read_fd = 5, pc_write_fd = 4\<rparr>, fk_child = \<lparr>pc_read_fd = 3, pc_write_fd = 6\<rparr>\<rparr> 1"

lemmas demo_link_defs = demo_link_def new_link_def pipe_SingleWrite_def pipe_SingleRead_def os_write_def os_read_def has_end_def

lemma demo_started: "links_reach 1 \<lparr>sy_kernel = demo_kernel 1, sy_links = [0 \<mapsto> demo_link]\<rparr>"
proof -
  have "link_step 1 \<lparr>sy_kernel = kernel0 1, sy_links = Map.empty\<rparr> \<lparr>sy_kernel = demo_kernel 1, sy_links = [0 \<mapsto> demo_link]\<rparr>"
    using link_step.started [of 1 "demo_child 3 20" "\<lparr>sy_kernel = kernel0 1, sy_links = Map.empty\<rparr>" "lk_fork demo_link" "demo_kernel 1"]
    by (simp add: demo_kernel_defs demo_link_def new_link_def fresh_answers_def descriptors_def)
  then show ?thesis by (rule links_reach.reach_step [OF links_reach.reach_start])
qed

theorem pipes_connect_service_and_streams_witness:
  "\<exists>y l. links_reach 1 y \<and> sy_links y 0 = Some l \<and> lk_sent l = [1, 2] \<and> lk_received l = [1] \<and> k_data (sy_kernel y) 0 = [2]
     \<and> fst (pipe_SingleRead 1 (lk_service l) 10 (sy_kernel y)) = End_of_file"
proof -
  let ?k0 = "demo_kernel 1"
  let ?k1 = "?k0\<lparr>k_data := (k_data ?k0)(0 := [1, 2])\<rparr>"
  let ?k2 = "?k1\<lparr>k_data := (k_data ?k1)(0 := [2])\<rparr>"
  let ?k3 = "child_exit 20 \<lparr>pc_read_fd = 3, pc_write_fd = 6\<rparr> ?k2"
  let ?l1 = "demo_link\<lparr>lk_sent := [1, 2]\<rparr>"
  let ?l2 = "?l1\<lparr>lk_received := [1]\<rparr>"
  let ?y0 = "\<lparr>sy_kernel = ?k0, sy_links = [0 \<mapsto> demo_link]\<rparr>"
  note r0 = demo_started
  have "pipe_SingleWrite 1 (lk_service demo_link) [1, 2] 5 ?k0 = (Some 2, ?k1)"
    by (simp add: demo_kernel_defs demo_link_defs)
  then have "link_step 1 ?y0 \<lparr>sy_kernel = ?k1, sy_links = [0 \<mapsto> ?l1]\<rparr>"
    using link_step.service_writes [of ?y0 0 demo_link 1 "[1, 2]" 5 2 ?k1] by (simp add: demo_link_def new_link_def)
  then have r1: "links_reach 1 \<lparr>sy_kernel = ?k1, sy_links = [0 \<mapsto> ?l1]\<rparr>" by (rule links_reach.reach_step [OF r0])
  have "pipe_SingleRead (lk_pid ?l1) (lk_child ?l1) 1 ?k1 = (Got [1], ?k2)"
    by (simp add: demo_kernel_defs demo_link_defs)
  then have "link_step 1 \<lparr>sy_kernel = ?k1, sy_links = [0 \<mapsto> ?l1]\<rparr> \<lparr>sy_kernel = ?k2, sy_links = [0 \<mapsto> ?l2]\<rparr>"
    using link_step.stream_reads [of "\<lparr>sy_kernel = ?k1, sy_links = [0 \<mapsto> ?l1]\<rparr>" 0 ?l1 1 "[1]" ?k2 1] by (simp add: demo_link_def new_link_def)
  then have r2: "links_reach 1 \<lparr>sy_kernel = ?k2, sy_links = [0 \<mapsto> ?l2]\<rparr>" by (rule links_reach.reach_step [OF r1])
  have "link_step 1 \<lparr>sy_kernel = ?k2, sy_links = [0 \<mapsto> ?l2]\<rparr> \<lparr>sy_kernel = ?k3, sy_links = [0 \<mapsto> ?l2\<lparr>lk_alive := False\<rparr>]\<rparr>"
    using link_step.stream_exits [of "\<lparr>sy_kernel = ?k2, sy_links = [0 \<mapsto> ?l2]\<rparr>" 0 ?l2 1] by (simp add: demo_link_def new_link_def)
  then have r3: "links_reach 1 \<lparr>sy_kernel = ?k3, sy_links = [0 \<mapsto> ?l2\<lparr>lk_alive := False\<rparr>]\<rparr>" by (rule links_reach.reach_step [OF r2])
  show ?thesis
    using pipes_connect_service_and_streams [OF r3, of 0 "?l2\<lparr>lk_alive := False\<rparr>" 10] r3
    by (intro exI [of _ "\<lparr>sy_kernel = ?k3, sy_links = [0 \<mapsto> ?l2\<lparr>lk_alive := False\<rparr>]\<rparr>"] exI [of _ "?l2\<lparr>lk_alive := False\<rparr>"])
       (simp add: demo_link_def new_link_def demo_kernel_defs child_exit_def os_exit_def pipe_DoClose_def)
qed

section \<open>The books of the service\<close>

text \<open>
  The count of descriptors that the service keeps follows its table of descriptors: the outcome of a launch
  is that of the system calls, a stream is registered exactly when there is a process, under its number, and
  the count grows by the descriptors that are left open.
\<close>

lemma filter_fresh: "fd \<notin> fst ` set xs \<Longrightarrow> filter (\<lambda>(f, _). f \<noteq> fd) xs = xs"
  by (induction xs) auto

theorem launch_follows_system_calls:
  assumes "fresh_answers service C k" "service \<in> set (k_procs k)"
    "en_pipe1 E = (case ce_pipe1 C of Inl err \<Rightarrow> Some err | Inr _ \<Rightarrow> None)"
    "en_pipe2 E = (case ce_pipe2 C of Inl err \<Rightarrow> Some err | Inr _ \<Rightarrow> None)" "en_fork E = ce_fork C"
    "create_child service C k = ((r, f), k')"
  shows "\<exists>D'. launch E mem D = (r, D')
    \<and> dm_fds D' + length (k_tables k service) = dm_fds D + length (k_tables k' service)
    \<and> (case f of None \<Rightarrow> dm_children D' = dm_children D
       | Some f \<Rightarrow> (\<exists>ch. dm_children D' = dm_children D @ [ch] \<and> ch_pid ch = fk_pid f))"
proof -
  show ?thesis
  proof (cases "ce_pipe1 C")
    case (Inl err)
    then have e: "en_pipe1 E = Some err" using assms(3) by simp
    show ?thesis using assms(6) Inl by (auto simp: launch_def e create_child_def CreatePipe_def)
  next
    case (Inr d1)
    obtain rc wr where d1: "d1 = (rc, wr)" by (cases d1)
    have e1: "en_pipe1 E = None" using assms(3) Inr by simp
    show ?thesis
    proof (cases "ce_pipe2 C")
      case (Inl err)
      then have e: "en_pipe2 E = Some err" using assms(4) by simp
      show ?thesis using assms(6) Inl by (auto simp: launch_def e e1 create_child_def CreatePipe_def Inr d1)
    next
      case Inr2: (Inr d2)
      obtain rr wp where d2: "d2 = (rr, wp)" by (cases d2)
      have e2: "en_pipe2 E = None" using assms(4) Inr2 by simp
      have fresh: "distinct [rc, wr, rr, wp]" "{rc, wr, rr, wp} \<inter> fst ` set (k_tables k service) = {}"
        using assms(1) by (auto simp: fresh_answers_def descriptors_def Inr d1 Inr2 d2)
      show ?thesis
      proof (cases "ce_fork C")
        case None
        then show ?thesis using assms(5,6) by (auto simp: launch_def e1 e2 create_child_def CreatePipe_def Inr d1 Inr2 d2)
      next
        case (Some pid)
        have "pid \<noteq> service" using assms(1,2) by (auto simp: fresh_answers_def Some)
        then have "length (k_tables k' service) = length (k_tables k service) + 2"
          using assms(6) fresh
          by (auto simp: create_child_def CreatePipe_def Inr d1 Inr2 d2 Some Let_def os_fork_def close_descriptor_def filter_fresh
              simp del: filter_filter)
        then show ?thesis using assms(5,6)
          by (auto simp: launch_def e1 e2 create_child_def CreatePipe_def Inr d1 Inr2 d2 Some Let_def)
      qed
    qed
  qed
qed

section \<open>The name of a stream process\<close>

text \<open>
  The name fits exactly when it is shorter than the argument strings of the service; the identifier of the
  stream is not bounded, so for every command line some accepted identifier writes past them.
\<close>

lemma argument_area_length: "length (argument_area argv) = sum_list (map (\<lambda>a. length a + 1) argv)"
  by (simp add: argument_area_def length_concat comp_def)

lemma renaming_fits:
  "rename_process name stream_id argv = Abort \<longleftrightarrow> sum_list (map (\<lambda>a. length a + 1) argv) \<le> length name + length stream_id + 1"
  by (auto simp: rename_process_def argument_area_length Let_def)

lemma renaming_overflows: "\<exists>stream_id. stream_id \<noteq> [] \<and> rename_process name stream_id argv = Abort"
  by (rule exI [of _ "replicate (Suc (sum_list (map (\<lambda>a. length a + 1) argv))) CHR ''x''"]) (simp add: renaming_fits)

end
