(* ===== verification/StreamLoop.thy ===== *)
theory StreamLoop
  imports ChildProcess Controller
begin

text \<open>
  The event loop of the process of a stream: class \<open>StreamServer\<close> and the callbacks of the controller that
  run in it (\<open>stream/stream_controller\<close>). The worker thread never writes to the pipe of the service: it posts
  its reports to the loop, which writes them in order and answers the commands it reads between them. Theory
  \<open>Controller\<close> records all messages in one outbox; the invariant below says what of it reaches the pipe. The
  last section joins the loop with the pipe of theory \<open>ChildProcess\<close>.
\<close>

section \<open>State\<close>

text \<open>\<open>sl_pending\<close> are the requests with an identifier, whose answers the client of the pipe expects.\<close>

record 'd stream_loop =
  sl_state :: "'d cstate"
  sl_running :: bool
  sl_registered :: bool
  sl_ttl_master_timer :: nat
  sl_timers :: "nat list"
  sl_posted :: "request list"
  sl_written :: "ctl_message list"
  sl_pending :: "seq_id \<rightharpoonup> request"

definition StreamServer_new :: "bool \<Rightarrow> 'd cstate \<Rightarrow> 'd stream_loop outcome" where
  "StreamServer_new command_client s = (if \<not> command_client then Abort
     else Ret \<lparr>sl_state = s, sl_running = False, sl_registered = False, sl_ttl_master_timer = 0, sl_timers = [], sl_posted = [],
       sl_written = [], sl_pending = Map.empty\<rparr>)"

section \<open>Operations of the loop\<close>

definition StreamServer_WriteRequest :: "request \<Rightarrow> 'd stream_loop \<Rightarrow> 'd stream_loop" where
  "StreamServer_WriteRequest req l = l\<lparr>sl_posted := sl_posted l @ [req]\<rparr>"

text \<open>The posted task; a request with an identifier is remembered for its answer.\<close>

definition run_posted :: "request \<Rightarrow> 'd stream_loop \<Rightarrow> 'd stream_loop" where
  "run_posted req l = l\<lparr>sl_written := sl_written l @ [Ctl_request req],
     sl_pending := (if rq_id req = None then sl_pending l else (sl_pending l)(rq_id req \<mapsto> req))\<rparr>"

text \<open>The loop of a stream has no children and accepts no connections.\<close>

definition StreamServer_CreateChild :: "unit outcome" where
  "StreamServer_CreateChild = Abort"

definition StreamServer_CreateClient :: "unit outcome" where
  "StreamServer_CreateClient = Abort"

definition controller_PreLooped :: "u64 option \<Rightarrow> nat \<Rightarrow> 'd stream_loop \<Rightarrow> 'd stream_loop" where
  "controller_PreLooped ttl_sec timer_id l = (if ttl_timer_created ttl_sec
     then l\<lparr>sl_ttl_master_timer := timer_id, sl_timers := timer_id # sl_timers l\<rparr> else l)"

definition controller_PostLooped :: "'d stream_loop \<Rightarrow> 'd stream_loop" where
  "controller_PostLooped l = (if sl_ttl_master_timer l \<noteq> 0
     then l\<lparr>sl_timers := remove1 (sl_ttl_master_timer l) (sl_timers l)\<rparr> else l)"

definition StreamServer_Started :: "u64 option \<Rightarrow> nat \<Rightarrow> 'd stream_loop \<Rightarrow> 'd stream_loop" where
  "StreamServer_Started ttl_sec timer_id l = controller_PreLooped ttl_sec timer_id (l\<lparr>sl_running := True, sl_registered := True\<rparr>)"

definition StreamServer_Stopped :: "'d stream_loop \<Rightarrow> 'd stream_loop" where
  "StreamServer_Stopped l = controller_PostLooped (l\<lparr>sl_running := False, sl_registered := False\<rparr>)"

text \<open>An answer of the service takes its request from the table; nothing else is done with it.\<close>

definition controller_HandleResponceCommand :: "bool \<Rightarrow> seq_id \<Rightarrow> 'd stream_loop \<Rightarrow> 'd stream_loop outcome" where
  "controller_HandleResponceCommand loop_thread i l = (if \<not> loop_thread then Abort
     else case sl_pending l i of None \<Rightarrow> Ret l | Some req \<Rightarrow> Ret (l\<lparr>sl_pending := (sl_pending l)(i := None)\<rparr>))"

section \<open>Callbacks of the stream\<close>

definition controller_OnStatusChanged :: "('d StreamStruct \<Rightarrow> string option) \<Rightarrow> 'd controller \<Rightarrow> 'd controller" where
  "controller_OnStatusChanged prep c = DumpStreamStatus prep c"

definition controller_OnTimeoutUpdated :: "('d StreamStruct \<Rightarrow> string option) \<Rightarrow> 'd controller \<Rightarrow> 'd controller" where
  "controller_OnTimeoutUpdated prep c = DumpStreamStatus prep c"

section \<open>Steps\<close>

fun requests_of :: "ctl_message list \<Rightarrow> request list" where
  "requests_of [] = []"
| "requests_of (Ctl_request r # ms) = r # requests_of ms"
| "requests_of (Ctl_response r # ms) = requests_of ms"

fun responses_of :: "ctl_message list \<Rightarrow> response list" where
  "responses_of [] = []"
| "responses_of (Ctl_request r # ms) = responses_of ms"
| "responses_of (Ctl_response r # ms) = r # responses_of ms"

text \<open>
  A change of the controller carries out the messages it added to the outbox: requests are posted, responses
  are written at once.
\<close>

definition carry_out :: "'d cstate \<Rightarrow> 'd stream_loop \<Rightarrow> 'd stream_loop" where
  "carry_out s l = (let new = drop (length (outbox (ctl (sl_state l)))) (outbox (ctl s)) in
     foldl (\<lambda>l r. StreamServer_WriteRequest r l)
       (l\<lparr>sl_state := s, sl_written := sl_written l @ map Ctl_response (responses_of new)\<rparr>) (requests_of new))"

inductive event_step :: "('d StreamStruct \<Rightarrow> string option) \<Rightarrow> u64 \<Rightarrow> u64 option \<Rightarrow> 'd stream_loop \<Rightarrow> 'd stream_loop \<Rightarrow> bool"
  for prep max_attempts ttl_sec where
  begins: "\<not> sl_running l \<Longrightarrow> ph (sl_state l) = At_check \<Longrightarrow> sl_ttl_master_timer l = 0 \<Longrightarrow> timer_id \<noteq> 0
    \<Longrightarrow> event_step prep max_attempts ttl_sec l (StreamServer_Started ttl_sec timer_id l)"
| worker: "sl_running l \<Longrightarrow> ctl_step prep max_attempts (sl_state l) s \<Longrightarrow> event_step prep max_attempts ttl_sec l (carry_out s l)"
| status_changed: "ph (sl_state l) = Running \<Longrightarrow> s = (sl_state l)\<lparr>ctl := controller_OnStatusChanged prep (ctl (sl_state l))\<rparr>
    \<Longrightarrow> event_step prep max_attempts ttl_sec l (carry_out s l)"
| timeout_updated: "ph (sl_state l) = Running \<Longrightarrow> s = (sl_state l)\<lparr>ctl := controller_OnTimeoutUpdated prep (ctl (sl_state l))\<rparr>
    \<Longrightarrow> event_step prep max_attempts ttl_sec l (carry_out s l)"
| input_changed: "ph (sl_state l) = Running \<Longrightarrow> s = (sl_state l)\<lparr>ctl := controller_OnInputChanged changed_info (ctl (sl_state l))\<rparr>
    \<Longrightarrow> event_step prep max_attempts ttl_sec l (carry_out s l)"
| posted: "sl_running l \<Longrightarrow> sl_posted l = req # rest \<Longrightarrow> event_step prep max_attempts ttl_sec l (run_posted req (l\<lparr>sl_posted := rest\<rparr>))"
| command: "sl_registered l \<Longrightarrow> controller_DataReceived prep max_attempts now input (sl_state l) = Ret s
    \<Longrightarrow> event_step prep max_attempts ttl_sec l (carry_out s l)"
| answer: "sl_registered l \<Longrightarrow> controller_HandleResponceCommand True i l = Ret l' \<Longrightarrow> event_step prep max_attempts ttl_sec l l'"
| timer: "timer_id \<in> set (sl_timers l) \<Longrightarrow> controller_TimerEmited prep max_attempts now (sl_ttl_master_timer l) timer_id (sl_state l) = Ret s
    \<Longrightarrow> event_step prep max_attempts ttl_sec l (carry_out s l)"
| ends: "sl_running l \<Longrightarrow> ph (sl_state l) = Finished \<Longrightarrow> event_step prep max_attempts ttl_sec l (StreamServer_Stopped l)"

inductive loop_reach :: "('d StreamStruct \<Rightarrow> string option) \<Rightarrow> u64 \<Rightarrow> u64 option \<Rightarrow> 'd stream_loop \<Rightarrow> bool"
  for prep max_attempts ttl_sec where
  loop_made: "outbox (ctl s) = [] \<Longrightarrow> ph s = At_check \<Longrightarrow> \<not> ctl_stop (ctl s) \<Longrightarrow> StreamServer_new True s = Ret l
    \<Longrightarrow> loop_reach prep max_attempts ttl_sec l"
| loop_steps: "loop_reach prep max_attempts ttl_sec l \<Longrightarrow> event_step prep max_attempts ttl_sec l l' \<Longrightarrow> loop_reach prep max_attempts ttl_sec l'"

section \<open>What an operation grows to the outbox\<close>

text \<open>Reports are notifications: they have no identifier and expect no answer.\<close>

definition grows :: "'d controller \<Rightarrow> 'd controller \<Rightarrow> bool" where
  "grows c c' \<longleftrightarrow> (\<exists>new. outbox c' = outbox c @ new \<and> (\<forall>r\<in>set (requests_of new). rq_id r = None))"

lemma of_append [simp]:
  "requests_of (xs @ ys) = requests_of xs @ requests_of ys" "responses_of (xs @ ys) = responses_of xs @ responses_of ys"
  by (induction xs rule: requests_of.induct) simp_all

lemma of_responses [simp]: "requests_of (map Ctl_response rs) = []" "responses_of (map Ctl_response rs) = rs"
  by (induction rs) simp_all

lemma grows_refl [simp, intro]: "outbox c' = outbox c \<Longrightarrow> grows c c'"
  by (simp add: grows_def)

lemma grows_trans: "grows c c1 \<Longrightarrow> grows c1 c2 \<Longrightarrow> grows c c2"
  by (force simp: grows_def)

lemma grows_report: "outbox c1 = outbox c \<Longrightarrow> grows c (DumpStreamStatus prep c1)"
  by (simp add: DumpStreamStatus_def grows_def StatisticStreamBroadcast_def MakeNotification_def split: option.split)

lemma grows_reply: "grows (ctl s) (ctl (reply r s))"
  by (simp add: grows_def reply_def)

lemma after_exec_grows: "after_exec prep m vod res now c = Ret (a, c') \<Longrightarrow> grows c c'"
  by (auto simp: after_exec_def Let_def intro: grows_report split: if_splits)

lemma leave_run_grows: "leave_run prep m res now s = Ret s' \<Longrightarrow> grows (ctl s) (ctl s')"
  by (auto simp: leave_run_def dest: after_exec_grows split: outcome.splits)

lemma notify_grows: "notify_and_quit prep m now s = Ret s' \<Longrightarrow> grows (ctl s) (ctl s')"
  by (auto simp: notify_and_quit_def after_wait_def search_interrupted_def dest: leave_run_grows split: phase.splits)

lemma Stop_grows: "controller_Stop prep m now s = Ret s' \<Longrightarrow> grows (ctl s) (ctl s')"
  using notify_grows [of prep m now "s\<lparr>ctl := (ctl s)\<lparr>ctl_stop := True\<rparr>\<rparr>" s'] by (simp add: controller_Stop_def grows_def)

lemma Restart_grows: "controller_Restart prep m now s = Ret s' \<Longrightarrow> grows (ctl s) (ctl s')"
  by (simp add: controller_Restart_def notify_grows)

lemma ctl_step_grows: "ctl_step prep m s s' \<Longrightarrow> grows (ctl s) (ctl s')"
  by (induction rule: ctl_step.induct) (auto simp: search_failed_def intro: grows_report dest: leave_run_grows Stop_grows Restart_grows)

lemma command_grows:
  assumes "controller_DataReceived prep m now input s = Ret s'"
  shows "grows (ctl s) (ctl s')"
proof (cases input)
  case (Got_request req)
  then show ?thesis
    using assms grows_trans [OF grows_reply Stop_grows] grows_trans [OF grows_reply Restart_grows]
    by (auto simp: controller_DataReceived_def StreamDataRecived_def Controller.HandleRequestCommand_def split: outcome.splits if_splits)
qed (use assms Stop_grows in \<open>auto simp: controller_DataReceived_def StreamDataRecived_def\<close>)

lemma timer_grows: "controller_TimerEmited prep m now t i s = Ret s' \<Longrightarrow> grows (ctl s) (ctl s')"
  by (auto simp: controller_TimerEmited_def dest: Stop_grows split: if_splits)

lemma input_grows: "grows c (controller_OnInputChanged changed_info c)"
  by (simp add: controller_OnInputChanged_def grows_def ChangedSourcesStreamBroadcast_def MakeNotification_def split: sum.split)

section \<open>The invariant of the loop\<close>

definition loop_inv :: "u64 option \<Rightarrow> 'd stream_loop \<Rightarrow> bool" where
  "loop_inv ttl_sec l \<longleftrightarrow>
     requests_of (sl_written l) @ sl_posted l = requests_of (outbox (ctl (sl_state l)))
   \<and> responses_of (sl_written l) = responses_of (outbox (ctl (sl_state l)))
   \<and> (\<forall>r\<in>set (requests_of (outbox (ctl (sl_state l)))). rq_id r = None) \<and> sl_pending l = Map.empty
   \<and> (sl_registered l \<longleftrightarrow> sl_running l)
   \<and> sl_timers l = (if sl_running l \<and> ttl_timer_created ttl_sec then [sl_ttl_master_timer l] else [])
   \<and> (sl_running l \<and> ttl_timer_created ttl_sec \<longrightarrow> sl_ttl_master_timer l \<noteq> 0)
   \<and> (sl_ttl_master_timer l \<noteq> 0 \<longrightarrow> ttl_timer_created ttl_sec)"

lemma posts [simp]: "foldl (\<lambda>l r. StreamServer_WriteRequest r l) l rs = l\<lparr>sl_posted := sl_posted l @ rs\<rparr>"
  by (induction rs arbitrary: l) (simp_all add: StreamServer_WriteRequest_def)

lemma carry_out_inv: "loop_inv ttl_sec l \<Longrightarrow> grows (ctl (sl_state l)) (ctl s) \<Longrightarrow> loop_inv ttl_sec (carry_out s l)"
  by (auto simp: loop_inv_def grows_def carry_out_def Let_def)

lemma event_step_inv: "event_step prep m ttl_sec l l' \<Longrightarrow> loop_inv ttl_sec l \<Longrightarrow> loop_inv ttl_sec l'"
proof (induction rule: event_step.induct)
  case (begins l timer_id)
  then show ?case by (simp add: loop_inv_def StreamServer_Started_def controller_PreLooped_def)
next
  case (posted l req rest)
  then have "rq_id req = None" by (metis (no_types) Un_iff list.set_intros(1) loop_inv_def set_append)
  with posted show ?case by (simp add: loop_inv_def run_posted_def)
next
  case (answer l i l')
  then show ?case by (simp add: controller_HandleResponceCommand_def loop_inv_def)
next
  case (ends l)
  then show ?case by (auto simp: loop_inv_def StreamServer_Stopped_def controller_PostLooped_def)
qed (auto intro!: carry_out_inv grows_report input_grows dest: ctl_step_grows command_grows timer_grows
      simp: controller_OnStatusChanged_def controller_OnTimeoutUpdated_def)

lemma loop_reach_inv: "loop_reach prep m ttl_sec l \<Longrightarrow> loop_inv ttl_sec l"
proof (induction rule: loop_reach.induct)
  case (loop_made s l)
  then show ?case by (auto simp: StreamServer_new_def loop_inv_def)
next
  case (loop_steps l l')
  then show ?case by (blast intro: event_step_inv)
qed

text \<open>
  What reaches the pipe of the outbox, whatever the two threads do: the reports in the order in which the
  worker made them, except those that are still posted, and every response in the order of the commands. No
  report expects an answer, so an answer of the service changes nothing. The time to live is the only timer,
  and the loop removes it at its end.
\<close>

theorem reports_written_in_order:
  assumes "loop_reach prep m ttl_sec l"
  shows "requests_of (sl_written l) @ sl_posted l = requests_of (outbox (ctl (sl_state l)))
    \<and> responses_of (sl_written l) = responses_of (outbox (ctl (sl_state l)))
    \<and> controller_HandleResponceCommand True i l = Ret l
    \<and> sl_timers l = (if sl_running l \<and> ttl_timer_created ttl_sec then [sl_ttl_master_timer l] else [])"
  using loop_reach_inv [OF assms] by (simp add: loop_inv_def controller_HandleResponceCommand_def)

section \<open>A stream whose service ended\<close>

text \<open>Streams that end after the service leave the descriptors as if they had ended before it.\<close>

lemma end_of_service_commutes: "p \<noteq> service \<Longrightarrow> child_exit p c (os_exit service k) = os_exit service (child_exit p c k)"
  by (simp add: child_exit_def pipe_DoClose_def close_descriptor_def os_exit_def fun_upd_twist removeAll_filter_not_eq conj_commute)

text \<open>
  (C9) When the service is gone, the most recently started of the streams that still run reads the end of
  its commands once it has read them all; its controller then stops, unless a run is just being started
  or its chunk is being searched for, and no further run is created; only a wait that the worker was about to
  enter may still pass. The same holds for the next one when this stream has ended.
\<close>

theorem orphaned_stream_stops:
  assumes "links_reach service y" "sy_links y q = Some l" "lk_alive l" "lk_received l = lk_sent l"
    "\<forall>q' l'. sy_links y q' = Some l' \<longrightarrow> lk_alive l' \<longrightarrow> q' \<le> q"
    "\<exists>err. read_command End_of_file = Read_failed err"
    "0 < m" "ctl_inv m s" "ph s \<noteq> Searching" "ph s \<noteq> Starting"
  shows "\<exists>s'. controller_DataReceived prep m now
        (read_command (fst (pipe_SingleRead (lk_pid l) (lk_child l) n (os_exit service (sy_kernel y))))) s = Ret s'
    \<and> (\<forall>t. reaches prep m s' t \<longrightarrow> ctl_stop (ctl t) \<and> (ph t = At_check \<or> ph t = Finished
         \<or> (\<exists>w. ph s = Before_wait w \<and> (ph t = Before_wait w \<or> ph t = Waiting w))))"
proof -
  have "fst (pipe_SingleRead (lk_pid l) (lk_child l) n (os_exit service (sy_kernel y))) = End_of_file"
    using latest_stream_sees_end_of_service [OF assms(1-3,5)] assms(4) by blast
  moreover obtain err where "read_command End_of_file = Read_failed err" using assms(6) by blast
  ultimately have d: "controller_DataReceived prep m now
      (read_command (fst (pipe_SingleRead (lk_pid l) (lk_child l) n (os_exit service (sy_kernel y))))) s = controller_Stop prep m now s"
    by (simp add: controller_DataReceived_def StreamDataRecived_def)
  have "ctl_inv m (s\<lparr>ctl := (ctl s)\<lparr>ctl_stop := True\<rparr>\<rparr>)" using assms(8) by (simp add: ctl_inv_def)
  from notify_inv [OF assms(7) this, of prep now] obtain s' where s': "controller_Stop prep m now s = Ret s'"
    by (auto simp: controller_Stop_def)
  have "(\<exists>w. ph s = Before_wait w \<and> stopping w s') \<or> stopped s'"
    using assms(9,10) by (intro stop_heard [OF _ s']) (simp add: hears_stop_def)
  then have "ctl_stop (ctl t) \<and> (ph t = At_check \<or> ph t = Finished
      \<or> (\<exists>w. ph s = Before_wait w \<and> (ph t = Before_wait w \<or> ph t = Waiting w)))" if "reaches prep m s' t" for t
    using stopping_reaches [OF that] stopped_reaches [OF that] by (auto simp: stop_phase_defs)
  then show ?thesis using d s' by auto
qed

theorem orphaned_stream_stops_witness:
  "\<exists>s'. controller_DataReceived (\<lambda>_. None) 10 0
       ((\<lambda>r. Read_failed Errno_inval) (fst (pipe_SingleRead 20 \<lparr>pc_read_fd = 3, pc_write_fd = 6\<rparr> 8 (os_exit 1 (demo_kernel 1)))))
       (demo_cstate Running) = Ret s' \<and> ctl_stop (ctl s') \<and> (ph s' = At_check \<or> ph s' = Finished)"
proof -
  let ?y = "\<lparr>sy_kernel = demo_kernel 1, sy_links = [0 \<mapsto> demo_link]\<rparr>"
  have l: "sy_links ?y 0 = Some demo_link" "lk_alive demo_link" "lk_received demo_link = lk_sent demo_link"
    "\<forall>q' l'. sy_links ?y q' = Some l' \<longrightarrow> lk_alive l' \<longrightarrow> q' \<le> 0"
    by (simp_all add: demo_link_def new_link_def)
  have i: "ctl_inv 10 (demo_cstate Running)" "ph (demo_cstate Running) \<noteq> Searching" "ph (demo_cstate Running) \<noteq> Starting"
    "\<And>w. ph (demo_cstate Running) \<noteq> Before_wait w" by (simp_all add: ctl_inv_def demo_cstate_def)
  show ?thesis
    using orphaned_stream_stops [where read_command = "\<lambda>r. Read_failed Errno_inval" and prep = "\<lambda>_. None" and now = 0 and n = 8,
        OF demo_started l _ _ i(1-3)]
      i(4) reaches.start [of "\<lambda>_. None" 10] by (fastforce simp: demo_link_def new_link_def)
qed

end
