(* ===== verification/StreamLife.thy ===== *)
theory StreamLife
  imports BaseStream
begin

text \<open>
  The life of one stream object (\<open>stream/ibase_stream\<close>): the states its pipeline is told to take, from the
  construction to the destructor, the redirection of the log of the multimedia library, and the values in
  which that library carries the exit status (\<open>stream/gstreamer_utils\<close>).
\<close>

section \<open>The log of the multimedia library\<close>

datatype gst_level = LEVEL_NONE | LEVEL_ERROR | LEVEL_WARNING | LEVEL_FIXME | LEVEL_INFO | LEVEL_DEBUG | LEVEL_LOG | LEVEL_TRACE | LEVEL_MEMDUMP

datatype log_level = LOG_ERROR | LOG_WARNING | LOG_NOTICE | LOG_INFO | LOG_DEBUG

definition redirected_line :: "string \<Rightarrow> string \<Rightarrow> string \<Rightarrow> string \<Rightarrow> string \<Rightarrow> string" where
  "redirected_line category source line function message =
     category @ '' '' @ source @ '':'' @ line @ '' '' @ function @ '' '' @ message"

definition RedirectGstLog :: "gst_level \<Rightarrow> string \<Rightarrow> (log_level \<times> string) option" where
  "RedirectGstLog level line =
     (if level = LEVEL_ERROR then Some (LOG_ERROR, line)
      else if level = LEVEL_WARNING then Some (LOG_WARNING, line)
      else if level = LEVEL_FIXME then Some (LOG_NOTICE, line)
      else if level = LEVEL_INFO then Some (LOG_INFO, line)
      else if level = LEVEL_LOG then Some (LOG_INFO, line)
      else if level = LEVEL_DEBUG then Some (LOG_DEBUG, line)
      else None)"

text \<open>
  The library numbers its levels from the gravest message to the most detailed one. The redirection does not
  follow this order: \<open>LOG\<close>, which is more detailed than \<open>DEBUG\<close>, is written as an information.
\<close>

lemma redirection_reverses_details:
  "RedirectGstLog LEVEL_DEBUG line = Some (LOG_DEBUG, line)" "RedirectGstLog LEVEL_LOG line = Some (LOG_INFO, line)"
  "RedirectGstLog level line = None \<longleftrightarrow> level \<in> {LEVEL_NONE, LEVEL_TRACE, LEVEL_MEMDUMP}"
  by (simp_all add: RedirectGstLog_def) (cases level; simp)

section \<open>Values of the multimedia library\<close>

text \<open>
  A value has a type; a setter of another type is refused and leaves the value, a getter of another type
  answers with zero, as the library documents.
\<close>

datatype gtype = TYPE_INT | TYPE_INT64

record gvalue =
  gv_type :: gtype
  gv_number :: int

definition g_value_init :: "gtype \<Rightarrow> gvalue" where
  "g_value_init t = \<lparr>gv_type = t, gv_number = 0\<rparr>"

definition g_value_set :: "gtype \<Rightarrow> int \<Rightarrow> gvalue \<Rightarrow> gvalue" where
  "g_value_set t n v = (if gv_type v = t then v\<lparr>gv_number := n\<rparr> else v)"

definition g_value_get :: "gtype \<Rightarrow> gvalue \<Rightarrow> int" where
  "g_value_get t v = (if gv_type v = t then gv_number v else 0)"

definition make_gvalue_int64 :: "int \<Rightarrow> gvalue" where
  "make_gvalue_int64 t = g_value_set TYPE_INT64 t (g_value_init TYPE_INT64)"

definition make_gvalue_int :: "int \<Rightarrow> gvalue" where
  "make_gvalue_int t = g_value_set TYPE_INT64 t (g_value_init TYPE_INT)"

definition gvalue_cast_int64 :: "gvalue \<Rightarrow> int" where
  "gvalue_cast_int64 v = g_value_get TYPE_INT64 v"

definition gvalue_cast_int :: "gvalue \<Rightarrow> int" where
  "gvalue_cast_int v = g_value_get TYPE_INT v"

lemma gvalue_roundtrip:
  "gvalue_cast_int64 (make_gvalue_int64 n) = n" "gvalue_cast_int (make_gvalue_int n) = 0"
  by (simp_all add: gvalue_cast_int64_def gvalue_cast_int_def make_gvalue_int64_def make_gvalue_int_def g_value_get_def
      g_value_set_def g_value_init_def)

text \<open>The exit command carries the status in a number that the stream writes itself, so it arrives.\<close>

fun status_code :: "ExitStatus \<Rightarrow> int" where
  "status_code EXIT_SELF = 0"
| "status_code EXIT_INNER = 1"

definition status_of_code :: "int \<Rightarrow> ExitStatus option" where
  "status_of_code n = (if n = 0 then Some EXIT_SELF else if n = 1 then Some EXIT_INNER else None)"

definition exit_info :: "ExitStatus \<Rightarrow> gvalue" where
  "exit_info st = \<lparr>gv_type = TYPE_INT, gv_number = status_code st\<rparr>"

lemma exit_status_arrives: "status_of_code (gvalue_cast_int (exit_info st)) = Some st"
  by (cases st) (simp_all add: status_of_code_def gvalue_cast_int_def exit_info_def g_value_get_def)

section \<open>The life of a stream\<close>

record 'd stream_life =
  lf_stream :: "'d base_stream"
  lf_pipeline :: bool
  lf_commands :: "gst_state list"

text \<open>
  A refused change is logged with the names of the current and the pending state. Without a pipeline the
  library refuses every change and does not set these two variables, so that the log reads what was never
  written.
\<close>

definition SetPipelineState :: "state_change \<Rightarrow> gst_state \<Rightarrow> 'd stream_life \<Rightarrow> (state_change \<times> 'd stream_life) outcome" where
  "SetPipelineState ret st l = (if \<not> lf_pipeline l then Abort else Ret (ret, l\<lparr>lf_commands := lf_commands l @ [st]\<rparr>))"

definition life_Stop :: "state_change \<Rightarrow> 'd stream_life \<Rightarrow> 'd stream_life outcome" where
  "life_Stop ret l = (case SetPipelineState ret STATE_NULL l of Abort \<Rightarrow> Abort | Ret (r, l) \<Rightarrow> Ret l)"

definition life_Pause :: "state_change \<Rightarrow> 'd stream_life \<Rightarrow> 'd stream_life outcome" where
  "life_Pause ret l = (case SetPipelineState ret STATE_PAUSED l of Abort \<Rightarrow> Abort | Ret (r, l) \<Rightarrow> Ret l)"

definition life_Play :: "state_change \<Rightarrow> 'd stream_life \<Rightarrow> 'd stream_life outcome" where
  "life_Play ret l = (case SetPipelineState ret STATE_PLAYING l of Abort \<Rightarrow> Abort
     | Ret (r, l) \<Rightarrow> Ret (l\<lparr>lf_stream := Play r (lf_stream l)\<rparr>))"

definition life_Restart :: "timestamp_t \<Rightarrow> state_change \<Rightarrow> state_change \<Rightarrow> 'd stream_life \<Rightarrow> 'd stream_life outcome" where
  "life_Restart now paused played l =
     (let s = lf_stream l;
          l = l\<lparr>lf_stream := stream_ResetDataWait now (s\<lparr>bs_stats := (bs_stats s)\<lparr>loop_start_time := now\<rparr>\<rparr>)\<rparr>
      in case life_Pause paused l of Abort \<Rightarrow> Abort
       | Ret l \<Rightarrow> (case life_Play played (l\<lparr>lf_stream := SetStatus INIT (lf_stream l)\<rparr>) of Abort \<Rightarrow> Abort
          | Ret l \<Rightarrow> (let s = lf_stream l in Ret (l\<lparr>lf_stream := s\<lparr>bs_stats := (bs_stats s)\<lparr>restarts := restarts (bs_stats s) + 1\<rparr>\<rparr>\<rparr>))))"

text \<open>The run: the pipeline plays during the loop and is stopped after it.\<close>

definition life_Exec ::
  "'d hooks \<Rightarrow> 'd rates \<Rightarrow> bool \<Rightarrow> timestamp_t \<Rightarrow> state_change \<Rightarrow> loop_event list \<Rightarrow> 'd stream_life
     \<Rightarrow> (ExitStatus \<times> 'd stream_life) outcome option" where
  "life_Exec h R pipeline_ok now ret evs l = (case Exec h R pipeline_ok now ret evs (lf_stream l) of
     None \<Rightarrow> None
   | Some Abort \<Rightarrow> Some Abort
   | Some (Ret (st, s)) \<Rightarrow>
      if \<not> pipeline_ok then Some (Ret (st, l\<lparr>lf_stream := s\<rparr>))
      else (case life_Stop ret (l\<lparr>lf_stream := s, lf_pipeline := True, lf_commands := lf_commands l @ [STATE_PLAYING]\<rparr>) of
          Abort \<Rightarrow> Some Abort | Ret l \<Rightarrow> Some (Ret (st, l))))"

definition IBaseStream_delete :: "state_change \<Rightarrow> 'd stream_life \<Rightarrow> 'd stream_life outcome" where
  "IBaseStream_delete ret l =
     (case SetPipelineState ret STATE_NULL (l\<lparr>lf_stream := ClearInProbes (ClearOutProbes (lf_stream l))\<rparr>) of
        Abort \<Rightarrow> Abort
      | Ret (r, l) \<Rightarrow> Ret (l\<lparr>lf_pipeline := False, lf_stream := SetStatus NEW (lf_stream l)\<rparr>))"

definition life_of_stream ::
  "'d hooks \<Rightarrow> 'd rates \<Rightarrow> StreamType \<Rightarrow> 'd StreamStruct \<Rightarrow> bool \<Rightarrow> timestamp_t \<Rightarrow> state_change \<Rightarrow> loop_event list
     \<Rightarrow> (ExitStatus \<times> 'd stream_life) outcome option" where
  "life_of_stream h R config_type stats pipeline_ok now ret evs = (case make_base_stream config_type stats of
     Abort \<Rightarrow> Some Abort
   | Ret s \<Rightarrow> (case life_Exec h R pipeline_ok now ret evs \<lparr>lf_stream = s, lf_pipeline = False, lf_commands = []\<rparr> of
       None \<Rightarrow> None
     | Some Abort \<Rightarrow> Some Abort
     | Some (Ret (st, l)) \<Rightarrow> (case IBaseStream_delete ret l of Abort \<Rightarrow> Some Abort | Ret l \<Rightarrow> Some (Ret (st, l)))))"

text \<open>\<open>Restart\<close> with its two changes of state is the function of theory \<open>BaseStream\<close> on the stream.\<close>

lemma life_Restart_stream:
  "lf_pipeline l \<Longrightarrow> life_Restart now paused played l = Ret (l\<lparr>lf_stream := stream_Restart now played (lf_stream l),
     lf_commands := lf_commands l @ [STATE_PAUSED, STATE_PLAYING]\<rparr>)"
  by (simp add: life_Restart_def life_Pause_def life_Play_def SetPipelineState_def stream_Restart_def Let_def)

text \<open>
  A stream with a pipeline plays, is stopped after its loop and once more by the destructor; what remains is
  the status of a new stream and no probe. A stream whose pipeline could not be created reads variables in
  its destructor that were never set.
\<close>

theorem stream_leaves_new_status:
  assumes "make_base_stream t stats = Ret s0"
  shows "(\<not> pipeline_ok \<longrightarrow> life_of_stream h R t stats pipeline_ok now ret evs = Some Abort)
    \<and> (pipeline_ok \<and> Exec h R pipeline_ok now ret evs s0 = Some (Ret (st, s)) \<longrightarrow>
        (\<exists>l. life_of_stream h R t stats pipeline_ok now ret evs = Some (Ret (st, l))
           \<and> lf_commands l = [STATE_PLAYING, STATE_NULL, STATE_NULL] \<and> \<not> lf_pipeline l
           \<and> status (bs_stats (lf_stream l)) = NEW \<and> last (calls (lf_stream l)) = OnStatusChanged NEW
           \<and> probe_in (lf_stream l) = [] \<and> probe_out (lf_stream l) = []))"
proof (cases pipeline_ok)
  case False
  then show ?thesis
    by (simp add: life_of_stream_def assms life_Exec_def Exec_def IBaseStream_delete_def SetPipelineState_def)
next
  case True
  then show ?thesis
    by (auto simp: life_of_stream_def assms life_Exec_def life_Stop_def IBaseStream_delete_def SetPipelineState_def SetStatus_def call_def
        ClearInProbes_def ClearOutProbes_def)
qed

end
