(* ===== verification/EncoderParams.thy ===== *)
theory EncoderParams
  imports PipelineProps
begin

text \<open>
  The way of a parameter of an encoder through three components: the names of the parameters
  (\<open>base/gst_constants.h\<close>), the options that accept them (theory \<open>Options\<close>), the factory that collects them (theory
  \<open>Configs\<close>) and the builder of the encoder, which sets them on the element whose plugin they name (theory
  \<open>Elements\<close>).
\<close>

section \<open>Parameters of encoders\<close>

definition encoder_param :: "string \<Rightarrow> string \<Rightarrow> string" where
  "encoder_param encoder x = encoder @ ''.'' @ x"

definition x264_params :: "string list" where
  "x264_params = map (encoder_param ''x264enc'')
    [''speed-preset'', ''threads'', ''tune'', ''key-int-max'', ''rc-lookahead'', ''qp-max'', ''pass'', ''me'',
     ''profile'', ''stream-format'', ''option-string'', ''interlaced'', ''dct8x8'', ''b-adapt'', ''byte-stream'',
     ''cabac'', ''sliced-threads'', ''vbv-buf-capacity'', ''quantizer'']"

definition eavc_params :: "string list" where
  "eavc_params = map (encoder_param ''eavcenc'')
    [''preset'', ''profile'', ''performance'', ''bitrate-mode'', ''bitrate-pass'', ''bitrate-max'', ''vbv-size'',
     ''picture-mode'', ''entropy-mode'', ''gop-max-bcount'', ''gop-max-length'', ''gop-min-length'', ''level'',
     ''deblock-mode'', ''deblock-alpha'', ''deblock-beta'', ''initial-param'', ''field-order'', ''gop-adaptive'']"

definition openh264_params :: "string list" where
  "openh264_params = map (encoder_param ''openh264enc'') [''multi-thread'', ''rate-control'', ''gop-size'', ''complexity'']"

definition vaapi_params :: "string list" where
  "vaapi_params = map (encoder_param ''vaapih264enc'')
    [''keyframe-period'', ''tune'', ''max-bframes'', ''num-slices'', ''init-qp'', ''min-qp'', ''rate-control'',
     ''cabac'', ''dct8x8'', ''b-adapt'', ''cpb-length'']"

definition nv_params :: "string list" where
  "nv_params = map (encoder_param ''nvh264enc'') [''preset'']"

definition mfx_params :: "string list" where
  "mfx_params = map (encoder_param ''mfxh264enc'') [''preset'', ''gop-size'']"

definition all_params :: "string list" where
  "all_params = x264_params @ eavc_params @ openh264_params @ vaapi_params @ nv_params @ mfx_params"

lemmas param_defs = all_params_def x264_params_def eavc_params_def openh264_params_def vaapi_params_def nv_params_def mfx_params_def encoder_param_def

section \<open>Names\<close>

text \<open>
  The keys that the factory collects are the parameters of the program with two exceptions: \<open>cabac\<close> of the x264
  encoder, which the options accept and nobody reads, and \<open>b-adapt\<close> of the VAAPI encoder, which the options do
  not know.
\<close>

lemma all_params_eq:
  "all_params =
    [''x264enc.speed-preset'', ''x264enc.threads'', ''x264enc.tune'', ''x264enc.key-int-max'',
     ''x264enc.rc-lookahead'', ''x264enc.qp-max'', ''x264enc.pass'', ''x264enc.me'', ''x264enc.profile'',
     ''x264enc.stream-format'', ''x264enc.option-string'', ''x264enc.interlaced'', ''x264enc.dct8x8'',
     ''x264enc.b-adapt'', ''x264enc.byte-stream'', ''x264enc.cabac'', ''x264enc.sliced-threads'',
     ''x264enc.vbv-buf-capacity'', ''x264enc.quantizer'', ''eavcenc.preset'', ''eavcenc.profile'',
     ''eavcenc.performance'', ''eavcenc.bitrate-mode'', ''eavcenc.bitrate-pass'', ''eavcenc.bitrate-max'',
     ''eavcenc.vbv-size'', ''eavcenc.picture-mode'', ''eavcenc.entropy-mode'', ''eavcenc.gop-max-bcount'',
     ''eavcenc.gop-max-length'', ''eavcenc.gop-min-length'', ''eavcenc.level'', ''eavcenc.deblock-mode'',
     ''eavcenc.deblock-alpha'', ''eavcenc.deblock-beta'', ''eavcenc.initial-param'', ''eavcenc.field-order'',
     ''eavcenc.gop-adaptive'', ''openh264enc.multi-thread'', ''openh264enc.rate-control'', ''openh264enc.gop-size'',
     ''openh264enc.complexity'', ''vaapih264enc.keyframe-period'', ''vaapih264enc.tune'',
     ''vaapih264enc.max-bframes'', ''vaapih264enc.num-slices'', ''vaapih264enc.init-qp'', ''vaapih264enc.min-qp'',
     ''vaapih264enc.rate-control'', ''vaapih264enc.cabac'', ''vaapih264enc.dct8x8'', ''vaapih264enc.b-adapt'',
     ''vaapih264enc.cpb-length'', ''nvh264enc.preset'', ''mfxh264enc.preset'', ''mfxh264enc.gop-size'']"
  by (simp add: param_defs)

lemma collected_params:
  "filter (\<lambda>k. k \<notin> set encoder_arg_keys) all_params =
     [''x264enc.profile'', ''x264enc.stream-format'', ''x264enc.option-string'', ''x264enc.cabac'', ''vaapih264enc.b-adapt'']"
  unfolding all_params_eq encoder_arg_keys_def by code_simp

lemma collected_only_params: "filter (\<lambda>k. k \<notin> set all_params) encoder_arg_keys = []"
  unfolding all_params_eq encoder_arg_keys_def by code_simp

lemma collected_keys: "set encoder_args_first \<union> set encoder_args_rest \<union> {''x264enc.interlaced'', ''x264enc.dct8x8'', ''eavcenc.gop-adaptive''} = set encoder_arg_keys"
  by (simp add: encoder_arg_keys_def encoder_args_first_def encoder_args_rest_def) fast

lemma option_found: "find_option k l \<noteq> None \<longleftrightarrow> k \<in> set (map fst l)"
  by (induction l) auto

lemma params_accepted: "filter (\<lambda>k. k \<notin> set (map fst (ALLOWED_OPTIONS E))) all_params = [''vaapih264enc.b-adapt'']"
  unfolding all_params_eq ALLOWED_OPTIONS_def list.map fst_conv by code_simp

section \<open>From the options to the configuration\<close>

lemma collected_fold:
  "foldl (\<lambda>m k. CheckAndSetValue conv args k m) m ks key =
     (case m key of Some v \<Rightarrow> Some v | None \<Rightarrow> if key \<in> set ks then ArgsGetValue conv args key else None)"
  by (induction ks arbitrary: m) (auto simp: CheckAndSetValue_def split: option.splits)

lemma set_flag_other: "key \<noteq> name \<Longrightarrow> set_flag cv args name m key = m key"
  by (simp add: set_flag_def split: option.split bool.split)

lemma flags_apart: "{''x264enc.interlaced'', ''x264enc.dct8x8'', ''eavcenc.gop-adaptive''} \<inter> (set encoder_args_first \<union> set encoder_args_rest) = {}"
  by (simp add: encoder_args_first_def encoder_args_rest_def)

lemma number_collected:
  assumes "key \<in> set encoder_args_first \<union> set encoder_args_rest"
  shows "fst (InitVideoEncodersWithArgs cv args) key = ArgsGetValue (cv_u32 cv) args key"
proof -
  have "key \<noteq> ''x264enc.interlaced''" "key \<noteq> ''x264enc.dct8x8''" "key \<noteq> ''eavcenc.gop-adaptive''" using assms flags_apart by blast+
  then show ?thesis using assms
    by (auto simp: InitVideoEncodersWithArgs_def Let_def set_flag_other collected_fold split: option.splits)
qed

text \<open>\<open>cabac\<close> of the x264 encoder is accepted and has no effect on the configuration.\<close>

lemma get_other: "k \<noteq> key \<Longrightarrow> ArgsGetValue conv (args(k := v)) key = ArgsGetValue conv args key"
  by (simp add: ArgsGetValue_def)

lemma fold_other: "k \<notin> set ks \<Longrightarrow> foldl (\<lambda>m key. CheckAndSetValue conv (args(k := v)) key m) m ks = foldl (\<lambda>m key. CheckAndSetValue conv args key m) m ks"
  by (induction ks arbitrary: m) (simp_all add: CheckAndSetValue_def get_other)

lemma cabac_ignored:
  "''x264enc.cabac'' \<in> set (map fst (ALLOWED_OPTIONS E))"
  "InitVideoEncodersWithArgs cv (args(''x264enc.cabac'' := v)) = InitVideoEncodersWithArgs cv args"
proof -
  show "''x264enc.cabac'' \<in> set (map fst (ALLOWED_OPTIONS E))" unfolding ALLOWED_OPTIONS_def list.map fst_conv by simp
  have "''x264enc.cabac'' \<notin> set encoder_args_first" "''x264enc.cabac'' \<notin> set encoder_str_args" "''x264enc.cabac'' \<notin> set encoder_args_rest"
    by (simp_all add: encoder_args_first_def encoder_str_args_def encoder_args_rest_def)
  then show "InitVideoEncodersWithArgs cv (args(''x264enc.cabac'' := v)) = InitVideoEncodersWithArgs cv args"
    by (simp add: InitVideoEncodersWithArgs_def Let_def fold_other set_flag_def get_other)
qed

section \<open>From the configuration to the element\<close>

definition own_params :: "string \<Rightarrow> (string \<times> u32) list \<Rightarrow> (string \<times> prop_value) list" where
  "own_params plugin args = map (\<lambda>(k, v). (snd (split_key k), Pv_int (uint v))) (filter (\<lambda>(k, v). fst (split_key k) = plugin) args)"

definition add_props :: "string \<Rightarrow> (string \<times> prop_value) list \<Rightarrow> pipeline \<Rightarrow> pipeline" where
  "add_props name ps p = p\<lparr>pl_elements := map (\<lambda>e. if el_name e = name then e\<lparr>el_props := el_props e @ ps\<rparr> else e) (pl_elements p)\<rparr>"

lemma add_props_add: "add_props name qs (add_props name ps p) = add_props name (ps @ qs) p"
  by (simp add: add_props_def)

lemma add_props_Nil [simp]: "add_props name [] p = p"
  by (simp add: add_props_def map_idI)

lemma set_property_add: "pl_set_property name q v p = add_props name [(q, v)] p"
  by (simp add: pl_set_property_def add_props_def SetProperty_def)

lemma setup_adds: "setup_encoder_params args plugin name p = add_props name (own_params plugin args) p"
  by (induction args arbitrary: p)
     (auto simp: setup_encoder_params_def own_params_def set_property_add add_props_add split: prod.splits)

lemma find_added:
  "find (\<lambda>e. el_name e = name) (map (\<lambda>e. if el_name e = n then e\<lparr>el_props := el_props e @ ps\<rparr> else e) es) =
     (if n = name then map_option (\<lambda>e. e\<lparr>el_props := el_props e @ ps\<rparr>) (find (\<lambda>e. el_name e = name) es) else find (\<lambda>e. el_name e = name) es)"
  by (induction es) auto

lemma found_added:
  "GetElementByName name (add_props n ps p) =
     (if n = name then map_option (\<lambda>e. e\<lparr>el_props := el_props e @ ps\<rparr>) (GetElementByName name p) else GetElementByName name p)"
  by (simp add: GetElementByName_def add_props_def find_added)

lemma found_in_names: "GetElementByName name p = Some e \<Longrightarrow> name \<in> set (pl_names p)"
  by (auto simp: GetElementByName_def find_Some_iff pl_names_def)

lemma find_append_Some: "find P xs = Some x \<Longrightarrow> find P (xs @ ys) = Some x"
  by (induction xs) auto

lemma find_append_None: "find P xs = None \<Longrightarrow> find P (xs @ ys) = find P ys"
  by (induction xs) (auto split: if_splits)

lemma found_after_add: "ElementAdd G el p = Some p' \<Longrightarrow> GetElementByName name p = Some e \<Longrightarrow> GetElementByName name p' = Some e"
  by (auto simp: ElementAdd_def GetElementByName_def find_append_Some split: if_splits)

lemma found_after_link: "ElementLink G a b p = Some p' \<Longrightarrow> GetElementByName name p' = GetElementByName name p"
  by (auto simp: ElementLink_def GetElementByName_def bind_eq_Some_conv split: if_splits)

lemma found_after_caps:
  assumes "encoder_caps G caps_name param v prev p = Some (r, p')" "GetElementByName name p = Some e"
  shows "GetElementByName name p' = Some e"
proof -
  obtain p1 where p1: "ElementAdd G \<lparr>el_plugin = ''capsfilter'', el_name = caps_name, el_props = []\<rparr> p = Some p1"
    "ElementLink G prev (Some caps_name) (pl_set_property caps_name ''caps'' (Pv_caps ''video/x-h264'' [(param, Pv_text v)]) p1) = Some p'"
    using assms(1) by (auto simp: encoder_caps_def make_element_def bind_eq_Some_conv Let_def split: if_splits)
  have "caps_name \<noteq> name" using p1(1) found_in_names [OF assms(2)] by (auto simp: ElementAdd_def split: if_splits)
  then show ?thesis using found_after_link [OF p1(2)] found_after_add [OF p1(1) assms(2)] by (simp add: set_property_add found_added)
qed

text \<open>The parameters with a text become properties, except the two that become filters behind the encoder.\<close>

lemma found_after_str:
  "setup_encoder_str_params G plugin name i args prev p = Some (r, p') \<Longrightarrow> GetElementByName name p = Some e
   \<Longrightarrow> \<exists>ps. GetElementByName name p' = Some (e\<lparr>el_props := el_props e @ ps\<rparr>) \<and> fst ` set ps \<subseteq> {q. \<exists>k\<in>fst ` set args. split_key k = (plugin, q)}"
proof (induction args arbitrary: prev p e)
  case Nil
  then show ?case by (intro exI [of _ "[]"]) simp
next
  case (Cons kv args)
  obtain key v where kv: "kv = (key, v)" by (cases kv)
  obtain enc param where k: "split_key key = (enc, param)" by fastforce
  have "\<exists>prev1 p1 qs. setup_encoder_str_params G plugin name i args prev1 p1 = Some (r, p')
      \<and> GetElementByName name p1 = Some (e\<lparr>el_props := el_props e @ qs\<rparr>) \<and> fst ` set qs \<subseteq> (if enc = plugin then {param} else {})"
  proof (cases "enc = plugin \<and> (key = ''x264enc.profile'' \<or> key = ''x264enc.stream-format'')")
    case True
    then obtain caps_name x prev1 p1 where p1: "encoder_caps G caps_name x v prev p = Some (prev1, p1)"
      "setup_encoder_str_params G plugin name i args prev1 p1 = Some (r, p')"
      using Cons.prems(1) by (auto simp: kv k bind_eq_Some_conv)
    then show ?thesis using found_after_caps [OF p1(1) Cons.prems(2)] by (intro exI [of _ prev1] exI [of _ p1] exI [of _ "[]"]) simp
  next
    case other: False
    show ?thesis
    proof (cases "enc = plugin")
      case True
      then show ?thesis using Cons.prems other
        by (intro exI [of _ prev] exI [of _ "pl_set_property name param (Pv_text v) p"] exI [of _ "[(param, Pv_text v)]"])
           (auto simp: kv k set_property_add found_added)
    next
      case False
      then show ?thesis using Cons.prems by (intro exI [of _ prev] exI [of _ p] exI [of _ "[]"]) (simp add: kv k)
    qed
  qed
  then obtain prev1 p1 qs where p1: "setup_encoder_str_params G plugin name i args prev1 p1 = Some (r, p')"
    "GetElementByName name p1 = Some (e\<lparr>el_props := el_props e @ qs\<rparr>)" "fst ` set qs \<subseteq> (if enc = plugin then {param} else {})" by blast
  from Cons.IH [OF p1(1,2)] obtain ps where
    "GetElementByName name p' = Some (e\<lparr>el_props := (el_props e @ qs) @ ps\<rparr>)" "fst ` set ps \<subseteq> {q. \<exists>k\<in>fst ` set args. split_key k = (plugin, q)}" by auto
  then show ?case using p1(3) k by (intro exI [of _ "qs @ ps"]) (auto simp: kv split: if_splits)
qed

section \<open>What arrives at the encoder\<close>

lemma split_first_dot: "d \<in> set s \<Longrightarrow> split_first d s \<noteq> None"
  by (induction s) auto

lemma split_key_dot: "split_key x = (a, b) \<Longrightarrow> CHR ''.'' \<in> set x \<Longrightarrow> x = a @ CHR ''.'' # b"
  using split_first_SomeD [of "CHR ''.''" x] by (cases "split_first (CHR ''.'') x") (auto simp: split_key_def split_first_dot)

lemma keys_dotted: "k \<in> set encoder_arg_keys \<Longrightarrow> CHR ''.'' \<in> set k"
proof -
  have "list_all (\<lambda>k. CHR ''.'' \<in> set k) encoder_arg_keys" unfolding encoder_arg_keys_def by simp
  then show "k \<in> set encoder_arg_keys \<Longrightarrow> CHR ''.'' \<in> set k" by (simp add: list_all_iff)
qed

lemma str_params_apart:
  assumes "k \<in> set encoder_arg_keys" "k' \<in> set encoder_str_arg_keys"
  shows "split_key k \<noteq> split_key k'"
proof
  assume e: "split_key k = split_key k'"
  have d: "CHR ''.'' \<in> set k'" using assms(2) by (auto simp: encoder_str_arg_keys_def)
  have "k = k'" using split_key_dot [OF _ keys_dotted [OF assms(1)]] split_key_dot [OF _ d] e by (cases "split_key k'") auto
  moreover have "filter (\<lambda>k. k \<in> set encoder_arg_keys) encoder_str_arg_keys = []" unfolding encoder_arg_keys_def encoder_str_arg_keys_def by simp
  ultimately show False using assms by (auto simp: filter_empty_conv)
qed

lemma in_map_entries: "(k, v) \<in> set (map_entries ks m) \<longleftrightarrow> k \<in> set ks \<and> m k = Some v"
  by (induction ks) (auto simp: map_entries_def List.map_filter_simps split: option.splits)

lemma in_own_params: "(q, x) \<in> set (own_params c args) \<longleftrightarrow> (\<exists>k w. (k, w) \<in> set args \<and> split_key k = (c, q) \<and> x = Pv_int (uint w))"
proof (induction args)
  case (Cons kw args)
  obtain k w where kw: "kw = (k, w)" by (cases kw)
  obtain a b where ab: "split_key k = (a, b)" by fastforce
  have "set (own_params c (kw # args)) = (if a = c then {(b, Pv_int (uint w))} else {}) \<union> set (own_params c args)"
    by (simp add: own_params_def kw ab)
  then show ?case using ab by (auto simp: kw Cons.IH)
qed (simp add: own_params_def)

lemma own_param:
  assumes "key \<in> set encoder_arg_keys" "split_key key = (codec, param)" "m key = Some v"
  shows "(param, x) \<in> set (own_params codec (map_entries encoder_arg_keys m)) \<longleftrightarrow> x = Pv_int (uint v)"
proof -
  have "k = key" if "k \<in> set encoder_arg_keys" "split_key k = (codec, param)" for k
    using split_key_dot [OF that(2) keys_dotted [OF that(1)]] split_key_dot [OF assms(2) keys_dotted [OF assms(1)]] by simp
  moreover have "(param, x) \<in> set (own_params codec (map_entries encoder_arg_keys m)) \<longleftrightarrow>
      (\<exists>k w. k \<in> set encoder_arg_keys \<and> m k = Some w \<and> split_key k = (codec, param) \<and> x = Pv_int (uint w))"
    by (simp add: in_own_params in_map_entries conj_assoc)
  ultimately show ?thesis using assms by (metis option.inject)
qed

lemma map_of_only: "(a, b) \<in> set xs \<Longrightarrow> (\<And>y. (a, y) \<in> set xs \<Longrightarrow> y = b) \<Longrightarrow> map_of xs a = Some b"
  using weak_map_of_SomeI [of a b xs] map_of_SomeD [of xs a] by blast

text \<open>
  (C18) A parameter of an encoder that stands in the options of a stream arrives: when the encoder named by
  the parameter was built from the configuration that the factory made of these options, the last value set
  for this property of the encoder in the pipeline is the number in the options, also for properties that
  the bit rate sets.
\<close>

theorem encoder_parameters_arrive:
  assumes "build_video_encoder G codec bitrate (fst (InitVideoEncodersWithArgs cv args)) (snd (InitVideoEncodersWithArgs cv args)) i p = Some (ends, p')"
    "key \<in> set encoder_args_first \<union> set encoder_args_rest" "split_key key = (codec, param)" "ArgsGetValue (cv_u32 cv) args key = Some v"
  shows "\<exists>e. GetElementByName (VIDEO_CODEC_NAME_1U i) p' = Some e \<and> el_plugin e = codec \<and> map_of (rev (el_props e)) param = Some (Pv_int (uint v))"
proof -
  let ?m = "fst (InitVideoEncodersWithArgs cv args)" and ?n = "VIDEO_CODEC_NAME_1U i"
  let ?own = "own_params codec (map_entries encoder_arg_keys ?m)"
  obtain p1 p2 where p: "ElementAdd G \<lparr>el_plugin = codec, el_name = ?n, el_props = []\<rparr> p = Some p1"
      "(case bitrate of None \<Rightarrow> Some p1 | Some rate \<Rightarrow> set_video_bitrate codec ?n rate p1) = Some p2"
    and str: "\<exists>r. setup_encoder_str_params G codec ?n i (map_entries encoder_str_arg_keys (snd (InitVideoEncodersWithArgs cv args))) (Some ?n)
       (setup_encoder_params (map_entries encoder_arg_keys ?m) codec ?n p2) = Some (r, p')"
    using assms(1)
    by (cases bitrate) (auto simp: build_video_encoder_def make_video_encoder_def make_element_def bind_eq_Some_conv Let_def split: if_splits)
  have "?n \<notin> set (pl_names p)" using p(1) by (auto simp: ElementAdd_def split: if_splits)
  then have "find (\<lambda>e. el_name e = ?n) (pl_elements p) = None" by (fastforce simp: find_None_iff pl_names_def image_iff)
  then have g1: "GetElementByName ?n p1 = Some \<lparr>el_plugin = codec, el_name = ?n, el_props = []\<rparr>"
    using p(1) by (auto simp: ElementAdd_def GetElementByName_def find_append_None split: if_splits)
  have "\<exists>rs. p2 = add_props ?n rs p1"
    using p(2) by (auto simp: set_video_bitrate_def set_property_add add_props_add Let_def bind_eq_Some_conv
        intro: exI [of _ "[]"] split: option.splits if_splits)
  then obtain rs where g2: "GetElementByName ?n p2 = Some \<lparr>el_plugin = codec, el_name = ?n, el_props = rs\<rparr>" using g1 by (auto simp: found_added)
  obtain r where r: "setup_encoder_str_params G codec ?n i (map_entries encoder_str_arg_keys (snd (InitVideoEncodersWithArgs cv args))) (Some ?n)
      (setup_encoder_params (map_entries encoder_arg_keys ?m) codec ?n p2) = Some (r, p')" using str by blast
  have g3: "GetElementByName ?n (setup_encoder_params (map_entries encoder_arg_keys ?m) codec ?n p2) =
      Some \<lparr>el_plugin = codec, el_name = ?n, el_props = rs @ ?own\<rparr>" using g2 by (simp add: setup_adds found_added)
  obtain ps where ps: "GetElementByName ?n p' = Some \<lparr>el_plugin = codec, el_name = ?n, el_props = (rs @ ?own) @ ps\<rparr>"
    "fst ` set ps \<subseteq> {q. \<exists>k\<in>fst ` set (map_entries encoder_str_arg_keys (snd (InitVideoEncodersWithArgs cv args))). split_key k = (codec, q)}"
    using found_after_str [OF r g3] by auto
  have key: "key \<in> set encoder_arg_keys" using assms(2) collected_keys by blast
  have "param \<notin> fst ` set ps"
  proof
    assume "param \<in> fst ` set ps"
    then have "param \<in> {q. \<exists>k\<in>fst ` set (map_entries encoder_str_arg_keys (snd (InitVideoEncodersWithArgs cv args))). split_key k = (codec, q)}"
      using ps(2) by (rule rev_subsetD)
    then obtain k x where k: "(k, x) \<in> set (map_entries encoder_str_arg_keys (snd (InitVideoEncodersWithArgs cv args)))" "split_key k = (codec, param)"
      by auto
    have "k \<in> set encoder_str_arg_keys" using k(1) by (simp add: in_map_entries)
    from str_params_apart [OF key this] show False using k(2) assms(3) by simp
  qed
  moreover have "map_of (rev ?own) param = Some (Pv_int (uint v))"
    using own_param [OF key assms(3), of ?m v] number_collected [OF assms(2), of cv args] assms(4) by (intro map_of_only) auto
  ultimately have "map_of (rev ((rs @ ?own) @ ps)) param = Some (Pv_int (uint v))" by (simp add: map_add_def map_of_eq_None_iff [THEN iffD2])
  then show ?thesis using ps(1) by simp
qed

theorem encoder_parameters_arrive_witness:
  "\<exists>ends p' e. build_video_encoder demo_gst ''vaapih264enc'' (Some 500)
        (fst (InitVideoEncodersWithArgs std_conv [''vaapih264enc.rate-control'' \<mapsto> ''4'']))
        (snd (InitVideoEncodersWithArgs std_conv [''vaapih264enc.rate-control'' \<mapsto> ''4''])) 0 pipeline0 = Some (ends, p')
     \<and> GetElementByName (VIDEO_CODEC_NAME_1U 0) p' = Some e \<and> map_of (rev (el_props e)) ''rate-control'' = Some (Pv_int 4)"
proof -
  let ?args = "[''vaapih264enc.rate-control'' \<mapsto> ''4'']"
  have "map_entries encoder_str_arg_keys (snd (InitVideoEncodersWithArgs std_conv ?args)) = []"
    by (simp add: map_entries_def List.map_filter_simps encoder_str_arg_keys_def InitVideoEncodersWithArgs_def Let_def collected_fold ArgsGetValue_def)
  then obtain ends p' where b: "build_video_encoder demo_gst ''vaapih264enc'' (Some 500) (fst (InitVideoEncodersWithArgs std_conv ?args))
      (snd (InitVideoEncodersWithArgs std_conv ?args)) 0 pipeline0 = Some (ends, p')"
    by (simp add: build_video_encoder_def make_video_encoder_def video_encoders_def make_element_def ElementAdd_def pipeline0_def pl_names_def
        demo_gst_def set_video_bitrate_def Let_def)
  have k: "''vaapih264enc.rate-control'' \<in> set encoder_args_first \<union> set encoder_args_rest"
    "split_key ''vaapih264enc.rate-control'' = (''vaapih264enc'', ''rate-control'')"
    "ArgsGetValue (cv_u32 std_conv) ?args ''vaapih264enc.rate-control'' = Some 4"
    by (simp_all add: encoder_args_rest_def split_key_def ArgsGetValue_def std_conv_def std_u_def read_dec_def is_digit_def digit_val_def)
  show ?thesis using encoder_parameters_arrive [OF b k] b by auto
qed

end
