(* ===== verification/StreamObjects.thy ===== *)
theory StreamObjects
  imports ElementObjects PlaylistStreams Mosaics
begin

text \<open>
  The remaining duties of the stream classes (\<open>streams/mosaic_stream\<close>, \<open>streams/relay/playlist_relay_stream\<close>,
  \<open>streams/encoding/playlist_encoding_stream\<close>, \<open>streams/encoding/fake_stream\<close>): which signals of which elements they
  listen to, the file that a playlist leaves open, and the stream that only tries its inputs.
\<close>

section \<open>Connecting a table of handlers\<close>

definition connect_table ::
  "bool \<Rightarrow> (string \<Rightarrow> signal_id) \<Rightarrow> (string \<times> 'c) list \<Rightarrow> 'c signal_state outcome \<Rightarrow> 'c signal_state outcome" where
  "connect_table dbg new_id table r =
     foldl (\<lambda>r (n, cb). checked_registration dbg (RegisterCallback (new_id n) n cb) r) r table"

definition signals0 :: "'c signal_state" where
  "signals0 = \<lparr>ss_signals = [], ss_connected = []\<rparr>"

lemma connect_table_accepted:
  assumes "\<forall>n. new_id n \<noteq> 0"
  shows "connect_table dbg new_id table (Ret \<lparr>ss_signals = ids, ss_connected = hs\<rparr>) =
     Ret \<lparr>ss_signals = ids @ map (new_id \<circ> fst) table, ss_connected = hs @ map (\<lambda>(n, cb). (new_id n, n, cb)) table\<rparr>"
proof (induction table arbitrary: ids hs)
  case (Cons x table)
  obtain n cb where x: "x = (n, cb)" by (cases x)
  have "checked_registration dbg (RegisterCallback (new_id n) n cb) (Ret \<lparr>ss_signals = ids, ss_connected = hs\<rparr>)
      = Ret \<lparr>ss_signals = ids @ [new_id n], ss_connected = hs @ [(new_id n, n, cb)]\<rparr>"
    using assms by (simp add: checked_registration_def RegisterCallback_def)
  then show ?case using Cons.IH [of "ids @ [new_id n]" "hs @ [(new_id n, n, cb)]"] by (simp add: connect_table_def x)
qed (simp add: connect_table_def)

text \<open>
  A table of handlers that the library accepts: each signal calls the handlers registered for it, in order, and
  none of them once the element object is destroyed.
\<close>

lemma connect_table_delivers:
  assumes "\<forall>n. new_id n \<noteq> 0" "connect_table dbg new_id table (Ret signals0) = Ret s"
  shows "emitted n s = map snd (filter (\<lambda>(m, cb). m = n) table)" "emitted n (Element_delete s) = []"
proof -
  have s: "s = \<lparr>ss_signals = map (new_id \<circ> fst) table, ss_connected = map (\<lambda>(n, cb). (new_id n, n, cb)) table\<rparr>"
    using assms(2) connect_table_accepted [OF assms(1), of dbg table "[]" "[]"] by (simp add: signals0_def)
  show "emitted n s = map snd (filter (\<lambda>(m, cb). m = n) table)" by (simp add: s emitted_def filter_map comp_def split_def)
  have "signals_known s" by (simp add: s signals_known_def split_def comp_def)
  then show "emitted n (Element_delete s) = []" by (simp add: emitted_def Element_delete_disconnects)
qed

text \<open>A library that refuses a handler ends a debug build.\<close>

lemma connect_table_refused: "(n, cb) \<in> set table \<Longrightarrow> new_id n = 0 \<Longrightarrow> connect_table True new_id table r = Abort"
proof (induction table arbitrary: r)
  case (Cons x table)
  have abort: "connect_table True new_id table Abort = Abort" for table :: "(string \<times> 'a) list"
    by (induction table) (auto simp: connect_table_def checked_registration_def)
  have step: "connect_table True new_id (x # table) r =
      connect_table True new_id table (checked_registration True (RegisterCallback (new_id (fst x)) (fst x) (snd x)) r)"
    by (simp add: connect_table_def split_def)
  show ?case
  proof (cases "x = (n, cb)")
    case True
    then have "checked_registration True (RegisterCallback (new_id (fst x)) (fst x) (snd x)) r = Abort"
      using Cons.prems(2) by (cases r) (simp_all add: checked_registration_def RegisterCallback_def)
    then show ?thesis by (simp add: step abort)
  next
    case False
    then show ?thesis using Cons by (simp add: step)
  qed
qed simp

section \<open>Mosaics\<close>

datatype mosaic_callback = mosaic_pad_added_callback | mosaic_autoplugger_callback | mosaic_autoplug_sort_callback
  | mosaic_element_added_callback | mosaic_cairo_draw_callback

definition Mosaic_ConnectDecodebinSignals ::
  "bool \<Rightarrow> (string \<Rightarrow> signal_id) \<Rightarrow> mosaic_callback signal_state \<Rightarrow> mosaic_callback signal_state outcome" where
  "Mosaic_ConnectDecodebinSignals dbg new_id s =
     (let s1 = checked_registration dbg (RegisterPadAddedCallback (new_id ''pad-added'') mosaic_pad_added_callback) (Ret s);
          s2 = checked_registration dbg (RegisterAutoplugContinue (new_id ''autoplug-continue'') mosaic_autoplugger_callback) s1;
          s3 = checked_registration dbg (RegisterAutoplugSort (new_id ''autoplug-sort'') mosaic_autoplug_sort_callback) s2
      in checked_registration dbg (RegisterElementAdded (new_id ''element-added'') mosaic_element_added_callback) s3)"

definition RegisterDrawCallback :: "signal_id \<Rightarrow> 'c \<Rightarrow> 'c signal_state \<Rightarrow> bool \<times> 'c signal_state" where
  "RegisterDrawCallback n cb = RegisterCallback n ''draw'' cb"

definition ConnectCairoSignals ::
  "bool \<Rightarrow> (string \<Rightarrow> signal_id) \<Rightarrow> MosaicImageOptions \<Rightarrow> 'd mosaic_stream \<Rightarrow> mosaic_callback signal_state
     \<Rightarrow> ('d mosaic_stream \<times> mosaic_callback signal_state) outcome" where
  "ConnectCairoSignals dbg new_id opts s cairo =
     (case checked_registration dbg (RegisterDrawCallback (new_id ''draw'') mosaic_cairo_draw_callback) (Ret cairo) of
        Abort \<Rightarrow> Abort | Ret cairo \<Rightarrow> Ret (OnCairoCreated opts s, cairo))"

definition Mosaic_OnInpudSrcPadCreated :: "(Probe \<Rightarrow> Probe) \<Rightarrow> scheme \<Rightarrow> element_id_t \<Rightarrow> 'd base_stream \<Rightarrow> 'd base_stream" where
  "Mosaic_OnInpudSrcPadCreated link sch i s = LinkInputPad link i s"

definition Mosaic_OnOutputSinkPadCreated :: "(Probe \<Rightarrow> Probe) \<Rightarrow> scheme \<Rightarrow> element_id_t \<Rightarrow> 'd base_stream \<Rightarrow> 'd base_stream" where
  "Mosaic_OnOutputSinkPadCreated link sch i s = LinkOutputPad link i s"

text \<open>The sorting of factories is left to the library.\<close>

definition Mosaic_HandleAutoplugSort :: "'f list \<Rightarrow> 'f list option" where
  "Mosaic_HandleAutoplugSort factories = None"

definition Encoding_HandleAutoplugSort :: "'f list \<Rightarrow> 'f list option" where
  "Encoding_HandleAutoplugSort factories = None"

definition mosaic_table :: "(string \<times> mosaic_callback) list" where
  "mosaic_table = [(''pad-added'', mosaic_pad_added_callback), (''autoplug-continue'', mosaic_autoplugger_callback),
     (''autoplug-sort'', mosaic_autoplug_sort_callback), (''element-added'', mosaic_element_added_callback)]"

lemma mosaic_connects_table: "Mosaic_ConnectDecodebinSignals dbg new_id s = connect_table dbg new_id mosaic_table (Ret s)"
  by (simp add: Mosaic_ConnectDecodebinSignals_def connect_table_def mosaic_table_def registrations)

text \<open>
  A mosaic hears of the pads of every decoder, may steer its choice, and draws into every frame of the overlay;
  unlike a stream with one decoder it does not select factories and is not told of removed elements. Nothing
  reaches it from an element that was destroyed.
\<close>

theorem mosaic_signals_delivered:
  assumes "\<forall>n. new_id n \<noteq> 0"
  shows "\<exists>s. Mosaic_ConnectDecodebinSignals dbg new_id signals0 = Ret s
    \<and> emitted ''pad-added'' s = [mosaic_pad_added_callback] \<and> emitted ''autoplug-continue'' s = [mosaic_autoplugger_callback]
    \<and> emitted ''autoplug-select'' s = [] \<and> emitted ''element-removed'' s = [] \<and> (\<forall>n. emitted n (Element_delete s) = [])"
    "\<exists>cairo. ConnectCairoSignals dbg new_id opts m signals0 = Ret (OnCairoCreated opts m, cairo)
    \<and> emitted ''draw'' cairo = [mosaic_cairo_draw_callback] \<and> (\<forall>n. emitted n (Element_delete cairo) = [])"
proof -
  obtain s where s: "connect_table dbg new_id mosaic_table (Ret signals0) = Ret s"
    unfolding signals0_def connect_table_accepted [OF assms] by blast
  note d = connect_table_delivers [OF assms s]
  show "\<exists>s. Mosaic_ConnectDecodebinSignals dbg new_id signals0 = Ret s
    \<and> emitted ''pad-added'' s = [mosaic_pad_added_callback] \<and> emitted ''autoplug-continue'' s = [mosaic_autoplugger_callback]
    \<and> emitted ''autoplug-select'' s = [] \<and> emitted ''element-removed'' s = [] \<and> (\<forall>n. emitted n (Element_delete s) = [])"
    using s by (intro exI [of _ s]) (simp add: mosaic_connects_table d, simp add: mosaic_table_def)
  obtain c where c: "connect_table dbg new_id [(''draw'', mosaic_cairo_draw_callback)] (Ret signals0) = Ret c"
    unfolding signals0_def connect_table_accepted [OF assms] by blast
  then have "ConnectCairoSignals dbg new_id opts m signals0 = Ret (OnCairoCreated opts m, c)"
    by (simp add: ConnectCairoSignals_def connect_table_def RegisterDrawCallback_def)
  then show "\<exists>cairo. ConnectCairoSignals dbg new_id opts m signals0 = Ret (OnCairoCreated opts m, cairo)
    \<and> emitted ''draw'' cairo = [mosaic_cairo_draw_callback] \<and> (\<forall>n. emitted n (Element_delete cairo) = [])"
    using connect_table_delivers [OF assms c] by (intro exI [of _ c]) simp
qed

section \<open>Playlists\<close>

datatype playlist_callback = need_data_callback

definition RegisterNeedDataCallback :: "signal_id \<Rightarrow> 'c \<Rightarrow> 'c signal_state \<Rightarrow> bool \<times> 'c signal_state" where
  "RegisterNeedDataCallback n cb = RegisterCallback n ''need-data'' cb"

definition PlaylistRelay_OnAppSrcCreated :: "bool \<Rightarrow> signal_id \<Rightarrow> playlist_callback signal_state \<Rightarrow> playlist_callback signal_state outcome" where
  "PlaylistRelay_OnAppSrcCreated dbg n s = checked_registration dbg (RegisterNeedDataCallback n need_data_callback) (Ret s)"

definition PlaylistEncoding_OnAppSrcCreated :: "bool \<Rightarrow> signal_id \<Rightarrow> playlist_callback signal_state \<Rightarrow> playlist_callback signal_state outcome" where
  "PlaylistEncoding_OnAppSrcCreated dbg n s = checked_registration dbg (RegisterNeedDataCallback n need_data_callback) (Ret s)"

text \<open>The destructors close the file that is still open.\<close>

definition PlaylistRelay_delete :: "'u playlist_stream \<Rightarrow> 'u playlist_stream" where
  "PlaylistRelay_delete s = (if ps_current_file s \<noteq> None then s\<lparr>ps_current_file := None\<rparr> else s)"

definition PlaylistEncoding_delete :: "'u playlist_stream \<Rightarrow> 'u playlist_stream" where
  "PlaylistEncoding_delete s = (if ps_current_file s \<noteq> None then s\<lparr>ps_current_file := None\<rparr> else s)"

lemma playlist_hears_source:
  "PlaylistRelay_OnAppSrcCreated dbg (Suc n) signals0 = Ret s \<Longrightarrow>
     emitted ''need-data'' s = [need_data_callback] \<and> emitted m (Element_delete s) = [] \<and> ps_current_file (PlaylistRelay_delete p) = None"
  using connect_table_delivers [of "\<lambda>_. Suc n" dbg "[(''need-data'', need_data_callback)]" s]
  by (simp add: PlaylistRelay_OnAppSrcCreated_def connect_table_def RegisterNeedDataCallback_def PlaylistRelay_delete_def)

section \<open>The stream that only tries its inputs\<close>

definition Fake_HandleMainTimerTick :: "'d base_stream \<Rightarrow> 'd base_stream outcome" where
  "Fake_HandleMainTimerTick s = Ret s"

text \<open>\<open>error_code\<close> is the code of an error message; 4 is that of a missing file.\<close>

definition Fake_HandleAsyncBusMessageReceived ::
  "timestamp_t \<Rightarrow> int option \<Rightarrow> async_message \<Rightarrow> 'd base_stream \<Rightarrow> 'd base_stream outcome" where
  "Fake_HandleAsyncBusMessageReceived now error_code message s =
     HandleAsyncBusMessageReceived now message (if error_code = Some 4 then Quit EXIT_INNER s else s)"

text \<open>Its timer never ends it, and a missing file ends its loop with an inner error.\<close>

lemma fake_ends_on_missing_file:
  "loop_running s \<Longrightarrow> Fake_HandleAsyncBusMessageReceived now (Some 4) MSG_OTHER s = Ret s' \<Longrightarrow> \<not> loop_running s' \<and> last_exit_status s' = EXIT_INNER"
  "Fake_HandleMainTimerTick s = Ret s"
  by (auto simp: Fake_HandleAsyncBusMessageReceived_def Fake_HandleMainTimerTick_def HandleAsyncBusMessageReceived_def async_effect_def
      Quit_def HandleSyncBusMessageReceived_def call_def)

end
