(* ===== verification/Spec2Isabelle.thy ===== *)
theory Spec2Isabelle
  imports Prelude Chunks M3u8 SysUtils Timeshift JsonApi Stats Probes BaseStream Protocol Controller
    Users Subscribers Uris Options ServiceInfo HttpHandlers StreamLaunch Daemon DaemonSpec Configs StreamTypes
    Elements Pipelines PipelineSpec PipelineBuild PipelineEncode PipelineProps StreamSignals PlaylistStreams Mosaics
    ServiceProgram StreamProcess Recorders
    GpuStats ElementObjects ServerLoops ChildProcess StreamLoop StreamLife EncoderParams
    StreamObjects
begin

text \<open>
  A verification development of the media service under \<open>src/src\<close>.

  \<^bold>\<open>The program.\<close> A service process (\<open>server/\<close>) accepts operators over a line protocol, starts one child
  process per stream, forwards their statistics, and runs three more servers: two file servers for
  live segments and recorded videos, and one for subscribers. A child process loads the stream library
  (\<open>stream/\<close>): a controller runs and restarts one stream object, a stream object owns a pipeline of
  the multimedia library that a builder assembled from its configuration, and a timer watches the byte
  counters of its inputs and outputs. Both sides share \<open>base/\<close> (descriptions, commands, option names),
  \<open>stream_commands_info/\<close> (the statistics message) and \<open>utils/\<close> (files, playlists, machine readings).

  \<^bold>\<open>Conventions.\<close> A struct is a record, an enumeration a datatype, an operation a function on explicit
  state. \<open>size_t\<close> and \<open>uint64_t\<close> are 64-bit words where they can wrap and natural numbers where they count
  elements; \<open>time_t\<close> and \<open>int\<close> are integers, with \<open>checked_i32\<close> and \<open>checked_i64\<close> where an overflow would be
  undefined. \<open>common::Error\<close> results are sums or options. What ends the process or is undefined (a failed
  \<open>CHECK\<close>, \<open>NOTREACHED\<close>, a null dereference, a wrong \<open>static_cast\<close>) is \<open>Abort\<close>, or \<open>None\<close> in the theories of
  pipelines. Code outside \<open>src/\<close> is an argument: the JSON library (\<open>json\<close> with \<open>json_laws\<close>), URLs
  (\<open>url_api\<close>), number conversion (\<open>conv\<close>), floating point (\<open>fp\<close>), the file system, sockets and processes
  (\<open>env\<close>, \<open>http_env\<close>), the multimedia library (\<open>gst_env\<close>). Virtual functions are records of functions, and
  the contract of such a class is a locale interpreted on the classes of the program.

  \<^bold>\<open>Theories and sources.\<close>
  \<^item> \<open>Prelude\<close>: machine integers, errors, doubles, the \<open>outcome\<close> of a computation, shared list lemmas.
  \<^item> \<open>Chunks\<close>, \<open>M3u8\<close>, \<open>SysUtils\<close>: \<open>utils/chunk_info\<close>, \<open>utils/arg_reader\<close>, \<open>utils/arg_converter\<close>,
    \<open>utils/m3u8_reader\<close>, \<open>utils/m3u8_writer\<close>, \<open>utils/utils\<close>. The playlist reader is modelled with the file
    position it moves back. Bytes from 0x80 on, which \<open>isspace\<close> does not accept as a signed character, and durations
    beyond 64-bit nanoseconds are undefined there; the theorems say that every other content is read to an end,
    that what the writer leaves is read back, and which playlists are refused. Of the arithmetic of doubles only
    printing with two decimals, reading and scaling are arguments (\<open>fp\<close>); the cast to nanoseconds is defined.
  \<^item> \<open>Timeshift\<close>: \<open>stream/timeshift\<close> and the recorder and catch-up streams: numbering of chunks, search of
    the chunk to play, the playlist of a catch-up, which keeps names and indices and rounds durations.
  \<^item> \<open>JsonApi\<close>, \<open>Stats\<close>, \<open>Protocol\<close>, \<open>Users\<close>, \<open>Uris\<close>, \<open>ServiceInfo\<close>: messages and records with their JSON forms
    (\<open>base/channel_stats\<close>, \<open>base/stream_struct\<close>, \<open>base/input_uri\<close>, \<open>base/output_uri\<close>, \<open>base/inputs_outputs\<close>,
    \<open>stream_commands_info\<close>, \<open>base/stream_commands\<close>, \<open>server/daemon/commands\<close>, \<open>server/daemon/commands_info\<close>,
    \<open>server/subscribers/commands_info\<close>). Locale \<open>serializer\<close> states the round trip once.
  \<^item> \<open>Probes\<close>, \<open>BaseStream\<close>: \<open>stream/probes\<close>, \<open>stream/ibase_stream\<close>: byte counting, the watchdog of the main
    timer, bus messages and the exit status of a run.
  \<^item> \<open>Controller\<close>: \<open>stream/stream_controller\<close> as a step relation that interleaves the worker with commands
    and timers. Its phases are the check of the stop flag, the search of a timeshift player for a chunk and the wait
    after it, the start of a run, the run, and the wait after a run with the window before it, in which a
    notification is lost. It shows bounds of the restart policy, freezing, the effect of a stop. \<open>StreamLoop\<close> adds the event loop of the
    process, to which the worker posts its reports: they are written in order, and what a stream does when
    its service is gone. \<open>StreamLife\<close> follows one stream object from its construction to its destructor.
  \<^item> \<open>Subscribers\<close>: \<open>server/subscribers/handler\<close>, \<open>server/base/iserver_handler\<close>: who is registered and who
    learns what; entries of deleted clients are undefined to use. \<open>HttpHandlers\<close>: \<open>server/http/handler\<close>,
    \<open>server/vods/handler\<close>: what each request of a client is answered. \<open>ServerLoops\<close>: the connections of these
    servers (\<open>server/*/server\<close>); locale \<open>counting_handler\<close> is the contract of their common base class, and the
    counters that the service reports are those of open connections.
  \<^item> \<open>Options\<close>, \<open>Configs\<close>: \<open>server/options\<close>, \<open>base/gst_constants\<close>, \<open>stream/configs_factory\<close>,
    \<open>stream/streams/configs\<close>, \<open>stream/streams_factory\<close>: validation of options, the configuration object made
    of them and the stream class chosen for it.
  \<^item> \<open>StreamLaunch\<close>, \<open>Daemon\<close>, \<open>DaemonSpec\<close>: \<open>server/process_slave_wrapper\<close>, \<open>server/child_stream\<close>. \<open>Daemon\<close> has one
    function per request handler, timer and callback; the results of \<open>mmap\<close>, of the pipes and of \<open>fork\<close> are fields
    of the environment \<open>env\<close>, a failed \<open>mmap\<close>, which the code takes for memory, is undefined. \<open>DaemonSpec\<close> proves that every event of the loop is a
    step of an abstract service that knows only the names of streams and the verified operators, the
    invariants of its registers, who receives which message, and exact results of starting a stream and of a
    synchronisation. \<open>ChildProcess\<close>: \<open>server/pipe/pipe_client\<close> and the
    start of a stream process with its pipes and its name, over the descriptors of POSIX: no byte is lost
    between the service and a stream, and who sees the end of whom.
  \<^item> \<open>StreamTypes\<close>, \<open>Elements\<close>, \<open>Pipelines\<close>: \<open>stream/stypes\<close>, \<open>stream/elements\<close>, \<open>stream/ibase_builder\<close>,
    \<open>stream/streams/builders\<close>: a pipeline is the list of its elements with the properties set on them, its
    links and what the builder told its observer; a builder is the record of its five stages.
    An element of a used name and a link of an element that is not in the pipeline are refused by the multimedia
    library and end the construction; \<open>PipelineSpec\<close> shows with locale \<open>gst_builder\<close> that every stage of every builder
    extends the pipeline before it. \<open>PipelineBuild\<close> and \<open>PipelineEncode\<close> compute, stage by stage, when the stages of
    relays and encodings succeed and where the data of a channel arrive; \<open>PipelineProps\<close> holds the resulting
    properties, exact sets of the configurations that get a pipeline, and the same for timeshift recorders and
    players, which \<open>Recorders\<close> completes with what the recorder does with its sink.
    \<open>EncoderParams\<close> follows a parameter of an encoder from the options to the element.
  \<^item> \<open>StreamSignals\<close>, \<open>ElementObjects\<close>, \<open>PlaylistStreams\<close>, \<open>Mosaics\<close>, \<open>Recorders\<close>, \<open>StreamObjects\<close>: the stream classes
    (\<open>stream/streams\<close>) and what they do while they play: the pads of a decoder and the factories it may use,
    signal handlers that die with their element, the files of a playlist handed to the pipeline in pieces,
    pictures and sound meters of a mosaic, the pads of the sink that splits a recording. The theorems
    compose with the builders: a relay whose pipeline was built links the first pad of each kind, the meters
    of a mosaic lie inside the pictures that its builder laid out and show the last levels of the messages, which
    are followed in a trace of reports.
  \<^item> \<open>StreamProcess\<close>: \<open>stream/stream_wrapper\<close>, construction and destruction of the controller, pipeline dumps:
    how the process of a stream ends, on top of \<open>Controller\<close> and \<open>Pipelines\<close>.
  \<^item> \<open>ServiceProgram\<close>, \<open>GpuStats\<close>: \<open>server/daemon_slave\<close>, \<open>server/config\<close>, construction and \<open>Exec\<close> of the service, and
    \<open>server/gpu_stats\<close>: the configuration file, the pid file and the licence, the threads of the four servers,
    and the thread that reads the graphics card. Locale \<open>perf_monitor\<close> is the contract of the two monitors:
    after \<open>Stop\<close> the thread ends within two steps, so that the join at the end of \<open>Exec\<close> returns.

  \<^bold>\<open>Termination.\<close> Loops over data are structural. The loops of the playlist reader and of the directory
  scans are functions with termination proofs. A request for data of a repeated playlist may not return, so
  it is a partial function into options, with the theorem that says when it returns. The restart loop and
  the threads are step relations. Nothing is bounded by fuel.

  \<^bold>\<open>Not modelled.\<close> The event loop, the sockets and the framing of messages belong to libraries; the classes
  under \<open>server/*/server\<close> and \<open>server/*/client\<close> bind the handlers to them. Setters of elements that no maker calls,
  setters and getters of records, the enumeration of element classes (an element is named by its plugin),
  callbacks with an empty body and static functions that forward a callback to a method have no definition
  of their own.
  \<open>server/subscribers/rpc/user_request_info\<close> and \<open>user_response_info\<close> are in no list of the build.
\<close>

end
